(* ===== verification/PyBase.thy ===== *)
theory PyBase
  imports Complex_Main "HOL-Library.Char_ord" "HOL-Library.List_Lexorder" "HOL-Library.AList"
begin

text \<open>
  The prelude: the part of Python that the modelled modules use.  Exceptions are the left
  summand of a result, threaded by \<open>rbind\<close>; a JSON document is a value of \<open>pyval\<close>, an object
  an association list in insertion order; a string is the list of its UTF-8 bytes, so that the
  order of strings is the code-point order Python sorts by and every non-ASCII literal of the
  program is kept exactly (\<open>utf8\<close> encodes its code points).  A float is the rational it denotes;
  \<open>round_double\<close> rounds a product or a quotient as the interpreter does where a module computes a
  percentage, and the sums of weights of the document conventions are exact, which is the one
  place where the model idealises the arithmetic of the interpreter.  The theory ends with the generic facts on results, keys and sorted sets
  that the component theories share.
\<close>

named_theorems result_simps \<open>inversion of successful results\<close>

section \<open>Exceptions and results\<close>

datatype exn =
    ValueError string
  | RuntimeError string
  | TypeError string
  | AttributeError string
  | KeyError string
  | IndexError string
  | ZeroDivisionError string
  | OverflowError string
  | PersistenceConflictError string
  | IntegrityError string

type_synonym 'a result = "exn + 'a"

definition rbind :: "'a result \<Rightarrow> ('a \<Rightarrow> 'b result) \<Rightarrow> 'b result" where
  "rbind m f = (case m of Inl e \<Rightarrow> Inl e | Inr x \<Rightarrow> f x)"

lemma rbind_Inr [simp]: "rbind (Inr x) f = f x"
  and rbind_Inl [simp]: "rbind (Inl e) f = Inl e"
  by (simp_all add: rbind_def)

lemma rbind_eq_Inr [result_simps]: "rbind m f = Inr y \<longleftrightarrow> (\<exists>x. m = Inr x \<and> f x = Inr y)"
  by (cases m) auto

lemma rbind_eq_Inl: "rbind m f = Inl e \<longleftrightarrow> m = Inl e \<or> (\<exists>x. m = Inr x \<and> f x = Inl e)"
  by (cases m) auto

lemma if_raise_eq_Inr [result_simps]:
  "(if c then Inl e else m) = Inr y \<longleftrightarrow> \<not> c \<and> m = Inr y"
  by simp

lemma rbind_assoc: "rbind (rbind m f) g = rbind m (\<lambda>x. rbind (f x) g)"
  by (cases m) auto

text \<open>A comprehension whose element expression may raise, and a loop over a list that may.\<close>

fun mapM :: "('a \<Rightarrow> 'b result) \<Rightarrow> 'a list \<Rightarrow> 'b list result" where
  "mapM f [] = Inr []"
| "mapM f (x # xs) = rbind (f x) (\<lambda>y. rbind (mapM f xs) (\<lambda>ys. Inr (y # ys)))"

fun foldM :: "('s \<Rightarrow> 'a \<Rightarrow> 's result) \<Rightarrow> 's \<Rightarrow> 'a list \<Rightarrow> 's result" where
  "foldM f s [] = Inr s"
| "foldM f s (x # xs) = rbind (f s x) (\<lambda>s'. foldM f s' xs)"

lemma mapM_eq_Inr: "mapM f xs = Inr ys \<longleftrightarrow> list_all2 (\<lambda>x y. f x = Inr y) xs ys"
  by (induction xs arbitrary: ys) (auto simp: result_simps list_all2_Cons1)

lemma mapM_Inr [simp]: "mapM (\<lambda>x. Inr (f x)) xs = Inr (map f xs)"
  by (induction xs) auto

lemma mapM_total: "(\<And>x. x \<in> set xs \<Longrightarrow> f x = Inr (g x)) \<Longrightarrow> mapM f xs = Inr (map g xs)"
  by (induction xs) auto

lemma mapM_length: "mapM f xs = Inr ys \<Longrightarrow> length ys = length xs"
  by (auto simp: mapM_eq_Inr list_all2_lengthD)

lemma mapM_set: "mapM f xs = Inr ys \<Longrightarrow> y \<in> set ys \<Longrightarrow> \<exists>x\<in>set xs. f x = Inr y"
  unfolding mapM_eq_Inr by (induction rule: list_all2_induct) auto

lemma mapM_mem: "mapM f xs = Inr ys \<Longrightarrow> x \<in> set xs \<Longrightarrow> \<exists>y\<in>set ys. f x = Inr y"
  by (induction xs arbitrary: ys) (auto simp: rbind_eq_Inr)

lemma mapM_raises: "mapM f xs = Inl e \<Longrightarrow> \<exists>x\<in>set xs. f x = Inl e"
  by (induction xs) (auto simp: rbind_eq_Inl)

lemma foldM_append: "foldM f s (xs @ ys) = rbind (foldM f s xs) (\<lambda>s'. foldM f s' ys)"
  by (induction xs arbitrary: s) (auto simp: rbind_assoc)

lemma foldM_Inr [simp]: "foldM (\<lambda>s x. Inr (f s x)) s xs = Inr (foldl f s xs)"
  by (induction xs arbitrary: s) auto

text \<open>The loop rule: an invariant of the iterations already made.\<close>

lemma foldM_invariant:
  assumes "foldM f s xs = Inr s'" and "P s"
    and "\<And>s x s'. P s \<Longrightarrow> x \<in> set xs \<Longrightarrow> f s x = Inr s' \<Longrightarrow> P s'"
  shows "P s'"
  using assms
proof (induction xs arbitrary: s)
  case Nil
  then show ?case by simp
next
  case (Cons x xs)
  from Cons.prems(1) obtain t where t: "f s x = Inr t" "foldM f t xs = Inr s'"
    by (auto simp: result_simps)
  from Cons.prems(2,3) t(1) have "P t" by (meson list.set_intros(1))
  with t(2) Cons.prems(3) show ?case
    by (intro Cons.IH [of t]) auto
qed

section \<open>Strings\<close>

text \<open>\<open>utf8\<close> gives the bytes of a list of code points.\<close>

definition utf8_char :: "nat \<Rightarrow> string" where
  "utf8_char n =
     (if n < 0x80 then [char_of n]
      else if n < 0x800 then [char_of (0xC0 + n div 0x40), char_of (0x80 + n mod 0x40)]
      else if n < 0x10000 then
        [char_of (0xE0 + n div 0x1000), char_of (0x80 + n div 0x40 mod 0x40),
         char_of (0x80 + n mod 0x40)]
      else
        [char_of (0xF0 + n div 0x40000), char_of (0x80 + n div 0x1000 mod 0x40),
         char_of (0x80 + n div 0x40 mod 0x40), char_of (0x80 + n mod 0x40)])"

definition utf8 :: "nat list \<Rightarrow> string" where
  "utf8 ns = concat (map utf8_char ns)"

definition utf8_continuation :: "char \<Rightarrow> bool" where
  "utf8_continuation c \<longleftrightarrow> 0x80 \<le> (of_char c :: nat) \<and> (of_char c :: nat) < 0xC0"

text \<open>The characters of a string, each with its continuation bytes: iteration over a string.\<close>

function utf8_chars :: "string \<Rightarrow> string list" where
  "utf8_chars [] = []"
| "utf8_chars (c # cs) =
     (c # takeWhile utf8_continuation cs) # utf8_chars (dropWhile utf8_continuation cs)"
  by pat_completeness auto
termination
  by (relation "measure length") (auto simp: length_dropWhile_le le_imp_less_Suc)

lemma concat_utf8_chars [simp]: "concat (utf8_chars s) = s"
  by (induction s rule: utf8_chars.induct) auto

definition py_len :: "string \<Rightarrow> nat" where
  "py_len s = length (utf8_chars s)"

text \<open>The characters \<open>str.strip()\<close> removes: \<open>str.isspace\<close> over the whole of Unicode (U+0009 to U+000D, U+001C to
  U+0020, U+0085, U+00A0, U+1680, U+2000 to U+200A, U+2028, U+2029, U+202F, U+205F, U+3000).\<close>

definition space_chars :: "string list" where
  "space_chars =
     [[CHR 0x09], [CHR 0x0A], [CHR 0x0B],
      [CHR 0x0C], [CHR 0x0D], [CHR 0x1C],
      [CHR 0x1D], [CHR 0x1E], [CHR 0x1F],
      [CHR 0x20], [CHR 0xC2, CHR 0x85], [CHR 0xC2, CHR 0xA0],
      [CHR 0xE1, CHR 0x9A, CHR 0x80], [CHR 0xE2, CHR 0x80, CHR 0x80], [CHR 0xE2, CHR 0x80, CHR 0x81],
      [CHR 0xE2, CHR 0x80, CHR 0x82], [CHR 0xE2, CHR 0x80, CHR 0x83], [CHR 0xE2, CHR 0x80, CHR 0x84],
      [CHR 0xE2, CHR 0x80, CHR 0x85], [CHR 0xE2, CHR 0x80, CHR 0x86], [CHR 0xE2, CHR 0x80, CHR 0x87],
      [CHR 0xE2, CHR 0x80, CHR 0x88], [CHR 0xE2, CHR 0x80, CHR 0x89], [CHR 0xE2, CHR 0x80, CHR 0x8A],
      [CHR 0xE2, CHR 0x80, CHR 0xA8], [CHR 0xE2, CHR 0x80, CHR 0xA9], [CHR 0xE2, CHR 0x80, CHR 0xAF],
      [CHR 0xE2, CHR 0x81, CHR 0x9F], [CHR 0xE3, CHR 0x80, CHR 0x80]]"

definition is_space_char :: "string \<Rightarrow> bool" where
  "is_space_char c \<longleftrightarrow> c \<in> set space_chars"

definition py_strip :: "string \<Rightarrow> string" where
  "py_strip s = concat (rev (dropWhile is_space_char
     (rev (dropWhile is_space_char (utf8_chars s)))))"

text \<open>\<open>not s.strip()\<close>.\<close>

definition blank :: "string \<Rightarrow> bool" where
  "blank s \<longleftrightarrow> py_strip s = []"

lemma blank_Nil [simp]: "blank []"
  by (simp add: blank_def py_strip_def)

lemma utf8_chars_nonempty: "c \<in> set (utf8_chars s) \<Longrightarrow> c \<noteq> []"
  by (induction s rule: utf8_chars.induct) auto

lemma concat_eq_Nil_nonempty: "[] \<notin> set xss \<Longrightarrow> concat xss = [] \<longleftrightarrow> xss = []"
  by (cases xss) auto

text \<open>A string is blank when each of its characters is white space.\<close>

lemma blank_iff: "blank s \<longleftrightarrow> (\<forall>c\<in>set (utf8_chars s). is_space_char c)"
proof -
  let ?u = "utf8_chars s"
  let ?d = "dropWhile is_space_char ?u"
  let ?e = "rev (dropWhile is_space_char (rev ?d))"
  have sub: "set ?e \<subseteq> set ?u"
    by (auto dest!: set_dropWhileD)
  have "py_strip s = [] \<longleftrightarrow> ?e = []"
    unfolding py_strip_def using sub utf8_chars_nonempty [of "[]" s]
    by (intro concat_eq_Nil_nonempty) blast
  also have "\<dots> \<longleftrightarrow> (\<forall>c\<in>set ?d. is_space_char c)"
    by (simp add: dropWhile_eq_Nil_conv)
  also have "\<dots> \<longleftrightarrow> ?d = []"
    using hd_dropWhile [of is_space_char ?u] hd_in_set [of ?d]
    by (metis empty_iff list.set(1))
  also have "\<dots> \<longleftrightarrow> (\<forall>c\<in>set ?u. is_space_char c)"
    by (simp add: dropWhile_eq_Nil_conv)
  finally show ?thesis by (simp add: blank_def)
qed

text \<open>A string that starts with a printable ASCII character is not blank.\<close>

lemma space_char_bytes:
  "list_all (\<lambda>x. x \<noteq> [] \<and> ((of_char (hd x) :: nat) < 33 \<or> 127 < (of_char (hd x) :: nat))) space_chars"
  by (simp add: space_chars_def)

lemma not_blank_ascii [simp]:
  assumes "33 \<le> (of_char c :: nat)" and "(of_char c :: nat) < 127"
  shows "\<not> blank (c # s)"
proof -
  have "\<not> is_space_char (c # takeWhile utf8_continuation s)"
    using space_char_bytes assms by (auto simp: is_space_char_def list_all_iff)
  then show ?thesis by (simp add: blank_iff)
qed

fun join :: "string \<Rightarrow> string list \<Rightarrow> string" where
  "join sep [] = []"
| "join sep [x] = x"
| "join sep (x # y # ys) = x @ sep @ join sep (y # ys)"

fun show_nat :: "nat \<Rightarrow> string" where
  "show_nat n =
     (if n < 10 then [char_of (48 + n)] else show_nat (n div 10) @ [char_of (48 + n mod 10)])"

declare show_nat.simps [simp del]

definition show_int :: "int \<Rightarrow> string" where
  "show_int i = (if i < 0 then ''-'' @ show_nat (nat (- i)) else show_nat (nat i))"

text \<open>\<open>f"{i:0nd}"\<close>.\<close>

definition zero_pad :: "nat \<Rightarrow> int \<Rightarrow> string" where
  "zero_pad n i = (let s = show_int i in replicate (n - length s) CHR ''0'' @ s)"

text \<open>ASCII lower case, what the code needs of \<open>str.lower\<close> for the tokens it compares.\<close>

definition lower_char :: "char \<Rightarrow> char" where
  "lower_char c =
     (if 65 \<le> (of_char c :: nat) \<and> (of_char c :: nat) \<le> 90 then char_of ((of_char c :: nat) + 32)
      else c)"

definition py_lower :: "string \<Rightarrow> string" where
  "py_lower = map lower_char"

definition starts_with :: "string \<Rightarrow> string \<Rightarrow> bool" where
  "starts_with p s \<longleftrightarrow> take (length p) s = p"

text \<open>\<open>sorted(set(xs))\<close> on strings, the set given by a list.\<close>

definition sorted_set :: "'a::linorder list \<Rightarrow> 'a list" where
  "sorted_set xs = sort (remdups xs)"

lemma set_sorted_set [simp]: "set (sorted_set xs) = set xs"
  and sorted_sorted_set [simp]: "sorted (sorted_set xs)"
  and distinct_sorted_set [simp]: "distinct (sorted_set xs)"
  by (simp_all add: sorted_set_def)

lemma sorted_set_cong: "set xs = set ys \<Longrightarrow> sorted_set xs = sorted_set ys"
  by (rule sorted_distinct_set_unique) auto

lemma sorted_set_Nil_iff [simp]: "sorted_set xs = [] \<longleftrightarrow> xs = []"
  by (metis set_empty set_sorted_set)

section \<open>Dynamic values\<close>

datatype pyval =
    PNone
  | PBool bool
  | PInt int
  | PFloat rat
  | PStr string
  | PList "pyval list"
  | PDict "(string \<times> pyval) list"

type_synonym pydict = "(string \<times> pyval) list"

text \<open>Truth value testing, and \<open>a or b\<close>.\<close>

fun truthy :: "pyval \<Rightarrow> bool" where
  "truthy PNone = False"
| "truthy (PBool b) = b"
| "truthy (PInt i) = (i \<noteq> 0)"
| "truthy (PFloat q) = (q \<noteq> 0)"
| "truthy (PStr s) = (s \<noteq> [])"
| "truthy (PList vs) = (vs \<noteq> [])"
| "truthy (PDict d) = (d \<noteq> [])"

definition py_or :: "pyval \<Rightarrow> pyval \<Rightarrow> pyval" where
  "py_or a b = (if truthy a then a else b)"

text \<open>
  Equality: \<open>True == 1 == 1.0\<close>, and two dicts are equal when they hold the same items in
  whatever order.  Both become equality of normal forms.
\<close>

fun py_norm :: "pyval \<Rightarrow> pyval" where
  "py_norm (PBool b) = PFloat (if b then 1 else 0)"
| "py_norm (PInt i) = PFloat (of_int i)"
| "py_norm (PList vs) = PList (map py_norm vs)"
| "py_norm (PDict d) = PDict (sort_key fst (map (\<lambda>(k, v). (k, py_norm v)) d))"
| "py_norm v = v"

definition py_eq :: "pyval \<Rightarrow> pyval \<Rightarrow> bool" where
  "py_eq v w \<longleftrightarrow> py_norm v = py_norm w"

lemma py_eq_refl [simp]: "py_eq v v"
  by (simp add: py_eq_def)

lemma py_eq_sym: "py_eq v w \<Longrightarrow> py_eq w v"
  by (simp add: py_eq_def)

lemma py_eq_trans: "py_eq u v \<Longrightarrow> py_eq v w \<Longrightarrow> py_eq u w"
  by (simp add: py_eq_def)

lemma py_eq_PStr [simp]: "py_eq v (PStr s) \<longleftrightarrow> v = PStr s"
  and py_eq_PStr' [simp]: "py_eq (PStr s) v \<longleftrightarrow> v = PStr s"
  and py_eq_PNone [simp]: "py_eq v PNone \<longleftrightarrow> v = PNone"
  by (cases v; auto simp: py_eq_def)+

subsection \<open>Text of a value\<close>

definition hex_digit :: "nat \<Rightarrow> char" where
  "hex_digit n = (if n < 10 then char_of (48 + n) else char_of (87 + n))"

definition repr_char :: "char \<Rightarrow> char \<Rightarrow> string" where
  "repr_char q c =
     (if c = q \<or> c = CHR 0x5C then [CHR 0x5C, c]
      else if c = CHR 0x0A then [CHR 0x5C, CHR ''n'']
      else if c = CHR 0x0D then [CHR 0x5C, CHR ''r'']
      else if c = CHR 0x09 then [CHR 0x5C, CHR ''t'']
      else if (of_char c :: nat) < 32 \<or> (of_char c :: nat) = 127 then
        [CHR 0x5C, CHR ''x'', hex_digit ((of_char c :: nat) div 16),
         hex_digit ((of_char c :: nat) mod 16)]
      else [c])"

definition repr_str :: "string \<Rightarrow> string" where
  "repr_str s =
     (let q = (if CHR 0x27 \<in> set s \<and> CHR 0x22 \<notin> set s then CHR 0x22 else CHR 0x27)
      in [q] @ concat (map (repr_char q) s) @ [q])"

text \<open>
  \<open>float(n)\<close> of an integer: the nearest double, ties to the even mantissa, and \<open>OverflowError\<close>
  from \<open>2 ^ 1024\<close> on.
\<close>

function bit_length :: "int \<Rightarrow> nat" where
  "bit_length n = (if n \<le> 0 then 0 else Suc (bit_length (n div 2)))"
  by pat_completeness auto
termination
  by (relation "measure nat") auto

declare bit_length.simps [simp del]

definition nearest_double :: "int \<Rightarrow> int" where
  "nearest_double n =
    (let unit = 2 ^ (bit_length n - 53); q = n div unit; r = n mod unit
     in (if unit < 2 * r \<or> (unit = 2 * r \<and> odd q) then q + 1 else q) * unit)"

definition int_to_float :: "int \<Rightarrow> rat result" where
  "int_to_float i =
    (if \<bar>i\<bar> < 2 ^ 53 then Inr (of_int i)
     else let m = nearest_double \<bar>i\<bar>
       in if m < 2 ^ 1024 then Inr (of_int (sgn i * m))
          else Inl (OverflowError ''int too large to convert to float''))"

lemma bit_length_bounds: "0 < n \<Longrightarrow> 2 ^ (bit_length n - 1) \<le> n \<and> n < 2 ^ bit_length n"
proof (induction n rule: bit_length.induct)
  case (1 n)
  show ?case
  proof (cases "n = 1")
    case True then show ?thesis by (simp add: bit_length.simps)
  next
    case False
    with 1 have pos: "0 < n div 2" and ih: "2 ^ (bit_length (n div 2) - 1) \<le> n div 2 \<and> n div 2 < 2 ^ bit_length (n div 2)"
      by auto
    have "bit_length n = Suc (bit_length (n div 2))" using 1(2) by (simp add: bit_length.simps)
    moreover obtain k where "bit_length (n div 2) = Suc k" using pos by (auto simp: bit_length.simps[of "n div 2"])
    ultimately show ?thesis using ih by auto
  qed
qed

text \<open>The double nearest to a rational, ties to the even mantissa, with the gradual underflow and without
  the overflow of the format: the result of \<open>*\<close> and \<open>/\<close> on floats.\<close>

definition round_half_even :: "rat \<Rightarrow> int" where
  "round_half_even q =
    (let m = \<lfloor>q\<rfloor>; r = q - of_int m in if 1 / 2 < r \<or> (r = 1 / 2 \<and> odd m) then m + 1 else m)"

definition floor_log2 :: "rat \<Rightarrow> int" where
  "floor_log2 q =
    (if 1 \<le> q then int (bit_length \<lfloor>q\<rfloor>) - 1 else - int (bit_length (\<lceil>1 / q\<rceil> - 1)))"

definition round_double :: "rat \<Rightarrow> rat" where
  "round_double q = (if q = 0 then 0
     else let unit = 2 powi max (floor_log2 \<bar>q\<bar> - 52) (- 1074)
       in of_int (round_half_even (q / unit)) * unit)"

lemma round_half_even_error: "\<bar>of_int (round_half_even q) - q\<bar> \<le> 1 / 2"
proof -
  have "0 \<le> q - of_int \<lfloor>q\<rfloor>" "q - of_int \<lfloor>q\<rfloor> < 1" by linarith+
  then show ?thesis by (auto simp: round_half_even_def Let_def abs_le_iff)
qed

text \<open>\<open>repr\<close> of a float: the shortest decimal digits that read back as the same double, the nearest of
  them, in positional notation when the point falls inside or near the digits.\<close>

definition decimal_exponent :: "rat \<Rightarrow> int" where
  "decimal_exponent q =
    (if 1 \<le> q then int (length (show_nat (nat \<lfloor>q\<rfloor>))) - 1
     else let n = nat (\<lceil>1 / q\<rceil> - 1) in if n = 0 then 0 else - int (length (show_nat n)))"

definition read_back :: "rat \<Rightarrow> int \<Rightarrow> nat \<Rightarrow> int option" where
  "read_back q e p =
    (let unit = 10 powi (e + 1 - int p); near = round_half_even (q / unit);
       far = (if q < of_int near * unit then near - 1 else near + 1)
     in find (\<lambda>d. round_double (of_int d * unit) = q) [near, far])"

fun shortest_digits :: "rat \<Rightarrow> int \<Rightarrow> nat \<Rightarrow> nat \<Rightarrow> int \<times> nat" where
  "shortest_digits q e p 0 = (round_half_even (q / 10 powi (e + 1 - int p)), p)"
| "shortest_digits q e p (Suc n) =
    (case read_back q e p of Some d \<Rightarrow> (d, p) | None \<Rightarrow> shortest_digits q e (Suc p) n)"

definition float_repr :: "rat \<Rightarrow> string" where
  "float_repr q = (if q = 0 then ''0.0'' else
    let e = decimal_exponent \<bar>q\<bar>; (d, p) = shortest_digits \<bar>q\<bar> e 1 16;
      point = e + 1 + int (length (show_nat (nat d))) - int p;
      ds = rev (dropWhile (\<lambda>c. c = CHR ''0'') (rev (show_nat (nat d))));
      text' = (if - 4 < point \<and> point \<le> 16 then
          (if point \<le> 0 then ''0.'' @ replicate (nat (- point)) (CHR ''0'') @ ds
           else if length ds \<le> nat point then
             ds @ replicate (nat point - length ds) (CHR ''0'') @ ''.0''
           else take (nat point) ds @ ''.'' @ drop (nat point) ds)
        else take 1 ds @ (if length ds = 1 then '''' else ''.'' @ drop 1 ds) @ ''e''
          @ (if point < 1 then ''-'' else ''+'')
          @ (if \<bar>point - 1\<bar> < 10 then ''0'' else '''') @ show_nat (nat \<bar>point - 1\<bar>))
    in (if q < 0 then ''-'' else '''') @ text')"

fun py_repr :: "pyval \<Rightarrow> string" where
  "py_repr PNone = ''None''"
| "py_repr (PBool b) = (if b then ''True'' else ''False'')"
| "py_repr (PInt i) = show_int i"
| "py_repr (PFloat q) = float_repr q"
| "py_repr (PStr s) = repr_str s"
| "py_repr (PList vs) = ''['' @ join '', '' (map py_repr vs) @ '']''"
| "py_repr (PDict d) =
     ''{'' @ join '', '' (map (\<lambda>(k, v). repr_str k @ '': '' @ py_repr v) d) @ ''}''"

text \<open>\<open>str(v)\<close>.\<close>

definition py_str :: "pyval \<Rightarrow> string" where
  "py_str v = (case v of PStr s \<Rightarrow> s | _ \<Rightarrow> py_repr v)"

lemma py_str_PStr [simp]: "py_str (PStr s) = s"
  by (simp add: py_str_def)

subsection \<open>Objects\<close>

text \<open>\<open>d.get(k)\<close> and \<open>d.get(k, default)\<close> on a dict.\<close>

definition dget :: "pydict \<Rightarrow> string \<Rightarrow> pyval" where
  "dget d k = (case map_of d k of None \<Rightarrow> PNone | Some v \<Rightarrow> v)"

definition dget_or :: "pydict \<Rightarrow> string \<Rightarrow> pyval \<Rightarrow> pyval" where
  "dget_or d k v = (case map_of d k of None \<Rightarrow> v | Some w \<Rightarrow> w)"

text \<open>\<open>d[k]\<close>.\<close>

definition dindex :: "pydict \<Rightarrow> string \<Rightarrow> pyval result" where
  "dindex d k = (case map_of d k of None \<Rightarrow> Inl (KeyError k) | Some v \<Rightarrow> Inr v)"

lemma dget_Nil [simp]: "dget [] k = PNone"
  and dget_Cons [simp]: "dget ((j, v) # d) k = (if j = k then v else dget d k)"
  by (simp_all add: dget_def)

lemma dget_or_Nil [simp]: "dget_or [] k v = v"
  and dget_or_Cons [simp]: "dget_or ((j, w) # d) k v = (if j = k then w else dget_or d k v)"
  by (simp_all add: dget_or_def)

text \<open>\<open>_dict(value)\<close>: the value when it is a dict, else the empty dict.\<close>

fun as_dict :: "pyval \<Rightarrow> pydict" where
  "as_dict (PDict d) = d"
| "as_dict v = []"

text \<open>\<open>x or {}\<close> for an optional dict.\<close>

definition opt_dict :: "pydict option \<Rightarrow> pydict" where
  "opt_dict o' = (case o' of None \<Rightarrow> [] | Some d \<Rightarrow> d)"

lemma opt_dict_simps [simp]: "opt_dict None = []" "opt_dict (Some d) = d"
  by (simp_all add: opt_dict_def)

text \<open>\<open>isinstance(v, int)\<close>: a bool is an int.\<close>

fun is_int :: "pyval \<Rightarrow> bool" where
  "is_int (PInt i) = True"
| "is_int (PBool b) = True"
| "is_int v = False"

fun is_str :: "pyval \<Rightarrow> bool" where
  "is_str (PStr s) = True"
| "is_str v = False"

fun is_dict :: "pyval \<Rightarrow> bool" where
  "is_dict (PDict d) = True"
| "is_dict v = False"

text \<open>
  Membership in a set of strings hashes the value first: a list or a dict raises
  \<open>TypeError\<close>.
\<close>

fun hashable :: "pyval \<Rightarrow> bool" where
  "hashable (PList vs) = False"
| "hashable (PDict d) = False"
| "hashable v = True"

definition in_set :: "pyval \<Rightarrow> string list \<Rightarrow> bool result" where
  "in_set v ss = (if hashable v then Inr (v \<in> set (map PStr ss))
                  else Inl (TypeError ''unhashable type''))"

lemma in_set_PStr [simp]: "in_set (PStr s) ss = Inr (s \<in> set ss)"
  by (auto simp: in_set_def)

lemma in_set_eq_Inr [result_simps]:
  "in_set v ss = Inr b \<longleftrightarrow> hashable v \<and> b = (v \<in> PStr ` set ss)"
  by (auto simp: in_set_def)

text \<open>\<open>value.get(k)\<close> and iteration on a value the code only casts.\<close>

fun py_get :: "pyval \<Rightarrow> string \<Rightarrow> pyval result" where
  "py_get (PDict d) k = Inr (dget d k)"
| "py_get v k = Inl (AttributeError ''get'')"

fun py_get_or :: "pyval \<Rightarrow> string \<Rightarrow> pyval \<Rightarrow> pyval result" where
  "py_get_or (PDict d) k w = Inr (dget_or d k w)"
| "py_get_or v k w = Inl (AttributeError ''get'')"

fun py_iter :: "pyval \<Rightarrow> pyval list result" where
  "py_iter (PList vs) = Inr vs"
| "py_iter (PDict d) = Inr (map (\<lambda>(k, v). PStr k) d)"
| "py_iter (PStr s) = Inr (map PStr (utf8_chars s))"
| "py_iter v = Inl (TypeError ''object is not iterable'')"

text \<open>\<open>_dict_list\<close> and \<open>_string_list\<close>: the dicts of a list, the non-blank texts of a list.\<close>

fun dict_list :: "pyval \<Rightarrow> pydict list" where
  "dict_list (PList vs) = map as_dict (filter is_dict vs)"
| "dict_list v = []"

fun string_list :: "pyval \<Rightarrow> string list" where
  "string_list (PList vs) = filter (\<lambda>s. \<not> blank s) (map py_str vs)"
| "string_list v = []"

abbreviation PStrs :: "string list \<Rightarrow> pyval" where
  "PStrs ss \<equiv> PList (map PStr ss)"

section \<open>Keys and indices\<close>

lemma find_appended: "find P xs = Some x \<Longrightarrow> find P (xs @ ys) = Some x"
  by (induction xs) (auto split: if_splits)

lemma find_fresh: "find P xs = None \<Longrightarrow> find P (xs @ ys) = find P ys"
  by (induction xs) (auto split: if_splits)

text \<open>The first index whose element satisfies a predicate: \<open>next(... enumerate ..., None)\<close>.\<close>

fun find_index :: "('a \<Rightarrow> bool) \<Rightarrow> 'a list \<Rightarrow> nat option" where
  "find_index P [] = None"
| "find_index P (x # xs) = (if P x then Some 0 else map_option Suc (find_index P xs))"

lemma find_index_None: "find_index P xs = None \<longleftrightarrow> (\<forall>x\<in>set xs. \<not> P x)"
  by (induction xs) auto

lemma find_index_Some:
  "find_index P xs = Some i \<longleftrightarrow> i < length xs \<and> P (xs ! i) \<and> (\<forall>j<i. \<not> P (xs ! j))"
proof (induction xs arbitrary: i)
  case Nil
  then show ?case by simp
next
  case (Cons x xs)
  show ?case
    by (cases i) (auto simp: Cons.IH nth_Cons' less_Suc_eq_0_disj split: if_splits)
qed

lemma map_of_map_key: "map_of (map (\<lambda>k. (k, f k)) ks) k = (if k \<in> set ks then Some (f k) else None)"
  by (induction ks) auto

fun py_index :: "pyval \<Rightarrow> string \<Rightarrow> pyval result" where
  "py_index (PDict d) k = dindex d k"
| "py_index (PList vs) k = Inl (TypeError ''list indices must be integers or slices'')"
| "py_index (PStr s) k = Inl (TypeError ''string indices must be integers'')"
| "py_index v k = Inl (TypeError ''object is not subscriptable'')"

section \<open>Numbers and text\<close>

text \<open>A text of ASCII digits and its value.\<close>

definition is_digits :: "string \<Rightarrow> bool" where
  "is_digits s \<longleftrightarrow> s \<noteq> [] \<and> list_all (\<lambda>c. 48 \<le> (of_char c :: nat) \<and> (of_char c :: nat) \<le> 57) s"

definition digits_value :: "string \<Rightarrow> nat" where
  "digits_value s = foldl (\<lambda>n c. 10 * n + ((of_char c :: nat) - 48)) 0 s"

text \<open>\<open>s.split(x)\<close> for one ASCII character.\<close>

fun split_on :: "char \<Rightarrow> string \<Rightarrow> string list" where
  "split_on x [] = [[]]"
| "split_on x (c # cs) =
     (if c = x then [] # split_on x cs
      else case split_on x cs of [] \<Rightarrow> [[c]] | w # ws \<Rightarrow> (c # w) # ws)"

text \<open>\<open>p in s\<close> for strings: on bytes as on characters, since no character starts inside another.\<close>

definition is_substring :: "string \<Rightarrow> string \<Rightarrow> bool" where
  "is_substring p s \<longleftrightarrow> list_ex (\<lambda>i. starts_with p (drop i s)) [0..<length s + 1]"

text \<open>\<open>re.sub(r"\s+", " ", s)\<close>: every run of white space becomes one blank.\<close>

fun collapse_spaces :: "string list \<Rightarrow> string list" where
  "collapse_spaces [] = []"
| "collapse_spaces (c # cs) =
     (if \<not> is_space_char c then c # collapse_spaces cs
      else case cs of
          [] \<Rightarrow> ['' '']
        | d # ds \<Rightarrow> if is_space_char d then collapse_spaces cs else '' '' # collapse_spaces cs)"

definition whitespace_sub :: "string \<Rightarrow> string" where
  "whitespace_sub s = concat (collapse_spaces (utf8_chars s))"

section \<open>Paths\<close>

text \<open>\<open>PurePosixPath(s)\<close>: its parts without the root, whether it is absolute, its text, its last part
  and the suffix of that part.\<close>

definition path_parts :: "string \<Rightarrow> string list" where
  "path_parts s = filter (\<lambda>p. p \<notin> {'''', ''.''}) (split_on (CHR ''/'') s)"

definition path_absolute :: "string \<Rightarrow> bool" where
  "path_absolute s \<longleftrightarrow> starts_with ''/'' s"

definition path_text :: "string \<Rightarrow> string" where
  "path_text s = (if path_parts s = [] then ''.'' else join ''/'' (path_parts s))"

definition path_name :: "string \<Rightarrow> string" where
  "path_name s = (if path_parts s = [] then '''' else last (path_parts s))"

definition path_suffix :: "string \<Rightarrow> string" where
  "path_suffix s =
    (let name = path_name s; ext = rev (takeWhile (\<lambda>c. c \<noteq> CHR ''.'') (rev name))
     in if ext \<noteq> [] \<and> length ext + 1 < length name then CHR ''.'' # ext else '''')"

text \<open>A path that stays below the directory it is resolved in.\<close>

definition safe_relative :: "string \<Rightarrow> bool" where
  "safe_relative s \<longleftrightarrow> \<not> path_absolute s \<and> ''..'' \<notin> set (path_parts s) \<and> CHR 0x5C \<notin> set s"

text \<open>A check of a table, \<open>btrim(value) = ''\<close>, strips blanks only; Python's \<open>strip\<close> strips every space.\<close>

definition btrim_blank :: "string \<Rightarrow> bool" where
  "btrim_blank s \<longleftrightarrow> list_all (\<lambda>c. c = CHR '' '') s"

end
