(* ===== verification/Messages.thy ===== *)
theory Messages
  imports PyBase
begin

text \<open>
  The Japanese literals of \<open>application/change_automation.py\<close> and
  \<open>application/main_change_flow.py\<close>, one constant each, by code point.  No proof unfolds one:
  the control flow never depends on the text of a message.
\<close>

definition label_requirement_confirmation :: string where  \<comment> \<open>confirmation of the change requirement\<close>
  "label_requirement_confirmation =
    utf8 [0x5909, 0x66f4, 0x8981, 0x4ef6, 0x306e, 0x78ba, 0x8a8d]"

definition label_rag_document_confirmation :: string where  \<comment> \<open>confirmation of the RAG target documents\<close>
  "label_rag_document_confirmation =
    ''RAG '' @ utf8 [0x5bfe, 0x8c61, 0x8a2d, 0x8a08, 0x66f8, 0x306e, 0x78ba, 0x8a8d]"

definition label_document_generation :: string where  \<comment> \<open>generation of the document draft\<close>
  "label_document_generation =
    utf8 [0x8a2d, 0x8a08, 0x66f8, 0x30c9, 0x30e9, 0x30d5, 0x30c8, 0x751f, 0x6210]"

definition label_document_revision :: string where  \<comment> \<open>revision of the document\<close>
  "label_document_revision =
    utf8 [0x8a2d, 0x8a08, 0x66f8, 0x306e, 0x518d, 0x4fee, 0x6b63]"

definition label_document_confirmation :: string where  \<comment> \<open>confirmation of the document diff\<close>
  "label_document_confirmation =
    utf8 [0x8a2d, 0x8a08, 0x66f8, 0x5dee, 0x5206, 0x306e, 0x78ba, 0x8a8d]"

definition label_impact_analysis :: string where  \<comment> \<open>impact analysis\<close>
  "label_impact_analysis =
    utf8 [0x5f71, 0x97ff, 0x5206, 0x6790]"

definition label_impact_confirmation :: string where  \<comment> \<open>confirmation of the code impact scope\<close>
  "label_impact_confirmation =
    utf8 [0x30b3, 0x30fc, 0x30c9, 0x5f71, 0x97ff, 0x7bc4, 0x56f2, 0x306e, 0x78ba, 0x8a8d]"

definition label_execution_approval :: string where  \<comment> \<open>automatic preparation of the execution scope\<close>
  "label_execution_approval =
    utf8 [0x5b9f, 0x884c, 0x7bc4, 0x56f2, 0x306e, 0x81ea, 0x52d5, 0x6e96, 0x5099]"

definition label_code_change :: string where  \<comment> \<open>code change by VS Code GitHub Copilot\<close>
  "label_code_change =
    ''VS Code GitHub Copilot '' @ utf8 [0x306b, 0x3088, 0x308b, 0x30b3, 0x30fc, 0x30c9, 0x5909,
      0x66f4]"

definition label_planning :: string where  \<comment> \<open>orchestration of code and tests\<close>
  "label_planning =
    utf8 [0x30b3, 0x30fc, 0x30c9, 0x30fb, 0x30c6, 0x30b9, 0x30c8, 0x7de8, 0x6210]"

definition label_test_plan_confirmation :: string where  \<comment> \<open>confirmation of the UI test plan and the execution scope\<close>
  "label_test_plan_confirmation =
    ''UI '' @ utf8 [0x30c6, 0x30b9, 0x30c8, 0x8a08, 0x753b, 0x3068, 0x5b9f, 0x884c, 0x7bc4,
      0x56f2, 0x306e, 0x78ba, 0x8a8d]"

definition label_ui_test_confirmation :: string where  \<comment> \<open>old UI test execution confirmation\<close>
  "label_ui_test_confirmation =
    utf8 [0x65e7] @ '' UI '' @ utf8 [0x30c6, 0x30b9, 0x30c8, 0x5b9f, 0x884c, 0x78ba, 0x8a8d]"

definition label_test_data_execution :: string where  \<comment> \<open>test data generation and verification\<close>
  "label_test_data_execution =
    utf8 [0x30c6, 0x30b9, 0x30c8, 0x30c7, 0x30fc, 0x30bf, 0x751f, 0x6210, 0x30fb, 0x691c, 0x8a3c]"

definition label_ui_verification :: string where  \<comment> \<open>UI test and result verification\<close>
  "label_ui_verification =
    ''UI '' @ utf8 [0x30c6, 0x30b9, 0x30c8, 0x30fb, 0x7d50, 0x679c, 0x691c, 0x8a3c]"

definition label_closure :: string where  \<comment> \<open>change closure decision\<close>
  "label_closure =
    utf8 [0x5909, 0x66f4, 0x30af, 0x30ed, 0x30fc, 0x30ba, 0x5224, 0x5b9a]"

definition label_final_report_confirmation :: string where  \<comment> \<open>confirmation of the final report\<close>
  "label_final_report_confirmation =
    utf8 [0x6700, 0x7d42, 0x30ec, 0x30dd, 0x30fc, 0x30c8, 0x306e, 0x78ba, 0x8a8d]"

definition label_completed :: string where  \<comment> \<open>done\<close>
  "label_completed =
    utf8 [0x5b8c, 0x4e86]"

definition msg_confirm_requirement :: string where  \<comment> \<open>please confirm the change requirement\<close>
  "msg_confirm_requirement =
    utf8 [0x5909, 0x66f4, 0x8981, 0x4ef6, 0x3092, 0x78ba, 0x8a8d, 0x3057, 0x3066, 0x304f, 0x3060,
      0x3055, 0x3044, 0x3002]"

definition msg_rag_unavailable :: string where  \<comment> \<open>the target documents cannot be retrieved from the canonical RAG\<close>
  "msg_rag_unavailable =
    ''Canonical RAG '' @ utf8 [0x304b, 0x3089, 0x5bfe, 0x8c61, 0x8a2d, 0x8a08, 0x66f8, 0x3092,
      0x53d6, 0x5f97, 0x3067, 0x304d, 0x307e, 0x305b, 0x3093, 0x3002]"

definition msg_confirm_rag_documents :: string where  \<comment> \<open>please confirm the documents and passages RAG selected\<close>
  "msg_confirm_rag_documents =
    ''RAG '' @ utf8 [0x304c, 0x9078, 0x5b9a, 0x3057, 0x305f, 0x5bfe, 0x8c61, 0x8a2d, 0x8a08,
      0x66f8, 0x3068, 0x6839, 0x62e0, 0x7b87, 0x6240, 0x3092, 0x78ba, 0x8a8d, 0x3057, 0x3066,
      0x304f, 0x3060, 0x3055, 0x3044, 0x3002]"

definition msg_generate_draft :: string where  \<comment> \<open>please generate the document draft with GitHub Copilot on VS Code\<close>
  "msg_generate_draft =
    ''VS Code '' @ utf8 [0x4e0a, 0x306e] @ '' GitHub Copilot '' @ utf8 [0x3067, 0x8a2d, 0x8a08,
      0x66f8, 0x30c9, 0x30e9, 0x30d5, 0x30c8, 0x3092, 0x751f, 0x6210, 0x3057, 0x3066, 0x304f,
      0x3060, 0x3055, 0x3044, 0x3002]"

definition msg_generate_draft_import :: string where  \<comment> \<open>please generate the draft and import it into the canonical case\<close>
  "msg_generate_draft_import =
    ''VS Code '' @ utf8 [0x4e0a, 0x306e] @ '' GitHub Copilot '' @ utf8 [0x3067, 0x8a2d, 0x8a08,
      0x66f8, 0x30c9, 0x30e9, 0x30d5, 0x30c8, 0x3092, 0x751f, 0x6210, 0x3057, 0x3001] @
      ''Canonical Case '' @ utf8 [0x306b, 0x53d6, 0x308a, 0x8fbc, 0x3093, 0x3067, 0x304f, 0x3060,
      0x3055, 0x3044, 0x3002]"

definition msg_revise_document :: string where  \<comment> \<open>please revise the document as pointed out and regenerate the diff\<close>
  "msg_revise_document =
    utf8 [0x6307, 0x6458, 0x5185, 0x5bb9, 0x306b, 0x5f93, 0x3063, 0x3066, 0x8a2d, 0x8a08, 0x66f8,
      0x3092, 0x4fee, 0x6b63, 0x3057, 0x3001, 0x5dee, 0x5206, 0x3092, 0x518d, 0x751f, 0x6210,
      0x3057, 0x3066, 0x304f, 0x3060, 0x3055, 0x3044, 0x3002]"

definition msg_confirm_document_diff :: string where  \<comment> \<open>please confirm the generated document diff\<close>
  "msg_confirm_document_diff =
    utf8 [0x751f, 0x6210, 0x3055, 0x308c, 0x305f, 0x8a2d, 0x8a08, 0x66f8, 0x5dee, 0x5206, 0x3092,
      0x78ba, 0x8a8d, 0x3057, 0x3066, 0x304f, 0x3060, 0x3055, 0x3044, 0x3002]"

definition msg_prepare_analysis :: string where  \<comment> \<open>please generate canonical RAG, code graph and impact report\<close>
  "msg_prepare_analysis =
    ''Canonical RAG'' @ utf8 [0x30fb] @ ''Code Graph'' @ utf8 [0x30fb] @ ''Impact Report '' @
      utf8 [0x3092, 0x751f, 0x6210, 0x3057, 0x3066, 0x304f, 0x3060, 0x3055, 0x3044, 0x3002]"

definition msg_impact_blocked :: string where  \<comment> \<open>the impact report has unresolved blocking reasons\<close>
  "msg_impact_blocked =
    ''Impact Report '' @ utf8 [0x306b, 0x672a, 0x89e3, 0x6c7a, 0x306e, 0x963b, 0x65ad, 0x7406,
      0x7531, 0x304c, 0x3042, 0x308a, 0x307e, 0x3059, 0x3002]"

definition msg_reanalyze_scope :: string where  \<comment> \<open>please reanalyse the code impact scope from the current document diff\<close>
  "msg_reanalyze_scope =
    utf8 [0x73fe, 0x5728, 0x306e, 0x8a2d, 0x8a08, 0x66f8, 0x5dee, 0x5206, 0x304b, 0x3089] @
      '' VS Code GitHub Copilot '' @ utf8 [0x304c, 0x30b3, 0x30fc, 0x30c9, 0x5f71, 0x97ff,
      0x7bc4, 0x56f2, 0x3092, 0x518d, 0x89e3, 0x6790, 0x3057, 0x3066, 0x304f, 0x3060, 0x3055,
      0x3044, 0x3002, 0x4ee5, 0x524d, 0x306e] @ '' Task '' @ utf8 [0x306e] @ '' Impact Report ''
      @ utf8 [0x306f, 0x518d, 0x5229, 0x7528, 0x3057, 0x307e, 0x305b, 0x3093, 0x3002]"

definition msg_confirm_code_scope :: string where  \<comment> \<open>please confirm the code to change and the test impact scope\<close>
  "msg_confirm_code_scope =
    utf8 [0x5909, 0x66f4, 0x5bfe, 0x8c61, 0x30b3, 0x30fc, 0x30c9, 0x3068, 0x30c6, 0x30b9, 0x30c8,
      0x5f71, 0x97ff, 0x7bc4, 0x56f2, 0x3092, 0x78ba, 0x8a8d, 0x3057, 0x3066, 0x304f, 0x3060,
      0x3055, 0x3044, 0x3002]"

definition msg_provision_scope :: string where  \<comment> \<open>preparing the execution scope from the confirmed impact scope\<close>
  "msg_provision_scope =
    utf8 [0x78ba, 0x8a8d, 0x6e08, 0x307f, 0x5f71, 0x97ff, 0x7bc4, 0x56f2, 0x304b, 0x3089, 0x30b3,
      0x30fc, 0x30c9, 0x5909, 0x66f4, 0x3068, 0x30c6, 0x30b9, 0x30c8, 0x306e, 0x5b9f, 0x884c,
      0x7bc4, 0x56f2, 0x3092, 0x81ea, 0x52d5, 0x6e96, 0x5099, 0x3057, 0x307e, 0x3059, 0x3002]"

definition msg_rebind_scope :: string where  \<comment> \<open>rebinding the confirmed execution scope to the current VS Code change task\<close>
  "msg_rebind_scope =
    utf8 [0x73fe, 0x5728, 0x306e] @ '' VS Code Change Task '' @ utf8 [0x306b, 0x78ba, 0x8a8d,
      0x6e08, 0x307f, 0x5b9f, 0x884c, 0x7bc4, 0x56f2, 0x3092, 0x518d, 0x30d0, 0x30a4, 0x30f3,
      0x30c9, 0x3057, 0x307e, 0x3059, 0x3002]"

definition msg_apply_code_change :: string where  \<comment> \<open>please change the generated code scope with Copilot and import the result\<close>
  "msg_apply_code_change =
    utf8 [0x751f, 0x6210, 0x3055, 0x308c, 0x305f, 0x30b3, 0x30fc, 0x30c9, 0x7bc4, 0x56f2, 0x3092]
      @ '' VS Code '' @ utf8 [0x4e0a, 0x306e] @ '' GitHub Copilot '' @ utf8 [0x3067, 0x5909,
      0x66f4, 0x3057, 0x3001, 0x7d50, 0x679c, 0x3092, 0x53d6, 0x308a, 0x8fbc, 0x3093, 0x3067,
      0x304f, 0x3060, 0x3055, 0x3044, 0x3002]"

definition msg_finish_working_change :: string where  \<comment> \<open>the code diff is in scope; please generate the plans and finish the tests\<close>
  "msg_finish_working_change =
    utf8 [0x30b3, 0x30fc, 0x30c9, 0x5dee, 0x5206, 0x306f, 0x5b9f, 0x884c, 0x7bc4, 0x56f2, 0x5185,
      0x3067, 0x3059, 0x3002] @ ''VS Code '' @ utf8 [0x4e0a, 0x306e] @ '' GitHub Copilot '' @
      utf8 [0x3067] @ '' TestPlan '' @ utf8 [0x3068] @ '' TestDataPlan '' @ utf8 [0x3092, 0x751f,
      0x6210, 0x3057, 0x3001, 0x30b3, 0x30f3, 0x30d1, 0x30a4, 0x30eb, 0x3068, 0x30c6, 0x30b9,
      0x30c8, 0x3092, 0x5b8c, 0x4e86, 0x3057, 0x3066, 0x304f, 0x3060, 0x3055, 0x3044, 0x3002]"

definition msg_working_out_of_scope :: string where  \<comment> \<open>the working code diff is outside the execution scope\<close>
  "msg_working_out_of_scope =
    utf8 [0x4f5c, 0x696d, 0x4e2d, 0x306e, 0x30b3, 0x30fc, 0x30c9, 0x5dee, 0x5206, 0x304c, 0x5b9f,
      0x884c, 0x7bc4, 0x56f2, 0x5916, 0x3067, 0x3059, 0x3002]"

definition msg_code_not_successful :: string where  \<comment> \<open>code change, tests or changed-line coverage are not successful\<close>
  "msg_code_not_successful =
    utf8 [0x30b3, 0x30fc, 0x30c9, 0x5909, 0x66f4, 0x3001, 0x30c6, 0x30b9, 0x30c8, 0x3001, 0x307e,
      0x305f, 0x306f, 0x5909, 0x66f4, 0x884c, 0x30ab, 0x30d0, 0x30ec, 0x30c3, 0x30b8, 0x304c,
      0x6210, 0x529f, 0x72b6, 0x614b, 0x3067, 0x306f, 0x3042, 0x308a, 0x307e, 0x305b, 0x3093,
      0x3002]"

definition msg_generate_ui_plan :: string where  \<comment> \<open>the code result is final; please generate the UI TestPlan / TestDataPlan\<close>
  "msg_generate_ui_plan =
    utf8 [0x30b3, 0x30fc, 0x30c9, 0x7d50, 0x679c, 0x306f, 0x78ba, 0x5b9a, 0x3057, 0x307e, 0x3057,
      0x305f, 0x3002] @ ''VS Code '' @ utf8 [0x4e0a, 0x306e] @ '' GitHub Copilot '' @
      utf8 [0x3067, 0x3001, 0x78ba, 0x5b9a, 0x6e08, 0x307f, 0x8a2d, 0x8a08, 0x3068, 0x30b3,
      0x30fc, 0x30c9, 0x304b, 0x3089] @ '' UI TestPlan / TestDataPlan '' @ utf8 [0x3092, 0x751f,
      0x6210, 0x3057, 0x3066, 0x304f, 0x3060, 0x3055, 0x3044, 0x3002]"

definition msg_generate_orchestration :: string where  \<comment> \<open>generating test data, coverage and UI scenarios from code and TestPlan\<close>
  "msg_generate_orchestration =
    utf8 [0x5909, 0x66f4, 0x6e08, 0x307f, 0x30b3, 0x30fc, 0x30c9, 0x3068] @
      '' Copilot TestPlan '' @ utf8 [0x304b, 0x3089, 0x30c6, 0x30b9, 0x30c8, 0x30c7, 0x30fc,
      0x30bf, 0x3001, 0x30ab, 0x30d0, 0x30ec, 0x30c3, 0x30b8, 0x3001] @ ''UI '' @ utf8 [0x30b7,
      0x30ca, 0x30ea, 0x30aa, 0x3092, 0x751f, 0x6210, 0x3057, 0x307e, 0x3059, 0x3002]"

definition msg_business_coverage_incomplete :: string where  \<comment> \<open>business coverage is not 100 percent\<close>
  "msg_business_coverage_incomplete =
    utf8 [0x696d, 0x52d9, 0x8981, 0x4ef6, 0x30ab, 0x30d0, 0x30ec, 0x30c3, 0x30b8, 0x304c] @
      '' 100% '' @ utf8 [0x3067, 0x306f, 0x3042, 0x308a, 0x307e, 0x305b, 0x3093, 0x3002, 0x672a,
      0x30ab, 0x30d0, 0x30fc, 0x8981, 0x4ef6, 0x3092] @ '' VS Code GitHub Copilot '' @
      utf8 [0x306b, 0x81ea, 0x52d5, 0x8fd4, 0x5374, 0x3057, 0x3001] @ ''UI TestPlan '' @
      utf8 [0x3068] @ '' TestDataPlan '' @ utf8 [0x3092, 0x518d, 0x751f, 0x6210, 0x3057, 0x3066,
      0x304f, 0x3060, 0x3055, 0x3044, 0x3002]"

definition msg_confirm_test_plan :: string where  \<comment> \<open>please confirm the generated plans and permit the real browser run\<close>
  "msg_confirm_test_plan =
    utf8 [0x751f, 0x6210, 0x3055, 0x308c, 0x305f] @ '' UI TestPlan'' @ utf8 [0x3001] @
      ''TestDataPlan'' @ utf8 [0x3001] @ ''Playwright '' @ utf8 [0x5b9f, 0x884c, 0x624b, 0x9806,
      0x3001, 0x696d, 0x52d9, 0x30ab, 0x30d0, 0x30ec, 0x30c3, 0x30b8, 0x3092, 0x78ba, 0x8a8d,
      0x3057, 0x3001, 0x5b9f, 0x30d6, 0x30e9, 0x30a6, 0x30b6, 0x5b9f, 0x884c, 0x3092, 0x8a31,
      0x53ef, 0x3057, 0x3066, 0x304f, 0x3060, 0x3055, 0x3044, 0x3002]"

definition msg_start_test_data :: string where  \<comment> \<open>please start test data generation and verification in the approved range\<close>
  "msg_start_test_data =
    utf8 [0x627f, 0x8a8d, 0x7bc4, 0x56f2, 0x3067, 0x30c6, 0x30b9, 0x30c8, 0x30c7, 0x30fc, 0x30bf,
      0x751f, 0x6210, 0x3068, 0x691c, 0x8a3c, 0x3092, 0x958b, 0x59cb, 0x3057, 0x3066, 0x304f,
      0x3060, 0x3055, 0x3044, 0x3002]"

definition msg_test_data_running :: string where  \<comment> \<open>test data is being executed\<close>
  "msg_test_data_running =
    utf8 [0x30c6, 0x30b9, 0x30c8, 0x30c7, 0x30fc, 0x30bf, 0x3092, 0x5b9f, 0x884c, 0x4e2d, 0x3067,
      0x3059, 0x3002]"

definition msg_test_data_failed :: string where  \<comment> \<open>test data generation or verification did not pass\<close>
  "msg_test_data_failed =
    utf8 [0x30c6, 0x30b9, 0x30c8, 0x30c7, 0x30fc, 0x30bf, 0x751f, 0x6210, 0x307e, 0x305f, 0x306f,
      0x691c, 0x8a3c, 0x304c, 0x5408, 0x683c, 0x3057, 0x3066, 0x3044, 0x307e, 0x305b, 0x3093,
      0x3002]"

definition msg_data_coverage_incomplete :: string where  \<comment> \<open>the test data coverage of the real DB is not 100 percent\<close>
  "msg_data_coverage_incomplete =
    utf8 [0x5b9f] @ '' DB '' @ utf8 [0x306e] @ '' Test Data Coverage '' @ utf8 [0x304c] @
      '' 100% '' @ utf8 [0x3067, 0x306f, 0x306a, 0x3044, 0x305f, 0x3081] @ '' UI '' @
      utf8 [0x691c, 0x8a3c, 0x3078, 0x9032, 0x3081, 0x307e, 0x305b, 0x3093, 0x3002]"

definition msg_run_ui :: string where  \<comment> \<open>please run the UI scenarios in a real browser and keep the screenshots\<close>
  "msg_run_ui =
    utf8 [0x5b9f, 0x30d6, 0x30e9, 0x30a6, 0x30b6, 0x3067] @ '' UI '' @ utf8 [0x30b7, 0x30ca,
      0x30ea, 0x30aa, 0x3092, 0x5b9f, 0x884c, 0x3057, 0x3001, 0x30b9, 0x30af, 0x30ea, 0x30fc,
      0x30f3, 0x30b7, 0x30e7, 0x30c3, 0x30c8, 0x8a3c, 0x8de1, 0x3092, 0x4fdd, 0x5b58, 0x3057,
      0x3066, 0x304f, 0x3060, 0x3055, 0x3044, 0x3002]"

definition msg_confirm_final_report :: string where  \<comment> \<open>please confirm the final report and its evidence\<close>
  "msg_confirm_final_report =
    utf8 [0x6700, 0x7d42, 0x30ec, 0x30dd, 0x30fc, 0x30c8, 0x3068, 0x8a3c, 0x8de1, 0x3092, 0x78ba,
      0x8a8d, 0x3057, 0x3066, 0x304f, 0x3060, 0x3055, 0x3044, 0x3002]"

definition msg_completed :: string where  \<comment> \<open>document, code, test and UI verification are complete\<close>
  "msg_completed =
    utf8 [0x6587, 0x66f8, 0x3001, 0x30b3, 0x30fc, 0x30c9, 0x3001, 0x30c6, 0x30b9, 0x30c8, 0x3001]
      @ ''UI '' @ utf8 [0x691c, 0x8a3c, 0x304c, 0x5b8c, 0x4e86, 0x3057, 0x307e, 0x3057, 0x305f,
      0x3002]"

definition msg_closure_unresolved :: string where  \<comment> \<open>the ChangeClosureResult has unresolved items\<close>
  "msg_closure_unresolved =
    ''ChangeClosureResult '' @ utf8 [0x306b, 0x672a, 0x89e3, 0x6c7a, 0x9805, 0x76ee, 0x304c,
      0x3042, 0x308a, 0x307e, 0x3059, 0x3002]"

definition msg_rejected_suffix :: string where  \<comment> \<open>(rejected by the user)\<close>
  "msg_rejected_suffix =
    '' '' @ utf8 [0x30e6, 0x30fc, 0x30b6, 0x30fc, 0x306b, 0x3088, 0x308a, 0x5dee, 0x3057, 0x623b,
      0x3055, 0x308c, 0x307e, 0x3057, 0x305f, 0x3002]"

definition msg_stage_stopped :: string where  \<comment> \<open>the stage stopped\<close>
  "msg_stage_stopped =
    utf8 [0x5de5, 0x7a0b, 0x304c, 0x505c, 0x6b62, 0x3057, 0x307e, 0x3057, 0x305f, 0x3002]"

definition label_requirement :: string where  \<comment> \<open>change requirement\<close>
  "label_requirement =
    utf8 [0x5909, 0x66f4, 0x8981, 0x4ef6]"

definition msg_requirement_default :: string where  \<comment> \<open>the registered business rules are used as the change requirement\<close>
  "msg_requirement_default =
    utf8 [0x767b, 0x9332, 0x6e08, 0x307f, 0x306e, 0x696d, 0x52d9, 0x30eb, 0x30fc, 0x30eb, 0x3092,
      0x5909, 0x66f4, 0x8981, 0x4ef6, 0x3068, 0x3057, 0x3066, 0x4f7f, 0x7528, 0x3057, 0x307e,
      0x3059, 0x3002]"

definition msg_requirement_rejected :: string where  \<comment> \<open>the change requirement was rejected\<close>
  "msg_requirement_rejected =
    utf8 [0x5909, 0x66f4, 0x8981, 0x4ef6, 0x304c, 0x5dee, 0x3057, 0x623b, 0x3055, 0x308c, 0x307e,
      0x3057, 0x305f, 0x3002]"

definition label_document_change :: string where  \<comment> \<open>document diff\<close>
  "label_document_change =
    utf8 [0x8a2d, 0x8a08, 0x66f8, 0x5dee, 0x5206]"

definition msg_diff_count_infix :: string where  \<comment> \<open>(... document diffs made by ... are)\<close>
  "msg_diff_count_infix =
    '' '' @ utf8 [0x304c, 0x4f5c, 0x6210, 0x3057, 0x305f, 0x8a2d, 0x8a08, 0x66f8, 0x5dee, 0x5206,
      0x306f] @ '' ''"

definition msg_diff_count_suffix :: string where  \<comment> \<open>(items)\<close>
  "msg_diff_count_suffix =
    '' '' @ utf8 [0x4ef6, 0x3067, 0x3059, 0x3002]"

definition msg_document_plan_prefix :: string where  \<comment> \<open>(RAG identifies the target documents,)\<close>
  "msg_document_plan_prefix =
    ''RAG '' @ utf8 [0x3067, 0x5bfe, 0x8c61, 0x8a2d, 0x8a08, 0x66f8, 0x3092, 0x7279, 0x5b9a,
      0x3057, 0x3001]"

definition msg_document_plan_suffix :: string where  \<comment> \<open>(modifies them)\<close>
  "msg_document_plan_suffix =
    '' '' @ utf8 [0x304c, 0x4fee, 0x6b63, 0x3057, 0x307e, 0x3059, 0x3002]"

definition label_code_scope :: string where  \<comment> \<open>code impact scope\<close>
  "label_code_scope =
    utf8 [0x30b3, 0x30fc, 0x30c9, 0x5f71, 0x97ff, 0x7bc4, 0x56f2]"

definition msg_scope_fixed :: string where  \<comment> \<open>RAG and code graph have fixed the code to change\<close>
  "msg_scope_fixed =
    ''RAG '' @ utf8 [0x3068] @ '' Code Graph '' @ utf8 [0x304b, 0x3089, 0x5909, 0x66f4, 0x5bfe,
      0x8c61, 0x30b3, 0x30fc, 0x30c9, 0x304c, 0x78ba, 0x5b9a, 0x3057, 0x307e, 0x3057, 0x305f,
      0x3002]"

definition msg_scope_analysis :: string where  \<comment> \<open>the impact scope is analysed from the document diff by RAG and code graph\<close>
  "msg_scope_analysis =
    utf8 [0x8a2d, 0x8a08, 0x66f8, 0x5dee, 0x5206, 0x304b, 0x3089] @ '' RAG '' @ utf8 [0x3068] @
      '' Code Graph '' @ utf8 [0x3067, 0x5f71, 0x97ff, 0x7bc4, 0x56f2, 0x3092, 0x89e3, 0x6790,
      0x3057, 0x307e, 0x3059, 0x3002]"

definition msg_scope_stopped_prefix :: string where  \<comment> \<open>(the code impact analysis)\<close>
  "msg_scope_stopped_prefix =
    utf8 [0x30b3, 0x30fc, 0x30c9, 0x5f71, 0x97ff, 0x5206, 0x6790, 0x304c] @ '' ''"

definition msg_scope_stopped_suffix :: string where  \<comment> \<open>(stopped as ...)\<close>
  "msg_scope_stopped_suffix =
    '' '' @ utf8 [0x3067, 0x505c, 0x6b62, 0x3057, 0x307e, 0x3057, 0x305f, 0x3002]"

definition msg_task_stopped_infix :: string where  \<comment> \<open>(the change task of ... )\<close>
  "msg_task_stopped_infix =
    '' '' @ utf8 [0x306e, 0x5909, 0x66f4, 0x30bf, 0x30b9, 0x30af, 0x304c] @ '' ''"

definition msg_task_stopped_suffix :: string where  \<comment> \<open>(stopped as ...)\<close>
  "msg_task_stopped_suffix =
    '' '' @ utf8 [0x3067, 0x505c, 0x6b62, 0x3057, 0x307e, 0x3057, 0x305f, 0x3002]"

definition label_compile_test :: string where  \<comment> \<open>code change, compilation and test\<close>
  "label_compile_test =
    utf8 [0x30b3, 0x30fc, 0x30c9, 0x5909, 0x66f4, 0x30fb, 0x30b3, 0x30f3, 0x30d1, 0x30a4, 0x30eb,
      0x30fb, 0x30c6, 0x30b9, 0x30c8]"

definition msg_compile_done :: string where  \<comment> \<open>code change, compilation and the configured tests are complete\<close>
  "msg_compile_done =
    utf8 [0x30b3, 0x30fc, 0x30c9, 0x5909, 0x66f4, 0x3001, 0x30b3, 0x30f3, 0x30d1, 0x30a4, 0x30eb,
      0x3001, 0x8a2d, 0x5b9a, 0x3055, 0x308c, 0x305f, 0x30c6, 0x30b9, 0x30c8, 0x304c, 0x5b8c,
      0x4e86, 0x3057, 0x307e, 0x3057, 0x305f, 0x3002]"

definition msg_compile_running_suffix :: string where  \<comment> \<open>(updates the code and runs compilation, code tests and coverage)\<close>
  "msg_compile_running_suffix =
    '' '' @ utf8 [0x304c, 0x30b3, 0x30fc, 0x30c9, 0x3092, 0x66f4, 0x65b0, 0x3057, 0x3001, 0x30b3,
      0x30f3, 0x30d1, 0x30a4, 0x30eb, 0x3001, 0x30b3, 0x30fc, 0x30c9, 0x30c6, 0x30b9, 0x30c8,
      0x3001, 0x30ab, 0x30d0, 0x30ec, 0x30c3, 0x30b8, 0x78ba, 0x8a8d, 0x3092, 0x5b9f, 0x884c,
      0x3057, 0x307e, 0x3059, 0x3002]"

definition msg_business_gate :: string where  \<comment> \<open>business coverage is not 100 percent, the TestPlan returns to Copilot\<close>
  "msg_business_gate =
    utf8 [0x696d, 0x52d9, 0x8981, 0x4ef6, 0x30ab, 0x30d0, 0x30ec, 0x30c3, 0x30b8, 0x304c] @
      '' 100% '' @ utf8 [0x3067, 0x306f, 0x306a, 0x3044, 0x305f, 0x3081, 0x3001] @ ''TestPlan ''
      @ utf8 [0x3092] @ '' Copilot '' @ utf8 [0x306b, 0x8fd4, 0x5374, 0x3057, 0x307e, 0x3059,
      0x3002]"

definition msg_data_gate :: string where  \<comment> \<open>the data condition coverage of the real DB is not 100 percent\<close>
  "msg_data_gate =
    utf8 [0x5b9f] @ '' DB '' @ utf8 [0x306e, 0x30c6, 0x30b9, 0x30c8, 0x30c7, 0x30fc, 0x30bf,
      0x6761, 0x4ef6, 0x30ab, 0x30d0, 0x30ec, 0x30c3, 0x30b8, 0x304c] @ '' 100% '' @
      utf8 [0x3067, 0x306f, 0x306a, 0x3044, 0x305f, 0x3081, 0x3001] @ ''UI '' @ utf8 [0x691c,
      0x8a3c, 0x3078, 0x9032, 0x3081, 0x307e, 0x305b, 0x3093, 0x3002]"

definition msg_locator_gate :: string where  \<comment> \<open>the Playwright pre-action check stopped; please confirm a new revision\<close>
  "msg_locator_gate =
    ''Playwright '' @ utf8 [0x306e, 0x64cd, 0x4f5c, 0x524d, 0x691c, 0x8a3c, 0x304c, 0x505c,
      0x6b62, 0x3057, 0x307e, 0x3057, 0x305f, 0x3002, 0x65b0, 0x3057, 0x3044] @
      '' UI TestPlan Revision '' @ utf8 [0x3092, 0x78ba, 0x8a8d, 0x3057, 0x3066, 0x304f, 0x3060,
      0x3055, 0x3044, 0x3002]"

definition msg_ui_not_passed :: string where  \<comment> \<open>test data generation or UI verification has not passed\<close>
  "msg_ui_not_passed =
    utf8 [0x30c6, 0x30b9, 0x30c8, 0x30c7, 0x30fc, 0x30bf, 0x751f, 0x6210, 0x307e, 0x305f, 0x306f]
      @ '' UI '' @ utf8 [0x691c, 0x8a3c, 0x304c, 0x5408, 0x683c, 0x3057, 0x3066, 0x3044, 0x307e,
      0x305b, 0x3093, 0x3002]"

definition label_ui_validation :: string where  \<comment> \<open>test data and UI verification\<close>
  "label_ui_validation =
    utf8 [0x30c6, 0x30b9, 0x30c8, 0x30c7, 0x30fc, 0x30bf, 0x30fb] @ ''UI '' @ utf8 [0x691c,
      0x8a3c]"

definition msg_ui_done :: string where  \<comment> \<open>UI verification in the real browser is complete\<close>
  "msg_ui_done =
    utf8 [0x5b9f, 0x30d6, 0x30e9, 0x30a6, 0x30b6, 0x306b, 0x3088, 0x308b] @ '' UI '' @
      utf8 [0x691c, 0x8a3c, 0x304c, 0x5b8c, 0x4e86, 0x3057, 0x307e, 0x3057, 0x305f, 0x3002]"

definition msg_ui_pending :: string where  \<comment> \<open>the UI is verified in a real browser with the generated business data\<close>
  "msg_ui_pending =
    utf8 [0x751f, 0x6210, 0x3057, 0x305f, 0x4e00, 0x9023, 0x306e, 0x696d, 0x52d9, 0x30c7, 0x30fc,
      0x30bf, 0x3092, 0x4f7f, 0x3044, 0x3001, 0x5b9f, 0x30d6, 0x30e9, 0x30a6, 0x30b6, 0x3067] @
      '' UI '' @ utf8 [0x3092, 0x691c, 0x8a3c, 0x3057, 0x307e, 0x3059, 0x3002]"

definition text_business_rule :: string where  \<comment> \<open>business rule\<close>
  "text_business_rule =
    utf8 [0x696d, 0x52d9, 0x30eb, 0x30fc, 0x30eb]"

definition label_final_report :: string where  \<comment> \<open>final report\<close>
  "label_final_report =
    utf8 [0x6700, 0x7d42, 0x30ec, 0x30dd, 0x30fc, 0x30c8]"

definition msg_report_done :: string where  \<comment> \<open>the final report joins requirement, documents, code, tests and UI evidence\<close>
  "msg_report_done =
    utf8 [0x8981, 0x4ef6, 0x3001, 0x8a2d, 0x8a08, 0x66f8, 0x3001, 0x30b3, 0x30fc, 0x30c9, 0x3001,
      0x30c6, 0x30b9, 0x30c8, 0x3001] @ ''UI '' @ utf8 [0x8a3c, 0x8de1, 0x3092, 0x7d50, 0x5408,
      0x3057, 0x305f, 0x6700, 0x7d42, 0x30ec, 0x30dd, 0x30fc, 0x30c8, 0x3067, 0x3059, 0x3002]"

definition msg_report_pending :: string where  \<comment> \<open>the final report is generated when every verification is complete\<close>
  "msg_report_pending =
    utf8 [0x3059, 0x3079, 0x3066, 0x306e, 0x691c, 0x8a3c, 0x5b8c, 0x4e86, 0x5f8c, 0x306b, 0x6700,
      0x7d42, 0x30ec, 0x30dd, 0x30fc, 0x30c8, 0x3092, 0x751f, 0x6210, 0x3057, 0x307e, 0x3059,
      0x3002]"

definition text_test_case :: string where  \<comment> \<open>test case\<close>
  "text_test_case =
    utf8 [0x30c6, 0x30b9, 0x30c8, 0x30b1, 0x30fc, 0x30b9]"

definition msg_relation_prefix :: string where  \<comment> \<open>(by the relation ... of the code graph)\<close>
  "msg_relation_prefix =
    ''Code Graph '' @ utf8 [0x306e] @ '' ''"

definition msg_relation_suffix :: string where  \<comment> \<open>(connected to the changed code)\<close>
  "msg_relation_suffix =
    '' '' @ utf8 [0x95a2, 0x4fc2, 0x3067, 0x5909, 0x66f4, 0x5bfe, 0x8c61, 0x306b, 0x63a5, 0x7d9a,
      0x3057, 0x3066, 0x3044, 0x307e, 0x3059, 0x3002]"

end
