(* ===== verification/ChangeAutomation.thy ===== *)
theory ChangeAutomation
  imports Messages
begin

text \<open>
  The change-flow state machine of \<open>application/change_automation.py\<close>: the tables of stages,
  actions and checkpoints, \<open>ChangeFlowStateMachine\<close> with its decision, validation, projection
  and normalisation operations, and the three resolvers that the decision tries in order before
  the final one.  The views of the request, the workspace, the execution and so on are JSON
  objects read with \<open>dict.get\<close>.  A membership test in a set of strings raises \<open>TypeError\<close> on
  an unhashable value, as in Python.
\<close>

section \<open>Stages, actions and checkpoints\<close>

record change_decision =
  stage :: string
  status :: string
  next_action :: "string option"
  blocking_reason :: "string option"
  message :: string

definition STAGE_LABELS :: "(string \<times> string) list" where
  "STAGE_LABELS =
    [(''requirement_confirmation'', label_requirement_confirmation),
     (''rag_document_confirmation'', label_rag_document_confirmation),
     (''document_generation'', label_document_generation),
     (''document_revision'', label_document_revision),
     (''document_confirmation'', label_document_confirmation),
     (''impact_analysis'', label_impact_analysis),
     (''impact_confirmation'', label_impact_confirmation),
     (''execution_approval'', label_execution_approval),
     (''code_change'', label_code_change),
     (''planning'', label_planning),
     (''test_plan_confirmation'', label_test_plan_confirmation),
     (''ui_test_confirmation'', label_ui_test_confirmation),
     (''test_data_execution'', label_test_data_execution),
     (''ui_verification'', label_ui_verification),
     (''closure'', label_closure),
     (''final_report_confirmation'', label_final_report_confirmation),
     (''completed'', label_completed)]"

definition PUBLIC_STAGE_IDS :: "string list" where
  "PUBLIC_STAGE_IDS =
    [''requirement'', ''document_change'', ''code_scope'', ''compile_test'', ''ui_validation'',
     ''final_report'']"

definition INTERNAL_TO_PUBLIC_STAGE :: "(string \<times> string) list" where
  "INTERNAL_TO_PUBLIC_STAGE =
    [(''requirement_confirmation'', ''requirement''),
     (''rag_document_confirmation'', ''document_change''),
     (''document_generation'', ''document_change''),
     (''document_revision'', ''document_change''),
     (''document_confirmation'', ''document_change''),
     (''impact_analysis'', ''code_scope''),
     (''impact_confirmation'', ''code_scope''),
     (''execution_approval'', ''compile_test''),
     (''code_change'', ''compile_test''),
     (''planning'', ''ui_validation''),
     (''test_plan_confirmation'', ''ui_validation''),
     (''ui_test_confirmation'', ''ui_validation''),
     (''test_data_execution'', ''ui_validation''),
     (''ui_verification'', ''ui_validation''),
     (''closure'', ''final_report''),
     (''final_report_confirmation'', ''final_report''),
     (''completed'', ''final_report'')]"

definition CONFIRMATION_ACTION_CHECKPOINTS :: "(string \<times> string) list" where
  "CONFIRMATION_ACTION_CHECKPOINTS =
    [(''confirm_requirement'', ''requirement''),
     (''confirm_rag_documents'', ''rag_documents''),
     (''confirm_document_diff'', ''document_diff''),
     (''confirm_code_scope'', ''code_scope''),
     (''confirm_test_plan'', ''test_plan''),
     (''confirm_ui_test'', ''ui_test''),
     (''confirm_final_report'', ''final_report'')]"

definition COPILOT_TASK_AUTOMATION_STAGES :: "(string \<times> string list) list" where
  "COPILOT_TASK_AUTOMATION_STAGES =
    [(''document_change'', [''document_generation'', ''document_revision'']),
     (''code_scope'', [''impact_analysis''])]"

definition ACTION_STAGES :: "(string \<times> string list) list" where
  "ACTION_STAGES =
    [(''confirm_requirement'', [''requirement_confirmation'']),
     (''confirm_rag_documents'', [''rag_document_confirmation'']),
     (''prepare_document_with_copilot'', [''document_generation'']),
     (''revise_document_with_copilot'', [''document_revision'']),
     (''confirm_document_diff'', [''document_confirmation'']),
     (''prepare_canonical_analysis'', [''impact_analysis'']),
     (''analyze_code_scope_with_copilot'', [''impact_analysis'']),
     (''confirm_code_scope'', [''impact_confirmation'']),
     (''provision_execution_scope'', [''execution_approval'']),
     (''apply_code_change_with_copilot'', [''code_change'']),
     (''generate_ui_test_plan'', [''code_change'']),
     (''generate_orchestration'', [''planning'']),
     (''inspect_generated_plan'', [''planning'']),
     (''confirm_test_plan'', [''test_plan_confirmation'']),
     (''confirm_ui_test'', [''ui_test_confirmation'']),
     (''start_test_data_execution'', [''test_data_execution'']),
     (''refresh'', [''test_data_execution'']),
     (''run_ui_verification'', [''ui_verification'']),
     (''confirm_final_report'', [''final_report_confirmation''])]"

definition AUTOMATION_STATUSES :: "string list" where
  "AUTOMATION_STATUSES = [''waiting'', ''running'', ''blocked'', ''completed'']"

lemmas flow_tables = PUBLIC_STAGE_IDS_def INTERNAL_TO_PUBLIC_STAGE_def
  CONFIRMATION_ACTION_CHECKPOINTS_def ACTION_STAGES_def AUTOMATION_STATUSES_def

section \<open>Validation of a decision\<close>

definition validate_stage_action :: "string \<Rightarrow> string option \<Rightarrow> unit result" where
  "validate_stage_action stg act =
    (case act of
       None \<Rightarrow> Inr ()
     | Some a \<Rightarrow>
        if a = ''resolve_blocker'' then Inr ()
        else (case map_of ACTION_STAGES a of
            None \<Rightarrow> Inl (ValueError (''Unknown Change Flow action: '' @ a))
          | Some allowed \<Rightarrow>
              if stg \<notin> set allowed then
                Inl (ValueError (''Change Flow action '' @ a @ '' is invalid for stage '' @ stg))
              else Inr ()))"

definition validate_decision :: "change_decision \<Rightarrow> unit result" where
  "validate_decision d =
    (if stage d \<notin> set (map fst INTERNAL_TO_PUBLIC_STAGE) then
       Inl (ValueError (''Unknown Change Flow stage: '' @ stage d))
     else if status d \<notin> set AUTOMATION_STATUSES then
       Inl (ValueError (''Unknown Change Flow status: '' @ status d))
     else if status d = ''blocked'' \<and> next_action d \<noteq> Some ''resolve_blocker'' then
       Inl (ValueError ''Blocked Change Flow must require resolve_blocker'')
     else if (stage d = ''completed'') \<noteq> (status d = ''completed'') then
       Inl (ValueError ''Completed Change Flow stage and status must be terminal together'')
     else if status d = ''completed'' \<and> next_action d \<noteq> None then
       Inl (ValueError ''Completed Change Flow must be terminal without a next action'')
     else if next_action d \<in> Some ` set (map fst CONFIRMATION_ACTION_CHECKPOINTS)
         \<and> status d \<noteq> ''waiting'' then
       Inl (ValueError ''Human confirmation must be exposed as a waiting state'')
     else validate_stage_action (stage d) (next_action d))"

section \<open>The decision\<close>

record change_flow_inputs =
  ci_request :: pydict
  ci_diff :: pydict
  ci_workspace :: "pydict option"
  ci_has_orchestration :: bool
  ci_execution :: "pydict option"
  ci_confirmations :: "(string \<times> string) list"
  ci_rag_discovery :: pydict

definition waiting :: "string \<Rightarrow> string \<Rightarrow> string \<Rightarrow> change_decision" where
  "waiting stg act msg =
    \<lparr>stage = stg, status = ''waiting'', next_action = Some act, blocking_reason = None,
     message = msg\<rparr>"

definition blocked :: "string \<Rightarrow> string \<Rightarrow> change_decision" where
  "blocked stg reason =
    \<lparr>stage = stg, status = ''blocked'', next_action = Some ''resolve_blocker'',
     blocking_reason = Some reason, message = reason\<rparr>"

definition running :: "string \<Rightarrow> string \<Rightarrow> string \<Rightarrow> change_decision" where
  "running stg act msg =
    \<lparr>stage = stg, status = ''running'', next_action = Some act, blocking_reason = None,
     message = msg\<rparr>"

definition confirmation_decision ::
    "(string \<times> string) list \<Rightarrow> string \<Rightarrow> string \<Rightarrow> string \<Rightarrow> string \<Rightarrow> change_decision option" where
  "confirmation_decision confirmations checkpoint stg act msg =
    (if map_of confirmations checkpoint = Some ''confirmed'' then None
     else if map_of confirmations checkpoint = Some ''rejected'' then
       Some (blocked stg (msg @ msg_rejected_suffix))
     else Some (waiting stg act msg))"

definition has_identified_copilot_task :: "pydict \<Rightarrow> bool" where
  "has_identified_copilot_task task_view =
    (case dget (as_dict (dget task_view ''task'')) ''coding_task_id'' of
       PStr task_id \<Rightarrow> \<not> blank task_id
     | _ \<Rightarrow> False)"

definition task_recorded_impact :: "pydict \<Rightarrow> string \<Rightarrow> bool" where
  "task_recorded_impact task_view impact_report_id =
    (case dget task_view ''events'' of
       PList events \<Rightarrow>
         list_ex (\<lambda>event_value.
           let event = as_dict event_value; payload = as_dict (dget event ''payload'')
           in dget event ''event_type'' = PStr ''outputs_recorded''
              \<and> dget payload ''output_stage'' = PStr ''code_scope''
              \<and> dget payload ''impact_report_id'' = PStr impact_report_id) events
     | _ \<Rightarrow> False)"

definition decide_document_stage :: "change_flow_inputs \<Rightarrow> change_decision option result" where
  "decide_document_stage i =
    (case confirmation_decision (ci_confirmations i) ''requirement'' ''requirement_confirmation''
        ''confirm_requirement'' msg_confirm_requirement of
       Some d \<Rightarrow> Inr (Some d)
     | None \<Rightarrow>
      let discovery = ci_rag_discovery i in
      if dget discovery ''status'' \<noteq> PStr ''ready'' then
        Inr (Some (blocked ''rag_document_confirmation''
          (py_str (py_or (dget discovery ''blocking_reason'') (PStr msg_rag_unavailable)))))
      else
        (case confirmation_decision (ci_confirmations i) ''rag_documents''
            ''rag_document_confirmation'' ''confirm_rag_documents'' msg_confirm_rag_documents of
           Some d \<Rightarrow> Inr (Some d)
         | None \<Rightarrow>
          if dget (ci_request i) ''analysis_case_id'' = PNone then
            Inr (Some (waiting ''document_generation'' ''prepare_document_with_copilot''
              msg_generate_draft))
          else let total = dget (ci_diff i) ''total'' in
          if \<not> is_int total \<or> py_eq total (PInt 0) then
            Inr (Some (waiting ''document_generation'' ''prepare_document_with_copilot''
              msg_generate_draft_import))
          else let review = as_dict (dget (ci_request i) ''document_review'') in
          if dget review ''status'' = PStr ''revision_requested''
              \<and> dget (as_dict (dget (opt_dict (ci_workspace i)) ''copilot_task''))
                  ''current_stage'' = PStr ''document_change'' then
            Inr (Some (waiting ''document_revision'' ''revise_document_with_copilot''
              msg_revise_document))
          else if dget review ''status'' \<noteq> PStr ''confirmed'' then
            Inr (confirmation_decision (ci_confirmations i) ''document_diff''
              ''document_confirmation'' ''confirm_document_diff'' msg_confirm_document_diff)
          else Inr None))"

definition decide_code_scope_stage :: "change_flow_inputs \<Rightarrow> change_decision option result" where
  "decide_code_scope_stage i =
    (case ci_workspace i of
       None \<Rightarrow> Inr (Some (waiting ''impact_analysis'' ''prepare_canonical_analysis''
                 msg_prepare_analysis))
     | Some workspace \<Rightarrow>
      let impact = as_dict (dget workspace ''impact_report'') in
      if dget impact ''status'' = PStr ''blocked'' then
        Inr (Some (blocked ''impact_analysis'' msg_impact_blocked))
      else if dget impact ''id'' = PNone then
        Inr (Some (waiting ''impact_analysis'' ''prepare_canonical_analysis''
          msg_prepare_analysis))
      else let copilot_task = as_dict (dget workspace ''copilot_task'') in
      if has_identified_copilot_task copilot_task
          \<and> \<not> task_recorded_impact copilot_task (py_str (dget impact ''id'')) then
        Inr (Some (waiting ''impact_analysis'' ''analyze_code_scope_with_copilot''
          msg_reanalyze_scope))
      else
        let confirmation = as_dict (dget workspace ''confirmation'');
            code_scope =
              (if dget confirmation ''id'' = PNone \<or> dget impact ''status'' \<noteq> PStr ''confirmed''
               then confirmation_decision (ci_confirmations i) ''code_scope''
                 ''impact_confirmation'' ''confirm_code_scope'' msg_confirm_code_scope
               else None)
        in case code_scope of
             Some d \<Rightarrow> Inr (Some d)
           | None \<Rightarrow>
            let grant = as_dict (dget workspace ''approval_grant'') in
            if dget grant ''id'' = PNone then
              Inr (Some (running ''execution_approval'' ''provision_execution_scope''
                msg_provision_scope))
            else
              let execution_scope = as_dict (dget copilot_task ''execution_scope'');
                  edit_packet = as_dict (dget workspace ''edit_packet'');
                  scoped_packet_id = dget execution_scope ''edit_packet_id'';
                  scoped_grant_id = dget execution_scope ''approval_grant_id''
              in if dget execution_scope ''bound'' \<noteq> PBool True
                    \<or> scoped_packet_id \<noteq> PNone \<and> \<not> py_eq scoped_packet_id (dget edit_packet ''id'')
                    \<or> scoped_grant_id \<noteq> PNone \<and> \<not> py_eq scoped_grant_id (dget grant ''id'')
                 then Inr (Some (running ''execution_approval'' ''provision_execution_scope''
                   msg_rebind_scope))
                 else Inr None)"

definition decide_compile_test_stage :: "change_flow_inputs \<Rightarrow> change_decision option result" where
  "decide_compile_test_stage i =
    (case ci_workspace i of
       None \<Rightarrow> Inl (RuntimeError ''Change Flow reached compile/test without a Workspace'')
     | Some workspace \<Rightarrow>
      let copilot_task = as_dict (dget workspace ''copilot_task'');
          edit_packet = as_dict (dget workspace ''edit_packet'');
          edit_result = as_dict (dget workspace ''edit_result'')
      in if dget edit_result ''id'' = PNone then
        Inr (Some (waiting ''code_change'' ''apply_code_change_with_copilot''
          msg_apply_code_change))
      else
        let verification_only =
              \<not> truthy (dget_or edit_packet ''editable_files'' (PList [PStr ''pending'']));
            edit_status = dget edit_result ''status'';
            accepted_edit_status =
              (edit_status = PStr ''in_scope''
               \<or> verification_only \<and> edit_status = PStr ''no_changes'');
            validation_mode = dget edit_result ''validation_mode'';
            not_successful = blocked ''code_change'' msg_code_not_successful
        in if validation_mode = PStr ''working'' then
             (if accepted_edit_status then
                Inr (Some (waiting ''code_change'' ''apply_code_change_with_copilot''
                  msg_finish_working_change))
              else Inr (Some (blocked ''code_change'' msg_working_out_of_scope)))
           else if validation_mode \<noteq> PStr ''committed''
              \<or> \<not> accepted_edit_status
              \<or> dget edit_result ''tests_passed'' \<noteq> PBool True
              \<or> dget edit_result ''command_evidence_status'' \<noteq> PStr ''verified'' then
             Inr (Some not_successful)
           else rbind (in_set (dget edit_result ''changed_line_coverage_status'')
               [''passed'', ''not_required'']) (\<lambda>covered.
             if \<not> covered then Inr (Some not_successful)
             else if dget copilot_task ''state'' \<noteq> PStr ''completed''
                \<or> dget copilot_task ''current_stage'' \<noteq> PStr ''ui_validation'' then
               Inr (Some (waiting ''code_change'' ''generate_ui_test_plan'' msg_generate_ui_plan))
             else if \<not> ci_has_orchestration i then
               Inr (Some (running ''planning'' ''generate_orchestration''
                 msg_generate_orchestration))
             else Inr None))"

definition decide_ui_and_closure_stage :: "change_flow_inputs \<Rightarrow> change_decision result" where
  "decide_ui_and_closure_stage i =
    (let management = opt_dict (ci_execution i);
         business_coverage = as_dict (dget management ''business_coverage'')
     in if dget business_coverage ''status'' \<noteq> PStr ''passed''
           \<or> \<not> py_eq (dget business_coverage ''coverage_percent'') (PInt 100) then
          Inr (blocked ''planning'' msg_business_coverage_incomplete)
        else
          (case confirmation_decision (ci_confirmations i) ''test_plan'' ''test_plan_confirmation''
              ''confirm_test_plan'' msg_confirm_test_plan of
             Some d \<Rightarrow> Inr d
           | None \<Rightarrow>
            let data_result = as_dict (dget management ''test_data_execution'') in
            if data_result = [] then
              Inr (waiting ''test_data_execution'' ''start_test_data_execution''
                msg_start_test_data)
            else rbind (in_set (dget data_result ''status'') [''running'', ''reserved'']) (\<lambda>active.
              if active then
                Inr (running ''test_data_execution'' ''refresh'' msg_test_data_running)
              else if dget data_result ''status'' \<noteq> PStr ''passed'' then
                Inr (blocked ''test_data_execution'' msg_test_data_failed)
              else
                let execution_artifact = as_dict (dget data_result ''result'');
                    data_coverage = as_dict (dget execution_artifact ''data_coverage'')
                in if dget data_coverage ''status'' \<noteq> PStr ''passed''
                      \<or> \<not> py_eq (dget data_coverage ''coverage_percent'') (PInt 100) then
                     Inr (blocked ''test_data_execution'' msg_data_coverage_incomplete)
                   else let closure = as_dict (dget management ''change_closure'') in
                     if closure = [] then
                       Inr (waiting ''ui_verification'' ''run_ui_verification'' msg_run_ui)
                     else if dget closure ''status'' = PStr ''passed'' then
                       (case confirmation_decision (ci_confirmations i) ''final_report''
                           ''final_report_confirmation'' ''confirm_final_report''
                           msg_confirm_final_report of
                          Some d \<Rightarrow> Inr d
                        | None \<Rightarrow> Inr \<lparr>stage = ''completed'', status = ''completed'',
                            next_action = None, blocking_reason = None, message = msg_completed\<rparr>)
                     else Inr (blocked ''closure'' msg_closure_unresolved))))"

text \<open>
  \<open>for resolver in (...)\<close>: the first resolver that returns a decision ends the loop; when none
  does, the last stage decides.
\<close>

fun first_decision ::
    "('i \<Rightarrow> 'd option result) list \<Rightarrow> ('i \<Rightarrow> 'd result) \<Rightarrow> 'i \<Rightarrow> 'd result" where
  "first_decision [] final i = final i"
| "first_decision (r # rs) final i =
    rbind (r i) (\<lambda>decision. case decision of Some d \<Rightarrow> Inr d | None \<Rightarrow> first_decision rs final i)"

definition decide_change_automation :: "change_flow_inputs \<Rightarrow> change_decision result" where
  "decide_change_automation =
    first_decision [decide_document_stage, decide_code_scope_stage, decide_compile_test_stage]
      decide_ui_and_closure_stage"

definition flow_decide :: "change_flow_inputs \<Rightarrow> change_decision result" where
  "flow_decide i =
    rbind (decide_change_automation i) (\<lambda>d. rbind (validate_decision d) (\<lambda>_. Inr d))"

section \<open>Projections\<close>

record flow_projection =
  fp_internal_stage :: string
  fp_public_stage :: string
  fp_status :: string
  fp_next_action :: "string option"
  fp_confirmation_checkpoint :: "string option"
  fp_blocking_reasons :: "string list"

definition confirmation_checkpoint :: "string option \<Rightarrow> string option" where
  "confirmation_checkpoint act =
    map_of CONFIRMATION_ACTION_CHECKPOINTS (case act of None \<Rightarrow> '''' | Some a \<Rightarrow> a)"

definition flow_project :: "pydict \<Rightarrow> flow_projection result" where
  "flow_project automation =
    (let value = (case dget automation ''run'' of PDict nested \<Rightarrow> nested | _ \<Rightarrow> automation);
         internal_stage = py_str (py_or (dget value ''current_stage'') (PStr ''''));
         stat = py_str (py_or (dget value ''status'') (PStr ''''))
     in case map_of INTERNAL_TO_PUBLIC_STAGE internal_stage of
          None \<Rightarrow> Inl (ValueError (''Unknown persisted Change Flow stage: '' @ internal_stage))
        | Some public_stage \<Rightarrow>
          if stat \<notin> set AUTOMATION_STATUSES then
            Inl (ValueError (''Unknown persisted Change Flow status: '' @ stat))
          else
            let next_action_value = dget value ''next_action'';
                act = (if next_action_value = PNone then None else Some (py_str next_action_value));
                reason = py_or (dget value ''blocking_reason'') (dget value ''message'')
            in rbind (validate_decision
                 \<lparr>stage = internal_stage, status = stat, next_action = act,
                  blocking_reason = (if truthy reason then Some (py_str reason) else None),
                  message = py_str (py_or (dget value ''message'')
                    (PStr ''Persisted Change Flow state''))\<rparr>) (\<lambda>_.
               Inr \<lparr>fp_internal_stage = internal_stage, fp_public_stage = public_stage,
                 fp_status = stat, fp_next_action = act,
                 fp_confirmation_checkpoint = confirmation_checkpoint act,
                 fp_blocking_reasons =
                   (if stat = ''blocked'' \<and> truthy reason then [py_str reason] else [])\<rparr>))"

definition allows_copilot_stage :: "string \<Rightarrow> pyval \<Rightarrow> bool \<Rightarrow> bool result" where
  "allows_copilot_stage task_stage automation_stage has_review_feedback =
    (if has_review_feedback then Inr True
     else in_set automation_stage
       (case map_of COPILOT_TASK_AUTOMATION_STAGES task_stage of None \<Rightarrow> [] | Some ss \<Rightarrow> ss))"

definition is_ready_for_action :: "pydict option \<Rightarrow> string \<Rightarrow> bool result" where
  "is_ready_for_action automation act =
    (case automation of
       None \<Rightarrow> Inr False
     | Some a \<Rightarrow> rbind (flow_project a) (\<lambda>p.
         Inr (fp_status p = ''waiting'' \<and> fp_next_action p = Some act)))"

definition is_running_action :: "pydict option \<Rightarrow> string \<Rightarrow> bool result" where
  "is_running_action automation act =
    (case automation of
       None \<Rightarrow> Inr False
     | Some a \<Rightarrow> rbind (flow_project a) (\<lambda>p.
         Inr (fp_status p = ''running'' \<and> fp_next_action p = Some act)))"

definition normalized_statuses :: "string list \<Rightarrow> string \<Rightarrow> nat \<Rightarrow> string list" where
  "normalized_statuses evidence_statuses stat current_index =
    (map (\<lambda>index. if index < current_index then ''completed'' else ''waiting'') [0..<6])
      [current_index :=
        (if evidence_statuses ! current_index = ''blocked'' \<or> stat = ''blocked'' then ''blocked''
         else if evidence_statuses ! current_index = ''running'' \<or> stat = ''running'' then ''running''
         else ''waiting'')]"

definition normalize_public_stage_statuses :: "pydict \<Rightarrow> string list \<Rightarrow> string list result" where
  "normalize_public_stage_statuses automation evidence_statuses =
    (if length evidence_statuses \<noteq> length PUBLIC_STAGE_IDS then
       Inl (ValueError ''Public Change Flow evidence status count is invalid'')
     else rbind (flow_project automation) (\<lambda>projection.
       if fp_internal_stage projection = ''completed'' then
         (case find_index (\<lambda>s. s = ''blocked'') evidence_statuses of
            None \<Rightarrow> Inr (map (\<lambda>_. ''completed'') PUBLIC_STAGE_IDS)
          | Some blocked_index \<Rightarrow>
              Inr (normalized_statuses evidence_statuses (fp_status projection) blocked_index))
       else
         (case find_index (\<lambda>s. s = fp_public_stage projection) PUBLIC_STAGE_IDS of
            None \<Rightarrow> Inl (ValueError ''tuple.index(x): x not in tuple'')
          | Some public_index \<Rightarrow>
              Inr (normalized_statuses evidence_statuses (fp_status projection)
                (case find_index (\<lambda>s. s = ''blocked'')
                    (take (public_index + 1) evidence_statuses) of
                   None \<Rightarrow> public_index
                 | Some earlier_blocker \<Rightarrow> earlier_blocker)))))"

definition flow_requires_confirmation :: "pydict option \<Rightarrow> bool" where
  "flow_requires_confirmation flow =
    (case flow of
       None \<Rightarrow> False
     | Some f \<Rightarrow>
       (case dget f ''stages'' of
          PList stages \<Rightarrow> list_ex (\<lambda>stg.
            case stg of
              PDict s \<Rightarrow>
                (case dget s ''details'' of
                   PDict details \<Rightarrow> is_dict (dget details ''confirmation'')
                 | _ \<Rightarrow> False)
            | _ \<Rightarrow> False) stages
        | _ \<Rightarrow> False))"

section \<open>The gates of the flow\<close>


definition confirmed :: "change_flow_inputs \<Rightarrow> string \<Rightarrow> bool" where
  "confirmed i checkpoint \<longleftrightarrow> map_of (ci_confirmations i) checkpoint = Some ''confirmed''"

definition revision_pending :: "change_flow_inputs \<Rightarrow> bool" where
  "revision_pending i \<longleftrightarrow>
    dget (as_dict (dget (ci_request i) ''document_review'')) ''status'' = PStr ''revision_requested''
    \<and> dget (as_dict (dget (opt_dict (ci_workspace i)) ''copilot_task'')) ''current_stage''
        = PStr ''document_change''"

definition document_gate :: "change_flow_inputs \<Rightarrow> bool" where
  "document_gate i \<longleftrightarrow>
    confirmed i ''requirement''
    \<and> dget (ci_rag_discovery i) ''status'' = PStr ''ready''
    \<and> confirmed i ''rag_documents''
    \<and> dget (ci_request i) ''analysis_case_id'' \<noteq> PNone
    \<and> is_int (dget (ci_diff i) ''total'') \<and> \<not> py_eq (dget (ci_diff i) ''total'') (PInt 0)
    \<and> \<not> revision_pending i
    \<and> (dget (as_dict (dget (ci_request i) ''document_review'')) ''status'' = PStr ''confirmed''
       \<or> confirmed i ''document_diff'')"

definition scope_gate :: "change_flow_inputs \<Rightarrow> bool" where
  "scope_gate i \<longleftrightarrow>
    (case ci_workspace i of
       None \<Rightarrow> False
     | Some w \<Rightarrow>
       let impact = as_dict (dget w ''impact_report'');
           task = as_dict (dget w ''copilot_task'');
           grant = as_dict (dget w ''approval_grant'');
           execution_scope = as_dict (dget task ''execution_scope'');
           packet = as_dict (dget w ''edit_packet'')
       in dget impact ''status'' \<noteq> PStr ''blocked'' \<and> dget impact ''id'' \<noteq> PNone
        \<and> (has_identified_copilot_task task
            \<longrightarrow> task_recorded_impact task (py_str (dget impact ''id'')))
        \<and> (dget (as_dict (dget w ''confirmation'')) ''id'' \<noteq> PNone
             \<and> dget impact ''status'' = PStr ''confirmed''
           \<or> confirmed i ''code_scope'')
        \<and> dget grant ''id'' \<noteq> PNone
        \<and> dget execution_scope ''bound'' = PBool True
        \<and> (dget execution_scope ''edit_packet_id'' = PNone
           \<or> py_eq (dget execution_scope ''edit_packet_id'') (dget packet ''id''))
        \<and> (dget execution_scope ''approval_grant_id'' = PNone
           \<or> py_eq (dget execution_scope ''approval_grant_id'') (dget grant ''id'')))"

definition compile_gate :: "change_flow_inputs \<Rightarrow> bool" where
  "compile_gate i \<longleftrightarrow>
    (case ci_workspace i of
       None \<Rightarrow> False
     | Some w \<Rightarrow>
       let edit = as_dict (dget w ''edit_result'');
           task = as_dict (dget w ''copilot_task'')
       in dget edit ''id'' \<noteq> PNone
        \<and> dget edit ''validation_mode'' = PStr ''committed''
        \<and> (dget edit ''status'' = PStr ''in_scope''
           \<or> dget edit ''status'' = PStr ''no_changes''
             \<and> \<not> truthy (dget_or (as_dict (dget w ''edit_packet'')) ''editable_files''
                  (PList [PStr ''pending''])))
        \<and> dget edit ''tests_passed'' = PBool True
        \<and> dget edit ''command_evidence_status'' = PStr ''verified''
        \<and> dget edit ''changed_line_coverage_status'' \<in> {PStr ''passed'', PStr ''not_required''}
        \<and> dget task ''state'' = PStr ''completed''
        \<and> dget task ''current_stage'' = PStr ''ui_validation''
        \<and> ci_has_orchestration i)"

definition plan_gate :: "change_flow_inputs \<Rightarrow> bool" where
  "plan_gate i \<longleftrightarrow>
    (let coverage = as_dict (dget (opt_dict (ci_execution i)) ''business_coverage'')
     in dget coverage ''status'' = PStr ''passed''
        \<and> py_eq (dget coverage ''coverage_percent'') (PInt 100))
    \<and> confirmed i ''test_plan''"

definition data_gate :: "change_flow_inputs \<Rightarrow> bool" where
  "data_gate i \<longleftrightarrow>
    (let run = as_dict (dget (opt_dict (ci_execution i)) ''test_data_execution'');
         coverage = as_dict (dget (as_dict (dget run ''result'')) ''data_coverage'')
     in dget run ''status'' = PStr ''passed'' \<and> dget coverage ''status'' = PStr ''passed''
        \<and> py_eq (dget coverage ''coverage_percent'') (PInt 100))"

definition closure_gate :: "change_flow_inputs \<Rightarrow> bool" where
  "closure_gate i \<longleftrightarrow>
    dget (as_dict (dget (opt_dict (ci_execution i)) ''change_closure'')) ''status'' = PStr ''passed''
    \<and> confirmed i ''final_report''"

named_theorems gate_simps

lemma confirmation_decision_None [gate_simps]:
  "confirmation_decision cs c s a m = None \<longleftrightarrow> map_of cs c = Some ''confirmed''"
  by (simp add: confirmation_decision_def)

lemma case_pass [gate_simps]:
  "(case x of None \<Rightarrow> m | Some d \<Rightarrow> Inr (Some d)) = Inr None \<longleftrightarrow> x = None \<and> m = Inr None"
  by (cases x) auto

lemma if_pass [gate_simps]:
  "(if c then Inr (Some d) else m) = Inr None \<longleftrightarrow> \<not> c \<and> m = Inr None"
  by simp

lemma document_None: "decide_document_stage i = Inr None \<longleftrightarrow> document_gate i"
  unfolding decide_document_stage_def document_gate_def revision_pending_def confirmed_def Let_def
  by (simp add: gate_simps)

lemma scope_None: "decide_code_scope_stage i = Inr None \<longleftrightarrow> scope_gate i"
proof (cases "ci_workspace i")
  case None
  then show ?thesis by (simp add: decide_code_scope_stage_def scope_gate_def)
next
  case (Some w)
  then show ?thesis
    unfolding decide_code_scope_stage_def scope_gate_def confirmed_def Let_def
    by (simp add: gate_simps)
qed

lemma compile_None: "decide_compile_test_stage i = Inr None \<longleftrightarrow> compile_gate i"
proof (cases "ci_workspace i")
  case None
  then show ?thesis by (simp add: decide_compile_test_stage_def compile_gate_def)
next
  case (Some w)
  then show ?thesis
    unfolding decide_compile_test_stage_def compile_gate_def Let_def
    by (auto simp: gate_simps result_simps)
qed


definition signature :: "change_decision \<Rightarrow> string \<times> string \<times> string option" where
  "signature d = (stage d, status d, next_action d)"

lemma signature_simps [simp]:
  "signature (waiting s a m) = (s, ''waiting'', Some a)"
  "signature (running s a m) = (s, ''running'', Some a)"
  "signature (blocked s m) = (s, ''blocked'', Some ''resolve_blocker'')"
  "signature \<lparr>stage = s, status = t, next_action = ao, blocking_reason = b, message = m\<rparr> = (s, t, ao)"
  by (simp_all add: signature_def waiting_def running_def blocked_def)

lemma confirmation_decision_Some [gate_simps]:
  "confirmation_decision cs c s a m = Some d \<longleftrightarrow>
     map_of cs c = Some ''rejected'' \<and> d = blocked s (m @ msg_rejected_suffix)
     \<or> map_of cs c \<noteq> Some ''confirmed'' \<and> map_of cs c \<noteq> Some ''rejected'' \<and> d = waiting s a m"
  by (auto simp: confirmation_decision_def)

lemma case_stop [gate_simps]:
  "(case x of None \<Rightarrow> m | Some e \<Rightarrow> Inr (Some e)) = Inr (Some d)
     \<longleftrightarrow> x = Some d \<or> x = None \<and> m = Inr (Some d)"
  by (cases x) auto

lemma if_stop [gate_simps]:
  "(if c then Inr (Some e) else m) = Inr (Some d) \<longleftrightarrow> c \<and> d = e \<or> \<not> c \<and> m = Inr (Some d)"
  by auto

definition document_signatures :: "(string \<times> string \<times> string option) list" where
  "document_signatures =
    [(''requirement_confirmation'', ''waiting'', Some ''confirm_requirement''),
     (''requirement_confirmation'', ''blocked'', Some ''resolve_blocker''),
     (''rag_document_confirmation'', ''waiting'', Some ''confirm_rag_documents''),
     (''rag_document_confirmation'', ''blocked'', Some ''resolve_blocker''),
     (''document_generation'', ''waiting'', Some ''prepare_document_with_copilot''),
     (''document_revision'', ''waiting'', Some ''revise_document_with_copilot''),
     (''document_confirmation'', ''waiting'', Some ''confirm_document_diff''),
     (''document_confirmation'', ''blocked'', Some ''resolve_blocker'')]"

lemma document_decisions:
  assumes "decide_document_stage i = Inr (Some d)"
  shows "signature d \<in> set document_signatures"
  using assms unfolding decide_document_stage_def document_signatures_def Let_def
  by (auto simp: gate_simps split: if_splits)

definition scope_signatures :: "(string \<times> string \<times> string option) list" where
  "scope_signatures =
    [(''impact_analysis'', ''waiting'', Some ''prepare_canonical_analysis''),
     (''impact_analysis'', ''waiting'', Some ''analyze_code_scope_with_copilot''),
     (''impact_analysis'', ''blocked'', Some ''resolve_blocker''),
     (''impact_confirmation'', ''waiting'', Some ''confirm_code_scope''),
     (''impact_confirmation'', ''blocked'', Some ''resolve_blocker''),
     (''execution_approval'', ''running'', Some ''provision_execution_scope'')]"

lemma scope_decisions:
  assumes "decide_code_scope_stage i = Inr (Some d)"
  shows "signature d \<in> set scope_signatures"
  using assms unfolding decide_code_scope_stage_def scope_signatures_def Let_def
  by (cases "ci_workspace i") (auto simp: gate_simps split: if_splits)

definition compile_signatures :: "(string \<times> string \<times> string option) list" where
  "compile_signatures =
    [(''code_change'', ''waiting'', Some ''apply_code_change_with_copilot''),
     (''code_change'', ''waiting'', Some ''generate_ui_test_plan''),
     (''code_change'', ''blocked'', Some ''resolve_blocker''),
     (''planning'', ''running'', Some ''generate_orchestration'')]"

lemma compile_decisions:
  assumes "decide_compile_test_stage i = Inr (Some d)"
  shows "signature d \<in> set compile_signatures"
  using assms unfolding decide_compile_test_stage_def compile_signatures_def Let_def
  by (cases "ci_workspace i") (auto simp: gate_simps result_simps split: if_splits)


lemma case_final [gate_simps]:
  "(case x of None \<Rightarrow> m | Some e \<Rightarrow> Inr e) = Inr d \<longleftrightarrow> x = Some d \<or> x = None \<and> m = Inr d"
  by (cases x) auto

lemma if_final [gate_simps]:
  "(if c then Inr e else m) = Inr d \<longleftrightarrow> c \<and> d = e \<or> \<not> c \<and> m = Inr d"
  by auto

lemma if_final' [gate_simps]:
  "(if c then m else Inr e) = Inr d \<longleftrightarrow> c \<and> m = Inr d \<or> \<not> c \<and> d = e"
  by auto

definition ui_signatures :: "(string \<times> string \<times> string option) list" where
  "ui_signatures =
    [(''planning'', ''blocked'', Some ''resolve_blocker''),
     (''test_plan_confirmation'', ''waiting'', Some ''confirm_test_plan''),
     (''test_plan_confirmation'', ''blocked'', Some ''resolve_blocker''),
     (''test_data_execution'', ''waiting'', Some ''start_test_data_execution''),
     (''test_data_execution'', ''running'', Some ''refresh''),
     (''test_data_execution'', ''blocked'', Some ''resolve_blocker''),
     (''ui_verification'', ''waiting'', Some ''run_ui_verification''),
     (''closure'', ''blocked'', Some ''resolve_blocker''),
     (''final_report_confirmation'', ''waiting'', Some ''confirm_final_report''),
     (''final_report_confirmation'', ''blocked'', Some ''resolve_blocker''),
     (''completed'', ''completed'', None)]"

lemma ui_decisions:
  assumes "decide_ui_and_closure_stage i = Inr d"
  shows "signature d \<in> set ui_signatures"
  using assms unfolding decide_ui_and_closure_stage_def ui_signatures_def Let_def
  by (simp add: gate_simps result_simps) (elim disjE conjE; clarsimp)

lemma blocked_stage [simp]: "stage (blocked s m) = s"
  and waiting_stage [simp]: "stage (waiting s a m) = s"
  and running_stage [simp]: "stage (running s a m) = s"
  by (simp_all add: blocked_def waiting_def running_def)

lemma ui_plan_gate:
  assumes "decide_ui_and_closure_stage i = Inr d"
    and "stage d \<notin> {''planning'', ''test_plan_confirmation''}"
  shows "plan_gate i"
  using assms unfolding decide_ui_and_closure_stage_def plan_gate_def confirmed_def Let_def
  by (auto simp: gate_simps)

lemma ui_data_gate:
  assumes "decide_ui_and_closure_stage i = Inr d"
    and "stage d \<notin> {''planning'', ''test_plan_confirmation'', ''test_data_execution''}"
  shows "data_gate i"
  using assms unfolding decide_ui_and_closure_stage_def data_gate_def Let_def
  by (auto simp: gate_simps result_simps)

lemma ui_closure_gate:
  assumes "decide_ui_and_closure_stage i = Inr d" and "stage d = ''completed''"
  shows "closure_gate i"
  using assms unfolding decide_ui_and_closure_stage_def closure_gate_def confirmed_def Let_def
  by (auto simp: gate_simps result_simps)

lemma ui_completes:
  assumes "plan_gate i" and "data_gate i" and "closure_gate i"
  shows "decide_ui_and_closure_stage i =
    Inr \<lparr>stage = ''completed'', status = ''completed'', next_action = None,
         blocking_reason = None, message = msg_completed\<rparr>"
proof -
  let ?m = "opt_dict (ci_execution i)"
  have "as_dict (dget ?m ''test_data_execution'') \<noteq> []" "as_dict (dget ?m ''change_closure'') \<noteq> []"
    using assms(2,3) by (auto simp: data_gate_def closure_gate_def)
  then show ?thesis
    using assms
    by (simp add: decide_ui_and_closure_stage_def plan_gate_def data_gate_def closure_gate_def
        confirmed_def Let_def confirmation_decision_def)
qed

text \<open>The loop over the resolvers.\<close>

lemma decide_change_automation_cases:
  "decide_change_automation i = Inr d \<longleftrightarrow>
     decide_document_stage i = Inr (Some d)
     \<or> document_gate i \<and> decide_code_scope_stage i = Inr (Some d)
     \<or> document_gate i \<and> scope_gate i \<and> decide_compile_test_stage i = Inr (Some d)
     \<or> document_gate i \<and> scope_gate i \<and> compile_gate i
       \<and> decide_ui_and_closure_stage i = Inr d"
  by (auto simp: decide_change_automation_def result_simps document_None scope_None
      compile_None split: option.splits)

locale resolver_pipeline =
  fixes resolvers :: "('i \<Rightarrow> 'd option result) list"
    and final :: "'i \<Rightarrow> 'd result"
    and good :: "'d \<Rightarrow> bool"
    and expected :: "exn \<Rightarrow> bool"
  assumes resolver_good: "r \<in> set resolvers \<Longrightarrow> r i = Inr (Some d) \<Longrightarrow> good d"
    and final_good: "final i = Inr d \<Longrightarrow> good d"
    and resolver_error: "resolvers = before @ r # after \<Longrightarrow> (\<And>q. q \<in> set before \<Longrightarrow> q i = Inr None)
      \<Longrightarrow> r i = Inl e \<Longrightarrow> expected e"
    and final_error: "final i = Inl e \<Longrightarrow> expected e"
begin

lemma suffix_outcome:
  assumes "resolvers = before @ rest" and "\<And>q. q \<in> set before \<Longrightarrow> q i = Inr None"
  shows "case first_decision rest final i of Inl e \<Rightarrow> expected e | Inr d \<Rightarrow> good d"
  using assms
proof (induction rest arbitrary: before)
  case Nil
  then show ?case by (auto split: sum.splits intro: final_good final_error)
next
  case (Cons r rest)
  consider (error) e where "r i = Inl e" | (decides) d where "r i = Inr (Some d)"
    | (passes) "r i = Inr None"
    by (metis option.exhaust sum.exhaust)
  then show ?case
  proof cases
    case error
    with Cons.prems show ?thesis by (simp add: resolver_error [of before r rest i])
  next
    case decides
    with Cons.prems show ?thesis by (simp add: resolver_good [of r i])
  next
    case passes
    have "case first_decision rest final i of Inl e \<Rightarrow> expected e | Inr d \<Rightarrow> good d"
      using Cons.prems passes by (intro Cons.IH [of "before @ [r]"]) auto
    with passes show ?thesis by simp
  qed
qed

text \<open>Whatever the loop ends with is good, and it raises only what is expected.\<close>

lemma outcome: "case first_decision resolvers final i of Inl e \<Rightarrow> expected e | Inr d \<Rightarrow> good d"
  by (rule suffix_outcome [of "[]"]) auto

end


lemma validate_signature:
  "validate_decision d =
    (case signature d of (s, t, a) \<Rightarrow> validate_decision \<lparr>stage = s, status = t, next_action = a,
       blocking_reason = None, message = ''''\<rparr>)"
  unfolding signature_def validate_decision_def prod.case change_decision.select_convs by (rule refl)

lemma signatures_valid:
  "list_all (\<lambda>(s, t, a). validate_decision \<lparr>stage = s, status = t, next_action = a,
       blocking_reason = None, message = ''''\<rparr> = Inr ())
     (document_signatures @ scope_signatures @ compile_signatures @ ui_signatures)"
  by code_simp

lemma signature_valid:
  assumes "signature d \<in> set (document_signatures @ scope_signatures @ compile_signatures @ ui_signatures)"
  shows "validate_decision d = Inr ()"
  using assms signatures_valid unfolding list_all_iff
  by (subst validate_signature) (fastforce split: prod.splits)

lemma decisions_valid:
  "decide_document_stage i = Inr (Some d) \<Longrightarrow> validate_decision d = Inr ()"
  "decide_code_scope_stage i = Inr (Some d) \<Longrightarrow> validate_decision d = Inr ()"
  "decide_compile_test_stage i = Inr (Some d) \<Longrightarrow> validate_decision d = Inr ()"
  "decide_ui_and_closure_stage i = Inr d \<Longrightarrow> validate_decision d = Inr ()"
  using document_decisions scope_decisions compile_decisions ui_decisions
  by (auto intro!: signature_valid)

lemma decision_errors:
  "decide_document_stage i \<noteq> Inl e"
  "decide_code_scope_stage i \<noteq> Inl e"
  "decide_compile_test_stage i = Inl e \<Longrightarrow> e = TypeError ''unhashable type'' \<or> ci_workspace i = None"
  "decide_ui_and_closure_stage i = Inl e \<Longrightarrow> e = TypeError ''unhashable type''"
  unfolding decide_document_stage_def decide_code_scope_stage_def decide_compile_test_stage_def
    decide_ui_and_closure_stage_def Let_def
  by (auto simp: in_set_def rbind_eq_Inl split: option.splits if_splits)

interpretation flow: resolver_pipeline
  "[decide_document_stage, decide_code_scope_stage, decide_compile_test_stage]"
  decide_ui_and_closure_stage "\<lambda>d. validate_decision d = Inr ()"
  "\<lambda>e. e = TypeError ''unhashable type''"
proof
  fix r i d
  assume "r \<in> set [decide_document_stage, decide_code_scope_stage, decide_compile_test_stage]"
    and "r i = Inr (Some d)"
  then show "validate_decision d = Inr ()" by (auto intro: decisions_valid)
next
  fix i d
  assume "decide_ui_and_closure_stage i = Inr d"
  then show "validate_decision d = Inr ()" by (rule decisions_valid)
next
  fix before r after i e
  assume split: "[decide_document_stage, decide_code_scope_stage, decide_compile_test_stage]
      = before @ r # after"
    and passed: "\<And>q. q \<in> set before \<Longrightarrow> q i = Inr None" and error: "r i = Inl e"
  from split have "r = decide_document_stage \<or> r = decide_code_scope_stage
      \<or> r = decide_compile_test_stage \<and> decide_code_scope_stage \<in> set before"
    by (auto simp: Cons_eq_append_conv)
  with error passed have "decide_compile_test_stage i = Inl e" "decide_code_scope_stage i = Inr None"
    by (auto simp: decision_errors)
  then show "e = TypeError ''unhashable type''"
    using decision_errors(3) [of i e] by (auto simp: scope_None scope_gate_def)
next
  fix i e
  assume "decide_ui_and_closure_stage i = Inl e"
  then show "e = TypeError ''unhashable type''" by (rule decision_errors)
qed

section \<open>Properties of the decision\<close>

lemma flow_decide_eq: "flow_decide i = decide_change_automation i"
  using flow.outcome [of i]
  by (cases "decide_change_automation i") (auto simp: flow_decide_def decide_change_automation_def)

subsection \<open>A flow that passes every gate\<close>

definition passing_inputs :: change_flow_inputs where
  "passing_inputs = \<lparr>
     ci_request = [(''analysis_case_id'', PStr ''case-1''),
       (''document_review'', PDict [(''status'', PStr ''confirmed'')])],
     ci_diff = [(''total'', PInt 2)],
     ci_workspace = Some
       [(''impact_report'', PDict [(''id'', PStr ''impact-1''), (''status'', PStr ''confirmed'')]),
        (''confirmation'', PDict [(''id'', PStr ''confirmation-1'')]),
        (''approval_grant'', PDict [(''id'', PStr ''grant-1'')]),
        (''edit_packet'', PDict [(''id'', PStr ''packet-1''),
          (''editable_files'', PList [PStr ''src/app.py''])]),
        (''edit_result'', PDict [(''id'', PStr ''edit-1''), (''status'', PStr ''in_scope''),
          (''validation_mode'', PStr ''committed''), (''tests_passed'', PBool True),
          (''command_evidence_status'', PStr ''verified''),
          (''changed_line_coverage_status'', PStr ''passed'')]),
        (''copilot_task'', PDict [(''state'', PStr ''completed''),
          (''current_stage'', PStr ''ui_validation''),
          (''execution_scope'', PDict [(''bound'', PBool True),
            (''edit_packet_id'', PStr ''packet-1''), (''approval_grant_id'', PStr ''grant-1'')])])],
     ci_has_orchestration = True,
     ci_execution = Some
       [(''business_coverage'', PDict [(''status'', PStr ''passed''),
          (''coverage_percent'', PFloat 100)]),
        (''test_data_execution'', PDict [(''status'', PStr ''passed''),
          (''result'', PDict [(''data_coverage'', PDict [(''status'', PStr ''passed''),
             (''coverage_percent'', PInt 100)])])]),
        (''change_closure'', PDict [(''status'', PStr ''passed'')])],
     ci_confirmations = map (\<lambda>c. (c, ''confirmed''))
       [''requirement'', ''rag_documents'', ''document_diff'', ''code_scope'', ''test_plan'',
        ''final_report''],
     ci_rag_discovery = [(''status'', PStr ''ready'')]\<rparr>"

lemma passing_gates:
  "document_gate passing_inputs" "scope_gate passing_inputs" "compile_gate passing_inputs"
  "plan_gate passing_inputs" "data_gate passing_inputs" "closure_gate passing_inputs"
  unfolding document_gate_def scope_gate_def compile_gate_def plan_gate_def data_gate_def
    closure_gate_def confirmed_def revision_pending_def has_identified_copilot_task_def Let_def
  by (simp_all add: passing_inputs_def py_eq_def)

lemma passing_decision:
  "flow_decide passing_inputs = Inr \<lparr>stage = ''completed'', status = ''completed'',
     next_action = None, blocking_reason = None, message = msg_completed\<rparr>"
  by (simp add: flow_decide_eq decide_change_automation_cases passing_gates ui_completes)

lemma flow_valid: "flow_decide i = Inr d \<Longrightarrow> validate_decision d = Inr ()"
  by (auto simp: flow_decide_def rbind_eq_Inr)

text \<open>The two fields of the views that the resolvers look up in a set.\<close>

definition looked_up_statuses :: "change_flow_inputs \<Rightarrow> pyval list" where
  "looked_up_statuses i =
    [dget (as_dict (dget (opt_dict (ci_workspace i)) ''edit_result'')) ''changed_line_coverage_status'',
     dget (as_dict (dget (opt_dict (ci_execution i)) ''test_data_execution'')) ''status'']"

lemma lookups_decide:
  assumes "list_all hashable (looked_up_statuses i)"
  shows "decide_compile_test_stage i = Inl e \<Longrightarrow> ci_workspace i = None"
    "decide_ui_and_closure_stage i \<noteq> Inl e"
  using assms
  unfolding decide_compile_test_stage_def decide_ui_and_closure_stage_def looked_up_statuses_def Let_def
  by (auto simp: in_set_def rbind_eq_Inl split: option.splits if_splits)

lemma hashable_decides:
  assumes "list_all hashable (looked_up_statuses i)"
  shows "decide_change_automation i \<noteq> Inl e"
  using lookups_decide[OF assms] decision_errors(1,2)[of i]
  by (auto simp: decide_change_automation_def rbind_eq_Inl scope_None scope_gate_def split: option.splits)

text \<open>
  (C9) Whatever the views of the request, the workspace and the execution hold, a decision of the flow passes
  its own validation: \<open>validate_decision\<close> never rejects what the resolvers decide.  The one exception that
  can leave \<open>decide\<close> is the \<open>TypeError\<close> of a set lookup, and only when the coverage status of the edit result
  or the status of the test data run is a list or a dict; otherwise there is a decision.
\<close>

theorem decision_always_valid:
  "flow_decide i = decide_change_automation i
   \<and> (case flow_decide i of
        Inl e \<Rightarrow> e = TypeError ''unhashable type'' \<and> \<not> list_all hashable (looked_up_statuses i)
      | Inr d \<Rightarrow> validate_decision d = Inr ())"
  using flow.outcome [of i] hashable_decides [of i]
  by (auto simp: flow_decide_eq split: sum.splits) (auto simp: decide_change_automation_def)

lemma early_not_completed:
  "signature d \<in> set (document_signatures @ scope_signatures @ compile_signatures)
     \<Longrightarrow> stage d \<noteq> ''completed''"
  by (auto simp: signature_def document_signatures_def scope_signatures_def compile_signatures_def)

text \<open>
  (C1) The flow reports \<open>completed\<close> exactly when every gate holds: the documents are confirmed, the
  code scope is confirmed and bound, the committed edit is verified, business coverage is 100
  percent and the plan confirmed, test data passed with 100 percent data coverage, and the
  closure passed with the final report confirmed.
\<close>

theorem completed_iff_all_gates:
  "(\<exists>d. flow_decide i = Inr d \<and> stage d = ''completed'') \<longleftrightarrow>
     document_gate i \<and> scope_gate i \<and> compile_gate i \<and> plan_gate i \<and> data_gate i \<and> closure_gate i"
proof
  assume "\<exists>d. flow_decide i = Inr d \<and> stage d = ''completed''"
  then obtain d where d: "decide_change_automation i = Inr d" "stage d = ''completed''"
    by (auto simp: flow_decide_eq)
  then show "document_gate i \<and> scope_gate i \<and> compile_gate i \<and> plan_gate i \<and> data_gate i
      \<and> closure_gate i"
    using early_not_completed [of d] document_decisions scope_decisions compile_decisions
      ui_plan_gate [of i d] ui_data_gate [of i d] ui_closure_gate [of i d]
    by (auto simp: decide_change_automation_cases)
next
  assume "document_gate i \<and> scope_gate i \<and> compile_gate i \<and> plan_gate i \<and> data_gate i
    \<and> closure_gate i"
  then show "\<exists>d. flow_decide i = Inr d \<and> stage d = ''completed''"
    using ui_completes [of i] by (auto simp: flow_decide_eq decide_change_automation_cases)
qed

lemma stage_of_signature: "signature d \<in> set sigs \<Longrightarrow> stage d \<in> fst ` set sigs"
  by (force simp: signature_def)

text \<open>
  (C11) No decision asks for a code change or anything after it before the requirement, the RAG
  documents and the document diff are confirmed and the impact scope is confirmed, granted and
  bound to the current packet and grant.
\<close>

theorem code_change_guarded:
  assumes "flow_decide i = Inr d"
    and "map_of INTERNAL_TO_PUBLIC_STAGE (stage d)
      \<in> {Some ''compile_test'', Some ''ui_validation'', Some ''final_report''}"
    and "stage d \<noteq> ''execution_approval''"
  shows "document_gate i \<and> scope_gate i"
proof -
  have "stage d \<notin> fst ` set document_signatures" "stage d \<notin> fst ` set scope_signatures"
    using assms(2,3)
    by (auto simp: document_signatures_def scope_signatures_def INTERNAL_TO_PUBLIC_STAGE_def)
  then show ?thesis
    using assms(1) document_decisions [of i d] scope_decisions [of i d]
    by (auto simp: flow_decide_eq decide_change_automation_cases dest: stage_of_signature)
qed

theorem code_change_guarded_witness:
  "document_gate passing_inputs \<and> scope_gate passing_inputs"
  by (rule code_change_guarded [OF passing_decision]) (simp_all add: INTERNAL_TO_PUBLIC_STAGE_def)

text \<open>
  (C10) No test data is generated before business coverage is 100 percent and the test plan is
  confirmed, and no UI verification, closure or report is reached before the test data run has
  passed with 100 percent data coverage.
\<close>

theorem test_data_guarded:
  assumes "flow_decide i = Inr d"
    and "stage d \<in> {''test_data_execution'', ''ui_verification'', ''closure'',
                    ''final_report_confirmation'', ''completed''}"
  shows "document_gate i \<and> scope_gate i \<and> compile_gate i \<and> plan_gate i
    \<and> (stage d \<noteq> ''test_data_execution'' \<longrightarrow> data_gate i)"
proof -
  have "stage d \<notin> fst ` set document_signatures" "stage d \<notin> fst ` set scope_signatures"
      "stage d \<notin> fst ` set compile_signatures"
    using assms(2)
    by (auto simp: document_signatures_def scope_signatures_def compile_signatures_def)
  then show ?thesis
    using assms document_decisions [of i d] scope_decisions [of i d] compile_decisions [of i d]
      ui_plan_gate [of i d] ui_data_gate [of i d]
    by (auto simp: flow_decide_eq decide_change_automation_cases dest: stage_of_signature)
qed

theorem test_data_guarded_witness:
  "document_gate passing_inputs \<and> scope_gate passing_inputs \<and> compile_gate passing_inputs
   \<and> plan_gate passing_inputs \<and> data_gate passing_inputs"
  using test_data_guarded [OF passing_decision] by simp

lemma next_action_simps [simp]:
  "next_action (waiting s a m) = Some a"
  "next_action (running s a m) = Some a"
  "next_action (blocked s m) = Some ''resolve_blocker''"
  by (simp_all add: waiting_def running_def blocked_def)

lemma message_waiting [simp]: "message (waiting s a m) = m"
  by (simp add: waiting_def)

lemma checkpoint_simps [simp]:
  "confirmation_checkpoint None = None"
  "confirmation_checkpoint (Some ''resolve_blocker'') = None"
  "confirmation_checkpoint (Some ''prepare_document_with_copilot'') = None"
  "confirmation_checkpoint (Some ''revise_document_with_copilot'') = None"
  "confirmation_checkpoint (Some ''prepare_canonical_analysis'') = None"
  "confirmation_checkpoint (Some ''analyze_code_scope_with_copilot'') = None"
  "confirmation_checkpoint (Some ''provision_execution_scope'') = None"
  "confirmation_checkpoint (Some ''apply_code_change_with_copilot'') = None"
  "confirmation_checkpoint (Some ''generate_ui_test_plan'') = None"
  "confirmation_checkpoint (Some ''generate_orchestration'') = None"
  "confirmation_checkpoint (Some ''start_test_data_execution'') = None"
  "confirmation_checkpoint (Some ''refresh'') = None"
  "confirmation_checkpoint (Some ''run_ui_verification'') = None"
  "confirmation_checkpoint (Some ''confirm_requirement'') = Some ''requirement''"
  "confirmation_checkpoint (Some ''confirm_rag_documents'') = Some ''rag_documents''"
  "confirmation_checkpoint (Some ''confirm_document_diff'') = Some ''document_diff''"
  "confirmation_checkpoint (Some ''confirm_code_scope'') = Some ''code_scope''"
  "confirmation_checkpoint (Some ''confirm_test_plan'') = Some ''test_plan''"
  "confirmation_checkpoint (Some ''confirm_final_report'') = Some ''final_report''"
  by code_simp+

definition answered :: "change_flow_inputs \<Rightarrow> string \<Rightarrow> string \<Rightarrow> change_flow_inputs" where
  "answered i checkpoint answer =
     i\<lparr>ci_confirmations := AList.update checkpoint answer (ci_confirmations i)\<rparr>"

lemma answered_simps [simp]:
  "ci_request (answered i c a) = ci_request i"
  "ci_diff (answered i c a) = ci_diff i"
  "ci_workspace (answered i c a) = ci_workspace i"
  "ci_has_orchestration (answered i c a) = ci_has_orchestration i"
  "ci_execution (answered i c a) = ci_execution i"
  "ci_rag_discovery (answered i c a) = ci_rag_discovery i"
  "map_of (ci_confirmations (answered i c a)) k =
     (if k = c then Some a else map_of (ci_confirmations i) k)"
  by (simp_all add: answered_def update_conv')

lemma if_else_pass [gate_simps]:
  "(if c then Inr x else Inr None) = Inr (Some d) \<longleftrightarrow> c \<and> x = Some d"
  by simp

definition unanswered :: "change_flow_inputs \<Rightarrow> change_decision \<Rightarrow> bool" where
  "unanswered i d \<longleftrightarrow>
    (\<forall>c. confirmation_checkpoint (next_action d) = Some c \<longrightarrow>
       map_of (ci_confirmations i) c \<notin> {Some ''confirmed'', Some ''rejected''})"

lemma unanswered_simps [simp]:
  "unanswered i (blocked s m)"
  "unanswered i (running s ''provision_execution_scope'' m)"
  "unanswered i (running s ''generate_orchestration'' m)"
  "unanswered i (running s ''refresh'' m)"
  "unanswered i (waiting s ''prepare_document_with_copilot'' m)"
  "unanswered i (waiting s ''revise_document_with_copilot'' m)"
  "unanswered i (waiting s ''prepare_canonical_analysis'' m)"
  "unanswered i (waiting s ''analyze_code_scope_with_copilot'' m)"
  "unanswered i (waiting s ''apply_code_change_with_copilot'' m)"
  "unanswered i (waiting s ''generate_ui_test_plan'' m)"
  "unanswered i (waiting s ''start_test_data_execution'' m)"
  "unanswered i (waiting s ''run_ui_verification'' m)"
  "unanswered i \<lparr>stage = s, status = t, next_action = None, blocking_reason = b, message = m\<rparr>"
  by (simp_all add: unanswered_def)

lemma unanswered_confirmation [simp]:
  "confirmation_decision (ci_confirmations i) ''requirement'' s ''confirm_requirement'' m = Some d
     \<Longrightarrow> unanswered i d"
  "confirmation_decision (ci_confirmations i) ''rag_documents'' s ''confirm_rag_documents'' m = Some d
     \<Longrightarrow> unanswered i d"
  "confirmation_decision (ci_confirmations i) ''document_diff'' s ''confirm_document_diff'' m = Some d
     \<Longrightarrow> unanswered i d"
  "confirmation_decision (ci_confirmations i) ''code_scope'' s ''confirm_code_scope'' m = Some d
     \<Longrightarrow> unanswered i d"
  "confirmation_decision (ci_confirmations i) ''test_plan'' s ''confirm_test_plan'' m = Some d
     \<Longrightarrow> unanswered i d"
  "confirmation_decision (ci_confirmations i) ''final_report'' s ''confirm_final_report'' m = Some d
     \<Longrightarrow> unanswered i d"
  by (auto simp: confirmation_decision_def unanswered_def split: if_splits)

lemmas stop_simps = case_stop if_stop case_final if_final if_final' if_else_pass

lemma document_unanswered: "decide_document_stage i = Inr (Some d) \<Longrightarrow> unanswered i d"
  unfolding decide_document_stage_def Let_def
  by (simp only: stop_simps) (elim disjE conjE; simp)

lemma scope_unanswered: "decide_code_scope_stage i = Inr (Some d) \<Longrightarrow> unanswered i d"
proof (cases "ci_workspace i")
  case None
  then show "decide_code_scope_stage i = Inr (Some d) \<Longrightarrow> unanswered i d"
    by (auto simp: decide_code_scope_stage_def)
next
  case (Some w)
  then show "decide_code_scope_stage i = Inr (Some d) \<Longrightarrow> unanswered i d"
    unfolding decide_code_scope_stage_def Let_def Some option.case
    by (simp only: stop_simps) (elim disjE conjE; auto split: if_splits)
qed

lemma compile_no_checkpoint:
  "list_all (\<lambda>(s, t, a). confirmation_checkpoint a = None) compile_signatures"
  by code_simp

lemma compile_unanswered: "decide_compile_test_stage i = Inr (Some d) \<Longrightarrow> unanswered i d"
  using compile_decisions [of i d] compile_no_checkpoint
  by (auto simp: list_all_iff signature_def unanswered_def)

lemma ui_unanswered: "decide_ui_and_closure_stage i = Inr d \<Longrightarrow> unanswered i d"
  unfolding decide_ui_and_closure_stage_def Let_def
  by (simp only: stop_simps result_simps) (elim disjE conjE exE; auto split: if_splits)

lemma decide_unanswered: "flow_decide i = Inr d \<Longrightarrow> unanswered i d"
  by (auto simp: flow_decide_eq decide_change_automation_cases
      intro: document_unanswered scope_unanswered compile_unanswered ui_unanswered)

text \<open>
  A checkpoint the user has confirmed or rejected is never put to the user again: after the
  pending question is answered, the next decision asks another one or none.
\<close>

theorem answered_checkpoint_not_asked_again:
  assumes "confirmation_checkpoint (next_action d) = Some c"
    and "flow_decide (answered i c answer) = Inr d'" and "answer \<in> {''confirmed'', ''rejected''}"
  shows "confirmation_checkpoint (next_action d') \<noteq> Some c"
  using decide_unanswered [OF assms(2)] assms(3) by (auto simp: unanswered_def)

theorem answered_checkpoint_not_asked_again_witness:
  "confirmation_checkpoint (next_action
     (waiting ''rag_document_confirmation'' ''confirm_rag_documents'' msg_confirm_rag_documents))
     \<noteq> Some ''requirement''"
proof (rule answered_checkpoint_not_asked_again
    [where d = "waiting ''requirement_confirmation'' ''confirm_requirement'' msg_confirm_requirement"])
  show "flow_decide (answered (passing_inputs\<lparr>ci_confirmations := []\<rparr>) ''requirement'' ''confirmed'')
    = Inr (waiting ''rag_document_confirmation'' ''confirm_rag_documents'' msg_confirm_rag_documents)"
    by (simp add: flow_decide_eq decide_change_automation_def decide_document_stage_def
        passing_inputs_def confirmation_decision_def Let_def)
qed simp_all

text \<open>
  A decision stored in a row and read back by \<open>project\<close> gives the same internal stage, status,
  next action and checkpoint, under the public stage of the table.
\<close>

theorem stored_decision_projects_back:
  assumes "flow_decide i = Inr d"
    and "dget row ''run'' = PNone"
    and "dget row ''current_stage'' = PStr (stage d)"
    and "dget row ''status'' = PStr (status d)"
    and "dget row ''next_action'' = (case next_action d of None \<Rightarrow> PNone | Some a \<Rightarrow> PStr a)"
    and "dget row ''message'' = PStr (message d)"
  shows "\<exists>p. flow_project row = Inr p \<and> fp_internal_stage p = stage d
    \<and> map_of INTERNAL_TO_PUBLIC_STAGE (stage d) = Some (fp_public_stage p)
    \<and> fp_status p = status d \<and> fp_next_action p = next_action d
    \<and> fp_confirmation_checkpoint p = confirmation_checkpoint (next_action d)"
proof -
  have valid: "validate_decision d = Inr ()"
    using flow_valid assms(1) by blast
  then have known: "stage d \<in> set (map fst INTERNAL_TO_PUBLIC_STAGE)"
      "status d \<in> set AUTOMATION_STATUSES"
    by (auto simp: validate_decision_def split: if_splits)
  then obtain public where public: "map_of INTERNAL_TO_PUBLIC_STAGE (stage d) = Some public"
    by (cases "map_of INTERNAL_TO_PUBLIC_STAGE (stage d)") (auto simp: map_of_eq_None_iff)
  have nonempty: "stage d \<noteq> []" "status d \<noteq> []"
    using known by (auto simp: flow_tables)
  have act: "(if dget row ''next_action'' = PNone then None
      else Some (py_str (dget row ''next_action''))) = next_action d"
    using assms(5) by (cases "next_action d") auto
  have valid': "validate_decision \<lparr>stage = stage d, status = status d, next_action = next_action d,
      blocking_reason = b, message = m\<rparr> = Inr ()" for b m
    using valid validate_signature [of d]
    by (subst validate_signature) (simp add: signature_def)
  show ?thesis
    using assms(2,3,4) nonempty known public
    by (simp add: flow_project_def Let_def py_or_def act valid')
qed

theorem stored_decision_projects_back_witness:
  "\<exists>p. flow_project
      [(''current_stage'', PStr ''completed''), (''status'', PStr ''completed''),
       (''next_action'', PNone), (''message'', PStr msg_completed)] = Inr p
     \<and> fp_internal_stage p = ''completed'' \<and> fp_public_stage p = ''final_report''
     \<and> fp_status p = ''completed'' \<and> fp_next_action p = None"
  using stored_decision_projects_back [OF passing_decision, of
      "[(''current_stage'', PStr ''completed''), (''status'', PStr ''completed''),
        (''next_action'', PNone), (''message'', PStr msg_completed)]"]
  by (auto simp: INTERNAL_TO_PUBLIC_STAGE_def)

lemma nth_normalized:
  assumes "current < 6" and "index < 6"
  shows "normalized_statuses ev stat current ! index =
    (if index < current then ''completed''
     else if index = current then
       (if ev ! current = ''blocked'' \<or> stat = ''blocked'' then ''blocked''
        else if ev ! current = ''running'' \<or> stat = ''running'' then ''running'' else ''waiting'')
     else ''waiting'')"
  using assms by (auto simp: normalized_statuses_def nth_list_update simp del: upt_Suc)

lemma length_normalized [simp]: "length (normalized_statuses ev stat current) = 6"
  by (simp add: normalized_statuses_def)

lemma public_index_bound: "find_index (\<lambda>s. s = x) PUBLIC_STAGE_IDS = Some k \<Longrightarrow> k < 6"
  by (drule iffD1 [OF find_index_Some]) (simp add: PUBLIC_STAGE_IDS_def)

lemma normalize_cases:
  assumes "normalize_public_stage_statuses a ev = Inr ss"
  shows "length ev = 6 \<and>
    (ss = replicate 6 ''completed'' \<and> ''blocked'' \<notin> set ev
     \<or> (\<exists>k stat. k < 6 \<and> ss = normalized_statuses ev stat k \<and> (\<forall>j<k. ev ! j \<noteq> ''blocked'')))"
proof -
  have len: "length ev = 6"
    using assms by (auto simp: normalize_public_stage_statuses_def PUBLIC_STAGE_IDS_def split: if_splits)
  from assms obtain p where p: "flow_project a = Inr p"
    by (auto simp: normalize_public_stage_statuses_def result_simps)
  show ?thesis
  proof (cases "fp_internal_stage p = ''completed''")
    case True
    show ?thesis
    proof (cases "find_index (\<lambda>s. s = ''blocked'') ev")
      case None
      with assms p True len show ?thesis
        by (auto simp: normalize_public_stage_statuses_def find_index_None PUBLIC_STAGE_IDS_def
            numeral_eq_Suc)
    next
      case (Some k)
      then have "k < 6" "\<forall>j<k. ev ! j \<noteq> ''blocked''" using len by (auto simp: find_index_Some)
      with assms p True Some len show ?thesis
        by (auto simp: normalize_public_stage_statuses_def PUBLIC_STAGE_IDS_def)
    qed
  next
    case False
    then obtain k where k: "find_index (\<lambda>s. s = fp_public_stage p) PUBLIC_STAGE_IDS = Some k"
      using assms p by (auto simp: normalize_public_stage_statuses_def split: if_splits option.splits)
    let ?e = "find_index (\<lambda>s. s = ''blocked'') (take (k + 1) ev)"
    have ss: "ss = normalized_statuses ev (fp_status p) (case ?e of None \<Rightarrow> k | Some j \<Rightarrow> j)"
      using assms p False k len by (auto simp: normalize_public_stage_statuses_def PUBLIC_STAGE_IDS_def)
    note k6 = public_index_bound [OF k]
    show ?thesis
    proof (cases ?e)
      case None
      then have "\<forall>j<k. ev ! j \<noteq> ''blocked''"
        using k6 len by (force simp: find_index_None in_set_conv_nth)
      with None ss k6 len show ?thesis by auto
    next
      case (Some j)
      then have "j < 6" "\<forall>m<j. ev ! m \<noteq> ''blocked''"
        using k6 len by (auto simp: find_index_Some)
      with Some ss len show ?thesis by auto
    qed
  qed
qed

text \<open>
  The normalised public stages are fail-closed: six of them, completed up to the current one and
  waiting after it, and no stage is completed at or after a stage whose evidence is blocked.
\<close>

theorem blocker_never_overtaken:
  assumes "normalize_public_stage_statuses automation evidence = Inr ss"
  shows "length ss = 6
    \<and> (\<forall>i<6. \<forall>j<6. ss ! i = ''completed'' \<longrightarrow> evidence ! j = ''blocked'' \<longrightarrow> i < j)
    \<and> (\<exists>k\<le>6. (\<forall>i<k. ss ! i = ''completed'') \<and> (\<forall>i. k < i \<and> i < 6 \<longrightarrow> ss ! i = ''waiting'')
        \<and> (k < 6 \<longrightarrow> ss ! k \<noteq> ''completed''))"
proof -
  from normalize_cases [OF assms] consider
      (all) "length evidence = 6" "ss = replicate 6 ''completed''" "''blocked'' \<notin> set evidence"
    | (cur) k stat where "k < 6" "ss = normalized_statuses evidence stat k"
        "\<forall>j<k. evidence ! j \<noteq> ''blocked''"
    by blast
  then show ?thesis
  proof cases
    case all
    then have "\<forall>j<6. evidence ! j \<noteq> ''blocked''" by (metis nth_mem)
    with all show ?thesis by (auto intro!: exI [of _ 6])
  next
    case cur
    have done_iff: "ss ! i = ''completed'' \<longleftrightarrow> i < k" if "i < 6" for i
      using cur(1,2) that by (simp add: nth_normalized)
    have rest: "ss ! i = ''waiting''" if "k < i" "i < 6" for i
      using cur(1,2) that by (simp add: nth_normalized)
    have "i < j" if "i < 6" "j < 6" "ss ! i = ''completed''" "evidence ! j = ''blocked''" for i j
      using that done_iff [of i] cur(3) by (metis less_le_trans not_le)
    with cur(1,2) done_iff rest show ?thesis
      by (auto intro!: exI [of _ k])
  qed
qed

theorem blocker_never_overtaken_witness:
  "normalize_public_stage_statuses
      [(''current_stage'', PStr ''code_change''), (''status'', PStr ''waiting''),
       (''next_action'', PStr ''generate_ui_test_plan'')]
      [''completed'', ''completed'', ''blocked'', ''waiting'', ''waiting'', ''waiting'']
    = Inr [''completed'', ''completed'', ''blocked'', ''waiting'', ''waiting'', ''waiting'']
   \<and> length [''completed'', ''completed'', ''blocked'', ''waiting'', ''waiting'', ''waiting''] = 6"
proof -
  have run: "normalize_public_stage_statuses
      [(''current_stage'', PStr ''code_change''), (''status'', PStr ''waiting''),
       (''next_action'', PStr ''generate_ui_test_plan'')]
      [''completed'', ''completed'', ''blocked'', ''waiting'', ''waiting'', ''waiting'']
    = Inr [''completed'', ''completed'', ''blocked'', ''waiting'', ''waiting'', ''waiting'']"
    by code_simp
  show ?thesis using run blocker_never_overtaken [OF run] by simp
qed

end
