(* ===== verification/CanonicalJson.thy ===== *)
theory CanonicalJson
  imports PyBase "HOL-Library.Word" "HOL-Library.Multiset"
begin

text \<open>
  The canonical digest of \<open>run_context_values.py\<close>: \<open>json.dumps\<close> with sorted keys, compact
  separators and \<open>ensure_ascii=False\<close>, hashed by SHA-256, which is written out on 32-bit words.
  The same serialisation and hash name the changes, the nodes and the queries of the domain.
  The lemmas show that the digest does not depend on the order of the items of an object, at
  whatever depth.
\<close>

unbundle bit_operations_syntax

section \<open>SHA-256\<close>

text \<open>
  The round constants are the first 32 bits of the fractional parts of the cube roots of the first
  64 primes, the initial state those of the square roots of the first 8.
\<close>

definition sha256_k :: "32 word list" where
  "sha256_k =
    [1116352408, 1899447441, 3049323471, 3921009573, 961987163, 1508970993, 2453635748, 2870763221,
     3624381080, 310598401, 607225278, 1426881987, 1925078388, 2162078206, 2614888103, 3248222580,
     3835390401, 4022224774, 264347078, 604807628, 770255983, 1249150122, 1555081692, 1996064986,
     2554220882, 2821834349, 2952996808, 3210313671, 3336571891, 3584528711, 113926993, 338241895,
     666307205, 773529912, 1294757372, 1396182291, 1695183700, 1986661051, 2177026350, 2456956037,
     2730485921, 2820302411, 3259730800, 3345764771, 3516065817, 3600352804, 4094571909, 275423344,
     430227734, 506948616, 659060556, 883997877, 958139571, 1322822218, 1537002063, 1747873779,
     1955562222, 2024104815, 2227730452, 2361852424, 2428436474, 2756734187, 3204031479, 3329325298]"

definition sha256_init :: "32 word list" where
  "sha256_init =
    [1779033703, 3144134277, 1013904242, 2773480762, 1359893119, 2600822924, 528734635, 1541459225]"

definition rotr :: "nat \<Rightarrow> 32 word \<Rightarrow> 32 word" where
  "rotr n x = (drop_bit n x) OR (push_bit (32 - n) x)"

definition schedule_word :: "32 word list \<Rightarrow> 32 word" where
  "schedule_word w =
    (let n = length w; x = w ! (n - 15); y = w ! (n - 2);
         s0 = rotr 7 x XOR rotr 18 x XOR drop_bit 3 x;
         s1 = rotr 17 y XOR rotr 19 y XOR drop_bit 10 y
     in w ! (n - 16) + s0 + w ! (n - 7) + s1)"

fun extend_schedule :: "nat \<Rightarrow> 32 word list \<Rightarrow> 32 word list" where
  "extend_schedule 0 w = w"
| "extend_schedule (Suc k) w = extend_schedule k (w @ [schedule_word w])"

fun sha256_round :: "32 word list \<Rightarrow> 32 word \<times> 32 word \<Rightarrow> 32 word list" where
  "sha256_round [a, b, c, d, e, f, g, h] (k, w) =
    (let s1 = rotr 6 e XOR rotr 11 e XOR rotr 25 e;
         ch = (e AND f) XOR (NOT e AND g);
         t1 = h + s1 + ch + k + w;
         s0 = rotr 2 a XOR rotr 13 a XOR rotr 22 a;
         maj = (a AND b) XOR (a AND c) XOR (b AND c);
         t2 = s0 + maj
     in [t1 + t2, a, b, c, d + t1, e, f, g])"
| "sha256_round st kw = st"

definition sha256_block :: "32 word list \<Rightarrow> 32 word list \<Rightarrow> 32 word list" where
  "sha256_block st block =
    map2 (+) st (foldl sha256_round st (zip sha256_k (extend_schedule 48 block)))"

definition be_bytes :: "nat \<Rightarrow> nat \<Rightarrow> nat list" where
  "be_bytes n x = map (\<lambda>i. x div 256 ^ (n - 1 - i) mod 256) [0..<n]"

definition sha256_pad :: "nat list \<Rightarrow> nat list" where
  "sha256_pad bytes =
    bytes @ [128] @ replicate ((119 - length bytes mod 64) mod 64) 0
      @ be_bytes 8 (8 * length bytes mod 2 ^ 64)"

fun chunks :: "nat \<Rightarrow> nat \<Rightarrow> 'a list \<Rightarrow> 'a list list" where
  "chunks 0 n xs = []"
| "chunks (Suc k) n xs = take n xs # chunks k n (drop n xs)"

definition be_word :: "nat list \<Rightarrow> 32 word" where
  "be_word bs = of_nat (foldl (\<lambda>acc b. 256 * acc + b) 0 bs)"

definition sha256 :: "string \<Rightarrow> 32 word list" where
  "sha256 s =
    (let padded = sha256_pad (map of_char s)
     in foldl sha256_block sha256_init
          (map (\<lambda>block. map be_word (chunks 16 4 block))
            (chunks (length padded div 64) 64 padded)))"

definition hex_word :: "32 word \<Rightarrow> string" where
  "hex_word w = map (\<lambda>i. hex_digit (unat w div 16 ^ (7 - i) mod 16)) [0..<8]"

text \<open>\<open>sha256(s.encode()).hexdigest()\<close>.\<close>

definition sha256_hex :: "string \<Rightarrow> string" where
  "sha256_hex s = concat (map hex_word (sha256 s))"

section \<open>json.dumps\<close>

definition json_char :: "char \<Rightarrow> string" where
  "json_char c =
    (let n = (of_char c :: nat)
     in if c = CHR 0x22 then [CHR 0x5C, CHR 0x22]
        else if c = CHR 0x5C then [CHR 0x5C, CHR 0x5C]
        else if n = 10 then [CHR 0x5C, CHR ''n'']
        else if n = 13 then [CHR 0x5C, CHR ''r'']
        else if n = 9 then [CHR 0x5C, CHR ''t'']
        else if n = 12 then [CHR 0x5C, CHR ''f'']
        else if n = 8 then [CHR 0x5C, CHR ''b'']
        else if n < 32 then [CHR 0x5C] @ ''u00'' @ [hex_digit (n div 16), hex_digit (n mod 16)]
        else [c])"

definition json_string :: "string \<Rightarrow> string" where
  "json_string s = [CHR 0x22] @ concat (map json_char s) @ [CHR 0x22]"

definition json_object :: "(string \<times> string) list \<Rightarrow> string" where
  "json_object members =
    ''{'' @ join '','' (map (\<lambda>(k, v). json_string k @ '':'' @ v) (sort_key fst members)) @ ''}''"

text \<open>\<open>json.dumps(v, ensure_ascii=False, separators=(",", ":"), sort_keys=True)\<close>.\<close>

fun json_dumps :: "pyval \<Rightarrow> string" where
  "json_dumps PNone = ''null''"
| "json_dumps (PBool b) = (if b then ''true'' else ''false'')"
| "json_dumps (PInt i) = show_int i"
| "json_dumps (PFloat q) = float_repr q"
| "json_dumps (PStr s) = json_string s"
| "json_dumps (PList vs) = ''['' @ join '','' (map json_dumps vs) @ '']''"
| "json_dumps (PDict d) = json_object (map (\<lambda>(k, v). (k, json_dumps v)) d)"

definition canonical_digest :: "pyval \<Rightarrow> string" where
  "canonical_digest value = sha256_hex (json_dumps value)"

section \<open>The digest ignores the order of object members\<close>

lemma sort_key_permuted:
  assumes "distinct (map fst xs)" and "mset xs = mset ys"
  shows "sort_key fst xs = sort_key fst ys"
  using assms by (intro sort_key_inj_key_eq) (auto simp: distinct_map)

text \<open>Two documents that differ only in the order of the members of their objects.\<close>

inductive same_document :: "pyval \<Rightarrow> pyval \<Rightarrow> bool" where
  same_refl: "same_document v v"
| same_list: "list_all2 same_document vs ws \<Longrightarrow> same_document (PList vs) (PList ws)"
| same_dict: "list_all2 (rel_prod (=) same_document) d e \<Longrightarrow> same_document (PDict d) (PDict e)"
| same_swap: "distinct (map fst d) \<Longrightarrow> mset d = mset e \<Longrightarrow> same_document (PDict d) (PDict e)"
| same_trans: "same_document u v \<Longrightarrow> same_document v w \<Longrightarrow> same_document u w"
monos list.rel_mono prod.rel_mono

lemma same_document_dumps: "same_document v w \<Longrightarrow> json_dumps v = json_dumps w"
proof (induction rule: same_document.induct)
  case (same_list vs ws)
  then have "map json_dumps vs = map json_dumps ws"
    by (induction rule: list_all2_induct) auto
  then show ?case by simp
next
  case (same_dict d e)
  then have "map (\<lambda>(k, v). (k, json_dumps v)) d = map (\<lambda>(k, v). (k, json_dumps v)) e"
    by (induction rule: list_all2_induct) (auto simp: rel_prod_sel)
  then show ?case by (simp add: json_object_def)
next
  case (same_swap d e)
  then have "sort_key fst (map (\<lambda>(k, v). (k, json_dumps v)) d)
      = sort_key fst (map (\<lambda>(k, v). (k, json_dumps v)) e)"
    by (intro sort_key_permuted) (simp_all add: case_prod_beta comp_def)
  then show ?case by (simp add: json_object_def)
qed auto

end
