(* ===== verification/RunContext.thy ===== *)
theory RunContext
  imports CanonicalJson
begin

text \<open>
  The run context of \<open>application/run_context.py\<close> and \<open>run_context_values.py\<close>: the read-only
  runtime variables of a run, the flow-local variables, the frozen data bindings and the order in
  which the flows run.  The stores of bindings and of local variables are write-once; both meet
  the interface \<open>write_once\<close>, whose lemmas carry the claims about whole runs.
\<close>

section \<open>Times\<close>

text \<open>
  A \<open>datetime\<close> is the microseconds of its wall clock since 0001-01-01T00:00:00 and its offset
  from UTC in microseconds, \<open>None\<close> for a naive one.
\<close>

record datetime =
  dt_wall :: int
  dt_utcoffset :: "int option"

definition us_per_day :: int where "us_per_day = 86400000000"

definition astimezone_utc :: "int \<Rightarrow> int \<Rightarrow> int result" where
  "astimezone_utc wall offset =
    (let utc = wall - offset
     in if utc < 0 \<or> 3652059 * us_per_day \<le> utc then Inl (OverflowError ''date value out of range'')
        else Inr utc)"

text \<open>Year, month and day of a day number, by the 400-year cycle of the Gregorian calendar.\<close>

definition civil_date :: "int \<Rightarrow> int \<times> int \<times> int" where
  "civil_date day =
    (let z = day + 306;
         era = z div 146097;
         doe = z mod 146097;
         yoe = (doe - doe div 1460 + doe div 36524 - doe div 146096) div 365;
         doy = doe - (365 * yoe + yoe div 4 - yoe div 100);
         mp = (5 * doy + 2) div 153;
         d = doy - (153 * mp + 2) div 5 + 1;
         m = (if mp < 10 then mp + 3 else mp - 9)
     in (yoe + era * 400 + (if m \<le> 2 then 1 else 0), m, d))"

text \<open>\<open>isoformat().replace("+00:00", "Z")\<close> of a UTC time, and \<open>%Y%m%d\<close>.\<close>

definition utc_isoformat :: "int \<Rightarrow> string" where
  "utc_isoformat us =
    (let (y, m, d) = civil_date (us div us_per_day); t = us mod us_per_day; micro = t mod 1000000;
         s = t div 1000000
     in zero_pad 4 y @ ''-'' @ zero_pad 2 m @ ''-'' @ zero_pad 2 d @ ''T''
        @ zero_pad 2 (s div 3600) @ '':'' @ zero_pad 2 (s div 60 mod 60) @ '':''
        @ zero_pad 2 (s mod 60)
        @ (if micro = 0 then '''' else ''.'' @ zero_pad 6 micro) @ ''Z'')"

definition compact_date :: "int \<Rightarrow> string" where
  "compact_date us =
    (let (y, m, d) = civil_date (us div us_per_day) in zero_pad 4 y @ zero_pad 2 m @ zero_pad 2 d)"

definition upper_char :: "char \<Rightarrow> char" where
  "upper_char c =
     (if 97 \<le> (of_char c :: nat) \<and> (of_char c :: nat) \<le> 122 then char_of ((of_char c :: nat) - 32)
      else c)"

definition build_test_data_token :: "string \<Rightarrow> string \<Rightarrow> int \<Rightarrow> string" where
  "build_test_data_token project_id run_id started_at =
    (let suffix = map upper_char (take 8 (sha256_hex (project_id @ [CHR 0x00] @ run_id)))
     in ''OM-E2E-'' @ compact_date started_at @ ''-'' @ suffix)"

section \<open>The order of the flows\<close>

type_synonym flow_graph = "(string \<times> string list) list"

text \<open>
  \<open>_topological_flow_order\<close>: every dependency must be a flow and none a flow's own; then the
  flows that wait for nothing are taken, sorted, and removed from what the others wait for.
\<close>

definition check_flow :: "flow_graph \<Rightarrow> string \<times> string list \<Rightarrow> unit result" where
  "check_flow dependencies entry =
    (case entry of (flow_id, values) \<Rightarrow>
      let unknown = filter (\<lambda>v. v \<notin> set (map fst dependencies)) values
      in if unknown \<noteq> [] then
           Inl (ValueError (flow_id @ '': Flow dependencies do not exist: ''
             @ py_repr (PStrs (sorted_set unknown))))
         else if flow_id \<in> set values then
           Inl (ValueError (flow_id @ '': Flow cannot depend on itself''))
         else Inr ())"

definition ready_flows :: "flow_graph \<Rightarrow> string list" where
  "ready_flows remaining = sort (map fst (filter (\<lambda>(k, values). values = []) remaining))"

definition drop_ready :: "string list \<Rightarrow> flow_graph \<Rightarrow> flow_graph" where
  "drop_ready ready remaining =
    map (\<lambda>(k, values). (k, filter (\<lambda>v. v \<notin> set ready) values))
      (filter (\<lambda>(k, values). k \<notin> set ready) remaining)"

lemma length_drop_ready:
  assumes "ready_flows remaining \<noteq> []"
  shows "length (drop_ready (ready_flows remaining) remaining) < length remaining"
proof -
  have "filter (\<lambda>(k, values). values = []) remaining \<noteq> []"
    using assms by (auto simp: ready_flows_def)
  then obtain k where "(k, []) \<in> set remaining" "k \<in> set (ready_flows remaining)"
    by (auto simp: ready_flows_def filter_empty_conv) force
  then show ?thesis
    by (auto simp: drop_ready_def intro!: length_filter_less)
qed

function topological_loop :: "flow_graph \<Rightarrow> string list result" where
  "topological_loop remaining =
    (if remaining = [] then Inr []
     else let ready = ready_flows remaining
       in if ready = [] then
            Inl (ValueError (''Flow dependency cycle exists: ''
              @ py_repr (PStrs (sort (map fst remaining)))))
          else rbind (topological_loop (drop_ready ready remaining)) (\<lambda>rest. Inr (ready @ rest)))"
  by pat_completeness auto
termination
  by (relation "measure length") (auto simp: length_drop_ready)

declare topological_loop.simps [simp del]

definition topological_flow_order :: "flow_graph \<Rightarrow> string list result" where
  "topological_flow_order dependencies =
    rbind (mapM (check_flow dependencies) dependencies) (\<lambda>_. topological_loop dependencies)"

definition flow_dependencies_from_plan :: "pydict list \<Rightarrow> flow_graph" where
  "flow_dependencies_from_plan flows =
    foldl (\<lambda>result flow.
      let raw = dget_or flow ''depends_on_flows'' (PList []);
          values = (case raw of PList vs \<Rightarrow> vs | _ \<Rightarrow> [])
      in AList.update (py_str (dget_or flow ''flow_id'' (PStr ''''))) (map py_str values) result)
    [] flows"

section \<open>The context\<close>

record run_context =
  rc_project_id :: string
  rc_run_id :: string
  rc_runtime_variables :: pydict
  rc_execution_order :: "string list"
  rc_flow_dependencies :: flow_graph
  rc_local_variables :: "(string \<times> pydict) list"
  rc_frozen_data_bindings :: "(string \<times> pydict) list"
  rc_evidence_refs :: "string list"

definition SYSTEM_RUNTIME_VARIABLE_NAMES :: "string list" where
  "SYSTEM_RUNTIME_VARIABLE_NAMES =
    [''operamind_run_id'', ''test_data_token'', ''execution_started_at'']"

definition new_run_context :: "string \<Rightarrow> string \<Rightarrow> datetime \<Rightarrow> flow_graph \<Rightarrow> run_context result" where
  "new_run_context project_id run_id execution_started_at dependencies =
    (if blank project_id \<or> blank run_id then
       Inl (ValueError ''RunContext scope must not be blank'')
     else case dt_utcoffset execution_started_at of
       None \<Rightarrow> Inl (ValueError ''RunContext execution_started_at must include a timezone'')
     | Some offset \<Rightarrow>
         rbind (astimezone_utc (dt_wall execution_started_at) offset) (\<lambda>started_at.
         rbind (topological_flow_order dependencies) (\<lambda>order.
           Inr \<lparr>rc_project_id = project_id, rc_run_id = run_id,
             rc_runtime_variables =
               [(''operamind_run_id'', PStr run_id),
                (''test_data_token'', PStr (build_test_data_token project_id run_id started_at)),
                (''execution_started_at'', PStr (utc_isoformat started_at))],
             rc_execution_order = order,
             rc_flow_dependencies = dependencies,
             rc_local_variables = map (\<lambda>(flow_id, _). (flow_id, [])) dependencies,
             rc_frozen_data_bindings = [],
             rc_evidence_refs = []\<rparr>)))"

definition evidence_refs :: "run_context \<Rightarrow> string list" where
  "evidence_refs c = sorted_set (rc_evidence_refs c)"

definition local_variables_for_flow :: "run_context \<Rightarrow> string \<Rightarrow> pydict result" where
  "local_variables_for_flow c flow_id =
    (case map_of (rc_local_variables c) flow_id of
       None \<Rightarrow> Inl (ValueError (''RunContext Flow is not registered: '' @ flow_id))
     | Some local \<Rightarrow> Inr local)"

text \<open>\<open>{**runtime_variables, **local}\<close>: the local items are written over the runtime ones.\<close>

definition variables_for_flow :: "run_context \<Rightarrow> string \<Rightarrow> pydict result" where
  "variables_for_flow c flow_id =
    rbind (local_variables_for_flow c flow_id) (\<lambda>local.
      Inr (foldl (\<lambda>d (k, v). AList.update k v d) (rc_runtime_variables c) local))"

definition set_local_variable ::
    "run_context \<Rightarrow> string \<Rightarrow> string \<Rightarrow> pyval \<Rightarrow> run_context result" where
  "set_local_variable c flow_id name value =
    (if name \<in> set SYSTEM_RUNTIME_VARIABLE_NAMES then
       Inl (ValueError (''System Run variable is read-only: '' @ name))
     else rbind (local_variables_for_flow c flow_id) (\<lambda>local.
       if name \<in> set (map fst local) then
         Inl (ValueError (''Flow-local variable is already defined: '' @ flow_id @ ''/'' @ name))
       else Inr (c\<lparr>rc_local_variables :=
         AList.update flow_id (AList.update name value local) (rc_local_variables c)\<rparr>)))"

definition validate_binding :: "run_context \<Rightarrow> pydict \<Rightarrow> string option \<Rightarrow> string result" where
  "validate_binding c binding expected_test_data_id =
    (let project_id = py_str (dget_or binding ''project_id'' (PStr ''''));
         run_id = py_str (dget_or binding ''run_id'' (PStr ''''));
         test_data_id = py_str (dget_or binding ''test_data_id'' (PStr ''''))
     in if project_id \<noteq> rc_project_id c then
          Inl (ValueError ''Frozen Data binding belongs to another Project'')
        else if run_id \<noteq> rc_run_id c then
          Inl (ValueError ''Frozen Data binding belongs to another Run'')
        else if test_data_id = [] \<or> expected_test_data_id \<notin> {None, Some test_data_id} then
          Inl (ValueError ''Frozen Data binding Test Data identity differs'')
        else
          let expected_digest = py_str (dget_or binding ''content_digest'' (PStr ''''));
              payload = filter (\<lambda>(k, v). k \<notin> {''content_digest'', ''evidence_ref''}) binding
          in if expected_digest \<noteq> canonical_digest (PDict payload) then
               Inl (ValueError ''Frozen Data binding content digest differs'')
             else Inr test_data_id)"

definition freeze_binding :: "run_context \<Rightarrow> pydict \<Rightarrow> run_context result" where
  "freeze_binding c binding =
    rbind (validate_binding c binding None) (\<lambda>test_data_id.
      if test_data_id \<in> set (map fst (rc_frozen_data_bindings c)) then
        Inl (ValueError (''Data binding is already frozen: '' @ test_data_id))
      else Inr (c\<lparr>rc_frozen_data_bindings :=
        AList.update test_data_id binding (rc_frozen_data_bindings c)\<rparr>))"

definition resolve_binding :: "run_context \<Rightarrow> string \<Rightarrow> pydict result" where
  "resolve_binding c test_data_id =
    (case map_of (rc_frozen_data_bindings c) test_data_id of
       None \<Rightarrow> Inl (ValueError (''Frozen Data binding does not exist: '' @ test_data_id))
     | Some binding \<Rightarrow>
         rbind (validate_binding c binding (Some test_data_id)) (\<lambda>_. Inr binding))"

text \<open>
  The references before a blank one are already added when the exception leaves
  \<open>add_evidence_refs\<close>: the new state comes with the outcome.
\<close>

fun add_evidence_refs :: "run_context \<Rightarrow> string list \<Rightarrow> run_context \<times> unit result" where
  "add_evidence_refs c [] = (c, Inr ())"
| "add_evidence_refs c (value # values) =
    (if blank value then (c, Inl (ValueError ''RunContext Evidence ref must not be blank''))
     else add_evidence_refs
       (c\<lparr>rc_evidence_refs := List.insert value (rc_evidence_refs c)\<rparr>) values)"

definition run_context_artifact :: "run_context \<Rightarrow> pydict" where
  "run_context_artifact c =
    [(''runtime_variables'', PDict (rc_runtime_variables c)),
     (''frozen_data_bindings'', PList (map PDict
        (map snd (sort_key fst (rc_frozen_data_bindings c))))),
     (''flow_dependencies'', PDict
        (map (\<lambda>(k, values). (k, PStrs values)) (sort_key fst (rc_flow_dependencies c)))),
     (''evidence_refs'', PStrs (evidence_refs c))]"

section \<open>The order is a topological order\<close>

definition precedes :: "'a list \<Rightarrow> 'a \<Rightarrow> 'a \<Rightarrow> bool" where
  "precedes xs a b \<longleftrightarrow> (\<exists>us vs. xs = us @ vs \<and> a \<in> set us \<and> b \<in> set vs)"

lemma precedes_append1: "precedes ys a b \<Longrightarrow> precedes (xs @ ys) a b"
  unfolding precedes_def by (metis append.assoc set_append UnI2)

lemma precedes_append2: "a \<in> set xs \<Longrightarrow> b \<in> set ys \<Longrightarrow> precedes (xs @ ys) a b"
  unfolding precedes_def by blast

definition closed_graph :: "flow_graph \<Rightarrow> bool" where
  "closed_graph g \<longleftrightarrow> (\<forall>(f, ds)\<in>set g. set ds \<subseteq> set (map fst g))"

definition depends :: "flow_graph \<Rightarrow> (string \<times> string) set" where
  "depends g = {(d, f). \<exists>ds. (f, ds) \<in> set g \<and> d \<in> set ds}"

lemma ready_iff: "k \<in> set (ready_flows g) \<longleftrightarrow> (k, []) \<in> set g"
  by (force simp: ready_flows_def)

lemma ready_empty_values:
  "distinct (map fst g) \<Longrightarrow> (f, ds) \<in> set g \<Longrightarrow> f \<in> set (ready_flows g) \<longleftrightarrow> ds = []"
  by (metis ready_iff eq_key_imp_eq_value)

lemma keys_drop_ready: "map fst (drop_ready r g) = filter (\<lambda>k. k \<notin> set r) (map fst g)"
  by (induction g) (auto simp: drop_ready_def)

lemma drop_ready_mem:
  "(f, es) \<in> set (drop_ready r g) \<longleftrightarrow>
     f \<notin> set r \<and> (\<exists>ds. (f, ds) \<in> set g \<and> es = filter (\<lambda>v. v \<notin> set r) ds)"
  by (force simp: drop_ready_def)

lemma closed_drop_ready: "closed_graph g \<Longrightarrow> closed_graph (drop_ready r g)"
  unfolding closed_graph_def keys_drop_ready by (fastforce simp: drop_ready_mem)

lemma depends_drop_ready: "depends (drop_ready r g) \<subseteq> depends g"
  by (auto simp: depends_def drop_ready_mem)

lemma mset_ready:
  assumes "distinct (map fst g)"
  shows "mset (map fst g) = mset (ready_flows g) + mset (map fst (drop_ready (ready_flows g) g))"
proof -
  have "filter (\<lambda>k. k \<in> set (ready_flows g)) (map fst g) = map fst (filter (\<lambda>(k, vs). vs = []) g)"
    unfolding filter_map comp_def
    by (rule arg_cong [where f = "map fst"], rule filter_cong)
      (auto simp: ready_empty_values [OF assms])
  then show ?thesis
    unfolding keys_drop_ready
    by (metis mset_sort multiset_partition mset_filter ready_flows_def)
qed

lemma topological_loop_sound:
  assumes "topological_loop g = Inr order" and "distinct (map fst g)" and "closed_graph g"
  shows "mset order = mset (map fst g)
    \<and> (\<forall>f ds d. (f, ds) \<in> set g \<longrightarrow> d \<in> set ds \<longrightarrow> precedes order d f)"
  using assms
proof (induction g arbitrary: order rule: topological_loop.induct)
  case (1 g)
  show ?case
  proof (cases "g = []")
    case True
    with "1.prems"(1) show ?thesis by (subst (asm) topological_loop.simps) simp
  next
    case False
    let ?r = "ready_flows g" and ?h = "drop_ready (ready_flows g) g"
    from "1.prems"(1) False obtain rest where
      r: "?r \<noteq> []" "topological_loop ?h = Inr rest" "order = ?r @ rest"
      by (subst (asm) topological_loop.simps) (auto simp: result_simps Let_def split: if_splits)
    have IH: "mset rest = mset (map fst ?h)"
        "\<And>f es d. (f, es) \<in> set ?h \<Longrightarrow> d \<in> set es \<Longrightarrow> precedes rest d f"
      using "1.IH" [OF False refl r(1) r(2)] "1.prems"(2,3)
      by (auto simp: closed_drop_ready keys_drop_ready)
    have "precedes order d f" if "(f, ds) \<in> set g" "d \<in> set ds" for f ds d
    proof -
      have f: "f \<notin> set ?r" using that ready_empty_values [OF "1.prems"(2) that(1)] by auto
      then have h: "(f, filter (\<lambda>v. v \<notin> set ?r) ds) \<in> set ?h"
        using that by (auto simp: drop_ready_mem)
      show ?thesis
      proof (cases "d \<in> set ?r")
        case True
        have "f \<in> set rest"
          using h IH(1) by (metis fst_conv image_eqI list.set_map set_mset_mset)
        with True r(3) show ?thesis by (simp add: precedes_append2)
      next
        case False
        with h that IH(2) r(3) show ?thesis by (auto intro: precedes_append1)
      qed
    qed
    with mset_ready [OF "1.prems"(2)] IH(1) r(3) show ?thesis by simp
  qed
qed

lemma topological_loop_complete:
  assumes "distinct (map fst g)" and "closed_graph g" and "acyclic (depends g)"
  shows "\<exists>order. topological_loop g = Inr order"
  using assms
proof (induction g rule: topological_loop.induct)
  case (1 g)
  show ?case
  proof (cases "g = []")
    case True
    then show ?thesis by (subst topological_loop.simps) simp
  next
    case False
    have "finite (depends g)"
      by (rule finite_subset [where B = "(\<Union>(f, ds)\<in>set g. set ds) \<times> fst ` set g"])
        (force simp: depends_def)+
    with "1.prems"(3) have "wf (depends g)" by (simp add: finite_acyclic_wf)
    moreover have "hd (map fst g) \<in> set (map fst g)" using False by (cases g) auto
    ultimately obtain k where k: "k \<in> set (map fst g)"
        "\<And>d. (d, k) \<in> depends g \<Longrightarrow> d \<notin> set (map fst g)"
      by (meson wf_eq_minimal)
    then obtain ds where ds: "(k, ds) \<in> set g" by auto
    have "ds = []"
      using k(2) ds "1.prems"(2) by (cases ds) (force simp: depends_def closed_graph_def)+
    with ds have r: "ready_flows g \<noteq> []" by (metis empty_iff list.set(1) ready_iff)
    have "\<exists>order. topological_loop (drop_ready (ready_flows g) g) = Inr order"
      using "1.IH" [OF False refl r] "1.prems"
        acyclic_subset [OF "1.prems"(3) depends_drop_ready]
      by (auto simp: closed_drop_ready keys_drop_ready)
    with False r show ?thesis by (subst topological_loop.simps) (auto simp: Let_def)
  qed
qed

lemma check_flow_ok:
  "mapM (check_flow g) g = Inr us \<Longrightarrow> closed_graph g"
  unfolding mapM_eq_Inr closed_graph_def
  by (fastforce simp: list_all2_conv_all_nth in_set_conv_nth check_flow_def Let_def
      filter_empty_conv split: if_splits prod.splits)

lemma check_flow_total:
  assumes "closed_graph g" and "acyclic (depends g)"
  shows "mapM (check_flow g) g = Inr (map (\<lambda>_. ()) g)"
proof (rule mapM_total)
  fix e
  assume e: "e \<in> set g"
  obtain f ds where fd: "e = (f, ds)" by (cases e)
  have "f \<notin> set ds"
  proof
    assume "f \<in> set ds"
    with e fd have "(f, f) \<in> depends g" by (auto simp: depends_def)
    with assms(2) show False by (auto simp: acyclic_def)
  qed
  moreover have "filter (\<lambda>v. v \<notin> set (map fst g)) ds = []"
    using assms(1) e fd by (auto simp: closed_graph_def filter_empty_conv)
  ultimately show "check_flow g e = Inr ()" by (simp add: check_flow_def fd Let_def)
qed

lemma precedes_position:
  assumes "distinct xs" and "precedes xs a b"
  shows "length (takeWhile (\<lambda>x. x \<noteq> a) xs) < length (takeWhile (\<lambda>x. x \<noteq> b) xs)"
proof -
  from assms(2) obtain us vs where xs: "xs = us @ vs" "a \<in> set us" "b \<in> set vs"
    by (auto simp: precedes_def)
  then have "b \<notin> set us" using assms(1) by auto
  then have "takeWhile (\<lambda>x. x \<noteq> b) xs = us @ takeWhile (\<lambda>x. x \<noteq> b) vs"
    unfolding xs(1) by (intro takeWhile_append2) auto
  moreover have "takeWhile (\<lambda>x. x \<noteq> a) xs = takeWhile (\<lambda>x. x \<noteq> a) us"
    unfolding xs(1) using xs(2) by (intro takeWhile_append1) auto
  moreover have "length (takeWhile (\<lambda>x. x \<noteq> a) us) < length us"
    using xs(2) by (induction us) auto
  ultimately show ?thesis by simp
qed

text \<open>
  (C32) The execution order of a run lists every flow exactly once, and each flow only after every
  flow it depends on.
\<close>

theorem execution_order_topological:
  assumes "topological_flow_order g = Inr order" and "distinct (map fst g)"
  shows "mset order = mset (map fst g)
    \<and> (\<forall>(f, ds)\<in>set g. \<forall>d\<in>set ds. \<exists>us vs. order = us @ vs \<and> d \<in> set us \<and> f \<in> set vs)"
proof -
  from assms(1) obtain us where "mapM (check_flow g) g = Inr us" "topological_loop g = Inr order"
    by (auto simp: topological_flow_order_def result_simps)
  then show ?thesis
    using topological_loop_sound [of g order] assms(2) check_flow_ok
    by (auto simp: precedes_def)
qed

lemma check_flow_refuses: "check_flow g entry = Inl e \<Longrightarrow> \<exists>m. e = ValueError m"
  by (auto simp: check_flow_def Let_def split: prod.splits if_splits)

lemma topological_loop_refuses: "topological_loop g = Inl e \<Longrightarrow> \<exists>m. e = ValueError m"
proof (induction g rule: topological_loop.induct)
  case (1 remaining)
  have loop: "topological_loop remaining = (if remaining = [] then Inr []
     else let ready = ready_flows remaining
       in if ready = [] then Inl (ValueError (''Flow dependency cycle exists: '' @ py_repr (PStrs (sort (map fst remaining)))))
          else rbind (topological_loop (drop_ready ready remaining)) (\<lambda>rest. Inr (ready @ rest)))"
    by (rule topological_loop.simps)
  show ?case
    using 1(2) 1(1)[OF _ refl] unfolding loop by (auto simp: Let_def rbind_eq_Inl split: if_splits)
qed

lemma flow_order_refuses:
  assumes "topological_flow_order g = Inl e"
  shows "\<exists>m. e = ValueError m"
proof (cases "topological_loop g = Inl e")
  case False
  then have "mapM (check_flow g) g = Inl e" using assms by (auto simp: topological_flow_order_def rbind_eq_Inl)
  then obtain entry where "check_flow g entry = Inl e" by (auto dest: mapM_raises)
  then show ?thesis by (rule check_flow_refuses)
qed (rule topological_loop_refuses)

lemma flow_order_iff:
  assumes "distinct (map fst g)"
  shows "(\<exists>order. topological_flow_order g = Inr order)
    \<longleftrightarrow> (\<forall>(f, ds)\<in>set g. set ds \<subseteq> set (map fst g))
      \<and> acyclic {(d, f). \<exists>ds. (f, ds) \<in> set g \<and> d \<in> set ds}"
    (is "?exists \<longleftrightarrow> ?closed \<and> acyclic ?rel")
proof -
  have rel: "?rel = depends g" and closed: "?closed \<longleftrightarrow> closed_graph g"
    by (simp_all add: depends_def closed_graph_def)
  have "closed_graph g \<and> acyclic (depends g)" if ex: ?exists
  proof -
    from ex obtain order us where o: "mapM (check_flow g) g = Inr us"
        "topological_loop g = Inr order"
      by (auto simp: topological_flow_order_def result_simps)
    note closed = check_flow_ok [OF o(1)]
    note sound = topological_loop_sound [OF o(2) assms closed]
    let ?pos = "\<lambda>x. length (takeWhile (\<lambda>y. y \<noteq> x) order)"
    have "distinct order"
      using sound assms by (metis mset_eq_imp_distinct_iff)
    then have "depends g \<subseteq> measure ?pos"
      using sound precedes_position by (fastforce simp: depends_def)
    with closed show ?thesis by (meson wf_acyclic wf_measure wf_subset)
  qed
  moreover have ?exists if "closed_graph g" "acyclic (depends g)"
    using topological_loop_complete [OF assms that] check_flow_total [OF that]
    by (auto simp: topological_flow_order_def)
  ultimately show ?thesis unfolding rel closed by blast
qed

text \<open>
  (C33) The order exists exactly when every dependency names a flow and the dependencies have no
  cycle, and otherwise a \<open>ValueError\<close> is raised: the loop ends for every graph, and it reports a cycle
  only where there is one.
\<close>

theorem execution_order_exists_iff:
  assumes "distinct (map fst g)"
  shows "((\<exists>order. topological_flow_order g = Inr order)
      \<longleftrightarrow> (\<forall>(f, ds)\<in>set g. set ds \<subseteq> set (map fst g))
        \<and> acyclic {(d, f). \<exists>ds. (f, ds) \<in> set g \<and> d \<in> set ds})
    \<and> (\<forall>e. topological_flow_order g = Inl e \<longrightarrow> (\<exists>m. e = ValueError m))"
  using flow_order_iff[OF assms] flow_order_refuses[of g] by blast

section \<open>Write-once stores\<close>

text \<open>
  The contract of a store whose entries are added and never changed: an entry is read back, and
  adding to a taken key is refused.
\<close>

locale write_once =
  fixes get :: "'s \<Rightarrow> 'k \<Rightarrow> 'v option"
    and put :: "'s \<Rightarrow> 'w \<Rightarrow> 's result"
    and key :: "'w \<Rightarrow> 'k"
    and item :: "'w \<Rightarrow> 'v"
  assumes put_stores: "put s w = Inr s' \<Longrightarrow> get s' = (get s)(key w \<mapsto> item w)"
    and put_fresh: "put s w = Inr s' \<Longrightarrow> get s (key w) = None"
begin

lemma taken_refused: "get s (key w) = Some v \<Longrightarrow> \<exists>e. put s w = Inl e"
  using put_fresh [of s w] by (cases "put s w") auto

lemma put_keeps: "put s w = Inr s' \<Longrightarrow> get s k = Some v \<Longrightarrow> get s' k = Some v"
  using put_stores [of s w s'] put_fresh [of s w s'] by auto

lemma put_reads_back: "put s w = Inr s' \<Longrightarrow> get s' (key w) = Some (item w)"
  using put_stores by simp

end

definition frozen_binding :: "run_context \<Rightarrow> string \<Rightarrow> pydict option" where
  "frozen_binding c = map_of (rc_frozen_data_bindings c)"

definition binding_test_data_id :: "pydict \<Rightarrow> string" where
  "binding_test_data_id binding = py_str (dget_or binding ''test_data_id'' (PStr ''''))"

definition local_variable :: "run_context \<Rightarrow> string \<times> string \<Rightarrow> pyval option" where
  "local_variable c = (\<lambda>(flow_id, name).
     case map_of (rc_local_variables c) flow_id of None \<Rightarrow> None | Some local \<Rightarrow> map_of local name)"

lemma validate_binding_id:
  "validate_binding c b x = Inr i \<Longrightarrow> i = binding_test_data_id b"
  by (auto simp: validate_binding_def binding_test_data_id_def Let_def split: if_splits)

lemma freeze_binding_Inr:
  "freeze_binding c b = Inr c' \<longleftrightarrow>
     validate_binding c b None = Inr (binding_test_data_id b)
     \<and> frozen_binding c (binding_test_data_id b) = None
     \<and> c' = c\<lparr>rc_frozen_data_bindings :=
         AList.update (binding_test_data_id b) b (rc_frozen_data_bindings c)\<rparr>"
  by (auto simp: freeze_binding_def result_simps frozen_binding_def map_of_eq_None_iff
      dest: validate_binding_id)

interpretation frozen: write_once frozen_binding freeze_binding binding_test_data_id "\<lambda>b. b"
  by unfold_locales (auto simp: freeze_binding_Inr frozen_binding_def update_conv')

lemma set_local_variable_Inr:
  "set_local_variable c f n v = Inr c' \<longleftrightarrow>
     n \<notin> set SYSTEM_RUNTIME_VARIABLE_NAMES
     \<and> (\<exists>local. map_of (rc_local_variables c) f = Some local \<and> map_of local n = None
        \<and> c' = c\<lparr>rc_local_variables :=
            AList.update f (AList.update n v local) (rc_local_variables c)\<rparr>)"
  by (auto simp: set_local_variable_def local_variables_for_flow_def result_simps
      map_of_eq_None_iff [symmetric] split: option.splits)

interpretation locals: write_once local_variable "\<lambda>c (f, n, v). set_local_variable c f n v"
  "\<lambda>(f, n, v). (f, n)" "\<lambda>(f, n, v). v"
  by unfold_locales
    (auto simp: set_local_variable_Inr local_variable_def update_conv' fun_eq_iff
      split: option.splits if_splits)

section \<open>Runs\<close>

text \<open>
  A run calls the operations of the context in any order; a call that raises leaves the state,
  except for the references that \<open>add_evidence_refs\<close> has added before it met a blank one.
\<close>

inductive rc_step :: "run_context \<Rightarrow> run_context \<Rightarrow> bool" where
  freeze: "freeze_binding c b = Inr c' \<Longrightarrow> rc_step c c'"
| set_local: "set_local_variable c f n v = Inr c' \<Longrightarrow> rc_step c c'"
| add_evidence: "add_evidence_refs c refs = (c', outcome) \<Longrightarrow> rc_step c c'"

lemma add_evidence_refs_frame:
  "add_evidence_refs c refs = (c', outcome) \<Longrightarrow>
     \<exists>es. c' = c\<lparr>rc_evidence_refs := es\<rparr> \<and> set (rc_evidence_refs c) \<subseteq> set es"
proof (induction c refs arbitrary: c' outcome rule: add_evidence_refs.induct)
  case (1 c)
  then show ?case by (auto intro!: exI [of _ "rc_evidence_refs c"])
next
  case (2 c r refs)
  show ?case
  proof (cases "blank r")
    case True
    with "2.prems" show ?thesis by (auto intro!: exI [of _ "rc_evidence_refs c"])
  next
    case False
    with 2 show ?thesis by force
  qed
qed

lemma rc_step_scope:
  assumes "rc_step c c'"
  shows "rc_project_id c' = rc_project_id c \<and> rc_run_id c' = rc_run_id c
    \<and> rc_runtime_variables c' = rc_runtime_variables c
    \<and> rc_execution_order c' = rc_execution_order c
    \<and> rc_flow_dependencies c' = rc_flow_dependencies c"
  using assms
  by (cases rule: rc_step.cases)
    (auto simp: freeze_binding_Inr set_local_variable_Inr dest!: add_evidence_refs_frame)

lemma rc_step_frozen:
  assumes "rc_step c c'" and "frozen_binding c k = Some b"
  shows "frozen_binding c' k = Some b"
  using assms
proof (cases rule: rc_step.cases)
  case (freeze b')
  then show ?thesis using assms(2) by (rule frozen.put_keeps)
qed (auto simp: set_local_variable_Inr frozen_binding_def dest!: add_evidence_refs_frame)

lemma rc_step_local:
  assumes "rc_step c c'" and "local_variable c k = Some v"
  shows "local_variable c' k = Some v"
  using assms
proof (cases rule: rc_step.cases)
  case (set_local f n w)
  then show ?thesis using locals.put_keeps [of c "(f, n, w)" c' k v] assms(2) by simp
qed (auto simp: freeze_binding_Inr local_variable_def dest!: add_evidence_refs_frame)

lemma rc_run_scope:
  "rc_step\<^sup>*\<^sup>* c c' \<Longrightarrow> rc_project_id c' = rc_project_id c \<and> rc_run_id c' = rc_run_id c
    \<and> rc_runtime_variables c' = rc_runtime_variables c"
  by (induction rule: rtranclp_induct) (auto dest: rc_step_scope)

lemma rc_run_frozen:
  "rc_step\<^sup>*\<^sup>* c c' \<Longrightarrow> frozen_binding c k = Some b \<Longrightarrow> frozen_binding c' k = Some b"
  by (induction rule: rtranclp_induct) (auto intro: rc_step_frozen)

lemma rc_run_local:
  "rc_step\<^sup>*\<^sup>* c c' \<Longrightarrow> local_variable c k = Some v \<Longrightarrow> local_variable c' k = Some v"
  by (induction rule: rtranclp_induct) (auto intro: rc_step_local)

lemma validate_binding_scope:
  "rc_project_id c' = rc_project_id c \<Longrightarrow> rc_run_id c' = rc_run_id c
    \<Longrightarrow> validate_binding c' b x = validate_binding c b x"
  by (simp add: validate_binding_def cong: if_cong)

lemma validate_binding_expected:
  "validate_binding c b None = Inr i \<Longrightarrow> validate_binding c b (Some i) = Inr i"
  by (auto simp: validate_binding_def Let_def split: if_splits)

text \<open>
  (C34) A binding that was frozen is what every later \<open>resolve_binding\<close> of the run returns, whatever
  operations came between; it cannot be frozen a second time.
\<close>

theorem frozen_binding_is_final:
  assumes "freeze_binding c binding = Inr c1" and "rc_step\<^sup>*\<^sup>* c1 c2"
  shows "resolve_binding c2 (binding_test_data_id binding) = Inr binding
    \<and> (\<exists>e. freeze_binding c2 binding = Inl e)"
proof -
  have "frozen_binding c2 (binding_test_data_id binding) = Some binding"
    using rc_run_frozen [OF assms(2)] frozen.put_reads_back [OF assms(1)] by blast
  moreover have "validate_binding c2 binding (Some (binding_test_data_id binding))
      = Inr (binding_test_data_id binding)"
    using assms(1) rc_run_scope [OF assms(2)]
    by (auto simp: freeze_binding_Inr validate_binding_scope [of c2 c]
        intro: validate_binding_expected)
  ultimately show ?thesis
    using frozen.taken_refused [of c2 binding]
    by (simp add: resolve_binding_def frozen_binding_def [symmetric])
qed

text \<open>
  What \<open>resolve_binding\<close> returns belongs to the project and the run of the context, carries
  the identity asked for, and its content digest is the digest of its payload.
\<close>

theorem resolved_binding_belongs:
  assumes "resolve_binding c test_data_id = Inr binding"
  shows "py_str (dget_or binding ''project_id'' (PStr '''')) = rc_project_id c
    \<and> py_str (dget_or binding ''run_id'' (PStr '''')) = rc_run_id c
    \<and> py_str (dget_or binding ''test_data_id'' (PStr '''')) = test_data_id
    \<and> py_str (dget_or binding ''content_digest'' (PStr ''''))
       = canonical_digest (PDict (filter (\<lambda>(k, v). k \<noteq> ''content_digest'' \<and> k \<noteq> ''evidence_ref'') binding))"
  using assms
  by (auto simp: resolve_binding_def validate_binding_def Let_def result_simps
      split: option.splits if_splits)

definition rc_wf :: "run_context \<Rightarrow> bool" where
  "rc_wf c \<longleftrightarrow>
    (\<forall>f n. n \<in> set SYSTEM_RUNTIME_VARIABLE_NAMES \<longrightarrow> local_variable c (f, n) = None)"

lemma rc_wf_new:
  assumes "new_run_context p r t g = Inr c"
  shows "rc_wf c"
proof -
  have "local = []" if "map_of (map (\<lambda>(flow_id, _). (flow_id, [])) g) f = Some local"
    for f and local :: pydict
    using that by (auto dest!: map_of_SomeD)
  then show ?thesis
    using assms
    by (fastforce simp: new_run_context_def rc_wf_def local_variable_def result_simps
        split: option.splits if_splits)
qed

lemma rc_wf_step: "rc_step c c' \<Longrightarrow> rc_wf c \<Longrightarrow> rc_wf c'"
proof (induction rule: rc_step.induct)
  case (set_local c f n v c')
  then show ?case
    using locals.put_stores [of c "(f, n, v)" c']
    by (auto simp: rc_wf_def set_local_variable_Inr)
qed (auto simp: freeze_binding_Inr rc_wf_def local_variable_def dest!: add_evidence_refs_frame)

lemma foldl_update_other:
  "k \<notin> set (map fst xs) \<Longrightarrow>
     map_of (foldl (\<lambda>d (k, v). AList.update k v d) d xs) k = map_of d k"
  by (induction xs arbitrary: d) (auto simp: update_conv')

text \<open>
  In every state of a run the variables a flow sees hold the run's own system variables: the
  run id, the test data token and the start time cannot be shadowed by a flow-local variable.
\<close>

theorem system_variables_read_only:
  assumes "new_run_context p r t g = Inr c" and "rc_step\<^sup>*\<^sup>* c c'"
    and "variables_for_flow c' f = Inr vars" and "name \<in> set SYSTEM_RUNTIME_VARIABLE_NAMES"
  shows "dget vars name = dget (rc_runtime_variables c) name"
proof -
  have "rc_wf c'"
    using assms(2) by (induction rule: rtranclp_induct) (auto intro: rc_wf_step rc_wf_new [OF assms(1)])
  then have wf: "local_variable c' (f, name) = None" using assms(4) by (simp add: rc_wf_def)
  from assms(3) obtain local where "map_of (rc_local_variables c') f = Some local"
      "vars = foldl (\<lambda>d (k, v). AList.update k v d) (rc_runtime_variables c') local"
    by (auto simp: variables_for_flow_def local_variables_for_flow_def result_simps
        split: option.splits)
  with wf show ?thesis
    using rc_run_scope [OF assms(2)] foldl_update_other [of name local]
    by (auto simp: local_variable_def dget_def map_of_eq_None_iff)
qed

text \<open>
  The content digest of a binding does not depend on the order of the members of its objects,
  at whatever depth: a document read back from storage with its keys in another order has the
  same digest.
\<close>

theorem digest_ignores_member_order:
  assumes "same_document v w"
  shows "canonical_digest v = canonical_digest w"
  using same_document_dumps [OF assms] by (simp add: canonical_digest_def)

section \<open>A run\<close>

definition demo_flows :: flow_graph where
  "demo_flows = [(''pay'', [''order'', ''login'']), (''order'', [''login'']), (''login'', [])]"

lemma demo_order: "topological_flow_order demo_flows = Inr [''login'', ''order'', ''pay'']"
  by code_simp

definition demo_payload :: pydict where
  "demo_payload = [(''project_id'', PStr ''p1''), (''run_id'', PStr ''r1''),
     (''test_data_id'', PStr ''td1'')]"

definition demo_binding :: pydict where
  "demo_binding = demo_payload @ [(''content_digest'', PStr (canonical_digest (PDict demo_payload)))]"

definition demo_context :: run_context where
  "demo_context = \<lparr>rc_project_id = ''p1'', rc_run_id = ''r1'',
     rc_runtime_variables =
       [(''operamind_run_id'', PStr ''r1''),
        (''test_data_token'', PStr (build_test_data_token ''p1'' ''r1'' 63918028805123456)),
        (''execution_started_at'', PStr (utc_isoformat 63918028805123456))],
     rc_execution_order = [''login'', ''order'', ''pay''], rc_flow_dependencies = demo_flows,
     rc_local_variables = [(''pay'', []), (''order'', []), (''login'', [])],
     rc_frozen_data_bindings = [], rc_evidence_refs = []\<rparr>"

lemma demo_new:
  "new_run_context ''p1'' ''r1'' \<lparr>dt_wall = 63918061205123456, dt_utcoffset = Some 32400000000\<rparr>
     demo_flows = Inr demo_context"
  by (simp add: new_run_context_def astimezone_utc_def us_per_day_def demo_order demo_context_def)
    (simp add: demo_flows_def)

definition demo_frozen :: run_context where
  "demo_frozen = demo_context\<lparr>rc_frozen_data_bindings := [(''td1'', demo_binding)]\<rparr>"

lemma demo_freeze: "freeze_binding demo_context demo_binding = Inr demo_frozen"
  by (simp add: freeze_binding_def validate_binding_def demo_context_def demo_frozen_def
      demo_binding_def demo_payload_def Let_def)

definition demo_local :: run_context where
  "demo_local = demo_frozen\<lparr>rc_local_variables :=
     [(''pay'', []), (''order'', [(''order_id'', PInt 7)]), (''login'', [])]\<rparr>"

lemma demo_set_local: "set_local_variable demo_frozen ''order'' ''order_id'' (PInt 7) = Inr demo_local"
  by (simp add: set_local_variable_def local_variables_for_flow_def demo_frozen_def
      demo_context_def demo_local_def SYSTEM_RUNTIME_VARIABLE_NAMES_def)

lemma demo_run: "rc_step\<^sup>*\<^sup>* demo_frozen demo_local" "rc_step\<^sup>*\<^sup>* demo_context demo_local"
  using rc_step.freeze [OF demo_freeze] rc_step.set_local [OF demo_set_local]
  by (auto intro: converse_rtranclp_into_rtranclp)

theorem execution_order_topological_witness:
  "mset [''login'', ''order'', ''pay''] = mset (map fst demo_flows)"
  using execution_order_topological [OF demo_order] by (simp add: demo_flows_def)

theorem execution_order_exists_iff_witness:
  "acyclic {(d, f). \<exists>ds. (f, ds) \<in> set demo_flows \<and> d \<in> set ds}"
  using execution_order_exists_iff [of demo_flows] demo_order by (auto simp: demo_flows_def)

theorem frozen_binding_is_final_witness:
  "resolve_binding demo_local (binding_test_data_id demo_binding) = Inr demo_binding
   \<and> (\<exists>e. freeze_binding demo_local demo_binding = Inl e)"
  by (rule frozen_binding_is_final [OF demo_freeze demo_run(1)])

theorem resolved_binding_belongs_witness:
  "py_str (dget_or demo_binding ''run_id'' (PStr '''')) = ''r1''"
proof -
  have "resolve_binding demo_frozen ''td1'' = Inr demo_binding"
    by (simp add: resolve_binding_def validate_binding_def demo_context_def demo_frozen_def
        demo_binding_def demo_payload_def Let_def)
  from resolved_binding_belongs [OF this] show ?thesis
    by (simp add: demo_frozen_def demo_context_def)
qed

theorem system_variables_read_only_witness:
  "\<exists>vars. variables_for_flow demo_local ''order'' = Inr vars
     \<and> dget vars ''operamind_run_id'' = PStr ''r1'' \<and> dget vars ''order_id'' = PInt 7"
proof -
  have run: "variables_for_flow demo_local ''order''
      = Inr (rc_runtime_variables demo_context @ [(''order_id'', PInt 7)])"
    by (simp add: variables_for_flow_def local_variables_for_flow_def demo_local_def
        demo_frozen_def demo_context_def)
  have "''operamind_run_id'' \<in> set SYSTEM_RUNTIME_VARIABLE_NAMES"
    by (simp add: SYSTEM_RUNTIME_VARIABLE_NAMES_def)
  from system_variables_read_only [OF demo_new demo_run(2) run this] run show ?thesis
    by (simp add: demo_context_def)
qed

theorem digest_ignores_member_order_witness:
  "canonical_digest (PDict [(''run_id'', PStr ''r1''), (''match_count'', PInt 1)])
   = canonical_digest (PDict [(''match_count'', PInt 1), (''run_id'', PStr ''r1'')])"
  by (rule digest_ignores_member_order, rule same_swap) auto

end
