(* ===== verification/Conventions.thy ===== *)
theory Conventions
  imports PyBase "HOL-Library.Product_Lexorder" "HOL-Library.Multiset"
begin

text \<open>
  Recognising the writing style of a document and naming its facts:
  \<open>domain/document_conventions.py\<close>.  A document is matched against the variants of a convention by
  weighted signals, and a fact is named by a stable key built from its business fields.

  The Unicode tables behind \<open>unicodedata.normalize\<close>, \<open>str.casefold\<close>, \<open>str.upper\<close> and \<open>str.lower\<close>
  and the reading of a number from a text by \<open>float\<close> are arguments of the definitions
  (\<open>text_tables\<close>): every lemma holds for whatever tables the interpreter has.
\<close>

record text_tables =
  nfkc :: "string \<Rightarrow> string"
  casefold :: "string \<Rightarrow> string"
  upper :: "string \<Rightarrow> string"
  lower :: "string \<Rightarrow> string"
  float_text :: "string \<Rightarrow> rat result"

section \<open>Data\<close>

datatype signal_type = FILENAME_TOKEN | SHEET_NAME | HEADING | HEADERS | BUSINESS_TERM

datatype match_status = AUTO_MATCHED | NEEDS_REVIEW

datatype key_normalizer = PRESERVE | CASEFOLD | UPPERCASE | LOWERCASE

definition signal_type_values :: "(string \<times> signal_type) list" where
  "signal_type_values =
    [(''filename_token'', FILENAME_TOKEN), (''sheet_name'', SHEET_NAME), (''heading'', HEADING),
     (''headers'', HEADERS), (''business_term'', BUSINESS_TERM)]"

definition key_normalizer_values :: "(string \<times> key_normalizer) list" where
  "key_normalizer_values =
    [(''preserve'', PRESERVE), (''casefold'', CASEFOLD), (''uppercase'', UPPERCASE),
     (''lowercase'', LOWERCASE)]"

record signal_rule =
  sr_signal_type :: signal_type
  sr_values :: "string list"
  sr_weight :: rat

record convention_variant =
  cv_variant_id :: string
  cv_signals :: "signal_rule list"
  cv_field_aliases :: "(string \<times> string list) list"
  cv_stable_key_fields :: "string list"
  cv_stable_key_normalizers :: "(string \<times> key_normalizer) list"

record document_convention =
  dc_profile_id :: string
  dc_profile_version :: string
  dc_document_type :: string
  dc_fact_type :: string
  dc_minimum_auto_match_score :: rat
  dc_variants :: "convention_variant list"

record document_signals =
  ds_filename :: string
  ds_sheet_names :: "string set"
  ds_headings :: "string set"
  ds_headers :: "string set"
  ds_business_terms :: "string set"

record match_candidate =
  mc_variant_id :: string
  mc_score :: rat
  mc_matched_signal_types :: "signal_type list"

record convention_match =
  cm_status :: match_status
  cm_selected_variant_id :: "string option"
  cm_reason :: string
  cm_candidates :: "match_candidate list"

section \<open>Normal forms of text\<close>

text \<open>\<open>_normalize_value\<close> and \<open>_normalize\<close>.\<close>

definition normalize_value :: "text_tables \<Rightarrow> string \<Rightarrow> string" where
  "normalize_value u value = whitespace_sub (py_strip (nfkc u value))"

definition normalize_text :: "text_tables \<Rightarrow> string \<Rightarrow> string" where
  "normalize_text u value = casefold u (whitespace_sub (py_strip (nfkc u value)))"

definition normalize_set :: "text_tables \<Rightarrow> string list \<Rightarrow> string set" where
  "normalize_set u values = set (filter (\<lambda>v. v \<noteq> []) (map (normalize_text u) values))"

fun normalize_stable_key_value :: "text_tables \<Rightarrow> string \<Rightarrow> key_normalizer \<Rightarrow> string" where
  "normalize_stable_key_value u value CASEFOLD = casefold u (normalize_value u value)"
| "normalize_stable_key_value u value UPPERCASE = upper u (normalize_value u value)"
| "normalize_stable_key_value u value LOWERCASE = lower u (normalize_value u value)"
| "normalize_stable_key_value u value PRESERVE = normalize_value u value"

section \<open>Reading a profile\<close>

fun py_float :: "text_tables \<Rightarrow> pyval \<Rightarrow> rat result" where
  "py_float u (PInt i) = int_to_float i"
| "py_float u (PFloat q) = Inr q"
| "py_float u (PBool b) = Inr (if b then 1 else 0)"
| "py_float u (PStr s) = float_text u s"
| "py_float u v = Inl (TypeError ''float() argument must be a string or a real number'')"

text \<open>\<open>SignalType(value)\<close>: a text that is no member of the enumeration raises.\<close>

definition enum_of :: "(string \<times> 'a) list \<Rightarrow> pyval \<Rightarrow> 'a result" where
  "enum_of members value =
    (case value of
       PStr s \<Rightarrow> (case map_of members s of Some m \<Rightarrow> Inr m | None \<Rightarrow> Inl (ValueError ''enum value''))
     | _ \<Rightarrow> Inl (ValueError ''enum value''))"

fun py_items :: "pyval \<Rightarrow> pydict result" where
  "py_items (PDict d) = Inr d"
| "py_items v = Inl (AttributeError ''items'')"

definition text_list :: "pyval \<Rightarrow> string list result" where
  "text_list v = rbind (py_iter v) (\<lambda>vs. Inr (map py_str vs))"

definition signal_of_profile :: "text_tables \<Rightarrow> pyval \<Rightarrow> signal_rule result" where
  "signal_of_profile u signal =
    rbind (rbind (py_index signal ''type'') (enum_of signal_type_values)) (\<lambda>type.
    rbind (rbind (py_index signal ''values'') text_list) (\<lambda>values.
    rbind (rbind (py_index signal ''weight'') (py_float u)) (\<lambda>weight.
      Inr \<lparr>sr_signal_type = type, sr_values = values, sr_weight = weight\<rparr>)))"

definition variant_of_profile :: "text_tables \<Rightarrow> pyval \<Rightarrow> convention_variant result" where
  "variant_of_profile u variant =
    rbind (py_index variant ''variant_id'') (\<lambda>variant_id.
    rbind (rbind (py_index variant ''signals'') py_iter) (\<lambda>signal_values.
    rbind (mapM (signal_of_profile u) signal_values) (\<lambda>signals.
    rbind (rbind (py_index variant ''field_aliases'') py_items) (\<lambda>alias_items.
    rbind (mapM (\<lambda>(field, aliases). rbind (text_list aliases) (\<lambda>a. Inr (field, a))) alias_items)
      (\<lambda>field_aliases.
    rbind (rbind (py_index variant ''stable_key_fields'') text_list) (\<lambda>stable_key_fields.
    rbind (rbind (py_index variant ''stable_key_normalizers'') py_items) (\<lambda>normalizer_items.
    rbind (mapM (\<lambda>(field, n). rbind (enum_of key_normalizer_values n) (\<lambda>m. Inr (field, m)))
      normalizer_items) (\<lambda>stable_key_normalizers.
      Inr \<lparr>cv_variant_id = py_str variant_id, cv_signals = signals,
           cv_field_aliases = field_aliases, cv_stable_key_fields = stable_key_fields,
           cv_stable_key_normalizers = stable_key_normalizers\<rparr>))))))))"

definition from_validated_profile :: "text_tables \<Rightarrow> pydict \<Rightarrow> document_convention result" where
  "from_validated_profile u profile =
    rbind (rbind (dindex profile ''variants'') py_iter) (\<lambda>variant_values.
    rbind (mapM (variant_of_profile u) variant_values) (\<lambda>variants.
    rbind (dindex profile ''profile_id'') (\<lambda>profile_id.
    rbind (dindex profile ''profile_version'') (\<lambda>profile_version.
    rbind (dindex profile ''document_type'') (\<lambda>document_type.
    rbind (dindex profile ''fact_type'') (\<lambda>fact_type.
    rbind (rbind (dindex profile ''minimum_auto_match_score'') (py_float u)) (\<lambda>minimum.
      Inr \<lparr>dc_profile_id = py_str profile_id, dc_profile_version = py_str profile_version,
           dc_document_type = py_str document_type, dc_fact_type = py_str fact_type,
           dc_minimum_auto_match_score = minimum, dc_variants = variants\<rparr>)))))))"

section \<open>Matching\<close>

definition signals_from_raw ::
    "text_tables \<Rightarrow> string \<Rightarrow> string list \<Rightarrow> string list \<Rightarrow> string list \<Rightarrow> string list
     \<Rightarrow> document_signals" where
  "signals_from_raw u filename sheet_names headings headers business_terms =
    \<lparr>ds_filename = normalize_text u filename,
     ds_sheet_names = normalize_set u sheet_names,
     ds_headings = normalize_set u headings,
     ds_headers = normalize_set u headers,
     ds_business_terms = normalize_set u business_terms\<rparr>"

definition signal_matches :: "text_tables \<Rightarrow> signal_rule \<Rightarrow> document_signals \<Rightarrow> bool" where
  "signal_matches u signal observed =
    (let expected = map (normalize_text u) (sr_values signal)
     in case sr_signal_type signal of
          FILENAME_TOKEN \<Rightarrow> list_ex (\<lambda>value. is_substring value (ds_filename observed)) expected
        | HEADERS \<Rightarrow> list_all (\<lambda>value. value \<in> ds_headers observed) expected
        | SHEET_NAME \<Rightarrow> list_ex (\<lambda>value. value \<in> ds_sheet_names observed) expected
        | HEADING \<Rightarrow> list_ex (\<lambda>value. value \<in> ds_headings observed) expected
        | BUSINESS_TERM \<Rightarrow> list_ex (\<lambda>value. value \<in> ds_business_terms observed) expected)"

definition score_variant ::
    "text_tables \<Rightarrow> document_signals \<Rightarrow> convention_variant \<Rightarrow> match_candidate" where
  "score_variant u observed variant =
    (let matched = filter (\<lambda>signal. signal_matches u signal observed) (cv_signals variant)
     in \<lparr>mc_variant_id = cv_variant_id variant,
         mc_score = sum_list (map sr_weight matched),
         mc_matched_signal_types = map sr_signal_type matched\<rparr>)"

text \<open>\<open>math.isclose(a, b, abs_tol=1e-9)\<close>, with its default relative tolerance of \<open>1e-9\<close>.\<close>

definition is_close :: "rat \<Rightarrow> rat \<Rightarrow> bool" where
  "is_close a b \<longleftrightarrow> \<bar>a - b\<bar> \<le> max (max \<bar>a\<bar> \<bar>b\<bar> / 10 ^ 9) (1 / 10 ^ 9)"

definition ranked :: "match_candidate list \<Rightarrow> match_candidate list" where
  "ranked = sort_key (\<lambda>c. (- mc_score c, mc_variant_id c))"

definition match_convention ::
    "text_tables \<Rightarrow> document_convention \<Rightarrow> document_signals \<Rightarrow> convention_match result" where
  "match_convention u convention observed =
    (let candidates = ranked (map (score_variant u observed) (dc_variants convention))
     in case candidates of
          [] \<Rightarrow> Inl (IndexError ''tuple index out of range'')
        | best # _ \<Rightarrow>
            if mc_score best < dc_minimum_auto_match_score convention then
              Inr \<lparr>cm_status = NEEDS_REVIEW, cm_selected_variant_id = None,
                   cm_reason = ''below_auto_match_threshold'', cm_candidates = candidates\<rparr>
            else if 1 < length (filter (\<lambda>c. is_close (mc_score c) (mc_score best)) candidates) then
              Inr \<lparr>cm_status = NEEDS_REVIEW, cm_selected_variant_id = None,
                   cm_reason = ''ambiguous_top_score'', cm_candidates = candidates\<rparr>
            else
              Inr \<lparr>cm_status = AUTO_MATCHED, cm_selected_variant_id = Some (mc_variant_id best),
                   cm_reason = ''unique_candidate_above_threshold'', cm_candidates = candidates\<rparr>)"

section \<open>Stable keys\<close>

text \<open>\<open>urllib.parse.quote(value, safe="-._~")\<close> works on the UTF-8 bytes of the text.\<close>

definition upper_hex :: "nat \<Rightarrow> char" where
  "upper_hex n = char_of (if n < 10 then 48 + n else 55 + n)"

definition unreserved :: "char \<Rightarrow> bool" where
  "unreserved c \<longleftrightarrow>
    (let n = (of_char c :: nat)
     in (48 \<le> n \<and> n \<le> 57) \<or> (65 \<le> n \<and> n \<le> 90) \<or> (97 \<le> n \<and> n \<le> 122)
        \<or> c \<in> set ''-._~'')"

definition quote_byte :: "char \<Rightarrow> string" where
  "quote_byte c =
    (if unreserved c then [c]
     else [CHR ''%'', upper_hex (of_char c div 16), upper_hex (of_char c mod 16)])"

definition quote :: "string \<Rightarrow> string" where
  "quote s = concat (map quote_byte s)"

definition key_value ::
    "text_tables \<Rightarrow> (string \<times> string) list \<Rightarrow> (string \<times> key_normalizer) list \<Rightarrow> string
     \<Rightarrow> string result" where
  "key_value u canonical_fields normalizers field =
    (case map_of canonical_fields field of
       None \<Rightarrow> Inl (ValueError (''Missing Stable Key field: '' @ field))
     | Some raw_value \<Rightarrow>
         let normalized = normalize_stable_key_value u raw_value
               (case map_of normalizers field of None \<Rightarrow> PRESERVE | Some n \<Rightarrow> n)
         in if normalized = [] then
              Inl (ValueError (''Stable Key field must not be blank: '' @ field))
            else Inr normalized)"

definition build_stable_key ::
    "text_tables \<Rightarrow> string \<Rightarrow> string list \<Rightarrow> (string \<times> string) list
     \<Rightarrow> (string \<times> key_normalizer) list \<Rightarrow> string result" where
  "build_stable_key u fact_type stable_key_fields canonical_fields normalizers =
    (let normalized_fact_type = normalize_text u fact_type
     in if normalized_fact_type = [] then Inl (ValueError ''fact_type must not be blank'')
        else rbind (mapM (\<lambda>field. rbind (key_value u canonical_fields normalizers field)
               (\<lambda>v. Inr (quote v))) stable_key_fields) (\<lambda>parts.
          if parts = [] then Inl (ValueError ''stable_key_fields must not be empty'')
          else Inr (normalized_fact_type @ '':'' @ join ''/'' parts)))"

section \<open>The match is unique and does not depend on the order of the source\<close>

lemma set_ranked [simp]: "set (ranked cs) = set cs"
  by (simp add: ranked_def)

lemma mset_ranked [simp]: "mset (ranked cs) = mset cs"
  by (simp add: ranked_def)

lemma ranked_best:
  "ranked cs = c # ds \<Longrightarrow> d \<in> set cs \<Longrightarrow> mc_score d \<le> mc_score c"
proof -
  assume r: "ranked cs = c # ds" and d: "d \<in> set cs"
  have "sorted (map (\<lambda>c. (- mc_score c, mc_variant_id c)) (c # ds))"
    unfolding r[symmetric] by (simp add: ranked_def)
  moreover have "d \<in> set (c # ds)" using d r by (metis set_ranked)
  ultimately show ?thesis by (auto simp: less_eq_prod_def)
qed

lemma is_close_refl [simp]: "is_close a a"
  by (simp add: is_close_def le_max_iff_disj)

lemma size_filter_ranked: "length (filter P (ranked cs)) = length (filter P cs)"
  by (metis mset_filter mset_ranked size_mset)

text \<open>The candidates of a convention, before they are ranked.\<close>

definition scored :: "text_tables \<Rightarrow> document_convention \<Rightarrow> document_signals \<Rightarrow> match_candidate list" where
  "scored u convention observed = map (score_variant u observed) (dc_variants convention)"

definition clear_winner :: "match_candidate list \<Rightarrow> rat \<Rightarrow> match_candidate \<Rightarrow> bool" where
  "clear_winner cs minimum c \<longleftrightarrow> c \<in> set cs \<and> minimum \<le> mc_score c
    \<and> (\<forall>d\<in>set cs. mc_score d \<le> mc_score c)
    \<and> length (filter (\<lambda>d. is_close (mc_score d) (mc_score c)) cs) = 1"

lemma clear_winner_head:
  assumes "ranked cs = b # ds" "clear_winner cs m c"
  shows "c = b"
proof -
  have "b \<in> set cs" using assms(1) by (metis list.set_intros(1) set_ranked)
  then have "mc_score b = mc_score c"
    using assms ranked_best[OF assms(1), of c] by (auto simp: clear_winner_def intro: order_antisym)
  then have "b \<in> set (filter (\<lambda>d. is_close (mc_score d) (mc_score c)) cs)"
    "c \<in> set (filter (\<lambda>d. is_close (mc_score d) (mc_score c)) cs)"
    using assms(2) \<open>b \<in> set cs\<close> by (auto simp: clear_winner_def)
  moreover obtain y where "filter (\<lambda>d. is_close (mc_score d) (mc_score c)) cs = [y]"
    using assms(2) by (auto simp: clear_winner_def length_Suc_conv)
  ultimately show ?thesis by (metis empty_iff insert_iff list.set(1,2))
qed

text \<open>A style is activated without review exactly when one variant is a clear winner: at least
  the minimum score, no variant above it and no other variant within the tolerance; that variant is
  the one selected, and in every other case nothing is selected.\<close>

theorem auto_match_iff_clear_winner:
  assumes "match_convention u convention observed = Inr m"
  shows "(cm_status m = AUTO_MATCHED \<longleftrightarrow>
      (\<exists>c. clear_winner (scored u convention observed) (dc_minimum_auto_match_score convention) c))
    \<and> (\<forall>v. cm_selected_variant_id m = Some v \<longleftrightarrow>
      (\<exists>c. clear_winner (scored u convention observed) (dc_minimum_auto_match_score convention) c
         \<and> mc_variant_id c = v))"
proof -
  let ?cs = "scored u convention observed" and ?min = "dc_minimum_auto_match_score convention"
  obtain b ds where r: "ranked ?cs = b # ds"
    using assms by (auto simp: match_convention_def scored_def Let_def split: list.splits)
  have b: "b \<in> set ?cs" using r by (metis list.set_intros(1) set_ranked)
  let ?near = "length (filter (\<lambda>c. is_close (mc_score c) (mc_score b)) ?cs)"
  have near: "0 < ?near" using b is_close_refl by (fastforce simp: filter_empty_conv)
  have win: "clear_winner ?cs ?min c \<longleftrightarrow> c = b \<and> ?min \<le> mc_score b \<and> ?near \<le> 1" for c
    using clear_winner_head[OF r, of ?min c] ranked_best[OF r] b near
    by (auto simp: clear_winner_def le_Suc_eq)
  have "length (filter (\<lambda>c. is_close (mc_score c) (mc_score b)) (b # ds)) = ?near"
    using size_filter_ranked[of "\<lambda>c. is_close (mc_score c) (mc_score b)" ?cs] by (simp add: r)
  then show ?thesis
    using assms r near unfolding win match_convention_def Let_def scored_def[symmetric] r
    by (auto split: if_splits)
qed

lemma ranked_permuted:
  assumes "mset cs = mset ds" "distinct (map mc_variant_id cs)"
  shows "ranked cs = ranked ds"
  unfolding ranked_def
  using assms by (intro sort_key_inj_key_eq) (auto simp: distinct_map inj_on_def)

text \<open>The decision does not depend on the order of the variants in the profile nor on the order
  or the repetitions of the sheets, headings, headers and terms read from the document.\<close>

theorem match_ignores_order:
  assumes "mset (dc_variants convention) = mset variants"
    and "distinct (map cv_variant_id (dc_variants convention))"
    and "set sheets = set sheets'" "set heads = set heads'" "set cols = set cols'"
    and "set terms = set terms'"
  shows "match_convention u convention (signals_from_raw u name sheets heads cols terms)
    = match_convention u (convention\<lparr>dc_variants := variants\<rparr>)
        (signals_from_raw u name sheets' heads' cols' terms')"
proof -
  have s: "signals_from_raw u name sheets heads cols terms
      = signals_from_raw u name sheets' heads' cols' terms'"
    using assms(3-6) by (simp add: signals_from_raw_def normalize_set_def)
  have "ranked (map (score_variant u o1) (dc_variants convention))
      = ranked (map (score_variant u o1) variants)" for o1
    using assms(1,2)
    by (intro ranked_permuted) (auto simp: score_variant_def Let_def o_def)
  then show ?thesis by (simp add: match_convention_def Let_def s cong: list.case_cong)
qed

section \<open>Stable keys name facts injectively\<close>

definition hex_value :: "char \<Rightarrow> nat" where
  "hex_value c = (let n = of_char c in if n < 58 then n - 48 else n - 55)"

text \<open>The reading of a percent-encoded text.\<close>

fun unquote :: "string \<Rightarrow> string" where
  "unquote (c # d # e # cs) =
     (if c = CHR ''%'' then char_of (16 * hex_value d + hex_value e) # unquote cs
      else c # unquote (d # e # cs))"
| "unquote cs = cs"

lemma byte_less_256: "(of_char c :: nat) < 256"
  using of_char_mod_256[of c, where ?'a = nat] by (metis mod_less_divisor zero_less_numeral)

lemma upper_hex_plain: "upper_hex n \<noteq> CHR '':''" "upper_hex n \<noteq> CHR ''/''" if "n < 16"
proof -
  have "n \<in> {..<16}" using that by simp
  then have "n \<in> set [0..<16]" by simp
  moreover have "list_all (\<lambda>n. upper_hex n \<noteq> CHR '':'' \<and> upper_hex n \<noteq> CHR ''/'') [0..<16]"
    by code_simp
  ultimately show "upper_hex n \<noteq> CHR '':''" "upper_hex n \<noteq> CHR ''/''"
    by (auto simp: list_all_iff)
qed

lemma hex_value_upper_hex: "n < 16 \<Longrightarrow> hex_value (upper_hex n) = n"
  by (auto simp: hex_value_def upper_hex_def Let_def)

lemma unquote_quote_byte: "unquote (quote_byte c @ cs) = c # unquote cs"
proof (cases "unreserved c")
  case True
  then have "c \<noteq> CHR ''%''" by (auto simp: unreserved_def Let_def)
  with True show ?thesis
    by (cases cs; cases "tl cs") (auto simp: quote_byte_def)
next
  case False
  have "(of_char c :: nat) < 256" by (rule byte_less_256)
  then have "(of_char c :: nat) div 16 < 16" by (simp add: less_mult_imp_div_less)
  moreover have "16 * ((of_char c :: nat) div 16) + of_char c mod 16 = of_char c" by simp
  ultimately show ?thesis
    using False by (simp add: quote_byte_def hex_value_upper_hex)
qed

lemma unquote_quote: "unquote (quote s) = s"
  by (induction s) (auto simp: quote_def unquote_quote_byte)

lemma quote_inject [simp]: "quote s = quote t \<longleftrightarrow> s = t"
  by (metis unquote_quote)

lemma quote_Nil_iff [simp]: "quote s = [] \<longleftrightarrow> s = []"
  by (cases s) (simp_all add: quote_def quote_byte_def)

lemma quote_byte_reserved: "CHR '':'' \<notin> set (quote_byte c)" "CHR ''/'' \<notin> set (quote_byte c)"
proof -
  have "(of_char c :: nat) < 256" by (rule byte_less_256)
  then have "(of_char c :: nat) div 16 < 16" "(of_char c :: nat) mod 16 < 16"
    by (simp_all add: less_mult_imp_div_less)
  then have "upper_hex (of_char c div 16) \<notin> {CHR '':'', CHR ''/''}"
    "upper_hex (of_char c mod 16) \<notin> {CHR '':'', CHR ''/''}" by (simp_all add: upper_hex_plain)
  then show "CHR '':'' \<notin> set (quote_byte c)" "CHR ''/'' \<notin> set (quote_byte c)"
    by (auto simp: quote_byte_def unreserved_def Let_def)
qed

lemma quote_reserved: "CHR '':'' \<notin> set (quote s)" "CHR ''/'' \<notin> set (quote s)"
  by (simp_all add: quote_def quote_byte_reserved)

lemma split_at_last:
  "x \<notin> set xs \<Longrightarrow> x \<notin> set ys \<Longrightarrow> as @ x # xs = bs @ x # ys \<longleftrightarrow> as = bs \<and> xs = ys"
  by (auto simp: append_eq_append_conv2 Cons_eq_append_conv append_eq_Cons_conv)

lemma split_at_first:
  "x \<notin> set as \<Longrightarrow> x \<notin> set bs \<Longrightarrow> as @ x # xs = bs @ x # ys \<longleftrightarrow> as = bs \<and> xs = ys"
  by (auto simp: append_eq_append_conv2 Cons_eq_append_conv append_eq_Cons_conv)

lemma join_inject:
  "\<lbrakk>\<forall>x\<in>set xs. CHR ''/'' \<notin> set x; \<forall>y\<in>set ys. CHR ''/'' \<notin> set y; xs \<noteq> []; ys \<noteq> [];
    join ''/'' xs = join ''/'' ys\<rbrakk> \<Longrightarrow> xs = ys"
proof (induction "''/''" xs arbitrary: ys rule: join.induct)
  case (2 x)
  then obtain y rest where ys: "ys = y # rest" by (cases ys) auto
  show ?case
  proof (cases rest)
    case (Cons z zs)
    then have "CHR ''/'' \<in> set x" using 2 ys by auto
    with 2 show ?thesis by simp
  qed (use 2 ys in simp)
next
  case (3 x x' xs)
  then obtain y rest where ys: "ys = y # rest" by (cases ys) auto
  show ?case
  proof (cases rest)
    case Nil
    then have "y = x @ CHR ''/'' # join ''/'' (x' # xs)" using 3 ys by simp
    then show ?thesis using 3 ys by auto
  next
    case (Cons z zs)
    then have "x = y \<and> join ''/'' (x' # xs) = join ''/'' (z # zs)"
      using 3 ys split_at_first[of "CHR ''/''" x y] by simp
    moreover from this have "x' # xs = z # zs" using 3 ys Cons by (intro "3.hyps") auto
    ultimately show ?thesis using ys Cons by simp
  qed
qed simp

text \<open>(C36) Stable keys are injective: two facts have the same key only when their normalised fact
  types and the normalised values of their key fields, in order, are the same.  No value can forge
  the separators of the key.\<close>

theorem stable_key_injective:
  assumes "build_stable_key u t names values norms = Inr key"
    and "build_stable_key u t' names' values' norms' = Inr key"
  shows "normalize_text u t = normalize_text u t'
    \<and> (\<exists>vs. mapM (key_value u values norms) names = Inr vs
           \<and> mapM (key_value u values' norms') names' = Inr vs)"
proof -
  have parts: "\<exists>vs. mapM (key_value w fs ns) names = Inr vs \<and> vs \<noteq> []
      \<and> key = normalize_text w ty @ '':'' @ join ''/'' (map quote vs)"
    if b: "build_stable_key w ty names fs ns = Inr key" for w ty names fs ns
  proof -
    obtain ps where ps: "mapM (\<lambda>field. rbind (key_value w fs ns field) (\<lambda>v. Inr (quote v))) names = Inr ps"
      "ps \<noteq> []" "key = normalize_text w ty @ '':'' @ join ''/'' ps"
      using b unfolding build_stable_key_def Let_def if_raise_eq_Inr rbind_eq_Inr by auto
    have "list_all2 (\<lambda>n p. \<exists>v. key_value w fs ns n = Inr v \<and> p = quote v) names ps"
      using ps(1) unfolding mapM_eq_Inr by (rule list_all2_mono) (auto simp: result_simps)
    then have "\<exists>vs. list_all2 (\<lambda>n v. key_value w fs ns n = Inr v) names vs \<and> ps = map quote vs"
    proof (induction rule: list_all2_induct)
      case (Cons n ns' p ps')
      then obtain v vs where "key_value w fs ns n = Inr v" "p = quote v"
        "list_all2 (\<lambda>n v. key_value w fs ns n = Inr v) ns' vs" "ps' = map quote vs" by blast
      then show ?case by (intro exI[of _ "v # vs"]) simp
    qed simp
    with ps show ?thesis by (auto simp: mapM_eq_Inr)
  qed
  obtain vs where vs: "mapM (key_value u values norms) names = Inr vs" "vs \<noteq> []"
    "key = normalize_text u t @ '':'' @ join ''/'' (map quote vs)"
    using parts[OF assms(1)] by blast
  obtain ws where ws: "mapM (key_value u values' norms') names' = Inr ws" "ws \<noteq> []"
    "key = normalize_text u t' @ '':'' @ join ''/'' (map quote ws)"
    using parts[OF assms(2)] by blast
  have no_colon: "CHR '':'' \<notin> set (join ''/'' (map quote xs))" for xs
    by (induction xs rule: induct_list012) (auto simp: quote_reserved)
  have same: "normalize_text u t = normalize_text u t'"
    "join ''/'' (map quote vs) = join ''/'' (map quote ws)"
    using vs(3) ws(3) split_at_last[OF no_colon no_colon] by auto
  have "map quote vs = map quote ws"
    using same(2) vs(2) ws(2) by (intro join_inject) (auto simp: quote_reserved)
  then have "vs = ws" by (rule map_injective) (simp add: inj_def)
  with same(1) vs(1) ws(1) show ?thesis by blast
qed

section \<open>A worked convention\<close>

text \<open>The tables restricted to ASCII text.\<close>

definition ascii_tables :: text_tables where
  "ascii_tables = \<lparr>nfkc = \<lambda>s. s, casefold = py_lower, upper = \<lambda>s. s, lower = py_lower,
     float_text = \<lambda>s. Inl (ValueError ''could not convert string to float'')\<rparr>"

definition demo_convention :: document_convention where
  "demo_convention =
    \<lparr>dc_profile_id = ''P'', dc_profile_version = ''1'', dc_document_type = ''api'',
     dc_fact_type = ''Api'', dc_minimum_auto_match_score = 1 / 2,
     dc_variants =
      [\<lparr>cv_variant_id = ''B'', cv_signals = [\<lparr>sr_signal_type = HEADERS, sr_values = [''Name''],
          sr_weight = 1\<rparr>], cv_field_aliases = [(''name'', [''Name''])],
        cv_stable_key_fields = [''name''], cv_stable_key_normalizers = [(''name'', LOWERCASE)]\<rparr>,
       \<lparr>cv_variant_id = ''A'', cv_signals = [\<lparr>sr_signal_type = SHEET_NAME, sr_values = [''List''],
          sr_weight = 1 / 4\<rparr>], cv_field_aliases = [(''name'', [''Label''])],
        cv_stable_key_fields = [''name''], cv_stable_key_normalizers = []\<rparr>]\<rparr>"

definition demo_signals :: document_signals where
  "demo_signals = signals_from_raw ascii_tables ''x.xlsx'' [''List''] [] [''name'', ''Name''] []"

lemma demo_match:
  "match_convention ascii_tables demo_convention demo_signals = Inr
     \<lparr>cm_status = AUTO_MATCHED, cm_selected_variant_id = Some ''B'',
      cm_reason = ''unique_candidate_above_threshold'',
      cm_candidates =
       [\<lparr>mc_variant_id = ''B'', mc_score = 1, mc_matched_signal_types = [HEADERS]\<rparr>,
        \<lparr>mc_variant_id = ''A'', mc_score = 1 / 4, mc_matched_signal_types = [SHEET_NAME]\<rparr>]\<rparr>"
  by code_simp

lemma demo_key:
  "build_stable_key ascii_tables ''Api'' [''a''] [(''a'', ''x/y'')] [] = Inr ''api:x%2Fy''"
  by code_simp


theorem auto_match_iff_clear_winner_witness:
  "\<exists>c. clear_winner (scored ascii_tables demo_convention demo_signals)
       (dc_minimum_auto_match_score demo_convention) c \<and> mc_variant_id c = ''B''"
  using conjunct2[OF auto_match_iff_clear_winner[OF demo_match], rule_format, of "''B''"] by simp

theorem match_ignores_order_witness:
  "match_convention ascii_tables demo_convention
      (signals_from_raw ascii_tables ''x.xlsx'' [''List''] [] [''name'', ''Name''] [])
    = match_convention ascii_tables
        (demo_convention\<lparr>dc_variants := rev (dc_variants demo_convention)\<rparr>)
        (signals_from_raw ascii_tables ''x.xlsx'' [''List'', ''List''] [] [''Name'', ''name''] [])"
  by (rule match_ignores_order) (auto simp: demo_convention_def)

theorem stable_key_injective_witness:
  "\<exists>vs. mapM (key_value ascii_tables [(''a'', ''x/y'')] []) [''a''] = Inr vs"
  using stable_key_injective[OF demo_key demo_key] by blast



end
