(* ===== verification/TaskMessages.thy ===== *)
theory TaskMessages
  imports PyBase
begin

text \<open>
  The Chinese and Japanese literals of \<open>application/orchestration_task.py\<close> and of
  \<open>infrastructure/postgres/orchestration_task_repository.py\<close>, by code point.
\<close>

definition crit_recovery :: string where  \<comment> \<open>the blocking cause is gone and the state can be decided again\<close>
  "crit_recovery =
    utf8 [0x963b, 0x65ad, 0x539f, 0x56e0, 0x5df2, 0x88ab, 0x6d88, 0x9664] @ '', '' @
      utf8 [0x4e14] @ '' Canonical '' @ utf8 [0x72b6, 0x6001, 0x53ef, 0x91cd, 0x65b0, 0x5224,
      0x5b9a, 0x3002]"

definition crit_requirement :: string where  \<comment> \<open>an auditable human confirmation must be cited\<close>
  "crit_requirement =
    utf8 [0x5fc5, 0x987b, 0x5f15, 0x7528, 0x53ef, 0x5ba1, 0x8ba1, 0x7684, 0x4eba, 0x5de5, 0x786e,
      0x8ba4, 0x8bb0, 0x5f55] @ ''; '' @ utf8 [0x9886, 0x53d6, 0x8005, 0x8eab, 0x4efd, 0x672c,
      0x8eab, 0x4e0d, 0x6784, 0x6210, 0x6279, 0x51c6, 0x3002]"

definition crit_rag_documents :: string where  \<comment> \<open>a human confirmed RAG candidates, documents and passages\<close>
  "crit_rag_documents =
    ''RAG '' @ utf8 [0x5019, 0x88dc, 0x3001, 0x5b8c, 0x5168, 0x306a, 0x5bfe, 0x8c61, 0x8a2d,
      0x8a08, 0x66f8, 0x3001, 0x6839, 0x62e0, 0x7b87, 0x6240, 0x3092, 0x4eba, 0x304c, 0x78ba,
      0x8a8d, 0x3057, 0x3066, 0x3044, 0x308b, 0x3002]"

definition crit_prepare_document :: string where  \<comment> \<open>the document is written to the case and can be diffed\<close>
  "crit_prepare_document =
    utf8 [0x8bbe, 0x8ba1, 0x4e66, 0x5df2, 0x5199, 0x5165] @ '' Canonical Case, '' @ utf8 [0x5e76,
      0x53ef, 0x751f, 0x6210, 0x975e, 0x7a7a, 0x5dee, 0x5206, 0x3002]"

definition crit_revise_document :: string where  \<comment> \<open>the review comments are resolved and a new diff exists\<close>
  "crit_revise_document =
    utf8 [0x4fee, 0x8ba2, 0x610f, 0x89c1, 0x5df2, 0x843d, 0x5b9e] @ '', '' @ utf8 [0x5e76,
      0x751f, 0x6210, 0x65b0, 0x7684, 0x53ef, 0x5ba1, 0x67e5, 0x5dee, 0x5206, 0x3002]"

definition crit_document_diff :: string where  \<comment> \<open>the human review record must be cited\<close>
  "crit_document_diff =
    utf8 [0x5fc5, 0x987b, 0x5f15, 0x7528, 0x9010, 0x9879, 0x786e, 0x8ba4, 0x6216, 0x9000, 0x56de,
      0x7684, 0x4eba, 0x5de5, 0x5ba1, 0x67e5, 0x8bb0, 0x5f55, 0x3002]"

definition crit_analysis :: string where  \<comment> \<open>RAG, code graph and impact report come from canonical evidence\<close>
  "crit_analysis =
    ''RAG'' @ utf8 [0x3001] @ ''Code Graph '' @ utf8 [0x4e0e] @ '' Impact Report '' @
      utf8 [0x5747, 0x6765, 0x81ea] @ '' Canonical '' @ utf8 [0x8bc1, 0x636e, 0x3002]"

definition crit_impact :: string where  \<comment> \<open>every impact item has an auditable human decision\<close>
  "crit_impact =
    utf8 [0x6bcf, 0x4e2a, 0x5f71, 0x54cd, 0x9879, 0x90fd, 0x6709, 0x53ef, 0x5ba1, 0x8ba1, 0x7684,
      0x4eba, 0x5de5, 0x6279, 0x51c6, 0x6216, 0x62d2, 0x7edd, 0x7ed3, 0x679c, 0x3002]"

definition crit_code_scope :: string where  \<comment> \<open>a human confirmed code, symbols and test scope\<close>
  "crit_code_scope =
    utf8 [0x5909, 0x66f4, 0x5bfe, 0x8c61, 0x30b3, 0x30fc, 0x30c9, 0x3001, 0x30b7, 0x30f3, 0x30dc,
      0x30eb, 0x3001, 0x30c6, 0x30b9, 0x30c8, 0x7bc4, 0x56f2, 0x3092, 0x4eba, 0x304c, 0x78ba,
      0x8a8d, 0x3057, 0x3066, 0x3044, 0x308b, 0x3002]"

definition crit_orchestration :: string where  \<comment> \<open>the products are traceable to confirmed requirement, diff and impact\<close>
  "crit_orchestration =
    utf8 [0x751f, 0x6210, 0x7269, 0x53ef, 0x8ffd, 0x6eaf, 0x5230, 0x5df2, 0x786e, 0x8ba4, 0x7684,
      0x9700, 0x6c42, 0x3001, 0x8bbe, 0x8ba1, 0x5dee, 0x5206, 0x548c, 0x5f71, 0x54cd, 0x9879,
      0x3002]"

definition crit_test_plan :: string where  \<comment> \<open>a human confirmed TestPlan, TestDataPlan and business coverage\<close>
  "crit_test_plan =
    ''TestPlan'' @ utf8 [0x3001] @ ''TestDataPlan'' @ utf8 [0x3001, 0x696d, 0x52d9, 0x30ab,
      0x30d0, 0x30ec, 0x30c3, 0x30b8, 0x3092, 0x4eba, 0x304c, 0x78ba, 0x8a8d, 0x3057, 0x3066,
      0x3044, 0x308b, 0x3002]"

definition crit_scope :: string where  \<comment> \<open>the execution scope derives from the confirmed impact and a valid profile\<close>
  "crit_scope =
    utf8 [0x5b9f, 0x884c, 0x7bc4, 0x56f2, 0x306f, 0x78ba, 0x8a8d, 0x6e08, 0x307f] @ '' Impact ''
      @ utf8 [0x3068, 0x6709, 0x52b9, 0x306a] @ '' CommandExecutionProfile '' @ utf8 [0x304b,
      0x3089, 0x5c0e, 0x51fa, 0x3055, 0x308c, 0x308b, 0x3002]"

definition crit_code_change :: string where  \<comment> \<open>the change stays inside the edit packet and carries evidence\<close>
  "crit_code_change =
    utf8 [0x4fee, 0x6539, 0x8303, 0x56f4, 0x4e0d, 0x8d85, 0x51fa] @ '' EditPacket, '' @
      utf8 [0x4e14, 0x7ed3, 0x679c, 0x5305, 0x542b, 0x547d, 0x4ee4, 0x4e0e, 0x5dee, 0x5206,
      0x8bc1, 0x636e, 0x3002]"

definition crit_grant :: string where  \<comment> \<open>the confirmed scope is cited and the grant is not expired\<close>
  "crit_grant =
    utf8 [0x5fc5, 0x987b, 0x5f15, 0x7528, 0x4eba, 0x5de5, 0x786e, 0x8ba4, 0x7684, 0x6267, 0x884c,
      0x8303, 0x56f4] @ '', '' @ utf8 [0x4e14, 0x6388, 0x6743, 0x5c1a, 0x672a, 0x8fc7, 0x671f,
      0x3002]"

definition crit_test_data :: string where  \<comment> \<open>preparation, assertion and cleanup are complete\<close>
  "crit_test_data =
    utf8 [0x51c6, 0x5907, 0x3001, 0x65ad, 0x8a00, 0x3001, 0x6e05, 0x7406, 0x5747, 0x5b8c, 0x6210]
      @ '', '' @ utf8 [0x5e76, 0x4fdd, 0x7559, 0x8de8, 0x753b, 0x9762, 0x53d8, 0x91cf, 0x8bc1,
      0x636e, 0x3002]"

definition crit_refresh :: string where  \<comment> \<open>the canonical execution state is read again\<close>
  "crit_refresh =
    utf8 [0x91cd, 0x65b0, 0x8bfb, 0x53d6] @ '' Canonical '' @ utf8 [0x6267, 0x884c, 0x72b6,
      0x6001] @ '', '' @ utf8 [0x4e0d, 0x4ee5, 0x672c, 0x5730, 0x63a8, 0x6d4b, 0x66ff, 0x4ee3,
      0x3002]"

definition crit_ui :: string where  \<comment> \<open>UI scenarios, screenshots, assertions and coverage are recorded\<close>
  "crit_ui =
    ''UI '' @ utf8 [0x573a, 0x666f, 0x3001, 0x622a, 0x56fe, 0x3001, 0x65ad, 0x8a00, 0x548c,
      0x4e1a, 0x52a1, 0x8986, 0x76d6, 0x7387, 0x5747, 0x5df2, 0x8bb0, 0x5f55, 0x3002]"

definition crit_ui_test :: string where  \<comment> \<open>a human confirmed data generation and UI scenarios\<close>
  "crit_ui_test =
    utf8 [0x30c6, 0x30b9, 0x30c8, 0x30c7, 0x30fc, 0x30bf, 0x751f, 0x6210, 0x624b, 0x9806, 0x3068]
      @ '' UI '' @ utf8 [0x30b7, 0x30ca, 0x30ea, 0x30aa, 0x3092, 0x4eba, 0x304c, 0x78ba, 0x8a8d,
      0x3057, 0x3066, 0x3044, 0x308b, 0x3002]"

definition crit_final_report :: string where  \<comment> \<open>a human confirmed the final result and evidence\<close>
  "crit_final_report =
    utf8 [0x6700, 0x7d42, 0x7d50, 0x679c, 0x3001, 0x8a3c, 0x8de1, 0x3001, 0x963b, 0x65ad, 0x7406,
      0x7531, 0x306e, 0x6709, 0x7121, 0x3092, 0x4eba, 0x304c, 0x78ba, 0x8a8d, 0x3057, 0x3066,
      0x3044, 0x308b, 0x3002]"

definition instr_prepare_document :: string where  \<comment> \<open>draft the document from the confirmed requirement\<close>
  "instr_prepare_document =
    utf8 [0x6839, 0x636e, 0x5df2, 0x786e, 0x8ba4, 0x7684, 0x53d8, 0x66f4, 0x9700, 0x6c42, 0x751f,
      0x6210, 0x8bbe, 0x8ba1, 0x4e66, 0x8349, 0x6848] @ '', '' @ utf8 [0x5e76, 0x5199, 0x5165] @
      '' Canonical Case'' @ utf8 [0x3002]"

definition instr_revise_document :: string where  \<comment> \<open>revise the document as reviewed and regenerate the diff\<close>
  "instr_revise_document =
    utf8 [0x6839, 0x636e, 0x5ba1, 0x67e5, 0x610f, 0x89c1, 0x4fee, 0x8ba2, 0x8bbe, 0x8ba1, 0x4e66]
      @ '', '' @ utf8 [0x5199, 0x5165, 0x65b0, 0x7684] @ '' Document Snapshot '' @ utf8 [0x5e76,
      0x91cd, 0x65b0, 0x751f, 0x6210, 0x5dee, 0x5206, 0x3002]"

definition instr_code_change :: string where  \<comment> \<open>change the allowed sources according to the edit packet\<close>
  "instr_code_change =
    utf8 [0x4f9d, 0x636e, 0x5df2, 0x6279, 0x51c6, 0x7684] @ '' EditPacket '' @ utf8 [0x4fee,
      0x6539, 0x5141, 0x8bb8, 0x8303, 0x56f4, 0x5185, 0x7684, 0x6e90, 0x4ee3, 0x7801] @ '', '' @
      utf8 [0x5e76, 0x8bb0, 0x5f55, 0x547d, 0x4ee4, 0x3001, 0x5dee, 0x5206, 0x548c, 0x7ed3,
      0x679c, 0x8bc1, 0x636e, 0x3002]"

definition label_neutral_code_change :: string where  \<comment> \<open>code change\<close>
  "label_neutral_code_change =
    utf8 [0x30b3, 0x30fc, 0x30c9, 0x5909, 0x66f4]"

definition msg_canonical_advanced :: string where  \<comment> \<open>the progress of the canonical state was observed\<close>
  "msg_canonical_advanced =
    ''Canonical '' @ utf8 [0x72b6, 0x614b, 0x306e, 0x9032, 0x884c, 0x3092, 0x78ba, 0x8a8d,
      0x3057, 0x307e, 0x3057, 0x305f, 0x3002]"

definition msg_no_blocking_reason :: string where  \<comment> \<open>no blocking reason is recorded\<close>
  "msg_no_blocking_reason =
    utf8 [0x963b, 0x65ad, 0x7406, 0x7531, 0x304c, 0x8a18, 0x9332, 0x3055, 0x308c, 0x3066, 0x3044,
      0x307e, 0x305b, 0x3093, 0x3002]"

end
