(* ===== verification/OrchestrationTask.thy ===== *)
theory OrchestrationTask
  imports ChangeAutomation CanonicalJson Conventions TaskMessages
begin

text \<open>
  Agent-neutral task definitions (\<open>application/orchestration_task.py\<close>): the contract every
  persisted definition satisfies, the policy of each action, the definition built for a decision of
  the change flow, the scheduling policy of a deployment and the validation of result evidence.
  The lemmas show that every decision of the state machine that asks for an action gives a task.
\<close>

section \<open>Task definitions\<close>

definition EXECUTOR_KINDS :: "string list" where
  "EXECUTOR_KINDS = [''agent'', ''subagent'', ''human'']"

definition ORCHESTRATION_TASK_PROTOCOL_VERSION :: string where
  "ORCHESTRATION_TASK_PROTOCOL_VERSION = ''orchestration_task_v1''"

definition ORCHESTRATION_MAX_ACTIVE_TASKS_ENV :: string where
  "ORCHESTRATION_MAX_ACTIVE_TASKS_ENV = ''OPERAMIND_MAX_ACTIVE_TASKS_PER_RUN''"

record task_definition =
  td_protocol_version :: string
  td_task_id :: string
  td_automation_run_id :: string
  td_change_request_id :: string
  td_project_id :: string
  td_step_key :: string
  td_action :: string
  td_title :: string
  td_instruction :: string
  td_task_kind :: string
  td_required_capabilities :: "string list"
  td_eligible_executor_kinds :: "string list"
  td_input_artifact_refs :: "string list"
  td_expected_output_types :: "string list"
  td_acceptance_criteria :: "string list"
  td_lease_seconds :: int
  td_max_attempts :: int
  td_definition_digest :: string
  td_priority :: int

definition task_kinds :: "string list" where
  "task_kinds = [''deterministic_action'', ''judgment'', ''external_execution'', ''verification'',
    ''recovery'']"

definition required_text :: "task_definition \<Rightarrow> string list" where
  "required_text d =
    [td_protocol_version d, td_task_id d, td_automation_run_id d, td_change_request_id d,
     td_project_id d, td_step_key d, td_action d, td_title d, td_instruction d, td_task_kind d,
     td_definition_digest d]"

definition is_sha256 :: "string \<Rightarrow> bool" where
  "is_sha256 s \<longleftrightarrow> py_len s = 64 \<and> list_all (\<lambda>c. c \<in> set ''0123456789abcdef'') s"

definition check_task_definition :: "task_definition \<Rightarrow> task_definition result" where
  "check_task_definition d =
    (if list_ex blank (required_text d) then
       Inl (ValueError ''Orchestration Task definition text must not be blank'')
     else if td_eligible_executor_kinds d \<noteq> EXECUTOR_KINDS then
       Inl (ValueError ''Orchestration Task must be claimable by agent, subagent, and human'')
     else if td_task_kind d \<notin> set task_kinds then
       Inl (ValueError ''Orchestration Task kind is invalid'')
     else if td_required_capabilities d = [] then
       Inl (ValueError ''Orchestration Task requires at least one capability'')
     else if td_expected_output_types d = [] \<or> td_acceptance_criteria d = [] then
       Inl (ValueError ''Orchestration Task requires outputs and acceptance criteria'')
     else if \<not> (30 \<le> td_lease_seconds d \<and> td_lease_seconds d \<le> 86400) then
       Inl (ValueError ''Orchestration Task lease_seconds is out of bounds'')
     else if \<not> (1 \<le> td_max_attempts d \<and> td_max_attempts d \<le> 100) then
       Inl (ValueError ''Orchestration Task max_attempts is out of bounds'')
     else if \<not> (1 \<le> td_priority d \<and> td_priority d \<le> 1000) then
       Inl (ValueError ''Orchestration Task priority is out of bounds'')
     else if \<not> is_sha256 (td_definition_digest d) then
       Inl (ValueError ''Orchestration Task definition_digest must be SHA-256'')
     else Inr d)"

section \<open>The scheduling policy\<close>

text \<open>\<open>int(text)\<close> of a stripped text: a sign, then decimal digits of any script with single
  underscores between them, at most 4300 of them.  The decimal digits of the Unicode tables
  (\<open>decimal\<close>) are an argument.\<close>

fun int_digits :: "(string \<Rightarrow> nat option) \<Rightarrow> bool \<Rightarrow> string list \<Rightarrow> nat list option" where
  "int_digits decimal after_digit [] = (if after_digit then Some [] else None)"
| "int_digits decimal after_digit (c # cs) =
    (if c = ''_'' then (if after_digit then int_digits decimal False cs else None)
     else case decimal c of
       None \<Rightarrow> None
     | Some n \<Rightarrow> map_option ((#) n) (int_digits decimal True cs))"

definition py_int :: "(string \<Rightarrow> nat option) \<Rightarrow> string \<Rightarrow> int result" where
  "py_int decimal s =
    (let cs = utf8_chars (py_strip s);
         negative = (cs \<noteq> [] \<and> hd cs = ''-'');
         body = (if cs \<noteq> [] \<and> hd cs \<in> {''-'', ''+''} then tl cs else cs)
     in case int_digits decimal False body of
          None \<Rightarrow> Inl (ValueError ''invalid literal for int() with base 10'')
        | Some ds \<Rightarrow>
            if 4300 < length ds then
              Inl (ValueError ''Exceeds the limit for integer string conversion'')
            else let n = foldl (\<lambda>acc d. 10 * acc + int d) 0 ds
                 in Inr (if negative then - n else n))"

record scheduling_policy =
  sp_max_active_tasks_per_run :: int

definition new_scheduling_policy :: "int \<Rightarrow> scheduling_policy result" where
  "new_scheduling_policy maximum =
    (if \<not> (1 \<le> maximum \<and> maximum \<le> 100) then
       Inl (ValueError ''max_active_tasks_per_run must be between 1 and 100'')
     else Inr \<lparr>sp_max_active_tasks_per_run = maximum\<rparr>)"

definition parse_orchestration_scheduling_policy ::
    "(string \<Rightarrow> nat option) \<Rightarrow> string option \<Rightarrow> scheduling_policy result" where
  "parse_orchestration_scheduling_policy decimal value =
    (case value of
       None \<Rightarrow> new_scheduling_policy 1
     | Some v \<Rightarrow>
         let normalized = py_strip v
         in if normalized = [] then
              Inl (ValueError (ORCHESTRATION_MAX_ACTIVE_TASKS_ENV @ '' must not be blank''))
            else case py_int decimal normalized of
                Inl (ValueError _) \<Rightarrow>
                  Inl (ValueError (ORCHESTRATION_MAX_ACTIVE_TASKS_ENV @ '' must be an integer''))
              | Inl e \<Rightarrow> Inl e
              | Inr maximum \<Rightarrow> new_scheduling_policy maximum)"

section \<open>The policy of an action\<close>

record action_policy =
  ap_task_kind :: string
  ap_capabilities :: "string list"
  ap_outputs :: "string list"
  ap_criteria :: "string list"
  ap_lease_seconds :: int
  ap_max_attempts :: int

definition new_action_policy ::
    "string \<Rightarrow> string list \<Rightarrow> string list \<Rightarrow> string list \<Rightarrow> int \<Rightarrow> action_policy" where
  "new_action_policy kind capabilities outputs criteria lease_seconds =
    \<lparr>ap_task_kind = kind, ap_capabilities = capabilities, ap_outputs = outputs,
     ap_criteria = criteria, ap_lease_seconds = lease_seconds, ap_max_attempts = 3\<rparr>"

definition DEFAULT_POLICY :: action_policy where
  "DEFAULT_POLICY =
    new_action_policy ''recovery'' [''workflow_recovery''] [''EvidenceRef''] [crit_recovery] 300"

definition ACTION_POLICIES :: "(string \<times> action_policy) list" where
  "ACTION_POLICIES =
    [(''confirm_requirement'', new_action_policy ''judgment'' [''requirement_review'']
        [''RequirementConfirmation'']
        [crit_requirement] 1800),
     (''confirm_rag_documents'', new_action_policy ''judgment'' [''document_review'']
        [''RagDocumentConfirmation'']
        [crit_rag_documents] 1800),
     (''prepare_document_with_copilot'', new_action_policy ''external_execution'' [''document_generation'']
        [''DocumentSnapshot'', ''StructuredChange'']
        [crit_prepare_document] 900),
     (''revise_document_with_copilot'', new_action_policy ''external_execution'' [''document_revision'']
        [''DocumentSnapshot'', ''StructuredChange'']
        [crit_revise_document] 900),
     (''confirm_document_diff'', new_action_policy ''judgment'' [''document_review'']
        [''DocumentReview'']
        [crit_document_diff] 1800),
     (''prepare_canonical_analysis'', new_action_policy ''deterministic_action'' [''rag_analysis'', ''code_graph_analysis'', ''impact_analysis'']
        [''ImpactReport'']
        [crit_analysis] 900),
     (''confirm_impact'', new_action_policy ''judgment'' [''impact_review'']
        [''ImpactConfirmation'']
        [crit_impact] 1800),
     (''confirm_code_scope'', new_action_policy ''judgment'' [''impact_review'']
        [''CodeScopeConfirmation'']
        [crit_code_scope] 1800),
     (''generate_orchestration'', new_action_policy ''deterministic_action'' [''change_planning'']
        [''AcceptanceCriteria'', ''TestPlan'', ''TestDataPlan'', ''BusinessCoverageReport'', ''ChangeOrchestrationPlan'']
        [crit_orchestration] 300),
     (''confirm_test_plan'', new_action_policy ''judgment'' [''test_plan_review'']
        [''TestPlanConfirmation'']
        [crit_test_plan] 1800),
     (''provision_execution_scope'', new_action_policy ''deterministic_action'' [''execution_scope_binding'']
        [''CopilotEditPacket'', ''ApprovalGrant'']
        [crit_scope] 300),
     (''apply_code_change_with_copilot'', new_action_policy ''external_execution'' [''source_code_edit'']
        [''EditResult'']
        [crit_code_change] 900),
     (''issue_approval_grant'', new_action_policy ''judgment'' [''execution_scope_review'']
        [''ApprovalGrant'']
        [crit_grant] 1800),
     (''start_test_data_execution'', new_action_policy ''external_execution'' [''test_data_execution'']
        [''TestDataExecutionResult'']
        [crit_test_data] 900),
     (''refresh'', new_action_policy ''verification'' [''state_observation'']
        [''ExecutionState'']
        [crit_refresh] 300),
     (''run_ui_verification'', new_action_policy ''verification'' [''ui_test_execution'']
        [''UiVerificationResult'']
        [crit_ui] 900),
     (''confirm_ui_test'', new_action_policy ''judgment'' [''ui_test_review'']
        [''UiTestConfirmation'']
        [crit_ui_test] 1800),
     (''confirm_final_report'', new_action_policy ''judgment'' [''final_report_review'']
        [''FinalReportConfirmation'']
        [crit_final_report] 1800),
     (''resolve_blocker'', DEFAULT_POLICY)]"

definition AGENT_NEUTRAL_ACTIONS :: "(string \<times> string) list" where
  "AGENT_NEUTRAL_ACTIONS =
    [(''prepare_document_with_copilot'', ''prepare_document''),
     (''revise_document_with_copilot'', ''revise_document''),
     (''apply_code_change_with_copilot'', ''apply_code_change'')]"

definition AGENT_NEUTRAL_INSTRUCTIONS :: "(string \<times> string) list" where
  "AGENT_NEUTRAL_INSTRUCTIONS =
    [(''prepare_document_with_copilot'', instr_prepare_document),
     (''revise_document_with_copilot'', instr_revise_document),
     (''apply_code_change_with_copilot'', instr_code_change)]"

definition AGENT_NEUTRAL_STAGE_LABELS :: "(string \<times> string) list" where
  "AGENT_NEUTRAL_STAGE_LABELS =
    [(''code_change'', label_neutral_code_change)]"

section \<open>The task of a decision\<close>

definition policy_of :: "string \<Rightarrow> action_policy" where
  "policy_of action = (case map_of ACTION_POLICIES action of Some p \<Rightarrow> p | None \<Rightarrow> DEFAULT_POLICY)"

definition text_for :: "(string \<times> string) list \<Rightarrow> string \<Rightarrow> string \<Rightarrow> string" where
  "text_for table k otherwise =
    (case map_of table k of Some v \<Rightarrow> v | None \<Rightarrow> otherwise)"

definition task_payload ::
    "string \<Rightarrow> string \<Rightarrow> string \<Rightarrow> change_decision \<Rightarrow> string \<Rightarrow> string list \<Rightarrow> pyval" where
  "task_payload automation_run_id change_request_id project_id d act input_artifact_refs =
    (let policy = policy_of act
     in PDict
       [(''protocol_version'', PStr ORCHESTRATION_TASK_PROTOCOL_VERSION),
        (''automation_run_id'', PStr automation_run_id),
        (''change_request_id'', PStr change_request_id),
        (''project_id'', PStr project_id),
        (''step_key'', PStr (stage d)),
        (''action'', PStr (text_for AGENT_NEUTRAL_ACTIONS act act)),
        (''instruction'', PStr (text_for AGENT_NEUTRAL_INSTRUCTIONS act (message d))),
        (''task_kind'', PStr (ap_task_kind policy)),
        (''required_capabilities'', PStrs (ap_capabilities policy)),
        (''eligible_executor_kinds'', PStrs EXECUTOR_KINDS),
        (''input_artifact_refs'', PStrs input_artifact_refs),
        (''expected_output_types'', PStrs (ap_outputs policy)),
        (''acceptance_criteria'', PStrs (ap_criteria policy)),
        (''lease_seconds'', PInt (ap_lease_seconds policy)),
        (''max_attempts'', PInt (ap_max_attempts policy)),
        (''priority'', PInt 100)])"

definition task_id_of :: "string \<Rightarrow> string \<Rightarrow> string \<Rightarrow> string \<Rightarrow> string" where
  "task_id_of automation_run_id stg action digest =
    ''orchestration-task-'' @ take 24 (sha256_hex
      (automation_run_id @ '':'' @ stg @ '':'' @ action @ '':'' @ digest))"

definition build_orchestration_task ::
    "string \<Rightarrow> string \<Rightarrow> string \<Rightarrow> change_decision \<Rightarrow> string list \<Rightarrow> task_definition option result"
  where
  "build_orchestration_task automation_run_id change_request_id project_id d input_artifact_refs =
    (case next_action d of
       None \<Rightarrow> Inr None
     | Some act \<Rightarrow>
         if stage d = ''completed'' then Inr None
         else
           let policy = policy_of act;
               action = text_for AGENT_NEUTRAL_ACTIONS act act;
               digest = sha256_hex (json_dumps (task_payload automation_run_id change_request_id
                 project_id d act input_artifact_refs))
           in rbind (check_task_definition
                \<lparr>td_protocol_version = ORCHESTRATION_TASK_PROTOCOL_VERSION,
                 td_task_id = task_id_of automation_run_id (stage d) action digest,
                 td_automation_run_id = automation_run_id,
                 td_change_request_id = change_request_id, td_project_id = project_id,
                 td_step_key = stage d, td_action = action,
                 td_title = text_for AGENT_NEUTRAL_STAGE_LABELS (stage d)
                   (text_for STAGE_LABELS (stage d) (stage d)),
                 td_instruction = text_for AGENT_NEUTRAL_INSTRUCTIONS act (message d),
                 td_task_kind = ap_task_kind policy,
                 td_required_capabilities = ap_capabilities policy,
                 td_eligible_executor_kinds = EXECUTOR_KINDS,
                 td_input_artifact_refs = input_artifact_refs,
                 td_expected_output_types = ap_outputs policy,
                 td_acceptance_criteria = ap_criteria policy,
                 td_lease_seconds = ap_lease_seconds policy,
                 td_max_attempts = ap_max_attempts policy,
                 td_definition_digest = digest, td_priority = 100\<rparr>) (\<lambda>t. Inr (Some t)))"

section \<open>Result evidence\<close>

definition forbidden_fragments :: "string list" where
  "forbidden_fragments =
    [''source_code'', ''diff_body'', ''document_body'', ''secret'', ''token'', ''password'']"

fun is_scalar :: "pyval \<Rightarrow> bool" where
  "is_scalar (PList vs) = False"
| "is_scalar (PDict d) = False"
| "is_scalar v = True"

fun bounded_text :: "nat \<Rightarrow> pyval \<Rightarrow> bool" where
  "bounded_text n (PStr s) = (py_len s \<le> n)"
| "bounded_text n v = True"

definition check_evidence_field :: "text_tables \<Rightarrow> string \<times> pyval \<Rightarrow> unit result" where
  "check_evidence_field u field =
    (case field of (k, v) \<Rightarrow>
      let normalized = lower u (py_strip k)
      in if normalized = [] \<or> 160 < py_len k then
           Inl (ValueError ''result evidence keys must be non-blank and bounded'')
         else if list_ex (\<lambda>fragment. is_substring fragment normalized) forbidden_fragments then
           Inl (ValueError ''result evidence must not contain source, Diff, or secret bodies'')
         else if \<not> is_scalar v then
           Inl (ValueError ''result evidence values must be scalar'')
         else if \<not> bounded_text 2000 v then
           Inl (ValueError ''result evidence string values must be bounded'')
         else Inr ())"

definition validate_orchestration_result_evidence ::
    "text_tables \<Rightarrow> pydict \<Rightarrow> unit result" where
  "validate_orchestration_result_evidence u evidence =
    (if evidence = [] \<or> 100 < length evidence then
       Inl (ValueError ''result evidence must contain between 1 and 100 fields'')
     else foldM (\<lambda>_. check_evidence_field u) () evidence)"

section \<open>A digest is a SHA-256\<close>

lemma length_sha256_round: "length st = 8 \<Longrightarrow> length (sha256_round st kw) = 8"
  by (induction st kw rule: sha256_round.induct) (simp_all add: Let_def)

lemma length_sha256_rounds: "length st = 8 \<Longrightarrow> length (foldl sha256_round st kws) = 8"
  by (induction kws arbitrary: st) (simp_all add: length_sha256_round)

lemma length_sha256_block: "length st = 8 \<Longrightarrow> length (sha256_block st block) = 8"
  by (simp add: sha256_block_def length_sha256_rounds)

lemma length_sha256: "length (sha256 s) = 8"
proof -
  have "length (foldl sha256_block st bs) = 8" if "length st = 8" for st bs
    using that by (induction bs arbitrary: st) (simp_all add: length_sha256_block)
  then show ?thesis by (simp add: sha256_def Let_def sha256_init_def)
qed

lemma hex_digit_lower: "n < 16 \<Longrightarrow> hex_digit n \<in> set ''0123456789abcdef''"
proof -
  have "list_all (\<lambda>n. hex_digit n \<in> set ''0123456789abcdef'') [0..<16]" by code_simp
  then show "n < 16 \<Longrightarrow> ?thesis" by (simp add: list_all_iff)
qed

lemma sha256_hex_digits: "list_all (\<lambda>c. c \<in> set ''0123456789abcdef'') (sha256_hex s)"
  unfolding sha256_hex_def hex_word_def list_all_iff set_concat
  using hex_digit_lower by auto

lemma length_sha256_hex: "length (sha256_hex s) = 64"
proof -
  have "length (concat (map hex_word ws)) = 8 * length ws" for ws
    by (induction ws) (simp_all add: hex_word_def)
  then show ?thesis by (simp add: sha256_hex_def length_sha256)
qed

lemma utf8_chars_ascii:
  "list_all (\<lambda>c. (of_char c :: nat) < 128) s \<Longrightarrow> utf8_chars s = map (\<lambda>c. [c]) s"
proof (induction s rule: utf8_chars.induct)
  case (2 c cs)
  have none: "takeWhile utf8_continuation cs = []"
    using 2(2) by (cases cs) (auto simp: utf8_continuation_def)
  then have "dropWhile utf8_continuation cs = cs" by (cases cs) (auto split: if_splits)
  with 2 none show ?case by simp
qed simp

lemma hex_ascii: "c \<in> set ''0123456789abcdef'' \<Longrightarrow> (of_char c :: nat) < 128"
  by auto

lemma sha256_hex_is_sha256 [simp]: "is_sha256 (sha256_hex s)"
proof -
  have "list_all (\<lambda>c. (of_char c :: nat) < 128) (sha256_hex s)"
    using sha256_hex_digits[of s] hex_ascii unfolding list_all_iff by blast
  then show ?thesis
    using sha256_hex_digits length_sha256_hex by (simp add: is_sha256_def py_len_def utf8_chars_ascii)
qed

lemma not_blank_sha256_hex [simp]: "\<not> blank (sha256_hex s)"
proof (cases "sha256_hex s")
  case Nil
  then show ?thesis using length_sha256_hex[of s] by simp
next
  case (Cons c cs)
  then have "c \<in> set ''0123456789abcdef''" using sha256_hex_digits[of s] by simp
  then have "33 \<le> (of_char c :: nat) \<and> (of_char c :: nat) < 127" by auto
  then show ?thesis using Cons by simp
qed

section \<open>Texts that are not blank\<close>

lemma not_blank_wide: "228 \<le> (of_char c :: nat) \<Longrightarrow> \<not> blank (c # s)"
proof -
  have "list_all (\<lambda>w. w \<noteq> [] \<and> (of_char (hd w) :: nat) < 228) space_chars" by code_simp
  then show "228 \<le> (of_char c :: nat) \<Longrightarrow> ?thesis"
    by (auto simp: blank_iff is_space_char_def list_all_iff)
qed

lemma not_blank_kana:
  assumes "(of_char c :: nat) = 227" "utf8_continuation d" "(of_char d :: nat) \<noteq> 128"
  shows "\<not> blank (c # d # s)"
proof -
  have "list_all (\<lambda>w. (of_char (hd w) :: nat) = 227 \<longrightarrow> (of_char (hd (tl w)) :: nat) = 128) space_chars"
    by code_simp
  then show ?thesis using assms by (auto simp: blank_iff is_space_char_def list_all_iff)
qed

lemma not_blank_utf8:
  assumes "0x3041 \<le> n" "n < 0x10000"
  shows "\<not> blank (utf8 (n # ns) @ s)"
proof (cases "n < 0x4000")
  case True
  have u: "utf8 (n # ns) @ s = char_of (0xE0 + n div 4096) # char_of (0x80 + n div 64 mod 64)
     # char_of (0x80 + n mod 64) # utf8 ns @ s"
    using assms by (simp add: utf8_def utf8_char_def)
  have n: "n div 4096 = 3" "193 \<le> n div 64" "n div 64 < 256" using assms(1) True by linarith+
  define r where "r = n div 64 - 192"
  then have r: "n div 64 = 192 + r" "1 \<le> r" "r < 64" using n by simp_all
  have "(64 * 3 + r) mod 64 = r mod 64" by (rule mod_mult_self4)
  then have "n div 64 mod 64 = r" using r by simp
  then show ?thesis unfolding u using n r
    by (intro not_blank_kana) (simp_all add: utf8_continuation_def)
next
  case False
  have u: "utf8 (n # ns) @ s = char_of (0xE0 + n div 4096) # char_of (0x80 + n div 64 mod 64)
     # char_of (0x80 + n mod 64) # utf8 ns @ s"
    using assms by (simp add: utf8_def utf8_char_def)
  have "4 \<le> n div 4096" "n div 4096 < 16" using assms False by linarith+
  then show ?thesis unfolding u by (intro not_blank_wide) simp
qed

lemma not_blank_utf8' [simp]:
  "0x3041 \<le> n \<Longrightarrow> n < 0x10000 \<Longrightarrow> \<not> blank (utf8 (n # ns))"
  using not_blank_utf8[of n ns "[]"] by simp

lemma messages_not_blank [simp]:
  "\<not> blank (msg_confirm_requirement @ s)" "\<not> blank msg_confirm_requirement"
  "\<not> blank msg_rag_unavailable" "\<not> blank (msg_confirm_rag_documents @ s)"
  "\<not> blank msg_confirm_rag_documents" "\<not> blank msg_generate_draft"
  "\<not> blank msg_generate_draft_import" "\<not> blank msg_revise_document"
  "\<not> blank (msg_confirm_document_diff @ s)" "\<not> blank msg_confirm_document_diff"
  "\<not> blank msg_prepare_analysis" "\<not> blank msg_impact_blocked" "\<not> blank msg_reanalyze_scope"
  "\<not> blank (msg_confirm_code_scope @ s)" "\<not> blank msg_confirm_code_scope"
  "\<not> blank msg_provision_scope" "\<not> blank msg_rebind_scope" "\<not> blank msg_apply_code_change"
  "\<not> blank msg_finish_working_change" "\<not> blank msg_working_out_of_scope"
  "\<not> blank msg_code_not_successful" "\<not> blank msg_generate_ui_plan" "\<not> blank msg_generate_orchestration"
  "\<not> blank msg_business_coverage_incomplete" "\<not> blank (msg_confirm_test_plan @ s)"
  "\<not> blank msg_confirm_test_plan" "\<not> blank msg_start_test_data" "\<not> blank msg_test_data_running"
  "\<not> blank msg_test_data_failed" "\<not> blank msg_data_coverage_incomplete" "\<not> blank msg_run_ui"
  "\<not> blank (msg_confirm_final_report @ s)" "\<not> blank msg_confirm_final_report"
  "\<not> blank msg_completed" "\<not> blank msg_closure_unresolved"
  by (simp_all add: not_blank_utf8 msg_confirm_requirement_def msg_rag_unavailable_def
      msg_confirm_rag_documents_def msg_generate_draft_def msg_generate_draft_import_def
      msg_revise_document_def msg_confirm_document_diff_def msg_prepare_analysis_def
      msg_impact_blocked_def msg_reanalyze_scope_def msg_confirm_code_scope_def
      msg_provision_scope_def msg_rebind_scope_def msg_apply_code_change_def
      msg_finish_working_change_def msg_working_out_of_scope_def msg_code_not_successful_def
      msg_generate_ui_plan_def msg_generate_orchestration_def msg_business_coverage_incomplete_def
      msg_confirm_test_plan_def msg_start_test_data_def msg_test_data_running_def
      msg_test_data_failed_def msg_data_coverage_incomplete_def msg_run_ui_def
      msg_confirm_final_report_def msg_completed_def msg_closure_unresolved_def)

lemma instructions_not_blank [simp]:
  "\<not> blank instr_prepare_document" "\<not> blank instr_revise_document" "\<not> blank instr_code_change"
  "\<not> blank label_neutral_code_change"
  by (simp_all add: not_blank_utf8 instr_prepare_document_def instr_revise_document_def
      instr_code_change_def label_neutral_code_change_def)

lemma labels_not_blank: "s \<in> fst ` set STAGE_LABELS \<Longrightarrow> \<not> blank (text_for STAGE_LABELS s t)"
  by (auto simp: STAGE_LABELS_def text_for_def not_blank_utf8 label_requirement_confirmation_def
      label_rag_document_confirmation_def label_document_generation_def label_document_revision_def
      label_document_confirmation_def label_impact_analysis_def label_impact_confirmation_def
      label_execution_approval_def label_code_change_def label_planning_def
      label_test_plan_confirmation_def label_ui_test_confirmation_def label_test_data_execution_def
      label_ui_verification_def label_closure_def label_final_report_confirmation_def
      label_completed_def)

section \<open>The task of every decision\<close>

lemma message_simps [simp]:
  "message (waiting s a m) = m" "message (running s a m) = m" "message (blocked s m) = m"
  by (simp_all add: waiting_def running_def blocked_def)

lemma stage_simps [simp]:
  "stage (waiting s a m) = s" "stage (running s a m) = s" "stage (blocked s m) = s"
  by (simp_all add: waiting_def running_def blocked_def)

lemma document_messages:
  assumes "decide_document_stage i = Inr (Some d)"
  shows "stage d = ''rag_document_confirmation'' \<or> \<not> blank (message d)"
  using assms unfolding decide_document_stage_def Let_def
  by (auto simp: gate_simps split: if_splits)

lemma scope_messages:
  assumes "decide_code_scope_stage i = Inr (Some d)"
  shows "\<not> blank (message d)"
  using assms unfolding decide_code_scope_stage_def Let_def
  by (cases "ci_workspace i") (auto simp: gate_simps split: if_splits)

lemma compile_messages:
  assumes "decide_compile_test_stage i = Inr (Some d)"
  shows "\<not> blank (message d)"
  using assms unfolding decide_compile_test_stage_def Let_def
  by (cases "ci_workspace i") (auto simp: gate_simps result_simps split: if_splits)

lemma ui_messages:
  assumes "decide_ui_and_closure_stage i = Inr d"
  shows "\<not> blank (message d)"
  using assms unfolding decide_ui_and_closure_stage_def Let_def
  by (simp add: gate_simps result_simps) (elim disjE conjE; clarsimp)

lemma flow_messages:
  assumes "flow_decide i = Inr d"
  shows "stage d = ''rag_document_confirmation'' \<or> \<not> blank (message d)"
  using assms document_messages[of i] scope_messages[of i] compile_messages[of i] ui_messages[of i]
  unfolding flow_decide_eq decide_change_automation_def
  by (auto simp: result_simps split: option.splits)

lemma policies_ok:
  "list_all (\<lambda>p. ap_task_kind p \<in> set task_kinds \<and> ap_capabilities p \<noteq> [] \<and> ap_outputs p \<noteq> []
     \<and> ap_criteria p \<noteq> [] \<and> 30 \<le> ap_lease_seconds p \<and> ap_lease_seconds p \<le> 86400
     \<and> ap_max_attempts p = 3 \<and> \<not> blank (ap_task_kind p))
     (DEFAULT_POLICY # map snd ACTION_POLICIES)"
  by (simp add: ACTION_POLICIES_def DEFAULT_POLICY_def new_action_policy_def task_kinds_def)

lemma policy_of_ok:
  "ap_task_kind (policy_of a) \<in> set task_kinds" "\<not> blank (ap_task_kind (policy_of a))"
  "ap_capabilities (policy_of a) \<noteq> []" "ap_outputs (policy_of a) \<noteq> []" "ap_criteria (policy_of a) \<noteq> []"
  "30 \<le> ap_lease_seconds (policy_of a)" "ap_lease_seconds (policy_of a) \<le> 86400"
  "ap_max_attempts (policy_of a) = 3"
proof -
  have "policy_of a \<in> set (DEFAULT_POLICY # map snd ACTION_POLICIES)"
    by (auto simp: policy_of_def split: option.splits dest!: map_of_SomeD) (metis image_eqI snd_conv)
  then show "ap_task_kind (policy_of a) \<in> set task_kinds" "\<not> blank (ap_task_kind (policy_of a))"
    "ap_capabilities (policy_of a) \<noteq> []" "ap_outputs (policy_of a) \<noteq> []" "ap_criteria (policy_of a) \<noteq> []"
    "30 \<le> ap_lease_seconds (policy_of a)" "ap_lease_seconds (policy_of a) \<le> 86400"
    "ap_max_attempts (policy_of a) = 3"
    using policies_ok unfolding list_all_iff by blast+
qed

lemma not_blank_neutral: "\<not> blank a \<Longrightarrow> \<not> blank (text_for AGENT_NEUTRAL_ACTIONS a a)"
  "\<not> blank m \<Longrightarrow> \<not> blank (text_for AGENT_NEUTRAL_INSTRUCTIONS a m)"
  by (auto simp: text_for_def AGENT_NEUTRAL_ACTIONS_def AGENT_NEUTRAL_INSTRUCTIONS_def)

lemma valid_decision_parts:
  assumes "validate_decision d = Inr ()" "next_action d = Some a"
  shows "stage d \<in> fst ` set STAGE_LABELS" "\<not> blank (stage d)" "\<not> blank a" "stage d \<noteq> ''completed''"
proof -
  have st: "stage d \<in> fst ` set INTERNAL_TO_PUBLIC_STAGE"
    using assms by (auto simp: validate_decision_def split: if_splits)
  then show "stage d \<in> fst ` set STAGE_LABELS" "\<not> blank (stage d)"
    by (auto simp: INTERNAL_TO_PUBLIC_STAGE_def STAGE_LABELS_def)
  show "stage d \<noteq> ''completed''"
    using assms by (auto simp: validate_decision_def split: if_splits)
  have "validate_stage_action (stage d) (Some a) = Inr ()"
    using assms(1) unfolding validate_decision_def assms(2) by (simp only: if_raise_eq_Inr)
  then have "a = ''resolve_blocker'' \<or> map_of ACTION_STAGES a \<noteq> None"
    by (cases "map_of ACTION_STAGES a") (auto simp: validate_stage_action_def split: if_splits)
  then have "a = ''resolve_blocker'' \<or> a \<in> fst ` set ACTION_STAGES"
    by (simp add: map_of_eq_None_iff)
  then show "\<not> blank a" by (auto simp: ACTION_STAGES_def)
qed

lemma task_total:
  assumes "validate_decision d = Inr ()"
    and "\<not> blank run_id" "\<not> blank request_id" "\<not> blank project" "\<not> blank (message d)"
  shows "\<exists>t. build_orchestration_task run_id request_id project d refs = Inr t
    \<and> (t = None \<longleftrightarrow> next_action d = None)"
proof (cases "next_action d")
  case None
  then show ?thesis by (simp add: build_orchestration_task_def)
next
  case (Some a)
  note ok = valid_decision_parts[OF assms(1) Some]
  have title: "\<not> blank (text_for AGENT_NEUTRAL_STAGE_LABELS (stage d) (text_for STAGE_LABELS (stage d) (stage d)))"
    using labels_not_blank[OF ok(1)] by (auto simp: text_for_def AGENT_NEUTRAL_STAGE_LABELS_def)
  show ?thesis
    using Some ok assms(2-5) title policy_of_ok[of a] not_blank_neutral[of a] not_blank_neutral(2)[of "message d" a]
    by (simp add: build_orchestration_task_def Let_def check_task_definition_def required_text_def
        task_id_of_def ORCHESTRATION_TASK_PROTOCOL_VERSION_def)
qed

lemma check_task_definition_id: "check_task_definition t = Inr t' \<Longrightarrow> t' = t"
  unfolding check_task_definition_def by (simp split: if_splits)

lemma build_task_Inr:
  assumes "build_orchestration_task run_id request_id project d refs = Inr (Some t)"
  shows "td_step_key t = stage d \<and> check_task_definition t = Inr t"
proof (cases "next_action d")
  case None
  then show ?thesis using assms by (simp add: build_orchestration_task_def)
next
  case (Some a)
  have act: "stage d \<noteq> ''completed''"
    using assms Some by (auto simp: build_orchestration_task_def)
  have "\<exists>t0. check_task_definition t0 = Inr t \<and> td_step_key t0 = stage d"
    using assms
    unfolding build_orchestration_task_def Some option.case if_not_P[OF act] Let_def rbind_eq_Inr
      sum.inject option.inject
    by (metis task_definition.select_convs(6))
  then show ?thesis using check_task_definition_id by metis
qed

text \<open>(C28) The queue never misses a step of the change flow: for every decision the state machine takes
  there is a valid task definition, whose step is the stage of the decision, exactly when the decision
  asks for an action.  The one decision without a task is that of a RAG discovery whose stored blocking
  reason is blank.\<close>

theorem every_decision_has_a_task:
  assumes "flow_decide i = Inr d"
    and "\<not> blank run_id" "\<not> blank request_id" "\<not> blank project"
  shows "(\<exists>t. build_orchestration_task run_id request_id project d refs = Inr t
      \<and> (t = None \<longleftrightarrow> next_action d = None)
      \<and> (\<forall>task. t = Some task \<longrightarrow> td_step_key task = stage d \<and> check_task_definition task = Inr task))
    \<or> (stage d = ''rag_document_confirmation'' \<and> blank (message d))"
proof (cases "blank (message d)")
  case True
  then show ?thesis using flow_messages[OF assms(1)] by blast
next
  case False
  have "validate_decision d = Inr ()"
    using assms(1) by (auto simp: flow_decide_def result_simps)
  from task_total[OF this assms(2-4) False] obtain t where
    t: "build_orchestration_task run_id request_id project d refs = Inr t" "t = None \<longleftrightarrow> next_action d = None"
    by blast
  have "td_step_key task = stage d \<and> check_task_definition task = Inr task" if "t = Some task" for task
    using build_task_Inr t(1) that by blast
  with t show ?thesis by (intro disjI1 exI[of _ t] conjI allI impI) blast+
qed

definition first_inputs :: change_flow_inputs where
  "first_inputs = passing_inputs\<lparr>ci_confirmations := []\<rparr>"

lemma first_decision_waits:
  "flow_decide first_inputs = Inr (waiting ''requirement_confirmation'' ''confirm_requirement'' msg_confirm_requirement)"
  by (simp add: flow_decide_eq decide_change_automation_def decide_document_stage_def first_inputs_def
      confirmation_decision_def)

theorem every_decision_has_a_task_witness:
  "\<exists>task. build_orchestration_task ''run-1'' ''request-1'' ''p''
     (waiting ''requirement_confirmation'' ''confirm_requirement'' msg_confirm_requirement) [] = Inr (Some task)
   \<and> td_step_key task = ''requirement_confirmation''"
proof -
  have na: "next_action (waiting s a m) = Some a" for s a m by (simp add: waiting_def)
  show ?thesis
    using every_decision_has_a_task[OF first_decision_waits, of "''run-1''" "''request-1''" "''p''" "[]"]
    by (auto simp: na)
qed

end
