(* ===== verification/TaskLedger.thy ===== *)
theory TaskLedger
  imports OrchestrationTask
begin

text \<open>
  The claim, lease and result ledger of the orchestration tasks
  (\<open>infrastructure/postgres/orchestration_task_repository.py\<close>).  The state is the tables the
  repository writes, each a list of rows in insertion order.  Every operation runs in one database
  transaction: a step on the tables that either returns the new tables or raises, in which case the
  transaction is rolled back.  The constraints of the schema that the statements can meet are
  checked where the statement is, as \<open>IntegrityError\<close>.  \<open>now()\<close>, the instant of the transaction in
  microseconds, is an argument, and so are the random claim id and lease token of a claim.
\<close>

section \<open>Rows\<close>

datatype task_state =
  READY | CLAIMED | RUNNING | SUBMITTED | COMPLETED | FAILED | BLOCKED | CANCELLED | SUPERSEDED

fun task_state_value :: "task_state \<Rightarrow> string" where
  "task_state_value READY = ''ready''"
| "task_state_value CLAIMED = ''claimed''"
| "task_state_value RUNNING = ''running''"
| "task_state_value SUBMITTED = ''submitted''"
| "task_state_value COMPLETED = ''completed''"
| "task_state_value FAILED = ''failed''"
| "task_state_value BLOCKED = ''blocked''"
| "task_state_value CANCELLED = ''cancelled''"
| "task_state_value SUPERSEDED = ''superseded''"

definition open_states :: "task_state list" where
  "open_states = [READY, CLAIMED, RUNNING, SUBMITTED]"

definition active_states :: "task_state list" where
  "active_states = [CLAIMED, RUNNING, SUBMITTED]"

record task_row = task_definition +
  tr_sequence :: int
  tr_state :: task_state
  tr_attempt_count :: int
  tr_created_by :: string
  tr_created_at :: int
  tr_updated_at :: int

datatype claim_status = ACTIVE | CLAIM_COMPLETED | RELEASED | EXPIRED

fun claim_status_value :: "claim_status \<Rightarrow> string" where
  "claim_status_value ACTIVE = ''active''"
| "claim_status_value CLAIM_COMPLETED = ''completed''"
| "claim_status_value RELEASED = ''released''"
| "claim_status_value EXPIRED = ''expired''"

record claim_row =
  cl_claim_id :: string
  cl_task_id :: string
  cl_project_id :: string
  cl_executor_kind :: string
  cl_executor_id :: string
  cl_capabilities :: "string list"
  cl_lease_token_digest :: string
  cl_status :: claim_status
  cl_claimed_at :: int
  cl_lease_expires_at :: int
  cl_released_at :: "int option"
  cl_release_reason :: "string option"

record result_row =
  rs_result_id :: string
  rs_task_id :: string
  rs_project_id :: string
  rs_claim_id :: string
  rs_outcome :: string
  rs_summary :: string
  rs_artifact_refs :: "string list"
  rs_evidence :: pydict
  rs_payload_digest :: string
  rs_submitted_by :: string
  rs_submitted_at :: int

record event_row =
  ev_event_id :: string
  ev_task_id :: string
  ev_project_id :: string
  ev_sequence :: int
  ev_event_type :: string
  ev_actor :: string
  ev_payload :: pydict
  ev_payload_digest :: string
  ev_created_at :: int

record dependency_row =
  dp_task_id :: string
  dp_depends_on :: string
  dp_project_id :: string

datatype worker_status = ONLINE | DRAINING | OFFLINE

record worker_row =
  wk_executor_kind :: string
  wk_executor_id :: string
  wk_capabilities :: "string list"
  wk_project_id :: "string option"
  wk_max_concurrent_tasks :: int
  wk_status :: worker_status
  wk_registered_at :: int
  wk_last_seen_at :: int
  wk_lease_expires_at :: int
  wk_credential_digest :: string

record worker_event_row =
  we_executor_kind :: string
  we_executor_id :: string
  we_sequence :: int
  we_event_type :: string
  we_actor :: string
  we_payload :: pydict
  we_payload_digest :: string
  we_created_at :: int

text \<open>\<open>lg_runs\<close> and \<open>lg_requests\<close> are the tables the tasks refer to, here their keys: automation run
  and project, change request and project.\<close>

record ledger =
  lg_runs :: "(string \<times> string) list"
  lg_requests :: "(string \<times> string) list"
  lg_tasks :: "task_row list"
  lg_claims :: "claim_row list"
  lg_results :: "result_row list"
  lg_events :: "event_row list"
  lg_dependencies :: "dependency_row list"
  lg_workers :: "worker_row list"
  lg_worker_events :: "worker_event_row list"

section \<open>Statements\<close>

definition seconds :: "int \<Rightarrow> int" where
  "seconds n = n * 1000000"

definition ledger_digest :: "string \<Rightarrow> string" where
  "ledger_digest value = sha256_hex value"

definition update_where :: "('r \<Rightarrow> bool) \<Rightarrow> ('r \<Rightarrow> 'r) \<Rightarrow> 'r list \<Rightarrow> 'r list" where
  "update_where P f rows = map (\<lambda>r. if P r then f r else r) rows"

definition find_task :: "ledger \<Rightarrow> string \<Rightarrow> task_row option" where
  "find_task l task_id = find (\<lambda>t. td_task_id t = task_id) (lg_tasks l)"

definition set_task_state :: "int \<Rightarrow> string \<Rightarrow> task_state \<Rightarrow> ledger \<Rightarrow> ledger" where
  "set_task_state now task_id st l =
    l\<lparr>lg_tasks := update_where (\<lambda>t. td_task_id t = task_id)
        (\<lambda>t. t\<lparr>tr_state := st, tr_updated_at := now\<rparr>) (lg_tasks l)\<rparr>"

definition active_claims :: "ledger \<Rightarrow> string \<Rightarrow> claim_row list" where
  "active_claims l task_id =
    filter (\<lambda>c. cl_task_id c = task_id \<and> cl_status c = ACTIVE) (lg_claims l)"

definition close_claim :: "int \<Rightarrow> claim_status \<Rightarrow> string \<Rightarrow> claim_row \<Rightarrow> claim_row" where
  "close_claim now st reason c =
    c\<lparr>cl_status := st, cl_released_at := Some now, cl_release_reason := Some reason\<rparr>"

definition set_claim :: "(claim_row \<Rightarrow> claim_row) \<Rightarrow> string \<Rightarrow> ledger \<Rightarrow> ledger" where
  "set_claim f claim_id l =
    l\<lparr>lg_claims := update_where (\<lambda>c. cl_claim_id c = claim_id) f (lg_claims l)\<rparr>"

definition next_sequence :: "int list \<Rightarrow> int" where
  "next_sequence used = foldr max used 0 + 1"

definition append_event ::
    "int \<Rightarrow> string \<Rightarrow> string \<Rightarrow> string \<Rightarrow> string \<Rightarrow> pydict \<Rightarrow> ledger \<Rightarrow> ledger result" where
  "append_event now task_id project_id event_type actor payload l =
    (let sequence = next_sequence (map ev_sequence
           (filter (\<lambda>e. ev_task_id e = task_id) (lg_events l)))
     in if btrim_blank actor then
          Inl (IntegrityError ''orchestration_task_events_fields_not_blank'')
        else Inr (l\<lparr>lg_events := lg_events l @
          [\<lparr>ev_event_id = task_id @ ''-event-'' @ zero_pad 4 sequence, ev_task_id = task_id,
            ev_project_id = project_id, ev_sequence = sequence, ev_event_type = event_type,
            ev_actor = actor, ev_payload = payload,
            ev_payload_digest = ledger_digest (json_dumps (PDict payload)),
            ev_created_at = now\<rparr>]\<rparr>))"

section \<open>Leases\<close>

text \<open>\<open>_expire_leases_locked\<close>: every active claim whose lease has run out, of one task or of all.\<close>

definition expired_claims :: "int \<Rightarrow> string option \<Rightarrow> ledger \<Rightarrow> claim_row list" where
  "expired_claims now task_id l =
    filter (\<lambda>c. cl_status c = ACTIVE \<and> cl_lease_expires_at c \<le> now
      \<and> (task_id = None \<or> task_id = Some (cl_task_id c))
      \<and> find_task l (cl_task_id c) \<noteq> None) (lg_claims l)"

definition state_after_attempt :: "task_row \<Rightarrow> task_state" where
  "state_after_attempt t = (if tr_attempt_count t \<ge> td_max_attempts t then FAILED else READY)"

definition expire_claim :: "int \<Rightarrow> ledger \<Rightarrow> ledger \<Rightarrow> claim_row \<Rightarrow> ledger result" where
  "expire_claim now selected l c =
    (case find_task selected (cl_task_id c) of
       None \<Rightarrow> Inr l
     | Some t \<Rightarrow>
         let st = state_after_attempt t
         in append_event now (cl_task_id c) (cl_project_id c)
              (if st = READY then ''lease_expired'' else ''failed'') (cl_executor_id c)
              [(''claim_id'', PStr (cl_claim_id c))]
              (set_task_state now (cl_task_id c) st
                (set_claim (close_claim now EXPIRED ''lease_expired'') (cl_claim_id c) l)))"

definition expire_leases_locked :: "int \<Rightarrow> string option \<Rightarrow> ledger \<Rightarrow> ledger result" where
  "expire_leases_locked now task_id l =
    foldM (expire_claim now l) l (expired_claims now task_id l)"

definition require_live_claim ::
    "int \<Rightarrow> string \<Rightarrow> string \<Rightarrow> string \<Rightarrow> ledger \<Rightarrow> (ledger \<times> claim_row) result" where
  "require_live_claim now task_id executor_id lease_token l =
    rbind (expire_leases_locked now (Some task_id) l) (\<lambda>l.
      case active_claims l task_id of
        [] \<Rightarrow> Inl (ValueError ''Orchestration Task has no active lease'')
      | c # _ \<Rightarrow>
          if cl_executor_id c \<noteq> executor_id
              \<or> cl_lease_token_digest c \<noteq> ledger_digest lease_token then
            Inl (ValueError ''Orchestration Task lease does not belong to executor'')
          else Inr (l, c))"

section \<open>Reading a task\<close>

text \<open>What a deployment supplies: the Unicode tables, the text of an instant in the time zone of the
  session, and the collation of the database (texts compare as their keys do).\<close>

record ledger_env =
  le_tables :: text_tables
  le_isoformat :: "int \<Rightarrow> string"
  le_collation :: "string \<Rightarrow> string"

definition time_text :: "ledger_env \<Rightarrow> int option \<Rightarrow> pyval" where
  "time_text env t = (case t of Some v \<Rightarrow> PStr (le_isoformat env v) | None \<Rightarrow> PNone)"

definition text_or_none :: "string option \<Rightarrow> pyval" where
  "text_or_none v = (case v of Some s \<Rightarrow> PStr s | None \<Rightarrow> PNone)"

definition claim_view :: "ledger_env \<Rightarrow> claim_row \<Rightarrow> pydict" where
  "claim_view env c =
    [(''claim_id'', PStr (cl_claim_id c)), (''executor_kind'', PStr (cl_executor_kind c)),
     (''executor_id'', PStr (cl_executor_id c)), (''capabilities'', PStrs (cl_capabilities c)),
     (''status'', PStr (claim_status_value (cl_status c))),
     (''claimed_at'', time_text env (Some (cl_claimed_at c))),
     (''lease_expires_at'', time_text env (Some (cl_lease_expires_at c))),
     (''released_at'', time_text env (cl_released_at c)),
     (''release_reason'', text_or_none (cl_release_reason c))]"

definition result_view :: "ledger_env \<Rightarrow> result_row \<Rightarrow> pydict" where
  "result_view env r =
    [(''result_id'', PStr (rs_result_id r)), (''claim_id'', PStr (rs_claim_id r)),
     (''outcome'', PStr (rs_outcome r)), (''summary'', PStr (rs_summary r)),
     (''artifact_refs'', PStrs (rs_artifact_refs r)), (''evidence'', PDict (rs_evidence r)),
     (''submitted_by'', PStr (rs_submitted_by r)),
     (''submitted_at'', time_text env (Some (rs_submitted_at r)))]"

definition event_view :: "ledger_env \<Rightarrow> event_row \<Rightarrow> pydict" where
  "event_view env e =
    [(''sequence'', PInt (ev_sequence e)), (''event_type'', PStr (ev_event_type e)),
     (''actor'', PStr (ev_actor e)), (''payload'', PDict (ev_payload e)),
     (''created_at'', time_text env (Some (ev_created_at e)))]"

definition stated_text :: "pyval \<Rightarrow> string option" where
  "stated_text v = (case v of PStr s \<Rightarrow> if blank s then None else Some s | _ \<Rightarrow> None)"

fun result_reason :: "pydict \<Rightarrow> string option" where
  "result_reason r =
    (if dget r ''outcome'' \<notin> {PStr ''blocked'', PStr ''failed''} then None
     else case stated_text (dget (as_dict (dget r ''evidence'')) ''blocking_reason'') of
       Some s \<Rightarrow> Some s
     | None \<Rightarrow> stated_text (dget r ''summary''))"

fun event_reason :: "pydict \<Rightarrow> string option" where
  "event_reason e = stated_text (dget (as_dict (dget e ''payload'')) ''reason'')"

fun first_some :: "('a \<Rightarrow> 'b option) \<Rightarrow> 'a list \<Rightarrow> 'b option" where
  "first_some f [] = None"
| "first_some f (x # xs) = (case f x of Some y \<Rightarrow> Some y | None \<Rightarrow> first_some f xs)"

definition blocking_reason_of :: "task_state \<Rightarrow> pydict list \<Rightarrow> pydict list \<Rightarrow> string option" where
  "blocking_reason_of st results events =
    (if st \<notin> {BLOCKED, FAILED} then None
     else case first_some result_reason (rev results) of
       Some s \<Rightarrow> Some s
     | None \<Rightarrow>
         (case first_some event_reason (rev events) of
            Some s \<Rightarrow> Some s
          | None \<Rightarrow> Some msg_no_blocking_reason))"

definition claims_of :: "ledger \<Rightarrow> string \<Rightarrow> claim_row list" where
  "claims_of l task_id = filter (\<lambda>c. cl_task_id c = task_id) (lg_claims l)"

text \<open>\<open>clock\<close> is \<open>datetime.now(UTC)\<close> of the process that reads.\<close>

definition lease_expired :: "int \<Rightarrow> ledger \<Rightarrow> string \<Rightarrow> bool" where
  "lease_expired clock l task_id \<longleftrightarrow>
    list_ex (\<lambda>c. cl_status c = ACTIVE \<and> cl_lease_expires_at c \<le> clock) (claims_of l task_id)"

definition effective_state :: "int \<Rightarrow> ledger \<Rightarrow> task_row \<Rightarrow> task_state" where
  "effective_state clock l t =
    (if lease_expired clock l (td_task_id t) \<and> tr_state t \<in> {CLAIMED, RUNNING}
     then state_after_attempt t else tr_state t)"

definition view_task :: "ledger_env \<Rightarrow> int \<Rightarrow> ledger \<Rightarrow> string \<Rightarrow> pydict result" where
  "view_task env clock l task_id =
    (case find_task l task_id of
       None \<Rightarrow> Inl (ValueError ''Orchestration Task does not exist'')
     | Some t \<Rightarrow>
         let claim_views = map (claim_view env) (sort_key
               (\<lambda>c. (cl_claimed_at c, le_collation env (cl_claim_id c))) (claims_of l task_id));
             result_views = map (result_view env) (sort_key
               (\<lambda>r. (rs_submitted_at r, le_collation env (rs_result_id r)))
               (filter (\<lambda>r. rs_task_id r = task_id) (lg_results l)));
             event_views = map (event_view env) (sort_key ev_sequence
               (filter (\<lambda>e. ev_task_id e = task_id) (lg_events l)));
             dependencies = map dp_depends_on (sort_key (\<lambda>d. le_collation env (dp_depends_on d))
               (filter (\<lambda>d. dp_task_id d = task_id) (lg_dependencies l)))
         in Inr
           [(''orchestration_task_id'', PStr (td_task_id t)),
            (''protocol_version'', PStr (td_protocol_version t)),
            (''automation_run_id'', PStr (td_automation_run_id t)),
            (''change_request_id'', PStr (td_change_request_id t)),
            (''project_id'', PStr (td_project_id t)), (''sequence'', PInt (tr_sequence t)),
            (''step_key'', PStr (td_step_key t)), (''action'', PStr (td_action t)),
            (''title'', PStr (td_title t)), (''instruction'', PStr (td_instruction t)),
            (''task_kind'', PStr (td_task_kind t)),
            (''state'', PStr (task_state_value (tr_state t))),
            (''effective_state'', PStr (task_state_value (effective_state clock l t))),
            (''lease_expired'', PBool (lease_expired clock l task_id)),
            (''required_capabilities'', PStrs (td_required_capabilities t)),
            (''eligible_executor_kinds'', PStrs (td_eligible_executor_kinds t)),
            (''input_artifact_refs'', PStrs (td_input_artifact_refs t)),
            (''expected_output_types'', PStrs (td_expected_output_types t)),
            (''acceptance_criteria'', PStrs (td_acceptance_criteria t)),
            (''lease_seconds'', PInt (td_lease_seconds t)),
            (''max_attempts'', PInt (td_max_attempts t)), (''priority'', PInt (td_priority t)),
            (''attempt_count'', PInt (tr_attempt_count t)),
            (''definition_digest'', PStr (td_definition_digest t)),
            (''dependencies'', PStrs dependencies), (''created_by'', PStr (tr_created_by t)),
            (''created_at'', time_text env (Some (tr_created_at t))),
            (''updated_at'', time_text env (Some (tr_updated_at t))),
            (''blocking_reason'',
              text_or_none (blocking_reason_of (tr_state t) result_views event_views)),
            (''claims'', PList (map PDict claim_views)),
            (''results'', PList (map PDict result_views)),
            (''events'', PList (map PDict event_views))])"

section \<open>Transactions\<close>

text \<open>A transaction commits what its body returns and undoes everything when the body raises.\<close>

definition transaction :: "(ledger \<Rightarrow> (ledger \<times> 'a) result) \<Rightarrow> ledger \<Rightarrow> ledger \<times> 'a result" where
  "transaction body l =
    (case body l of Inl e \<Rightarrow> (l, Inl e) | Inr (l', x) \<Rightarrow> (l', Inr x))"

text \<open>What an operation returns after its transaction: the view of its task.\<close>

definition committed_view ::
    "ledger_env \<Rightarrow> int \<Rightarrow> string \<Rightarrow> (ledger \<Rightarrow> ledger result) \<Rightarrow> ledger \<Rightarrow> ledger \<times> pydict result" where
  "committed_view env clock task_id body l =
    (case transaction (\<lambda>l. rbind (body l) (\<lambda>l'. Inr (l', ()))) l of
       (l', Inl e) \<Rightarrow> (l', Inl e)
     | (l', Inr _) \<Rightarrow> (l', view_task env clock l' task_id))"

section \<open>Argument checks\<close>

definition validate_executor :: "string \<Rightarrow> string \<Rightarrow> unit result" where
  "validate_executor executor_kind executor_id =
    (if executor_kind \<notin> set EXECUTOR_KINDS then
       Inl (ValueError ''executor_kind must be agent, subagent, or human'')
     else if blank executor_id \<or> 200 < py_len executor_id then
       Inl (ValueError ''executor_id must be non-blank and at most 200 characters'')
     else Inr ())"

definition validate_capabilities :: "string list \<Rightarrow> unit result" where
  "validate_capabilities capabilities =
    (if capabilities = [] \<or> 100 < length capabilities then
       Inl (ValueError ''capabilities must contain between 1 and 100 values'')
     else if \<not> distinct capabilities then
       Inl (ValueError ''capabilities must be unique'')
     else if list_ex (\<lambda>v. blank v \<or> 160 < py_len v) capabilities then
       Inl (ValueError ''capabilities must be non-blank and at most 160 characters'')
     else Inr ())"

definition validate_actor :: "string \<Rightarrow> unit result" where
  "validate_actor actor =
    (if blank actor \<or> 200 < py_len actor then
       Inl (ValueError ''actor must be non-blank and at most 200 characters'')
     else Inr ())"

definition validate_worker_token :: "string \<Rightarrow> unit result" where
  "validate_worker_token worker_token =
    (if blank worker_token \<or> 500 < py_len worker_token then
       Inl (ValueError ''Worker token must be non-blank and bounded'')
     else Inr ())"

section \<open>Claiming\<close>

definition find_worker :: "ledger \<Rightarrow> string \<Rightarrow> string \<Rightarrow> worker_row option" where
  "find_worker l kind executor_id =
    find (\<lambda>w. wk_executor_kind w = kind \<and> wk_executor_id w = executor_id) (lg_workers l)"

definition live_claim_count :: "int \<Rightarrow> ledger \<Rightarrow> string \<Rightarrow> string \<Rightarrow> int" where
  "live_claim_count now l kind executor_id =
    int (length (filter (\<lambda>c. cl_executor_kind c = kind \<and> cl_executor_id c = executor_id
      \<and> cl_status c = ACTIVE \<and> cl_lease_expires_at c > now) (lg_claims l)))"

definition registered_claim_policy ::
    "int \<Rightarrow> ledger \<Rightarrow> string \<Rightarrow> string \<Rightarrow> string list \<Rightarrow> string option \<Rightarrow> string option
     \<Rightarrow> (string list \<times> string option) result" where
  "registered_claim_policy now l executor_kind executor_id supplied project_id worker_token =
    (if executor_kind = ''human'' then Inr (supplied, project_id)
     else case worker_token of
       None \<Rightarrow> Inl (ValueError ''registered Worker credential is required'')
     | Some token \<Rightarrow>
       rbind (validate_worker_token token) (\<lambda>_.
       case find_worker l executor_kind executor_id of
         None \<Rightarrow> Inl (ValueError ''registered Worker credential is required'')
       | Some w \<Rightarrow>
           if wk_credential_digest w \<noteq> ledger_digest token then
             Inl (ValueError ''Orchestration Worker credential is invalid'')
           else if wk_status w \<noteq> ONLINE then
             Inl (ValueError ''Orchestration Worker is not accepting new Tasks'')
           else if \<not> wk_lease_expires_at w > now then
             Inl (ValueError ''Orchestration Worker registration is not live'')
           else if set supplied \<noteq> set (wk_capabilities w) then
             Inl (ValueError ''executor capabilities differ from Worker registration'')
           else if wk_project_id w \<noteq> None \<and> project_id \<notin> {None, wk_project_id w} then
             Inl (ValueError ''executor project differs from Worker registration'')
           else if live_claim_count now l executor_kind executor_id \<ge> wk_max_concurrent_tasks w then
             Inl (ValueError ''Orchestration Worker concurrency limit is exhausted'')
           else Inr (wk_capabilities w,
             case wk_project_id w of
               Some p \<Rightarrow> if p \<noteq> [] then Some p else project_id
             | None \<Rightarrow> project_id)))"

definition dependencies_completed :: "ledger \<Rightarrow> string \<Rightarrow> bool" where
  "dependencies_completed l task_id \<longleftrightarrow>
    \<not> list_ex (\<lambda>d. dp_task_id d = task_id
      \<and> list_ex (\<lambda>p. td_task_id p = dp_depends_on d \<and> tr_state p \<noteq> COMPLETED) (lg_tasks l))
      (lg_dependencies l)"

definition active_in_run :: "ledger \<Rightarrow> string \<Rightarrow> int" where
  "active_in_run l run_id =
    int (length (filter (\<lambda>t. td_automation_run_id t = run_id \<and> tr_state t \<in> set active_states)
      (lg_tasks l)))"

text \<open>What the statements of \<open>claim\<close>, \<open>claim_next\<close> and \<open>list_ready\<close> ask of a task alike.\<close>

definition suits :: "ledger \<Rightarrow> string \<Rightarrow> string list \<Rightarrow> string option \<Rightarrow> task_row \<Rightarrow> bool" where
  "suits l executor_kind capabilities project_id t \<longleftrightarrow>
    tr_attempt_count t < td_max_attempts t
    \<and> executor_kind \<in> set (td_eligible_executor_kinds t)
    \<and> set (td_required_capabilities t) \<subseteq> set capabilities
    \<and> (project_id = None \<or> project_id = Some (td_project_id t))
    \<and> dependencies_completed l (td_task_id t)"

definition claimable ::
    "scheduling_policy \<Rightarrow> ledger \<Rightarrow> string \<Rightarrow> string list \<Rightarrow> string option \<Rightarrow> task_row \<Rightarrow> bool" where
  "claimable policy l executor_kind capabilities project_id t \<longleftrightarrow>
    (td_automation_run_id t, td_project_id t) \<in> set (lg_runs l)
    \<and> tr_state t = READY
    \<and> suits l executor_kind capabilities project_id t
    \<and> active_in_run l (td_automation_run_id t) < sp_max_active_tasks_per_run policy"

definition create_claim_locked ::
    "int \<Rightarrow> string \<Rightarrow> string \<Rightarrow> task_row \<Rightarrow> string \<Rightarrow> string \<Rightarrow> string list \<Rightarrow> ledger \<Rightarrow> ledger result"
  where
  "create_claim_locked now claim_id lease_token t executor_kind executor_id capabilities l =
    (let task_id = td_task_id t
     in if claim_id \<in> cl_claim_id ` set (lg_claims l) then
          Inl (IntegrityError ''orchestration_task_claims_pkey'')
        else if active_claims l task_id \<noteq> [] then
          Inl (IntegrityError ''orchestration_task_claims_one_active_idx'')
        else
          let claimed = l\<lparr>lg_claims := lg_claims l @
                [\<lparr>cl_claim_id = claim_id, cl_task_id = task_id, cl_project_id = td_project_id t,
                  cl_executor_kind = executor_kind, cl_executor_id = executor_id,
                  cl_capabilities = capabilities,
                  cl_lease_token_digest = ledger_digest lease_token, cl_status = ACTIVE,
                  cl_claimed_at = now,
                  cl_lease_expires_at = now + seconds (td_lease_seconds t),
                  cl_released_at = None, cl_release_reason = None\<rparr>],
                lg_tasks := update_where (\<lambda>r. td_task_id r = task_id)
                  (\<lambda>r. r\<lparr>tr_state := CLAIMED, tr_attempt_count := tr_attempt_count r + 1,
                    tr_updated_at := now\<rparr>) (lg_tasks l)\<rparr>
          in rbind (append_event now task_id (td_project_id t) ''claimed'' executor_id
               [(''claim_id'', PStr claim_id), (''executor_kind'', PStr executor_kind),
                (''capabilities'', PStrs capabilities)] claimed) (\<lambda>l'.
             Inr (l'\<lparr>lg_workers := update_where
               (\<lambda>w. wk_executor_kind w = executor_kind \<and> wk_executor_id w = executor_id)
               (\<lambda>w. w\<lparr>wk_last_seen_at := now\<rparr>) (lg_workers l')\<rparr>)))"

definition claim_step ::
    "scheduling_policy \<Rightarrow> int \<Rightarrow> string \<Rightarrow> string \<Rightarrow> string \<Rightarrow> string \<Rightarrow> string \<Rightarrow> string list
     \<Rightarrow> string option \<Rightarrow> string option \<Rightarrow> ledger \<Rightarrow> ledger result" where
  "claim_step policy now claim_id lease_token task_id executor_kind executor_id capabilities
      project_id worker_token l =
    rbind (validate_executor executor_kind executor_id) (\<lambda>_.
    rbind (validate_capabilities capabilities) (\<lambda>_.
    rbind (registered_claim_policy now l executor_kind executor_id capabilities project_id
      worker_token) (\<lambda>(capabilities, project_id).
    rbind (expire_leases_locked now (Some task_id) l) (\<lambda>l.
    case find (\<lambda>t. td_task_id t = task_id
        \<and> claimable policy l executor_kind capabilities project_id t) (lg_tasks l) of
      None \<Rightarrow>
        Inl (ValueError ''Orchestration Task is not ready or executor capabilities do not match'')
    | Some t \<Rightarrow>
        create_claim_locked now claim_id lease_token t executor_kind executor_id capabilities l))))"

text \<open>\<open>claim\<close> returns the view of the task with the lease token.\<close>

definition claim_task ::
    "ledger_env \<Rightarrow> int \<Rightarrow> scheduling_policy \<Rightarrow> int \<Rightarrow> string \<Rightarrow> string \<Rightarrow> string \<Rightarrow> string \<Rightarrow> string
     \<Rightarrow> string list \<Rightarrow> string option \<Rightarrow> string option \<Rightarrow> ledger \<Rightarrow> ledger \<times> pydict result" where
  "claim_task env clock policy now claim_id lease_token task_id executor_kind executor_id
      capabilities project_id worker_token l =
    (case committed_view env clock task_id (claim_step policy now claim_id lease_token task_id
        executor_kind executor_id capabilities project_id worker_token) l of
       (l', v) \<Rightarrow> (l', rbind v (\<lambda>d. Inr (d @ [(''lease_token'', PStr lease_token)]))))"

text \<open>\<open>ORDER BY\<close>: priority first, then the runs with fewer claims in the last hour, then age.\<close>

definition recent_claims :: "int \<Rightarrow> ledger \<Rightarrow> string \<Rightarrow> int" where
  "recent_claims now l run_id =
    int (length (filter (\<lambda>c. cl_claimed_at c \<ge> now - seconds 3600
      \<and> (case find_task l (cl_task_id c) of
           None \<Rightarrow> False | Some t \<Rightarrow> td_automation_run_id t = run_id)) (lg_claims l)))"

definition queue_key :: "ledger_env \<Rightarrow> int \<Rightarrow> ledger \<Rightarrow> task_row \<Rightarrow> int \<times> int \<times> int \<times> string \<times> int" where
  "queue_key env now l t =
    (- td_priority t, recent_claims now l (td_automation_run_id t), tr_created_at t,
     le_collation env (td_automation_run_id t), tr_sequence t)"

definition claim_next_step ::
    "ledger_env \<Rightarrow> scheduling_policy \<Rightarrow> int \<Rightarrow> string \<Rightarrow> string \<Rightarrow> string \<Rightarrow> string \<Rightarrow> string list
     \<Rightarrow> string option \<Rightarrow> string option \<Rightarrow> ledger \<Rightarrow> (ledger \<times> string option) result" where
  "claim_next_step env policy now claim_id lease_token executor_kind executor_id capabilities
      project_id worker_token l =
    rbind (validate_executor executor_kind executor_id) (\<lambda>_.
    rbind (validate_capabilities capabilities) (\<lambda>_.
    rbind (registered_claim_policy now l executor_kind executor_id capabilities project_id
      worker_token) (\<lambda>(capabilities, project_id).
    rbind (expire_leases_locked now None l) (\<lambda>l.
    case sort_key (queue_key env now l)
        (filter (claimable policy l executor_kind capabilities project_id) (lg_tasks l)) of
      [] \<Rightarrow> Inr (l, None)
    | t # _ \<Rightarrow>
        rbind (create_claim_locked now claim_id lease_token t executor_kind executor_id
          capabilities l) (\<lambda>l. Inr (l, Some (td_task_id t)))))))"

definition claim_next ::
    "ledger_env \<Rightarrow> int \<Rightarrow> scheduling_policy \<Rightarrow> int \<Rightarrow> string \<Rightarrow> string \<Rightarrow> string \<Rightarrow> string
     \<Rightarrow> string list \<Rightarrow> string option \<Rightarrow> string option \<Rightarrow> ledger \<Rightarrow> ledger \<times> pydict option result"
  where
  "claim_next env clock policy now claim_id lease_token executor_kind executor_id capabilities
      project_id worker_token l =
    (case transaction (claim_next_step env policy now claim_id lease_token executor_kind executor_id
        capabilities project_id worker_token) l of
       (l', Inl e) \<Rightarrow> (l', Inl e)
     | (l', Inr None) \<Rightarrow> (l', Inr None)
     | (l', Inr (Some task_id)) \<Rightarrow>
         (l', rbind (view_task env clock l' task_id) (\<lambda>d.
           Inr (Some (d @ [(''lease_token'', PStr lease_token)])))))"

text \<open>\<open>list_ready\<close> reads only: it counts an expired lease as gone without closing it.\<close>

definition has_expired_claim :: "int \<Rightarrow> ledger \<Rightarrow> string \<Rightarrow> bool" where
  "has_expired_claim now l task_id \<longleftrightarrow>
    list_ex (\<lambda>c. cl_lease_expires_at c \<le> now) (active_claims l task_id)"

definition has_live_claim :: "int \<Rightarrow> ledger \<Rightarrow> string \<Rightarrow> bool" where
  "has_live_claim now l task_id \<longleftrightarrow>
    list_ex (\<lambda>c. cl_lease_expires_at c > now) (active_claims l task_id)"

definition live_in_run :: "int \<Rightarrow> ledger \<Rightarrow> string \<Rightarrow> int" where
  "live_in_run now l run_id =
    int (length (filter (\<lambda>t. td_automation_run_id t = run_id
      \<and> (tr_state t = SUBMITTED
         \<or> tr_state t \<in> {CLAIMED, RUNNING} \<and> has_live_claim now l (td_task_id t))) (lg_tasks l)))"

definition ready_to_list ::
    "scheduling_policy \<Rightarrow> int \<Rightarrow> ledger \<Rightarrow> string \<Rightarrow> string list \<Rightarrow> string option \<Rightarrow> task_row \<Rightarrow> bool"
  where
  "ready_to_list policy now l executor_kind capabilities project_id t \<longleftrightarrow>
    (tr_state t = READY
     \<or> tr_state t \<in> {CLAIMED, RUNNING} \<and> has_expired_claim now l (td_task_id t))
    \<and> suits l executor_kind capabilities project_id t
    \<and> live_in_run now l (td_automation_run_id t) < sp_max_active_tasks_per_run policy"

definition list_ready ::
    "ledger_env \<Rightarrow> int \<Rightarrow> scheduling_policy \<Rightarrow> int \<Rightarrow> string \<Rightarrow> string list \<Rightarrow> string option \<Rightarrow> ledger
     \<Rightarrow> pydict list result" where
  "list_ready env clock policy now executor_kind capabilities project_id l =
    rbind (validate_executor executor_kind ''executor'') (\<lambda>_.
    rbind (validate_capabilities capabilities) (\<lambda>_.
    mapM (view_task env clock l) (map td_task_id (sort_key (queue_key env now l)
      (filter (ready_to_list policy now l executor_kind capabilities project_id) (lg_tasks l))))))"

section \<open>Heartbeat and release\<close>

definition renew_worker :: "int \<Rightarrow> claim_row \<Rightarrow> string \<Rightarrow> ledger \<Rightarrow> ledger" where
  "renew_worker now c executor_id l =
    l\<lparr>lg_workers := update_where (\<lambda>w. wk_executor_id w = executor_id \<and> wk_status w = ONLINE
          \<and> wk_executor_kind w = cl_executor_kind c)
        (\<lambda>w. w\<lparr>wk_lease_expires_at := now
              + max (wk_lease_expires_at w - wk_last_seen_at w) (seconds 10),
            wk_last_seen_at := now\<rparr>) (lg_workers l)\<rparr>"

definition heartbeat_step :: "int \<Rightarrow> string \<Rightarrow> string \<Rightarrow> string \<Rightarrow> ledger \<Rightarrow> ledger result" where
  "heartbeat_step now task_id executor_id lease_token l =
    rbind (require_live_claim now task_id executor_id lease_token l) (\<lambda>(l, c).
    case find_task l task_id of
      None \<Rightarrow> Inl (ValueError ''Orchestration Task does not exist'')
    | Some t \<Rightarrow>
        let started = tr_state t = CLAIMED;
            l = (if started then set_task_state now task_id RUNNING l else l);
            l = set_claim (\<lambda>r. r\<lparr>cl_lease_expires_at := now + seconds (td_lease_seconds t)\<rparr>)
                  (cl_claim_id c) l;
            l = renew_worker now c executor_id l
        in append_event now task_id (td_project_id t)
             (if started then ''started'' else ''lease_renewed'') executor_id
             [(''claim_id'', PStr (cl_claim_id c))] l)"

definition heartbeat ::
    "ledger_env \<Rightarrow> int \<Rightarrow> int \<Rightarrow> string \<Rightarrow> string \<Rightarrow> string \<Rightarrow> ledger \<Rightarrow> ledger \<times> pydict result" where
  "heartbeat env clock now task_id executor_id lease_token =
    committed_view env clock task_id (heartbeat_step now task_id executor_id lease_token)"

definition release_step :: "int \<Rightarrow> string \<Rightarrow> string \<Rightarrow> string \<Rightarrow> string \<Rightarrow> ledger \<Rightarrow> ledger result"
  where
  "release_step now task_id executor_id lease_token reason l =
    (if blank reason then Inl (ValueError ''release reason must not be blank'')
     else
       rbind (require_live_claim now task_id executor_id lease_token l) (\<lambda>(l, c).
       case find_task l task_id of
         None \<Rightarrow> Inl (ValueError ''Orchestration Task does not exist'')
       | Some t \<Rightarrow>
           let st = state_after_attempt t;
               l = set_claim (close_claim now RELEASED reason) (cl_claim_id c) l;
               l = set_task_state now task_id st l
           in append_event now task_id (td_project_id t)
                (if st = READY then ''released'' else ''failed'') executor_id
                [(''claim_id'', PStr (cl_claim_id c)), (''reason'', PStr reason)] l))"

definition release ::
    "ledger_env \<Rightarrow> int \<Rightarrow> int \<Rightarrow> string \<Rightarrow> string \<Rightarrow> string \<Rightarrow> string \<Rightarrow> ledger
     \<Rightarrow> ledger \<times> pydict result" where
  "release env clock now task_id executor_id lease_token reason =
    committed_view env clock task_id (release_step now task_id executor_id lease_token reason)"

section \<open>Results\<close>

definition result_payload ::
    "string \<Rightarrow> string \<Rightarrow> string \<Rightarrow> string \<Rightarrow> string list \<Rightarrow> pydict \<Rightarrow> pyval" where
  "result_payload task_id claim_id outcome summary artifact_refs evidence =
    PDict [(''task_id'', PStr task_id), (''claim_id'', PStr claim_id), (''outcome'', PStr outcome),
      (''summary'', PStr summary), (''artifact_refs'', PStrs artifact_refs),
      (''evidence'', PDict evidence)]"

definition result_id_of :: "pyval \<Rightarrow> string" where
  "result_id_of payload = ''result-'' @ take 32 (sha256_hex (json_dumps payload))"

definition check_result ::
    "text_tables \<Rightarrow> string \<Rightarrow> string \<Rightarrow> string list \<Rightarrow> pydict \<Rightarrow> unit result" where
  "check_result u outcome summary artifact_refs evidence =
    (if outcome \<notin> {''completed'', ''failed'', ''blocked''} then
       Inl (ValueError ''Orchestration Task outcome is invalid'')
     else if blank summary then Inl (ValueError ''result summary must not be blank'')
     else if 10000 < py_len summary then Inl (ValueError ''result summary is too long'')
     else if list_ex (\<lambda>v. blank v \<or> 2000 < py_len v) artifact_refs then
       Inl (ValueError ''artifact references must be non-blank and bounded'')
     else if 500 < length artifact_refs \<or> \<not> distinct artifact_refs then
       Inl (ValueError ''artifact references must be unique and contain at most 500 values'')
     else validate_orchestration_result_evidence u evidence)"

definition state_of_outcome :: "string \<Rightarrow> task_state" where
  "state_of_outcome outcome =
    (if outcome = ''completed'' then SUBMITTED
     else if outcome = ''failed'' then FAILED else BLOCKED)"

definition insert_result :: "result_row \<Rightarrow> ledger \<Rightarrow> ledger result" where
  "insert_result r l =
    (if rs_result_id r \<in> rs_result_id ` set (lg_results l) then
       Inl (IntegrityError ''orchestration_task_results_pkey'')
     else if rs_claim_id r \<in> rs_claim_id ` set (lg_results l) then
       Inl (IntegrityError ''orchestration_task_results_claim_id_key'')
     else Inr (l\<lparr>lg_results := lg_results l @ [r]\<rparr>))"

definition record_first_result ::
    "int \<Rightarrow> task_row \<Rightarrow> claim_row \<Rightarrow> string \<Rightarrow> string \<Rightarrow> string list \<Rightarrow> pydict \<Rightarrow> ledger \<Rightarrow> ledger result"
  where
  "record_first_result now t c outcome summary artifact_refs evidence l =
    (let payload = result_payload (td_task_id t) (cl_claim_id c) outcome summary artifact_refs evidence
     in rbind (insert_result
          \<lparr>rs_result_id = result_id_of payload, rs_task_id = td_task_id t,
           rs_project_id = td_project_id t, rs_claim_id = cl_claim_id c, rs_outcome = outcome,
           rs_summary = summary, rs_artifact_refs = artifact_refs, rs_evidence = evidence,
           rs_payload_digest = ledger_digest (json_dumps payload),
           rs_submitted_by = cl_executor_id c, rs_submitted_at = now\<rparr> l) (\<lambda>l.
        append_event now (td_task_id t) (td_project_id t)
          (if outcome = ''completed'' then ''result_submitted'' else outcome) (cl_executor_id c)
          [(''claim_id'', PStr (cl_claim_id c)), (''result_id'', PStr (result_id_of payload))]
          (set_task_state now (td_task_id t) (state_of_outcome outcome)
            (set_claim (close_claim now CLAIM_COMPLETED (''result:'' @ outcome)) (cl_claim_id c) l))))"

definition record_result_step ::
    "text_tables \<Rightarrow> int \<Rightarrow> string \<Rightarrow> string \<Rightarrow> string \<Rightarrow> string \<Rightarrow> string \<Rightarrow> string list \<Rightarrow> pydict
     \<Rightarrow> ledger \<Rightarrow> ledger result" where
  "record_result_step u now task_id executor_id lease_token outcome summary artifact_refs evidence l =
    rbind (check_result u outcome summary artifact_refs evidence) (\<lambda>_.
    rbind (expire_leases_locked now (Some task_id) l) (\<lambda>l.
    case find (\<lambda>c. cl_task_id c = task_id \<and> cl_executor_id c = executor_id
        \<and> cl_lease_token_digest c = ledger_digest lease_token) (lg_claims l) of
      None \<Rightarrow> Inl (ValueError ''Orchestration Task lease does not belong to executor'')
    | Some c \<Rightarrow>
        if cl_status c \<notin> {ACTIVE, CLAIM_COMPLETED} then
          Inl (ValueError ''Orchestration Task lease is no longer active'')
        else case find_task l task_id of
          None \<Rightarrow> Inl (ValueError ''Orchestration Task does not exist'')
        | Some t \<Rightarrow>
            if outcome = ''completed'' \<and> td_expected_output_types t \<noteq> [] \<and> artifact_refs = [] then
              Inl (ValueError ''completed task requires output artifact references'')
            else if outcome = ''completed'' \<and> evidence = [] then
              Inl (ValueError ''completed task requires acceptance evidence'')
            else if cl_status c = CLAIM_COMPLETED then
              (case find (\<lambda>r. rs_claim_id r = cl_claim_id c) (lg_results l) of
                 Some stored \<Rightarrow>
                   if rs_payload_digest stored = ledger_digest (json_dumps (result_payload task_id
                        (cl_claim_id c) outcome summary artifact_refs evidence))
                   then Inr l
                   else Inl (PersistenceConflictError
                     ''Orchestration Task Result replay has different content'')
               | None \<Rightarrow> Inl (PersistenceConflictError
                     ''Orchestration Task Result replay has different content''))
            else record_first_result now t c outcome summary artifact_refs evidence l))"

definition record_result ::
    "ledger_env \<Rightarrow> int \<Rightarrow> int \<Rightarrow> string \<Rightarrow> string \<Rightarrow> string \<Rightarrow> string \<Rightarrow> string \<Rightarrow> string list
     \<Rightarrow> pydict \<Rightarrow> ledger \<Rightarrow> ledger \<times> pydict result" where
  "record_result env clock now task_id executor_id lease_token outcome summary artifact_refs evidence =
    committed_view env clock task_id (record_result_step (le_tables env) now task_id executor_id
      lease_token outcome summary artifact_refs evidence)"

section \<open>Operator commands\<close>

definition requeue_step :: "int \<Rightarrow> string \<Rightarrow> string \<Rightarrow> string \<Rightarrow> ledger \<Rightarrow> ledger result" where
  "requeue_step now task_id actor reason l =
    (if blank reason then Inl (ValueError ''requeue reason must not be blank'')
     else case find_task l task_id of
       None \<Rightarrow> Inl (ValueError ''Orchestration Task does not exist'')
     | Some t \<Rightarrow>
         if tr_state t \<notin> {FAILED, BLOCKED} then
           Inl (ValueError ''only failed or blocked Orchestration Task can be requeued'')
         else if tr_attempt_count t \<ge> td_max_attempts t then
           Inl (ValueError ''Orchestration Task has exhausted its attempts'')
         else append_event now task_id (td_project_id t) ''requeued'' actor
           [(''reason'', PStr reason)] (set_task_state now task_id READY l))"

definition requeue ::
    "ledger_env \<Rightarrow> int \<Rightarrow> int \<Rightarrow> string \<Rightarrow> string \<Rightarrow> string \<Rightarrow> ledger \<Rightarrow> ledger \<times> pydict result" where
  "requeue env clock now task_id actor reason =
    committed_view env clock task_id (requeue_step now task_id actor reason)"

definition update_priority_step :: "int \<Rightarrow> string \<Rightarrow> int \<Rightarrow> string \<Rightarrow> ledger \<Rightarrow> ledger result" where
  "update_priority_step now task_id priority actor l =
    rbind (validate_actor actor) (\<lambda>_.
    if \<not> (1 \<le> priority \<and> priority \<le> 1000) then
      Inl (ValueError ''Orchestration Task priority must be between 1 and 1000'')
    else case find_task l task_id of
      None \<Rightarrow> Inl (ValueError ''Orchestration Task does not exist'')
    | Some t \<Rightarrow>
        if tr_state t \<notin> {READY, BLOCKED, FAILED} then
          Inl (ValueError ''Only queued or retryable Tasks can change priority'')
        else if td_priority t = priority then Inr l
        else append_event now task_id (td_project_id t) ''priority_updated'' actor
          [(''previous_priority'', PInt (td_priority t)), (''priority'', PInt priority)]
          (l\<lparr>lg_tasks := update_where (\<lambda>r. td_task_id r = task_id)
            (\<lambda>r. r\<lparr>td_priority := priority, tr_updated_at := now\<rparr>) (lg_tasks l)\<rparr>))"

definition update_priority ::
    "ledger_env \<Rightarrow> int \<Rightarrow> int \<Rightarrow> string \<Rightarrow> int \<Rightarrow> string \<Rightarrow> ledger \<Rightarrow> ledger \<times> pydict result" where
  "update_priority env clock now task_id priority actor =
    committed_view env clock task_id (update_priority_step now task_id priority actor)"

section \<open>The canonical state moves on\<close>

definition close_active_claim :: "int \<Rightarrow> string \<Rightarrow> string \<Rightarrow> ledger \<Rightarrow> ledger" where
  "close_active_claim now task_id reason l =
    l\<lparr>lg_claims := update_where (\<lambda>c. cl_task_id c = task_id \<and> cl_status c = ACTIVE)
        (close_claim now RELEASED reason) (lg_claims l)\<rparr>"

definition complete_active_claim_from_canonical ::
    "int \<Rightarrow> string \<Rightarrow> string \<Rightarrow> string \<Rightarrow> ledger \<Rightarrow> ledger result" where
  "complete_active_claim_from_canonical now task_id project_id actor l =
    (case active_claims l task_id of
       [] \<Rightarrow> Inr l
     | c # _ \<Rightarrow>
         let evidence = [(''canonical_state_advanced'', PBool True), (''reconciled_by'', PStr actor)];
             payload = result_payload task_id (cl_claim_id c) ''completed'' msg_canonical_advanced []
               evidence;
             closed = set_claim (close_claim now CLAIM_COMPLETED ''canonical_state_advanced'')
               (cl_claim_id c)
         in if cl_claim_id c \<in> rs_claim_id ` set (lg_results l) then Inr (closed l)
            else rbind (insert_result
              \<lparr>rs_result_id = result_id_of payload, rs_task_id = task_id,
               rs_project_id = project_id, rs_claim_id = cl_claim_id c,
               rs_outcome = ''completed'', rs_summary = msg_canonical_advanced,
               rs_artifact_refs = [], rs_evidence = evidence,
               rs_payload_digest = ledger_digest (json_dumps payload),
               rs_submitted_by = cl_executor_id c, rs_submitted_at = now\<rparr> l)
              (\<lambda>l. Inr (closed l)))"

definition complete_task ::
    "int \<Rightarrow> string \<Rightarrow> string \<Rightarrow> string \<Rightarrow> string \<Rightarrow> ledger \<Rightarrow> ledger result" where
  "complete_task now task_id project_id actor reason l =
    rbind (complete_active_claim_from_canonical now task_id project_id actor l) (\<lambda>l.
    append_event now task_id project_id ''completed'' actor [(''reason'', PStr reason)]
      (set_task_state now task_id COMPLETED l))"

definition supersede_task ::
    "int \<Rightarrow> string \<Rightarrow> string \<Rightarrow> string \<Rightarrow> string \<Rightarrow> string \<Rightarrow> ledger \<Rightarrow> ledger result" where
  "supersede_task now task_id project_id actor claim_reason reason l =
    append_event now task_id project_id ''superseded'' actor [(''reason'', PStr reason)]
      (set_task_state now task_id SUPERSEDED (close_active_claim now task_id claim_reason l))"

definition retire_previous ::
    "int \<Rightarrow> task_definition \<Rightarrow> string \<Rightarrow> ledger \<Rightarrow> task_row \<Rightarrow> ledger result" where
  "retire_previous now d actor l t =
    (if tr_state t \<notin> set open_states then Inr l
     else if td_step_key t \<noteq> td_step_key d then
       complete_task now (td_task_id t) (td_project_id d) actor ''canonical_state_advanced'' l
     else supersede_task now (td_task_id t) (td_project_id d) actor ''canonical_state_superseded''
       ''canonical_state_advanced'' l)"

definition previous_tasks :: "ledger \<Rightarrow> task_definition \<Rightarrow> task_row list" where
  "previous_tasks l d = sort_key tr_sequence (filter (\<lambda>t.
     td_automation_run_id t = td_automation_run_id d \<and> td_task_id t \<noteq> td_task_id d) (lg_tasks l))"

definition new_task_row :: "int \<Rightarrow> string \<Rightarrow> int \<Rightarrow> task_definition \<Rightarrow> task_row" where
  "new_task_row now actor sequence d = task_definition.extend d
    \<lparr>tr_sequence = sequence, tr_state = READY, tr_attempt_count = 0, tr_created_by = actor,
     tr_created_at = now, tr_updated_at = now\<rparr>"

text \<open>\<open>INSERT ... ON CONFLICT DO NOTHING\<close>: the checks of the row come first, then the unique keys of
  the table, then its references.\<close>

definition insert_task :: "task_row \<Rightarrow> ledger \<Rightarrow> (ledger \<times> bool) result" where
  "insert_task t l =
    (if btrim_blank (tr_created_by t) then
       Inl (IntegrityError ''orchestration_tasks_fields_not_blank'')
     else if list_ex (\<lambda>r. td_task_id r = td_task_id t
          \<or> td_automation_run_id r = td_automation_run_id t
            \<and> (td_step_key r = td_step_key t \<and> td_action r = td_action t
                \<and> td_definition_digest r = td_definition_digest t
               \<or> tr_sequence r = tr_sequence t)) (lg_tasks l)
     then Inr (l, False)
     else if (td_automation_run_id t, td_project_id t) \<notin> set (lg_runs l) then
       Inl (IntegrityError ''orchestration_tasks_run_fk'')
     else if (td_change_request_id t, td_project_id t) \<notin> set (lg_requests l) then
       Inl (IntegrityError ''orchestration_tasks_request_fk'')
     else Inr (l\<lparr>lg_tasks := lg_tasks l @ [t]\<rparr>, True))"

definition task_identity :: "task_definition \<Rightarrow> string list" where
  "task_identity d =
    [td_definition_digest d, td_protocol_version d, td_automation_run_id d, td_change_request_id d,
     td_project_id d]"

definition insert_dependency :: "string \<Rightarrow> string \<Rightarrow> string \<Rightarrow> ledger \<Rightarrow> ledger" where
  "insert_dependency task_id parent project_id l =
    (if list_ex (\<lambda>d. dp_task_id d = task_id \<and> dp_depends_on d = parent) (lg_dependencies l) then l
     else l\<lparr>lg_dependencies := lg_dependencies l @
       [\<lparr>dp_task_id = task_id, dp_depends_on = parent, dp_project_id = project_id\<rparr>]\<rparr>)"

definition completed_previous :: "task_definition \<Rightarrow> task_row list \<Rightarrow> string list" where
  "completed_previous d previous =
    map td_task_id (filter (\<lambda>t. td_step_key t \<noteq> td_step_key d
      \<and> tr_state t \<in> {READY, CLAIMED, RUNNING, SUBMITTED, COMPLETED}) previous)"

definition announce_task ::
    "int \<Rightarrow> task_definition \<Rightarrow> string \<Rightarrow> task_row list \<Rightarrow> ledger \<Rightarrow> ledger result" where
  "announce_task now d actor previous l =
    rbind (append_event now (td_task_id d) (td_project_id d) ''created'' actor
      [(''state'', PStr ''ready''), (''action'', PStr (td_action d))] l) (\<lambda>l.
    let parents = completed_previous d previous
    in Inr (if parents = [] then l
            else insert_dependency (td_task_id d) (last parents) (td_project_id d) l))"

definition ensure_current_step ::
    "int \<Rightarrow> task_definition \<Rightarrow> string \<Rightarrow> ledger \<Rightarrow> (ledger \<times> bool) result" where
  "ensure_current_step now d actor l =
    (if td_automation_run_id d \<notin> fst ` set (lg_runs l) then
       Inl (ValueError ''Change Automation Run does not exist'')
     else
       let previous = previous_tasks l d
       in rbind (foldM (retire_previous now d actor) l previous) (\<lambda>l.
          let sequence = next_sequence (map tr_sequence
                (filter (\<lambda>t. td_automation_run_id t = td_automation_run_id d) (lg_tasks l)))
          in rbind (insert_task (new_task_row now actor sequence d) l) (\<lambda>(l, created).
             case find_task l (td_task_id d) of
               None \<Rightarrow> Inl (RuntimeError ''Orchestration Task disappeared during creation'')
             | Some t \<Rightarrow>
                 if task_identity (task_definition.truncate t) \<noteq> task_identity d then
                   Inl (PersistenceConflictError
                     (''Orchestration Task identity has different content: '' @ td_task_id d))
                 else if created then
                   rbind (announce_task now d actor previous l) (\<lambda>l. Inr (l, True))
                 else Inr (l, False))))"

definition ensure_current ::
    "ledger_env \<Rightarrow> int \<Rightarrow> int \<Rightarrow> task_definition \<Rightarrow> string \<Rightarrow> ledger \<Rightarrow> ledger \<times> pydict result"
  where
  "ensure_current env clock now d actor l =
    (case transaction (ensure_current_step now d actor) l of
       (l', Inl e) \<Rightarrow> (l', Inl e)
     | (l', Inr created) \<Rightarrow>
         (l', rbind (view_task env clock l' (td_task_id d)) (\<lambda>v.
           Inr (v @ [(''created'', PBool created)]))))"

definition open_tasks_of_run :: "ledger \<Rightarrow> string \<Rightarrow> task_row list" where
  "open_tasks_of_run l run_id =
    filter (\<lambda>t. td_automation_run_id t = run_id \<and> tr_state t \<in> set open_states) (lg_tasks l)"

definition complete_open_for_run :: "int \<Rightarrow> string \<Rightarrow> string \<Rightarrow> ledger \<Rightarrow> ledger result" where
  "complete_open_for_run now run_id actor l =
    foldM (\<lambda>l t. complete_task now (td_task_id t) (td_project_id t) actor
      ''canonical_workflow_completed'' l) l (open_tasks_of_run l run_id)"

definition supersede_open_for_run :: "int \<Rightarrow> string \<Rightarrow> string \<Rightarrow> ledger \<Rightarrow> ledger result" where
  "supersede_open_for_run now run_id actor l =
    foldM (\<lambda>l t. supersede_task now (td_task_id t) (td_project_id t) actor
      ''automation_run_superseded'' ''automation_run_superseded'' l) l (open_tasks_of_run l run_id)"

section \<open>Workers\<close>

definition append_worker_event ::
    "int \<Rightarrow> string \<Rightarrow> string \<Rightarrow> string \<Rightarrow> string \<Rightarrow> pydict \<Rightarrow> ledger \<Rightarrow> ledger result" where
  "append_worker_event now kind executor_id event_type actor payload l =
    (if btrim_blank actor then Inl (IntegrityError ''orchestration_worker_events_fields_valid'')
     else Inr (l\<lparr>lg_worker_events := lg_worker_events l @
       [\<lparr>we_executor_kind = kind, we_executor_id = executor_id,
         we_sequence = next_sequence (map we_sequence (filter
           (\<lambda>e. we_executor_kind e = kind \<and> we_executor_id e = executor_id) (lg_worker_events l))),
         we_event_type = event_type, we_actor = actor, we_payload = payload,
         we_payload_digest = ledger_digest (json_dumps (PDict payload)), we_created_at = now\<rparr>]\<rparr>))"

definition update_worker ::
    "string \<Rightarrow> string \<Rightarrow> (worker_row \<Rightarrow> worker_row) \<Rightarrow> ledger \<Rightarrow> ledger" where
  "update_worker kind executor_id f l =
    l\<lparr>lg_workers := update_where (\<lambda>w. wk_executor_kind w = kind \<and> wk_executor_id w = executor_id) f
        (lg_workers l)\<rparr>"

definition check_worker_project :: "string option \<Rightarrow> string \<Rightarrow> unit result" where
  "check_worker_project project_id msg =
    (case project_id of
       Some p \<Rightarrow> if blank p \<or> 160 < py_len p then Inl (ValueError msg) else Inr ()
     | None \<Rightarrow> Inr ())"

definition register_worker ::
    "int \<Rightarrow> string \<Rightarrow> string \<Rightarrow> string \<Rightarrow> string list \<Rightarrow> string option \<Rightarrow> int \<Rightarrow> int \<Rightarrow> ledger
     \<Rightarrow> ledger result" where
  "register_worker now worker_token executor_kind executor_id capabilities project_id
      max_concurrent_tasks lease_seconds l =
    rbind (validate_executor executor_kind executor_id) (\<lambda>_.
    if executor_kind = ''human'' then
      Inl (ValueError ''human executors are not registered as Workers'')
    else rbind (validate_capabilities capabilities) (\<lambda>_.
    rbind (check_worker_project project_id ''worker project_id must be non-blank and bounded'') (\<lambda>_.
    if \<not> (1 \<le> max_concurrent_tasks \<and> max_concurrent_tasks \<le> 100) then
      Inl (ValueError ''max_concurrent_tasks must be between 1 and 100'')
    else if \<not> (10 \<le> lease_seconds \<and> lease_seconds \<le> 86400) then
      Inl (ValueError ''worker lease_seconds must be between 10 and 86400'')
    else
      let registered = (\<lambda>registered_at.
            \<lparr>wk_executor_kind = executor_kind, wk_executor_id = executor_id,
             wk_capabilities = capabilities, wk_project_id = project_id,
             wk_max_concurrent_tasks = max_concurrent_tasks, wk_status = ONLINE,
             wk_registered_at = registered_at, wk_last_seen_at = now,
             wk_lease_expires_at = now + seconds lease_seconds,
             wk_credential_digest = ledger_digest worker_token\<rparr>);
          l = (if find_worker l executor_kind executor_id = None then
                 l\<lparr>lg_workers := lg_workers l @ [registered now]\<rparr>
               else update_worker executor_kind executor_id
                 (\<lambda>w. registered (wk_registered_at w)) l)
      in append_worker_event now executor_kind executor_id ''registered'' executor_id
           [(''capabilities'', PStrs capabilities), (''project_id'', text_or_none project_id),
            (''max_concurrent_tasks'', PInt max_concurrent_tasks)] l)))"

definition credential_matches :: "ledger \<Rightarrow> string \<Rightarrow> string \<Rightarrow> string \<Rightarrow> bool" where
  "credential_matches l kind executor_id worker_token \<longleftrightarrow>
    (case find_worker l kind executor_id of
       None \<Rightarrow> False | Some w \<Rightarrow> wk_credential_digest w = ledger_digest worker_token)"

definition heartbeat_worker ::
    "int \<Rightarrow> string \<Rightarrow> string \<Rightarrow> string \<Rightarrow> int \<Rightarrow> ledger \<Rightarrow> ledger result" where
  "heartbeat_worker now executor_kind executor_id worker_token lease_seconds l =
    rbind (validate_executor executor_kind executor_id) (\<lambda>_.
    rbind (validate_worker_token worker_token) (\<lambda>_.
    if \<not> (10 \<le> lease_seconds \<and> lease_seconds \<le> 86400) then
      Inl (ValueError ''worker lease_seconds must be between 10 and 86400'')
    else if \<not> credential_matches l executor_kind executor_id worker_token then
      Inl (ValueError ''Orchestration Worker credential is invalid'')
    else Inr (update_worker executor_kind executor_id
      (\<lambda>w. w\<lparr>wk_last_seen_at := now, wk_lease_expires_at := now + seconds lease_seconds\<rparr>) l)))"

definition unregister_worker :: "int \<Rightarrow> string \<Rightarrow> string \<Rightarrow> string \<Rightarrow> ledger \<Rightarrow> ledger result" where
  "unregister_worker now executor_kind executor_id worker_token l =
    rbind (validate_executor executor_kind executor_id) (\<lambda>_.
    rbind (validate_worker_token worker_token) (\<lambda>_.
    if \<not> credential_matches l executor_kind executor_id worker_token then
      Inl (ValueError ''Orchestration Worker credential is invalid'')
    else append_worker_event now executor_kind executor_id ''disabled'' executor_id
      [(''reason'', PStr ''worker_process_stopped'')]
      (update_worker executor_kind executor_id (\<lambda>w. w\<lparr>wk_status := OFFLINE,
         wk_last_seen_at := now, wk_lease_expires_at := now + 1\<rparr>) l)))"

definition worker_commands :: "(string \<times> worker_status \<times> string) list" where
  "worker_commands =
    [(''online'', ONLINE, ''enabled''), (''draining'', DRAINING, ''drain_requested''),
     (''offline'', OFFLINE, ''disabled'')]"

definition set_worker_status ::
    "int \<Rightarrow> string \<Rightarrow> string \<Rightarrow> string \<Rightarrow> string \<Rightarrow> ledger \<Rightarrow> ledger result" where
  "set_worker_status now executor_kind executor_id new_status actor l =
    rbind (validate_executor executor_kind executor_id) (\<lambda>_.
    rbind (validate_actor actor) (\<lambda>_.
    case map_of worker_commands new_status of
      None \<Rightarrow> Inl (ValueError ''Worker status must be online, draining, or offline'')
    | Some (st, event_type) \<Rightarrow>
        if find_worker l executor_kind executor_id = None then
          Inl (ValueError ''Orchestration Worker registration does not exist'')
        else append_worker_event now executor_kind executor_id event_type actor
          [(''status'', PStr new_status)]
          (update_worker executor_kind executor_id (\<lambda>w. w\<lparr>wk_status := st\<rparr>) l)))"

definition update_worker_configuration ::
    "int \<Rightarrow> string \<Rightarrow> string \<Rightarrow> string list \<Rightarrow> int \<Rightarrow> string \<Rightarrow> ledger \<Rightarrow> ledger result" where
  "update_worker_configuration now executor_kind executor_id capabilities max_concurrent_tasks actor l =
    rbind (validate_executor executor_kind executor_id) (\<lambda>_.
    rbind (validate_capabilities capabilities) (\<lambda>_.
    rbind (validate_actor actor) (\<lambda>_.
    if \<not> (1 \<le> max_concurrent_tasks \<and> max_concurrent_tasks \<le> 100) then
      Inl (ValueError ''max_concurrent_tasks must be between 1 and 100'')
    else if find_worker l executor_kind executor_id = None then
      Inl (ValueError ''Orchestration Worker registration does not exist'')
    else append_worker_event now executor_kind executor_id ''configuration_updated'' actor
      [(''capabilities'', PStrs capabilities), (''max_concurrent_tasks'', PInt max_concurrent_tasks)]
      (update_worker executor_kind executor_id (\<lambda>w. w\<lparr>wk_capabilities := capabilities,
         wk_max_concurrent_tasks := max_concurrent_tasks\<rparr>) l))))"

end
