(* ===== verification/TaskLedgerSafety.thy ===== *)
theory TaskLedgerSafety
  imports TaskLedger
begin

text \<open>
  What the task ledger keeps.  Every operation is a sequence of small steps (\<open>micro\<close>), each of which
  keeps the invariant of the tables and follows the life cycle of a task; so every operation does.
\<close>

named_theorems ledger_simps \<open>what a statement leaves in each table\<close>

section \<open>Frame lemmas\<close>

lemma update_where_Nil [simp]: "update_where P f [] = []"
  by (simp add: update_where_def)

lemma map_update_where: "(\<And>r. P r \<Longrightarrow> h (f r) = h r) \<Longrightarrow> map h (update_where P f rows) = map h rows"
  by (auto simp: update_where_def)

lemma image_update_where:
  "(\<And>r. P r \<Longrightarrow> h (f r) = h r) \<Longrightarrow> h ` set (update_where P f rows) = h ` set rows"
  using map_update_where[of P h f rows] by (metis set_map)

lemma set_update_where: "r \<in> set (update_where P f rows) \<longleftrightarrow> (\<exists>q\<in>set rows. r = (if P q then f q else q))"
  by (auto simp: update_where_def)

lemma append_event_Inr:
  "append_event now tid p ty a pl l = Inr l' \<Longrightarrow>
     \<exists>e. l' = l\<lparr>lg_events := lg_events l @ [e]\<rparr> \<and> ev_task_id e = tid
       \<and> ev_sequence e = next_sequence (map ev_sequence (filter (\<lambda>e. ev_task_id e = tid) (lg_events l)))"
  by (auto simp: append_event_def Let_def split: if_splits)

lemma append_event_tables:
  assumes "append_event now tid p ty a pl l = Inr l'"
  shows "lg_tasks l' = lg_tasks l" "lg_claims l' = lg_claims l" "lg_results l' = lg_results l"
    "lg_workers l' = lg_workers l" "lg_dependencies l' = lg_dependencies l" "lg_runs l' = lg_runs l"
    "lg_requests l' = lg_requests l"
  using append_event_Inr[OF assms] by auto

lemma set_task_state_tables [simp]:
  "lg_claims (set_task_state now tid st l) = lg_claims l"
  "lg_results (set_task_state now tid st l) = lg_results l"
  "lg_events (set_task_state now tid st l) = lg_events l"
  "lg_runs (set_task_state now tid st l) = lg_runs l"
  "lg_dependencies (set_task_state now tid st l) = lg_dependencies l"
  by (simp_all add: set_task_state_def)

lemma set_claim_tables [simp]:
  "lg_tasks (set_claim f cid l) = lg_tasks l"
  "lg_results (set_claim f cid l) = lg_results l"
  "lg_events (set_claim f cid l) = lg_events l"
  "lg_runs (set_claim f cid l) = lg_runs l"
  "lg_dependencies (set_claim f cid l) = lg_dependencies l"
  by (simp_all add: set_claim_def)

lemma close_active_claim_tables [simp]:
  "lg_tasks (close_active_claim now tid reason l) = lg_tasks l"
  "lg_results (close_active_claim now tid reason l) = lg_results l"
  "lg_events (close_active_claim now tid reason l) = lg_events l"
  "lg_runs (close_active_claim now tid reason l) = lg_runs l"
  "lg_dependencies (close_active_claim now tid reason l) = lg_dependencies l"
  by (simp_all add: close_active_claim_def)

lemma close_claim_simps [simp]:
  "cl_claim_id (close_claim now st reason c) = cl_claim_id c"
  "cl_task_id (close_claim now st reason c) = cl_task_id c"
  "cl_executor_id (close_claim now st reason c) = cl_executor_id c"
  "cl_status (close_claim now st reason c) = st"
  by (simp_all add: close_claim_def)

section \<open>The small steps\<close>

text \<open>Tables on which no lease depends may change freely.\<close>

definition same_core :: "ledger \<Rightarrow> ledger \<Rightarrow> bool" where
  "same_core l l' \<longleftrightarrow> lg_tasks l' = lg_tasks l \<and> lg_claims l' = lg_claims l
    \<and> lg_results l' = lg_results l \<and> lg_events l' = lg_events l
    \<and> set (lg_runs l) \<subseteq> set (lg_runs l')"

inductive micro :: "scheduling_policy \<Rightarrow> ledger \<Rightarrow> ledger \<Rightarrow> bool" for policy where
  aside: "same_core l l' \<Longrightarrow> micro policy l l'"
| log: "append_event now tid p ty a pl l = Inr l' \<Longrightarrow> micro policy l l'"
| lose: "c \<in> set (lg_claims l) \<Longrightarrow> cl_status c = ACTIVE \<Longrightarrow> find_task l (cl_task_id c) = Some t \<Longrightarrow>
    st \<in> {RELEASED, EXPIRED} \<Longrightarrow>
    micro policy l (set_task_state now (cl_task_id c) (state_after_attempt t)
      (set_claim (close_claim now st reason) (cl_claim_id c) l))"
| report: "c \<in> set (lg_claims l) \<Longrightarrow> cl_status c = ACTIVE \<Longrightarrow> find_task l (cl_task_id c) = Some t \<Longrightarrow>
    insert_result r l = Inr l1 \<Longrightarrow> rs_claim_id r = cl_claim_id c \<Longrightarrow> rs_task_id r = cl_task_id c \<Longrightarrow>
    s \<in> {SUBMITTED, FAILED, BLOCKED, COMPLETED} \<Longrightarrow>
    micro policy l (set_task_state now (cl_task_id c) s
      (set_claim (close_claim now CLAIM_COMPLETED reason) (cl_claim_id c) l1))"
| retire: "find_task l tid = Some t \<Longrightarrow> tr_state t \<in> {READY, SUBMITTED} \<Longrightarrow>
    s \<in> {COMPLETED, SUPERSEDED} \<Longrightarrow> micro policy l (set_task_state now tid s l)"
| supersede: "find_task l tid = Some t \<Longrightarrow> tr_state t \<in> {CLAIMED, RUNNING} \<Longrightarrow>
    micro policy l (set_task_state now tid SUPERSEDED (close_active_claim now tid reason l))"
| start: "find_task l tid = Some t \<Longrightarrow> tr_state t = CLAIMED \<Longrightarrow>
    micro policy l (set_task_state now tid RUNNING l)"
| renew: "micro policy l (set_claim (\<lambda>r. r\<lparr>cl_lease_expires_at := e\<rparr>) cid l)"
| claim: "find_task l tid = Some t \<Longrightarrow> claimable policy l k caps p t \<Longrightarrow> active_claims l tid = [] \<Longrightarrow>
    cl_claim_id c \<notin> cl_claim_id ` set (lg_claims l) \<Longrightarrow> cl_task_id c = tid \<Longrightarrow> cl_status c = ACTIVE \<Longrightarrow>
    \<not> btrim_blank (cl_executor_id c) \<Longrightarrow> micro policy l (l\<lparr>lg_claims := lg_claims l @ [c],
      lg_tasks := update_where (\<lambda>r. td_task_id r = tid)
        (\<lambda>r. r\<lparr>tr_state := CLAIMED, tr_attempt_count := tr_attempt_count r + 1,
          tr_updated_at := now\<rparr>) (lg_tasks l)\<rparr>)"
| create: "insert_task (new_task_row now actor n d) l = Inr (l', True) \<Longrightarrow>
    check_task_definition d = Inr d \<Longrightarrow> micro policy l l'"
| requeue: "find_task l tid = Some t \<Longrightarrow> tr_state t \<in> {FAILED, BLOCKED} \<Longrightarrow>
    tr_attempt_count t < td_max_attempts t \<Longrightarrow> micro policy l (set_task_state now tid READY l)"
| prioritise: "1 \<le> n \<Longrightarrow> n \<le> 1000 \<Longrightarrow>
    micro policy l (l\<lparr>lg_tasks := update_where (\<lambda>r. td_task_id r = tid)
      (\<lambda>r. r\<lparr>td_priority := n, tr_updated_at := now\<rparr>) (lg_tasks l)\<rparr>)"

section \<open>The invariant of the tables\<close>

definition ids_ok :: "ledger \<Rightarrow> bool" where
  "ids_ok l \<longleftrightarrow> distinct (map td_task_id (lg_tasks l)) \<and> distinct (map cl_claim_id (lg_claims l))
    \<and> cl_task_id ` set (lg_claims l) \<subseteq> td_task_id ` set (lg_tasks l)
    \<and> (\<forall>x\<in>cl_executor_id ` set (lg_claims l). \<not> btrim_blank x)"

definition leased :: "task_row \<Rightarrow> bool" where
  "leased t \<longleftrightarrow> tr_state t \<in> {CLAIMED, RUNNING}"

definition leases_ok :: "ledger \<Rightarrow> bool" where
  "leases_ok l \<longleftrightarrow> (\<forall>t\<in>set (lg_tasks l).
    length (active_claims l (td_task_id t)) = (if leased t then 1 else 0))"

definition attempts_ok :: "ledger \<Rightarrow> bool" where
  "attempts_ok l \<longleftrightarrow> (\<forall>t\<in>set (lg_tasks l).
    tr_attempt_count t = int (length (claims_of l (td_task_id t)))
    \<and> tr_attempt_count t \<le> td_max_attempts t)"

definition completed_ids :: "claim_row list \<Rightarrow> string list" where
  "completed_ids cs = map cl_claim_id (filter (\<lambda>c. cl_status c = CLAIM_COMPLETED) cs)"

definition results_ok :: "ledger \<Rightarrow> bool" where
  "results_ok l \<longleftrightarrow> distinct (map rs_claim_id (lg_results l))
    \<and> rs_claim_id ` set (lg_results l) = set (completed_ids (lg_claims l))"

definition log_ok :: "ledger \<Rightarrow> bool" where
  "log_ok l \<longleftrightarrow> (\<forall>tid. map ev_sequence (filter (\<lambda>e. ev_task_id e = tid) (lg_events l))
    = [1..int (length (filter (\<lambda>e. ev_task_id e = tid) (lg_events l)))])"

definition runs_ok :: "scheduling_policy \<Rightarrow> ledger \<Rightarrow> bool" where
  "runs_ok policy l \<longleftrightarrow> (\<forall>run. active_in_run l run \<le> sp_max_active_tasks_per_run policy)"

definition contracts_ok :: "ledger \<Rightarrow> bool" where
  "contracts_ok l \<longleftrightarrow> (\<forall>t\<in>set (lg_tasks l).
    check_task_definition (task_definition.truncate t) = Inr (task_definition.truncate t)
    \<and> (td_automation_run_id t, td_project_id t) \<in> set (lg_runs l))"

definition ledger_ok :: "scheduling_policy \<Rightarrow> ledger \<Rightarrow> bool" where
  "ledger_ok policy l \<longleftrightarrow> ids_ok l \<and> leases_ok l \<and> attempts_ok l \<and> results_ok l \<and> log_ok l
    \<and> runs_ok policy l \<and> contracts_ok l"

section \<open>Lemmas on the tables\<close>

lemma find_task_Some: "find_task l tid = Some t \<Longrightarrow> t \<in> set (lg_tasks l) \<and> td_task_id t = tid"
  by (auto simp: find_task_def find_Some_iff)

lemma find_task_mem: "ids_ok l \<Longrightarrow> t \<in> set (lg_tasks l) \<Longrightarrow> find_task l (td_task_id t) = Some t"
proof -
  have "distinct (map td_task_id ts) \<Longrightarrow> t \<in> set ts \<Longrightarrow> find (\<lambda>r. td_task_id r = td_task_id t) ts = Some t" for ts
    by (induction ts) (auto simp: rev_image_eqI)
  then show "ids_ok l \<Longrightarrow> t \<in> set (lg_tasks l) \<Longrightarrow> ?thesis"
    by (simp add: ids_ok_def find_task_def)
qed

lemma length_filter_map_le:
  "(\<And>x. x \<in> set xs \<Longrightarrow> P (f x) \<Longrightarrow> Q x) \<Longrightarrow> length (filter P (map f xs)) \<le> length (filter Q xs)"
  by (induction xs) (auto simp: le_SucI)

lemma length_filter_one_more:
  "distinct (map key xs) \<Longrightarrow>
     length (filter P (update_where (\<lambda>x. key x = k) f xs)) \<le> length (filter P xs) + 1"
proof (induction xs)
  case (Cons x xs)
  have same: "update_where (\<lambda>x. key x = k) f xs = xs" if "k \<notin> key ` set xs"
    using that unfolding update_where_def by (intro map_idI) auto
  show ?case
  proof (cases "key x = k")
    case True
    then show ?thesis using same Cons.prems by (simp add: update_where_def)
  next
    case False
    then show ?thesis using Cons by (simp add: update_where_def)
  qed
qed simp

lemma set_task_state_rows:
  "lg_tasks (set_task_state now tid st l)
    = map (\<lambda>t. if td_task_id t = tid then t\<lparr>tr_state := st, tr_updated_at := now\<rparr> else t) (lg_tasks l)"
  by (simp add: set_task_state_def update_where_def)

lemma claims_of_set_claim:
  "(\<And>c. cl_task_id (f c) = cl_task_id c) \<Longrightarrow> length (claims_of (set_claim f cid l) tid) = length (claims_of l tid)"
proof -
  assume f: "\<And>c. cl_task_id (f c) = cl_task_id c"
  have "length (filter (\<lambda>c. cl_task_id c = tid) (update_where (\<lambda>c. cl_claim_id c = cid) f cs))
     = length (filter (\<lambda>c. cl_task_id c = tid) cs)" for cs
    by (induction cs) (auto simp: update_where_def f)
  then show ?thesis by (simp add: claims_of_def set_claim_def)
qed

lemma claims_of_close_active:
  "length (claims_of (close_active_claim now tid reason l) x) = length (claims_of l x)"
proof -
  have "length (filter (\<lambda>c. cl_task_id c = x) (update_where (\<lambda>c. cl_task_id c = tid \<and> cl_status c = ACTIVE)
      (close_claim now RELEASED reason) cs)) = length (filter (\<lambda>c. cl_task_id c = x) cs)" for cs
    by (induction cs) (auto simp: update_where_def)
  then show ?thesis by (simp add: claims_of_def close_active_claim_def)
qed

lemma active_claims_close:
  "st \<noteq> ACTIVE \<Longrightarrow> active_claims (set_claim (close_claim now st reason) cid l) tid
     = filter (\<lambda>c. cl_claim_id c \<noteq> cid) (active_claims l tid)"
proof -
  assume st: "st \<noteq> ACTIVE"
  have "filter (\<lambda>c. cl_task_id c = tid \<and> cl_status c = ACTIVE)
      (update_where (\<lambda>c. cl_claim_id c = cid) (close_claim now st reason) cs)
    = filter (\<lambda>c. cl_claim_id c \<noteq> cid) (filter (\<lambda>c. cl_task_id c = tid \<and> cl_status c = ACTIVE) cs)" for cs
    using st by (induction cs) (auto simp: update_where_def)
  then show ?thesis by (simp add: active_claims_def set_claim_def)
qed

lemma active_claims_close_active:
  "active_claims (close_active_claim now tid reason l) x = (if x = tid then [] else active_claims l x)"
proof -
  have "filter (\<lambda>c. cl_task_id c = x \<and> cl_status c = ACTIVE)
      (update_where (\<lambda>c. cl_task_id c = tid \<and> cl_status c = ACTIVE) (close_claim now RELEASED reason) cs)
    = (if x = tid then [] else filter (\<lambda>c. cl_task_id c = x \<and> cl_status c = ACTIVE) cs)" for cs
    by (induction cs) (auto simp: update_where_def)
  then show ?thesis by (simp add: active_claims_def close_active_claim_def)
qed

lemma claims_unchanged [simp]:
  "claims_of (set_task_state now tid st l) x = claims_of l x"
  "active_claims (set_task_state now tid st l) x = active_claims l x"
  by (simp_all add: claims_of_def active_claims_def)

lemma active_member:
  "c \<in> set (active_claims l x) \<longleftrightarrow> c \<in> set (lg_claims l) \<and> cl_task_id c = x \<and> cl_status c = ACTIVE"
  by (auto simp: active_claims_def)

lemma claim_unique: "ids_ok l \<Longrightarrow> c \<in> set (lg_claims l) \<Longrightarrow> d \<in> set (lg_claims l) \<Longrightarrow>
   cl_claim_id c = cl_claim_id d \<Longrightarrow> c = d"
  by (auto simp: ids_ok_def distinct_map dest: inj_onD)

lemma holder_leased:
  assumes "ids_ok l" "leases_ok l" "c \<in> set (lg_claims l)" "cl_status c = ACTIVE"
  shows "\<exists>t. find_task l (cl_task_id c) = Some t \<and> leased t \<and> active_claims l (cl_task_id c) = [c]"
proof -
  have "cl_task_id c \<in> td_task_id ` set (lg_tasks l)" using assms(1,3) unfolding ids_ok_def by blast
  then obtain t where t: "t \<in> set (lg_tasks l)" "td_task_id t = cl_task_id c" by auto
  have mem: "c \<in> set (active_claims l (cl_task_id c))" using assms(3,4) by (simp add: active_member)
  then have "length (active_claims l (cl_task_id c)) \<noteq> 0" by auto
  moreover have len: "length (active_claims l (cl_task_id c)) = (if leased t then 1 else 0)"
    using assms(2) t by (auto simp: leases_ok_def)
  ultimately have "leased t" "length (active_claims l (cl_task_id c)) = 1" by (auto split: if_splits)
  moreover from this(2) mem have "active_claims l (cl_task_id c) = [c]"
    by (cases "active_claims l (cl_task_id c)") auto
  ultimately show ?thesis using find_task_mem[OF assms(1) t(1)] t(2) by auto
qed

lemma closed_elsewhere:
  assumes "ids_ok l" "c \<in> set (lg_claims l)" "x \<noteq> cl_task_id c"
  shows "filter (\<lambda>d. cl_claim_id d \<noteq> cl_claim_id c) (active_claims l x) = active_claims l x"
  unfolding filter_id_conv
proof
  fix d
  assume "d \<in> set (active_claims l x)"
  then have "d \<in> set (lg_claims l)" "cl_task_id d = x" by (simp_all add: active_member)
  then show "cl_claim_id d \<noteq> cl_claim_id c" using assms claim_unique[OF assms(1), of d c] by auto
qed

lemma insert_result_Inr:
  "insert_result r l = Inr l' \<Longrightarrow> l' = l\<lparr>lg_results := lg_results l @ [r]\<rparr>
     \<and> rs_claim_id r \<notin> rs_claim_id ` set (lg_results l)"
  by (auto simp: insert_result_def split: if_splits)

section \<open>Each small step keeps each part\<close>

lemma insert_task_Inr:
  "insert_task t l = Inr (l', True) \<Longrightarrow> l' = l\<lparr>lg_tasks := lg_tasks l @ [t]\<rparr>
     \<and> td_task_id t \<notin> td_task_id ` set (lg_tasks l) \<and> (td_automation_run_id t, td_project_id t) \<in> set (lg_runs l)"
  by (auto simp: insert_task_def list_ex_iff split: if_splits)

lemma new_task_row_simps [simp]:
  "td_task_id (new_task_row now actor n d) = td_task_id d"
  "tr_state (new_task_row now actor n d) = READY"
  "tr_attempt_count (new_task_row now actor n d) = 0"
  "td_max_attempts (new_task_row now actor n d) = td_max_attempts d"
  "task_definition.truncate (new_task_row now actor n d) = d"
  "td_automation_run_id (new_task_row now actor n d) = td_automation_run_id d"
  by (simp_all add: new_task_row_def task_definition.defs)

lemma update_keeps_ids [simp]:
  "map td_task_id (update_where P (\<lambda>t. t\<lparr>tr_state := st, tr_updated_at := now\<rparr>) ts) = map td_task_id ts"
  "map td_task_id (update_where P (\<lambda>t. t\<lparr>tr_state := st, tr_attempt_count := tr_attempt_count t + 1,
     tr_updated_at := now\<rparr>) ts) = map td_task_id ts"
  "map td_task_id (update_where P (\<lambda>t. t\<lparr>td_priority := n, tr_updated_at := now\<rparr>) ts) = map td_task_id ts"
  "td_task_id ` set (update_where P (\<lambda>t. t\<lparr>tr_state := st, tr_updated_at := now\<rparr>) ts) = td_task_id ` set ts"
  "td_task_id ` set (update_where P (\<lambda>t. t\<lparr>tr_state := st, tr_attempt_count := tr_attempt_count t + 1,
     tr_updated_at := now\<rparr>) ts) = td_task_id ` set ts"
  "td_task_id ` set (update_where P (\<lambda>t. t\<lparr>td_priority := n, tr_updated_at := now\<rparr>) ts) = td_task_id ` set ts"
  "map cl_claim_id (update_where Q (close_claim now cs reason) cls) = map cl_claim_id cls"
  "map cl_claim_id (update_where Q (\<lambda>c. c\<lparr>cl_lease_expires_at := e\<rparr>) cls) = map cl_claim_id cls"
  "cl_task_id ` set (update_where Q (close_claim now cs reason) cls) = cl_task_id ` set cls"
  "cl_task_id ` set (update_where Q (\<lambda>c. c\<lparr>cl_lease_expires_at := e\<rparr>) cls) = cl_task_id ` set cls"
  "cl_executor_id ` set (update_where Q (close_claim now cs reason) cls) = cl_executor_id ` set cls"
  "cl_executor_id ` set (update_where Q (\<lambda>c. c\<lparr>cl_lease_expires_at := e\<rparr>) cls) = cl_executor_id ` set cls"
  by (simp_all add: map_update_where image_update_where)

lemma micro_ids: "micro policy l l' \<Longrightarrow> ids_ok l \<Longrightarrow> ids_ok l'"
proof (induction rule: micro.induct)
  case (log now tid p ty a pl l l')
  then show ?case using append_event_tables[OF log(1)] by (simp add: ids_ok_def)
next
  case (report c l t r l1 s now reason)
  then show ?case using insert_result_Inr[OF report(4)]
    by (simp add: ids_ok_def set_task_state_def set_claim_def)
next
  case (claim l tid t k caps p c now)
  moreover have "tid \<in> td_task_id ` set (lg_tasks l)" using find_task_Some[OF claim(1)] by blast
  ultimately show ?case by (simp add: ids_ok_def)
next
  case (create now actor n d l l')
  then show ?case using insert_task_Inr[OF create(1)] by (auto simp: ids_ok_def)
qed (simp_all add: ids_ok_def same_core_def set_task_state_def set_claim_def close_active_claim_def)


lemma leased_simps [simp]:
  "leased (t\<lparr>tr_state := st, tr_updated_at := now\<rparr>) \<longleftrightarrow> st \<in> {CLAIMED, RUNNING}"
  "leased (t\<lparr>tr_state := st, tr_attempt_count := n, tr_updated_at := now\<rparr>) \<longleftrightarrow> st \<in> {CLAIMED, RUNNING}"
  "leased (t\<lparr>td_priority := m, tr_updated_at := now\<rparr>) \<longleftrightarrow> leased t"
  by (simp_all add: leased_def)

lemma state_after_attempt_cases: "state_after_attempt t = FAILED \<or> state_after_attempt t = READY"
  by (simp add: state_after_attempt_def)

text \<open>A statement on the row of one task keeps the leases when that task keeps its balance and no
  active claim of another task is touched.\<close>

lemma leases_ok_update:
  assumes "leases_ok l" "lg_tasks l' = update_where (\<lambda>t. td_task_id t = tid) f (lg_tasks l)"
    and "\<And>t. td_task_id (f t) = td_task_id t"
    and "\<And>x. x \<noteq> tid \<Longrightarrow> active_claims l' x = active_claims l x"
    and "\<And>t. t \<in> set (lg_tasks l) \<Longrightarrow> td_task_id t = tid \<Longrightarrow>
      length (active_claims l' tid) = (if leased (f t) then 1 else 0)"
  shows "leases_ok l'"
  unfolding leases_ok_def
proof
  fix t'
  assume "t' \<in> set (lg_tasks l')"
  then obtain t where t: "t \<in> set (lg_tasks l)" "t' = (if td_task_id t = tid then f t else t)"
    by (auto simp: assms(2) set_update_where)
  then show "length (active_claims l' (td_task_id t')) = (if leased t' then 1 else 0)"
    using assms(1,3,4,5) by (cases "td_task_id t = tid") (simp_all add: leases_ok_def)
qed

lemma unleased_no_claims:
  "ids_ok l \<Longrightarrow> leases_ok l \<Longrightarrow> find_task l tid = Some t \<Longrightarrow> \<not> leased t \<Longrightarrow> active_claims l tid = []"
  by (auto simp: leases_ok_def dest!: find_task_Some)

lemma leased_one_claim:
  "leases_ok l \<Longrightarrow> find_task l tid = Some t \<Longrightarrow> leased t \<Longrightarrow> length (active_claims l tid) = 1"
  by (auto simp: leases_ok_def dest!: find_task_Some)

lemma active_claims_same: "lg_claims l' = lg_claims l \<Longrightarrow> active_claims l' x = active_claims l x"
  by (simp add: active_claims_def)

lemma active_claims_renew:
  "length (active_claims (set_claim (\<lambda>r. r\<lparr>cl_lease_expires_at := e\<rparr>) cid l) x) = length (active_claims l x)"
proof -
  have "length (filter (\<lambda>c. cl_task_id c = x \<and> cl_status c = ACTIVE)
      (update_where (\<lambda>c. cl_claim_id c = cid) (\<lambda>r. r\<lparr>cl_lease_expires_at := e\<rparr>) cs))
    = length (filter (\<lambda>c. cl_task_id c = x \<and> cl_status c = ACTIVE) cs)" for cs
    by (induction cs) (auto simp: update_where_def)
  then show ?thesis by (simp add: active_claims_def set_claim_def)
qed

lemma leases_ok_set_state:
  assumes "leases_ok l" "lg_tasks m = lg_tasks l"
    and "\<And>x. x \<noteq> tid \<Longrightarrow> active_claims m x = active_claims l x"
    and "length (active_claims m tid) = (if st \<in> {CLAIMED, RUNNING} then 1 else 0)"
  shows "leases_ok (set_task_state now tid st m)"
proof (rule leases_ok_update[OF assms(1)])
  show "lg_tasks (set_task_state now tid st m)
     = update_where (\<lambda>t. td_task_id t = tid) (\<lambda>t. t\<lparr>tr_state := st, tr_updated_at := now\<rparr>) (lg_tasks l)"
    by (simp add: set_task_state_def assms(2))
qed (use assms(3,4) in simp_all)

lemma active_claims_result [simp]: "active_claims (l\<lparr>lg_results := rs\<rparr>) x = active_claims l x"
  by (simp add: active_claims_def)

lemma no_claims_without_task:
  assumes "ids_ok l" "tid \<notin> td_task_id ` set (lg_tasks l)"
  shows "claims_of l tid = []" "active_claims l tid = []"
proof -
  have "cl_task_id c \<noteq> tid" if "c \<in> set (lg_claims l)" for c
    using assms that unfolding ids_ok_def by blast
  then show "claims_of l tid = []" "active_claims l tid = []"
    by (simp_all add: claims_of_def active_claims_def filter_empty_conv)
qed

lemma truncate_simps [simp]:
  "task_definition.truncate (t\<lparr>tr_state := st, tr_updated_at := now\<rparr>) = task_definition.truncate t"
  "task_definition.truncate (t\<lparr>tr_state := st, tr_attempt_count := n, tr_updated_at := now\<rparr>)
     = task_definition.truncate t"
  by (simp_all add: task_definition.defs)

lemma micro_leases: "micro policy l l' \<Longrightarrow> ids_ok l \<Longrightarrow> leases_ok l \<Longrightarrow> leases_ok l'"
proof (induction rule: micro.induct)
  case (aside l l')
  then show ?case by (simp add: same_core_def leases_ok_def active_claims_def)
next
  case (log now tid p ty a pl l l')
  then show ?case using append_event_tables[OF log(1)] by (simp add: leases_ok_def active_claims_def)
next
  case (lose c l t st now reason)
  then have "active_claims l (cl_task_id c) = [c]" using holder_leased by blast
  with lose state_after_attempt_cases[of t] show ?case
    by (intro leases_ok_set_state[OF lose(6)]) (auto simp: active_claims_close closed_elsewhere)
next
  case (report c l t r l1 s now reason)
  then have "active_claims l (cl_task_id c) = [c]" using holder_leased by blast
  with report insert_result_Inr[OF report(4)] show ?case
    by (intro leases_ok_set_state[OF report(9)]) (auto simp: active_claims_close closed_elsewhere)
next
  case (retire l tid t s now)
  then have "active_claims l tid = []"
    by (intro unleased_no_claims[OF retire(4,5,1)]) (auto simp: leased_def)
  with retire show ?case by (intro leases_ok_set_state[OF retire(5)]) auto
next
  case (supersede l tid t now reason)
  then show ?case
    by (intro leases_ok_set_state[OF supersede(4)]) (auto simp: active_claims_close_active)
next
  case (start l tid t now)
  then have "length (active_claims l tid) = 1"
    by (intro leased_one_claim[OF start(4,1)]) (simp add: leased_def)
  with start show ?case by (intro leases_ok_set_state[OF start(4)]) auto
next
  case (renew l e cid)
  then show ?case by (simp add: leases_ok_def active_claims_renew)
next
  case (claim l tid t k caps p c now)
  have "active_claims (l\<lparr>lg_claims := lg_claims l @ [c], lg_tasks := ts\<rparr>) x
    = active_claims l x @ (if x = tid then [c] else [])" for ts x
    using claim(5,6) by (auto simp: active_claims_def)
  then show ?case using claim(3)
    by (intro leases_ok_update[OF claim(9), where tid = tid and f = "\<lambda>r. r\<lparr>tr_state := CLAIMED,
          tr_attempt_count := tr_attempt_count r + 1, tr_updated_at := now\<rparr>"]) auto
next
  case (create now actor n d l l')
  note new = insert_task_Inr[OF create(1)]
  have "active_claims l (td_task_id d) = []"
    using new no_claims_without_task[OF create(3), of "td_task_id d"] by simp
  with new create(4) show ?case
    by (auto simp: leases_ok_def active_claims_def leased_def)
next
  case (requeue l tid t now)
  then have "active_claims l tid = []"
    by (intro unleased_no_claims[OF requeue(4,5,1)]) (auto simp: leased_def)
  with requeue show ?case by (intro leases_ok_set_state[OF requeue(5)]) auto
next
  case (prioritise n l tid now)
  have same: "active_claims (l\<lparr>lg_tasks := ts\<rparr>) x = active_claims l x" for ts x
    by (simp add: active_claims_def)
  from prioritise show ?case
    by (intro leases_ok_update[OF prioritise(4), where tid = tid
          and f = "\<lambda>r. r\<lparr>td_priority := n, tr_updated_at := now\<rparr>"]) (auto simp: same leases_ok_def)
qed

lemma attempts_ok_rows:
  assumes "attempts_ok l" "\<And>x. length (claims_of l' x) = length (claims_of l x)"
    and "\<And>t'. t' \<in> set (lg_tasks l') \<Longrightarrow> \<exists>t\<in>set (lg_tasks l). td_task_id t' = td_task_id t
      \<and> tr_attempt_count t' = tr_attempt_count t \<and> td_max_attempts t' = td_max_attempts t"
  shows "attempts_ok l'"
  using assms unfolding attempts_ok_def by metis

lemma set_task_state_row:
  assumes "t' \<in> set (lg_tasks (set_task_state now tid st m))" "lg_tasks m = lg_tasks l"
  shows "\<exists>t\<in>set (lg_tasks l). td_task_id t' = td_task_id t
      \<and> tr_attempt_count t' = tr_attempt_count t \<and> td_max_attempts t' = td_max_attempts t"
  using assms by (auto simp: set_task_state_def set_update_where)

lemma claims_of_result [simp]: "claims_of (l\<lparr>lg_results := rs\<rparr>) x = claims_of l x"
  by (simp add: claims_of_def)

lemma micro_attempts: "micro policy l l' \<Longrightarrow> ids_ok l \<Longrightarrow> attempts_ok l \<Longrightarrow> attempts_ok l'"
proof (induction rule: micro.induct)
  case (aside l l')
  then show ?case by (intro attempts_ok_rows[OF aside(3)]) (auto simp: same_core_def claims_of_def)
next
  case (log now tid p ty a pl l l')
  then show ?case
    by (intro attempts_ok_rows[OF log(3)]) (auto simp: append_event_tables[OF log(1)] claims_of_def)
next
  case (lose c l t st now reason)
  show ?case
    by (rule attempts_ok_rows[OF lose(6)]) (simp_all add: claims_of_set_claim set_task_state_row)
next
  case (report c l t r l1 s now reason)
  with insert_result_Inr[OF report(4)] show ?case
    by (intro attempts_ok_rows[OF report(9)]) (simp_all add: claims_of_set_claim set_task_state_row)
next
  case (retire l tid t s now)
  show ?case by (rule attempts_ok_rows[OF retire(5)]) (simp_all add: set_task_state_row)
next
  case (supersede l tid t now reason)
  show ?case
    by (rule attempts_ok_rows[OF supersede(4)]) (simp_all add: claims_of_close_active set_task_state_row)
next
  case (start l tid t now)
  show ?case by (rule attempts_ok_rows[OF start(4)]) (simp_all add: set_task_state_row)
next
  case (renew l e cid)
  then show ?case by (intro attempts_ok_rows[OF renew(2)]) (auto simp: claims_of_set_claim)
next
  case (claim l tid t k caps p c now)
  have more: "claims_of (l\<lparr>lg_claims := lg_claims l @ [c], lg_tasks := ts\<rparr>) x
    = claims_of l x @ (if x = tid then [c] else [])" for ts x
    using claim(5) by (auto simp: claims_of_def)
  have room: "tr_attempt_count r < td_max_attempts r" if "r \<in> set (lg_tasks l)" "td_task_id r = tid" for r
    using find_task_mem[OF claim(8) that(1)] that(2) claim(1,2) by (auto simp: claimable_def suits_def)
  show ?case
    unfolding attempts_ok_def more
  proof
    fix t'
    assume "t' \<in> set (lg_tasks (l\<lparr>lg_claims := lg_claims l @ [c],
      lg_tasks := update_where (\<lambda>r. td_task_id r = tid) (\<lambda>r. r\<lparr>tr_state := CLAIMED,
        tr_attempt_count := tr_attempt_count r + 1, tr_updated_at := now\<rparr>) (lg_tasks l)\<rparr>))"
    then obtain q where q: "q \<in> set (lg_tasks l)"
      "t' = (if td_task_id q = tid then q\<lparr>tr_state := CLAIMED,
        tr_attempt_count := tr_attempt_count q + 1, tr_updated_at := now\<rparr> else q)"
      by (auto simp: set_update_where)
    then show "tr_attempt_count t' = int (length (claims_of l (td_task_id t')
        @ (if td_task_id t' = tid then [c] else []))) \<and> tr_attempt_count t' \<le> td_max_attempts t'"
      using bspec[OF claim(9)[unfolded attempts_ok_def] q(1)] room[OF q(1)]
      by (cases "td_task_id q = tid") simp_all
  qed
next
  case (create now actor n d l l')
  note new = insert_task_Inr[OF create(1)]
  have none: "claims_of l (td_task_id d) = []"
    using new no_claims_without_task[OF create(3), of "td_task_id d"] by simp
  have "1 \<le> td_max_attempts d"
    using create(2) by (auto simp: check_task_definition_def split: if_splits)
  with new none create(4) show ?case by (auto simp: attempts_ok_def claims_of_def)
next
  case (requeue l tid t now)
  show ?case by (rule attempts_ok_rows[OF requeue(5)]) (simp_all add: set_task_state_row)
next
  case (prioritise n l tid now)
  then show ?case by (intro attempts_ok_rows[OF prioritise(4)]) (auto simp: set_update_where claims_of_def)
qed

lemma check_task_definition_iff:
  "check_task_definition d = Inr d' \<longleftrightarrow> d' = d \<and> \<not> list_ex blank (required_text d)
     \<and> td_eligible_executor_kinds d = EXECUTOR_KINDS \<and> td_task_kind d \<in> set task_kinds
     \<and> td_required_capabilities d \<noteq> [] \<and> td_expected_output_types d \<noteq> []
     \<and> td_acceptance_criteria d \<noteq> [] \<and> 30 \<le> td_lease_seconds d \<and> td_lease_seconds d \<le> 86400
     \<and> 1 \<le> td_max_attempts d \<and> td_max_attempts d \<le> 100 \<and> 1 \<le> td_priority d \<and> td_priority d \<le> 1000
     \<and> is_sha256 (td_definition_digest d)"
  unfolding check_task_definition_def by (auto simp: if_raise_eq_Inr)

lemma micro_contracts: "micro policy l l' \<Longrightarrow> contracts_ok l \<Longrightarrow> contracts_ok l'"
proof (induction rule: micro.induct)
  case (aside l l')
  then show ?case by (auto simp: same_core_def contracts_ok_def)
next
  case (log now tid p ty a pl l l')
  then show ?case using append_event_tables[OF log(1)] by (simp add: contracts_ok_def)
next
  case (report c l t r l1 s now reason)
  with insert_result_Inr[OF report(4)] show ?case
    by (auto simp: contracts_ok_def set_task_state_def set_update_where)
next
  case (create now actor n d l l')
  with insert_task_Inr[OF create(1)] show ?case by (auto simp: contracts_ok_def)
next
  case (prioritise n l tid now)
  then have keep: "check_task_definition (task_definition.truncate t) = Inr (task_definition.truncate t) \<Longrightarrow>
      check_task_definition (task_definition.truncate (t\<lparr>td_priority := n, tr_updated_at := now\<rparr>))
        = Inr (task_definition.truncate (t\<lparr>td_priority := n, tr_updated_at := now\<rparr>))" for t
    by (simp add: check_task_definition_iff required_text_def task_definition.defs)
  from prioritise show ?case by (auto simp: contracts_ok_def set_update_where intro!: keep)
qed (auto simp: contracts_ok_def set_task_state_def set_update_where)


lemma completed_ids_close:
  assumes "ids_ok l" "c \<in> set (lg_claims l)" "cl_status c = ACTIVE"
  shows "set (completed_ids (lg_claims (set_claim (close_claim now st reason) (cl_claim_id c) l)))
    = (if st = CLAIM_COMPLETED then {cl_claim_id c} else {}) \<union> set (completed_ids (lg_claims l))"
proof -
  have active: "cl_status d = ACTIVE" if "d \<in> set (lg_claims l)" "cl_claim_id d = cl_claim_id c" for d
    using claim_unique[OF assms(1) that(1) assms(2) that(2)] assms(3) by simp
  have "set (completed_ids (update_where (\<lambda>d. cl_claim_id d = cid) (close_claim now st reason) cs))
    = (if st = CLAIM_COMPLETED \<and> cid \<in> cl_claim_id ` set cs then {cid} else {}) \<union> set (completed_ids cs)"
    if "\<forall>d\<in>set cs. cl_claim_id d = cid \<longrightarrow> cl_status d = ACTIVE" for cs cid
    using that by (induction cs) (auto simp: completed_ids_def update_where_def)
  from this[of "lg_claims l" "cl_claim_id c"] active assms(2) show ?thesis by (auto simp: set_claim_def)
qed

lemma completed_ids_renew:
  "completed_ids (update_where P (\<lambda>r. r\<lparr>cl_lease_expires_at := e\<rparr>) cs) = completed_ids cs"
  by (induction cs) (auto simp: completed_ids_def update_where_def)

lemma completed_ids_supersede:
  "completed_ids (update_where (\<lambda>c. cl_task_id c = tid \<and> cl_status c = ACTIVE) (close_claim now RELEASED reason) cs)
     = completed_ids cs"
  by (induction cs) (auto simp: completed_ids_def update_where_def)

lemma micro_results: "micro policy l l' \<Longrightarrow> ids_ok l \<Longrightarrow> results_ok l \<Longrightarrow> results_ok l'"
proof (induction rule: micro.induct)
  case (aside l l')
  then show ?case by (simp add: same_core_def results_ok_def)
next
  case (log now tid p ty a pl l l')
  then show ?case using append_event_tables[OF log(1)] by (simp add: results_ok_def)
next
  case (lose c l t st now reason)
  then show ?case using completed_ids_close[OF lose(5,1,2), of now st reason]
    by (auto simp: results_ok_def)
next
  case (report c l t r l1 s now reason)
  note new = insert_result_Inr[OF report(4)]
  have "lg_claims (set_claim f cid (l\<lparr>lg_results := rs\<rparr>)) = lg_claims (set_claim f cid l)" for f cid rs
    by (simp add: set_claim_def)
  then show ?case
    using report new completed_ids_close[OF report(8,1,2), of now CLAIM_COMPLETED reason]
    by (simp add: results_ok_def)
next
  case (claim l tid t k caps p c now)
  then show ?case by (simp add: results_ok_def completed_ids_def)
next
  case (create now actor n d l l')
  with insert_task_Inr[OF create(1)] show ?case by (simp add: results_ok_def)
qed (simp_all add: results_ok_def close_active_claim_def set_claim_def completed_ids_renew
    completed_ids_supersede)

lemma next_sequence_upto: "next_sequence [1..int n] = int n + 1"
proof -
  have "foldr max xs 0 = (if xs = [] then 0 else max 0 (Max (set xs)))" for xs :: "int list"
    by (induction xs) (auto simp: max.commute max.left_commute)
  moreover have "n > 0 \<Longrightarrow> Max {1..int n} = int n" by (intro Max_eqI) auto
  ultimately show ?thesis by (cases n) (auto simp: next_sequence_def)
qed

lemma micro_log: "micro policy l l' \<Longrightarrow> log_ok l \<Longrightarrow> log_ok l'"
proof (induction rule: micro.induct)
  case (aside l l')
  then show ?case by (simp add: same_core_def log_ok_def)
next
  case (log now tid p ty a pl l l')
  from append_event_Inr[OF log(1)] obtain e where e: "lg_events l' = lg_events l @ [e]" "ev_task_id e = tid"
    "ev_sequence e = next_sequence (map ev_sequence (filter (\<lambda>e. ev_task_id e = tid) (lg_events l)))"
    by auto
  define n where "n = length (filter (\<lambda>e. ev_task_id e = tid) (lg_events l))"
  have seq: "map ev_sequence (filter (\<lambda>e. ev_task_id e = tid) (lg_events l)) = [1..int n]"
    using log(2) by (simp add: log_ok_def n_def)
  have next_seq: "[1..int n] @ [int n + 1] = [1..int n + 1]"
    by (simp add: upto_rec2)
  show ?case
    unfolding log_ok_def
  proof
    fix x
    show "map ev_sequence (filter (\<lambda>e. ev_task_id e = x) (lg_events l'))
        = [1..int (length (filter (\<lambda>e. ev_task_id e = x) (lg_events l')))]"
    proof (cases "x = tid")
      case True
      then show ?thesis using e seq next_seq by (simp add: next_sequence_upto n_def[symmetric] add.commute)
    next
      case False
      then show ?thesis using e log(2) by (simp add: log_ok_def)
    qed
  qed
next
  case (report c l t r l1 s now reason)
  with insert_result_Inr[OF report(4)] show ?case by (simp add: log_ok_def)
next
  case (create now actor n d l l')
  with insert_task_Inr[OF create(1)] show ?case by (simp add: log_ok_def)
qed (simp_all add: log_ok_def)

abbreviation busy :: "string \<Rightarrow> task_row \<Rightarrow> bool" where
  "busy run t \<equiv> td_automation_run_id t = run \<and> tr_state t \<in> set active_states"

lemma runs_ok_rows:
  assumes "runs_ok policy l" "\<And>run. length (filter (busy run) (lg_tasks l')) \<le> length (filter (busy run) (lg_tasks l))"
  shows "runs_ok policy l'"
  unfolding runs_ok_def
proof
  fix run
  have "active_in_run l' run \<le> active_in_run l run"
    using assms(2)[of run] by (simp add: active_in_run_def)
  also have "\<dots> \<le> sp_max_active_tasks_per_run policy" using assms(1) by (simp add: runs_ok_def)
  finally show "active_in_run l' run \<le> sp_max_active_tasks_per_run policy" .
qed

lemma busy_set_state:
  assumes "\<And>t. t \<in> set (lg_tasks l) \<Longrightarrow> td_task_id t = tid \<Longrightarrow> st \<in> set active_states \<Longrightarrow> tr_state t \<in> set active_states"
    and "lg_tasks m = lg_tasks l"
  shows "length (filter (busy run) (lg_tasks (set_task_state now tid st m))) \<le> length (filter (busy run) (lg_tasks l))"
  unfolding set_task_state_rows assms(2)
  by (rule length_filter_map_le) (use assms(1) in \<open>auto split: if_splits\<close>)

lemma task_of_id: "ids_ok l \<Longrightarrow> find_task l tid = Some t \<Longrightarrow> r \<in> set (lg_tasks l) \<Longrightarrow> td_task_id r = tid \<Longrightarrow> r = t"
  using find_task_mem by fastforce

lemma micro_runs: "micro policy l l' \<Longrightarrow> ids_ok l \<Longrightarrow> leases_ok l \<Longrightarrow> runs_ok policy l \<Longrightarrow> runs_ok policy l'"
proof (induction rule: micro.induct)
  case (aside l l')
  then show ?case by (simp add: same_core_def runs_ok_def active_in_run_def)
next
  case (log now tid p ty a pl l l')
  then show ?case using append_event_tables[OF log(1)] by (simp add: runs_ok_def active_in_run_def)
next
  case (lose c l t st now reason)
  then show ?case using state_after_attempt_cases[of t]
    by (intro runs_ok_rows[OF lose(7)] busy_set_state) (auto simp: active_states_def)
next
  case (report c l t r l1 s now reason)
  obtain q where q: "find_task l (cl_task_id c) = Some q" "leased q"
    using holder_leased[OF report(8,9,1,2)] by blast
  then have "tr_state q \<in> set active_states" by (auto simp: leased_def active_states_def)
  with q insert_result_Inr[OF report(4)] show ?case
    by (intro runs_ok_rows[OF report(10)] busy_set_state) (auto dest: task_of_id[OF report(8) q(1)])
next
  case (retire l tid t s now)
  then show ?case
    by (intro runs_ok_rows[OF retire(6)] busy_set_state) (auto simp: active_states_def)
next
  case (supersede l tid t now reason)
  then show ?case
    by (intro runs_ok_rows[OF supersede(5)] busy_set_state) (auto simp: active_states_def)
next
  case (start l tid t now)
  then show ?case
    by (intro runs_ok_rows[OF start(5)] busy_set_state)
      (auto simp: active_states_def dest: task_of_id[OF start(3,1)])
next
  case (renew l e cid)
  then show ?case by (simp add: runs_ok_def active_in_run_def)
next
  case (claim l tid t k caps p c now)
  let ?ts = "update_where (\<lambda>r. td_task_id r = tid) (\<lambda>r. r\<lparr>tr_state := CLAIMED,
    tr_attempt_count := tr_attempt_count r + 1, tr_updated_at := now\<rparr>) (lg_tasks l)"
  show ?case
    unfolding runs_ok_def
  proof
    fix run
    have one: "length (filter (busy run) ?ts) \<le> length (filter (busy run) (lg_tasks l)) + 1"
      using claim(8) by (intro length_filter_one_more) (simp add: ids_ok_def)
    have none: "run \<noteq> td_automation_run_id t \<Longrightarrow> length (filter (busy run) ?ts) \<le> length (filter (busy run) (lg_tasks l))"
      unfolding update_where_def
      by (rule length_filter_map_le) (auto split: if_splits dest: task_of_id[OF claim(8,1)])
    have "active_in_run l (td_automation_run_id t) < sp_max_active_tasks_per_run policy"
      using claim(2) by (simp add: claimable_def)
    moreover have "active_in_run l run \<le> sp_max_active_tasks_per_run policy"
      using claim(10) by (simp add: runs_ok_def)
    ultimately show "active_in_run (l\<lparr>lg_claims := lg_claims l @ [c], lg_tasks := ?ts\<rparr>) run
        \<le> sp_max_active_tasks_per_run policy"
      using one none by (cases "run = td_automation_run_id t") (simp_all add: active_in_run_def)
  qed
next
  case (create now actor n d l l')
  with insert_task_Inr[OF create(1)] show ?case
    by (intro runs_ok_rows[OF create(5)]) (simp add: active_states_def)
next
  case (requeue l tid t now)
  then show ?case
    by (intro runs_ok_rows[OF requeue(6)] busy_set_state) (auto simp: active_states_def)
next
  case (prioritise n l tid now)
  have "length (filter (busy run) (update_where (\<lambda>r. td_task_id r = tid)
      (\<lambda>r. r\<lparr>td_priority := n, tr_updated_at := now\<rparr>) (lg_tasks l))) \<le> length (filter (busy run) (lg_tasks l))"
    for run
    unfolding update_where_def by (rule length_filter_map_le) (auto split: if_splits)
  then show ?case by (intro runs_ok_rows[OF prioritise(5)]) simp
qed

lemma micro_ok: "micro policy l l' \<Longrightarrow> ledger_ok policy l \<Longrightarrow> ledger_ok policy l'"
  unfolding ledger_ok_def
  using micro_ids micro_leases micro_attempts micro_results micro_log micro_runs micro_contracts by metis

abbreviation micros :: "scheduling_policy \<Rightarrow> ledger \<Rightarrow> ledger \<Rightarrow> bool" where
  "micros policy \<equiv> (micro policy)\<^sup>*\<^sup>*"

lemma micros_ok: "micros policy l l' \<Longrightarrow> ledger_ok policy l \<Longrightarrow> ledger_ok policy l'"
  by (induction rule: rtranclp_induct) (auto dest: micro_ok)

section \<open>Every operation is a sequence of small steps\<close>

definition touches_only :: "string \<Rightarrow> ledger \<Rightarrow> ledger \<Rightarrow> bool" where
  "touches_only tid l l' \<longleftrightarrow> (\<forall>x. x \<noteq> tid \<longrightarrow> find_task l' x = find_task l x)
    \<and> (\<forall>c. cl_task_id c \<noteq> tid \<longrightarrow> (c \<in> set (lg_claims l') \<longleftrightarrow> c \<in> set (lg_claims l)))"

lemma touches_only_trans: "touches_only tid l m \<Longrightarrow> touches_only tid m n \<Longrightarrow> touches_only tid l n"
  by (simp add: touches_only_def)

lemma find_update:
  "(\<And>t. td_task_id (f t) = td_task_id t) \<Longrightarrow>
     find (\<lambda>t. td_task_id t = x) (update_where (\<lambda>t. td_task_id t = tid) f ts)
       = map_option (\<lambda>t. if x = tid then f t else t) (find (\<lambda>t. td_task_id t = x) ts)"
  by (induction ts) (auto simp: update_where_def)

lemma find_task_set_state:
  "find_task (set_task_state now tid st l) x
     = map_option (\<lambda>t. if x = tid then t\<lparr>tr_state := st, tr_updated_at := now\<rparr> else t) (find_task l x)"
  by (simp add: find_task_def set_task_state_def find_update)

lemma find_task_frame:
  "lg_tasks l' = lg_tasks l \<Longrightarrow> find_task l' x = find_task l x"
  by (simp add: find_task_def)

lemma touches_set_state: "touches_only tid l (set_task_state now tid st l)"
  by (simp add: touches_only_def find_task_set_state option.map_ident)

lemma touches_close:
  assumes "ids_ok l" "c \<in> set (lg_claims l)" "\<And>d. cl_task_id (f d) = cl_task_id d"
  shows "touches_only (cl_task_id c) l (set_claim f (cl_claim_id c) l)"
proof -
  have "d = c" if "d \<in> set (lg_claims l)" "cl_claim_id d = cl_claim_id c" for d
    using claim_unique[OF assms(1)] that assms(2) by blast
  then show ?thesis
    using assms(3) by (auto simp: touches_only_def find_task_def set_claim_def set_update_where)
qed

lemma touches_event: "append_event now tid p ty a pl l = Inr l' \<Longrightarrow> touches_only x l l'"
  by (simp add: touches_only_def find_task_def append_event_tables)

lemma expire_claim_steps:
  assumes "expire_claim now selected l c = Inr l'" "ledger_ok policy l"
    and "c \<in> set (lg_claims l)" "cl_status c = ACTIVE"
    and "find_task selected (cl_task_id c) = find_task l (cl_task_id c)"
  shows "micros policy l l' \<and> touches_only (cl_task_id c) l l'"
proof -
  have ids: "ids_ok l" using assms(2) by (simp add: ledger_ok_def)
  obtain t where t: "find_task l (cl_task_id c) = Some t"
    using holder_leased[OF ids _ assms(3,4)] assms(2) by (auto simp: ledger_ok_def)
  let ?l1 = "set_claim (close_claim now EXPIRED ''lease_expired'') (cl_claim_id c) l"
  let ?l2 = "set_task_state now (cl_task_id c) (state_after_attempt t) ?l1"
  obtain ty where ev: "append_event now (cl_task_id c) (cl_project_id c) ty (cl_executor_id c)
      [(''claim_id'', PStr (cl_claim_id c))] ?l2 = Inr l'"
    using assms(1,5) t by (simp add: expire_claim_def Let_def)
  have "micro policy l ?l2" using micro.lose[OF assms(3,4) t] by simp
  moreover have "touches_only (cl_task_id c) l ?l1"
    by (rule touches_close[OF ids assms(3)]) simp
  ultimately show ?thesis
    using micro.log[OF ev] touches_event[OF ev] touches_set_state touches_only_trans
    by (meson converse_rtranclp_into_rtranclp rtranclp.rtrancl_refl)
qed

lemma expire_claims_steps:
  assumes "foldM (expire_claim now selected) l cs = Inr l'" "ledger_ok policy l"
    and "distinct (map cl_task_id cs)"
    and "\<And>c. c \<in> set cs \<Longrightarrow> c \<in> set (lg_claims l) \<and> cl_status c = ACTIVE
      \<and> find_task selected (cl_task_id c) = find_task l (cl_task_id c)"
  shows "micros policy l l' \<and> (\<forall>tid. set (map cl_task_id cs) \<subseteq> {tid} \<longrightarrow> touches_only tid l l')"
  using assms
proof (induction cs arbitrary: l)
  case Nil
  then show ?case by (simp add: touches_only_def)
next
  case (Cons c cs)
  obtain m where m: "expire_claim now selected l c = Inr m" "foldM (expire_claim now selected) m cs = Inr l'"
    using Cons.prems(1) by (auto simp: rbind_eq_Inr)
  have step: "micros policy l m" "touches_only (cl_task_id c) l m"
    using expire_claim_steps[OF m(1) Cons.prems(2)] Cons.prems(4) by auto
  have "d \<in> set (lg_claims m) \<and> cl_status d = ACTIVE
      \<and> find_task selected (cl_task_id d) = find_task m (cl_task_id d)" if "d \<in> set cs" for d
  proof -
    have "cl_task_id d \<noteq> cl_task_id c" using that Cons.prems(3) by (auto simp: image_iff)
    with that step(2) Cons.prems(4)[of d] show ?thesis by (simp add: touches_only_def)
  qed
  with Cons.IH[OF m(2) micros_ok[OF step(1) Cons.prems(2)]] Cons.prems(3) have rest: "micros policy m l'"
    "\<And>tid. set (map cl_task_id cs) \<subseteq> {tid} \<Longrightarrow> touches_only tid m l'" by auto
  then show ?case using step touches_only_trans by (auto intro: rtranclp_trans)
qed

lemma expired_claims_distinct:
  assumes "ledger_ok policy l"
  shows "distinct (map cl_task_id (expired_claims now which l))"
proof -
  have ok: "ids_ok l" "leases_ok l" using assms by (simp_all add: ledger_ok_def)
  have one: "c = d" if "c \<in> set (lg_claims l)" "d \<in> set (lg_claims l)" "cl_status c = ACTIVE" "cl_status d = ACTIVE"
    "cl_task_id c = cl_task_id d" for c d
    using holder_leased[OF ok that(1,3)] holder_leased[OF ok that(2,4)] that(5) by (metis list.inject)
  have "distinct (lg_claims l)" using ok(1) by (simp add: ids_ok_def distinct_map)
  then show ?thesis
    unfolding distinct_map expired_claims_def by (intro conjI distinct_filter inj_onI) (auto intro: one)
qed

lemma expire_leases_steps:
  assumes "expire_leases_locked now which l = Inr l'" "ledger_ok policy l"
  shows "micros policy l l' \<and> (\<forall>tid. which = Some tid \<longrightarrow> touches_only tid l l')"
  using expire_claims_steps[OF assms(1)[unfolded expire_leases_locked_def] assms(2) expired_claims_distinct[OF assms(2)]]
  by (auto simp: expired_claims_def)

lemma require_live_steps:
  assumes "require_live_claim now tid x token l = Inr (m, c)" "ledger_ok policy l"
  shows "micros policy l m \<and> c \<in> set (lg_claims m) \<and> cl_status c = ACTIVE \<and> cl_task_id c = tid
    \<and> cl_executor_id c = x \<and> cl_lease_token_digest c = ledger_digest token \<and> touches_only tid l m"
proof -
  obtain k where k: "expire_leases_locked now (Some tid) l = Inr k"
    "(case active_claims k tid of
        [] \<Rightarrow> Inl (ValueError ''Orchestration Task has no active lease'')
      | c # _ \<Rightarrow> if cl_executor_id c \<noteq> x \<or> cl_lease_token_digest c \<noteq> ledger_digest token
          then Inl (ValueError ''Orchestration Task lease does not belong to executor'') else Inr (k, c)) = Inr (m, c)"
    using assms(1) by (auto simp: require_live_claim_def rbind_eq_Inr)
  from k have e: "expire_leases_locked now (Some tid) l = Inr m"
    and c: "c \<in> set (active_claims m tid)" "cl_executor_id c = x" "cl_lease_token_digest c = ledger_digest token"
    by (cases "active_claims k tid"; auto split: if_splits)+
  then show ?thesis using expire_leases_steps[OF e assms(2)] by (auto simp: active_member)
qed

lemma micros_step: "micros policy l m \<Longrightarrow> micro policy m n \<Longrightarrow> micros policy l n"
  by (rule rtranclp.rtrancl_into_rtrancl)

lemma heartbeat_steps:
  assumes "heartbeat_step now tid x token l = Inr l'" "ledger_ok policy l"
  shows "micros policy l l'"
proof -
  obtain m c t where m: "require_live_claim now tid x token l = Inr (m, c)" "find_task m tid = Some t"
    using assms(1) by (auto simp: heartbeat_step_def rbind_eq_Inr split: option.splits)
  let ?a = "if tr_state t = CLAIMED then set_task_state now tid RUNNING m else m"
  let ?b = "set_claim (\<lambda>r. r\<lparr>cl_lease_expires_at := now + seconds (td_lease_seconds t)\<rparr>) (cl_claim_id c) ?a"
  let ?w = "renew_worker now c x ?b"
  obtain ty where ev: "append_event now tid (td_project_id t) ty x [(''claim_id'', PStr (cl_claim_id c))] ?w = Inr l'"
    using assms(1) m by (simp add: heartbeat_step_def Let_def)
  have "micros policy m ?a" using micro.start[OF m(2)] by auto
  moreover have "micro policy ?a ?b" by (rule micro.renew)
  moreover have "micro policy ?b ?w" by (rule micro.aside) (simp add: same_core_def renew_worker_def)
  moreover have "micro policy ?w l'" using ev by (rule micro.log)
  ultimately show ?thesis
    using require_live_steps[OF m(1) assms(2)] by (meson micros_step rtranclp_trans)
qed

lemma release_steps:
  assumes "release_step now tid x token reason l = Inr l'" "ledger_ok policy l"
  shows "micros policy l l'"
proof -
  obtain m c t where m: "require_live_claim now tid x token l = Inr (m, c)" "find_task m tid = Some t"
    using assms(1) by (auto simp: release_step_def rbind_eq_Inr split: option.splits if_splits)
  note live = require_live_steps[OF m(1) assms(2)]
  let ?a = "set_task_state now tid (state_after_attempt t) (set_claim (close_claim now RELEASED reason) (cl_claim_id c) m)"
  obtain ty pl where ev: "append_event now tid (td_project_id t) ty x pl ?a = Inr l'"
    using assms(1) m by (auto simp: release_step_def Let_def split: if_splits)
  have "micro policy m ?a" using micro.lose[of c m t RELEASED policy now reason] live m(2) by simp
  with micro.log[OF ev] live show ?thesis by (meson micros_step)
qed

lemma record_first_steps:
  assumes "record_first_result now t c outcome summary refs evidence l = Inr l'"
    and "c \<in> set (lg_claims l)" "cl_status c = ACTIVE" "find_task l (cl_task_id c) = Some t"
  shows "micros policy l l'"
proof -
  have tid: "td_task_id t = cl_task_id c" using find_task_Some[OF assms(4)] by simp
  obtain r m where m: "insert_result r l = Inr m" "rs_claim_id r = cl_claim_id c" "rs_task_id r = cl_task_id c"
    and ev: "\<exists>ty pl. append_event now (td_task_id t) (td_project_id t) ty (cl_executor_id c) pl
      (set_task_state now (td_task_id t) (state_of_outcome outcome)
        (set_claim (close_claim now CLAIM_COMPLETED (''result:'' @ outcome)) (cl_claim_id c) m)) = Inr l'"
    using assms(1) unfolding record_first_result_def Let_def rbind_eq_Inr
    by (elim exE conjE) (rule that, assumption, simp_all add: tid, blast)
  have "state_of_outcome outcome \<in> {SUBMITTED, FAILED, BLOCKED, COMPLETED}" by (simp add: state_of_outcome_def)
  from micro.report[OF assms(2-4) m this, of policy now "''result:'' @ outcome"] ev show ?thesis
    unfolding tid using micro.log by (meson rtranclp.rtrancl_refl micros_step)
qed

lemma record_result_steps:
  assumes "record_result_step u now tid x token outcome summary refs evidence l = Inr l'" "ledger_ok policy l"
  shows "micros policy l l'"
proof -
  obtain m where m: "expire_leases_locked now (Some tid) l = Inr m"
    using assms(1) by (auto simp: record_result_step_def rbind_eq_Inr)
  obtain c where c: "find (\<lambda>c. cl_task_id c = tid \<and> cl_executor_id c = x
      \<and> cl_lease_token_digest c = ledger_digest token) (lg_claims m) = Some c"
    using assms(1) m by (auto simp: record_result_step_def rbind_eq_Inr split: option.splits)
  then have mem: "c \<in> set (lg_claims m)" "cl_task_id c = tid" by (auto simp: find_Some_iff)
  have live: "cl_status c \<in> {ACTIVE, CLAIM_COMPLETED}"
    using assms(1) m c by (auto simp: record_result_step_def rbind_eq_Inr split: if_splits)
  obtain t where t: "find_task m tid = Some t"
    using assms(1) m c by (auto simp: record_result_step_def rbind_eq_Inr split: if_splits option.splits)
  have "l' = m \<or> record_first_result now t c outcome summary refs evidence m = Inr l' \<and> cl_status c = ACTIVE"
    using assms(1) m c t live
    by (auto simp: record_result_step_def rbind_eq_Inr split: if_splits option.splits)
  with expire_leases_steps[OF m assms(2)] record_first_steps[of now t c outcome summary refs evidence m l' policy]
    mem t show ?thesis by (auto intro: rtranclp_trans)
qed

lemma requeue_steps:
  assumes "requeue_step now tid actor reason l = Inr l'"
  shows "micros policy l l'"
proof -
  obtain t where t: "find_task l tid = Some t" "tr_state t \<in> {FAILED, BLOCKED}" "tr_attempt_count t < td_max_attempts t"
    and ev: "append_event now tid (td_project_id t) ''requeued'' actor [(''reason'', PStr reason)]
      (set_task_state now tid READY l) = Inr l'"
    using assms by (auto simp: requeue_step_def split: if_splits option.splits)
  from micro.requeue[OF t] micro.log[OF ev] show ?thesis by (meson rtranclp.rtrancl_refl micros_step)
qed

lemma update_priority_steps:
  assumes "update_priority_step now tid priority actor l = Inr l'"
  shows "micros policy l l'"
proof -
  from assms have n: "1 \<le> priority" "priority \<le> 1000"
    by (auto simp: update_priority_step_def rbind_eq_Inr split: if_splits)
  obtain t where t: "find_task l tid = Some t"
    using assms by (auto simp: update_priority_step_def rbind_eq_Inr split: if_splits option.splits)
  let ?m = "l\<lparr>lg_tasks := update_where (\<lambda>r. td_task_id r = tid)
      (\<lambda>r. r\<lparr>td_priority := priority, tr_updated_at := now\<rparr>) (lg_tasks l)\<rparr>"
  have "l' = l \<or> (\<exists>p ty pl. append_event now tid p ty actor pl ?m = Inr l')"
    using assms t by (auto simp: update_priority_step_def rbind_eq_Inr split: if_splits)
  with micro.prioritise[OF n, of policy l tid now] micro.log show ?thesis
    by (meson rtranclp.rtrancl_refl micros_step)
qed

lemma open_or_leased: "tr_state t \<in> set open_states \<Longrightarrow> leased t \<or> tr_state t \<in> {READY, SUBMITTED}"
  by (auto simp: open_states_def leased_def)

lemma active_has_no_result:
  assumes "ledger_ok policy l" "c \<in> set (lg_claims l)" "cl_status c = ACTIVE"
  shows "cl_claim_id c \<notin> rs_claim_id ` set (lg_results l)"
proof
  assume "cl_claim_id c \<in> rs_claim_id ` set (lg_results l)"
  then obtain d where "d \<in> set (lg_claims l)" "cl_status d = CLAIM_COMPLETED" "cl_claim_id d = cl_claim_id c"
    using assms(1) by (auto simp: ledger_ok_def results_ok_def completed_ids_def)
  with claim_unique[of l d c] assms show False by (simp add: ledger_ok_def)
qed

lemma complete_task_steps:
  assumes "complete_task now tid p actor reason l = Inr l'" "ledger_ok policy l"
    and "find_task l tid = Some t" "tr_state t \<in> set open_states"
  shows "micros policy l l' \<and> touches_only tid l l'"
proof -
  have ok: "ids_ok l" "leases_ok l" using assms(2) by (simp_all add: ledger_ok_def)
  obtain m where m: "complete_active_claim_from_canonical now tid p actor l = Inr m"
    and ev: "append_event now tid p ''completed'' actor [(''reason'', PStr reason)] (set_task_state now tid COMPLETED m) = Inr l'"
    using assms(1) by (auto simp: complete_task_def rbind_eq_Inr)
  have "micro policy l (set_task_state now tid COMPLETED m) \<and> touches_only tid l m"
  proof (cases "active_claims l tid")
    case Nil
    then have "m = l" using m by (simp add: complete_active_claim_from_canonical_def)
    moreover have "\<not> leased t" using Nil leased_one_claim[OF ok(2) assms(3)] by auto
    ultimately show ?thesis
      using micro.retire[OF assms(3)] open_or_leased[OF assms(4)] by (simp add: touches_only_def)
  next
    case (Cons c cs)
    then have c: "c \<in> set (lg_claims l)" "cl_task_id c = tid" "cl_status c = ACTIVE"
      using active_member[of c l tid] by auto
    have fresh: "cl_claim_id c \<notin> rs_claim_id ` set (lg_results l)"
      using active_has_no_result[OF assms(2) c(1,3)] .
    obtain r k where k: "insert_result r l = Inr k" "rs_claim_id r = cl_claim_id c" "rs_task_id r = cl_task_id c"
      "m = set_claim (close_claim now CLAIM_COMPLETED ''canonical_state_advanced'') (cl_claim_id c) k"
      using m Cons fresh c(2) by (auto simp: complete_active_claim_from_canonical_def Let_def rbind_eq_Inr)
    have "touches_only tid l k" using insert_result_Inr[OF k(1)] by (simp add: touches_only_def find_task_def)
    moreover have "touches_only tid k m"
      unfolding k(4) using touches_close[of k c "close_claim now CLAIM_COMPLETED ''canonical_state_advanced''"]
        insert_result_Inr[OF k(1)] ok(1) c by (simp add: ids_ok_def)
    ultimately show ?thesis
      using micro.report[OF c(1,3) _ k(1-3), of t COMPLETED policy now] assms(3) c(2) k(4) touches_only_trans
      by auto
  qed
  with micro.log[OF ev] touches_event[OF ev] touches_set_state touches_only_trans show ?thesis
    by (meson rtranclp.rtrancl_refl micros_step)
qed


lemma supersede_task_steps:
  assumes "supersede_task now tid p actor cr reason l = Inr l'" "ledger_ok policy l"
    and "find_task l tid = Some t" "tr_state t \<in> set open_states"
  shows "micros policy l l' \<and> touches_only tid l l'"
proof -
  have ok: "ids_ok l" "leases_ok l" using assms(2) by (simp_all add: ledger_ok_def)
  let ?m = "set_task_state now tid SUPERSEDED (close_active_claim now tid cr l)"
  have ev: "append_event now tid p ''superseded'' actor [(''reason'', PStr reason)] ?m = Inr l'"
    using assms(1) by (simp add: supersede_task_def)
  have "micro policy l ?m"
  proof (cases "leased t")
    case True
    then show ?thesis using micro.supersede[OF assms(3)] by (simp add: leased_def)
  next
    case False
    then have none: "active_claims l tid = []" using unleased_no_claims[OF ok assms(3)] by simp
    then have "update_where (\<lambda>c. cl_task_id c = tid \<and> cl_status c = ACTIVE) f (lg_claims l) = lg_claims l" for f
      unfolding update_where_def by (intro map_idI) (auto simp: active_claims_def filter_empty_conv)
    then have "close_active_claim now tid cr l = l" by (simp add: close_active_claim_def)
    then show ?thesis
      using micro.retire[OF assms(3)] open_or_leased[OF assms(4)] False by simp
  qed
  moreover have "touches_only tid l (close_active_claim now tid cr l)"
    by (auto simp: touches_only_def find_task_def close_active_claim_def set_update_where)
  ultimately show ?thesis
    using micro.log[OF ev] touches_event[OF ev] touches_set_state touches_only_trans
    by (meson rtranclp.rtrancl_refl micros_step)
qed

text \<open>A loop over the rows of different tasks, each of which only the step on it touches.\<close>

lemma foldM_task_steps:
  assumes "foldM f l ts = Inr l'" "ledger_ok policy l" "distinct (map td_task_id ts)"
    and "\<And>t. t \<in> set ts \<Longrightarrow> find_task l (td_task_id t) = Some t"
    and "\<And>l m t. f l t = Inr m \<Longrightarrow> ledger_ok policy l \<Longrightarrow> find_task l (td_task_id t) = Some t \<Longrightarrow> t \<in> set ts \<Longrightarrow>
      micros policy l m \<and> touches_only (td_task_id t) l m"
  shows "micros policy l l'"
  using assms
proof (induction ts arbitrary: l)
  case (Cons t ts)
  obtain m where m: "f l t = Inr m" "foldM f m ts = Inr l'" using Cons.prems(1) by (auto simp: rbind_eq_Inr)
  have step: "micros policy l m" "touches_only (td_task_id t) l m"
    using Cons.prems(5)[OF m(1) Cons.prems(2)] Cons.prems(4) by auto
  have "find_task m (td_task_id s) = Some s" if "s \<in> set ts" for s
  proof -
    have "td_task_id s \<noteq> td_task_id t" using that Cons.prems(3) by (auto simp: image_iff)
    then show ?thesis using that step(2) Cons.prems(4)[of s] by (simp add: touches_only_def)
  qed
  then have "micros policy m l'"
    using Cons.IH[OF m(2) micros_ok[OF step(1) Cons.prems(2)]] Cons.prems(3,5) by simp
  with step(1) show ?case by (rule rtranclp_trans)
qed simp

lemma retire_previous_steps:
  assumes "retire_previous now d actor l t = Inr m" "ledger_ok policy l" "find_task l (td_task_id t) = Some t"
  shows "micros policy l m \<and> touches_only (td_task_id t) l m"
proof (cases "tr_state t \<in> set open_states")
  case False
  then show ?thesis using assms(1) by (simp add: retire_previous_def touches_only_def)
next
  case True
  show ?thesis
  proof (cases "td_step_key t = td_step_key d")
    case same: True
    then show ?thesis
      using assms(1) True supersede_task_steps[OF _ assms(2,3) True] by (simp add: retire_previous_def)
  next
    case False
    then show ?thesis
      using assms(1) True complete_task_steps[OF _ assms(2,3) True] by (simp add: retire_previous_def)
  qed
qed

lemma rows_of_ledger:
  assumes "ledger_ok policy l"
  shows "distinct (map td_task_id (filter P (lg_tasks l)))"
    "distinct (map td_task_id (sort_key h (filter P (lg_tasks l))))"
    "t \<in> set (lg_tasks l) \<Longrightarrow> find_task l (td_task_id t) = Some t"
proof -
  have ids: "ids_ok l" using assms by (simp add: ledger_ok_def)
  then show "t \<in> set (lg_tasks l) \<Longrightarrow> find_task l (td_task_id t) = Some t" by (rule find_task_mem)
  from ids show "distinct (map td_task_id (filter P (lg_tasks l)))"
    by (simp add: ids_ok_def distinct_map_filter)
  then show "distinct (map td_task_id (sort_key h (filter P (lg_tasks l))))" by (simp add: distinct_map)
qed

lemma complete_open_steps:
  assumes "complete_open_for_run now run actor l = Inr l'" "ledger_ok policy l"
  shows "micros policy l l'"
  using assms(1) unfolding complete_open_for_run_def open_tasks_of_run_def
proof (rule foldM_task_steps[OF _ assms(2)])
  show "distinct (map td_task_id (filter (\<lambda>t. td_automation_run_id t = run \<and> tr_state t \<in> set open_states) (lg_tasks l)))"
    by (rule rows_of_ledger[OF assms(2)])
qed (use rows_of_ledger(3)[OF assms(2)] complete_task_steps in auto)

lemma supersede_open_steps:
  assumes "supersede_open_for_run now run actor l = Inr l'" "ledger_ok policy l"
  shows "micros policy l l'"
  using assms(1) unfolding supersede_open_for_run_def open_tasks_of_run_def
proof (rule foldM_task_steps[OF _ assms(2)])
  show "distinct (map td_task_id (filter (\<lambda>t. td_automation_run_id t = run \<and> tr_state t \<in> set open_states) (lg_tasks l)))"
    by (rule rows_of_ledger[OF assms(2)])
qed (use rows_of_ledger(3)[OF assms(2)] supersede_task_steps in auto)

lemma ensure_current_steps:
  assumes "ensure_current_step now d actor l = Inr (l', created)" "ledger_ok policy l"
    and "check_task_definition d = Inr d"
  shows "micros policy l l'"
proof -
  obtain m where m: "foldM (retire_previous now d actor) l (previous_tasks l d) = Inr m"
    using assms(1) by (auto simp: ensure_current_step_def Let_def rbind_eq_Inr split: if_splits)
  define row where "row = new_task_row now actor (next_sequence (map tr_sequence
     (filter (\<lambda>t. td_automation_run_id t = td_automation_run_id d) (lg_tasks m)))) d"
  obtain k b where k: "insert_task row m = Inr (k, b)"
    using assms(1) m by (auto simp: ensure_current_step_def Let_def rbind_eq_Inr row_def split: if_splits)
  obtain t where t: "find_task k (td_task_id d) = Some t"
    "task_identity (task_definition.truncate t) = task_identity d"
    using assms(1) m k
    by (auto simp: ensure_current_step_def Let_def rbind_eq_Inr row_def split: if_splits option.splits)
  have end_cases: "b \<and> announce_task now d actor (previous_tasks l d) k = Inr l' \<or> \<not> b \<and> l' = k"
    using assms(1) m k t
    by (auto simp: ensure_current_step_def Let_def rbind_eq_Inr row_def split: if_splits)
  have "micros policy l m"
  proof (rule foldM_task_steps[OF m assms(2)])
    show "distinct (map td_task_id (previous_tasks l d))"
      unfolding previous_tasks_def by (rule rows_of_ledger[OF assms(2)])
  qed (use rows_of_ledger(3)[OF assms(2)] retire_previous_steps in \<open>auto simp: previous_tasks_def\<close>)
  moreover have "micros policy m k"
  proof (cases b)
    case True
    with k have "insert_task (new_task_row now actor (next_sequence (map tr_sequence
        (filter (\<lambda>t. td_automation_run_id t = td_automation_run_id d) (lg_tasks m)))) d) m = Inr (k, True)"
      by (simp add: row_def)
    from micro.create[OF this assms(3)] show ?thesis by (rule r_into_rtranclp)
  next
    case False
    then have "k = m" using k by (auto simp: insert_task_def split: if_splits)
    then show ?thesis by simp
  qed
  moreover have "micros policy k l'" if ann: "announce_task now d actor (previous_tasks l d) k = Inr l'"
  proof -
    obtain e where e: "append_event now (td_task_id d) (td_project_id d) ''created'' actor
        [(''state'', PStr ''ready''), (''action'', PStr (td_action d))] k = Inr e"
      and l': "(let parents = completed_previous d (previous_tasks l d)
        in Inr (if parents = [] then e else insert_dependency (td_task_id d) (last parents) (td_project_id d) e)) = (Inr l' :: ledger result)"
      using ann unfolding announce_task_def rbind_eq_Inr by (elim exE conjE) (rule that)
    have "micro policy e l'"
      using l' unfolding Let_def
      by (intro micro.aside) (auto simp: same_core_def insert_dependency_def)
    with micro.log[OF e] show ?thesis by (meson rtranclp.rtrancl_refl micros_step)
  qed
  ultimately show ?thesis using end_cases by (auto intro: rtranclp_trans)
qed

lemma create_claim_steps:
  assumes "create_claim_locked now cid token t k x caps l = Inr l'"
    and "find_task l (td_task_id t) = Some t" "claimable policy l k caps p t" "\<not> btrim_blank x"
  shows "micros policy l l'"
proof -
  define c where "c = \<lparr>cl_claim_id = cid, cl_task_id = td_task_id t, cl_project_id = td_project_id t,
     cl_executor_kind = k, cl_executor_id = x, cl_capabilities = caps,
     cl_lease_token_digest = ledger_digest token, cl_status = ACTIVE, cl_claimed_at = now,
     cl_lease_expires_at = now + seconds (td_lease_seconds t), cl_released_at = None, cl_release_reason = None\<rparr>"
  let ?m = "l\<lparr>lg_claims := lg_claims l @ [c], lg_tasks := update_where (\<lambda>r. td_task_id r = td_task_id t)
      (\<lambda>r. r\<lparr>tr_state := CLAIMED, tr_attempt_count := tr_attempt_count r + 1, tr_updated_at := now\<rparr>) (lg_tasks l)\<rparr>"
  have free: "cid \<notin> cl_claim_id ` set (lg_claims l)" "active_claims l (td_task_id t) = []"
    using assms(1) by (auto simp: create_claim_locked_def Let_def split: if_splits)
  obtain e w where e: "append_event now (td_task_id t) (td_project_id t) ''claimed'' x
        [(''claim_id'', PStr cid), (''executor_kind'', PStr k), (''capabilities'', PStrs caps)] ?m = Inr e"
    "l' = e\<lparr>lg_workers := w\<rparr>"
    using assms(1) free unfolding create_claim_locked_def Let_def by (auto simp: rbind_eq_Inr c_def)
  have "micro policy l ?m"
    using micro.claim[OF assms(2,3) free(2), of c now] free(1) assms(4) by (simp add: c_def)
  moreover have "micro policy e l'" unfolding e(2) by (rule micro.aside) (simp add: same_core_def)
  ultimately show ?thesis using micro.log[OF e(1)] by (meson rtranclp.rtrancl_refl micros_step)
qed

lemma btrim_blank_blank: "btrim_blank s \<Longrightarrow> blank s"
proof -
  assume s: "btrim_blank s"
  then have all: "c = CHR '' ''" if "c \<in> set s" for c
    using that by (simp add: btrim_blank_def list_all_iff)
  then have "utf8_chars s = map (\<lambda>c. [c]) s"
    by (intro utf8_chars_ascii) (fastforce simp: list_all_iff)
  moreover have "is_space_char '' ''" by (simp add: is_space_char_def space_chars_def)
  ultimately show ?thesis by (auto simp: blank_iff dest!: all)
qed

lemma executor_named: "validate_executor k x = Inr () \<Longrightarrow> \<not> btrim_blank x"
  using btrim_blank_blank[of x] by (auto simp: validate_executor_def split: if_splits)

lemma claim_steps:
  assumes "claim_step policy now cid token tid k x caps p wt l = Inr l'" "ledger_ok policy l"
  shows "micros policy l l'"
proof -
  obtain caps' p' m where m: "expire_leases_locked now (Some tid) l = Inr m"
    and f: "(case find (\<lambda>t. td_task_id t = tid \<and> claimable policy m k caps' p' t) (lg_tasks m) of
        None \<Rightarrow> Inl (ValueError ''Orchestration Task is not ready or executor capabilities do not match'')
      | Some t \<Rightarrow> create_claim_locked now cid token t k x caps' m) = Inr l'"
    using assms(1) unfolding claim_step_def rbind_eq_Inr by (auto simp: rbind_eq_Inr)
  have x: "\<not> btrim_blank x"
    using assms(1) unfolding claim_step_def rbind_eq_Inr by (elim exE conjE) (simp add: executor_named)
  note exp = expire_leases_steps[OF m assms(2)]
  obtain t where t: "find (\<lambda>t. td_task_id t = tid \<and> claimable policy m k caps' p' t) (lg_tasks m) = Some t"
    "create_claim_locked now cid token t k x caps' m = Inr l'"
    using f by (auto split: option.splits)
  then have "t \<in> set (lg_tasks m)" "claimable policy m k caps' p' t" by (auto simp: find_Some_iff)
  moreover have "ledger_ok policy m" using exp micros_ok assms(2) by blast
  ultimately have "micros policy m l'"
    using create_claim_steps[OF t(2)] rows_of_ledger(3) x by blast
  with exp show ?thesis by (auto intro: rtranclp_trans)
qed

lemma claim_next_steps:
  assumes "claim_next_step env policy now cid token k x caps p wt l = Inr (l', r)" "ledger_ok policy l"
  shows "micros policy l l'"
proof -
  obtain caps' p' m where m: "expire_leases_locked now None l = Inr m"
    and f: "(case sort_key (queue_key env now m) (filter (claimable policy m k caps' p') (lg_tasks m)) of
        [] \<Rightarrow> Inr (m, None)
      | t # _ \<Rightarrow> rbind (create_claim_locked now cid token t k x caps' m) (\<lambda>l. Inr (l, Some (td_task_id t))))
      = Inr (l', r)"
    using assms(1) unfolding claim_next_step_def rbind_eq_Inr by (auto simp: rbind_eq_Inr)
  have x: "\<not> btrim_blank x"
    using assms(1) unfolding claim_next_step_def rbind_eq_Inr by (elim exE conjE) (simp add: executor_named)
  note exp = expire_leases_steps[OF m assms(2)]
  have ok: "ledger_ok policy m" using exp micros_ok assms(2) by blast
  have "micros policy m l'"
  proof (cases "sort_key (queue_key env now m) (filter (claimable policy m k caps' p') (lg_tasks m))")
    case Nil
    then show ?thesis using f by simp
  next
    case (Cons t ts)
    then have "t \<in> set (sort_key (queue_key env now m) (filter (claimable policy m k caps' p') (lg_tasks m)))" by simp
    then have "t \<in> set (lg_tasks m)" "claimable policy m k caps' p' t" by auto
    moreover have "create_claim_locked now cid token t k x caps' m = Inr l'" using f Cons by (auto simp: rbind_eq_Inr)
    ultimately show ?thesis using create_claim_steps rows_of_ledger(3)[OF ok] x by blast
  qed
  with exp show ?thesis by (auto intro: rtranclp_trans)
qed

lemma worker_event_core: "append_worker_event now k x ty a pl l = Inr l' \<Longrightarrow> same_core l l'"
  by (auto simp: append_worker_event_def same_core_def split: if_splits)

lemma update_worker_core [simp]: "same_core l (update_worker k x f l)"
  by (simp add: same_core_def update_worker_def)

lemma same_core_trans: "same_core l m \<Longrightarrow> same_core m n \<Longrightarrow> same_core l n"
  by (auto simp: same_core_def)

lemma worker_steps:
  "register_worker now wt k x caps p n s l = Inr l' \<Longrightarrow> micro policy l l'"
  "heartbeat_worker now k x wt s l = Inr l' \<Longrightarrow> micro policy l l'"
  "unregister_worker now k x wt l = Inr l' \<Longrightarrow> micro policy l l'"
  "set_worker_status now k x st actor l = Inr l' \<Longrightarrow> micro policy l l'"
  "update_worker_configuration now k x caps n actor l = Inr l' \<Longrightarrow> micro policy l l'"
proof -
  assume "register_worker now wt k x caps p n s l = Inr l'"
  then have "same_core l l'"
    unfolding register_worker_def Let_def
    by (auto simp: rbind_eq_Inr same_core_def update_worker_def split: if_splits dest!: worker_event_core)
  then show "micro policy l l'" by (rule micro.aside)
qed (auto simp: heartbeat_worker_def unregister_worker_def set_worker_status_def
    update_worker_configuration_def rbind_eq_Inr split: if_splits option.splits
    intro!: micro.aside dest!: worker_event_core intro: same_core_trans[OF update_worker_core])

end
