(* ===== verification/TaskLedgerLaws.thy ===== *)
theory TaskLedgerLaws
  imports TaskLedgerSafety
begin

text \<open>
  What the task ledger promises to its callers.  A history is a list of commands, each with the
  instant of its transaction; every table the repository can reach is the fold of one over the empty
  tables.  The theorems rest on the invariant of \<open>TaskLedgerSafety\<close>.
\<close>

section \<open>Histories\<close>

datatype command =
  OpenRun string string
| OpenRequest string string
| Claim string string string string string "string list" "string option" "string option"
| ClaimNext string string string string "string list" "string option" "string option"
| Heartbeat string string string
| Release string string string string
| RecordResult string string string string string "string list" pydict
| Requeue string string string
| UpdatePriority string int string
| EnsureCurrent task_definition string
| CompleteOpen string string
| SupersedeOpen string string
| RegisterWorker string string string "string list" "string option" int int
| HeartbeatWorker string string string int
| UnregisterWorker string string string
| SetWorkerStatus string string string string
| ConfigureWorker string string "string list" int string

definition commit :: "(ledger \<Rightarrow> ledger result) \<Rightarrow> ledger \<Rightarrow> ledger" where
  "commit body l = (case body l of Inl e \<Rightarrow> l | Inr l' \<Rightarrow> l')"

text \<open>\<open>ensure_current\<close> takes an \<open>OrchestrationTaskDefinition\<close>, which its constructor has checked.\<close>

fun perform :: "ledger_env \<Rightarrow> scheduling_policy \<Rightarrow> int \<times> command \<Rightarrow> ledger \<Rightarrow> ledger" where
  "perform env policy (now, OpenRun run project) l = l\<lparr>lg_runs := lg_runs l @ [(run, project)]\<rparr>"
| "perform env policy (now, OpenRequest request project) l =
     l\<lparr>lg_requests := lg_requests l @ [(request, project)]\<rparr>"
| "perform env policy (now, Claim cid token tid kind x caps project wt) l =
     fst (claim_task env now policy now cid token tid kind x caps project wt l)"
| "perform env policy (now, ClaimNext cid token kind x caps project wt) l =
     fst (claim_next env now policy now cid token kind x caps project wt l)"
| "perform env policy (now, Heartbeat tid x token) l = fst (heartbeat env now now tid x token l)"
| "perform env policy (now, Release tid x token reason) l =
     fst (release env now now tid x token reason l)"
| "perform env policy (now, RecordResult tid x token outcome summary refs evidence) l =
     fst (record_result env now now tid x token outcome summary refs evidence l)"
| "perform env policy (now, Requeue tid actor reason) l = fst (requeue env now now tid actor reason l)"
| "perform env policy (now, UpdatePriority tid n actor) l =
     fst (update_priority env now now tid n actor l)"
| "perform env policy (now, EnsureCurrent d actor) l =
     (case check_task_definition d of Inl e \<Rightarrow> l | Inr d \<Rightarrow> fst (ensure_current env now now d actor l))"
| "perform env policy (now, CompleteOpen run actor) l = commit (complete_open_for_run now run actor) l"
| "perform env policy (now, SupersedeOpen run actor) l = commit (supersede_open_for_run now run actor) l"
| "perform env policy (now, RegisterWorker wt kind x caps project n s) l =
     commit (register_worker now wt kind x caps project n s) l"
| "perform env policy (now, HeartbeatWorker kind x wt s) l = commit (heartbeat_worker now kind x wt s) l"
| "perform env policy (now, UnregisterWorker kind x wt) l = commit (unregister_worker now kind x wt) l"
| "perform env policy (now, SetWorkerStatus kind x st actor) l =
     commit (set_worker_status now kind x st actor) l"
| "perform env policy (now, ConfigureWorker kind x caps n actor) l =
     commit (update_worker_configuration now kind x caps n actor) l"

definition empty_ledger :: ledger where
  "empty_ledger = \<lparr>lg_runs = [], lg_requests = [], lg_tasks = [], lg_claims = [], lg_results = [],
     lg_events = [], lg_dependencies = [], lg_workers = [], lg_worker_events = []\<rparr>"

definition after_history ::
    "ledger_env \<Rightarrow> scheduling_policy \<Rightarrow> (int \<times> command) list \<Rightarrow> ledger" where
  "after_history env policy history = fold (perform env policy) history empty_ledger"

lemma after_history_Nil [simp]: "after_history env policy [] = empty_ledger"
  by (simp add: after_history_def)

lemma after_history_snoc [simp]:
  "after_history env policy (history @ [c]) = perform env policy c (after_history env policy history)"
  by (simp add: after_history_def)

lemma committed_view_ledger:
  "fst (committed_view env clock tid body l) = commit body l"
  by (auto simp: committed_view_def transaction_def commit_def rbind_def split: sum.splits)

lemma claim_task_ledger: "fst (claim_task env clock policy now cid token tid kind x caps project wt l)
    = commit (claim_step policy now cid token tid kind x caps project wt) l"
  using committed_view_ledger by (simp add: claim_task_def split_beta)

lemma commit_steps:
  assumes "ledger_ok policy l" "\<And>l'. body l = Inr l' \<Longrightarrow> micros policy l l'"
  shows "micros policy l (commit body l)"
  using assms(2) by (auto simp: commit_def split: sum.splits)

lemma perform_steps:
  assumes "ledger_ok policy l"
  shows "micros policy l (perform env policy c l)"
proof -
  obtain now cmd where c: "c = (now, cmd)" by (cases c)
  note commits = commit_steps[OF assms]
  note one = r_into_rtranclp[of "micro policy"]
  show ?thesis
  proof (cases cmd)
    case (OpenRun run project)
    then show ?thesis by (auto simp: c same_core_def intro!: one micro.aside)
  next
    case (OpenRequest request project)
    then show ?thesis by (auto simp: c same_core_def intro!: one micro.aside)
  next
    case (ClaimNext cid token kind x caps project wt)
    then show ?thesis
      by (auto simp: c claim_next_def transaction_def split: sum.splits option.splits
          intro: claim_next_steps[OF _ assms])
  next
    case (EnsureCurrent d actor)
    then show ?thesis
      using check_task_definition_iff[of d]
      by (auto simp: c ensure_current_def transaction_def split: sum.splits
          intro: ensure_current_steps[OF _ assms])
  qed (auto simp: c claim_task_ledger heartbeat_def release_def record_result_def requeue_def
      update_priority_def committed_view_ledger
      intro!: commits
      intro: claim_steps[OF _ assms] heartbeat_steps[OF _ assms] release_steps[OF _ assms]
        record_result_steps[OF _ assms] requeue_steps update_priority_steps
        complete_open_steps[OF _ assms] supersede_open_steps[OF _ assms] r_into_rtranclp
        worker_steps)
qed

lemma empty_ledger_ok:
  "0 \<le> sp_max_active_tasks_per_run policy \<Longrightarrow> ledger_ok policy empty_ledger"
  by (simp add: ledger_ok_def empty_ledger_def ids_ok_def leases_ok_def attempts_ok_def results_ok_def
      completed_ids_def log_ok_def runs_ok_def active_in_run_def contracts_ok_def)

lemma history_ok:
  assumes "0 \<le> sp_max_active_tasks_per_run policy"
  shows "ledger_ok policy (after_history env policy history)"
proof (induction history rule: rev_induct)
  case (snoc c history)
  then show ?case using micros_ok perform_steps by (simp, blast)
qed (simp add: empty_ledger_ok[OF assms])

lemma every_ledger_ok:
  "new_scheduling_policy n = Inr policy \<Longrightarrow> ledger_ok policy (after_history env policy history)"
  by (rule history_ok) (auto simp: new_scheduling_policy_def split: if_splits)

section \<open>What holds in every reachable table\<close>

text \<open>(C13) Whatever commands were run, in whatever order and at whatever instants: a task is claimed or
  running exactly while one claim of it is active, its attempt count is the number of its claims and
  within its limit, the stored results are those of the completed claims, one each, the events of a
  task are numbered without a gap, no run has more active tasks than the policy allows, and every
  task row meets the contract of its definition and belongs to a known run.\<close>

theorem every_history_keeps_the_ledger:
  assumes "new_scheduling_policy n = Inr policy"
  shows "ledger_ok policy (after_history env policy history)"
  using assms by (rule every_ledger_ok)

theorem every_history_keeps_the_ledger_witness:
  "ledger_ok \<lparr>sp_max_active_tasks_per_run = 1\<rparr> (after_history
     \<lparr>le_tables = undefined, le_isoformat = \<lambda>_. [], le_collation = \<lambda>s. s\<rparr>
     \<lparr>sp_max_active_tasks_per_run = 1\<rparr> [(5, OpenRun ''run-1'' ''p'')])"
  by (rule every_history_keeps_the_ledger[of 1]) (simp add: new_scheduling_policy_def)

section \<open>The life of a task\<close>

text \<open>What a task promises, without the tables: it waits with some attempts left, is held by one
  executor, reports, fails or is blocked, and ends.\<close>

datatype life =
  Absent
| Waiting int
| Held string int
| Reported int
| Stopped int
| Done
| Replaced

inductive life_step :: "life \<Rightarrow> life \<Rightarrow> bool" where
  appear: "1 \<le> n \<Longrightarrow> life_step Absent (Waiting n)"
| take_task: "0 < n \<Longrightarrow> life_step (Waiting n) (Held x (n - 1))"
| give_back: "0 < n \<Longrightarrow> life_step (Held x n) (Waiting n)"
| succeed: "life_step (Held x n) (Reported n)"
| fail: "life_step (Held x n) (Stopped n)"
| retry: "0 < n \<Longrightarrow> life_step (Stopped n) (Waiting n)"
| finish: "b \<in> {Waiting n, Held x n, Reported n} \<Longrightarrow> life_step b Done"
| replace: "b \<in> {Waiting n, Held x n, Reported n} \<Longrightarrow> life_step b Replaced"

inductive_cases life_step_doneE [elim!]: "life_step Done b"
inductive_cases life_step_replacedE [elim!]: "life_step Replaced b"

definition attempts_left :: "task_row \<Rightarrow> int" where
  "attempts_left t = td_max_attempts t - tr_attempt_count t"

fun stage_life :: "task_state \<Rightarrow> int \<Rightarrow> string \<Rightarrow> life" where
  "stage_life READY n x = Waiting n"
| "stage_life CLAIMED n x = Held x n"
| "stage_life RUNNING n x = Held x n"
| "stage_life SUBMITTED n x = Reported n"
| "stage_life COMPLETED n x = Done"
| "stage_life SUPERSEDED n x = Replaced"
| "stage_life FAILED n x = Stopped n"
| "stage_life BLOCKED n x = Stopped n"
| "stage_life CANCELLED n x = Stopped n"

definition holder :: "ledger \<Rightarrow> string \<Rightarrow> string" where
  "holder l tid = cl_executor_id (hd (active_claims l tid))"

definition life_of :: "ledger \<Rightarrow> string \<Rightarrow> life" where
  "life_of l tid = (case find_task l tid of
     None \<Rightarrow> Absent
   | Some t \<Rightarrow> stage_life (tr_state t) (attempts_left t) (holder l tid))"

lemma life_of_cong:
  "find_task l' tid = find_task l tid \<Longrightarrow> holder l' tid = holder l tid \<Longrightarrow>
     life_of l' tid = life_of l tid"
  unfolding life_of_def by (simp only:)

lemma find_task_same_rows [simp]:
  "find_task (set_claim f cid l) x = find_task l x"
  "find_task (close_active_claim now tid reason l) x = find_task l x"
  "find_task (l\<lparr>lg_results := rs\<rparr>) x = find_task l x"
  by (simp_all add: find_task_def)

lemma attempts_left_update [simp]:
  "attempts_left (t\<lparr>tr_state := st, tr_updated_at := now\<rparr>) = attempts_left t"
  "attempts_left (t\<lparr>tr_state := st, tr_attempt_count := tr_attempt_count t + 1, tr_updated_at := now\<rparr>)
     = attempts_left t - 1"
  "attempts_left (t\<lparr>td_priority := n, tr_updated_at := now\<rparr>) = attempts_left t"
  by (simp_all add: attempts_left_def)

lemma holder_frame [simp]:
  "holder (set_task_state now tid st l) x = holder l x"
  "holder (l\<lparr>lg_results := rs\<rparr>) x = holder l x"
  by (simp_all add: holder_def)

text \<open>A statement on one task leaves the life of the others alone and takes its own to the stage of
  the new state.\<close>

lemma life_of_set_state:
  assumes "find_task m tid = Some t"
  shows "life_of (set_task_state now tid st m) x
    = (if x = tid then stage_life st (attempts_left t) (holder m tid) else life_of m x)"
  using assms by (cases "x = tid"; cases "find_task m x") (simp_all add: life_of_def find_task_set_state)

lemma life_of_some: "find_task l tid = Some t \<Longrightarrow>
    life_of l tid = stage_life (tr_state t) (attempts_left t) (holder l tid)"
  by (simp add: life_of_def)

lemma life_of_held:
  assumes "find_task l tid = Some t" "leased t"
  shows "life_of l tid = Held (holder l tid) (attempts_left t)"
  using assms by (auto simp: life_of_some leased_def)

lemma state_after_attempt_life:
  "life_step (Held x (attempts_left t)) (stage_life (state_after_attempt t) (attempts_left t) y)"
  by (auto simp: state_after_attempt_def attempts_left_def intro: life_step.intros)

lemma closed_claim_life:
  assumes "ids_ok l" "c \<in> set (lg_claims l)" "st \<noteq> ACTIVE" "x \<noteq> cl_task_id c"
  shows "life_of (set_claim (close_claim now st reason) (cl_claim_id c) l) x = life_of l x"
  using closed_elsewhere[OF assms(1,2,4)] assms(3)
  by (intro life_of_cong) (simp_all add: holder_def active_claims_close)

lemma micro_life:
  assumes "micro policy l l'" "ledger_ok policy l"
  shows "life_of l' x = life_of l x \<or> life_step (life_of l x) (life_of l' x)"
  using assms
proof (induction rule: micro.induct)
  case (aside l l')
  then show ?case
    by (intro disjI1 life_of_cong) (simp_all add: same_core_def find_task_def holder_def active_claims_def)
next
  case (log now tid p ty a pl l l')
  then show ?case using append_event_tables[OF log(1)]
    by (intro disjI1 life_of_cong) (simp_all add: find_task_def holder_def active_claims_def)
next
  case (lose c l t st now reason)
  have ok: "ids_ok l" "leases_ok l" using lose(5) by (simp_all add: ledger_ok_def)
  have t: "leased t" using holder_leased[OF ok lose(1,2)] lose(3) by auto
  show ?case
  proof (cases "x = cl_task_id c")
    case True
    then show ?thesis
      using state_after_attempt_life by (simp add: life_of_held[OF lose(3) t] life_of_set_state[of _ _ t] lose(3))
  next
    case False
    moreover have "st \<noteq> ACTIVE" using lose(4) by auto
    ultimately show ?thesis
      using closed_claim_life[OF ok(1) lose(1)] by (simp add: life_of_set_state[of _ _ t] lose(3))
  qed
next
  case (report c l t r l1 s now reason)
  note l1 = insert_result_Inr[OF report(4)]
  have ok: "ids_ok l" "leases_ok l" using report(8) by (simp_all add: ledger_ok_def)
  have t: "leased t" using holder_leased[OF ok report(1,2)] report(3) by auto
  have t1: "find_task l1 (cl_task_id c) = Some t" "ids_ok l1" "c \<in> set (lg_claims l1)"
    using l1 report(1,3) ok(1) by (simp_all add: ids_ok_def)
  show ?case
  proof (cases "x = cl_task_id c")
    case True
    then show ?thesis
      using report(7) by (auto simp: life_of_held[OF report(3) t] life_of_set_state[of _ _ t] t1
          intro: life_step.intros)
  next
    case False
    moreover have "life_of l1 x = life_of l x" using l1 by (intro life_of_cong) simp_all
    ultimately show ?thesis
      using closed_claim_life[OF t1(2,3)] by (simp add: life_of_set_state[of _ _ t] t1)
  qed
next
  case (retire l tid t s now)
  then show ?case
    by (cases "x = tid") (auto simp: life_of_set_state life_of_some intro: life_step.intros)
next
  case (supersede l tid t now reason)
  have "life_of (close_active_claim now tid reason l) x = life_of l x" if "x \<noteq> tid"
    using that by (intro life_of_cong) (simp_all add: holder_def active_claims_close_active)
  with supersede show ?case
    by (cases "x = tid") (auto simp: life_of_set_state life_of_some intro: life_step.intros)
next
  case (start l tid t now)
  then show ?case
    by (cases "x = tid") (simp_all add: life_of_set_state life_of_some)
next
  case (renew l e cid)
  have "map cl_executor_id (filter (\<lambda>c. cl_task_id c = x \<and> cl_status c = ACTIVE)
      (update_where (\<lambda>c. cl_claim_id c = cid) (\<lambda>r. r\<lparr>cl_lease_expires_at := e\<rparr>) cs))
     = map cl_executor_id (filter (\<lambda>c. cl_task_id c = x \<and> cl_status c = ACTIVE) cs)" for cs
    by (induction cs) (auto simp: update_where_def)
  then have same: "map cl_executor_id (active_claims (set_claim (\<lambda>r. r\<lparr>cl_lease_expires_at := e\<rparr>) cid l) x)
     = map cl_executor_id (active_claims l x)" by (simp add: active_claims_def set_claim_def)
  then have "holder (set_claim (\<lambda>r. r\<lparr>cl_lease_expires_at := e\<rparr>) cid l) x = holder l x"
    by (cases "active_claims l x") (auto simp: holder_def)
  then show ?case by (intro disjI1 life_of_cong) simp_all
next
  case (claim l tid t k caps p c now)
  let ?l = "l\<lparr>lg_claims := lg_claims l @ [c], lg_tasks := update_where (\<lambda>r. td_task_id r = tid)
      (\<lambda>r. r\<lparr>tr_state := CLAIMED, tr_attempt_count := tr_attempt_count r + 1, tr_updated_at := now\<rparr>)
      (lg_tasks l)\<rparr>"
  have row: "find_task ?l y = map_option (\<lambda>t. if y = tid then t\<lparr>tr_state := CLAIMED,
      tr_attempt_count := tr_attempt_count t + 1, tr_updated_at := now\<rparr> else t) (find_task l y)" for y
    by (simp add: find_task_def find_update)
  show ?case
  proof (cases "x = tid")
    case True
    have "tr_state t = READY" "0 < attempts_left t"
      using claim(2) by (simp_all add: claimable_def suits_def attempts_left_def)
    then show ?thesis
      using True row[of tid] claim(1) by (simp add: life_of_some life_step.take_task)
  next
    case False
    then show ?thesis using row[of x] claim(5)
      by (intro disjI1 life_of_cong) (simp_all add: option.map_ident holder_def active_claims_def)
  qed
next
  case (create now actor n d l l')
  note new = insert_task_Inr[OF create(1)]
  have max: "1 \<le> td_max_attempts d" using create(2) by (simp add: check_task_definition_iff)
  have find: "find_task l' x = (case find_task l x of Some t \<Rightarrow> Some t
      | None \<Rightarrow> if x = td_task_id d then Some (new_task_row now actor n d) else None)"
  proof -
    have "find P (ts @ [t]) = (case find P ts of Some t \<Rightarrow> Some t | None \<Rightarrow> if P t then Some t else None)"
      for P :: "task_row \<Rightarrow> bool" and ts t
      by (induction ts) auto
    then show ?thesis using new by (simp add: find_task_def)
  qed
  show ?case
  proof (cases "find_task l x")
    case None
    then show ?thesis using find max
      by (auto simp: life_of_def attempts_left_def intro: life_step.intros)
  next
    case (Some t)
    then show ?thesis using find new
      by (intro disjI1 life_of_cong) (simp_all add: holder_def active_claims_def)
  qed
next
  case (requeue l tid t now)
  then show ?case
    by (cases "x = tid")
      (auto simp: life_of_set_state life_of_some attempts_left_def intro!: life_step.retry)
next
  case (prioritise n l tid now)
  let ?l = "l\<lparr>lg_tasks := update_where (\<lambda>r. td_task_id r = tid)
    (\<lambda>r. r\<lparr>td_priority := n, tr_updated_at := now\<rparr>) (lg_tasks l)\<rparr>"
  have row: "find_task ?l x = map_option (\<lambda>t. if x = tid then t\<lparr>td_priority := n, tr_updated_at := now\<rparr> else t)
      (find_task l x)" by (simp add: find_task_def find_update)
  have "holder ?l x = holder l x" by (simp add: holder_def active_claims_def)
  with row show ?case
    by (cases "find_task l x") (simp_all add: life_of_def)
qed

lemma micros_life: "micros policy l l' \<Longrightarrow> ledger_ok policy l \<Longrightarrow> life_step\<^sup>*\<^sup>* (life_of l x) (life_of l' x)"
proof (induction rule: rtranclp_induct)
  case (step m n)
  then show ?case using micro_life[OF step(2), of x] micros_ok[OF step(1)]
    by (metis rtranclp.rtrancl_into_rtrancl)
qed simp

text \<open>(C14) The tables refine the life of a task: whatever command is run on reachable tables, each
  task, seen through its row and its active claim, moves along the steps of \<open>life_step\<close> (it takes one of
  its attempts when it is claimed, goes back to the queue only with an attempt left, and leaves the
  queue for good when it is completed or superseded).\<close>

theorem commands_follow_the_life_of_a_task:
  assumes "new_scheduling_policy n = Inr policy"
  shows "life_step\<^sup>*\<^sup>* (life_of (after_history env policy history) tid)
    (life_of (after_history env policy (history @ [command])) tid)"
  unfolding after_history_snoc by (rule micros_life[where policy = policy]) (intro perform_steps every_ledger_ok[OF assms])+

lemma final_life: "life_step\<^sup>*\<^sup>* a b \<Longrightarrow> a \<in> {Done, Replaced} \<Longrightarrow> b = a"
  by (induction rule: rtranclp_induct) auto

text \<open>A completed or superseded task stays so: no later command claims, fails, reopens or
  replaces it.\<close>

theorem closed_task_stays_closed:
  assumes "new_scheduling_policy n = Inr policy"
    and "find_task (after_history env policy history) tid = Some t"
    and "tr_state t \<in> {COMPLETED, SUPERSEDED}"
  shows "\<exists>t'. find_task (after_history env policy (history @ later)) tid = Some t'
    \<and> tr_state t' = tr_state t"
proof -
  let ?l = "after_history env policy history" and ?m = "after_history env policy (history @ later)"
  have "life_step\<^sup>*\<^sup>* (life_of ?l tid) (life_of ?m tid)"
  proof (induction later rule: rev_induct)
    case (snoc c later)
    have "life_step\<^sup>*\<^sup>* (life_of (after_history env policy (history @ later)) tid)
        (life_of (after_history env policy ((history @ later) @ [c])) tid)"
      unfolding after_history_snoc by (rule micros_life[where policy = policy]) (intro perform_steps every_ledger_ok[OF assms(1)])+
    with snoc show ?case by simp
  qed simp
  from final_life[OF this] assms(2,3) have "life_of ?m tid = stage_life (tr_state t) 0 []"
    by (auto simp: life_of_some)
  with assms(3) show ?thesis
    by (cases "find_task ?m tid") (auto simp: life_of_def elim: stage_life.elims split: option.splits)
qed

section \<open>A concrete run\<close>

definition demo_env :: ledger_env where
  "demo_env = \<lparr>le_tables = ascii_tables, le_isoformat = show_int, le_collation = \<lambda>s. s\<rparr>"

definition demo_policy :: scheduling_policy where
  "demo_policy = \<lparr>sp_max_active_tasks_per_run = 1\<rparr>"

lemma demo_policy_ok: "new_scheduling_policy 1 = Inr demo_policy"
  by (simp add: new_scheduling_policy_def demo_policy_def)

lemma demo_limit [simp]: "sp_max_active_tasks_per_run demo_policy = 1"
  by (simp add: demo_policy_def)

definition demo_task :: task_definition where
  "demo_task = \<lparr>td_protocol_version = ''1'', td_task_id = ''task-1'', td_automation_run_id = ''run-1'',
     td_change_request_id = ''change-1'', td_project_id = ''p'', td_step_key = ''compile'',
     td_action = ''run_compile_test'', td_title = ''Compile'', td_instruction = ''Compile the change'',
     td_task_kind = hd task_kinds, td_required_capabilities = [''compile''],
     td_eligible_executor_kinds = EXECUTOR_KINDS, td_input_artifact_refs = [],
     td_expected_output_types = [''log''], td_acceptance_criteria = [''compiled''],
     td_lease_seconds = 30, td_max_attempts = 1,
     td_definition_digest = sha256_hex ''compile'', td_priority = 100\<rparr>"

lemma demo_task_ok: "check_task_definition demo_task = Inr demo_task"
  by (simp add: check_task_definition_iff demo_task_def required_text_def task_kinds_def)

definition demo_history :: "(int \<times> command) list" where
  "demo_history = [(1, OpenRun ''run-1'' ''p''), (1, OpenRequest ''change-1'' ''p''),
     (2, EnsureCurrent demo_task ''flow'')]"

definition demo_task_row :: task_row where
  "demo_task_row = new_task_row 2 ''flow'' 1 demo_task"

lemma demo_task_fields [simp]:
  "td_task_id demo_task = ''task-1''" "td_automation_run_id demo_task = ''run-1''"
  "td_project_id demo_task = ''p''" "td_change_request_id demo_task = ''change-1''"
  "td_lease_seconds demo_task = 30" "td_max_attempts demo_task = 1"
  "td_eligible_executor_kinds demo_task = EXECUTOR_KINDS"
  "td_required_capabilities demo_task = [''compile'']" "td_action demo_task = ''run_compile_test''"
  by (simp_all add: demo_task_def)

lemma demo_task_row_simps [simp]:
  "td_project_id demo_task_row = ''p''" "td_change_request_id demo_task_row = ''change-1''"
  "td_task_id demo_task_row = ''task-1''" "td_automation_run_id demo_task_row = ''run-1''"
  "td_lease_seconds demo_task_row = 30" "td_max_attempts demo_task_row = 1" "tr_state demo_task_row = READY"
  "td_required_capabilities demo_task_row = [''compile'']" "tr_attempt_count demo_task_row = 0"
  "td_eligible_executor_kinds demo_task_row = EXECUTOR_KINDS"
  "tr_created_by demo_task_row = ''flow''"  "task_definition.truncate demo_task_row = demo_task"
  by (simp_all add: demo_task_row_def new_task_row_def task_definition.defs demo_task_def)

lemma zero_pad_one: "zero_pad 4 1 = ''0001''"
  by code_simp

lemma demo_ledger:
  "after_history demo_env demo_policy demo_history = empty_ledger
     \<lparr>lg_runs := [(''run-1'', ''p'')], lg_requests := [(''change-1'', ''p'')], lg_tasks := [demo_task_row],
      lg_events := [\<lparr>ev_event_id = ''task-1-event-0001'', ev_task_id = ''task-1'', ev_project_id = ''p'',
        ev_sequence = 1, ev_event_type = ''created'', ev_actor = ''flow'',
        ev_payload = [(''state'', PStr ''ready''), (''action'', PStr ''run_compile_test'')],
        ev_payload_digest = ledger_digest (json_dumps (PDict
          [(''state'', PStr ''ready''), (''action'', PStr ''run_compile_test'')])), ev_created_at = 2\<rparr>]\<rparr>"
  by (simp add: after_history_def demo_history_def demo_task_ok empty_ledger_def ensure_current_def
      transaction_def ensure_current_step_def previous_tasks_def insert_task_def btrim_blank_def
      next_sequence_def find_task_def demo_task_row_def[symmetric] announce_task_def append_event_def
      completed_previous_def zero_pad_one)

lemma demo_life: "life_of (after_history demo_env demo_policy demo_history) ''task-1'' = Waiting 1"
  by (simp add: demo_ledger life_of_def find_task_def attempts_left_def)

theorem commands_follow_the_life_of_a_task_witness:
  "life_step\<^sup>*\<^sup>* (Waiting 1) (life_of (after_history demo_env demo_policy (demo_history @
     [(3, Claim ''claim-1'' ''token'' ''task-1'' ''human'' ''ann'' [''compile''] None None)])) ''task-1'')"
  using commands_follow_the_life_of_a_task[OF demo_policy_ok, of demo_env demo_history "''task-1''"]
  unfolding demo_life by blast

definition demo_closed :: "(int \<times> command) list" where
  "demo_closed = demo_history @ [(3, CompleteOpen ''run-1'' ''flow'')]"

lemma demo_closed_task:
  "find_task (after_history demo_env demo_policy demo_closed) ''task-1''
     = Some (demo_task_row\<lparr>tr_state := COMPLETED, tr_updated_at := 3\<rparr>)"
  unfolding demo_closed_def after_history_snoc demo_ledger
  by (simp add: empty_ledger_def commit_def complete_open_for_run_def open_tasks_of_run_def open_states_def
      complete_task_def complete_active_claim_from_canonical_def active_claims_def append_event_def
      btrim_blank_def find_task_def set_task_state_def update_where_def Let_def rbind_def)

theorem closed_task_stays_closed_witness:
  "\<exists>t'. find_task (after_history demo_env demo_policy (demo_closed @
      [(4, Requeue ''task-1'' ''ann'' ''again'')])) ''task-1'' = Some t' \<and> tr_state t' = COMPLETED"
  using closed_task_stays_closed[OF demo_policy_ok demo_closed_task, of "[(4, Requeue ''task-1'' ''ann'' ''again'')]"]
  by simp

section \<open>What the sweep of expired leases leaves\<close>

lemma expire_claims_effect:
  assumes "ids_ok l" "distinct (map cl_task_id cs)"
    and "\<And>c. c \<in> set cs \<Longrightarrow> \<not> btrim_blank (cl_executor_id c)
      \<and> find_task selected (cl_task_id c) \<noteq> None
      \<and> find_task selected (cl_task_id c) = find_task l (cl_task_id c)"
  shows "\<exists>l'. foldM (expire_claim now selected) l cs = Inr l'
    \<and> lg_claims l' = update_where (\<lambda>c. cl_claim_id c \<in> cl_claim_id ` set cs)
        (close_claim now EXPIRED ''lease_expired'') (lg_claims l)
    \<and> lg_tasks l' = update_where (\<lambda>t. td_task_id t \<in> cl_task_id ` set cs)
        (\<lambda>t. t\<lparr>tr_state := state_after_attempt t, tr_updated_at := now\<rparr>) (lg_tasks l)
    \<and> lg_runs l' = lg_runs l \<and> lg_results l' = lg_results l \<and> lg_workers l' = lg_workers l
    \<and> lg_dependencies l' = lg_dependencies l"
  using assms
proof (induction cs arbitrary: l)
  case Nil
  then show ?case by (simp add: update_where_def)
next
  case (Cons c cs)
  obtain t where t: "find_task selected (cl_task_id c) = Some t" "find_task l (cl_task_id c) = Some t"
    using Cons.prems(3)[of c] by (metis list.set_intros(1) option.exhaust)
  define m0 where "m0 = set_task_state now (cl_task_id c) (state_after_attempt t)
      (set_claim (close_claim now EXPIRED ''lease_expired'') (cl_claim_id c) l)"
  obtain m where m: "expire_claim now selected l c = Inr m"
    and tables: "lg_tasks m = lg_tasks m0" "lg_claims m = lg_claims m0" "lg_runs m = lg_runs l"
      "lg_results m = lg_results l" "lg_workers m = lg_workers l" "lg_dependencies m = lg_dependencies l"
    using t(1) Cons.prems(3)[of c]
    by (simp add: expire_claim_def Let_def append_event_def m0_def set_task_state_def set_claim_def)
  have rows: "lg_tasks m = update_where (\<lambda>r. td_task_id r = cl_task_id c)
      (\<lambda>r. r\<lparr>tr_state := state_after_attempt r, tr_updated_at := now\<rparr>) (lg_tasks l)"
    unfolding tables m0_def set_task_state_def set_claim_def update_where_def
    by (auto dest: task_of_id[OF Cons.prems(1) t(2)])
  have claims: "lg_claims m = update_where (\<lambda>d. cl_claim_id d = cl_claim_id c)
      (close_claim now EXPIRED ''lease_expired'') (lg_claims l)"
    by (simp add: tables m0_def set_claim_def)
  have ids: "ids_ok m" using Cons.prems(1) by (simp add: ids_ok_def rows claims map_update_where image_update_where)
  have same: "find_task m (cl_task_id d) = find_task l (cl_task_id d)" if "d \<in> set cs" for d
  proof -
    have "cl_task_id d \<noteq> cl_task_id c" using that Cons.prems(2) by (auto simp: image_iff)
    then show ?thesis by (simp add: find_task_def rows find_update option.map_ident)
  qed
  have rest: "\<not> btrim_blank (cl_executor_id d) \<and> find_task selected (cl_task_id d) \<noteq> None
      \<and> find_task selected (cl_task_id d) = find_task m (cl_task_id d)" if "d \<in> set cs" for d
    using Cons.prems(3)[of d] same[OF that] that by (metis list.set_intros(2))
  have "distinct (map cl_task_id cs)" using Cons.prems(2) by simp
  from Cons.IH[OF ids this rest] obtain l' where l': "foldM (expire_claim now selected) m cs = Inr l'"
    "lg_claims l' = update_where (\<lambda>c. cl_claim_id c \<in> cl_claim_id ` set cs)
        (close_claim now EXPIRED ''lease_expired'') (lg_claims m)"
    "lg_tasks l' = update_where (\<lambda>t. td_task_id t \<in> cl_task_id ` set cs)
        (\<lambda>t. t\<lparr>tr_state := state_after_attempt t, tr_updated_at := now\<rparr>) (lg_tasks m)"
    "lg_runs l' = lg_runs m \<and> lg_results l' = lg_results m \<and> lg_workers l' = lg_workers m
      \<and> lg_dependencies l' = lg_dependencies m"
    by blast
  have twice: "close_claim now EXPIRED r (close_claim now EXPIRED r d) = close_claim now EXPIRED r d" for d r
    by (simp add: close_claim_def)
  have "lg_claims l' = update_where (\<lambda>d. cl_claim_id d \<in> cl_claim_id ` set (c # cs))
        (close_claim now EXPIRED ''lease_expired'') (lg_claims l)"
    unfolding l'(2) claims by (auto simp: update_where_def twice)
  moreover have "lg_tasks l' = update_where (\<lambda>t. td_task_id t \<in> cl_task_id ` set (c # cs))
        (\<lambda>t. t\<lparr>tr_state := state_after_attempt t, tr_updated_at := now\<rparr>) (lg_tasks l)"
  proof -
    have "cl_task_id c \<notin> cl_task_id ` set cs" using Cons.prems(2) by simp
    then show ?thesis unfolding l'(3) rows by (auto simp: update_where_def)
  qed
  ultimately show ?case using m l' tables by (simp add: rbind_def)
qed

definition expired :: "int \<Rightarrow> string option \<Rightarrow> claim_row \<Rightarrow> bool" where
  "expired now which c \<longleftrightarrow> cl_status c = ACTIVE \<and> cl_lease_expires_at c \<le> now
     \<and> (which = None \<or> which = Some (cl_task_id c))"

lemma expired_active: "expired now which c \<Longrightarrow> cl_status c = ACTIVE"
  by (simp add: expired_def)

lemma expire_leases_effect:
  assumes "ledger_ok policy l"
  shows "\<exists>l'. expire_leases_locked now which l = Inr l'
    \<and> lg_claims l' = update_where (expired now which) (close_claim now EXPIRED ''lease_expired'') (lg_claims l)
    \<and> lg_tasks l' = update_where (\<lambda>t. \<exists>c\<in>set (active_claims l (td_task_id t)). expired now which c)
        (\<lambda>t. t\<lparr>tr_state := state_after_attempt t, tr_updated_at := now\<rparr>) (lg_tasks l)
    \<and> lg_runs l' = lg_runs l \<and> lg_results l' = lg_results l \<and> lg_workers l' = lg_workers l
    \<and> lg_dependencies l' = lg_dependencies l"
proof -
  have ids: "ids_ok l" using assms by (simp add: ledger_ok_def)
  let ?cs = "expired_claims now which l"
  have found: "find_task l (cl_task_id c) \<noteq> None" if "c \<in> set (lg_claims l)" for c
  proof -
    have "cl_task_id c \<in> td_task_id ` set (lg_tasks l)" using ids that unfolding ids_ok_def by blast
    then show ?thesis using find_task_mem[OF ids] by fastforce
  qed
  then have mem: "c \<in> set ?cs \<longleftrightarrow> c \<in> set (lg_claims l) \<and> expired now which c" for c
    by (auto simp: expired_claims_def expired_def)
  have named: "\<not> btrim_blank (cl_executor_id c)" if "c \<in> set ?cs" for c
    using that mem ids by (simp add: ids_ok_def)
  have claims: "update_where (\<lambda>c. cl_claim_id c \<in> cl_claim_id ` set ?cs) f (lg_claims l)
     = update_where (expired now which) f (lg_claims l)" for f
  proof -
    have "cl_claim_id c \<in> cl_claim_id ` set ?cs \<longleftrightarrow> expired now which c" if "c \<in> set (lg_claims l)" for c
    proof
      assume "cl_claim_id c \<in> cl_claim_id ` set ?cs"
      then obtain d where "d \<in> set ?cs" "cl_claim_id c = cl_claim_id d" by auto
      then show "expired now which c" using mem claim_unique[OF ids that, of d] by auto
    qed (use mem that in auto)
    then show ?thesis unfolding update_where_def by (intro map_cong refl) simp
  qed
  have tasks: "update_where (\<lambda>t. td_task_id t \<in> cl_task_id ` set ?cs) f (lg_tasks l)
     = update_where (\<lambda>t. \<exists>c\<in>set (active_claims l (td_task_id t)). expired now which c) f (lg_tasks l)" for f
  proof -
    have "td_task_id t \<in> cl_task_id ` set ?cs
        \<longleftrightarrow> (\<exists>c\<in>set (active_claims l (td_task_id t)). expired now which c)" for t :: task_row
      unfolding image_iff Bex_def mem active_member using expired_active by metis
    then show ?thesis by (simp add: update_where_def)
  qed
  have "c \<in> set ?cs \<Longrightarrow> find_task l (cl_task_id c) \<noteq> None" for c using mem found by blast
  with named show ?thesis
    by (intro expire_claims_effect[OF ids expired_claims_distinct[OF assms, of now which], of l now,
          unfolded claims tasks, folded expire_leases_locked_def]) simp
qed

lemma active_after_sweep:
  assumes "lg_claims l' = update_where (expired now which) (close_claim now EXPIRED reason) (lg_claims l)"
  shows "active_claims l' tid = filter (\<lambda>c. \<not> expired now which c) (active_claims l tid)"
proof -
  have "filter (\<lambda>c. cl_task_id c = tid \<and> cl_status c = ACTIVE)
      (update_where (expired now which) (close_claim now EXPIRED reason) cs)
    = filter (\<lambda>c. \<not> expired now which c) (filter (\<lambda>c. cl_task_id c = tid \<and> cl_status c = ACTIVE) cs)" for cs
    by (induction cs) (auto simp: update_where_def)
  then show ?thesis by (simp add: active_claims_def assms)
qed

text \<open>Who may act on a task at an instant: the executor of its live lease, with its token.\<close>

definition holds_lease :: "int \<Rightarrow> string \<Rightarrow> string \<Rightarrow> string \<Rightarrow> ledger \<Rightarrow> bool" where
  "holds_lease now tid x token l \<longleftrightarrow> (\<exists>c\<in>set (active_claims l tid). now < cl_lease_expires_at c
     \<and> cl_executor_id c = x \<and> cl_lease_token_digest c = ledger_digest token)"

lemma require_live_claim_iff:
  assumes "ledger_ok policy l"
  shows "(\<exists>m c. require_live_claim now tid x token l = Inr (m, c)) \<longleftrightarrow> holds_lease now tid x token l"
proof -
  have ok: "ids_ok l" "leases_ok l" using assms by (simp_all add: ledger_ok_def)
  obtain m where m: "expire_leases_locked now (Some tid) l = Inr m"
    "active_claims m tid = filter (\<lambda>c. \<not> expired now (Some tid) c) (active_claims l tid)"
    using expire_leases_effect[OF assms, of now "Some tid"] active_after_sweep by blast
  have live: "\<not> expired now (Some tid) c \<longleftrightarrow> now < cl_lease_expires_at c" if "c \<in> set (active_claims l tid)" for c
    using that by (auto simp: active_member expired_def)
  show ?thesis
  proof (cases "active_claims l tid")
    case Nil
    then show ?thesis using m by (simp add: require_live_claim_def holds_lease_def)
  next
    case (Cons c cs)
    then have c: "c \<in> set (active_claims l tid)" by simp
    then have "active_claims l tid = [c]"
      using holder_leased[OF ok, of c] by (auto simp: active_member)
    then show ?thesis using m live[OF c]
      by (simp add: require_live_claim_def holds_lease_def rbind_def)
  qed
qed

section \<open>Only the holder of the live lease acts\<close>

lemma view_task_total: "(\<exists>v. view_task env clock l tid = Inr v) \<longleftrightarrow> find_task l tid \<noteq> None"
  by (simp add: view_task_def Let_def split: option.splits)

lemma append_event_total:
  "\<not> btrim_blank actor \<Longrightarrow> \<exists>l'. append_event now tid p ty actor pl l = Inr l'
     \<and> (\<forall>x. find_task l' x = find_task l x)"
  by (simp add: append_event_def Let_def find_task_def)

lemma committed_view_Inr:
  assumes "\<And>l'. body l = Inr l' \<Longrightarrow> find_task l' tid \<noteq> None"
  shows "(\<exists>v. snd (committed_view env clock tid body l) = Inr v) \<longleftrightarrow> (\<exists>l'. body l = Inr l')"
proof (cases "body l")
  case (Inl e)
  then show ?thesis by (simp add: committed_view_def transaction_def)
next
  case (Inr l')
  with assms[OF this] view_task_total[of env clock l' tid] show ?thesis
    by (simp add: committed_view_def transaction_def)
qed

text \<open>A body that first requires the live claim and then ends with an event of that claim.\<close>

lemma live_body_succeeds:
  assumes "ledger_ok policy l"
    and "\<And>m c t. require_live_claim now tid x token l = Inr (m, c) \<Longrightarrow> find_task m tid = Some t \<Longrightarrow>
      \<exists>ty p pl k. body l = append_event now tid p ty x pl k \<and> find_task k tid \<noteq> None"
    and "\<And>e. require_live_claim now tid x token l = Inl e \<Longrightarrow> body l = Inl e"
  shows "((\<exists>v. snd (committed_view env clock tid body l) = Inr v) \<longleftrightarrow> holds_lease now tid x token l)
    \<and> (holds_lease now tid x token l \<or> fst (committed_view env clock tid body l) = l)"
proof (cases "require_live_claim now tid x token l")
  case (Inl e)
  then show ?thesis
    using require_live_claim_iff[OF assms(1), of now tid x token] assms(3)
    by (simp add: committed_view_def transaction_def)
next
  case (Inr mc)
  obtain m c where mc: "mc = (m, c)" by (cases mc)
  note steps = require_live_steps[OF Inr[unfolded mc] assms(1)]
  then have ok: "ids_ok m" "leases_ok m" using micros_ok[OF _ assms(1)] by (auto simp: ledger_ok_def)
  then obtain t where t: "find_task m tid = Some t" using holder_leased steps by blast
  have named: "\<not> btrim_blank x" using ok(1) steps by (auto simp: ids_ok_def)
  obtain ty p pl k where k: "body l = append_event now tid p ty x pl k" "find_task k tid \<noteq> None"
    using assms(2)[OF Inr[unfolded mc] t] by blast
  obtain l' where "body l = Inr l'" "find_task l' tid \<noteq> None"
    using append_event_total[OF named] k by metis
  then show ?thesis
    using require_live_claim_iff[OF assms(1), of now tid x token] Inr mc
      committed_view_Inr[of body l tid env clock] by auto
qed

lemma heartbeat_iff:
  assumes "ledger_ok policy l"
  shows "((\<exists>v. snd (heartbeat env clock now tid x token l) = Inr v) \<longleftrightarrow> holds_lease now tid x token l)
    \<and> (holds_lease now tid x token l \<or> fst (heartbeat env clock now tid x token l) = l)"
  unfolding heartbeat_def
proof (rule live_body_succeeds[OF assms])
  fix m c t
  assume m: "require_live_claim now tid x token l = Inr (m, c)" "find_task m tid = Some t"
  let ?k = "renew_worker now c x (set_claim (\<lambda>r. r\<lparr>cl_lease_expires_at := now + seconds (td_lease_seconds t)\<rparr>)
       (cl_claim_id c) (if tr_state t = CLAIMED then set_task_state now tid RUNNING m else m))"
  have "heartbeat_step now tid x token l = append_event now tid (td_project_id t)
     (if tr_state t = CLAIMED then ''started'' else ''lease_renewed'') x [(''claim_id'', PStr (cl_claim_id c))] ?k"
    using m by (simp add: heartbeat_step_def rbind_def Let_def)
  moreover have "find_task (renew_worker now c x k) tid = find_task k tid" for k
    by (simp add: renew_worker_def find_task_def)
  then have "find_task ?k tid \<noteq> None" using m(2) by (simp add: find_task_set_state)
  ultimately show "\<exists>ty p pl k. heartbeat_step now tid x token l = append_event now tid p ty x pl k
      \<and> find_task k tid \<noteq> None" by blast
qed (simp add: heartbeat_step_def rbind_def)

lemma release_iff:
  assumes "ledger_ok policy l" "\<not> blank reason"
  shows "((\<exists>v. snd (release env clock now tid x token reason l) = Inr v) \<longleftrightarrow> holds_lease now tid x token l)
    \<and> (holds_lease now tid x token l \<or> fst (release env clock now tid x token reason l) = l)"
  unfolding release_def
proof (rule live_body_succeeds[OF assms(1)])
  fix m c t
  assume m: "require_live_claim now tid x token l = Inr (m, c)" "find_task m tid = Some t"
  let ?k = "set_task_state now tid (state_after_attempt t)
    (set_claim (close_claim now RELEASED reason) (cl_claim_id c) m)"
  have "release_step now tid x token reason l = append_event now tid (td_project_id t)
     (if state_after_attempt t = READY then ''released'' else ''failed'') x
     [(''claim_id'', PStr (cl_claim_id c)), (''reason'', PStr reason)] ?k"
    using m assms(2) by (simp add: release_step_def rbind_def Let_def)
  moreover have "find_task ?k tid \<noteq> None" using m(2) by (simp add: find_task_set_state)
  ultimately show "\<exists>ty p pl k. release_step now tid x token reason l = append_event now tid p ty x pl k
      \<and> find_task k tid \<noteq> None" by blast
qed (use assms(2) in \<open>simp add: release_step_def rbind_def\<close>)

text \<open>(C15) A heartbeat is accepted exactly from the executor whose lease on the task is still running at
  the instant of the transaction, with the token of that lease; so is a release that states a reason.
  Everyone else, the previous holder of an expired lease included, is refused, and what is refused
  leaves the tables as they were.\<close>

theorem only_the_holder_acts:
  assumes "ledger_ok policy l" "\<not> blank reason"
  shows "((\<exists>v. snd (heartbeat env clock now tid x token l) = Inr v) \<longleftrightarrow> holds_lease now tid x token l)
    \<and> ((\<exists>v. snd (release env clock now tid x token reason l) = Inr v) \<longleftrightarrow> holds_lease now tid x token l)
    \<and> (holds_lease now tid x token l \<or> fst (heartbeat env clock now tid x token l) = l
        \<and> fst (release env clock now tid x token reason l) = l)"
  using heartbeat_iff[OF assms(1)] release_iff[OF assms] by blast

definition demo_claimed :: "(int \<times> command) list" where
  "demo_claimed = demo_history @
     [(3, Claim ''claim-1'' ''token'' ''task-1'' ''human'' ''ann'' [''compile''] None None)]"

definition demo_claim :: claim_row where
  "demo_claim = \<lparr>cl_claim_id = ''claim-1'', cl_task_id = ''task-1'', cl_project_id = ''p'',
     cl_executor_kind = ''human'', cl_executor_id = ''ann'', cl_capabilities = [''compile''],
     cl_lease_token_digest = ledger_digest ''token'', cl_status = ACTIVE, cl_claimed_at = 3,
     cl_lease_expires_at = 30000003, cl_released_at = None, cl_release_reason = None\<rparr>"

lemma short_text: "length s \<le> n \<Longrightarrow> \<not> n < py_len s"
proof -
  have "length (utf8_chars s) \<le> length s" for s
  proof (induction s rule: utf8_chars.induct)
    case (2 c cs)
    then show ?case using length_dropWhile_le[of utf8_continuation cs] by simp
  qed simp
  then show "length s \<le> n \<Longrightarrow> ?thesis" by (simp add: py_len_def not_less) (use le_trans in blast)
qed

lemma demo_claimed_tables:
  "lg_claims (after_history demo_env demo_policy demo_claimed) = [demo_claim]"
  "lg_tasks (after_history demo_env demo_policy demo_claimed)
     = [demo_task_row\<lparr>tr_state := CLAIMED, tr_attempt_count := 1, tr_updated_at := 3\<rparr>]"
  unfolding demo_claimed_def after_history_snoc demo_ledger
  by (simp_all add: claim_task_ledger commit_def claim_step_def validate_executor_def EXECUTOR_KINDS_def
      validate_capabilities_def short_text registered_claim_policy_def rbind_def expire_leases_locked_def
      expired_claims_def empty_ledger_def claimable_def suits_def dependencies_completed_def
      active_in_run_def active_states_def demo_policy_def create_claim_locked_def Let_def active_claims_def
      append_event_def btrim_blank_def update_where_def seconds_def demo_claim_def)

theorem only_the_holder_acts_witness:
  "(\<exists>v. snd (heartbeat demo_env 5 5 ''task-1'' ''ann'' ''token''
      (after_history demo_env demo_policy demo_claimed)) = Inr v)
   \<and> \<not> (\<exists>v. snd (release demo_env 5 5 ''task-1'' ''bob'' ''token'' ''stop''
      (after_history demo_env demo_policy demo_claimed)) = Inr v)"
proof -
  let ?l = "after_history demo_env demo_policy demo_claimed"
  have "holds_lease 5 ''task-1'' ''ann'' ''token'' ?l" "\<not> holds_lease 5 ''task-1'' ''bob'' ''token'' ?l"
    by (simp_all add: demo_claimed_tables holds_lease_def active_claims_def demo_claim_def)
  moreover have "\<not> blank ''stop''" by simp
  ultimately show ?thesis
    using only_the_holder_acts[OF every_ledger_ok[OF demo_policy_ok]] by blast
qed

section \<open>A result is recorded once\<close>

lemma find_update_id:
  assumes "\<And>c. P (f c) = P c"
  shows "find P (update_where Q f cs) = map_option (\<lambda>c. if Q c then f c else c) (find P cs)"
  using assms by (induction cs) (auto simp: update_where_def)

lemma find_snoc: "find P (xs @ [x]) = (case find P xs of Some y \<Rightarrow> Some y | None \<Rightarrow> if P x then Some x else None)"
  by (induction xs) auto

lemma sweep_of_unclaimed: "active_claims l tid = [] \<Longrightarrow> expire_leases_locked now (Some tid) l = Inr l"
proof -
  assume "active_claims l tid = []"
  then have "expired_claims now (Some tid) l = []"
    by (auto simp: expired_claims_def active_claims_def filter_empty_conv)
  then show ?thesis by (simp add: expire_leases_locked_def)
qed

text \<open>What the first report of a result leaves for a second one to find.\<close>

lemma record_first_leaves:
  assumes "record_first_result now t c outcome summary refs evidence m = Inr l'" "ledger_ok policy m"
    and "find (\<lambda>c. cl_task_id c = tid \<and> cl_executor_id c = x \<and> cl_lease_token_digest c = d) (lg_claims m) = Some c"
    and "cl_status c = ACTIVE" "find_task m tid = Some t"
  shows "find (\<lambda>c. cl_task_id c = tid \<and> cl_executor_id c = x \<and> cl_lease_token_digest c = d) (lg_claims l')
      = Some (close_claim now CLAIM_COMPLETED (''result:'' @ outcome) c)"
    "find_task l' tid = Some (t\<lparr>tr_state := state_of_outcome outcome, tr_updated_at := now\<rparr>)"
    "\<exists>r. find (\<lambda>r. rs_claim_id r = cl_claim_id c) (lg_results l') = Some r \<and> rs_payload_digest r
      = ledger_digest (json_dumps (result_payload tid (cl_claim_id c) outcome summary refs evidence))"
    "active_claims l' tid = []"
proof -
  have ok: "ids_ok m" "leases_ok m" using assms(2) by (simp_all add: ledger_ok_def)
  have c: "c \<in> set (lg_claims m)" "cl_task_id c = tid" using assms(3) by (auto simp: find_Some_iff)
  have tid: "td_task_id t = tid" using find_task_Some[OF assms(5)] by simp
  define r where "r = \<lparr>rs_result_id = result_id_of (result_payload tid (cl_claim_id c) outcome summary refs evidence),
     rs_task_id = tid, rs_project_id = td_project_id t, rs_claim_id = cl_claim_id c, rs_outcome = outcome,
     rs_summary = summary, rs_artifact_refs = refs, rs_evidence = evidence,
     rs_payload_digest = ledger_digest (json_dumps (result_payload tid (cl_claim_id c) outcome summary refs evidence)),
     rs_submitted_by = cl_executor_id c, rs_submitted_at = now\<rparr>"
  obtain k where k: "insert_result r m = Inr k"
    and ev: "\<exists>ty pl. append_event now tid (td_project_id t) ty (cl_executor_id c) pl
      (set_task_state now tid (state_of_outcome outcome)
        (set_claim (close_claim now CLAIM_COMPLETED (''result:'' @ outcome)) (cl_claim_id c) k)) = Inr l'"
    using assms(1) unfolding record_first_result_def Let_def rbind_eq_Inr tid r_def[symmetric] by blast
  note ins = insert_result_Inr[OF k]
  obtain ty pl where ev: "append_event now tid (td_project_id t) ty (cl_executor_id c) pl
      (set_task_state now tid (state_of_outcome outcome)
        (set_claim (close_claim now CLAIM_COMPLETED (''result:'' @ outcome)) (cl_claim_id c) k)) = Inr l'"
    using ev by blast
  note tables = append_event_tables[OF ev]
  have claims: "lg_claims l' = update_where (\<lambda>d. cl_claim_id d = cl_claim_id c)
      (close_claim now CLAIM_COMPLETED (''result:'' @ outcome)) (lg_claims m)"
    using tables ins by (simp add: set_claim_def)
  have "cl_lease_token_digest (close_claim now CLAIM_COMPLETED (''result:'' @ outcome) e) = cl_lease_token_digest e" for e
    by (simp add: close_claim_def)
  then show "find (\<lambda>c. cl_task_id c = tid \<and> cl_executor_id c = x \<and> cl_lease_token_digest c = d) (lg_claims l')
      = Some (close_claim now CLAIM_COMPLETED (''result:'' @ outcome) c)"
    unfolding claims using assms(3) by (subst find_update_id) simp_all
  show "find_task l' tid = Some (t\<lparr>tr_state := state_of_outcome outcome, tr_updated_at := now\<rparr>)"
  proof -
    have "find_task l' tid = find_task (set_task_state now tid (state_of_outcome outcome)
        (set_claim (close_claim now CLAIM_COMPLETED (''result:'' @ outcome)) (cl_claim_id c) k)) tid"
      using tables(1) by (rule find_task_frame)
    then show ?thesis using ins assms(5) by (simp add: find_task_set_state)
  qed
  have "find (\<lambda>r. rs_claim_id r = cl_claim_id c) (lg_results l') = Some r"
  proof -
    have "find (\<lambda>r. rs_claim_id r = cl_claim_id c) (lg_results m) = None"
      using ins unfolding find_None_iff by (metis image_eqI r_def result_row.select_convs(4))
    then show ?thesis using tables(3) ins by (simp add: find_snoc r_def)
  qed
  then show "\<exists>r. find (\<lambda>r. rs_claim_id r = cl_claim_id c) (lg_results l') = Some r \<and> rs_payload_digest r
      = ledger_digest (json_dumps (result_payload tid (cl_claim_id c) outcome summary refs evidence))"
    by (auto simp: r_def)
  have "active_claims l' tid = active_claims (set_claim (close_claim now CLAIM_COMPLETED (''result:'' @ outcome)) (cl_claim_id c) m) tid"
    unfolding active_claims_def claims by (simp add: set_claim_def)
  also have "\<dots> = []"
    using holder_leased[OF ok c(1) assms(4)] c(2) by (auto simp: active_claims_close)
  finally show "active_claims l' tid = []" .
qed

definition result_digest :: "string \<Rightarrow> string \<Rightarrow> string \<Rightarrow> string \<Rightarrow> string list \<Rightarrow> pydict \<Rightarrow> string" where
  "result_digest tid cid outcome summary refs evidence =
     ledger_digest (json_dumps (result_payload tid cid outcome summary refs evidence))"

text \<open>A report that meets the checks of the arguments and the output contract of its task.\<close>

definition reportable :: "text_tables \<Rightarrow> task_row \<Rightarrow> string \<Rightarrow> string \<Rightarrow> string list \<Rightarrow> pydict \<Rightarrow> bool" where
  "reportable u t outcome summary refs evidence \<longleftrightarrow>
     check_result u outcome summary refs evidence = Inr ()
     \<and> (outcome \<noteq> ''completed'' \<or> (td_expected_output_types t = [] \<or> refs \<noteq> []) \<and> evidence \<noteq> [])"

lemma replay_step:
  assumes "active_claims l tid = []" "find_task l tid = Some t"
    and "find (\<lambda>c. cl_task_id c = tid \<and> cl_executor_id c = x
      \<and> cl_lease_token_digest c = ledger_digest token) (lg_claims l) = Some c"
    and "cl_status c = CLAIM_COMPLETED" "find (\<lambda>r. rs_claim_id r = cl_claim_id c) (lg_results l) = Some r"
    and "reportable u t outcome summary refs evidence"
  shows "record_result_step u now tid x token outcome summary refs evidence l
    = (if rs_payload_digest r = result_digest tid (cl_claim_id c) outcome summary refs evidence then Inr l
       else Inl (PersistenceConflictError ''Orchestration Task Result replay has different content''))"
  using assms
  by (auto simp: record_result_step_def reportable_def rbind_def sweep_of_unclaimed result_digest_def)

lemma record_result_Inr:
  assumes "record_result_step u now tid x token outcome summary refs evidence l = Inr l'" "ledger_ok policy l"
    and "lg_results l' \<noteq> lg_results l"
  obtains m c t where "ledger_ok policy m" "record_first_result now t c outcome summary refs evidence m = Inr l'"
    "find (\<lambda>c. cl_task_id c = tid \<and> cl_executor_id c = x
      \<and> cl_lease_token_digest c = ledger_digest token) (lg_claims m) = Some c"
    "cl_status c = ACTIVE" "find_task m tid = Some t" "reportable u t outcome summary refs evidence"
proof -
  obtain m where m: "expire_leases_locked now (Some tid) l = Inr m" "lg_results m = lg_results l"
    using expire_leases_effect[OF assms(2), of now "Some tid"] by blast
  obtain c where c: "find (\<lambda>c. cl_task_id c = tid \<and> cl_executor_id c = x
      \<and> cl_lease_token_digest c = ledger_digest token) (lg_claims m) = Some c"
    using assms(1) m by (auto simp: record_result_step_def rbind_eq_Inr split: option.splits)
  have live: "cl_status c \<in> {ACTIVE, CLAIM_COMPLETED}"
    using assms(1) m c by (auto simp: record_result_step_def rbind_eq_Inr split: if_splits)
  obtain t where t: "find_task m tid = Some t"
    using assms(1) m c by (auto simp: record_result_step_def rbind_eq_Inr split: if_splits option.splits)
  have ok: "reportable u t outcome summary refs evidence"
    using assms(1) m c t live
    by (auto simp: record_result_step_def rbind_eq_Inr reportable_def split: if_splits option.splits)
  have "l' = m \<or> record_first_result now t c outcome summary refs evidence m = Inr l' \<and> cl_status c = ACTIVE"
    using assms(1) m c t live
    by (auto simp: record_result_step_def rbind_eq_Inr split: if_splits option.splits)
  then have "record_first_result now t c outcome summary refs evidence m = Inr l'" "cl_status c = ACTIVE"
    using m(2) assms(3) by auto
  moreover have "ledger_ok policy m" using micros_ok assms(2) expire_leases_steps[OF m(1) assms(2)] by blast
  ultimately show ?thesis using that c t ok by blast
qed

text \<open>(C16) A result is recorded once.  After \<open>record_result\<close> has stored a result, sending the same
  result again, at any later instant, is answered with the task and changes nothing, and sending
  another content under the same lease raises the replay conflict and changes nothing.\<close>

theorem result_recorded_once:
  assumes "ledger_ok policy l"
    and "record_result env clock now tid x token outcome summary refs evidence l = (l', Inr v)"
    and "lg_results l' \<noteq> lg_results l"
  shows "(\<exists>w. record_result env clock' now' tid x token outcome summary refs evidence l' = (l', Inr w))
    \<and> (\<exists>c\<in>set (lg_claims l'). \<exists>t. find_task l' tid = Some t \<and> (\<forall>outcome' summary' refs' evidence'.
        reportable (le_tables env) t outcome' summary' refs' evidence' \<and>
        result_digest tid (cl_claim_id c) outcome' summary' refs' evidence'
          \<noteq> result_digest tid (cl_claim_id c) outcome summary refs evidence \<longrightarrow>
        record_result env clock' now' tid x token outcome' summary' refs' evidence' l'
          = (l', Inl (PersistenceConflictError ''Orchestration Task Result replay has different content''))))"
proof -
  have "record_result_step (le_tables env) now tid x token outcome summary refs evidence l = Inr l'"
    using assms(2) by (auto simp: record_result_def committed_view_def transaction_def rbind_def split: sum.splits)
  then obtain m c t where m: "ledger_ok policy m" "record_first_result now t c outcome summary refs evidence m = Inr l'"
    "find (\<lambda>c. cl_task_id c = tid \<and> cl_executor_id c = x
      \<and> cl_lease_token_digest c = ledger_digest token) (lg_claims m) = Some c"
    "cl_status c = ACTIVE" "find_task m tid = Some t" "reportable (le_tables env) t outcome summary refs evidence"
    using assms(1,3) by (rule record_result_Inr)
  note left = record_first_leaves[OF m(2,1,3-5)]
  let ?c = "close_claim now CLAIM_COMPLETED (''result:'' @ outcome) c"
  let ?t = "t\<lparr>tr_state := state_of_outcome outcome, tr_updated_at := now\<rparr>"
  obtain r where r: "find (\<lambda>r. rs_claim_id r = cl_claim_id ?c) (lg_results l') = Some r"
    "rs_payload_digest r = result_digest tid (cl_claim_id ?c) outcome summary refs evidence"
    using left(3) by (auto simp: result_digest_def)
  have same: "reportable u ?t = reportable u t" for u by (simp add: reportable_def fun_eq_iff)
  note again = replay_step[OF left(4,2,1) _ r(1), of "le_tables env"]
  have answered: "snd (committed_view env clock' tid body l') = view_task env clock' l' tid
      \<and> fst (committed_view env clock' tid body l') = l'" if "body l' = Inr l'" for body
    using that by (simp add: committed_view_def transaction_def)
  obtain w where w: "view_task env clock' l' tid = Inr w" using view_task_total left(2) by blast
  have "record_result env clock' now' tid x token outcome summary refs evidence l' = (l', Inr w)"
    using answered again[of outcome summary refs evidence now'] m(6) r(2) w
    by (simp add: record_result_def same prod_eq_iff)
  moreover have "?c \<in> set (lg_claims l')" using left(1) by (auto simp: find_Some_iff)
  moreover have "record_result env clock' now' tid x token outcome' summary' refs' evidence' l'
      = (l', Inl (PersistenceConflictError ''Orchestration Task Result replay has different content''))"
    if "reportable (le_tables env) ?t outcome' summary' refs' evidence'"
      "result_digest tid (cl_claim_id ?c) outcome' summary' refs' evidence'
        \<noteq> result_digest tid (cl_claim_id ?c) outcome summary refs evidence"
    for outcome' summary' refs' evidence'
    using again[OF _ that(1), of now'] that(2) r(2)
    by (simp add: record_result_def committed_view_def transaction_def rbind_def)
  ultimately show ?thesis using left(2) by blast
qed

abbreviation (input) "demo_evidence \<equiv> [(''ok'', PBool True)]"

lemma demo_report:
  "\<exists>k. record_result_step ascii_tables 7 ''task-1'' ''ann'' ''token'' ''completed'' ''done'' [''log-1'']
     demo_evidence (after_history demo_env demo_policy demo_claimed) = Inr k \<and> lg_results k \<noteq> []
     \<and> find_task k ''task-1'' \<noteq> None"
proof -
  let ?l = "after_history demo_env demo_policy demo_claimed"
  have results: "lg_results ?l = []"
    using every_ledger_ok[OF demo_policy_ok, of demo_env demo_claimed]
    by (simp add: ledger_ok_def results_ok_def demo_claimed_tables completed_ids_def demo_claim_def)
  have "validate_orchestration_result_evidence ascii_tables demo_evidence = Inr ()" by code_simp
  then have "check_result ascii_tables ''completed'' ''done'' [''log-1''] demo_evidence = Inr ()"
    by (simp add: check_result_def short_text)
  then show ?thesis
    by (simp add: record_result_step_def rbind_def expire_leases_locked_def expired_claims_def
        demo_claimed_tables demo_claim_def find_task_def record_first_result_def insert_result_def results
        Let_def append_event_def btrim_blank_def set_task_state_def set_claim_def update_where_def)
qed

theorem result_recorded_once_witness:
  "\<exists>l' w. record_result demo_env 9 9 ''task-1'' ''ann'' ''token'' ''completed'' ''done'' [''log-1'']
     demo_evidence l' = (l', Inr w) \<and> lg_results l' \<noteq> []"
proof -
  let ?l = "after_history demo_env demo_policy demo_claimed"
  obtain k where k: "record_result_step ascii_tables 7 ''task-1'' ''ann'' ''token'' ''completed'' ''done''
      [''log-1''] demo_evidence ?l = Inr k" "lg_results k \<noteq> []" "find_task k ''task-1'' \<noteq> None"
    using demo_report by blast
  obtain v where "view_task demo_env 7 k ''task-1'' = Inr v" using view_task_total k(3) by blast
  then have first: "record_result demo_env 7 7 ''task-1'' ''ann'' ''token'' ''completed'' ''done'' [''log-1'']
      demo_evidence ?l = (k, Inr v)"
    using k(1) by (simp add: record_result_def committed_view_def transaction_def rbind_def demo_env_def)
  have new: "lg_results k \<noteq> lg_results ?l"
    using every_ledger_ok[OF demo_policy_ok, of demo_env demo_claimed] k(2)
    by (simp add: ledger_ok_def results_ok_def demo_claimed_tables completed_ids_def demo_claim_def)
  from result_recorded_once[OF every_ledger_ok[OF demo_policy_ok] first new, of 9 9, THEN conjunct1] k(2)
  show ?thesis by blast
qed

section \<open>A listed task is claimed\<close>

text \<open>What the sweep of all expired leases leaves: \<open>list_ready\<close> looks through the leases that have run
  out, \<open>claim_next\<close> closes them first.  The two see the same queue.\<close>

lemma swept_state:
  assumes "ledger_ok policy l" "t \<in> set (lg_tasks l)"
  shows "(\<exists>c\<in>set (active_claims l (td_task_id t)). expired now None c)
    \<longleftrightarrow> leased t \<and> has_expired_claim now l (td_task_id t)"
    and "leased t \<Longrightarrow> has_live_claim now l (td_task_id t) \<longleftrightarrow> \<not> has_expired_claim now l (td_task_id t)"
proof -
  have n: "length (active_claims l (td_task_id t)) = (if leased t then 1 else 0)"
    using assms by (simp add: ledger_ok_def leases_ok_def)
  have e: "expired now None c \<longleftrightarrow> cl_lease_expires_at c \<le> now" if "c \<in> set (active_claims l tid)" for c tid
    using that by (auto simp: expired_def active_member)
  show "(\<exists>c\<in>set (active_claims l (td_task_id t)). expired now None c)
    \<longleftrightarrow> leased t \<and> has_expired_claim now l (td_task_id t)"
    using n e by (cases "leased t") (auto simp: has_expired_claim_def list_ex_iff)
  show "leased t \<Longrightarrow> has_live_claim now l (td_task_id t) \<longleftrightarrow> \<not> has_expired_claim now l (td_task_id t)"
    using n by (cases "active_claims l (td_task_id t)") (auto simp: has_expired_claim_def has_live_claim_def)
qed

definition swept_row :: "int \<Rightarrow> ledger \<Rightarrow> task_row \<Rightarrow> task_row" where
  "swept_row now l t = (if leased t \<and> has_expired_claim now l (td_task_id t)
     then t\<lparr>tr_state := state_after_attempt t, tr_updated_at := now\<rparr> else t)"

lemma swept_row_simps [simp]:
  "td_task_id (swept_row now l t) = td_task_id t"
  "td_automation_run_id (swept_row now l t) = td_automation_run_id t"
  "td_project_id (swept_row now l t) = td_project_id t"
  "tr_attempt_count (swept_row now l t) = tr_attempt_count t"
  "td_max_attempts (swept_row now l t) = td_max_attempts t"
  "td_eligible_executor_kinds (swept_row now l t) = td_eligible_executor_kinds t"
  "td_required_capabilities (swept_row now l t) = td_required_capabilities t"
  by (simp_all add: swept_row_def)

lemma swept_completed [simp]: "tr_state (swept_row now l t) = COMPLETED \<longleftrightarrow> tr_state t = COMPLETED"
  using state_after_attempt_cases[of t] by (auto simp: swept_row_def leased_def)

lemma sweep_all:
  assumes "ledger_ok policy l"
  obtains l' where "expire_leases_locked now None l = Inr l'"
    "lg_tasks l' = map (swept_row now l) (lg_tasks l)" "lg_runs l' = lg_runs l"
    "lg_workers l' = lg_workers l" "lg_dependencies l' = lg_dependencies l" "ledger_ok policy l'"
    "cl_claim_id ` set (lg_claims l') = cl_claim_id ` set (lg_claims l)"
    "map (\<lambda>c. (cl_claimed_at c, cl_task_id c)) (lg_claims l') = map (\<lambda>c. (cl_claimed_at c, cl_task_id c)) (lg_claims l)"
proof -
  obtain l' where l': "expire_leases_locked now None l = Inr l'"
    "lg_claims l' = update_where (expired now None) (close_claim now EXPIRED ''lease_expired'') (lg_claims l)"
    "lg_tasks l' = update_where (\<lambda>t. \<exists>c\<in>set (active_claims l (td_task_id t)). expired now None c)
        (\<lambda>t. t\<lparr>tr_state := state_after_attempt t, tr_updated_at := now\<rparr>) (lg_tasks l)"
    "lg_runs l' = lg_runs l" "lg_workers l' = lg_workers l" "lg_dependencies l' = lg_dependencies l"
    using expire_leases_effect[OF assms, of now None] by blast
  have "lg_tasks l' = map (swept_row now l) (lg_tasks l)"
    unfolding l'(3) update_where_def by (intro map_cong refl) (simp add: swept_state(1)[OF assms] swept_row_def)
  moreover have "ledger_ok policy l'" using micros_ok expire_leases_steps[OF l'(1) assms] assms by blast
  moreover have "cl_claim_id ` set (lg_claims l') = cl_claim_id ` set (lg_claims l)"
    unfolding l'(2) by (simp add: image_update_where)
  moreover have "map (\<lambda>c. (cl_claimed_at c, cl_task_id c)) (lg_claims l')
      = map (\<lambda>c. (cl_claimed_at c, cl_task_id c)) (lg_claims l)"
    unfolding l'(2) by (rule map_update_where) (simp add: close_claim_def)
  ultimately show ?thesis using that l' by blast
qed

lemma swept_busy:
  assumes "ledger_ok policy l" "lg_tasks l' = map (swept_row now l) (lg_tasks l)"
  shows "active_in_run l' run = live_in_run now l run"
proof -
  have "td_automation_run_id (swept_row now l t) = run \<and> tr_state (swept_row now l t) \<in> set active_states
      \<longleftrightarrow> td_automation_run_id t = run \<and> (tr_state t = SUBMITTED
        \<or> tr_state t \<in> {CLAIMED, RUNNING} \<and> has_live_claim now l (td_task_id t))" if "t \<in> set (lg_tasks l)" for t
    using swept_state(2)[OF assms(1) that, of now] state_after_attempt_cases[of t]
    by (auto simp: swept_row_def leased_def active_states_def)
  then have "filter (\<lambda>t. td_automation_run_id (swept_row now l t) = run
        \<and> tr_state (swept_row now l t) \<in> set active_states) (lg_tasks l)
      = filter (\<lambda>t. td_automation_run_id t = run \<and> (tr_state t = SUBMITTED
        \<or> tr_state t \<in> {CLAIMED, RUNNING} \<and> has_live_claim now l (td_task_id t))) (lg_tasks l)"
    by (intro filter_cong refl)
  then show ?thesis
    by (simp add: active_in_run_def live_in_run_def assms(2) filter_map o_def)
qed

lemma swept_dependencies:
  "lg_tasks l' = map (swept_row now l) (lg_tasks l) \<Longrightarrow> lg_dependencies l' = lg_dependencies l \<Longrightarrow>
     dependencies_completed l' tid = dependencies_completed l tid"
  by (simp add: dependencies_completed_def list_ex_iff)

text \<open>The queue \<open>claim_next\<close> sees after its sweep is the queue \<open>list_ready\<close> shows.\<close>

lemma swept_claimable:
  assumes "ledger_ok policy l" "lg_tasks l' = map (swept_row now l) (lg_tasks l)"
    "lg_dependencies l' = lg_dependencies l" "lg_runs l' = lg_runs l" "t \<in> set (lg_tasks l)"
  shows "claimable policy l' kind caps project (swept_row now l t)
    \<longleftrightarrow> ready_to_list policy now l kind caps project t"
proof -
  have known: "(td_automation_run_id t, td_project_id t) \<in> set (lg_runs l)"
    using assms(1,5) by (simp add: ledger_ok_def contracts_ok_def)
  have "tr_state (swept_row now l t) = READY \<longleftrightarrow> tr_state t = READY \<or> tr_state t \<in> {CLAIMED, RUNNING}
      \<and> has_expired_claim now l (td_task_id t)" if "tr_attempt_count t < td_max_attempts t"
    using that by (auto simp: swept_row_def leased_def state_after_attempt_def)
  then show ?thesis
    using known by (auto simp: claimable_def ready_to_list_def suits_def assms(4) swept_busy[OF assms(1,2)]
        swept_dependencies[OF assms(2,3)])
qed

lemma insort_key_map: "insort_key k (f x) (map f xs) = map f (insort_key (k \<circ> f) x xs)"
  by (induction xs) auto

lemma sort_key_map: "sort_key k (map f xs) = map f (sort_key (\<lambda>x. k (f x)) xs)"
  by (induction xs) (simp_all add: insort_key_map[unfolded o_def])

lemma sort_key_cong: "(\<And>x. x \<in> set xs \<Longrightarrow> k x = h x) \<Longrightarrow> sort_key k xs = sort_key h xs"
proof (induction xs)
  case (Cons x xs)
  have "insort_key k x ys = insort_key h x ys" if "set ys \<subseteq> set xs" for ys
    using that Cons.prems by (induction ys) auto
  then show ?case using Cons by simp
qed simp

lemma view_task_id:
  "view_task env clock l tid = Inr v \<Longrightarrow> dget v ''orchestration_task_id'' = PStr tid"
  by (auto simp: view_task_def Let_def dget_def find_task_Some split: option.splits)

lemma create_claim_total:
  assumes "ledger_ok policy l" "t \<in> set (lg_tasks l)" "tr_state t = READY"
    and "cid \<notin> cl_claim_id ` set (lg_claims l)" "\<not> btrim_blank x"
  shows "\<exists>l'. create_claim_locked now cid token t kind x caps l = Inr l'
    \<and> find_task l' (td_task_id t) \<noteq> None \<and> holds_lease now (td_task_id t) x token l'"
proof -
  have ok: "ids_ok l" "leases_ok l" "contracts_ok l" using assms(1) by (simp_all add: ledger_ok_def)
  have found: "find_task l (td_task_id t) = Some t" by (rule find_task_mem[OF ok(1) assms(2)])
  then have free: "active_claims l (td_task_id t) = []"
    using unleased_no_claims[OF ok(1,2)] assms(3) by (simp add: leased_def)
  have "30 \<le> td_lease_seconds t"
    using ok(3) assms(2) by (auto simp: contracts_ok_def check_task_definition_iff task_definition.defs)
  then have later: "0 < seconds (td_lease_seconds t)" by (simp add: seconds_def)
  define c where "c = \<lparr>cl_claim_id = cid, cl_task_id = td_task_id t, cl_project_id = td_project_id t,
     cl_executor_kind = kind, cl_executor_id = x, cl_capabilities = caps,
     cl_lease_token_digest = ledger_digest token, cl_status = ACTIVE, cl_claimed_at = now,
     cl_lease_expires_at = now + seconds (td_lease_seconds t), cl_released_at = None, cl_release_reason = None\<rparr>"
  let ?m = "l\<lparr>lg_claims := lg_claims l @ [c], lg_tasks := update_where (\<lambda>r. td_task_id r = td_task_id t)
      (\<lambda>r. r\<lparr>tr_state := CLAIMED, tr_attempt_count := tr_attempt_count r + 1, tr_updated_at := now\<rparr>) (lg_tasks l)\<rparr>"
  obtain e where e: "append_event now (td_task_id t) (td_project_id t) ''claimed'' x
      [(''claim_id'', PStr cid), (''executor_kind'', PStr kind), (''capabilities'', PStrs caps)] ?m = Inr e"
    "\<forall>y. find_task e y = find_task ?m y"
    using append_event_total[OF assms(5)] by blast
  have "find_task ?m (td_task_id t) \<noteq> None" using found by (simp add: find_task_def find_update)
  moreover have "holds_lease now (td_task_id t) x token ?m"
    using later by (simp add: holds_lease_def active_claims_def c_def)
  moreover have "create_claim_locked now cid token t kind x caps l
      = Inr (e\<lparr>lg_workers := update_where (\<lambda>w. wk_executor_kind w = kind \<and> wk_executor_id w = x)
          (\<lambda>w. w\<lparr>wk_last_seen_at := now\<rparr>) (lg_workers e)\<rparr>)"
    using free assms(4) e(1) by (simp add: create_claim_locked_def Let_def rbind_def c_def)
  moreover have "find_task (e\<lparr>lg_workers := ws\<rparr>) y = find_task e y"
    "holds_lease now y x token (e\<lparr>lg_workers := ws\<rparr>) = holds_lease now y x token ?m" for ws y
    using append_event_tables(2)[OF e(1)] by (simp_all add: find_task_def holds_lease_def active_claims_def)
  ultimately show ?thesis using e(2) by simp
qed

lemma swept_queue_key:
  assumes "lg_tasks m = map (swept_row now l) (lg_tasks l)"
    and "map (\<lambda>c. (cl_claimed_at c, cl_task_id c)) (lg_claims m)
      = map (\<lambda>c. (cl_claimed_at c, cl_task_id c)) (lg_claims l)"
  shows "queue_key env now m (swept_row now l t) = queue_key env now l t"
proof -
  have find: "find_task m tid = map_option (swept_row now l) (find_task l tid)" for tid
  proof -
    have "find (\<lambda>t. td_task_id t = tid) (map (swept_row now l) ts)
        = map_option (swept_row now l) (find (\<lambda>t. td_task_id t = tid) ts)" for ts
      by (induction ts) simp_all
    then show ?thesis by (simp add: find_task_def assms(1))
  qed
  let ?P = "\<lambda>k run (claimed, tid). now - seconds 3600 \<le> claimed
      \<and> (case find_task k tid of None \<Rightarrow> False | Some t \<Rightarrow> td_automation_run_id t = run)"
  have count: "recent_claims now k run
      = int (length (filter (?P k run) (map (\<lambda>c. (cl_claimed_at c, cl_task_id c)) (lg_claims k))))" for k run
    by (simp add: recent_claims_def filter_map o_def)
  have "?P m run = ?P l run" for run by (auto simp: find fun_eq_iff split: option.splits)
  then have "recent_claims now m run = recent_claims now l run" for run
    unfolding count assms(2) by simp
  then show ?thesis by (simp add: queue_key_def swept_row_def)
qed

text \<open>The task \<open>claim_next\<close> takes is the first one \<open>list_ready\<close> shows.\<close>

lemma claim_next_queue:
  assumes "ledger_ok policy l"
    and "validate_executor kind x = Inr ()" "validate_capabilities supplied = Inr ()"
    and "registered_claim_policy now l kind x supplied project wt = Inr (caps, scope)"
    and "cid \<notin> cl_claim_id ` set (lg_claims l)"
  shows "case sort_key (queue_key env now l) (filter (ready_to_list policy now l kind caps scope) (lg_tasks l)) of
      [] \<Rightarrow> \<exists>l'. claim_next_step env policy now cid token kind x supplied project wt l = Inr (l', None)
    | t # _ \<Rightarrow> \<exists>l'. claim_next_step env policy now cid token kind x supplied project wt l
          = Inr (l', Some (td_task_id t))
        \<and> find_task l' (td_task_id t) \<noteq> None \<and> holds_lease now (td_task_id t) x token l'"
proof -
  obtain m where m: "expire_leases_locked now None l = Inr m"
    "lg_tasks m = map (swept_row now l) (lg_tasks l)" "lg_runs m = lg_runs l"
    "lg_workers m = lg_workers l" "lg_dependencies m = lg_dependencies l" "ledger_ok policy m"
    "cl_claim_id ` set (lg_claims m) = cl_claim_id ` set (lg_claims l)"
    "map (\<lambda>c. (cl_claimed_at c, cl_task_id c)) (lg_claims m) = map (\<lambda>c. (cl_claimed_at c, cl_task_id c)) (lg_claims l)"
    by (rule sweep_all[OF assms(1)])
  note key = swept_queue_key[OF m(2,8)]
  have "filter (claimable policy m kind caps scope) (lg_tasks m)
      = map (swept_row now l) (filter (ready_to_list policy now l kind caps scope) (lg_tasks l))"
    unfolding m(2) filter_map o_def
    by (intro arg_cong[of _ _ "map (swept_row now l)"] filter_cong refl)
      (rule swept_claimable[OF assms(1) m(2,5,3)])
  then have queue: "sort_key (queue_key env now m) (filter (claimable policy m kind caps scope) (lg_tasks m))
      = map (swept_row now l) (sort_key (queue_key env now l) (filter (ready_to_list policy now l kind caps scope) (lg_tasks l)))"
    by (simp add: sort_key_map o_def key)
  have step: "claim_next_step env policy now cid token kind x supplied project wt l =
    (case sort_key (queue_key env now m) (filter (claimable policy m kind caps scope) (lg_tasks m)) of
       [] \<Rightarrow> Inr (m, None)
     | t # _ \<Rightarrow> rbind (create_claim_locked now cid token t kind x caps m) (\<lambda>l. Inr (l, Some (td_task_id t))))"
    using assms(2-4) m(1) by (simp add: claim_next_step_def rbind_def)
  show ?thesis
  proof (cases "sort_key (queue_key env now l) (filter (ready_to_list policy now l kind caps scope) (lg_tasks l))")
    case Nil
    then show ?thesis using step queue by simp
  next
    case (Cons t ts)
    then have "swept_row now l t \<in> set (filter (claimable policy m kind caps scope) (lg_tasks m))"
      using queue by (metis list.set_intros(1) list.simps(9) set_sort)
    then have "swept_row now l t \<in> set (lg_tasks m)" "tr_state (swept_row now l t) = READY"
      by (simp_all add: claimable_def)
    from create_claim_total[OF m(6) this, of cid x now token kind caps] assms(5) m(7) executor_named[OF assms(2)]
    obtain k where "create_claim_locked now cid token (swept_row now l t) kind x caps m = Inr k"
      "find_task k (td_task_id t) \<noteq> None" "holds_lease now (td_task_id t) x token k" by auto
    then show ?thesis using step queue Cons by (simp add: rbind_def)
  qed
qed

lemma mapM_view_ids:
  "mapM (view_task env clock l) tids = Inr vs \<Longrightarrow> map (\<lambda>v. dget v ''orchestration_task_id'') vs = map PStr tids"
  by (induction tids arbitrary: vs) (auto simp: rbind_eq_Inr dest: view_task_id)

text \<open>(C17) What \<open>list_ready\<close> offers can be taken.  For an executor that may claim, \<open>claim_next\<close> at the same
  instant takes the first task \<open>list_ready\<close> lists, also when that task or the slot of its run is still
  blocked by a lease that has run out, and the executor then holds a live lease on it; when the list is
  empty it takes nothing.\<close>

theorem listed_task_is_claimed:
  assumes "ledger_ok policy l"
    and "validate_executor kind x = Inr ()" "validate_capabilities supplied = Inr ()"
    and "registered_claim_policy now l kind x supplied project wt = Inr (caps, scope)"
    and "cid \<notin> cl_claim_id ` set (lg_claims l)"
    and "list_ready env clock policy now kind caps scope l = Inr vs"
  shows "case vs of
      [] \<Rightarrow> snd (claim_next env clock policy now cid token kind x supplied project wt l) = Inr None
    | v # _ \<Rightarrow> \<exists>l' w tid. claim_next env clock policy now cid token kind x supplied project wt l = (l', Inr (Some w))
        \<and> dget v ''orchestration_task_id'' = PStr tid \<and> dget w ''orchestration_task_id'' = PStr tid
        \<and> holds_lease now tid x token l'"
proof -
  let ?queue = "sort_key (queue_key env now l) (filter (ready_to_list policy now l kind caps scope) (lg_tasks l))"
  have "mapM (view_task env clock l) (map td_task_id ?queue) = Inr vs"
    using assms(6) by (auto simp: list_ready_def rbind_eq_Inr)
  from mapM_view_ids[OF this] have ids: "map (\<lambda>v. dget v ''orchestration_task_id'') vs = map PStr (map td_task_id ?queue)" .
  note step = claim_next_queue[OF assms(1-5), of env token]
  show ?thesis
  proof (cases ?queue)
    case Nil
    then show ?thesis using ids step by (auto simp: claim_next_def transaction_def)
  next
    case (Cons t ts)
    then obtain v vs' where vs: "vs = v # vs'" "dget v ''orchestration_task_id'' = PStr (td_task_id t)"
      using ids by (cases vs) auto
    obtain l' where l': "claim_next_step env policy now cid token kind x supplied project wt l = Inr (l', Some (td_task_id t))"
      "find_task l' (td_task_id t) \<noteq> None" "holds_lease now (td_task_id t) x token l'"
      using step Cons by auto
    obtain w where w: "view_task env clock l' (td_task_id t) = Inr w" using view_task_total l'(2) by blast
    have "dget (w @ [(''lease_token'', PStr token)]) ''orchestration_task_id'' = PStr (td_task_id t)"
      using w by (auto simp: view_task_def Let_def dget_def find_task_Some split: option.splits)
    then show ?thesis
      using vs l' w by (auto simp: claim_next_def transaction_def rbind_def)
  qed
qed

theorem listed_task_is_claimed_witness:
  "\<exists>l' w. claim_next demo_env 4 demo_policy 4 ''claim-1'' ''token'' ''human'' ''ann'' [''compile''] None None
      (after_history demo_env demo_policy demo_history) = (l', Inr (Some w))
    \<and> dget w ''orchestration_task_id'' = PStr ''task-1''"
proof -
  let ?l = "after_history demo_env demo_policy demo_history"
  have checks: "validate_executor ''human'' ''ann'' = Inr ()" "validate_capabilities [''compile''] = Inr ()"
    "registered_claim_policy 4 ?l ''human'' ''ann'' [''compile''] None None = Inr ([''compile''], None)"
    "''claim-1'' \<notin> cl_claim_id ` set (lg_claims ?l)"
    by (simp_all add: validate_executor_def EXECUTOR_KINDS_def validate_capabilities_def short_text
        registered_claim_policy_def demo_ledger empty_ledger_def)
  have queue: "filter (ready_to_list demo_policy 4 ?l ''human'' [''compile''] None) (lg_tasks ?l) = [demo_task_row]"
    by (simp add: demo_ledger ready_to_list_def suits_def EXECUTOR_KINDS_def dependencies_completed_def
        empty_ledger_def live_in_run_def)
  obtain v where v: "view_task demo_env 4 ?l ''task-1'' = Inr v"
    using view_task_total[of demo_env 4 ?l "''task-1''"] by (auto simp: demo_ledger find_task_def)
  then have "list_ready demo_env 4 demo_policy 4 ''human'' [''compile''] None ?l = Inr [v]"
    using checks(2) queue
    by (simp add: list_ready_def validate_executor_def EXECUTOR_KINDS_def short_text rbind_def)
  from listed_task_is_claimed[OF every_ledger_ok[OF demo_policy_ok] checks this, of "''token''"]
    view_task_id[OF v] show ?thesis by auto
qed

section \<open>A listed task that no one can claim by name\<close>

text \<open>(C29) \<open>list_ready\<close> and \<open>claim\<close> count the slots of a run differently.  The list leaves out the leases
  that have run out; \<open>claim\<close> closes only an overdue lease of the task it is asked for and counts the
  others of the run as they are stored.  So a waiting task of a run whose slots are all taken, some of
  them by overdue leases, is listed, and every attempt to claim it by name is refused and leaves the
  tables, the overdue leases included, as they were.\<close>

theorem overdue_lease_blocks_its_run:
  assumes "ledger_ok policy l" "find_task l tid = Some t" "tr_state t = READY"
    and "suits l kind caps scope t"
    and "live_in_run now l (td_automation_run_id t) < sp_max_active_tasks_per_run policy"
    and "sp_max_active_tasks_per_run policy \<le> active_in_run l (td_automation_run_id t)"
    and "list_ready env clock policy now kind caps scope l = Inr vs"
  shows "PStr tid \<in> set (map (\<lambda>v. dget v ''orchestration_task_id'') vs)
    \<and> (\<forall>now' clock' cid token kind' x caps' scope' wt. \<exists>e.
        claim_task env clock' policy now' cid token tid kind' x caps' scope' wt l = (l, Inl e))"
proof
  have t: "t \<in> set (lg_tasks l)" "td_task_id t = tid" using find_task_Some[OF assms(2)] by simp_all
  have ids: "ids_ok l" and leases: "leases_ok l" using assms(1) by (simp_all add: ledger_ok_def)
  let ?queue = "sort_key (queue_key env now l) (filter (ready_to_list policy now l kind caps scope) (lg_tasks l))"
  have "mapM (view_task env clock l) (map td_task_id ?queue) = Inr vs"
    using assms(7) by (auto simp: list_ready_def rbind_eq_Inr)
  from mapM_view_ids[OF this] have "set (map (\<lambda>v. dget v ''orchestration_task_id'') vs) = PStr ` td_task_id ` set ?queue"
    by (metis list.set_map)
  moreover have "t \<in> set ?queue" using t assms(3-5) by (simp add: ready_to_list_def)
  ultimately show "PStr tid \<in> set (map (\<lambda>v. dget v ''orchestration_task_id'') vs)" using t(2) by blast
  have sweep: "expire_leases_locked now' (Some tid) l = Inr l" for now'
    using unleased_no_claims[OF ids leases assms(2)] assms(3) by (intro sweep_of_unclaimed) (simp add: leased_def)
  have none: "find (\<lambda>r. td_task_id r = tid \<and> claimable policy l k c p r) (lg_tasks l) = None" for k c p
    using task_of_id[OF ids assms(2)] assms(6) by (auto simp: find_None_iff claimable_def)
  have "\<exists>e. claim_step policy now' cid token tid kind' x caps' scope' wt l = Inl e"
    for now' cid token kind' x caps' scope' wt
    by (auto simp: claim_step_def rbind_def sweep none split: sum.splits)
  then have "\<exists>e. claim_task env clock' policy now' cid token tid kind' x caps' scope' wt l = (l, Inl e)"
    for now' clock' cid token kind' x caps' scope' wt
  proof -
    assume fails: "\<And>now' cid token kind' x caps' scope' wt.
      \<exists>e. claim_step policy now' cid token tid kind' x caps' scope' wt l = Inl e"
    obtain e where "claim_step policy now' cid token tid kind' x caps' scope' wt l = Inl e" using fails by blast
    then show ?thesis by (simp add: claim_task_def committed_view_def transaction_def rbind_def)
  qed
  then show "\<forall>now' clock' cid token kind' x caps' scope' wt. \<exists>e.
      claim_task env clock' policy now' cid token tid kind' x caps' scope' wt l = (l, Inl e)"
    by blast
qed

text \<open>A task that was reported blocked and requeued, in a run whose current task was claimed by an
  executor that went away: its lease runs out at 30000009.\<close>

definition demo_waiting :: task_row where
  "demo_waiting = demo_task_row\<lparr>td_max_attempts := 3, tr_attempt_count := 1\<rparr>"

definition demo_held :: task_row where
  "demo_held = demo_task_row\<lparr>td_task_id := ''task-2'', td_step_key := ''code'', tr_sequence := 2,
     tr_state := CLAIMED, tr_attempt_count := 1\<rparr>"

definition demo_blocked_run :: ledger where
  "demo_blocked_run = empty_ledger\<lparr>lg_runs := [(''run-1'', ''p'')], lg_tasks := [demo_waiting, demo_held],
     lg_claims := [close_claim 5 CLAIM_COMPLETED ''result:blocked'' demo_claim,
       demo_claim\<lparr>cl_claim_id := ''claim-2'', cl_task_id := ''task-2'', cl_lease_expires_at := 30000009\<rparr>],
     lg_results := [\<lparr>rs_result_id = ''result-1'', rs_task_id = ''task-1'', rs_project_id = ''p'',
       rs_claim_id = ''claim-1'', rs_outcome = ''blocked'', rs_summary = ''no network'',
       rs_artifact_refs = [], rs_evidence = demo_evidence, rs_payload_digest = [],
       rs_submitted_by = ''ann'', rs_submitted_at = 5\<rparr>]\<rparr>"

lemma demo_blocked_simps [simp]:
  "lg_tasks demo_blocked_run = [demo_waiting, demo_held]"
  "lg_runs demo_blocked_run = [(''run-1'', ''p'')]" "lg_events demo_blocked_run = []"
  "lg_dependencies demo_blocked_run = []"
  "td_task_id demo_waiting = ''task-1''" "td_task_id demo_held = ''task-2''"
  "tr_state demo_waiting = READY" "tr_state demo_held = CLAIMED"
  "td_automation_run_id demo_waiting = ''run-1''" "td_automation_run_id demo_held = ''run-1''"
  "td_project_id demo_waiting = ''p''" "td_project_id demo_held = ''p''"
  "td_max_attempts demo_waiting = 3" "td_max_attempts demo_held = 1"
  "tr_attempt_count demo_waiting = 1" "tr_attempt_count demo_held = 1"
  "td_eligible_executor_kinds demo_waiting = EXECUTOR_KINDS"
  "td_required_capabilities demo_waiting = [''compile'']"
  by (simp_all add: demo_blocked_run_def empty_ledger_def demo_waiting_def demo_held_def)

lemma demo_blocked_claims:
  "map cl_claim_id (lg_claims demo_blocked_run) = [''claim-1'', ''claim-2'']"
  "map cl_executor_id (lg_claims demo_blocked_run) = [''ann'', ''ann'']"
  "map cl_task_id (lg_claims demo_blocked_run) = [''task-1'', ''task-2'']"
  "map cl_status (lg_claims demo_blocked_run) = [CLAIM_COMPLETED, ACTIVE]"
  "map rs_claim_id (lg_results demo_blocked_run) = [''claim-1'']"
  by (simp_all add: demo_blocked_run_def empty_ledger_def demo_claim_def)

lemma demo_blocked_active:
  "active_claims demo_blocked_run ''task-1'' = []"
  "active_claims demo_blocked_run ''task-2'' =
     [demo_claim\<lparr>cl_claim_id := ''claim-2'', cl_task_id := ''task-2'', cl_lease_expires_at := 30000009\<rparr>]"
  "length (claims_of demo_blocked_run ''task-1'') = 1" "length (claims_of demo_blocked_run ''task-2'') = 1"
  "completed_ids (lg_claims demo_blocked_run) = [''claim-1'']"
  by (simp_all add: demo_blocked_run_def empty_ledger_def active_claims_def claims_of_def completed_ids_def
      demo_claim_def close_claim_def)

lemma demo_contracts:
  "check_task_definition (task_definition.truncate demo_waiting) = Inr (task_definition.truncate demo_waiting)"
  "check_task_definition (task_definition.truncate demo_held) = Inr (task_definition.truncate demo_held)"
  by (simp_all add: demo_waiting_def demo_held_def demo_task_row_def new_task_row_def task_definition.defs
      demo_task_def check_task_definition_iff required_text_def task_kinds_def)

lemma demo_blocked_run_ok: "ledger_ok demo_policy demo_blocked_run"
proof -
  have "cl_executor_id ` set (lg_claims demo_blocked_run) = {''ann''}"
    using demo_blocked_claims(2) by (metis list.set_map list.set(1,2) insert_absorb2)
  moreover have "cl_task_id ` set (lg_claims demo_blocked_run) = {''task-1'', ''task-2''}"
    using demo_blocked_claims(3) by (metis list.set_map list.set(1,2))
  ultimately have "ids_ok demo_blocked_run"
    by (simp add: ids_ok_def demo_blocked_claims(1) btrim_blank_def)
  moreover have "leases_ok demo_blocked_run" "attempts_ok demo_blocked_run"
    by (simp_all add: leases_ok_def attempts_ok_def demo_blocked_active leased_def)
  moreover have "rs_claim_id ` set (lg_results demo_blocked_run) = {''claim-1''}"
    using demo_blocked_claims(5) by (metis list.set_map list.set(1,2))
  then have "results_ok demo_blocked_run"
    by (simp add: results_ok_def demo_blocked_claims(5) demo_blocked_active)
  moreover have "log_ok demo_blocked_run" by (simp add: log_ok_def)
  moreover have "runs_ok demo_policy demo_blocked_run"
    by (simp add: runs_ok_def active_in_run_def active_states_def)
  moreover have "contracts_ok demo_blocked_run" by (simp add: contracts_ok_def demo_contracts)
  ultimately show ?thesis by (simp add: ledger_ok_def)
qed

theorem overdue_lease_blocks_its_run_witness:
  "\<exists>e. claim_task demo_env 30000010 demo_policy 30000010 ''claim-3'' ''t'' ''task-1'' ''human'' ''bob''
     [''compile''] None None demo_blocked_run = (demo_blocked_run, Inl e)"
proof -
  let ?l = demo_blocked_run
  have find: "find_task ?l ''task-1'' = Some demo_waiting" "find_task ?l ''task-2'' = Some demo_held"
    by (simp_all add: find_task_def)
  have suits: "suits ?l ''human'' [''compile''] None demo_waiting"
    by (simp add: suits_def EXECUTOR_KINDS_def dependencies_completed_def)
  have live: "live_in_run 30000010 ?l ''run-1'' = 0"
    by (simp add: live_in_run_def has_live_claim_def demo_blocked_active)
  have active: "active_in_run ?l ''run-1'' = 1" by (simp add: active_in_run_def active_states_def)
  have "\<exists>vs. mapM (view_task demo_env 1 ?l) ids = Inr vs" if "set ids \<subseteq> {''task-1'', ''task-2''}" for ids
    using that
  proof (induction ids)
    case (Cons i ids)
    then have "find_task ?l i \<noteq> None" using find by auto
    then obtain v where "view_task demo_env 1 ?l i = Inr v" using view_task_total by blast
    with Cons show ?case by (auto simp: rbind_def)
  qed simp
  then obtain vs where "list_ready demo_env 1 demo_policy 30000010 ''human'' [''compile''] None ?l = Inr vs"
    by (fastforce simp: list_ready_def validate_executor_def EXECUTOR_KINDS_def short_text
        validate_capabilities_def rbind_def)
  from overdue_lease_blocks_its_run[OF demo_blocked_run_ok find(1) _ suits _ _ this] live active
  show ?thesis by simp
qed

section \<open>Limits\<close>

definition leases_in_run :: "ledger \<Rightarrow> string \<Rightarrow> claim_row list" where
  "leases_in_run l run = filter (\<lambda>c. cl_status c = ACTIVE
     \<and> (case find_task l (cl_task_id c) of None \<Rightarrow> False | Some t \<Rightarrow> td_automation_run_id t = run)) (lg_claims l)"

lemma leases_bounded:
  assumes "ledger_ok policy l"
  shows "int (length (leases_in_run l run)) \<le> active_in_run l run"
proof -
  have ok: "ids_ok l" "leases_ok l" using assms by (simp_all add: ledger_ok_def)
  have one: "c = d" if "c \<in> set (lg_claims l)" "d \<in> set (lg_claims l)" "cl_status c = ACTIVE" "cl_status d = ACTIVE"
    "cl_task_id c = cl_task_id d" for c d
    using holder_leased[OF ok that(1,3)] holder_leased[OF ok that(2,4)] that(5) by (metis list.inject)
  have "distinct (lg_claims l)" using ok(1) by (simp add: ids_ok_def distinct_map)
  then have "distinct (map cl_task_id (leases_in_run l run))"
    unfolding distinct_map leases_in_run_def by (intro conjI distinct_filter inj_onI) (auto intro: one)
  then have "length (leases_in_run l run) = card (cl_task_id ` set (leases_in_run l run))"
    by (metis distinct_card length_map list.set_map)
  also have "cl_task_id ` set (leases_in_run l run) \<subseteq> td_task_id ` set (filter (busy run) (lg_tasks l))"
  proof
    fix tid
    assume "tid \<in> cl_task_id ` set (leases_in_run l run)"
    then obtain c where c: "c \<in> set (lg_claims l)" "cl_status c = ACTIVE" "cl_task_id c = tid"
      "\<exists>t. find_task l tid = Some t \<and> td_automation_run_id t = run"
      by (auto simp: leases_in_run_def split: option.splits)
    then obtain t where "find_task l tid = Some t" "leased t" "td_automation_run_id t = run"
      using holder_leased[OF ok c(1,2)] by auto
    then show "tid \<in> td_task_id ` set (filter (busy run) (lg_tasks l))"
      using find_task_Some[of l tid t] by (auto simp: leased_def active_states_def)
  qed
  then have "card (cl_task_id ` set (leases_in_run l run)) \<le> length (filter (busy run) (lg_tasks l))"
    by (meson List.finite_set card_image_le card_length card_mono finite_imageI order_trans)
  finally show ?thesis by (simp add: active_in_run_def)
qed

text \<open>(C18) The limits hold in every reachable table.  Under the policy read from the environment (one task
  per run when it is not set), no run ever has more active tasks, and so more leases, than the policy
  allows, which is at most 100; and no task is ever claimed more often than its definition allows,
  which is at most 100 times.\<close>

theorem runs_and_tasks_are_limited:
  assumes "parse_orchestration_scheduling_policy decimal value = Inr policy"
  shows "int (length (leases_in_run (after_history env policy history) run))
        \<le> active_in_run (after_history env policy history) run
    \<and> active_in_run (after_history env policy history) run \<le> sp_max_active_tasks_per_run policy
    \<and> sp_max_active_tasks_per_run policy \<le> (if value = None then 1 else 100)
    \<and> (\<forall>t\<in>set (lg_tasks (after_history env policy history)).
        int (length (claims_of (after_history env policy history) (td_task_id t))) \<le> td_max_attempts t
        \<and> td_max_attempts t \<le> 100)"
proof -
  have policy: "\<exists>n. new_scheduling_policy n = Inr policy \<and> (value = None \<longrightarrow> n = 1)"
    using assms by (auto simp: parse_orchestration_scheduling_policy_def Let_def
        split: option.splits if_splits sum.splits exn.splits)
  then obtain n where n: "new_scheduling_policy n = Inr policy" "value = None \<longrightarrow> n = 1" by blast
  let ?l = "after_history env policy history"
  have ok: "ledger_ok policy ?l" by (rule every_ledger_ok[OF n(1)])
  have "sp_max_active_tasks_per_run policy \<le> (if value = None then 1 else 100)"
    using n by (auto simp: new_scheduling_policy_def split: if_splits)
  moreover have "active_in_run ?l run \<le> sp_max_active_tasks_per_run policy"
    using ok by (simp add: ledger_ok_def runs_ok_def)
  moreover have "int (length (claims_of ?l (td_task_id t))) \<le> td_max_attempts t \<and> td_max_attempts t \<le> 100"
    if "t \<in> set (lg_tasks ?l)" for t
    using ok that by (auto simp: ledger_ok_def attempts_ok_def contracts_ok_def check_task_definition_iff
        task_definition.defs)
  ultimately show ?thesis using leases_bounded[OF ok] by blast
qed

theorem runs_and_tasks_are_limited_witness:
  "length (leases_in_run (after_history demo_env demo_policy demo_claimed) ''run-1'') \<le> 1"
proof -
  have "parse_orchestration_scheduling_policy (\<lambda>_. None) None = Inr demo_policy"
    by (simp add: parse_orchestration_scheduling_policy_def demo_policy_ok)
  from runs_and_tasks_are_limited[OF this, of demo_env demo_claimed "''run-1''"] show ?thesis by simp
qed

end
