(* ===== verification/OrchestrationWorker.thy ===== *)
theory OrchestrationWorker
  imports TaskLedgerLaws
begin

text \<open>
  The worker that claims tasks from the ledger (\<open>application/orchestration_worker.py\<close>): its
  configuration, the result of a handler, and \<open>run_once\<close> over any task queue.  The queue is a record of
  operations on a state, the interface \<open>OrchestrationTaskQueue\<close> of the code; the locale \<open>worker_queue\<close>
  states what the worker relies on and the interpretation shows that the task ledger provides it,
  whatever other processes do between two calls.  What a handler does is an argument: how many
  heartbeats the lease thread sends meanwhile, whether the worker is told to stop, and how it ends.
\<close>

section \<open>The queue interface\<close>

record 's task_queue =
  q_list_ready :: "string \<Rightarrow> string list \<Rightarrow> string option \<Rightarrow> 's \<Rightarrow> 's \<times> pydict list result"
  q_claim :: "string \<Rightarrow> string \<Rightarrow> string \<Rightarrow> string list \<Rightarrow> string \<Rightarrow> string option \<Rightarrow> 's \<Rightarrow> 's \<times> pydict result"
  q_heartbeat :: "string \<Rightarrow> string \<Rightarrow> string \<Rightarrow> 's \<Rightarrow> 's \<times> pydict result"
  q_release :: "string \<Rightarrow> string \<Rightarrow> string \<Rightarrow> string \<Rightarrow> 's \<Rightarrow> 's \<times> pydict result"
  q_record_result ::
    "string \<Rightarrow> string \<Rightarrow> string \<Rightarrow> string \<Rightarrow> string \<Rightarrow> string list \<Rightarrow> pydict \<Rightarrow> 's \<Rightarrow> 's \<times> pydict result"

section \<open>Configuration and results\<close>

text \<open>The two intervals are exact rationals: a NaN, which the bounds refuse, has no counterpart.\<close>

record worker_configuration =
  wc_executor_kind :: string
  wc_executor_id :: string
  wc_capabilities :: "string list"
  wc_worker_token :: string
  wc_project_id :: "string option"
  wc_heartbeat_interval_seconds :: rat
  wc_idle_poll_seconds :: rat

definition new_worker_configuration :: "worker_configuration \<Rightarrow> worker_configuration result" where
  "new_worker_configuration c =
    (if blank (wc_executor_id c) then Inl (ValueError ''worker executor_id must not be blank'')
     else if wc_capabilities c = [] \<or> list_ex blank (wc_capabilities c) then
       Inl (ValueError ''worker requires non-blank capabilities'')
     else if \<not> distinct (wc_capabilities c) then
       Inl (ValueError ''worker capabilities must be unique'')
     else if blank (wc_worker_token c) \<or> 500 < py_len (wc_worker_token c) then
       Inl (ValueError ''worker token must be non-blank and bounded'')
     else if \<not> (1 / 100 \<le> wc_heartbeat_interval_seconds c \<and> wc_heartbeat_interval_seconds c \<le> 3600) then
       Inl (ValueError ''worker heartbeat interval is out of bounds'')
     else if \<not> (1 / 100 \<le> wc_idle_poll_seconds c \<and> wc_idle_poll_seconds c \<le> 3600) then
       Inl (ValueError ''worker idle poll interval is out of bounds'')
     else Inr c)"

record execution_result =
  er_outcome :: string
  er_summary :: string
  er_artifact_refs :: "string list"
  er_evidence :: pydict

definition new_execution_result :: "text_tables \<Rightarrow> execution_result \<Rightarrow> execution_result result" where
  "new_execution_result u r =
    (if er_outcome r \<notin> {''completed'', ''failed'', ''blocked''} then
       Inl (ValueError ''worker result outcome is invalid'')
     else if blank (er_summary r) \<or> 10000 < py_len (er_summary r) then
       Inl (ValueError ''worker result summary must be non-blank and bounded'')
     else if list_ex (\<lambda>v. blank v \<or> 2000 < py_len v) (er_artifact_refs r) then
       Inl (ValueError ''worker artifact references must be non-blank and bounded'')
     else if \<not> distinct (er_artifact_refs r) then
       Inl (ValueError ''worker artifact references must be unique'')
     else if er_outcome r = ''completed'' \<and> er_artifact_refs r = [] then
       Inl (ValueError ''completed worker result requires artifact references'')
     else if er_outcome r = ''completed'' \<and> er_evidence r = [] then
       Inl (ValueError ''completed worker result requires acceptance evidence'')
     else rbind (validate_orchestration_result_evidence u (er_evidence r)) (\<lambda>_. Inr r))"

datatype iteration_status = IDLE | SUBMITTED_RESULT | RELEASED_LEASE | LEASE_LOST

fun iteration_status_value :: "iteration_status \<Rightarrow> string" where
  "iteration_status_value IDLE = ''idle''"
| "iteration_status_value SUBMITTED_RESULT = ''submitted''"
| "iteration_status_value RELEASED_LEASE = ''released''"
| "iteration_status_value LEASE_LOST = ''lease_lost''"

record worker_iteration =
  it_status :: iteration_status
  it_task_id :: "string option"
  it_action :: "string option"
  it_outcome :: "string option"
  it_recovered_expired_lease :: bool
  it_detail :: "string option"

definition iteration_dict :: "worker_iteration \<Rightarrow> pydict" where
  "iteration_dict i = filter (\<lambda>(k, v). v \<noteq> PNone)
    [(''status'', PStr (iteration_status_value (it_status i))),
     (''task_id'', text_or_none (it_task_id i)), (''action'', text_or_none (it_action i)),
     (''outcome'', text_or_none (it_outcome i)),
     (''recovered_expired_lease'', PBool (it_recovered_expired_lease i)),
     (''detail'', text_or_none (it_detail i))]"

definition idle_iteration :: "string option \<Rightarrow> worker_iteration" where
  "idle_iteration detail = \<lparr>it_status = IDLE, it_task_id = None, it_action = None, it_outcome = None,
     it_recovered_expired_lease = False, it_detail = detail\<rparr>"

section \<open>What a handler does\<close>

text \<open>How \<open>execute\<close> ends: with a result, with none, by raising the bounded error of the handlers, by
  raising the cancellation, or by raising any other exception, of which the worker reads the name.\<close>

datatype handler_end =
  Finished execution_result
| Nothing_returned
| Execution_error string string
| Cancelled
| Other_error string

record handler_run =
  hr_heartbeats :: nat
  hr_stop_requested :: bool
  hr_end :: handler_end

text \<open>Python's name of the exception types of the model; an \<open>IntegrityError\<close> has the name of the subclass
  the driver raises for the kind of the constraint.\<close>

fun exn_name :: "exn \<Rightarrow> string" where
  "exn_name (ValueError m) = ''ValueError''"
| "exn_name (RuntimeError m) = ''RuntimeError''"
| "exn_name (TypeError m) = ''TypeError''"
| "exn_name (AttributeError m) = ''AttributeError''"
| "exn_name (KeyError m) = ''KeyError''"
| "exn_name (IndexError m) = ''IndexError''"
| "exn_name (ZeroDivisionError m) = ''ZeroDivisionError''"
| "exn_name (OverflowError m) = ''OverflowError''"
| "exn_name (PersistenceConflictError m) = ''PersistenceConflictError''"
| "exn_name (IntegrityError m) = ''IntegrityError''"


definition failed_execution_result :: "text_tables \<Rightarrow> handler_end \<Rightarrow> execution_result result" where
  "failed_execution_result u ended =
    (let (summary, error_kind) = (case ended of
           Execution_error m kind \<Rightarrow>
             (if py_strip m \<noteq> [] then py_strip m else ''Task handler failed'', kind)
         | Other_error name \<Rightarrow> (''Task handler failed with '' @ name, ''handler_exception'')
         | _ \<Rightarrow> (''Task handler failed with RuntimeError'', ''handler_exception''))
     in new_execution_result u
          \<lparr>er_outcome = ''failed'', er_summary = concat (take 10000 (utf8_chars summary)),
           er_artifact_refs = [], er_evidence = [(''error_kind'', PStr error_kind)]\<rparr>)"

section \<open>One iteration\<close>

definition lease_lost_iteration :: "string \<Rightarrow> string \<Rightarrow> bool \<Rightarrow> string \<Rightarrow> worker_iteration" where
  "lease_lost_iteration task_id action recovered error_name =
    \<lparr>it_status = LEASE_LOST, it_task_id = Some task_id, it_action = Some action, it_outcome = None,
     it_recovered_expired_lease = recovered,
     it_detail = Some (error_name @ '': lease is no longer owned by this worker'')\<rparr>"

definition required_task_text :: "pydict \<Rightarrow> string \<Rightarrow> string result" where
  "required_task_text task key =
    (case dget task key of
       PStr s \<Rightarrow> if s = [] then Inl (ValueError (''claimed task is missing '' @ key)) else Inr s
     | _ \<Rightarrow> Inl (ValueError (''claimed task is missing '' @ key)))"

definition recoverable_messages :: "string list" where
  "recoverable_messages =
    [''is not ready or executor capabilities do not match'', ''is not accepting new Tasks'',
     ''concurrency limit is exhausted'']"

definition recoverable :: "exn \<Rightarrow> bool" where
  "recoverable e \<longleftrightarrow> (case e of
     ValueError m \<Rightarrow> list_ex (\<lambda>v. is_substring v m) recoverable_messages
   | _ \<Rightarrow> False)"

text \<open>\<open>_claim_supported_task\<close>: the first listed task with a handler that can be claimed.\<close>

fun claim_first ::
    "'s task_queue \<Rightarrow> string list \<Rightarrow> worker_configuration \<Rightarrow> pydict list \<Rightarrow> 's \<Rightarrow> 's \<times> pydict option result"
  where
  "claim_first q actions c [] s = (s, Inr None)"
| "claim_first q actions c (task # ready) s =
    (case (dget task ''action'', dget task ''orchestration_task_id'') of
       (PStr action, PStr task_id) \<Rightarrow>
         if action \<in> set actions \<and> task_id \<noteq> [] then
           (case q_claim q task_id (wc_executor_kind c) (wc_executor_id c) (wc_capabilities c)
               (wc_worker_token c) (wc_project_id c) s of
              (s', Inr d) \<Rightarrow> (s', Inr (Some d))
            | (s', Inl e) \<Rightarrow>
                if recoverable e then claim_first q actions c ready s' else (s', Inl e))
         else claim_first q actions c ready s
     | _ \<Rightarrow> claim_first q actions c ready s)"

definition claim_supported_task ::
    "'s task_queue \<Rightarrow> string list \<Rightarrow> worker_configuration \<Rightarrow> 's \<Rightarrow> 's \<times> pydict option result" where
  "claim_supported_task q actions c s =
    (case q_list_ready q (wc_executor_kind c) (wc_capabilities c) (wc_project_id c) s of
       (s', Inl e) \<Rightarrow> (s', Inl e)
     | (s', Inr ready) \<Rightarrow> claim_first q actions c ready s')"

text \<open>\<open>_heartbeat_loop\<close> while the handler runs: it ends at the first refusal.\<close>

fun heartbeat_loop ::
    "'s task_queue \<Rightarrow> string \<Rightarrow> string \<Rightarrow> string \<Rightarrow> nat \<Rightarrow> 's \<Rightarrow> 's \<times> exn option" where
  "heartbeat_loop q task_id x token 0 s = (s, None)"
| "heartbeat_loop q task_id x token (Suc n) s =
    (case q_heartbeat q task_id x token s of
       (s', Inl e) \<Rightarrow> (s', Some e)
     | (s', Inr v) \<Rightarrow> heartbeat_loop q task_id x token n s')"

definition heartbeat_interval :: "worker_configuration \<Rightarrow> pydict \<Rightarrow> rat" where
  "heartbeat_interval c task =
    (case dget task ''lease_seconds'' of
       PInt n \<Rightarrow> if 0 < n then min (wc_heartbeat_interval_seconds c) (max (1 / 100) (of_int n / 3))
                else wc_heartbeat_interval_seconds c
     | PBool True \<Rightarrow> min (wc_heartbeat_interval_seconds c) (max (1 / 100) (1 / 3))
     | PFloat r \<Rightarrow> if 0 < r then min (wc_heartbeat_interval_seconds c) (max (1 / 100) (r / 3))
                  else wc_heartbeat_interval_seconds c
     | _ \<Rightarrow> wc_heartbeat_interval_seconds c)"

definition release_claim ::
    "'s task_queue \<Rightarrow> worker_configuration \<Rightarrow> string \<Rightarrow> string \<Rightarrow> string \<Rightarrow> bool \<Rightarrow> string \<Rightarrow> 's
     \<Rightarrow> 's \<times> worker_iteration result" where
  "release_claim q c task_id action token recovered reason s =
    (case q_release q task_id (wc_executor_id c) token reason s of
       (s', Inl e) \<Rightarrow> (s', Inr (lease_lost_iteration task_id action recovered (exn_name e)))
     | (s', Inr v) \<Rightarrow>
         (s', Inr \<lparr>it_status = RELEASED_LEASE, it_task_id = Some task_id, it_action = Some action,
            it_outcome = None, it_recovered_expired_lease = recovered, it_detail = Some reason\<rparr>))"

definition persisted_outcome :: "pydict \<Rightarrow> string \<Rightarrow> string" where
  "persisted_outcome recorded outcome =
    (let state = dget_or recorded ''status'' (dget recorded ''state'')
     in if state = PStr ''failed'' then ''failed''
        else if state = PStr ''blocked'' then ''blocked'' else outcome)"

definition submit_result ::
    "'s task_queue \<Rightarrow> worker_configuration \<Rightarrow> string \<Rightarrow> string \<Rightarrow> string \<Rightarrow> bool \<Rightarrow> execution_result \<Rightarrow> 's
     \<Rightarrow> 's \<times> worker_iteration result" where
  "submit_result q c task_id action token recovered r s =
    (case q_heartbeat q task_id (wc_executor_id c) token s of
       (s', Inl e) \<Rightarrow> (s', Inr (lease_lost_iteration task_id action recovered (exn_name e)))
     | (s', Inr _) \<Rightarrow>
        (case q_record_result q task_id (wc_executor_id c) token (er_outcome r) (er_summary r)
            (er_artifact_refs r) (er_evidence r) s' of
           (s'', Inl e) \<Rightarrow> (s'', Inr (lease_lost_iteration task_id action recovered (exn_name e)))
         | (s'', Inr recorded) \<Rightarrow>
             (s'', Inr \<lparr>it_status = SUBMITTED_RESULT, it_task_id = Some task_id,
                it_action = Some action, it_outcome = Some (persisted_outcome recorded (er_outcome r)),
                it_recovered_expired_lease = recovered, it_detail = None\<rparr>)))"

text \<open>What follows when the handler has ended and the heartbeat thread has stopped.\<close>

definition conclude ::
    "text_tables \<Rightarrow> 's task_queue \<Rightarrow> worker_configuration \<Rightarrow> string \<Rightarrow> string \<Rightarrow> string \<Rightarrow> bool \<Rightarrow> handler_run
     \<Rightarrow> 's \<times> exn option \<Rightarrow> 's \<times> worker_iteration result" where
  "conclude u q c task_id action token recovered run after =
    (case after of (s, Some e) \<Rightarrow> (s, Inr (lease_lost_iteration task_id action recovered (exn_name e)))
     | (s, None) \<Rightarrow>
        if hr_stop_requested run then
          release_claim q c task_id action token recovered
            ''worker shutdown before task completion'' s
        else case hr_end run of
          Finished r \<Rightarrow> submit_result q c task_id action token recovered r s
        | Cancelled \<Rightarrow>
            release_claim q c task_id action token recovered ''handler cancelled task execution'' s
        | ended \<Rightarrow>
            (case failed_execution_result u ended of
               Inl e \<Rightarrow> (s, Inl e)
             | Inr r \<Rightarrow> submit_result q c task_id action token recovered r s))"

definition had_expired_claim :: "pydict \<Rightarrow> bool" where
  "had_expired_claim claimed =
    (case dget claimed ''claims'' of
       PList claims \<Rightarrow> list_ex (\<lambda>v. case v of PDict d \<Rightarrow> dget d ''status'' = PStr ''expired'' | _ \<Rightarrow> False) claims
     | _ \<Rightarrow> False)"

text \<open>\<open>handlers\<close> maps an action to what its handler does with the task, without its lease token.\<close>

definition run_once ::
    "text_tables \<Rightarrow> 's task_queue \<Rightarrow> (string \<times> (pydict \<Rightarrow> handler_run)) list \<Rightarrow> worker_configuration \<Rightarrow> bool
     \<Rightarrow> 's \<Rightarrow> 's \<times> worker_iteration result" where
  "run_once u q handlers c stopping s =
    (if stopping then (s, Inr (idle_iteration (Some ''worker is stopping'')))
     else case claim_supported_task q (map fst handlers) c s of
       (s, Inl e) \<Rightarrow> (s, Inl e)
     | (s, Inr None) \<Rightarrow> (s, Inr (idle_iteration None))
     | (s, Inr (Some claimed)) \<Rightarrow>
        (case rbind (required_task_text claimed ''orchestration_task_id'') (\<lambda>task_id.
              rbind (required_task_text claimed ''action'') (\<lambda>action.
              rbind (required_task_text claimed ''lease_token'') (\<lambda>token.
              case map_of handlers action of
                None \<Rightarrow> Inl (KeyError action)
              | Some handler \<Rightarrow> Inr (task_id, action, token, handler)))) of
           Inl e \<Rightarrow> (s, Inl e)
         | Inr (task_id, action, token, handler) \<Rightarrow>
             let recovered = had_expired_claim claimed;
                 run = handler (filter (\<lambda>(k, v). k \<noteq> ''lease_token'') claimed)
             in (case q_heartbeat q task_id (wc_executor_id c) token s of
                   (s, Inl e) \<Rightarrow> (s, Inr (lease_lost_iteration task_id action recovered (exn_name e)))
                 | (s, Inr _) \<Rightarrow> conclude u q c task_id action token recovered run
                     (heartbeat_loop q task_id (wc_executor_id c) token (hr_heartbeats run) s))))"

definition new_worker :: "string list \<Rightarrow> string list result" where
  "new_worker actions =
    (if actions = [] then Inl (ValueError ''worker requires at least one action handler'')
     else if list_ex blank actions then Inl (ValueError ''worker handler actions must not be blank'')
     else Inr actions)"

text \<open>\<open>run_forever\<close> until it is stopped: what the handlers do in each round, the last one being the round
  before the stop event; the observer sees every iteration.\<close>

fun run_forever ::
    "text_tables \<Rightarrow> 's task_queue \<Rightarrow> worker_configuration \<Rightarrow> (string \<times> (pydict \<Rightarrow> handler_run)) list list
     \<Rightarrow> 's \<Rightarrow> 's \<times> worker_iteration list result" where
  "run_forever u q c [] s = (s, Inr [])"
| "run_forever u q c (handlers # rounds) s =
    (case run_once u q handlers c False s of
       (s, Inl e) \<Rightarrow> (s, Inl e)
     | (s, Inr i) \<Rightarrow>
        (case run_forever u q c rounds s of (s, r) \<Rightarrow> (s, rbind r (\<lambda>is. Inr (i # is)))))"

section \<open>What the worker relies on\<close>

text \<open>What a handler's end is worth: its result, or the failure the worker reports for it.\<close>

definition result_of :: "text_tables \<Rightarrow> handler_end \<Rightarrow> execution_result result" where
  "result_of u ended = (case ended of Finished r \<Rightarrow> Inr r | _ \<Rightarrow> failed_execution_result u ended)"

text \<open>An iteration is truthful when the queue shows what it claims to have done: under the lease of the
  worker, a submitted iteration stored what the handler of its action ended with, and a released one
  gave the lease back for the reason it states.\<close>

definition truthful ::
    "text_tables \<Rightarrow> (string \<Rightarrow> string \<Rightarrow> string \<Rightarrow> execution_result \<Rightarrow> 's \<Rightarrow> bool)
     \<Rightarrow> (string \<Rightarrow> string \<Rightarrow> string \<Rightarrow> string \<Rightarrow> 's \<Rightarrow> bool) \<Rightarrow> (string \<times> (pydict \<Rightarrow> handler_run)) list
     \<Rightarrow> worker_configuration \<Rightarrow> worker_iteration \<Rightarrow> 's \<Rightarrow> bool" where
  "truthful u stored given_back handlers c i s \<longleftrightarrow>
    (it_status i = SUBMITTED_RESULT \<longrightarrow> (\<exists>tid action token handler task r.
       it_task_id i = Some tid \<and> it_action i = Some action \<and> map_of handlers action = Some handler
       \<and> \<not> hr_stop_requested (handler task) \<and> result_of u (hr_end (handler task)) = Inr r
       \<and> stored tid (wc_executor_id c) token r s))
    \<and> (it_status i = RELEASED_LEASE \<longrightarrow> (\<exists>tid token reason. it_task_id i = Some tid \<and> it_detail i = Some reason
       \<and> given_back tid (wc_executor_id c) token reason s))"

text \<open>The contract of a queue: \<open>safe\<close> holds of its state and every call keeps it; a result is
  acknowledged only when it is stored under the lease of the caller, and a release only when the lease
  was given back.\<close>

locale worker_queue =
  fixes q :: "'s task_queue"
    and safe :: "'s \<Rightarrow> bool"
    and stored :: "string \<Rightarrow> string \<Rightarrow> string \<Rightarrow> execution_result \<Rightarrow> 's \<Rightarrow> bool"
    and given_back :: "string \<Rightarrow> string \<Rightarrow> string \<Rightarrow> string \<Rightarrow> 's \<Rightarrow> bool"
  assumes list_safe: "safe s \<Longrightarrow> safe (fst (q_list_ready q kind caps project s))"
    and claim_safe: "safe s \<Longrightarrow> safe (fst (q_claim q tid kind x caps wt project s))"
    and heartbeat_safe: "safe s \<Longrightarrow> safe (fst (q_heartbeat q tid x token s))"
    and release_safe: "safe s \<Longrightarrow> safe (fst (q_release q tid x token reason s))"
    and record_safe: "safe s \<Longrightarrow> safe (fst (q_record_result q tid x token outcome summary refs evidence s))"
    and record_stored: "safe s \<Longrightarrow> q_record_result q tid x token (er_outcome r) (er_summary r)
      (er_artifact_refs r) (er_evidence r) s = (s', Inr v) \<Longrightarrow> stored tid x token r s'"
    and release_given_back: "safe s \<Longrightarrow> q_release q tid x token reason s = (s', Inr v) \<Longrightarrow>
      given_back tid x token reason s'"
begin

lemma claim_first_safe: "safe s \<Longrightarrow> safe (fst (claim_first q actions c ready s))"
proof (induction ready arbitrary: s)
  case (Cons task ready)
  have claimed: "safe k" if "q_claim q tid (wc_executor_kind c) (wc_executor_id c) (wc_capabilities c)
      (wc_worker_token c) (wc_project_id c) s = (k, r)" for tid k r
    using claim_safe[OF Cons.prems] that by (metis fst_conv)
  have "safe (fst (case q_claim q tid (wc_executor_kind c) (wc_executor_id c) (wc_capabilities c)
      (wc_worker_token c) (wc_project_id c) s of
      (s', Inr d) \<Rightarrow> (s', Inr (Some d))
    | (s', Inl e) \<Rightarrow> if recoverable e then claim_first q actions c ready s' else (s', Inl e)))" for tid
    using Cons.IH by (auto split: prod.splits sum.splits dest: claimed)
  with Cons show ?case by (auto split: pyval.splits)
qed simp

lemma claim_supported_safe: "safe s \<Longrightarrow> safe (fst (claim_supported_task q actions c s))"
proof -
  assume "safe s"
  then have "safe k" if "q_list_ready q (wc_executor_kind c) (wc_capabilities c) (wc_project_id c) s = (k, r)" for k r
    using list_safe[of s] that by (metis fst_conv)
  then show ?thesis using claim_first_safe
    by (auto simp: claim_supported_task_def split: prod.splits sum.splits)
qed

lemma heartbeat_loop_safe: "safe s \<Longrightarrow> safe (fst (heartbeat_loop q tid x token n s))"
proof (induction n arbitrary: s)
  case (Suc n)
  have "safe (fst (q_heartbeat q tid x token s))" using heartbeat_safe Suc.prems by blast
  with Suc.IH show ?case by (auto split: prod.splits sum.splits)
qed simp

lemma release_claim_truthful:
  assumes "release_claim q c tid action token recovered reason s = (s', Inr i)" "safe s"
  shows "safe s' \<and> truthful u stored given_back handlers c i s'"
  using assms release_safe[OF assms(2)] release_given_back[OF assms(2)]
  by (auto simp: release_claim_def truthful_def lease_lost_iteration_def split: prod.splits sum.splits)
    (metis fst_conv)+

lemma submit_result_truthful:
  assumes "submit_result q c tid action token recovered r s = (s', Inr i)" "safe s"
    and "map_of handlers action = Some handler" "\<not> hr_stop_requested (handler task)"
    and "result_of u (hr_end (handler task)) = Inr r"
  shows "safe s' \<and> truthful u stored given_back handlers c i s'"
proof (cases "q_heartbeat q tid (wc_executor_id c) token s")
  case (Pair k a)
  then have k: "safe k" using heartbeat_safe[OF assms(2)] by (metis fst_conv)
  show ?thesis
  proof (cases a)
    case (Inl e)
    then show ?thesis using assms(1) Pair k
      by (auto simp: submit_result_def truthful_def lease_lost_iteration_def)
  next
    case (Inr v)
    obtain m b where m: "q_record_result q tid (wc_executor_id c) token (er_outcome r) (er_summary r)
        (er_artifact_refs r) (er_evidence r) k = (m, b)" by (meson surj_pair)
    then have "safe m" using record_safe[OF k] by (metis fst_conv)
    then show ?thesis
      using assms(1,3-5) Pair Inr m record_stored[OF k, of tid "wc_executor_id c" token r]
      by (cases b) (force simp: submit_result_def truthful_def lease_lost_iteration_def)+
  qed
qed

lemma conclude_truthful:
  assumes "conclude u q c tid action token recovered (handler task) (s, err) = (s', Inr i)" "safe s"
    and "map_of handlers action = Some handler"
  shows "safe s' \<and> truthful u stored given_back handlers c i s'"
proof (cases err)
  case (Some e)
  then show ?thesis using assms by (auto simp: conclude_def truthful_def lease_lost_iteration_def)
next
  case None
  show ?thesis
  proof (cases "hr_stop_requested (handler task)")
    case True
    then show ?thesis using assms None release_claim_truthful by (simp add: conclude_def)
  next
    case False
    note go = submit_result_truthful[OF _ assms(2,3) False]
    show ?thesis
    proof (cases "hr_end (handler task)")
      case Cancelled
      then show ?thesis using assms None False release_claim_truthful by (simp add: conclude_def)
    qed (use assms None False go in \<open>auto simp: conclude_def result_of_def split: sum.splits\<close>)
  qed
qed

lemma run_once_truthful:
  assumes "run_once u q handlers c stopping s = (s', Inr i)" "safe s"
  shows "safe s' \<and> truthful u stored given_back handlers c i s'"
proof (cases stopping)
  case True
  then show ?thesis using assms by (auto simp: run_once_def truthful_def idle_iteration_def)
next
  case False
  obtain k a where k: "claim_supported_task q (map fst handlers) c s = (k, a)" by (meson surj_pair)
  then have safe: "safe k" using claim_supported_safe[OF assms(2)] by (metis fst_conv)
  show ?thesis
  proof (cases "\<exists>claimed. a = Inr (Some claimed)")
    case none: False
    then show ?thesis using assms False k safe
      by (auto simp: run_once_def truthful_def idle_iteration_def split: sum.splits option.splits)
  next
    case True
    then obtain claimed where claimed: "a = Inr (Some claimed)" by blast
    obtain tid action token handler where parts: "required_task_text claimed ''orchestration_task_id'' = Inr tid"
      "required_task_text claimed ''action'' = Inr action" "required_task_text claimed ''lease_token'' = Inr token"
      "map_of handlers action = Some handler"
      using assms(1) False k claimed
      by (auto simp: run_once_def rbind_def split: sum.splits option.splits)
    obtain m b where m: "q_heartbeat q tid (wc_executor_id c) token k = (m, b)" by (meson surj_pair)
    then have "safe m" using heartbeat_safe[OF safe] by (metis fst_conv)
    let ?task = "filter (\<lambda>(k, v). k \<noteq> ''lease_token'') claimed"
    obtain n err where n: "heartbeat_loop q tid (wc_executor_id c) token (hr_heartbeats (handler ?task)) m = (n, err)"
      by (meson surj_pair)
    then have "safe n" using heartbeat_loop_safe[OF \<open>safe m\<close>] by (metis fst_conv)
    show ?thesis
    proof (cases b)
      case (Inl e)
      then show ?thesis using assms(1) False k claimed parts m \<open>safe m\<close>
        by (auto simp: run_once_def rbind_def truthful_def lease_lost_iteration_def Let_def)
    next
      case (Inr v)
      then have "conclude u q c tid action token (had_expired_claim claimed) (handler ?task) (n, err) = (s', Inr i)"
        using assms(1) False k claimed parts m n by (simp add: run_once_def rbind_def Let_def)
      then show ?thesis using conclude_truthful \<open>safe n\<close> parts(4) by blast
    qed
  qed
qed

end

section \<open>The ledger as the queue of a worker\<close>

text \<open>Before each call of the worker other processes run commands on the ledger; the call then has an
  instant of its own, and a claim draws its random id and token.\<close>

record moment =
  mo_commands :: "(int \<times> command) list"
  mo_now :: int
  mo_claim_id :: string
  mo_lease_token :: string

record world =
  w_ledger :: ledger
  w_moments :: "nat \<Rightarrow> moment"
  w_turn :: nat

definition call :: "ledger_env \<Rightarrow> scheduling_policy \<Rightarrow> (moment \<Rightarrow> ledger \<Rightarrow> ledger \<times> 'a) \<Rightarrow> world \<Rightarrow> world \<times> 'a" where
  "call env policy f w =
    (let m = w_moments w (w_turn w)
     in case f m (fold (perform env policy) (mo_commands m) (w_ledger w)) of
       (l, r) \<Rightarrow> (w\<lparr>w_ledger := l, w_turn := Suc (w_turn w)\<rparr>, r))"

definition ledger_queue :: "ledger_env \<Rightarrow> scheduling_policy \<Rightarrow> world task_queue" where
  "ledger_queue env policy = \<lparr>
     q_list_ready = (\<lambda>kind caps project. call env policy (\<lambda>m l.
       (l, list_ready env (mo_now m) policy (mo_now m) kind caps project l))),
     q_claim = (\<lambda>tid kind x caps wt project. call env policy (\<lambda>m.
       claim_task env (mo_now m) policy (mo_now m) (mo_claim_id m) (mo_lease_token m) tid kind x caps
         project (Some wt))),
     q_heartbeat = (\<lambda>tid x token. call env policy (\<lambda>m. heartbeat env (mo_now m) (mo_now m) tid x token)),
     q_release = (\<lambda>tid x token reason. call env policy (\<lambda>m.
       release env (mo_now m) (mo_now m) tid x token reason)),
     q_record_result = (\<lambda>tid x token outcome summary refs evidence. call env policy (\<lambda>m.
       record_result env (mo_now m) (mo_now m) tid x token outcome summary refs evidence))\<rparr>"

text \<open>A result stored under a lease of the executor, and a lease it gave back.\<close>

definition result_stored :: "string \<Rightarrow> string \<Rightarrow> string \<Rightarrow> execution_result \<Rightarrow> world \<Rightarrow> bool" where
  "result_stored tid x token r w \<longleftrightarrow> (\<exists>c\<in>set (lg_claims (w_ledger w)). \<exists>row\<in>set (lg_results (w_ledger w)).
     cl_task_id c = tid \<and> cl_executor_id c = x \<and> cl_lease_token_digest c = ledger_digest token
     \<and> cl_status c = CLAIM_COMPLETED \<and> rs_claim_id row = cl_claim_id c
     \<and> rs_payload_digest row = result_digest tid (cl_claim_id c) (er_outcome r) (er_summary r)
         (er_artifact_refs r) (er_evidence r))"

definition lease_given_back :: "string \<Rightarrow> string \<Rightarrow> string \<Rightarrow> string \<Rightarrow> world \<Rightarrow> bool" where
  "lease_given_back tid x token reason w \<longleftrightarrow> (\<exists>c\<in>set (lg_claims (w_ledger w)).
     cl_task_id c = tid \<and> cl_executor_id c = x \<and> cl_lease_token_digest c = ledger_digest token
     \<and> cl_status c = RELEASED \<and> cl_release_reason c = Some reason)"

lemma fold_perform_ok:
  "ledger_ok policy l \<Longrightarrow> ledger_ok policy (fold (perform env policy) cmds l)"
  by (induction cmds arbitrary: l) (auto intro: micros_ok[OF perform_steps])

lemma call_ok:
  assumes "ledger_ok policy (w_ledger w)"
    and "\<And>m l. ledger_ok policy l \<Longrightarrow> fst (f m l) = l \<or> (\<exists>c. fst (f m l) = perform env policy c l)"
  shows "ledger_ok policy (w_ledger (fst (call env policy f w)))"
proof -
  let ?m = "w_moments w (w_turn w)"
  let ?l = "fold (perform env policy) (mo_commands ?m) (w_ledger w)"
  have ok: "ledger_ok policy ?l" by (rule fold_perform_ok[OF assms(1)])
  have "ledger_ok policy (fst (f ?m ?l))"
    using assms(2)[OF ok, of ?m] ok micros_ok[OF perform_steps[OF ok] ok] by metis
  then show ?thesis by (simp add: call_def Let_def split_beta)
qed

lemma call_result:
  "call env policy f w = (w', r) \<Longrightarrow>
     f (w_moments w (w_turn w)) (fold (perform env policy) (mo_commands (w_moments w (w_turn w))) (w_ledger w))
       = (w_ledger w', r)"
  by (auto simp: call_def Let_def split: prod.splits)

lemma release_leaves:
  assumes "release env clock now tid x token reason l = (l', Inr v)" "ledger_ok policy l"
  shows "\<exists>c\<in>set (lg_claims l'). cl_task_id c = tid \<and> cl_executor_id c = x
    \<and> cl_lease_token_digest c = ledger_digest token \<and> cl_status c = RELEASED \<and> cl_release_reason c = Some reason"
proof -
  have "release_step now tid x token reason l = Inr l'"
    using assms(1) by (auto simp: release_def committed_view_def transaction_def rbind_def split: sum.splits)
  note step = this
  then obtain m c t where m: "require_live_claim now tid x token l = Inr (m, c)" "find_task m tid = Some t"
    by (auto simp: release_step_def rbind_eq_Inr split: option.splits if_splits)
  have ev: "\<exists>ty pl. append_event now tid (td_project_id t) ty x pl (set_task_state now tid (state_after_attempt t)
      (set_claim (close_claim now RELEASED reason) (cl_claim_id c) m)) = Inr l'"
    using step m by (auto simp: release_step_def Let_def split: if_splits)
  note live = require_live_steps[OF m(1) assms(2)]
  then have "close_claim now RELEASED reason c \<in> set (lg_claims (set_claim (close_claim now RELEASED reason) (cl_claim_id c) m))"
    by (auto simp: set_claim_def set_update_where)
  then have "close_claim now RELEASED reason c \<in> set (lg_claims l')"
    using ev append_event_tables(2) by fastforce
  then show ?thesis using live by (intro bexI) (auto simp: close_claim_def)
qed

lemma find_Some_in: "find P xs = Some x \<Longrightarrow> x \<in> set xs \<and> P x"
  by (auto simp: find_Some_iff)

lemma record_leaves:
  assumes "record_result env clock now tid x token (er_outcome r) (er_summary r) (er_artifact_refs r)
      (er_evidence r) l = (l', Inr v)" "ledger_ok policy l"
  shows "\<exists>c\<in>set (lg_claims l'). \<exists>row\<in>set (lg_results l'). cl_task_id c = tid \<and> cl_executor_id c = x
    \<and> cl_lease_token_digest c = ledger_digest token \<and> cl_status c = CLAIM_COMPLETED
    \<and> rs_claim_id row = cl_claim_id c \<and> rs_payload_digest row = result_digest tid (cl_claim_id c) (er_outcome r)
        (er_summary r) (er_artifact_refs r) (er_evidence r)"
proof -
  let ?find = "\<lambda>k. find (\<lambda>c. cl_task_id c = tid \<and> cl_executor_id c = x
      \<and> cl_lease_token_digest c = ledger_digest token) (lg_claims k)"
  have step: "record_result_step (le_tables env) now tid x token (er_outcome r) (er_summary r)
      (er_artifact_refs r) (er_evidence r) l = Inr l'"
    using assms(1) by (auto simp: record_result_def committed_view_def transaction_def rbind_def split: sum.splits)
  show ?thesis
  proof (cases "lg_results l' = lg_results l")
    case False
    obtain m c t where m: "ledger_ok policy m" "record_first_result now t c (er_outcome r) (er_summary r)
        (er_artifact_refs r) (er_evidence r) m = Inr l'" "?find m = Some c" "cl_status c = ACTIVE"
        "find_task m tid = Some t" "reportable (le_tables env) t (er_outcome r) (er_summary r) (er_artifact_refs r)
        (er_evidence r)"
      using step assms(2) False by (rule record_result_Inr)
    note left = record_first_leaves[OF m(2,1,3-5)]
    let ?c = "close_claim now CLAIM_COMPLETED (''result:'' @ er_outcome r) c"
    obtain row where row: "find (\<lambda>r. rs_claim_id r = cl_claim_id c) (lg_results l') = Some row"
      "rs_payload_digest row = result_digest tid (cl_claim_id c) (er_outcome r) (er_summary r)
        (er_artifact_refs r) (er_evidence r)"
      using left(3) unfolding result_digest_def by blast
    have "row \<in> set (lg_results l')" "rs_claim_id row = cl_claim_id c" using row(1) by (auto simp: find_Some_iff)
    moreover have "?c \<in> set (lg_claims l')" "cl_task_id ?c = tid" "cl_executor_id ?c = x"
      "cl_lease_token_digest ?c = ledger_digest token"
      using find_Some_in[OF left(1)] by simp_all
    ultimately show ?thesis using row(2) by (intro bexI[of _ ?c] bexI[of _ row]) simp_all
  next
    case True
    obtain m where m: "expire_leases_locked now (Some tid) l = Inr m" "lg_results m = lg_results l"
      using expire_leases_effect[OF assms(2), of now "Some tid"] by blast
    obtain c where c: "?find m = Some c"
      using step m by (auto simp: record_result_step_def rbind_eq_Inr split: option.splits)
    obtain t where t: "find_task m tid = Some t"
      using step m c by (auto simp: record_result_step_def rbind_eq_Inr split: if_splits option.splits)
    have "cl_status c \<noteq> ACTIVE"
    proof
      assume "cl_status c = ACTIVE"
      then have "record_first_result now t c (er_outcome r) (er_summary r) (er_artifact_refs r) (er_evidence r) m = Inr l'"
        using step m c t by (auto simp: record_result_step_def rbind_eq_Inr split: if_splits)
      then obtain k row where k: "insert_result row m = Inr k" and ev: "\<exists>ty pl. append_event now (td_task_id t)
          (td_project_id t) ty (cl_executor_id c) pl (set_task_state now (td_task_id t) (state_of_outcome (er_outcome r))
            (set_claim (close_claim now CLAIM_COMPLETED (''result:'' @ er_outcome r)) (cl_claim_id c) k)) = Inr l'"
        unfolding record_first_result_def Let_def rbind_eq_Inr by blast
      then have "lg_results l' = lg_results m @ [row]"
        using insert_result_Inr[OF k] append_event_tables(3) by fastforce
      then show False using True m(2) by simp
    qed
    then have used: "cl_status c = CLAIM_COMPLETED"
      using step m c t by (auto simp: record_result_step_def rbind_eq_Inr split: if_splits)
    then obtain row where "find (\<lambda>r. rs_claim_id r = cl_claim_id c) (lg_results m) = Some row"
      "rs_payload_digest row = result_digest tid (cl_claim_id c) (er_outcome r) (er_summary r)
        (er_artifact_refs r) (er_evidence r)" "l' = m"
      using step m c t by (auto simp: record_result_step_def rbind_eq_Inr result_digest_def
          split: if_splits option.splits)
    with c used show ?thesis by (intro bexI[of _ c] bexI[of _ row]) (auto simp: find_Some_iff)
  qed
qed

interpretation lq: worker_queue "ledger_queue env policy" "\<lambda>w. ledger_ok policy (w_ledger w)"
  result_stored lease_given_back
proof
  fix s :: world and kind x wt tid token reason outcome summary and caps refs and project and evidence
  assume ok: "ledger_ok policy (w_ledger s)"
  show "ledger_ok policy (w_ledger (fst (q_list_ready (ledger_queue env policy) kind caps project s)))"
    unfolding ledger_queue_def task_queue.simps by (rule call_ok[OF ok]) simp
  show "ledger_ok policy (w_ledger (fst (q_claim (ledger_queue env policy) tid kind x caps wt project s)))"
    unfolding ledger_queue_def task_queue.simps
    by (rule call_ok[OF ok]) (metis claim_task_ledger perform.simps(3))
  show "ledger_ok policy (w_ledger (fst (q_heartbeat (ledger_queue env policy) tid x token s)))"
    unfolding ledger_queue_def task_queue.simps by (rule call_ok[OF ok]) (metis perform.simps(5))
  show "ledger_ok policy (w_ledger (fst (q_release (ledger_queue env policy) tid x token reason s)))"
    unfolding ledger_queue_def task_queue.simps by (rule call_ok[OF ok]) (metis perform.simps(6))
  show "ledger_ok policy (w_ledger (fst (q_record_result (ledger_queue env policy) tid x token outcome
      summary refs evidence s)))"
    unfolding ledger_queue_def task_queue.simps by (rule call_ok[OF ok]) (metis perform.simps(7))
next
  fix s s' :: world and tid x token v and r :: execution_result
  let ?m = "w_moments s (w_turn s)"
  assume ok: "ledger_ok policy (w_ledger s)" and "q_record_result (ledger_queue env policy) tid x token
    (er_outcome r) (er_summary r) (er_artifact_refs r) (er_evidence r) s = (s', Inr v)"
  then have "record_result env (mo_now ?m) (mo_now ?m) tid x token (er_outcome r) (er_summary r) (er_artifact_refs r)
      (er_evidence r) (fold (perform env policy) (mo_commands ?m) (w_ledger s)) = (w_ledger s', Inr v)"
    unfolding ledger_queue_def task_queue.simps by (intro call_result)
  from record_leaves[OF this fold_perform_ok[OF ok]]
  show "result_stored tid x token r s'" unfolding result_stored_def .
next
  fix s s' :: world and tid x token reason v
  let ?m = "w_moments s (w_turn s)"
  assume ok: "ledger_ok policy (w_ledger s)"
    and "q_release (ledger_queue env policy) tid x token reason s = (s', Inr v)"
  then have "release env (mo_now ?m) (mo_now ?m) tid x token reason
      (fold (perform env policy) (mo_commands ?m) (w_ledger s)) = (w_ledger s', Inr v)"
    unfolding ledger_queue_def task_queue.simps by (intro call_result)
  from release_leaves[OF this fold_perform_ok[OF ok]]
  show "lease_given_back tid x token reason s'" unfolding lease_given_back_def .
qed

text \<open>(C30) A worker on the ledger tells the truth.  From reachable tables, with any commands of other
  processes between its calls, any number of heartbeats while a handler runs and any end of the
  handler: the ledger stays consistent; when an iteration says it submitted a task, a result with
  exactly the content its handler ended with, or with the failure reported for it, is stored under a
  lease of the worker on that task; and when it says it released a task, that lease was given back for
  the stated reason.\<close>

theorem worker_reports_truthfully:
  assumes "new_scheduling_policy n = Inr policy" "w_ledger w = after_history env policy history"
    and "run_once u (ledger_queue env policy) handlers c stopping w = (w', Inr i)"
  shows "ledger_ok policy (w_ledger w') \<and> truthful u result_stored lease_given_back handlers c i w'"
  using lq.run_once_truthful[OF assms(3)] every_ledger_ok[OF assms(1)] assms(2) by simp

theorem worker_reports_truthfully_witness:
  "\<exists>w'. run_once ascii_tables (ledger_queue demo_env demo_policy) [] \<lparr>wc_executor_kind = ''agent'',
       wc_executor_id = ''a'', wc_capabilities = [''compile''], wc_worker_token = ''t'', wc_project_id = None,
       wc_heartbeat_interval_seconds = 10, wc_idle_poll_seconds = 2\<rparr> False
       \<lparr>w_ledger = after_history demo_env demo_policy demo_history,
        w_moments = \<lambda>_. \<lparr>mo_commands = [], mo_now = 9, mo_claim_id = ''claim-1'', mo_lease_token = ''token''\<rparr>,
        w_turn = 0\<rparr> = (w', Inr (idle_iteration None))
     \<and> ledger_ok demo_policy (w_ledger w')"
proof -
  let ?l = "after_history demo_env demo_policy demo_history"
  let ?c = "\<lparr>wc_executor_kind = ''agent'', wc_executor_id = ''a'', wc_capabilities = [''compile''],
    wc_worker_token = ''t'', wc_project_id = None, wc_heartbeat_interval_seconds = 10, wc_idle_poll_seconds = 2\<rparr>"
  let ?m = "\<lambda>_::nat. \<lparr>mo_commands = [], mo_now = 9, mo_claim_id = ''claim-1'', mo_lease_token = ''token''\<rparr>"
  let ?w = "\<lparr>w_ledger = ?l, w_moments = ?m, w_turn = 0\<rparr>"
  obtain v where v: "view_task demo_env 9 ?l ''task-1'' = Inr v"
    using view_task_total[of demo_env 9 ?l "''task-1''"] by (auto simp: demo_ledger find_task_def)
  have "filter (ready_to_list demo_policy 9 ?l ''agent'' [''compile''] None) (lg_tasks ?l) = [demo_task_row]"
    by (simp add: demo_ledger ready_to_list_def suits_def EXECUTOR_KINDS_def dependencies_completed_def
        empty_ledger_def live_in_run_def)
  with v have "list_ready demo_env 9 demo_policy 9 ''agent'' [''compile''] None ?l = Inr [v]"
    by (simp add: list_ready_def validate_executor_def EXECUTOR_KINDS_def short_text validate_capabilities_def rbind_def)
  then have "run_once ascii_tables (ledger_queue demo_env demo_policy) [] ?c False ?w
      = (\<lparr>w_ledger = ?l, w_moments = ?m, w_turn = 1\<rparr>, Inr (idle_iteration None))"
    by (simp add: run_once_def claim_supported_task_def ledger_queue_def call_def Let_def split: pyval.splits)
  note run = this
  have "w_ledger ?w = ?l" by simp
  from worker_reports_truthfully[OF demo_policy_ok this run] run show ?thesis by simp
qed

text \<open>A result the worker's own checks accept and the ledger refuses: more than 500 references.\<close>

lemma record_refuses_many:
  "500 < length refs \<Longrightarrow> \<exists>e. record_result env clock now tid x token outcome summary refs evidence l = (l, Inl (ValueError e))"
  by (simp add: record_result_def committed_view_def transaction_def record_result_step_def check_result_def
      rbind_def)

text \<open>(C31) A result with more than 500 references passes the worker's own check, and the ledger refuses it
  at any instant.  The worker then reports that it lost the lease, with a lease it may still hold: the
  report leaves the tables as the last heartbeat left them.\<close>

theorem oversized_result_reported_as_lost_lease:
  assumes "q_heartbeat (ledger_queue env policy) tid (wc_executor_id c) token w = (k, Inr v)"
    and "new_execution_result u r = Inr r" "500 < length (er_artifact_refs r)"
    and "mo_commands (w_moments k (w_turn k)) = []"
  shows "\<exists>w' i. submit_result (ledger_queue env policy) c tid action token recovered r w = (w', Inr i)
    \<and> it_status i = LEASE_LOST \<and> w_ledger w' = w_ledger k"
proof -
  let ?m = "w_moments k (w_turn k)"
  obtain e where "record_result env (mo_now ?m) (mo_now ?m) tid (wc_executor_id c) token (er_outcome r) (er_summary r)
      (er_artifact_refs r) (er_evidence r) (w_ledger k) = (w_ledger k, Inl (ValueError e))"
    using record_refuses_many[OF assms(3)] by blast
  then have "q_record_result (ledger_queue env policy) tid (wc_executor_id c) token (er_outcome r) (er_summary r)
      (er_artifact_refs r) (er_evidence r) k = (k\<lparr>w_ledger := w_ledger k, w_turn := Suc (w_turn k)\<rparr>, Inl (ValueError e))"
    using assms(4) by (simp add: ledger_queue_def call_def Let_def)
  then show ?thesis using assms(1) by (simp add: submit_result_def lease_lost_iteration_def)
qed

definition demo_many :: execution_result where
  "demo_many = \<lparr>er_outcome = ''completed'', er_summary = ''done'',
     er_artifact_refs = map (\<lambda>i. replicate (Suc i) (CHR ''x'')) [0..<501], er_evidence = demo_evidence\<rparr>"

lemma demo_many_ok: "new_execution_result ascii_tables demo_many = Inr demo_many"
proof -
  have "validate_orchestration_result_evidence ascii_tables demo_evidence = Inr ()" by code_simp
  moreover have "distinct (map (\<lambda>i. replicate (Suc i) (CHR ''x'')) [0..<501])"
    by (auto simp: distinct_map simp del: replicate_Suc intro!: inj_onI dest: arg_cong[of _ _ length])
  moreover have "\<not> 2000 < py_len (replicate (Suc i) (CHR ''x''))" if "i < 501" for i
    using that by (intro short_text) simp
  ultimately show ?thesis
    by (simp add: new_execution_result_def demo_many_def short_text rbind_def list_ex_iff)
qed

theorem oversized_result_reported_as_lost_lease_witness:
  "\<exists>w w' i. submit_result (ledger_queue demo_env demo_policy) \<lparr>wc_executor_kind = ''human'',
       wc_executor_id = ''ann'', wc_capabilities = [''compile''], wc_worker_token = ''t'', wc_project_id = None,
       wc_heartbeat_interval_seconds = 10, wc_idle_poll_seconds = 2\<rparr> ''task-1'' ''run_compile_test'' ''token''
       False demo_many w = (w', Inr i)
     \<and> it_status i = LEASE_LOST \<and> holds_lease 5 ''task-1'' ''ann'' ''token'' (w_ledger w)"
proof -
  let ?l = "after_history demo_env demo_policy demo_claimed"
  let ?m = "\<lambda>_::nat. \<lparr>mo_commands = [], mo_now = 5, mo_claim_id = ''claim-9'', mo_lease_token = ''u''\<rparr>"
  let ?w = "\<lparr>w_ledger = ?l, w_moments = ?m, w_turn = 0\<rparr>"
  let ?c = "\<lparr>wc_executor_kind = ''human'', wc_executor_id = ''ann'', wc_capabilities = [''compile''],
    wc_worker_token = ''t'', wc_project_id = None, wc_heartbeat_interval_seconds = 10, wc_idle_poll_seconds = 2\<rparr>"
  have holds: "holds_lease 5 ''task-1'' ''ann'' ''token'' ?l"
    by (simp add: demo_claimed_tables holds_lease_def active_claims_def demo_claim_def)
  obtain k v where "heartbeat demo_env 5 5 ''task-1'' ''ann'' ''token'' ?l = (k, Inr v)"
    using heartbeat_iff[OF every_ledger_ok[OF demo_policy_ok]] holds by (metis prod.collapse)
  then have "q_heartbeat (ledger_queue demo_env demo_policy) ''task-1'' (wc_executor_id ?c) ''token'' ?w
      = (\<lparr>w_ledger = k, w_moments = ?m, w_turn = 1\<rparr>, Inr v)"
    by (simp add: ledger_queue_def call_def Let_def)
  then have "\<exists>w' i. submit_result (ledger_queue demo_env demo_policy) ?c ''task-1'' ''run_compile_test'' ''token''
      False demo_many ?w = (w', Inr i) \<and> it_status i = LEASE_LOST \<and> w_ledger w' = k"
    using oversized_result_reported_as_lost_lease[OF _ demo_many_ok, where w = ?w and c = ?c and env = demo_env
        and policy = demo_policy and tid = "''task-1''" and token = "''token''" and v = v
        and recovered = False and action = "''run_compile_test''"]
    by (simp add: demo_many_def del: replicate_Suc)
  then show ?thesis using holds
    by (elim exE conjE, intro exI[of _ ?w] exI conjI) (assumption | simp)+
qed

end
