(* ===== verification/TestDataCoverage.thy ===== *)
theory TestDataCoverage
  imports PyBase "HOL-Library.Product_Lexorder"
begin

text \<open>
  The runtime gate on test data of \<open>application/test_data_coverage.py\<close>: the static alignment of the
  coverage conditions with the test plan, the evaluation of one condition on a provider
  observation, and the summary that must reach 100 percent.  The plans are only cast in the code,
  never checked, so every \<open>get\<close>, iteration and indexing can raise here as it does there.
\<close>

section \<open>Reading the plans\<close>

text \<open>\<open>str(v.get(k, ""))\<close> and \<open>iter(v.get(k, []))\<close>.\<close>

definition get_text :: "pyval \<Rightarrow> string \<Rightarrow> string result" where
  "get_text v k = rbind (py_get_or v k (PStr '''')) (\<lambda>w. Inr (py_str w))"

definition get_items :: "pyval \<Rightarrow> string \<Rightarrow> pyval list result" where
  "get_items v k = rbind (py_get_or v k (PList [])) py_iter"

section \<open>Paths into an observation\<close>

text \<open>
  \<open>_normalize_array_indexes\<close>: \<open>None\<close> stands for the early return of the whole path when a bracket
  does not hold an index.
\<close>

function normalize_indexes_from :: "string \<Rightarrow> string \<Rightarrow> string option" where
  "normalize_indexes_from acc [] = Some acc"
| "normalize_indexes_from acc (c # cs) =
     (if c \<noteq> CHR ''['' then normalize_indexes_from (acc @ [c]) cs
      else let token = takeWhile (\<lambda>x. x \<noteq> CHR '']'') cs
        in if CHR '']'' \<notin> set cs \<or> \<not> is_digits token then None
           else normalize_indexes_from (acc @ ''.'' @ token) (drop (length token + 1) cs))"
  by pat_completeness auto
termination
  by (relation "measure (\<lambda>(acc, cs). length cs)") auto

definition normalize_array_indexes :: "string \<Rightarrow> string" where
  "normalize_array_indexes path =
    (case normalize_indexes_from '''' path of None \<Rightarrow> path | Some p \<Rightarrow> p)"

fun follow :: "pyval \<Rightarrow> string list \<Rightarrow> bool \<times> pyval" where
  "follow current [] = (True, current)"
| "follow current (component # rest) =
     (if component = [] then (False, PNone)
      else case current of
          PDict d \<Rightarrow>
            (case map_of d component of Some v \<Rightarrow> follow v rest | None \<Rightarrow> (False, PNone))
        | PList vs \<Rightarrow>
            (if is_digits component \<and> digits_value component < length vs
             then follow (vs ! digits_value component) rest else (False, PNone))
        | _ \<Rightarrow> (False, PNone))"

definition extract_path :: "pyval \<Rightarrow> string \<Rightarrow> bool \<times> pyval" where
  "extract_path source path =
    (if path \<in> {'''', ''$''} then (source \<noteq> PNone, source)
     else
       let normalized = normalize_array_indexes
             (if starts_with ''$.'' path then drop 2 path else path)
       in if CHR ''['' \<in> set normalized \<or> CHR '']'' \<in> set normalized then (False, PNone)
          else follow source (split_on (CHR ''.'') normalized))"

section \<open>Comparison\<close>

text \<open>\<open>x in container\<close>.\<close>

fun py_contains :: "pyval \<Rightarrow> pyval \<Rightarrow> bool result" where
  "py_contains (PList vs) x = Inr (list_ex (\<lambda>v. py_eq v x) vs)"
| "py_contains (PDict d) x =
     (if hashable x then Inr (x \<in> set (map (\<lambda>(k, v). PStr k) d))
      else Inl (TypeError ''unhashable type''))"
| "py_contains (PStr s) x =
     (case x of PStr p \<Rightarrow> Inr (is_substring p s)
      | _ \<Rightarrow> Inl (TypeError ''requires string as left operand''))"
| "py_contains v x = Inl (TypeError ''argument is not iterable'')"

fun coverage_number :: "pyval \<Rightarrow> rat result" where
  "coverage_number (PInt i) = int_to_float i"
| "coverage_number (PFloat q) = Inr q"
| "coverage_number v = Inl (TypeError ''value is not numeric'')"

text \<open>\<open>bounds[i]\<close>: an object has no key \<open>i\<close>.\<close>

fun bound_at :: "pyval \<Rightarrow> nat \<Rightarrow> pyval result" where
  "bound_at (PList vs) i = (if i < length vs then Inr (vs ! i) else Inl (IndexError ''list index''))"
| "bound_at (PStr s) i =
     (if i < length (utf8_chars s) then Inr (PStr (utf8_chars s ! i))
      else Inl (IndexError ''string index''))"
| "bound_at (PDict d) i = Inl (KeyError (show_nat i))"
| "bound_at v i = Inl (TypeError ''object is not subscriptable'')"

definition compare_numbers :: "(rat \<Rightarrow> rat \<Rightarrow> bool) \<Rightarrow> pyval \<Rightarrow> pyval \<Rightarrow> bool result" where
  "compare_numbers r a b =
    rbind (coverage_number a) (\<lambda>x. rbind (coverage_number b) (\<lambda>y. Inr (r x y)))"

definition compare_between :: "pyval \<Rightarrow> pyval \<Rightarrow> bool result" where
  "compare_between actual bounds =
    rbind (rbind (bound_at bounds 0) coverage_number) (\<lambda>low.
    rbind (coverage_number actual) (\<lambda>x.
      if \<not> low \<le> x then Inr False
      else rbind (rbind (bound_at bounds 1) coverage_number) (\<lambda>high. Inr (x \<le> high))))"

fun caught :: "exn \<Rightarrow> bool" where
  "caught (IndexError m) = True"
| "caught (TypeError m) = True"
| "caught (ValueError m) = True"
| "caught e = False"

definition finish_compare :: "bool result \<Rightarrow> (bool \<times> string option) result" where
  "finish_compare m =
    (case m of
       Inr passed \<Rightarrow> Inr (passed, if passed then None
         else Some ''Provider observation did not satisfy the data condition'')
     | Inl e \<Rightarrow> if caught e
         then Inr (False, Some ''Provider value is incompatible with the reviewed data condition'')
         else Inl e)"

definition compare_values ::
    "string \<Rightarrow> bool \<Rightarrow> pyval \<Rightarrow> bool \<Rightarrow> pyval \<Rightarrow> (bool \<times> string option) result" where
  "compare_values operator actual_exists actual expected_exists expected =
    (if operator = ''exists'' then finish_compare (Inr (actual_exists = truthy expected))
     else if \<not> actual_exists then
       Inr (False, Some ''Provider observation path was not observed'')
     else if \<not> expected_exists then
       Inr (False, Some ''Provider relationship target path was not observed'')
     else if operator \<in> {''equals'', ''equals_path''} then
       finish_compare (Inr (py_eq actual expected))
     else if operator \<in> {''not_equals'', ''not_equals_path''} then
       finish_compare (Inr (\<not> py_eq actual expected))
     else if operator = ''contains'' then finish_compare (py_contains actual expected)
     else if operator = ''in'' then finish_compare (py_contains expected actual)
     else if operator = ''greater_than'' then
       finish_compare (compare_numbers (\<lambda>x y. x > y) actual expected)
     else if operator = ''greater_than_or_equal'' then
       finish_compare (compare_numbers (\<lambda>x y. x \<ge> y) actual expected)
     else if operator = ''less_than'' then
       finish_compare (compare_numbers (\<lambda>x y. x < y) actual expected)
     else if operator = ''less_than_or_equal'' then
       finish_compare (compare_numbers (\<lambda>x y. x \<le> y) actual expected)
     else if operator = ''between'' then finish_compare (compare_between actual expected)
     else Inr (False, Some (''unsupported data coverage operator: '' @ operator)))"

section \<open>One condition\<close>

definition coverage_observation_source :: "pyval \<Rightarrow> pyval \<Rightarrow> string result" where
  "coverage_observation_source data_set condition =
    rbind (py_get condition ''source'') (\<lambda>source.
      let explicit = py_str (py_or source (PStr ''''))
      in if explicit \<noteq> [] then Inr explicit
         else rbind (py_get data_set ''identity_binding'') (\<lambda>binding.
              rbind (py_get (py_or binding (PDict [])) ''provider'') (\<lambda>provider.
              rbind (py_get (py_or provider (PDict [])) ''type'') (\<lambda>type.
                Inr (case map_of [(''database'', ''database''), (''api'', ''response''), (''ui'', ''ui'')]
                       (py_str (py_or type (PStr ''''))) of None \<Rightarrow> '''' | Some s \<Rightarrow> s)))))"

definition condition_for_step ::
    "string \<Rightarrow> string \<Rightarrow> pyval \<Rightarrow> pyval \<Rightarrow> pydict list result" where
  "condition_for_step flow_id step_id data_set condition =
    rbind (py_get condition ''source_flow_id'') (\<lambda>source_flow.
    if source_flow \<noteq> PStr flow_id then Inr []
    else rbind (py_get condition ''source_step_id'') (\<lambda>source_step.
    if source_step \<noteq> PStr step_id then Inr []
    else rbind (py_index data_set ''test_data_id'') (\<lambda>test_data_id.
    rbind (coverage_observation_source data_set condition) (\<lambda>source.
      Inr [AList.update ''_observation_source'' (PStr source)
        (AList.update ''_test_data_id'' (PStr (py_str test_data_id)) (as_dict condition))]))))"

definition conditions_for_step :: "pydict \<Rightarrow> string \<Rightarrow> string \<Rightarrow> pydict list result" where
  "conditions_for_step plan flow_id step_id =
    rbind (py_iter (dget_or plan ''data_sets'' (PList []))) (\<lambda>data_sets.
    rbind (mapM (\<lambda>data_set.
      rbind (get_items data_set ''coverage_conditions'') (\<lambda>conditions.
      rbind (mapM (condition_for_step flow_id step_id data_set) conditions) (\<lambda>found.
        Inr (concat found)))) data_sets) (\<lambda>per_set. Inr (concat per_set)))"

definition proof_identity :: "pydict \<Rightarrow> pydict result" where
  "proof_identity condition =
    mapM (\<lambda>k. rbind (dindex condition k) (\<lambda>v. Inr (k, PStr (py_str v))))
      [''condition_id'', ''criterion_ref'', ''test_case_ref'', ''test_data_id'',
       ''condition_kind'', ''source_flow_id'', ''source_step_id'']"

definition evaluate_condition :: "pydict \<Rightarrow> pyval \<Rightarrow> pyval \<Rightarrow> pydict result" where
  "evaluate_condition condition observation database =
    (let observed = (if observation = PNone then database else observation)
     in rbind (dindex condition ''path'') (\<lambda>path.
        let (actual_exists, actual) = extract_path observed (py_str path)
        in rbind (dindex condition ''operator'') (\<lambda>operator_value.
           let operator = py_str operator_value;
               expected_path = dget condition ''expected_path'';
               (expected_exists, expected) =
                 (if expected_path = PNone then (True, dget condition ''expected'')
                  else extract_path observed (py_str expected_path))
           in rbind (compare_values operator actual_exists actual expected_exists expected)
                (\<lambda>(passed, reason).
              rbind (proof_identity condition) (\<lambda>identity.
              Inr (identity
                @ [(''observation_source'', PStr (py_str
                     (py_or (py_or (dget condition ''_observation_source'') (dget condition ''source''))
                       (PStr ''database'')))),
                   (''path'', PStr (py_str path)),
                   (''operator'', PStr operator),
                   (''expected'', expected),
                   (''actual'', actual),
                   (''status'', PStr (if passed then ''passed'' else ''failed'')),
                   (''failure_reason'', case reason of None \<Rightarrow> PNone | Some r \<Rightarrow> PStr r)]))))))"

section \<open>The summary\<close>

text \<open>\<open>required.setdefault(criterion, set()).add(condition)\<close>.\<close>

definition require ::
    "(string \<times> string list) list \<Rightarrow> pyval \<Rightarrow> (string \<times> string list) list result" where
  "require required condition =
    rbind (py_index condition ''criterion_ref'') (\<lambda>criterion.
    rbind (py_index condition ''condition_id'') (\<lambda>condition_id.
      let k = py_str criterion;
          ids = (case map_of required k of None \<Rightarrow> [] | Some ids \<Rightarrow> ids)
      in Inr (AList.update k (List.insert (py_str condition_id) ids) required)))"

definition plan_conditions :: "pydict \<Rightarrow> pyval list result" where
  "plan_conditions plan =
    rbind (py_iter (dget_or plan ''data_sets'' (PList []))) (\<lambda>data_sets.
    rbind (mapM (\<lambda>data_set. get_items data_set ''coverage_conditions'') data_sets) (\<lambda>per_set.
      Inr (concat per_set)))"

definition passed_condition_ids :: "pydict list \<Rightarrow> string list result" where
  "passed_condition_ids proofs =
    rbind (mapM (\<lambda>proof. rbind (dindex proof ''condition_id'') (\<lambda>v. Inr (py_str v)))
      (filter (\<lambda>proof. dget proof ''status'' = PStr ''passed'') proofs)) (\<lambda>ids. Inr (remdups ids))"

definition summarize_data_coverage :: "pydict \<Rightarrow> pydict list \<Rightarrow> pydict result" where
  "summarize_data_coverage plan proofs =
    rbind (plan_conditions plan) (\<lambda>conditions.
    rbind (foldM require [] conditions) (\<lambda>required_by_criterion.
    rbind (passed_condition_ids proofs) (\<lambda>passed_ids.
      let covered = length (filter (\<lambda>(criterion, required).
                      required \<noteq> [] \<and> set required \<subseteq> set passed_ids) required_by_criterion);
          required_count = length required_by_criterion;
          percent = (if required_count \<noteq> 0
            then PFloat (rat_of_nat (covered * 100) / rat_of_nat required_count) else PInt 0);
          status = (if required_count = 0 then ''not_applicable''
            else if covered = required_count then ''passed'' else ''failed'')
      in rbind (mapM (\<lambda>proof. rbind (dindex proof ''condition_id'') (\<lambda>v. Inr (py_str v, proof)))
           proofs) (\<lambda>keyed.
         Inr [(''required_criterion_count'', PInt (int required_count)),
              (''covered_criterion_count'', PInt (int covered)),
              (''coverage_percent'', percent),
              (''condition_count'', PInt (int (length conditions))),
              (''passed_condition_count'', PInt (int (length passed_ids))),
              (''status'', PStr status),
              (''proofs'', PList (map (\<lambda>(k, proof). PDict proof) (sort_key fst keyed)))]))))"

section \<open>Static alignment\<close>

type_synonym coverage_tuple = "string \<times> string \<times> string"

definition expected_tuples :: "pyval \<Rightarrow> coverage_tuple list result" where
  "expected_tuples case_value =
    rbind (get_text case_value ''test_case_id'') (\<lambda>case_id.
    rbind (get_items case_value ''acceptance_criteria_refs'') (\<lambda>criteria.
    rbind (mapM (\<lambda>criterion_ref.
      rbind (get_items case_value ''test_data_refs'') (\<lambda>refs.
        Inr (map (\<lambda>ref. (py_str criterion_ref, case_id, py_str ref)) refs))) criteria) (\<lambda>tuples.
      Inr (concat tuples))))"

definition criteria_index :: "pydict option \<Rightarrow> (string \<times> pyval) list result" where
  "criteria_index acceptance_criteria =
    (case acceptance_criteria of
       None \<Rightarrow> Inr []
     | Some a \<Rightarrow>
         rbind (py_iter (dget_or a ''criteria'' (PList []))) (\<lambda>values.
         foldM (\<lambda>index value. rbind (get_text value ''criterion_id'') (\<lambda>k.
           Inr (AList.update k value index))) [] values))"

text \<open>The non-empty paths of the identity keys of a data set.\<close>

definition identity_paths :: "pyval \<Rightarrow> string list result" where
  "identity_paths identity =
    rbind (py_get identity ''primary_key'') (\<lambda>primary.
    rbind (get_text (py_or primary (PDict [])) ''path'') (\<lambda>p.
    rbind (py_get identity ''screen_key'') (\<lambda>screen.
    rbind (get_text (py_or screen (PDict [])) ''path'') (\<lambda>s.
    rbind (get_items identity ''business_unique_keys'') (\<lambda>keys.
    rbind (mapM (\<lambda>v. get_text v ''path'') keys) (\<lambda>ks.
      Inr (filter (\<lambda>x. x \<noteq> []) (p # s # ks))))))))"

record alignment_state =
  al_reasons :: "string list"
  al_actual :: "coverage_tuple list"
  al_condition_ids :: "string list"

text \<open>The three references of a condition: \<open>tuple_key\<close>.\<close>

definition condition_tuple :: "pyval \<Rightarrow> coverage_tuple result" where
  "condition_tuple condition =
    rbind (get_text condition ''criterion_ref'') (\<lambda>criterion_ref.
    rbind (get_text condition ''test_case_ref'') (\<lambda>test_case_ref.
    rbind (get_text condition ''test_data_id'') (\<lambda>data_ref.
      Inr (criterion_ref, test_case_ref, data_ref))))"

definition binding_reasons :: "coverage_tuple list \<Rightarrow> string \<Rightarrow> string \<Rightarrow> coverage_tuple \<Rightarrow> string list" where
  "binding_reasons expected label test_data_id tuple_key =
    (if snd (snd tuple_key) \<noteq> test_data_id
     then [label @ '': condition test_data_id differs from its data set''] else []) @
    (if tuple_key \<notin> set expected
     then [label @ '': condition is not bound to a TestPlan criterion/case/data tuple''] else [])"

definition scope_reasons ::
    "(string \<times> pyval) list \<Rightarrow> string \<Rightarrow> coverage_tuple \<Rightarrow> string list result" where
  "scope_reasons criteria_by_id label tuple_key =
    (case map_of criteria_by_id (fst tuple_key) of
       None \<Rightarrow> Inr []
     | Some criterion \<Rightarrow>
         rbind (get_items criterion ''test_case_refs'') (\<lambda>refs.
           Inr (if fst (snd tuple_key) \<notin> set (map py_str refs)
             then [label @ '': condition TestCase is outside its AcceptanceCriteria scope'']
             else [])))"

definition step_differs :: "pyval \<Rightarrow> pyval \<Rightarrow> bool result" where
  "step_differs condition identity =
    rbind (py_get condition ''source_flow_id'') (\<lambda>condition_flow.
    rbind (py_get identity ''source_flow_id'') (\<lambda>identity_flow.
    if \<not> py_eq condition_flow identity_flow then Inr True
    else rbind (py_get condition ''source_step_id'') (\<lambda>condition_step.
         rbind (py_get identity ''source_step_id'') (\<lambda>identity_step.
           Inr (\<not> py_eq condition_step identity_step)))))"

definition identity_only :: "string list \<Rightarrow> pyval \<Rightarrow> bool result" where
  "identity_only paths condition =
    (if paths = [] then Inr False
     else rbind (get_text condition ''path'') (\<lambda>p. Inr (p \<in> set paths)))"

definition condition_reasons ::
    "coverage_tuple list \<Rightarrow> (string \<times> pyval) list \<Rightarrow> string \<Rightarrow> pyval \<Rightarrow> string list
     \<Rightarrow> string \<Rightarrow> coverage_tuple \<Rightarrow> pyval \<Rightarrow> string list result" where
  "condition_reasons expected criteria_by_id test_data_id identity paths condition_id tuple_key
      condition =
    (let label = test_data_id @ ''/'' @ (if condition_id = [] then ''<unknown>'' else condition_id)
     in rbind (scope_reasons criteria_by_id label tuple_key) (\<lambda>scope.
        rbind (step_differs condition identity) (\<lambda>differs.
        rbind (identity_only paths condition) (\<lambda>only_identity.
          Inr (binding_reasons expected label test_data_id tuple_key @ scope
            @ (if differs then
                 [label @ '': condition must use the frozen identity Provider observation step'']
               else [])
            @ (if only_identity then
                 [label @ '': identity keys alone cannot prove a business data condition'']
               else []))))))"

definition align_condition ::
    "coverage_tuple list \<Rightarrow> (string \<times> pyval) list \<Rightarrow> string \<Rightarrow> pyval \<Rightarrow> string list
     \<Rightarrow> alignment_state \<Rightarrow> pyval \<Rightarrow> alignment_state result" where
  "align_condition expected criteria_by_id test_data_id identity paths st condition =
    rbind (get_text condition ''condition_id'') (\<lambda>condition_id.
    rbind (condition_tuple condition) (\<lambda>tuple_key.
    rbind (condition_reasons expected criteria_by_id test_data_id identity paths condition_id
             tuple_key condition) (\<lambda>reasons.
      Inr \<lparr>al_reasons = al_reasons st @ reasons,
           al_actual = tuple_key # al_actual st,
           al_condition_ids = al_condition_ids st @ [condition_id]\<rparr>)))"

definition align_data_set ::
    "coverage_tuple list \<Rightarrow> (string \<times> pyval) list \<Rightarrow> alignment_state \<Rightarrow> pyval
     \<Rightarrow> alignment_state result" where
  "align_data_set expected criteria_by_id st data_set =
    rbind (get_text data_set ''test_data_id'') (\<lambda>test_data_id.
    rbind (py_get data_set ''identity_binding'') (\<lambda>binding.
    let identity = py_or binding (PDict [])
    in rbind (identity_paths identity) (\<lambda>paths.
       rbind (get_items data_set ''coverage_conditions'') (\<lambda>conditions.
       foldM (align_condition expected criteria_by_id test_data_id identity paths) st conditions))))"

definition repr_tuples :: "coverage_tuple list \<Rightarrow> string" where
  "repr_tuples ts =
    ''['' @ join '', '' (map (\<lambda>(a, b, c).
      ''('' @ repr_str a @ '', '' @ repr_str b @ '', '' @ repr_str c @ '')'') ts) @ '']''"

definition validate_test_data_coverage_alignment ::
    "pydict \<Rightarrow> pydict \<Rightarrow> pydict option \<Rightarrow> string list result" where
  "validate_test_data_coverage_alignment test_plan test_data_plan acceptance_criteria =
    rbind (py_iter (dget_or test_plan ''test_cases'' (PList []))) (\<lambda>cases.
    rbind (mapM expected_tuples cases) (\<lambda>tuples.
    let expected = concat tuples
    in rbind (criteria_index acceptance_criteria) (\<lambda>criteria_by_id.
       let r0 = (if acceptance_criteria \<noteq> None
                    \<and> set (map fst expected) \<noteq> set (map fst criteria_by_id)
                 then [''AcceptanceCriteria identities must exactly match TestPlan references'']
                 else [])
       in rbind (py_iter (dget_or test_data_plan ''data_sets'' (PList []))) (\<lambda>data_sets.
          rbind (foldM (align_data_set expected criteria_by_id)
            \<lparr>al_reasons = r0, al_actual = [], al_condition_ids = []\<rparr> data_sets) (\<lambda>st.
          let r1 = (if \<not> distinct (al_condition_ids st)
                then [''Test data coverage condition IDs must be globally unique''] else []);
              missing = filter (\<lambda>t. t \<notin> set (al_actual st)) expected;
              r2 = (if missing \<noteq> [] then
                [''Test data coverage conditions are missing for criterion/case/data tuples: ''
                  @ repr_tuples (sorted_set missing)] else [])
          in Inr (sorted_set (al_reasons st @ r1 @ r2)))))))"

section \<open>The gate on the summary\<close>

definition condition_text :: "string \<Rightarrow> pyval \<Rightarrow> string" where
  "condition_text k c = py_str (dget (as_dict c) k)"

lemma py_index_eq_Inr [result_simps]:
  "py_index v k = Inr w \<longleftrightarrow> (\<exists>d. v = PDict d \<and> dindex d k = Inr w)"
  by (cases v) auto

lemma dindex_eq_Inr [result_simps]: "dindex d k = Inr w \<longleftrightarrow> map_of d k = Some w"
  by (auto simp: dindex_def split: option.splits)

lemma dget_map_of: "map_of d k = Some w \<Longrightarrow> dget d k = w"
  by (simp add: dget_def)

lemma require_Inr:
  assumes "require m c = Inr m'"
  shows "m' = AList.update (condition_text ''criterion_ref'' c)
     (List.insert (condition_text ''condition_id'' c)
       (case map_of m (condition_text ''criterion_ref'' c) of None \<Rightarrow> [] | Some ids \<Rightarrow> ids)) m"
proof -
  obtain d k i where "c = PDict d" "map_of d ''criterion_ref'' = Some k"
    "map_of d ''condition_id'' = Some i"
    using assms by (auto simp: require_def result_simps)
  with assms show ?thesis
    by (simp add: require_def dindex_def condition_text_def dget_map_of Let_def)
qed

definition ids_at :: "(string \<times> string list) list \<Rightarrow> string \<Rightarrow> string set" where
  "ids_at m k = (case map_of m k of None \<Rightarrow> {} | Some ids \<Rightarrow> set ids)"

lemma ids_at_require:
  "require m c = Inr m' \<Longrightarrow>
     ids_at m' k = ids_at m k \<union>
       (if k = condition_text ''criterion_ref'' c then {condition_text ''condition_id'' c} else {})"
  by (drule require_Inr) (auto simp: ids_at_def update_conv' split: option.splits)

lemma ids_at_foldM:
  "foldM require m cs = Inr m' \<Longrightarrow>
     ids_at m' k = ids_at m k \<union>
       condition_text ''condition_id'' ` {c \<in> set cs. condition_text ''criterion_ref'' c = k}"
proof (induction cs arbitrary: m)
  case (Cons c cs)
  then obtain m1 where m1: "require m c = Inr m1" "foldM require m1 cs = Inr m'"
    by (auto simp: result_simps)
  have split_head: "{x \<in> set (c # cs). condition_text ''criterion_ref'' x = k} =
      (if k = condition_text ''criterion_ref'' c then {c} else {})
      \<union> {x \<in> set cs. condition_text ''criterion_ref'' x = k}"
    by auto
  show ?case
    unfolding split_head Cons.IH[OF m1(2)] ids_at_require[OF m1(1)] image_Un
    by (auto split: if_splits)
qed simp

lemma keys_foldM:
  "foldM require m cs = Inr m' \<Longrightarrow> distinct (map fst m) \<Longrightarrow>
     distinct (map fst m')
       \<and> fst ` set m' = fst ` set m \<union> condition_text ''criterion_ref'' ` set cs"
proof (induction cs arbitrary: m)
  case (Cons c cs)
  then obtain m1 where m1: "require m c = Inr m1" "foldM require m1 cs = Inr m'"
    by (auto simp: result_simps)
  have "distinct (map fst m1)" "fst ` set m1 = insert (condition_text ''criterion_ref'' c) (fst ` set m)"
    using Cons.prems(2) require_Inr[OF m1(1)] by (simp_all add: dom_update distinct_update)
  with Cons.IH[OF m1(2)] show ?case by auto
qed simp

text \<open>The ids of the proofs that passed.\<close>

definition proven_ids :: "pydict list \<Rightarrow> string set" where
  "proven_ids proofs = {py_str (dget p ''condition_id'') |p.
     p \<in> set proofs \<and> dget p ''status'' = PStr ''passed''}"

lemma passed_condition_ids_set:
  "passed_condition_ids proofs = Inr ids \<Longrightarrow> set ids = proven_ids proofs"
proof -
  assume "passed_condition_ids proofs = Inr ids"
  then obtain xs where xs: "set ids = set xs"
    "mapM (\<lambda>proof. rbind (dindex proof ''condition_id'') (\<lambda>v. Inr (py_str v)))
       (filter (\<lambda>proof. dget proof ''status'' = PStr ''passed'') proofs) = Inr xs"
    by (auto simp: passed_condition_ids_def result_simps)
  then have "xs = map (\<lambda>p. py_str (dget p ''condition_id''))
      (filter (\<lambda>proof. dget proof ''status'' = PStr ''passed'') proofs)"
    by (auto simp: mapM_eq_Inr list_all2_conv_all_nth result_simps dget_map_of intro!: nth_equalityI)
  with xs(1) show ?thesis by (auto simp: proven_ids_def)
qed

lemma covered_iff:
  assumes "foldM require [] cs = Inr m" 
  shows "length (filter (\<lambda>(k, ids). ids \<noteq> [] \<and> set ids \<subseteq> P) m) = length m
     \<longleftrightarrow> (\<forall>c\<in>set cs. condition_text ''condition_id'' c \<in> P)"
proof -
  have d: "distinct (map fst m)" and k: "fst ` set m = condition_text ''criterion_ref'' ` set cs"
    using keys_foldM[OF assms] by auto
  have ids: "set ids = condition_text ''condition_id'' ` {c \<in> set cs. condition_text ''criterion_ref'' c = k}"
    if "(k, ids) \<in> set m" for k ids
    using ids_at_foldM[OF assms, of k] that d by (simp add: ids_at_def)
  have "length (filter (\<lambda>(k, ids). ids \<noteq> [] \<and> set ids \<subseteq> P) m) = length m
     \<longleftrightarrow> (\<forall>(k, ids)\<in>set m. ids \<noteq> [] \<and> set ids \<subseteq> P)"
    by (metis (no_types, lifting) filter_True length_filter_less nat_less_le)
  also have "\<dots> \<longleftrightarrow> (\<forall>c\<in>set cs. condition_text ''condition_id'' c \<in> P)"
    using k ids by (fastforce simp: image_iff set_eq_iff)
  finally show ?thesis .
qed


lemma hundred_percent: "c \<le> n \<Longrightarrow> (0::nat) < n \<Longrightarrow> rat_of_nat (c * 100) / rat_of_nat n = 100 \<longleftrightarrow> c = n"
  by (auto simp: divide_eq_eq simp flip: of_nat_mult)

lemma data_gate_facts:
  assumes "summarize_data_coverage plan proofs = Inr summary"
  shows "\<exists>conditions. plan_conditions plan = Inr conditions \<and>
    (dget summary ''status'' = PStr ''passed'' \<longleftrightarrow>
       conditions \<noteq> [] \<and> (\<forall>c\<in>set conditions. condition_text ''condition_id'' c \<in> proven_ids proofs)) \<and>
    (dget summary ''status'' = PStr ''passed'' \<longleftrightarrow>
       py_eq (dget summary ''coverage_percent'') (PInt 100))"
proof -
  obtain cs m ids where cs: "plan_conditions plan = Inr cs" and m: "foldM require [] cs = Inr m"
    and ids: "passed_condition_ids proofs = Inr ids"
    using assms by (auto simp: summarize_data_coverage_def result_simps)
  define covered where "covered = length (filter (\<lambda>(k, r). r \<noteq> [] \<and> set r \<subseteq> set ids) m)"
  have le: "covered \<le> length m" by (simp add: covered_def)
  have full: "covered = length m \<longleftrightarrow>
      (\<forall>c\<in>set cs. condition_text ''condition_id'' c \<in> proven_ids proofs)"
    using covered_iff[OF m] passed_condition_ids_set[OF ids] by (simp add: covered_def)
  have nil: "m = [] \<longleftrightarrow> cs = []"
    using keys_foldM[OF m] by auto
  have "dget summary ''status'' = PStr (if m = [] then ''not_applicable''
        else if covered = length m then ''passed'' else ''failed'')"
    and "dget summary ''coverage_percent'' = (if m \<noteq> []
        then PFloat (rat_of_nat (covered * 100) / rat_of_nat (length m)) else PInt 0)"
    using assms cs m ids by (auto simp: summarize_data_coverage_def result_simps Let_def covered_def dget_def)
  then show ?thesis
    using cs le full nil hundred_percent[OF le] by (auto simp: py_eq_def)
qed

text \<open>The summary passes, at 100 percent, exactly when the plan has a coverage condition and
  every one of its conditions has a passed proof.\<close>

theorem data_gate_passed_iff:
  assumes "summarize_data_coverage plan proofs = Inr summary"
  shows "\<exists>conditions. plan_conditions plan = Inr conditions \<and>
    (dget summary ''status'' = PStr ''passed'' \<longleftrightarrow>
       conditions \<noteq> [] \<and> (\<forall>c\<in>set conditions. condition_text ''condition_id'' c \<in> proven_ids proofs)) \<and>
    (dget summary ''status'' = PStr ''passed'' \<longleftrightarrow>
       py_eq (dget summary ''coverage_percent'') (PInt 100))"
  by (rule data_gate_facts[OF assms])


section \<open>A passed proof is an observation\<close>

definition number_pair :: "(rat \<Rightarrow> rat \<Rightarrow> bool) \<Rightarrow> pyval \<Rightarrow> pyval \<Rightarrow> bool" where
  "number_pair r a b \<longleftrightarrow> (\<exists>x y. coverage_number a = Inr x \<and> coverage_number b = Inr y \<and> r x y)"

definition in_bounds :: "pyval \<Rightarrow> pyval \<Rightarrow> bool" where
  "in_bounds a bounds \<longleftrightarrow> (\<exists>u v low x high. bound_at bounds 0 = Inr u \<and> bound_at bounds 1 = Inr v
     \<and> coverage_number u = Inr low \<and> coverage_number v = Inr high
     \<and> coverage_number a = Inr x \<and> low \<le> x \<and> x \<le> high)"

definition operator_meaning :: "(string \<times> (pyval \<Rightarrow> pyval \<Rightarrow> bool)) list" where
  "operator_meaning =
    [(''equals'', py_eq), (''equals_path'', py_eq),
     (''not_equals'', \<lambda>a e. \<not> py_eq a e), (''not_equals_path'', \<lambda>a e. \<not> py_eq a e),
     (''contains'', \<lambda>a e. py_contains a e = Inr True),
     (''in'', \<lambda>a e. py_contains e a = Inr True),
     (''greater_than'', number_pair (\<lambda>x y. x > y)),
     (''greater_than_or_equal'', number_pair (\<lambda>x y. x \<ge> y)),
     (''less_than'', number_pair (\<lambda>x y. x < y)),
     (''less_than_or_equal'', number_pair (\<lambda>x y. x \<le> y)),
     (''between'', in_bounds)]"

definition operator_holds :: "string \<Rightarrow> pyval \<Rightarrow> pyval \<Rightarrow> bool" where
  "operator_holds operator a e \<longleftrightarrow>
    (\<exists>meaning. map_of operator_meaning operator = Some meaning \<and> meaning a e)"

lemma finish_compare_passed [simp]: "finish_compare m = Inr (True, r) \<longleftrightarrow> m = Inr True \<and> r = None"
  by (auto simp: finish_compare_def split: sum.splits if_splits)

lemma compare_numbers_passed [simp]: "compare_numbers r a b = Inr True \<longleftrightarrow> number_pair r a b"
  by (auto simp: compare_numbers_def number_pair_def result_simps)

lemma compare_between_passed [simp]: "compare_between a bounds = Inr True \<longleftrightarrow> in_bounds a bounds"
  by (auto simp: compare_between_def in_bounds_def result_simps)

lemma compare_values_passed:
  "operator \<noteq> ''exists'' \<Longrightarrow>
   compare_values operator ae a ee e = Inr (True, r) \<longleftrightarrow>
     ae \<and> ee \<and> operator_holds operator a e \<and> r = None"
  by (simp add: compare_values_def operator_holds_def operator_meaning_def)

lemma compare_exists_passed:
  "compare_values ''exists'' ae a ee e = Inr (True, r) \<longleftrightarrow> ae = truthy e \<and> r = None"
  by (simp add: compare_values_def)

definition observed_value :: "pyval \<Rightarrow> pyval \<Rightarrow> pyval" where
  "observed_value observation database = (if observation = PNone then database else observation)"

lemma proof_identity_Inr:
  assumes "proof_identity condition = Inr identity"
  shows "map fst identity = [''condition_id'', ''criterion_ref'', ''test_case_ref'', ''test_data_id'',
       ''condition_kind'', ''source_flow_id'', ''source_step_id'']"
    and "dget identity ''condition_id'' = PStr (condition_text ''condition_id'' (PDict condition))"
proof -
  have keyed: "list_all2 (\<lambda>k e. \<exists>v. map_of condition k = Some v \<and> e = (k, PStr (py_str v)))
      [''condition_id'', ''criterion_ref'', ''test_case_ref'', ''test_data_id'',
       ''condition_kind'', ''source_flow_id'', ''source_step_id''] identity"
    using assms unfolding proof_identity_def mapM_eq_Inr
    by (rule list_all2_mono) (auto simp: result_simps)
  then have "list_all2 (\<lambda>k e. fst e = k) [''condition_id'', ''criterion_ref'', ''test_case_ref'',
      ''test_data_id'', ''condition_kind'', ''source_flow_id'', ''source_step_id''] identity"
    by (rule list_all2_mono) auto
  then show "map fst identity = [''condition_id'', ''criterion_ref'', ''test_case_ref'', ''test_data_id'',
       ''condition_kind'', ''source_flow_id'', ''source_step_id'']"
    by (simp add: list_all2_conv_all_nth list_eq_iff_nth_eq)
  from keyed show "dget identity ''condition_id'' = PStr (condition_text ''condition_id'' (PDict condition))"
    unfolding list_all2_Cons1 by (auto simp: dget_def condition_text_def)
qed

lemma dget_append: "dget (xs @ ys) k = (if k \<in> set (map fst xs) then dget xs k else dget ys k)"
  using map_of_eq_None_iff[of xs k] by (auto simp: dget_def map_add_def split: option.splits)

lemma evaluate_condition_Inr:
  assumes "evaluate_condition condition observation database = Inr proof_record"
  defines "seen \<equiv> observed_value observation database"
  defines "found \<equiv> extract_path seen (condition_text ''path'' (PDict condition))"
  defines "wanted \<equiv> (if dget condition ''expected_path'' = PNone then (True, dget condition ''expected'')
     else extract_path seen (py_str (dget condition ''expected_path'')))"
  shows "\<exists>passed reason.
     compare_values (condition_text ''operator'' (PDict condition)) (fst found) (snd found)
       (fst wanted) (snd wanted) = Inr (passed, reason)
     \<and> dget proof_record ''status'' = PStr (if passed then ''passed'' else ''failed'')
     \<and> dget proof_record ''actual'' = snd found \<and> dget proof_record ''expected'' = snd wanted
     \<and> dget proof_record ''condition_id'' = PStr (condition_text ''condition_id'' (PDict condition))"
proof -
  obtain path oper where keys: "map_of condition ''path'' = Some path"
    "map_of condition ''operator'' = Some oper"
    using assms(1) by (auto simp: evaluate_condition_def Let_def case_prod_unfold result_simps)
  then have texts: "condition_text ''path'' (PDict condition) = py_str path"
    "condition_text ''operator'' (PDict condition) = py_str oper"
    by (simp_all add: condition_text_def dget_def)
  obtain passed reason identity where
    r: "compare_values (py_str oper) (fst found) (snd found) (fst wanted) (snd wanted)
        = Inr (passed, reason)" "proof_identity condition = Inr identity"
    and p: "proof_record = identity
       @ [(''observation_source'', PStr (py_str
             (py_or (py_or (dget condition ''_observation_source'') (dget condition ''source''))
               (PStr ''database'')))),
           (''path'', PStr (py_str path)),
           (''operator'', PStr (py_str oper)),
           (''expected'', snd wanted),
           (''actual'', snd found),
           (''status'', PStr (if passed then ''passed'' else ''failed'')),
           (''failure_reason'', case reason of None \<Rightarrow> PNone | Some r \<Rightarrow> PStr r)]"
    using assms(1) keys
    by (auto simp: evaluate_condition_def dindex_def rbind_eq_Inr Let_def case_prod_unfold found_def
        wanted_def seen_def observed_value_def texts cong: if_cong)
  show ?thesis
    using r(1) proof_identity_Inr[OF r(2)] unfolding p texts dget_append by (simp add: dget_def)
qed

text \<open>(C35) A passed proof says what was observed.  Its actual and expected values are those found at the
  reviewed paths (or the reviewed expectation itself); under \<open>exists\<close> the path is observed exactly when
  the expectation is true; under every other operator both values were really observed and the
  operator holds between them.\<close>

theorem passed_proof_is_observed:
  assumes "evaluate_condition condition observation database = Inr proof_record"
    and "dget proof_record ''status'' = PStr ''passed''"
  shows "\<exists>actual_seen expected_seen.
      extract_path (observed_value observation database) (condition_text ''path'' (PDict condition))
        = (actual_seen, dget proof_record ''actual'')
    \<and> (if dget condition ''expected_path'' = PNone
       then expected_seen \<and> dget proof_record ''expected'' = dget condition ''expected''
       else extract_path (observed_value observation database)
              (py_str (dget condition ''expected_path'')) = (expected_seen, dget proof_record ''expected''))
    \<and> (if condition_text ''operator'' (PDict condition) = ''exists''
       then actual_seen = truthy (dget proof_record ''expected'')
       else actual_seen \<and> expected_seen
         \<and> operator_holds (condition_text ''operator'' (PDict condition))
             (dget proof_record ''actual'') (dget proof_record ''expected''))"
  using evaluate_condition_Inr[OF assms(1)] assms(2)
  by (cases "condition_text ''operator'' (PDict condition) = ''exists''")
    (auto simp: compare_values_passed compare_exists_passed prod_eq_iff split: if_splits)


section \<open>Alignment with the test plan\<close>

definition text_or :: "string \<Rightarrow> pyval \<Rightarrow> string" where
  "text_or k v = py_str (dget_or (as_dict v) k (PStr ''''))"

lemma get_text_Inr [result_simps]: "get_text v k = Inr t \<longleftrightarrow> (\<exists>d. v = PDict d) \<and> t = text_or k v"
  by (cases v) (auto simp: get_text_def text_or_def result_simps)

definition tuple_of :: "pyval \<Rightarrow> coverage_tuple" where
  "tuple_of c = (text_or ''criterion_ref'' c, text_or ''test_case_ref'' c, text_or ''test_data_id'' c)"

lemma py_get_Inr [result_simps]: "py_get v k = Inr w \<longleftrightarrow> (\<exists>d. v = PDict d \<and> w = dget d k)"
  by (cases v) auto

text \<open>What an accepted condition satisfies.\<close>

definition aligned_condition :: "coverage_tuple list \<Rightarrow> string \<Rightarrow> pyval \<Rightarrow> pyval \<Rightarrow> bool" where
  "aligned_condition expected test_data_id identity c \<longleftrightarrow>
    text_or ''test_data_id'' c = test_data_id \<and> tuple_of c \<in> set expected
    \<and> py_eq (dget (as_dict c) ''source_flow_id'') (dget (as_dict identity) ''source_flow_id'')
    \<and> py_eq (dget (as_dict c) ''source_step_id'') (dget (as_dict identity) ''source_step_id'')"

lemma condition_tuple_Inr: "condition_tuple c = Inr t \<Longrightarrow> t = tuple_of c"
  by (auto simp: condition_tuple_def result_simps tuple_of_def)

lemma step_differs_False:
  "step_differs c identity = Inr False \<longleftrightarrow> (\<exists>d i. c = PDict d \<and> identity = PDict i
     \<and> py_eq (dget d ''source_flow_id'') (dget i ''source_flow_id'')
     \<and> py_eq (dget d ''source_step_id'') (dget i ''source_step_id''))"
  by (cases c; cases identity) (auto simp: step_differs_def)

lemma condition_reasons_Nil:
  assumes "condition_reasons expected criteria tid identity paths cid (tuple_of c) c = Inr []"
  shows "aligned_condition expected tid identity c"
proof -
  have "step_differs c identity = Inr False"
    "\<exists>label. binding_reasons expected label tid (tuple_of c) = []"
    using assms unfolding condition_reasons_def Let_def rbind_eq_Inr by (auto split: if_splits)
  then show ?thesis
    by (auto simp: step_differs_False binding_reasons_def aligned_condition_def tuple_of_def
        split: if_splits)
qed

lemma align_condition_step:
  assumes "align_condition expected criteria tid identity paths st c = Inr st'"
  shows "al_actual st' = tuple_of c # al_actual st
    \<and> al_condition_ids st' = al_condition_ids st @ [text_or ''condition_id'' c]
    \<and> (al_reasons st' = [] \<longrightarrow> al_reasons st = [] \<and> aligned_condition expected tid identity c)"
proof -
  obtain reasons where "condition_reasons expected criteria tid identity paths
      (text_or ''condition_id'' c) (tuple_of c) c = Inr reasons"
    and "st' = \<lparr>al_reasons = al_reasons st @ reasons, al_actual = tuple_of c # al_actual st,
      al_condition_ids = al_condition_ids st @ [text_or ''condition_id'' c]\<rparr>"
    using assms unfolding align_condition_def rbind_eq_Inr get_text_Inr
    by (auto dest!: condition_tuple_Inr)
  then show ?thesis using condition_reasons_Nil by auto
qed

lemma align_conditions:
  assumes "foldM (align_condition expected criteria tid identity paths) st cs = Inr st'"
  shows "al_actual st' = rev (map tuple_of cs) @ al_actual st
    \<and> al_condition_ids st' = al_condition_ids st @ map (text_or ''condition_id'') cs
    \<and> (al_reasons st' = [] \<longrightarrow> al_reasons st = [] \<and> (\<forall>c\<in>set cs. aligned_condition expected tid identity c))"
  using assms
proof (induction cs arbitrary: st)
  case (Cons c cs)
  then obtain st1 where st1: "align_condition expected criteria tid identity paths st c = Inr st1"
    "foldM (align_condition expected criteria tid identity paths) st1 cs = Inr st'"
    by (auto simp: result_simps)
  show ?case
    using Cons.IH[OF st1(2)] align_condition_step[OF st1(1)] by simp
qed simp

definition set_conditions :: "pyval \<Rightarrow> pyval list" where
  "set_conditions data_set =
    (case get_items data_set ''coverage_conditions'' of Inr cs \<Rightarrow> cs | Inl e \<Rightarrow> [])"

definition identity_of :: "pyval \<Rightarrow> pyval" where
  "identity_of data_set = py_or (dget (as_dict data_set) ''identity_binding'') (PDict [])"

definition aligned_data_set :: "coverage_tuple list \<Rightarrow> pyval \<Rightarrow> bool" where
  "aligned_data_set expected data_set \<longleftrightarrow>
    (\<forall>c\<in>set (set_conditions data_set).
       aligned_condition expected (text_or ''test_data_id'' data_set) (identity_of data_set) c)"

lemma align_data_sets:
  assumes "foldM (align_data_set expected criteria) st dss = Inr st'"
  shows "mapM (\<lambda>ds. get_items ds ''coverage_conditions'') dss = Inr (map set_conditions dss)
    \<and> al_actual st' = rev (map tuple_of (concat (map set_conditions dss))) @ al_actual st
    \<and> al_condition_ids st' = al_condition_ids st
         @ map (text_or ''condition_id'') (concat (map set_conditions dss))
    \<and> (al_reasons st' = [] \<longrightarrow> al_reasons st = [] \<and> (\<forall>ds\<in>set dss. aligned_data_set expected ds))"
  using assms
proof (induction dss arbitrary: st)
  case (Cons ds dss)
  then obtain st1 where st1: "align_data_set expected criteria st ds = Inr st1"
    "foldM (align_data_set expected criteria) st1 dss = Inr st'"
    by (auto simp: result_simps)
  obtain cs paths where cs: "get_items ds ''coverage_conditions'' = Inr cs"
    "foldM (align_condition expected criteria (text_or ''test_data_id'' ds) (identity_of ds) paths)
       st cs = Inr st1"
    using st1(1) by (auto simp: align_data_set_def result_simps identity_of_def Let_def)
  have "set_conditions ds = cs" by (simp add: set_conditions_def cs(1))
  then show ?case
    using Cons.IH[OF st1(2)] align_conditions[OF cs(2)] cs(1)
    by (auto simp: aligned_data_set_def)
qed simp

text \<open>The criterion, case and data tuples of a test plan.\<close>

definition planned_tuples :: "pydict \<Rightarrow> coverage_tuple list result" where
  "planned_tuples test_plan =
    rbind (py_iter (dget_or test_plan ''test_cases'' (PList []))) (\<lambda>cases.
    rbind (mapM expected_tuples cases) (\<lambda>tuples. Inr (concat tuples)))"

lemma accepted_alignment_facts:
  assumes "validate_test_data_coverage_alignment test_plan data_plan criteria = Inr []"
  shows "\<exists>data_sets expected.
    py_iter (dget_or data_plan ''data_sets'' (PList [])) = Inr data_sets
    \<and> planned_tuples test_plan = Inr expected
    \<and> plan_conditions data_plan = Inr (concat (map set_conditions data_sets))
    \<and> tuple_of ` set (concat (map set_conditions data_sets)) = set expected
    \<and> distinct (map (text_or ''condition_id'') (concat (map set_conditions data_sets)))
    \<and> (\<forall>ds\<in>set data_sets. aligned_data_set expected ds)"
proof -
  obtain cases tuples crit data_sets st where
    e: "py_iter (dget_or test_plan ''test_cases'' (PList [])) = Inr cases"
       "mapM expected_tuples cases = Inr tuples"
    and d: "py_iter (dget_or data_plan ''data_sets'' (PList [])) = Inr data_sets"
    and f: "foldM (align_data_set (concat tuples) crit)
          \<lparr>al_reasons = if criteria \<noteq> None
               \<and> set (map fst (concat tuples)) \<noteq> set (map fst crit)
             then [''AcceptanceCriteria identities must exactly match TestPlan references'']
             else [], al_actual = [], al_condition_ids = []\<rparr> data_sets = Inr st"
    and none: "al_reasons st
        @ (if \<not> distinct (al_condition_ids st)
           then [''Test data coverage condition IDs must be globally unique''] else [])
        @ (if filter (\<lambda>t. t \<notin> set (al_actual st)) (concat tuples) \<noteq> []
           then [''Test data coverage conditions are missing for criterion/case/data tuples: ''
             @ repr_tuples (sorted_set (filter (\<lambda>t. t \<notin> set (al_actual st)) (concat tuples)))]
           else []) = []"
    using assms unfolding validate_test_data_coverage_alignment_def rbind_eq_Inr Let_def
    by (elim exE conjE) (rule that, assumption+, simp only: sum.inject sorted_set_Nil_iff)
  have ok: "al_reasons st = []" "distinct (al_condition_ids st)"
       "set (concat tuples) \<subseteq> set (al_actual st)"
    using none by (auto simp: filter_empty_conv split: if_splits)
  have p: "planned_tuples test_plan = Inr (concat tuples)"
    by (simp add: planned_tuples_def e)
  note a = align_data_sets[OF f]
  have sub: "tuple_of ` set (concat (map set_conditions data_sets)) \<subseteq> set (concat tuples)"
    using a ok(1) by (auto simp: aligned_data_set_def aligned_condition_def)
  show ?thesis
    using a ok p d sub by (intro exI[of _ data_sets] exI[of _ "concat tuples"])
      (auto simp: plan_conditions_def)
qed

text \<open>An accepted alignment is exact: the conditions of the data plan have unique ids, they
  cover precisely the criterion, case and data tuples of the test plan, and each one sits in its
  own data set on the frozen identity step.\<close>

theorem accepted_alignment_exact:
  assumes "validate_test_data_coverage_alignment test_plan data_plan criteria = Inr []"
  shows "\<exists>data_sets expected.
    py_iter (dget_or data_plan ''data_sets'' (PList [])) = Inr data_sets
    \<and> planned_tuples test_plan = Inr expected
    \<and> plan_conditions data_plan = Inr (concat (map set_conditions data_sets))
    \<and> tuple_of ` set (concat (map set_conditions data_sets)) = set expected
    \<and> distinct (map (text_or ''condition_id'') (concat (map set_conditions data_sets)))
    \<and> (\<forall>ds\<in>set data_sets. aligned_data_set expected ds)"
  by (rule accepted_alignment_facts[OF assms])


text \<open>(C12) Alignment and gate together: when the data plan is accepted for the test plan and the
  summary of the run's proofs passes, every criterion, case and data tuple of the test plan has a
  condition whose own proof passed.\<close>

theorem aligned_gate_covers_test_plan:
  assumes "validate_test_data_coverage_alignment test_plan data_plan criteria = Inr []"
    and "summarize_data_coverage data_plan proofs = Inr summary"
    and "dget summary ''status'' = PStr ''passed''"
  shows "\<exists>expected conditions. planned_tuples test_plan = Inr expected
    \<and> plan_conditions data_plan = Inr conditions
    \<and> (\<forall>t\<in>set expected. \<exists>c\<in>set conditions.
         tuple_of c = t \<and> condition_text ''condition_id'' c \<in> proven_ids proofs)"
proof -
  obtain dss expected where a: "planned_tuples test_plan = Inr expected"
    "plan_conditions data_plan = Inr (concat (map set_conditions dss))"
    "set expected = tuple_of ` set (concat (map set_conditions dss))"
    using accepted_alignment_facts[OF assms(1)] by blast
  then show ?thesis
    using data_gate_facts[OF assms(2)] assms(3) by fastforce
qed

section \<open>A worked plan\<close>

definition demo_condition :: pydict where
  "demo_condition =
    [(''condition_id'', PStr ''COND-1''), (''criterion_ref'', PStr ''AC-1''),
     (''test_case_ref'', PStr ''TC-1''), (''test_data_id'', PStr ''TD-1''),
     (''condition_kind'', PStr ''range''), (''source_flow_id'', PStr ''FLOW-1''),
     (''source_step_id'', PStr ''STEP-1''), (''path'', PStr ''$.rows[1].total''),
     (''operator'', PStr ''between''), (''expected'', PList [PInt 10, PInt 20])]"

definition demo_data_plan :: pydict where
  "demo_data_plan =
    [(''data_sets'', PList [PDict
       [(''test_data_id'', PStr ''TD-1''),
        (''identity_binding'', PDict
          [(''source_flow_id'', PStr ''FLOW-1''), (''source_step_id'', PStr ''STEP-1''),
           (''primary_key'', PDict [(''path'', PStr ''$.id'')])]),
        (''coverage_conditions'', PList [PDict demo_condition])]])]"

definition demo_test_plan :: pydict where
  "demo_test_plan =
    [(''test_cases'', PList [PDict
       [(''test_case_id'', PStr ''TC-1''), (''acceptance_criteria_refs'', PList [PStr ''AC-1'']),
        (''test_data_refs'', PList [PStr ''TD-1''])]])]"

definition demo_observation :: pyval where
  "demo_observation = PDict [(''rows'', PList [PDict [], PDict [(''total'', PInt 15)]])]"

definition demo_proof :: pydict where
  "demo_proof = (case evaluate_condition demo_condition demo_observation PNone of Inr p \<Rightarrow> p | _ \<Rightarrow> [])"

definition demo_summary :: pydict where
  "demo_summary = (case summarize_data_coverage demo_data_plan [demo_proof] of Inr p \<Rightarrow> p | _ \<Rightarrow> [])"

lemma demo_proof_eval:
  "evaluate_condition demo_condition demo_observation PNone = Inr demo_proof"
  "dget demo_proof ''status'' = PStr ''passed''"
  "condition_text ''operator'' (PDict demo_condition) = ''between''"
  "dget demo_condition ''expected_path'' = PNone"
  by code_simp+

lemma demo_conditions:
  "plan_conditions demo_data_plan = Inr [PDict demo_condition]"
  "require [] (PDict demo_condition) = Inr [(''AC-1'', [''COND-1''])]"
  "passed_condition_ids [demo_proof] = Inr [''COND-1'']"
  "dindex demo_proof ''condition_id'' = Inr (PStr ''COND-1'')"
  by code_simp+

lemma demo_summary_eval:
  "summarize_data_coverage demo_data_plan [demo_proof] = Inr demo_summary"
  "dget demo_summary ''status'' = PStr ''passed''"
  by (simp_all add: demo_summary_def summarize_data_coverage_def demo_conditions dget_def)

definition dict_values :: "pyval \<Rightarrow> pyval list" where
  "dict_values v = (case v of PList vs \<Rightarrow> vs | _ \<Rightarrow> [])"

lemma demo_alignment_parts:
  "py_iter (dget_or demo_test_plan ''test_cases'' (PList []))
     = Inr (dict_values (dget demo_test_plan ''test_cases''))"
  "mapM expected_tuples (dict_values (dget demo_test_plan ''test_cases''))
     = Inr [[(''AC-1'', ''TC-1'', ''TD-1'')]]"
  "py_iter (dget_or demo_data_plan ''data_sets'' (PList []))
     = Inr (dict_values (dget demo_data_plan ''data_sets''))"
  "foldM (align_data_set [(''AC-1'', ''TC-1'', ''TD-1'')] [])
     \<lparr>al_reasons = [], al_actual = [], al_condition_ids = []\<rparr>
     (dict_values (dget demo_data_plan ''data_sets''))
   = Inr \<lparr>al_reasons = [], al_actual = [(''AC-1'', ''TC-1'', ''TD-1'')],
       al_condition_ids = [''COND-1'']\<rparr>"
  by code_simp+

lemma demo_alignment:
  "validate_test_data_coverage_alignment demo_test_plan demo_data_plan None = Inr []"
  by (simp add: validate_test_data_coverage_alignment_def criteria_index_def demo_alignment_parts)

theorem data_gate_passed_iff_witness:
  "\<exists>conditions. plan_conditions demo_data_plan = Inr conditions \<and> conditions \<noteq> []"
  using data_gate_passed_iff[OF demo_summary_eval(1)] demo_summary_eval(2) by auto

theorem passed_proof_is_observed_witness:
  "operator_holds ''between'' (dget demo_proof ''actual'') (dget demo_condition ''expected'')"
  using passed_proof_is_observed[OF demo_proof_eval(1,2)] demo_proof_eval(3,4) by auto

theorem accepted_alignment_exact_witness:
  "\<exists>expected. planned_tuples demo_test_plan = Inr expected"
  using accepted_alignment_exact[OF demo_alignment] by blast

theorem aligned_gate_covers_test_plan_witness:
  "\<exists>expected. planned_tuples demo_test_plan = Inr expected"
  using aligned_gate_covers_test_plan[OF demo_alignment demo_summary_eval] by blast

end
