(* ===== verification/CanonicalFacts.thy ===== *)
theory CanonicalFacts
  imports Conventions
begin

text \<open>
  From a row of a document to a canonical fact: \<open>domain/canonical_facts.py\<close>.  The fields of a row
  are named by aliases of the selected variant; a row becomes a fact only when no two of its fields
  contradict each other and every field of the stable key has a value.
\<close>

section \<open>Normal forms\<close>

definition normalize_business_value :: "string \<Rightarrow> string" where
  "normalize_business_value value = whitespace_sub (py_strip value)"

definition normalize_field_name :: "text_tables \<Rightarrow> string \<Rightarrow> string" where
  "normalize_field_name u value = casefold u (nfkc u (normalize_business_value value))"

section \<open>Data, with the checks of its constructors\<close>

datatype mapping_status = MAPPED_FACT | REVIEW_FACT

datatype mapping_reason =
    MAPPED
  | VARIANT_NOT_AUTO_MATCHED
  | MISSING_STABLE_KEY_FIELD
  | CONFLICTING_FIELD_VALUES

record observed_field =
  of_name :: string
  of_value :: string
  of_source_ref :: string

definition new_observed_field :: "string \<Rightarrow> string \<Rightarrow> string \<Rightarrow> observed_field result" where
  "new_observed_field name value source_ref =
    (if blank name then Inl (ValueError ''Observed field name must not be blank'')
     else if blank source_ref then Inl (ValueError ''Observed field source_ref must not be blank'')
     else Inr \<lparr>of_name = name, of_value = value, of_source_ref = source_ref\<rparr>)"

record observed_record =
  or_record_ref :: string
  or_fields :: "observed_field list"

definition new_observed_record :: "string \<Rightarrow> observed_field list \<Rightarrow> observed_record result" where
  "new_observed_record record_ref columns =
    (if blank record_ref then Inl (ValueError ''Observed record_ref must not be blank'')
     else if columns = [] then
       Inl (ValueError ''Observed record must contain at least one field'')
     else Inr \<lparr>or_record_ref = record_ref, or_fields = columns\<rparr>)"

record field_evidence =
  fe_canonical_field :: string
  fe_source_aliases :: "string list"
  fe_source_refs :: "string list"

record canonical_fact =
  cf_fact_type :: string
  cf_stable_key :: string
  cf_values :: "(string \<times> string) list"
  cf_source_refs :: "string list"
  cf_field_evidence :: "field_evidence list"

definition new_canonical_fact ::
    "text_tables \<Rightarrow> string \<Rightarrow> string \<Rightarrow> (string \<times> string) list \<Rightarrow> string list
     \<Rightarrow> field_evidence list \<Rightarrow> canonical_fact result" where
  "new_canonical_fact u fact_type stable_key values source_refs evidence =
    (let expected_prefix = normalize_field_name u fact_type @ '':''
     in if blank fact_type then Inl (ValueError ''Canonical fact_type must not be blank'')
        else if blank stable_key then Inl (ValueError ''Canonical stable_key must not be blank'')
        else if \<not> starts_with expected_prefix stable_key then
          Inl (ValueError (''Canonical stable_key must start with '' @ expected_prefix))
        else if values = [] \<or> list_ex (\<lambda>(name, value). blank name \<or> blank value) values then
          Inl (ValueError ''Canonical Fact values must be non-empty names and values'')
        else if source_refs = [] \<or> list_ex blank source_refs \<or> \<not> distinct source_refs then
          Inl (ValueError ''Canonical Fact source_refs must be non-empty and unique'')
        else Inr \<lparr>cf_fact_type = fact_type, cf_stable_key = stable_key,
                  cf_values = sort_key fst values, cf_source_refs = source_refs,
                  cf_field_evidence = evidence\<rparr>)"

record mapping_result =
  cr_status :: mapping_status
  cr_reason :: mapping_reason
  cr_record_ref :: string
  cr_fact :: "canonical_fact option"
  cr_missing_fields :: "string list"
  cr_conflicting_fields :: "string list"
  cr_unmapped_fields :: "string list"

definition check_mapping_result :: "mapping_result \<Rightarrow> mapping_result result" where
  "check_mapping_result r =
    (if cr_status r = MAPPED_FACT \<and> cr_fact r = None then
       Inl (ValueError ''Mapped result must contain a Canonical Fact'')
     else if cr_status r = REVIEW_FACT \<and> cr_fact r \<noteq> None then
       Inl (ValueError ''needs_review result must not contain a Canonical Fact'')
     else Inr r)"

section \<open>Mapping one record\<close>

definition selected_variant ::
    "document_convention \<Rightarrow> string \<Rightarrow> convention_variant result" where
  "selected_variant convention selected_variant_id =
    (case filter (\<lambda>v. cv_variant_id v = selected_variant_id) (dc_variants convention) of
       [v] \<Rightarrow> Inr v
     | _ \<Rightarrow> Inl (ValueError (''Selected Variant does not exist uniquely: '' @ selected_variant_id)))"

definition add_alias ::
    "text_tables \<Rightarrow> string \<Rightarrow> (string \<times> string) list \<Rightarrow> string \<Rightarrow> (string \<times> string) list result"
  where
  "add_alias u canonical_field lookup alias =
    (let normalized_alias = normalize_field_name u alias
     in case map_of lookup normalized_alias of
          Some existing \<Rightarrow>
            if existing \<noteq> canonical_field then
              Inl (ValueError (''Alias maps to multiple canonical fields: '' @ alias @ '' (''
                @ existing @ '', '' @ canonical_field @ '')''))
            else Inr (AList.update normalized_alias canonical_field lookup)
        | None \<Rightarrow> Inr (AList.update normalized_alias canonical_field lookup))"

definition alias_lookup :: "text_tables \<Rightarrow> convention_variant \<Rightarrow> (string \<times> string) list result" where
  "alias_lookup u variant =
    foldM (\<lambda>lookup (canonical_field, aliases). foldM (add_alias u canonical_field) lookup aliases)
      [] (cv_field_aliases variant)"

type_synonym field_candidates = "(string \<times> observed_field list) list"

definition place_field ::
    "text_tables \<Rightarrow> (string \<times> string) list \<Rightarrow> field_candidates \<times> string list \<Rightarrow> observed_field
     \<Rightarrow> field_candidates \<times> string list" where
  "place_field u lookup st column =
    (case st of (candidates, unmapped) \<Rightarrow>
      case map_of lookup (normalize_field_name u (of_name column)) of
        None \<Rightarrow> (candidates, unmapped @ [of_name column])
      | Some canonical_field \<Rightarrow>
          if normalize_business_value (of_value column) = [] then (candidates, unmapped)
          else (AList.update canonical_field
                 ((case map_of candidates canonical_field of None \<Rightarrow> [] | Some fs \<Rightarrow> fs) @ [column])
                 candidates, unmapped))"

definition conflicting :: "string \<times> observed_field list \<Rightarrow> bool" where
  "conflicting entry \<longleftrightarrow>
    1 < length (remdups (map (\<lambda>f. normalize_business_value (of_value f)) (snd entry)))"

definition settled_value :: "string \<times> observed_field list \<Rightarrow> string \<times> string" where
  "settled_value entry = (fst entry, normalize_business_value (of_value (hd (snd entry))))"

definition settled_evidence :: "string \<times> observed_field list \<Rightarrow> field_evidence" where
  "settled_evidence entry =
    \<lparr>fe_canonical_field = fst entry,
     fe_source_aliases = sorted_set (map of_name (snd entry)),
     fe_source_refs = sorted_set (map of_source_ref (snd entry))\<rparr>"

definition missing_key_fields :: "string list \<Rightarrow> (string \<times> string) list \<Rightarrow> string list" where
  "missing_key_fields key_fields values =
    filter (\<lambda>f. blank (case map_of values f of None \<Rightarrow> '''' | Some v \<Rightarrow> v)) key_fields"

text \<open>The decision on the candidates of a row.\<close>

definition decide_record ::
    "text_tables \<Rightarrow> convention_variant \<Rightarrow> string \<Rightarrow> string \<Rightarrow> field_candidates \<times> string list
     \<Rightarrow> mapping_result result" where
  "decide_record u variant fact_type record_ref st =
    (case st of (candidates, unmapped_fields) \<Rightarrow>
      let settled = filter (\<lambda>e. \<not> conflicting e) candidates;
          conflicting_fields = map fst (filter conflicting candidates);
          values = map settled_value settled;
          evidence = map settled_evidence settled;
          unmapped = sorted_set unmapped_fields;
          missing_fields = missing_key_fields (cv_stable_key_fields variant) values
      in if conflicting_fields \<noteq> [] then
           check_mapping_result
             \<lparr>cr_status = REVIEW_FACT, cr_reason = CONFLICTING_FIELD_VALUES,
              cr_record_ref = record_ref, cr_fact = None, cr_missing_fields = [],
              cr_conflicting_fields = sort conflicting_fields, cr_unmapped_fields = unmapped\<rparr>
         else if missing_fields \<noteq> [] then
           check_mapping_result
             \<lparr>cr_status = REVIEW_FACT, cr_reason = MISSING_STABLE_KEY_FIELD,
              cr_record_ref = record_ref, cr_fact = None,
              cr_missing_fields = missing_fields, cr_conflicting_fields = [],
              cr_unmapped_fields = unmapped\<rparr>
         else
           rbind (build_stable_key u fact_type (cv_stable_key_fields variant) values
                   (cv_stable_key_normalizers variant)) (\<lambda>stable_key.
           rbind (new_canonical_fact u fact_type stable_key values
                   (sorted_set (concat (map fe_source_refs evidence)))
                   (sort_key fe_canonical_field evidence)) (\<lambda>fact.
             check_mapping_result
               \<lparr>cr_status = MAPPED_FACT, cr_reason = MAPPED, cr_record_ref = record_ref,
                cr_fact = Some fact, cr_missing_fields = [], cr_conflicting_fields = [],
                cr_unmapped_fields = unmapped\<rparr>)))"

definition map_record ::
    "text_tables \<Rightarrow> document_convention \<Rightarrow> convention_match \<Rightarrow> string \<Rightarrow> observed_record
     \<Rightarrow> mapping_result result" where
  "map_record u convention match fact_type rec =
    (case (cm_status match, cm_selected_variant_id match) of
       (AUTO_MATCHED, Some variant_id) \<Rightarrow>
         rbind (selected_variant convention variant_id) (\<lambda>variant.
         rbind (alias_lookup u variant) (\<lambda>lookup.
           decide_record u variant fact_type (or_record_ref rec)
             (foldl (place_field u lookup) ([], []) (or_fields rec))))
     | _ \<Rightarrow>
         check_mapping_result
           \<lparr>cr_status = REVIEW_FACT, cr_reason = VARIANT_NOT_AUTO_MATCHED,
            cr_record_ref = or_record_ref rec, cr_fact = None, cr_missing_fields = [],
            cr_conflicting_fields = [], cr_unmapped_fields = []\<rparr>)"

section \<open>What the candidates of a field are\<close>

definition contributes ::
    "text_tables \<Rightarrow> (string \<times> string) list \<Rightarrow> string \<Rightarrow> observed_field \<Rightarrow> bool" where
  "contributes u lookup k f \<longleftrightarrow>
    map_of lookup (normalize_field_name u (of_name f)) = Some k
    \<and> normalize_business_value (of_value f) \<noteq> []"

definition fields_for ::
    "text_tables \<Rightarrow> (string \<times> string) list \<Rightarrow> observed_field list \<Rightarrow> string \<Rightarrow> observed_field list" where
  "fields_for u lookup fs k = filter (contributes u lookup k) fs"

lemma place_fields:
  "foldl (place_field u lookup) ([], []) fs = (cands, un) \<Longrightarrow>
     distinct (map fst cands)
     \<and> (\<forall>k. map_of cands k =
          (if fields_for u lookup fs k = [] then None else Some (fields_for u lookup fs k)))
     \<and> set un = of_name ` {f \<in> set fs. map_of lookup (normalize_field_name u (of_name f)) = None}"
proof (induction fs arbitrary: cands un rule: rev_induct)
  case Nil
  then show ?case by (simp add: fields_for_def)
next
  case (snoc f fs)
  obtain c0 u0 where st: "foldl (place_field u lookup) ([], []) fs = (c0, u0)"
    by (cases "foldl (place_field u lookup) ([], []) fs") auto
  note ih = snoc.IH[OF st]
  have step: "place_field u lookup (c0, u0) f = (cands, un)"
    using snoc.prems st by simp
  show ?case
  proof (cases "map_of lookup (normalize_field_name u (of_name f))")
    case None
    then have "cands = c0" "un = u0 @ [of_name f]" using step by (auto simp: place_field_def)
    with ih None show ?thesis by (auto simp: fields_for_def contributes_def)
  next
    case (Some k)
    show ?thesis
    proof (cases "normalize_business_value (of_value f) = []")
      case True
      then have "cands = c0" "un = u0" using step Some by (auto simp: place_field_def)
      with ih Some True show ?thesis by (auto simp: fields_for_def contributes_def)
    next
      case False
      then have c: "cands = AList.update k (fields_for u lookup fs k @ [f]) c0" and u: "un = u0"
        using step Some ih by (auto simp: place_field_def split: if_splits)
      have "fields_for u lookup (fs @ [f]) k' =
          fields_for u lookup fs k' @ (if k' = k then [f] else [])" for k'
        using Some False by (auto simp: fields_for_def contributes_def)
      then show ?thesis
        using ih Some unfolding c u by (auto simp: update_conv' distinct_update)
    qed
  qed
qed


lemma set_candidates:
  assumes "foldl (place_field u lookup) ([], []) fs = (cands, un)"
  shows "set cands = {(k, fields_for u lookup fs k) |k. fields_for u lookup fs k \<noteq> []}"
proof -
  have "e \<in> set cands \<longleftrightarrow> map_of cands (fst e) = Some (snd e)" for e
    using map_of_eq_Some_iff[of cands] place_fields[OF assms] by (metis prod.collapse)
  then show ?thesis using place_fields[OF assms] by (auto split: if_splits)
qed

section \<open>What a mapped fact says\<close>

lemma not_conflicting_value:
  "\<not> conflicting (k, fs) \<Longrightarrow> f \<in> set fs \<Longrightarrow>
     normalize_business_value (of_value (hd fs)) = normalize_business_value (of_value f)"
proof -
  assume "\<not> conflicting (k, fs)" and f: "f \<in> set fs"
  then have "card (set (map (\<lambda>f. normalize_business_value (of_value f)) fs)) \<le> 1"
    by (simp add: conflicting_def length_remdups_card_conv)
  moreover have "hd fs \<in> set fs" using f by (cases fs) auto
  ultimately show ?thesis
    using f by (metis (no_types, lifting) List.finite_set card_le_Suc0_iff_eq image_eqI list.set_map One_nat_def)
qed

lemma map_of_settled:
  "map_of (map settled_value cands) k =
     (case map_of cands k of None \<Rightarrow> None
      | Some fs \<Rightarrow> Some (normalize_business_value (of_value (hd fs))))"
  by (induction cands) (auto simp: settled_value_def)

lemma check_mapping_result_simps [simp]:
  "check_mapping_result r = Inr r' \<longleftrightarrow> r' = r \<and> (cr_status r = MAPPED_FACT \<longleftrightarrow> cr_fact r \<noteq> None)"
  by (cases "cr_status r") (auto simp: check_mapping_result_def)

lemma new_canonical_fact_Inr:
  "new_canonical_fact u t key vs refs ev = Inr cfact \<Longrightarrow>
     cf_fact_type cfact = t \<and> cf_stable_key cfact = key \<and> cf_values cfact = sort_key fst vs
     \<and> cf_source_refs cfact = refs \<and> cf_field_evidence cfact = ev"
  by (auto simp: new_canonical_fact_def Let_def split: if_splits)

lemma map_record_mapped:
  assumes "map_record u convention match fact_type rec = Inr r" "cr_status r = MAPPED_FACT"
  shows "\<exists>variant_id variant lookup cands un cfact.
    cm_status match = AUTO_MATCHED \<and> cm_selected_variant_id match = Some variant_id
    \<and> selected_variant convention variant_id = Inr variant \<and> alias_lookup u variant = Inr lookup
    \<and> foldl (place_field u lookup) ([], []) (or_fields rec) = (cands, un)
    \<and> (\<forall>e\<in>set cands. \<not> conflicting e)
    \<and> missing_key_fields (cv_stable_key_fields variant) (map settled_value cands) = []
    \<and> build_stable_key u fact_type (cv_stable_key_fields variant) (map settled_value cands)
        (cv_stable_key_normalizers variant) = Inr (cf_stable_key cfact)
    \<and> cr_fact r = Some cfact \<and> cf_values cfact = sort_key fst (map settled_value cands)
    \<and> cf_source_refs cfact = sorted_set (concat (map fe_source_refs (map settled_evidence cands)))"
proof -
  obtain variant_id where m: "cm_status match = AUTO_MATCHED"
    "cm_selected_variant_id match = Some variant_id"
    using assms by (auto simp: map_record_def split: match_status.splits option.splits)
  obtain variant lookup where v: "selected_variant convention variant_id = Inr variant"
    "alias_lookup u variant = Inr lookup"
    using assms m by (auto simp: map_record_def result_simps)
  obtain cands un where c: "foldl (place_field u lookup) ([], []) (or_fields rec) = (cands, un)"
    by fastforce
  note assms(1)[unfolded map_record_def m v c rbind_Inr prod.case match_status.case option.case
      decide_record_def Let_def]
  with assms(2) have none: "filter conflicting cands = []"
    by (auto split: if_splits)
  then have all: "filter (\<lambda>e. \<not> conflicting e) cands = cands"
    by (auto simp: filter_empty_conv filter_id_conv)
  note r = assms(1)[unfolded map_record_def m v c rbind_Inr prod.case match_status.case option.case
      decide_record_def Let_def none all]
  have missing: "missing_key_fields (cv_stable_key_fields variant) (map settled_value cands) = []"
    using r assms(2) by (auto split: if_splits)
  obtain key cfact where "build_stable_key u fact_type (cv_stable_key_fields variant)
      (map settled_value cands) (cv_stable_key_normalizers variant) = Inr key"
    "new_canonical_fact u fact_type key (map settled_value cands)
       (sorted_set (concat (map fe_source_refs (map settled_evidence cands))))
       (sort_key fe_canonical_field (map settled_evidence cands)) = Inr cfact"
    "cr_fact r = Some cfact"
    using r missing by (auto simp: rbind_eq_Inr)
  with m v c missing none show ?thesis
    by (auto simp: filter_empty_conv dest!: new_canonical_fact_Inr)
qed

lemma map_of_sort_key:
  assumes "distinct (map fst xs)"
  shows "map_of (sort_key h xs) = map_of xs"
proof -
  have "mset (map fst (sort_key h xs)) = mset (map fst xs)" by simp
  then have "distinct (map fst (sort_key h xs))"
    using assms by (metis mset_eq_imp_distinct_iff)
  then show ?thesis using assms by (intro iffD2[OF map_of_inject_set]) auto
qed

lemma build_stable_key_cong:
  "map_of vs = map_of vs' \<Longrightarrow> build_stable_key u t names vs norms = build_stable_key u t names vs' norms"
proof -
  assume "map_of vs = map_of vs'"
  then have "key_value u vs norms = key_value u vs' norms" by (simp add: key_value_def fun_eq_iff)
  then show ?thesis by (simp add: build_stable_key_def Let_def)
qed

lemma fst_settled [simp]:
  "fst \<circ> settled_value = fst" "fe_canonical_field \<circ> settled_evidence = fst"
  by (auto simp: settled_value_def settled_evidence_def)

text \<open>(C37) A mapped fact says exactly what the row says: its values are the normalised values of the
  fields whose alias names them, no field of the row that is mapped to the same name holds another
  value, its sources are those of these fields, and its stable key is built from these values.\<close>

theorem mapped_fact_faithful:
  assumes "map_record u convention match fact_type rec = Inr r" and "cr_status r = MAPPED_FACT"
  shows "\<exists>variant_id variant lookup cfact.
    cm_selected_variant_id match = Some variant_id
    \<and> selected_variant convention variant_id = Inr variant \<and> alias_lookup u variant = Inr lookup
    \<and> cr_fact r = Some cfact
    \<and> (\<forall>k v. map_of (cf_values cfact) k = Some v \<longleftrightarrow>
         (\<exists>f\<in>set (or_fields rec). contributes u lookup k f)
         \<and> (\<forall>f\<in>set (or_fields rec). contributes u lookup k f \<longrightarrow>
              normalize_business_value (of_value f) = v))
    \<and> set (cf_source_refs cfact) =
        {of_source_ref f |f. f \<in> set (or_fields rec) \<and> (\<exists>k. contributes u lookup k f)}
    \<and> build_stable_key u fact_type (cv_stable_key_fields variant) (cf_values cfact)
        (cv_stable_key_normalizers variant) = Inr (cf_stable_key cfact)"
proof -
  obtain variant_id variant lookup cands un cfact where
    v: "cm_selected_variant_id match = Some variant_id"
      "selected_variant convention variant_id = Inr variant" "alias_lookup u variant = Inr lookup"
    and c: "foldl (place_field u lookup) ([], []) (or_fields rec) = (cands, un)"
      "\<forall>e\<in>set cands. \<not> conflicting e"
    and f: "build_stable_key u fact_type (cv_stable_key_fields variant) (map settled_value cands)
        (cv_stable_key_normalizers variant) = Inr (cf_stable_key cfact)"
      "cr_fact r = Some cfact" "cf_values cfact = sort_key fst (map settled_value cands)"
      "cf_source_refs cfact = sorted_set (concat (map fe_source_refs (map settled_evidence cands)))"
    using map_record_mapped[OF assms] by blast
  have vals: "map_of (cf_values cfact) = map_of (map settled_value cands)"
    using place_fields[OF c(1)] unfolding f(3) by (intro map_of_sort_key) simp
  have cand: "map_of cands k = (if fields_for u lookup (or_fields rec) k = [] then None
      else Some (fields_for u lookup (or_fields rec) k))" for k
    using place_fields[OF c(1)] by blast
  have "map_of (cf_values cfact) k = Some v \<longleftrightarrow>
      (\<exists>f\<in>set (or_fields rec). contributes u lookup k f)
      \<and> (\<forall>f\<in>set (or_fields rec). contributes u lookup k f \<longrightarrow>
           normalize_business_value (of_value f) = v)" for k v
  proof (cases "fields_for u lookup (or_fields rec) k = []")
    case True
    then show ?thesis by (auto simp: vals map_of_settled cand fields_for_def filter_empty_conv)
  next
    case False
    then have "(k, fields_for u lookup (or_fields rec) k) \<in> set cands"
      using set_candidates[OF c(1)] by blast
    then have "\<not> conflicting (k, fields_for u lookup (or_fields rec) k)" using c(2) by blast
    note same = not_conflicting_value[OF this]
    have "hd (fields_for u lookup (or_fields rec) k) \<in> set (fields_for u lookup (or_fields rec) k)"
      using False by simp
    with False same show ?thesis
      by (auto simp: vals map_of_settled cand) (auto simp: fields_for_def filter_empty_conv)
  qed
  moreover have "set (cf_source_refs cfact) =
      {of_source_ref f |f. f \<in> set (or_fields rec) \<and> (\<exists>k. contributes u lookup k f)}"
    unfolding f(4) by (auto simp: set_candidates[OF c(1)] settled_evidence_def fields_for_def
        filter_empty_conv image_iff) blast+
  moreover have "build_stable_key u fact_type (cv_stable_key_fields variant) (cf_values cfact)
      (cv_stable_key_normalizers variant) = Inr (cf_stable_key cfact)"
    using f(1) build_stable_key_cong[OF vals] by simp
  ultimately show ?thesis using v f(2) by blast
qed

section \<open>The order of the columns does not matter\<close>

lemma sort_key_same_entries:
  assumes "distinct (map h xs)" "distinct (map h ys)" "set xs = set ys"
  shows "sort_key h xs = sort_key h ys"
proof -
  have "mset xs = mset ys"
    using assms by (metis distinct_map set_eq_iff_mset_eq_distinct)
  then show ?thesis using assms(1) by (intro sort_key_inj_key_eq) (auto simp: distinct_map)
qed

lemma sort_same_set: "distinct xs \<Longrightarrow> distinct ys \<Longrightarrow> set xs = set ys \<Longrightarrow> sort xs = sort ys"
  using sort_key_same_entries[of "\<lambda>x. x" xs ys] by simp

lemma new_canonical_fact_cong:
  assumes "set vs = set vs'" "sort_key fst vs = sort_key fst vs'"
  shows "new_canonical_fact u t key vs refs ev = new_canonical_fact u t key vs' refs ev"
proof -
  have "vs = [] \<longleftrightarrow> vs' = []" "list_ex P vs \<longleftrightarrow> list_ex P vs'" for P
    using assms(1) by (auto simp: list_ex_iff)
  then show ?thesis unfolding new_canonical_fact_def assms(2) by (simp add: Let_def)
qed

lemma image_entries:
  "(\<And>k. P k \<longleftrightarrow> P' k) \<Longrightarrow> (\<And>k. P k \<Longrightarrow> h (k, F k) = h (k, F' k)) \<Longrightarrow>
     h ` {(k, F k) |k. P k} = h ` {(k, F' k) |k. P' k}"
proof -
  assume "\<And>k. P k \<longleftrightarrow> P' k" and same: "\<And>k. P k \<Longrightarrow> h (k, F k) = h (k, F' k)"
  then have "{(k, F k) |k. P k} = (\<lambda>k. (k, F k)) ` Collect P"
    "{(k, F' k) |k. P' k} = (\<lambda>k. (k, F' k)) ` Collect P" by auto
  with same show ?thesis by (simp add: image_image)
qed

lemma place_fields_permuted:
  assumes "mset fs = mset fs'"
    and c: "foldl (place_field u lookup) ([], []) fs = (c, un)"
    and c': "foldl (place_field u lookup) ([], []) fs' = (c', un')"
  shows "sorted_set un = sorted_set un'"
    and "sort (map fst (filter conflicting c)) = sort (map fst (filter conflicting c'))"
    and "filter conflicting c = [] \<Longrightarrow> set (map settled_value c) = set (map settled_value c')"
    and "set (map settled_evidence c) = set (map settled_evidence c')"
proof -
  let ?F = "fields_for u lookup fs" and ?F' = "fields_for u lookup fs'"
  have F: "mset (?F k) = mset (?F' k)" for k
    using assms(1) by (simp add: fields_for_def mset_filter)
  have set_F: "set (?F k) = set (?F' k)" for k by (metis F set_mset_mset)
  have nil: "?F k = [] \<longleftrightarrow> ?F' k = []" for k by (metis set_F set_empty)
  have "set fs = set fs'" by (metis assms(1) set_mset_mset)
  then show "sorted_set un = sorted_set un'"
    using place_fields[OF c] place_fields[OF c'] by (intro sorted_set_cong) simp
  have conf: "conflicting (k, ?F k) \<longleftrightarrow> conflicting (k, ?F' k)" for k
    by (simp add: conflicting_def length_remdups_card_conv set_F)
  have "fst ` {e \<in> set c. conflicting e} = {k. ?F k \<noteq> [] \<and> conflicting (k, ?F k)}"
    "fst ` {e \<in> set c'. conflicting e} = {k. ?F' k \<noteq> [] \<and> conflicting (k, ?F' k)}"
    unfolding set_candidates[OF c] set_candidates[OF c'] by (auto simp: image_iff)
  then have "fst ` {e \<in> set c. conflicting e} = fst ` {e \<in> set c'. conflicting e}"
    by (simp add: conf nil)
  moreover have "distinct (map fst (filter conflicting c))" "distinct (map fst (filter conflicting c'))"
    using place_fields[OF c] place_fields[OF c'] by (simp_all add: distinct_map_filter)
  ultimately show "sort (map fst (filter conflicting c)) = sort (map fst (filter conflicting c'))"
    by (intro sort_same_set) auto
  show "set (map settled_evidence c) = set (map settled_evidence c')"
  proof -
    have "settled_evidence (k, ?F k) = settled_evidence (k, ?F' k)" for k
      using set_F[of k] by (auto simp: settled_evidence_def intro!: sorted_set_cong)
    then show ?thesis
      unfolding set_map set_candidates[OF c] set_candidates[OF c']
      by (intro image_entries) (simp_all add: nil)
  qed
  show "set (map settled_value c) = set (map settled_value c')" if "filter conflicting c = []"
  proof -
    have "settled_value (k, ?F k) = settled_value (k, ?F' k)" if "?F k \<noteq> []" for k
    proof -
      have "\<not> conflicting (k, ?F k)"
        using \<open>filter conflicting c = []\<close> that set_candidates[OF c] by (auto simp: filter_empty_conv)
      moreover have "hd (?F' k) \<in> set (?F k)" using that nil set_F by (metis hd_in_set)
      ultimately show ?thesis
        using not_conflicting_value by (auto simp: settled_value_def)
    qed
    then show ?thesis
      unfolding set_map set_candidates[OF c] set_candidates[OF c']
      by (intro image_entries) (simp_all add: nil)
  qed
qed

lemma decide_record_cong:
  assumes fs: "mset fs = mset fs'"
    and c: "foldl (place_field u lookup) ([], []) fs = (c, un)"
    and c': "foldl (place_field u lookup) ([], []) fs' = (c', un')"
  shows "decide_record u variant t ref (c, un) = decide_record u variant t ref (c', un')"
proof -
  note same = place_fields_permuted[OF fs c c']
  have d: "distinct (map fst c)" "distinct (map fst c')"
    using place_fields[OF c] place_fields[OF c'] by simp_all
  have nil: "filter conflicting c = [] \<longleftrightarrow> filter conflicting c' = []"
    using same(2) by (metis list.map_disc_iff mset_sort mset_zero_iff)
  show ?thesis
  proof (cases "filter conflicting c = []")
    case False
    then show ?thesis using same(1,2) nil by (simp add: decide_record_def Let_def)
  next
    case True
    then have all: "filter (\<lambda>e. \<not> conflicting e) c = c" "filter (\<lambda>e. \<not> conflicting e) c' = c'"
      using nil by (auto simp: filter_empty_conv filter_id_conv)
    have vs: "set (map settled_value c) = set (map settled_value c')" using same(3) True by simp
    have sv: "sort_key fst (map settled_value c) = sort_key fst (map settled_value c')"
      using d vs by (intro sort_key_same_entries) simp_all
    have m: "map_of (map settled_value c) = map_of (map settled_value c')"
      using d vs by (intro iffD2[OF map_of_inject_set]) simp_all
    have ev: "sort_key fe_canonical_field (map settled_evidence c)
        = sort_key fe_canonical_field (map settled_evidence c')"
      using d same(4) by (intro sort_key_same_entries) simp_all
    have refs: "sorted_set (concat (map fe_source_refs (map settled_evidence c)))
        = sorted_set (concat (map fe_source_refs (map settled_evidence c')))"
      using same(4) by (intro sorted_set_cong) (simp only: set_concat set_map)
    have miss: "missing_key_fields ks (map settled_value c) = missing_key_fields ks (map settled_value c')"
      for ks by (simp only: missing_key_fields_def m)
    show ?thesis
      unfolding decide_record_def prod.case Let_def all same(1) ev refs miss
        build_stable_key_cong[OF m] new_canonical_fact_cong[OF vs sv]
      using True nil by simp
  qed
qed

text \<open>The result of mapping a row does not depend on the order of its columns: the same fact, the
  same conflicts and missing fields, or the same error.\<close>

theorem map_record_ignores_column_order:
  assumes "mset (or_fields rec) = mset columns"
  shows "map_record u convention match fact_type rec
    = map_record u convention match fact_type (rec\<lparr>or_fields := columns\<rparr>)"
proof -
  have "decide_record u variant fact_type ref (foldl (place_field u lookup) ([], []) (or_fields rec))
      = decide_record u variant fact_type ref (foldl (place_field u lookup) ([], []) columns)"
    for variant lookup ref
  proof -
    obtain c un where c: "foldl (place_field u lookup) ([], []) (or_fields rec) = (c, un)"
      by fastforce
    obtain c' un' where c': "foldl (place_field u lookup) ([], []) columns = (c', un')"
      by fastforce
    show ?thesis unfolding c c' by (rule decide_record_cong[OF assms c c'])
  qed
  then show ?thesis by (simp add: map_record_def split: match_status.split option.split)
qed


section \<open>A worked row\<close>

definition demo_row :: observed_record where
  "demo_row = \<lparr>or_record_ref = ''row-1'',
     or_fields =
      [\<lparr>of_name = ''Name'', of_value = '' Bob  Lee '', of_source_ref = ''S!B2''\<rparr>,
       \<lparr>of_name = ''Note'', of_value = ''x'', of_source_ref = ''S!C2''\<rparr>,
       \<lparr>of_name = '' NAME'', of_value = ''Bob Lee'', of_source_ref = ''S!A2''\<rparr>]\<rparr>"

definition demo_style :: convention_match where
  "demo_style = \<lparr>cm_status = AUTO_MATCHED, cm_selected_variant_id = Some ''B'',
     cm_reason = ''unique_candidate_above_threshold'', cm_candidates = []\<rparr>"

definition demo_mapping :: mapping_result where
  "demo_mapping =
    \<lparr>cr_status = MAPPED_FACT, cr_reason = MAPPED, cr_record_ref = ''row-1'',
     cr_fact = Some
      \<lparr>cf_fact_type = ''Api'', cf_stable_key = ''api:bob%20lee'',
       cf_values = [(''name'', ''Bob Lee'')], cf_source_refs = [''S!A2'', ''S!B2''],
       cf_field_evidence =
        [\<lparr>fe_canonical_field = ''name'', fe_source_aliases = ['' NAME'', ''Name''],
          fe_source_refs = [''S!A2'', ''S!B2'']\<rparr>]\<rparr>,
     cr_missing_fields = [], cr_conflicting_fields = [], cr_unmapped_fields = [''Note'']\<rparr>"

lemma demo_row_maps:
  "map_record ascii_tables demo_convention demo_style ''Api'' demo_row = Inr demo_mapping"
  by code_simp

theorem mapped_fact_faithful_witness:
  "\<exists>cfact. cr_fact demo_mapping = Some cfact"
  using mapped_fact_faithful[OF demo_row_maps] by (auto simp: demo_mapping_def)

theorem map_record_ignores_column_order_witness:
  "map_record ascii_tables demo_convention demo_style ''Api''
     (demo_row\<lparr>or_fields := rev (or_fields demo_row)\<rparr>) = Inr demo_mapping"
  using map_record_ignores_column_order[of demo_row "rev (or_fields demo_row)"] demo_row_maps
  by simp

end
