(* ===== verification/KeyedDelta.thy ===== *)
theory KeyedDelta
  imports PyBase
begin

text \<open>
  What every keyed difference of the program promises.  Several modules compare two states key by
  key and record what became of each key: facts of snapshots, fields of facts, fields of document
  changes.  \<open>keyed_delta\<close> states the contract of such a comparison; the lemmas in it follow from
  the contract alone and are taken up by each module through an interpretation.
\<close>

section \<open>Dictionaries built from items\<close>

text \<open>\<open>{k: v for ...}\<close>: a later item replaces the value of an earlier one in place.\<close>

definition py_dict :: "('k \<times> 'v) list \<Rightarrow> ('k \<times> 'v) list" where
  "py_dict items = foldl (\<lambda>d (k, v). AList.update k v d) [] items"

lemma map_of_py_dict: "map_of (py_dict items) k = map_of (rev items) k"
proof -
  have "map_of (foldl (\<lambda>d (k, v). AList.update k v d) d items) k = map_of (rev items @ d) k" for d
    by (induction items arbitrary: d) (auto simp: update_conv' map_add_def split: option.splits)
  then show ?thesis by (simp add: py_dict_def)
qed

lemma keys_py_dict [simp]: "fst ` set (py_dict items) = fst ` set items"
proof -
  have "fst ` set (foldl (\<lambda>d (k, v). AList.update k v d) d items) = fst ` set items \<union> fst ` set d" for d
    by (induction items arbitrary: d) (simp_all add: dom_update case_prod_unfold)
  then show ?thesis by (simp add: py_dict_def)
qed

lemma distinct_py_dict [simp]: "distinct (map fst (py_dict items))"
proof -
  have "distinct (map fst d) \<Longrightarrow> distinct (map fst (foldl (\<lambda>d (k, v). AList.update k v d) d items))" for d
    by (induction items arbitrary: d) (auto simp: distinct_update)
  then show ?thesis by (simp add: py_dict_def)
qed

lemma map_of_rev_distinct: "distinct (map fst xs) \<Longrightarrow> map_of (rev xs) = map_of xs"
  by (intro iffD2[OF map_of_inject_set]) (auto simp: rev_map[symmetric])

text \<open>\<open>a == b\<close> for two dictionaries.\<close>

definition dict_eq :: "('k \<times> 'v) list \<Rightarrow> ('k \<times> 'v) list \<Rightarrow> bool" where
  "dict_eq a b \<longleftrightarrow> list_all (\<lambda>k. map_of a k = map_of b k) (map fst a @ map fst b)"

lemma dict_eq_iff: "dict_eq a b \<longleftrightarrow> map_of a = map_of b"
proof
  assume eq: "dict_eq a b"
  show "map_of a = map_of b"
  proof
    fix k show "map_of a k = map_of b k"
    proof (cases "k \<in> fst ` set a \<union> fst ` set b")
      case True
      then show ?thesis using eq by (auto simp: dict_eq_def list_all_iff)
    next
      case False
      then have "map_of a k = None" "map_of b k = None" by (simp_all add: map_of_eq_None_iff)
      then show ?thesis by simp
    qed
  qed
qed (simp add: dict_eq_def list_all_iff)

text \<open>The keys two dictionaries disagree on, sorted.\<close>

definition changed_keys ::
    "('k::linorder \<times> 'v) list \<Rightarrow> ('k \<times> 'v) list \<Rightarrow> 'k list" where
  "changed_keys a b = filter (\<lambda>k. map_of a k \<noteq> map_of b k) (sorted_set (map fst a @ map fst b))"

lemma set_changed_keys [simp]: "set (changed_keys a b) = {k. map_of a k \<noteq> map_of b k}"
proof -
  have "map_of a k \<noteq> map_of b k \<Longrightarrow> k \<in> fst ` set a \<union> fst ` set b" for k
    by (cases "map_of a k"; cases "map_of b k") (force dest: map_of_SomeD)+
  then show ?thesis by (auto simp: changed_keys_def)
qed

section \<open>Groups\<close>

text \<open>\<open>groups.setdefault(key(x), []).append(x)\<close> over a list.\<close>

definition group_by :: "('a \<Rightarrow> 'k) \<Rightarrow> 'a list \<Rightarrow> ('k \<times> 'a list) list" where
  "group_by key xs =
    foldl (\<lambda>m x. AList.update (key x)
      ((case map_of m (key x) of None \<Rightarrow> [] | Some ys \<Rightarrow> ys) @ [x]) m) [] xs"

lemma group_by_snoc:
  "group_by key (xs @ [x]) = AList.update (key x)
     ((case map_of (group_by key xs) (key x) of None \<Rightarrow> [] | Some ys \<Rightarrow> ys) @ [x]) (group_by key xs)"
  by (simp add: group_by_def)

lemma map_of_group_by:
  "map_of (group_by key xs) k =
     (if filter (\<lambda>x. key x = k) xs = [] then None else Some (filter (\<lambda>x. key x = k) xs))"
proof (induction xs rule: rev_induct)
  case Nil
  then show ?case by (simp add: group_by_def)
next
  case (snoc x xs)
  have "map_of (group_by key (xs @ [x])) k =
      (if k = key x then Some ((case map_of (group_by key xs) k of None \<Rightarrow> [] | Some ys \<Rightarrow> ys) @ [x])
       else map_of (group_by key xs) k)"
    by (simp add: group_by_snoc update_conv')
  then show ?case using snoc.IH by (auto split: option.splits if_splits)
qed

lemma keys_group_by [simp]: "fst ` set (group_by key xs) = key ` set xs"
  by (induction xs rule: rev_induct) (simp_all add: group_by_snoc dom_update, simp add: group_by_def)

section \<open>The contract\<close>

definition patch :: "('c \<Rightarrow> 'k) \<Rightarrow> ('c \<Rightarrow> 'v option) \<Rightarrow> 'c list \<Rightarrow> ('k \<rightharpoonup> 'v) \<Rightarrow> ('k \<rightharpoonup> 'v)" where
  "patch key val cs m = foldl (\<lambda>m c. m(key c := val c)) m cs"

lemma patch_other: "k \<notin> key ` set cs \<Longrightarrow> patch key val cs m k = m k"
  unfolding patch_def by (induction cs arbitrary: m) auto

lemma patch_at:
  "distinct (map key cs) \<Longrightarrow> c \<in> set cs \<Longrightarrow> patch key val cs m (key c) = val c"
proof (induction cs arbitrary: m)
  case (Cons d cs)
  show ?case
  proof (cases "c = d")
    case True
    then have "patch key val cs (m(key d := val d)) (key c) = (m(key d := val d)) (key c)"
      using Cons.prems(1) by (intro patch_other) auto
    with True show ?thesis by (simp add: patch_def)
  next
    case False
    then show ?thesis using Cons by (simp add: patch_def)
  qed
qed simp

locale keyed_delta =
  fixes view :: "'s \<Rightarrow> 'k \<Rightarrow> 'v option"
    and delta :: "'s \<Rightarrow> 's \<Rightarrow> 'c list option"
    and key :: "'c \<Rightarrow> 'k"
    and old_value :: "'c \<Rightarrow> 'v option"
    and new_value :: "'c \<Rightarrow> 'v option"
  assumes keys_distinct: "delta s t = Some cs \<Longrightarrow> distinct (map key cs)"
    and old_is_view: "delta s t = Some cs \<Longrightarrow> c \<in> set cs \<Longrightarrow> old_value c = view s (key c)"
    and new_is_view: "delta s t = Some cs \<Longrightarrow> c \<in> set cs \<Longrightarrow> new_value c = view t (key c)"
    and keys_exact: "delta s t = Some cs \<Longrightarrow> k \<in> key ` set cs \<longleftrightarrow> view s k \<noteq> view t k"
begin

lemma patch_forward:
  assumes "delta s t = Some cs"
  shows "patch key new_value cs (view s) = view t"
proof
  fix k show "patch key new_value cs (view s) k = view t k"
  proof (cases "k \<in> key ` set cs")
    case True
    then show ?thesis
      using patch_at[OF keys_distinct[OF assms], where val = new_value] new_is_view[OF assms] by auto
  next
    case False
    then show ?thesis using keys_exact[OF assms] patch_other[of k key cs new_value] by metis
  qed
qed

lemma patch_backward:
  assumes "delta s t = Some cs"
  shows "patch key old_value cs (view t) = view s"
proof
  fix k show "patch key old_value cs (view t) k = view s k"
  proof (cases "k \<in> key ` set cs")
    case True
    then show ?thesis
      using patch_at[OF keys_distinct[OF assms], where val = old_value] old_is_view[OF assms] by auto
  next
    case False
    then show ?thesis using keys_exact[OF assms] patch_other[of k key cs old_value] by metis
  qed
qed

lemma delta_empty_iff:
  assumes "delta s t = Some cs"
  shows "cs = [] \<longleftrightarrow> view s = view t"
  using keys_exact[OF assms] by (cases cs) (auto simp: fun_eq_iff)

end

end
