(* ===== verification/StructuredChanges.thy ===== *)
theory StructuredChanges
  imports CanonicalFacts CanonicalJson KeyedDelta
begin

text \<open>
  The semantic difference of two snapshots: \<open>domain/structured_changes.py\<close>.  Facts are aligned on
  their stable keys; a change of evidence or of layout is no change.
\<close>

section \<open>Data, with the checks of its constructors\<close>

datatype change_type = ADDED | MODIFIED | DELETED

datatype change_confidence = HIGH | MEDIUM | LOW

datatype review_status = ACCEPTED | REVIEW_OPEN | REJECTED

fun change_type_value :: "change_type \<Rightarrow> string" where
  "change_type_value ADDED = ''added''"
| "change_type_value MODIFIED = ''modified''"
| "change_type_value DELETED = ''deleted''"

fun confidence_value :: "change_confidence \<Rightarrow> string" where
  "confidence_value HIGH = ''high''"
| "confidence_value MEDIUM = ''medium''"
| "confidence_value LOW = ''low''"

fun review_status_value :: "review_status \<Rightarrow> string" where
  "review_status_value ACCEPTED = ''accepted''"
| "review_status_value REVIEW_OPEN = ''needs_review''"
| "review_status_value REJECTED = ''rejected''"

record snapshot_fact =
  sf_fact_ref :: string
  sf_fact :: canonical_fact

definition new_snapshot_fact :: "string \<Rightarrow> canonical_fact \<Rightarrow> snapshot_fact result" where
  "new_snapshot_fact fact_ref f =
    (if blank fact_ref then Inl (ValueError ''Snapshot fact_ref must not be blank'')
     else Inr \<lparr>sf_fact_ref = fact_ref, sf_fact = f\<rparr>)"

record canonical_snapshot =
  cs_snapshot_id :: string
  cs_facts :: "snapshot_fact list"

definition new_canonical_snapshot :: "string \<Rightarrow> snapshot_fact list \<Rightarrow> canonical_snapshot result" where
  "new_canonical_snapshot snapshot_id facts =
    (if blank snapshot_id then Inl (ValueError ''Canonical snapshot_id must not be blank'')
     else if \<not> distinct (map (\<lambda>i. cf_stable_key (sf_fact i)) facts) then
       Inl (ValueError ''Canonical Snapshot contains duplicate Stable Keys'')
     else if \<not> distinct (map sf_fact_ref facts) then
       Inl (ValueError ''Canonical Snapshot contains duplicate fact_refs'')
     else Inr \<lparr>cs_snapshot_id = snapshot_id, cs_facts = facts\<rparr>)"

record fact_state =
  fs_fact_ref :: string
  fs_values :: "(string \<times> string) list"
  fs_source_refs :: "string list"

definition new_fact_state ::
    "string \<Rightarrow> (string \<times> string) list \<Rightarrow> string list \<Rightarrow> fact_state result" where
  "new_fact_state fact_ref values source_refs =
    (if blank fact_ref then Inl (ValueError ''Fact state fact_ref must not be blank'')
     else if source_refs = [] then
       Inl (ValueError ''Fact state must retain at least one source_ref'')
     else if \<not> distinct source_refs then
       Inl (ValueError ''Fact state source_refs must be unique'')
     else Inr \<lparr>fs_fact_ref = fact_ref, fs_values = sort_key fst values,
               fs_source_refs = source_refs\<rparr>)"

definition fact_state_artifact :: "fact_state \<Rightarrow> pyval" where
  "fact_state_artifact s =
    PDict [(''fact_ref'', PStr (fs_fact_ref s)),
           (''values'', PDict (map (\<lambda>(k, v). (k, PStr v)) (fs_values s))),
           (''source_refs'', PStrs (fs_source_refs s))]"

record structured_change =
  ch_change_id :: string
  ch_project_id :: string
  ch_source_snapshot_id :: string
  ch_target_snapshot_id :: string
  ch_stable_key :: string
  ch_fact_type :: string
  ch_domain :: string
  ch_change_type :: change_type
  ch_before :: "fact_state option"
  ch_after :: "fact_state option"
  ch_summary :: string
  ch_source_refs :: "string list"
  ch_confidence :: change_confidence
  ch_review_status :: review_status
  ch_unknowns :: "string list"

definition check_structured_change :: "structured_change \<Rightarrow> structured_change result" where
  "check_structured_change c =
    (if list_ex blank [ch_change_id c, ch_project_id c, ch_source_snapshot_id c,
          ch_target_snapshot_id c, ch_stable_key c, ch_fact_type c, ch_domain c, ch_summary c] then
       Inl (ValueError ''StructuredChange identity and summary fields must not be blank'')
     else if ch_source_snapshot_id c = ch_target_snapshot_id c then
       Inl (ValueError ''StructuredChange requires different source and target snapshots'')
     else if ch_source_refs c = [] \<or> \<not> distinct (ch_source_refs c) then
       Inl (ValueError ''StructuredChange source_refs must be non-empty and unique'')
     else if \<not> distinct (ch_unknowns c) then
       Inl (ValueError ''StructuredChange unknowns must be unique'')
     else if ch_change_type c = ADDED \<and> (ch_before c \<noteq> None \<or> ch_after c = None) then
       Inl (ValueError ''Added change requires only an after state'')
     else if ch_change_type c = MODIFIED \<and> (ch_before c = None \<or> ch_after c = None) then
       Inl (ValueError ''Modified change requires before and after states'')
     else if ch_change_type c = DELETED \<and> (ch_before c = None \<or> ch_after c \<noteq> None) then
       Inl (ValueError ''Deleted change requires only a before state'')
     else Inr c)"

definition change_artifact :: "structured_change \<Rightarrow> pyval" where
  "change_artifact c =
    PDict [(''artifact_type'', PStr ''StructuredChange''), (''schema_version'', PStr ''v1''),
      (''change_id'', PStr (ch_change_id c)), (''project_id'', PStr (ch_project_id c)),
      (''source_snapshot_id'', PStr (ch_source_snapshot_id c)),
      (''target_snapshot_id'', PStr (ch_target_snapshot_id c)),
      (''stable_key'', PStr (ch_stable_key c)), (''fact_type'', PStr (ch_fact_type c)),
      (''domain'', PStr (ch_domain c)),
      (''change_type'', PStr (change_type_value (ch_change_type c))),
      (''before'', case ch_before c of None \<Rightarrow> PNone | Some s \<Rightarrow> fact_state_artifact s),
      (''after'', case ch_after c of None \<Rightarrow> PNone | Some s \<Rightarrow> fact_state_artifact s),
      (''summary'', PStr (ch_summary c)), (''source_refs'', PStrs (ch_source_refs c)),
      (''confidence'', PStr (confidence_value (ch_confidence c))),
      (''review_status'', PStr (review_status_value (ch_review_status c))),
      (''unknowns'', PStrs (ch_unknowns c))]"

section \<open>Building one change\<close>

definition change_id_of :: "string \<Rightarrow> string \<Rightarrow> string \<Rightarrow> string \<Rightarrow> string" where
  "change_id_of project_id source_snapshot_id target_snapshot_id stable_key =
    ''change-'' @ take 24 (sha256_hex
      (join [CHR 0x00] [project_id, source_snapshot_id, target_snapshot_id, stable_key]))"

definition fact_state_of :: "snapshot_fact option \<Rightarrow> fact_state option result" where
  "fact_state_of f =
    (case f of None \<Rightarrow> Inr None
     | Some i \<Rightarrow> rbind (new_fact_state (sf_fact_ref i) (cf_values (sf_fact i))
                   (sort (cf_source_refs (sf_fact i)))) (\<lambda>s. Inr (Some s)))"

definition change_summary ::
    "change_type \<Rightarrow> string \<Rightarrow> snapshot_fact option \<Rightarrow> snapshot_fact option \<Rightarrow> string result" where
  "change_summary change_type fact_type before after =
    (case change_type of
       ADDED \<Rightarrow> Inr (''Added '' @ fact_type @ '' fact.'')
     | DELETED \<Rightarrow> Inr (''Deleted '' @ fact_type @ '' fact.'')
     | MODIFIED \<Rightarrow>
         (case (before, after) of
            (Some b, Some a) \<Rightarrow>
              Inr (''Modified '' @ fact_type @ '' fields: ''
                @ join '', '' (changed_keys (cf_values (sf_fact b)) (cf_values (sf_fact a))) @ ''.'')
          | _ \<Rightarrow> Inl (ValueError ''Modified summary requires before and after facts'')))"

definition build_change ::
    "string \<Rightarrow> string \<Rightarrow> string \<Rightarrow> string \<Rightarrow> string \<Rightarrow> change_type \<Rightarrow> snapshot_fact option
     \<Rightarrow> snapshot_fact option \<Rightarrow> change_confidence \<Rightarrow> review_status \<Rightarrow> structured_change result" where
  "build_change project_id source_id target_id domain_name stable_key change_type before after
      confidence review =
    (case (if after \<noteq> None then after else before) of
       None \<Rightarrow> Inl (ValueError ''A change must contain at least one fact state'')
     | Some representative \<Rightarrow>
         rbind (fact_state_of before) (\<lambda>before_state.
         rbind (fact_state_of after) (\<lambda>after_state.
         let source_refs = sorted_set (concat (map fs_source_refs
               (List.map_filter (\<lambda>s. s) [before_state, after_state])));
             fact_type = cf_fact_type (sf_fact representative)
         in rbind (change_summary change_type fact_type before after) (\<lambda>summary.
            check_structured_change
              \<lparr>ch_change_id = change_id_of project_id source_id target_id stable_key,
               ch_project_id = project_id, ch_source_snapshot_id = source_id,
               ch_target_snapshot_id = target_id, ch_stable_key = stable_key,
               ch_fact_type = fact_type, ch_domain = domain_name, ch_change_type = change_type,
               ch_before = before_state, ch_after = after_state, ch_summary = summary,
               ch_source_refs = source_refs, ch_confidence = confidence,
               ch_review_status = review, ch_unknowns = []\<rparr>))))"

section \<open>The difference\<close>

definition facts_by_key :: "canonical_snapshot \<Rightarrow> (string \<times> snapshot_fact) list" where
  "facts_by_key s = py_dict (map (\<lambda>i. (cf_stable_key (sf_fact i), i)) (cs_facts s))"

text \<open>What one stable key contributes: nothing when its facts have the same values.\<close>

definition diff_key ::
    "string \<Rightarrow> canonical_snapshot \<Rightarrow> canonical_snapshot \<Rightarrow> string \<Rightarrow> change_confidence
     \<Rightarrow> review_status \<Rightarrow> string \<Rightarrow> structured_change list result" where
  "diff_key project_id source target domain_name confidence review stable_key =
    (let before = map_of (facts_by_key source) stable_key;
         after = map_of (facts_by_key target) stable_key;
         build = (\<lambda>change_type. rbind (build_change project_id (cs_snapshot_id source)
           (cs_snapshot_id target) domain_name stable_key change_type before after confidence review)
           (\<lambda>c. Inr [c]))
     in case (before, after) of
          (Some b, Some a) \<Rightarrow>
            if cf_fact_type (sf_fact b) \<noteq> cf_fact_type (sf_fact a) then
              Inl (ValueError (''Stable Key changed fact_type: '' @ stable_key))
            else if dict_eq (cf_values (sf_fact b)) (cf_values (sf_fact a)) then Inr []
            else build MODIFIED
        | (None, _) \<Rightarrow> build ADDED
        | (Some b, None) \<Rightarrow> build DELETED)"

definition diff_snapshots ::
    "string \<Rightarrow> canonical_snapshot \<Rightarrow> canonical_snapshot \<Rightarrow> string \<Rightarrow> change_confidence
     \<Rightarrow> review_status \<Rightarrow> structured_change list result" where
  "diff_snapshots project_id source target domain_name confidence review =
    (if blank project_id then Inl (ValueError ''project_id must not be blank'')
     else if blank domain_name then Inl (ValueError ''domain must not be blank'')
     else if cs_snapshot_id source = cs_snapshot_id target then
       Inl (ValueError ''Source and target snapshot IDs must differ'')
     else
       rbind (mapM (diff_key project_id source target domain_name confidence review)
         (sorted_set (map fst (facts_by_key source) @ map fst (facts_by_key target)))) (\<lambda>changes.
       Inr (concat changes)))"

section \<open>Well-formed snapshots\<close>

definition fact_ok :: "canonical_fact \<Rightarrow> bool" where
  "fact_ok f \<longleftrightarrow> \<not> blank (cf_fact_type f) \<and> \<not> blank (cf_stable_key f)
    \<and> distinct (map fst (cf_values f)) \<and> cf_source_refs f \<noteq> [] \<and> distinct (cf_source_refs f)"

definition snapshot_ok :: "canonical_snapshot \<Rightarrow> bool" where
  "snapshot_ok s \<longleftrightarrow> \<not> blank (cs_snapshot_id s)
    \<and> distinct (map (\<lambda>i. cf_stable_key (sf_fact i)) (cs_facts s))
    \<and> list_all (\<lambda>i. fact_ok (sf_fact i) \<and> \<not> blank (sf_fact_ref i)) (cs_facts s)"

lemma fact_ok_new:
  "new_canonical_fact u t k vs refs ev = Inr f \<Longrightarrow> distinct (map fst vs) \<Longrightarrow> fact_ok f"
  by (auto simp: new_canonical_fact_def Let_def fact_ok_def distinct_map split: if_splits)

lemma snapshot_ok_new:
  "new_canonical_snapshot sid facts = Inr s \<Longrightarrow>
   list_all (\<lambda>i. fact_ok (sf_fact i) \<and> \<not> blank (sf_fact_ref i)) facts \<Longrightarrow> snapshot_ok s"
  by (auto simp: new_canonical_snapshot_def snapshot_ok_def split: if_splits)

section \<open>The difference as a delta of keyed states\<close>

type_synonym fact_content = "string \<times> (string \<Rightarrow> string option)"

definition content_of :: "snapshot_fact \<Rightarrow> fact_content" where
  "content_of i = (cf_fact_type (sf_fact i), map_of (cf_values (sf_fact i)))"

definition fact_view :: "canonical_snapshot \<Rightarrow> string \<Rightarrow> fact_content option" where
  "fact_view s k = map_option content_of (map_of (facts_by_key s) k)"

definition state_content :: "structured_change \<Rightarrow> fact_state option \<Rightarrow> fact_content option" where
  "state_content c s = map_option (\<lambda>st. (ch_fact_type c, map_of (fs_values st))) s"

definition before_content :: "structured_change \<Rightarrow> fact_content option" where
  "before_content c = state_content c (ch_before c)"

definition after_content :: "structured_change \<Rightarrow> fact_content option" where
  "after_content c = state_content c (ch_after c)"

lemma by_key_ok:
  assumes "snapshot_ok s" "map_of (facts_by_key s) k = Some i"
  shows "i \<in> set (cs_facts s)" "cf_stable_key (sf_fact i) = k" "fact_ok (sf_fact i)"
    "\<not> blank (sf_fact_ref i)"
proof -
  have "(k, i) \<in> set (map (\<lambda>i. (cf_stable_key (sf_fact i), i)) (cs_facts s))"
    using assms(2) map_of_SomeD unfolding facts_by_key_def map_of_py_dict by fastforce
  then show "i \<in> set (cs_facts s)" "cf_stable_key (sf_fact i) = k" by auto
  then show "fact_ok (sf_fact i)" "\<not> blank (sf_fact_ref i)"
    using assms(1) by (auto simp: snapshot_ok_def list_all_iff)
qed

lemma fact_state_of_Inr:
  "fact_state_of (Some i) = Inr st \<Longrightarrow> fact_ok (sf_fact i) \<Longrightarrow>
     \<exists>s. st = Some s \<and> map_of (fs_values s) = map_of (cf_values (sf_fact i))"
  by (auto simp: fact_state_of_def new_fact_state_def result_simps fact_ok_def map_of_sort_key
      split: if_splits)

lemma fact_state_of_None [simp]: "fact_state_of None = Inr None"
  by (simp add: fact_state_of_def)

lemma check_structured_change_id: "check_structured_change c = Inr c' \<Longrightarrow> c' = c"
  by (auto simp: check_structured_change_def split: if_splits)

lemma build_change_Inr:
  assumes "build_change p sid tid d k ty before after conf rs = Inr c"
  shows "ch_stable_key c = k \<and> ch_change_type c = ty
    \<and> fact_state_of before = Inr (ch_before c) \<and> fact_state_of after = Inr (ch_after c)
    \<and> (\<forall>a. after = Some a \<longrightarrow> ch_fact_type c = cf_fact_type (sf_fact a))
    \<and> (\<forall>b. after = None \<longrightarrow> before = Some b \<longrightarrow> ch_fact_type c = cf_fact_type (sf_fact b))"
proof -
  obtain rep where rep: "(if after \<noteq> None then after else before) = Some rep"
    using assms by (auto simp: build_change_def split: option.splits)
  obtain bs as summary refs where st: "fact_state_of before = Inr bs" "fact_state_of after = Inr as"
    and c: "c = \<lparr>ch_change_id = change_id_of p sid tid k,
               ch_project_id = p, ch_source_snapshot_id = sid,
               ch_target_snapshot_id = tid, ch_stable_key = k,
               ch_fact_type = cf_fact_type (sf_fact rep), ch_domain = d, ch_change_type = ty,
               ch_before = bs, ch_after = as, ch_summary = summary,
               ch_source_refs = refs, ch_confidence = conf,
               ch_review_status = rs, ch_unknowns = []\<rparr>"
    using assms unfolding build_change_def rep option.case rbind_eq_Inr Let_def
    by (elim exE conjE) (rule that, assumption+, erule check_structured_change_id)
  show ?thesis using rep st unfolding c by (auto split: if_splits)
qed

lemma diff_key_cases:
  assumes "diff_key p s t d conf rs k = Inr cs" "snapshot_ok s" "snapshot_ok t"
    and "k \<in> fst ` set (facts_by_key s) \<union> fst ` set (facts_by_key t)"
  shows "(cs = [] \<and> fact_view s k = fact_view t k)
    \<or> (\<exists>c. cs = [c] \<and> ch_stable_key c = k \<and> fact_view s k \<noteq> fact_view t k
         \<and> before_content c = fact_view s k \<and> after_content c = fact_view t k)"
proof (cases "map_of (facts_by_key s) k")
  case None
  then obtain a where a: "map_of (facts_by_key t) k = Some a"
    using assms(4) by (metis Un_iff map_of_eq_None_iff not_None_eq)
  obtain c where c: "cs = [c]" "build_change p (cs_snapshot_id s) (cs_snapshot_id t) d k ADDED None (Some a) conf rs = Inr c"
    using assms(1) None a by (auto simp: diff_key_def result_simps)
  have "fact_ok (sf_fact a)" using by_key_ok[OF assms(3) a] by blast
  with build_change_Inr[OF c(2)] show ?thesis
    using c(1) None a fact_state_of_Inr[of a]
    by (auto simp: fact_view_def content_of_def before_content_def after_content_def state_content_def)
next
  case (Some b)
  have okb: "fact_ok (sf_fact b)" using by_key_ok[OF assms(2) Some] by blast
  show ?thesis
  proof (cases "map_of (facts_by_key t) k")
    case None
    obtain c where c: "cs = [c]" "build_change p (cs_snapshot_id s) (cs_snapshot_id t) d k DELETED (Some b) None conf rs = Inr c"
      using assms(1) None Some by (auto simp: diff_key_def result_simps)
    with build_change_Inr[OF c(2)] show ?thesis
      using None Some fact_state_of_Inr[of b] okb
      by (auto simp: fact_view_def content_of_def before_content_def after_content_def state_content_def)
  next
    case (Some a)
    have oka: "fact_ok (sf_fact a)" using by_key_ok[OF assms(3) Some] by blast
    have ty: "cf_fact_type (sf_fact b) = cf_fact_type (sf_fact a)"
      using assms(1) Some \<open>map_of (facts_by_key s) k = Some b\<close>
      by (auto simp: diff_key_def split: if_splits)
    show ?thesis
    proof (cases "map_of (cf_values (sf_fact b)) = map_of (cf_values (sf_fact a))")
      case True
      then show ?thesis
        using assms(1) Some ty \<open>map_of (facts_by_key s) k = Some b\<close>
        by (auto simp: diff_key_def dict_eq_iff fact_view_def content_of_def)
    next
      case False
      obtain c where c: "cs = [c]" "build_change p (cs_snapshot_id s) (cs_snapshot_id t) d k MODIFIED (Some b) (Some a) conf rs = Inr c"
        using assms(1) Some ty False \<open>map_of (facts_by_key s) k = Some b\<close>
        by (auto simp: diff_key_def dict_eq_iff result_simps)
      with build_change_Inr[OF c(2)] show ?thesis
        using Some ty False \<open>map_of (facts_by_key s) k = Some b\<close> okb oka
          fact_state_of_Inr[of a] fact_state_of_Inr[of b]
        by (auto simp: fact_view_def content_of_def before_content_def after_content_def state_content_def)
    qed
  qed
qed


definition diff_delta ::
    "string \<Rightarrow> string \<Rightarrow> change_confidence \<Rightarrow> review_status \<Rightarrow> canonical_snapshot
     \<Rightarrow> canonical_snapshot \<Rightarrow> structured_change list option" where
  "diff_delta p d conf rs s t =
    (if snapshot_ok s \<and> snapshot_ok t then
       (case diff_snapshots p s t d conf rs of Inr cs \<Rightarrow> Some cs | Inl e \<Rightarrow> None)
     else None)"

lemma diff_delta_Some:
  "diff_delta p d conf rs s t = Some cs \<longleftrightarrow>
     snapshot_ok s \<and> snapshot_ok t \<and> diff_snapshots p s t d conf rs = Inr cs"
  by (auto simp: diff_delta_def split: sum.splits)

lemma fact_view_None: "k \<notin> fst ` set (facts_by_key s) \<Longrightarrow> fact_view s k = None"
  by (simp add: fact_view_def map_of_eq_None_iff)

lemma keys_of_entries:
  "list_all2 (\<lambda>k cs. cs = [] \<or> (\<exists>c. cs = [c] \<and> key c = k)) ks css \<Longrightarrow>
     map key (concat css) = map fst (filter (\<lambda>(k, cs). cs \<noteq> []) (zip ks css))"
  by (induction rule: list_all2_induct) auto

lemma diff_entries:
  assumes "diff_snapshots p s t d conf rs = Inr cs" "snapshot_ok s" "snapshot_ok t"
  defines "ks \<equiv> sorted_set (map fst (facts_by_key s) @ map fst (facts_by_key t))"
  shows "map ch_stable_key cs = filter (\<lambda>k. fact_view s k \<noteq> fact_view t k) ks
    \<and> (\<forall>c\<in>set cs. before_content c = fact_view s (ch_stable_key c)
                \<and> after_content c = fact_view t (ch_stable_key c))"
proof -
  obtain css where css: "mapM (diff_key p s t d conf rs) ks = Inr css" "cs = concat css"
    using assms(1) by (auto simp: diff_snapshots_def ks_def rbind_eq_Inr split: if_splits)
  have "list_all2 (\<lambda>k cs. k \<in> set ks \<and> diff_key p s t d conf rs k = Inr cs) ks css"
    using css(1) unfolding mapM_eq_Inr by (simp add: list_all2_conv_all_nth)
  then have "list_all2 (\<lambda>k cs. (cs = [] \<and> fact_view s k = fact_view t k)
    \<or> (\<exists>c. cs = [c] \<and> ch_stable_key c = k \<and> fact_view s k \<noteq> fact_view t k
         \<and> before_content c = fact_view s k \<and> after_content c = fact_view t k)) ks css"
    by (rule list_all2_mono) (use assms(2,3) in \<open>auto simp: ks_def dest!: diff_key_cases\<close>)
  then have "map ch_stable_key (concat css) = filter (\<lambda>k. fact_view s k \<noteq> fact_view t k) ks
    \<and> (\<forall>c\<in>set (concat css). before_content c = fact_view s (ch_stable_key c)
                \<and> after_content c = fact_view t (ch_stable_key c))"
    by (induction rule: list_all2_induct) auto
  then show ?thesis unfolding css(2) .
qed

lemma sorted_set_props: "sorted (sorted_set xs)" "distinct (sorted_set xs)"
  by (simp_all add: sorted_set_def)

interpretation snapshots: keyed_delta fact_view "diff_delta p d conf rs" ch_stable_key
    before_content after_content for p d conf rs
proof unfold_locales
  fix s t cs
  assume "diff_delta p d conf rs s t = Some cs"
  from \<open>diff_delta p d conf rs s t = Some cs\<close> have ok: "snapshot_ok s" "snapshot_ok t"
    "diff_snapshots p s t d conf rs = Inr cs"
    by (simp_all add: diff_delta_Some)
  note entries = diff_entries[OF ok(3,1,2)]
  show "distinct (map ch_stable_key cs)"
    using entries sorted_set_props by simp
  show "c \<in> set cs \<Longrightarrow> before_content c = fact_view s (ch_stable_key c)" for c
    using entries by blast
  show "c \<in> set cs \<Longrightarrow> after_content c = fact_view t (ch_stable_key c)" for c
    using entries by blast
  show "k \<in> ch_stable_key ` set cs \<longleftrightarrow> fact_view s k \<noteq> fact_view t k" for k
  proof -
    have "ch_stable_key ` set cs = set (map ch_stable_key cs)" by simp
    also have "\<dots> = {k \<in> fst ` set (facts_by_key s) \<union> fst ` set (facts_by_key t).
        fact_view s k \<noteq> fact_view t k}"
      using entries by simp
    finally show ?thesis using fact_view_None[of k s] fact_view_None[of k t] by auto
  qed
qed

text \<open>(C38) The difference of two snapshots is exact in both directions: applying the changes to the
  facts of the source gives the facts of the target, undoing them gives the source back, and the
  changes come in the order of their stable keys, one for each key whose fact differs.\<close>

theorem diff_applies_and_reverts:
  assumes "snapshot_ok source" "snapshot_ok target"
    and "diff_snapshots project source target domain confidence review = Inr changes"
  shows "patch ch_stable_key after_content changes (fact_view source) = fact_view target
    \<and> patch ch_stable_key before_content changes (fact_view target) = fact_view source
    \<and> sorted (map ch_stable_key changes) \<and> distinct (map ch_stable_key changes)
    \<and> ch_stable_key ` set changes = {k. fact_view source k \<noteq> fact_view target k}"
proof -
  have d: "diff_delta project domain confidence review source target = Some changes"
    using assms by (simp add: diff_delta_Some)
  have "sorted (map ch_stable_key changes)"
    using diff_entries[OF assms(3,1,2)] sorted_set_props(1) by (simp add: sorted_wrt_filter)
  then show ?thesis
    using snapshots.patch_forward[OF d] snapshots.patch_backward[OF d]
      snapshots.keys_distinct[OF d] snapshots.keys_exact[OF d] by blast
qed

lemma check_structured_change_types:
  "check_structured_change c = Inr c' \<Longrightarrow>
     (ch_before c' = None \<longleftrightarrow> ch_change_type c' = ADDED)
     \<and> (ch_after c' = None \<longleftrightarrow> ch_change_type c' = DELETED)"
  by (cases "ch_change_type c") (auto simp: check_structured_change_def split: if_splits)

lemma build_change_types:
  "build_change p sid tid d k ty before after conf rs = Inr c \<Longrightarrow>
     (ch_before c = None \<longleftrightarrow> ch_change_type c = ADDED)
     \<and> (ch_after c = None \<longleftrightarrow> ch_change_type c = DELETED)"
  unfolding build_change_def Let_def
  by (auto simp: rbind_eq_Inr dest!: check_structured_change_types split: option.splits if_splits)

lemma diff_key_built:
  "diff_key p s t d conf rs k = Inr cs \<Longrightarrow> c \<in> set cs \<Longrightarrow>
     \<exists>ty before after. build_change p (cs_snapshot_id s) (cs_snapshot_id t) d k ty before after conf rs = Inr c"
  by (auto simp: diff_key_def Let_def rbind_eq_Inr split: option.splits if_splits) blast+

lemma diff_snapshots_built:
  assumes "diff_snapshots p s t d conf rs = Inr cs" "c \<in> set cs"
  shows "\<exists>k ty before after.
    build_change p (cs_snapshot_id s) (cs_snapshot_id t) d k ty before after conf rs = Inr c"
proof -
  obtain ks css where css: "mapM (diff_key p s t d conf rs) ks = Inr css" "cs = concat css"
    using assms(1) by (auto simp: diff_snapshots_def rbind_eq_Inr split: if_splits)
  then obtain ys where "ys \<in> set css" "c \<in> set ys" using assms(2) by auto
  then show ?thesis using mapM_set[OF css(1)] diff_key_built by metis
qed

text \<open>A change is typed by what became of its fact: it is added exactly when the source has no
  fact of its key and deleted exactly when the target has none; an added change has only an after
  state, a deleted one only a before state, a modified one both.\<close>

theorem change_type_exact:
  assumes "snapshot_ok source" "snapshot_ok target"
    and "diff_snapshots project source target domain confidence review = Inr changes"
    and "c \<in> set changes"
  shows "(ch_change_type c = ADDED \<longleftrightarrow> fact_view source (ch_stable_key c) = None)
    \<and> (ch_change_type c = DELETED \<longleftrightarrow> fact_view target (ch_stable_key c) = None)
    \<and> (ch_before c = None \<longleftrightarrow> ch_change_type c = ADDED)
    \<and> (ch_after c = None \<longleftrightarrow> ch_change_type c = DELETED)"
proof -
  have "fact_view source (ch_stable_key c) = before_content c"
    "fact_view target (ch_stable_key c) = after_content c"
    using diff_entries[OF assms(3,1,2)] assms(4) by fastforce+
  moreover have "(ch_before c = None \<longleftrightarrow> ch_change_type c = ADDED)
     \<and> (ch_after c = None \<longleftrightarrow> ch_change_type c = DELETED)"
    using diff_snapshots_built[OF assms(3,4)] build_change_types by blast
  ultimately show ?thesis
    unfolding before_content_def after_content_def state_content_def
    by (cases "ch_before c"; cases "ch_after c") auto
qed

section \<open>When the difference raises\<close>

lemma not_blank_summary: "change_summary ty f b a = Inr s \<Longrightarrow> \<not> blank s"
  by (auto simp: change_summary_def split: change_type.splits option.splits)

lemma sort_Nil_iff [simp]: "sort_key h xs = [] \<longleftrightarrow> xs = []"
  by (metis set_empty set_sort)

lemma fact_state_total:
  "fact_ok (sf_fact i) \<Longrightarrow> \<not> blank (sf_fact_ref i) \<Longrightarrow>
     \<exists>st. fact_state_of (Some i) = Inr (Some st) \<and> fs_source_refs st = sort (cf_source_refs (sf_fact i))"
  by (auto simp: fact_state_of_def new_fact_state_def fact_ok_def)

lemma not_blank_change_id: "\<not> blank (change_id_of p s t k)"
  by (simp add: change_id_of_def)

text \<open>The shapes of a change that its constructor accepts.\<close>

definition change_shape ::
    "change_type \<Rightarrow> snapshot_fact option \<Rightarrow> snapshot_fact option \<Rightarrow> bool" where
  "change_shape ty before after \<longleftrightarrow>
    (before = None \<longleftrightarrow> ty = ADDED) \<and> (after = None \<longleftrightarrow> ty = DELETED)"

lemma build_change_total:
  assumes "change_shape ty before after"
    and ok: "\<And>i. before = Some i \<or> after = Some i \<Longrightarrow> fact_ok (sf_fact i) \<and> \<not> blank (sf_fact_ref i)"
    and "\<not> blank p" "\<not> blank sid" "\<not> blank tid" "sid \<noteq> tid" "\<not> blank d" "\<not> blank k"
  shows "\<exists>c. build_change p sid tid d k ty before after conf rs = Inr c"
proof -
  have "\<exists>rep. (if after \<noteq> None then after else before) = Some rep \<and> fact_ok (sf_fact rep)"
    using assms(1) ok by (cases before; cases after) (auto simp: change_shape_def)
  then obtain rep where rep: "(if after \<noteq> None then after else before) = Some rep" "fact_ok (sf_fact rep)"
    by blast
  have state: "\<exists>st. fact_state_of f = Inr st \<and> (st = None \<longleftrightarrow> f = None)
      \<and> (\<forall>x. st = Some x \<longrightarrow> fs_source_refs x \<noteq> [])"
    if "f = before \<or> f = after" for f
    using that ok fact_state_total[of "the f"] by (cases f) (auto simp: fact_ok_def)
  obtain bs where bs: "fact_state_of before = Inr bs" "bs = None \<longleftrightarrow> before = None"
      "\<forall>x. bs = Some x \<longrightarrow> fs_source_refs x \<noteq> []" using state by blast
  obtain as where as: "fact_state_of after = Inr as" "as = None \<longleftrightarrow> after = None"
      "\<forall>x. as = Some x \<longrightarrow> fs_source_refs x \<noteq> []" using state by blast
  have "\<exists>su. change_summary ty (cf_fact_type (sf_fact rep)) before after = Inr su"
    using assms(1) by (cases ty; cases before; cases after)
      (auto simp: change_shape_def change_summary_def)
  then obtain su where su: "change_summary ty (cf_fact_type (sf_fact rep)) before after = Inr su" ..
  have refs: "concat (map fs_source_refs (List.map_filter (\<lambda>s. s) [bs, as])) \<noteq> []"
    using assms(1) bs as by (cases bs; cases as) (auto simp: change_shape_def map_filter_simps)
  show ?thesis
    unfolding build_change_def rep(1) option.case bs(1) as(1) rbind_Inr Let_def su
      check_structured_change_def
    using assms(1,3-) rep(2) bs(2) as(2) not_blank_summary[OF su] refs sorted_set_props(2)
    by (cases ty) (auto simp: fact_ok_def change_shape_def not_blank_change_id
        simp del: concat_eq_Nil_conv)
qed

lemma mapM_total_iff: "(\<exists>ys. mapM f xs = Inr ys) \<longleftrightarrow> (\<forall>x\<in>set xs. \<exists>y. f x = Inr y)"
  by (induction xs) (auto simp: result_simps)

lemma diff_key_total:
  assumes "snapshot_ok s" "snapshot_ok t" "cs_snapshot_id s \<noteq> cs_snapshot_id t"
    and "\<not> blank p" "\<not> blank d"
    and "k \<in> fst ` set (facts_by_key s) \<union> fst ` set (facts_by_key t)"
  shows "(\<exists>cs. diff_key p s t d conf rs k = Inr cs) \<longleftrightarrow>
    (\<forall>b a. fact_view s k = Some b \<and> fact_view t k = Some a \<longrightarrow> fst b = fst a)"
proof -
  let ?b = "map_of (facts_by_key s) k" and ?a = "map_of (facts_by_key t) k"
  have k: "\<not> blank k" if "?b = Some i \<or> ?a = Some i" for i
    using that by_key_ok[OF assms(1)] by_key_ok[OF assms(2)] by (auto simp: fact_ok_def)
  have some: "?b \<noteq> None \<or> ?a \<noteq> None" using assms(6) by (auto simp: map_of_eq_None_iff)
  with k have "\<not> blank k" by auto
  have built: "\<exists>c. build_change p (cs_snapshot_id s) (cs_snapshot_id t) d k ty ?b ?a conf rs = Inr c"
    if "change_shape ty ?b ?a" for ty
    using that assms \<open>\<not> blank k\<close> by_key_ok[OF assms(1)] by_key_ok[OF assms(2)]
    by (intro build_change_total) (auto simp: snapshot_ok_def)
  show ?thesis
  proof (cases "?b = None \<or> ?a = None")
    case True
    then have "(\<forall>b a. fact_view s k = Some b \<and> fact_view t k = Some a \<longrightarrow> fst b = fst a)"
      by (auto simp: fact_view_def)
    moreover have "\<exists>cs. diff_key p s t d conf rs k = Inr cs"
      using True some built[of ADDED] built[of DELETED]
      by (cases ?b; cases ?a) (auto simp: diff_key_def change_shape_def)
    ultimately show ?thesis by blast
  next
    case False
    then obtain b a where ba: "?b = Some b" "?a = Some a" by auto
    then show ?thesis
      using built[of MODIFIED]
      by (auto simp: diff_key_def fact_view_def content_of_def change_shape_def)
  qed
qed

lemma diff_total:
  assumes "snapshot_ok source" "snapshot_ok target"
  shows "(\<exists>changes. diff_snapshots project source target domain confidence review = Inr changes)
    \<longleftrightarrow> \<not> blank project \<and> \<not> blank domain \<and> cs_snapshot_id source \<noteq> cs_snapshot_id target
      \<and> (\<forall>k b a. fact_view source k = Some b \<and> fact_view target k = Some a \<longrightarrow> fst b = fst a)"
proof (cases "\<not> blank project \<and> \<not> blank domain \<and> cs_snapshot_id source \<noteq> cs_snapshot_id target")
  case False
  then show ?thesis by (auto simp: diff_snapshots_def)
next
  case True
  let ?keys = "fst ` set (facts_by_key source) \<union> fst ` set (facts_by_key target)"
  have "(\<exists>changes. diff_snapshots project source target domain confidence review = Inr changes)
      \<longleftrightarrow> (\<forall>k\<in>?keys. \<exists>cs. diff_key project source target domain confidence review k = Inr cs)"
    using True mapM_total_iff[of "diff_key project source target domain confidence review"
        "sorted_set (map fst (facts_by_key source) @ map fst (facts_by_key target))"]
    by (simp add: diff_snapshots_def rbind_eq_Inr image_Un)
  also have "\<dots> \<longleftrightarrow> (\<forall>k\<in>?keys. \<forall>b a. fact_view source k = Some b \<and> fact_view target k = Some a
      \<longrightarrow> fst b = fst a)"
    using True by (intro ball_cong refl diff_key_total[OF assms]) auto
  also have "\<dots> \<longleftrightarrow> (\<forall>k b a. fact_view source k = Some b \<and> fact_view target k = Some a
      \<longrightarrow> fst b = fst a)"
    using fact_view_None[of _ source] by (metis UnI1 option.distinct(1))
  finally show ?thesis using True by blast
qed

text \<open>The difference of two well-formed snapshots raises exactly when the project or the domain is
  blank, when both sides are the same snapshot, or when a key has facts of different types on the
  two sides; in every other case it returns the changes.\<close>

theorem diff_total_iff:
  assumes "snapshot_ok source" "snapshot_ok target"
  shows "(\<exists>changes. diff_snapshots project source target domain confidence review = Inr changes)
    \<longleftrightarrow> \<not> blank project \<and> \<not> blank domain \<and> cs_snapshot_id source \<noteq> cs_snapshot_id target
      \<and> (\<forall>k b a. fact_view source k = Some b \<and> fact_view target k = Some a \<longrightarrow> fst b = fst a)"
  by (rule diff_total[OF assms])


section \<open>Two worked snapshots\<close>

definition demo_fact :: "string \<Rightarrow> string \<Rightarrow> canonical_fact" where
  "demo_fact k v =
    \<lparr>cf_fact_type = ''Api'', cf_stable_key = k, cf_values = [(''name'', v)],
     cf_source_refs = [''S!A1''], cf_field_evidence = []\<rparr>"

definition demo_source :: canonical_snapshot where
  "demo_source = \<lparr>cs_snapshot_id = ''s1'', cs_facts =
     [\<lparr>sf_fact_ref = ''f1'', sf_fact = demo_fact ''api:a'' ''x''\<rparr>,
      \<lparr>sf_fact_ref = ''f2'', sf_fact = demo_fact ''api:b'' ''y''\<rparr>]\<rparr>"

definition demo_target :: canonical_snapshot where
  "demo_target = \<lparr>cs_snapshot_id = ''s2'', cs_facts =
     [\<lparr>sf_fact_ref = ''g1'', sf_fact = demo_fact ''api:a'' ''z''\<rparr>,
      \<lparr>sf_fact_ref = ''g3'', sf_fact = demo_fact ''api:c'' ''y''\<rparr>]\<rparr>"

lemma demo_snapshots_ok: "snapshot_ok demo_source" "snapshot_ok demo_target"
  by code_simp+

lemma demo_views:
  "facts_by_key demo_source =
     [(''api:a'', \<lparr>sf_fact_ref = ''f1'', sf_fact = demo_fact ''api:a'' ''x''\<rparr>),
      (''api:b'', \<lparr>sf_fact_ref = ''f2'', sf_fact = demo_fact ''api:b'' ''y''\<rparr>)]"
  "facts_by_key demo_target =
     [(''api:a'', \<lparr>sf_fact_ref = ''g1'', sf_fact = demo_fact ''api:a'' ''z''\<rparr>),
      (''api:c'', \<lparr>sf_fact_ref = ''g3'', sf_fact = demo_fact ''api:c'' ''y''\<rparr>)]"
  by (simp_all add: facts_by_key_def py_dict_def demo_source_def demo_target_def demo_fact_def)

lemma demo_types:
  "\<forall>k b a. fact_view demo_source k = Some b \<and> fact_view demo_target k = Some a \<longrightarrow> fst b = fst a"
  by (auto simp: fact_view_def demo_views demo_fact_def content_of_def split: if_splits)

lemma demo_ids: "cs_snapshot_id demo_source \<noteq> cs_snapshot_id demo_target"
  by (simp add: demo_source_def demo_target_def)

lemma demo_diff_exists:
  "\<exists>changes. diff_snapshots ''p'' demo_source demo_target ''d'' HIGH REVIEW_OPEN = Inr changes"
  using demo_types demo_ids by (simp add: diff_total[OF demo_snapshots_ok])

definition demo_changes :: "structured_change list" where
  "demo_changes = (case diff_snapshots ''p'' demo_source demo_target ''d'' HIGH REVIEW_OPEN of
     Inr cs \<Rightarrow> cs | Inl e \<Rightarrow> [])"

lemma demo_diff: "diff_snapshots ''p'' demo_source demo_target ''d'' HIGH REVIEW_OPEN = Inr demo_changes"
  using demo_diff_exists by (auto simp: demo_changes_def)

theorem diff_applies_and_reverts_witness:
  "ch_stable_key ` set demo_changes = {k. fact_view demo_source k \<noteq> fact_view demo_target k}"
  using diff_applies_and_reverts[OF demo_snapshots_ok demo_diff] by blast

theorem change_type_exact_witness:
  "\<exists>c. ch_change_type c = ADDED \<and> c \<in> set demo_changes \<and> ch_before c = None"
proof -
  have "''api:c'' \<in> ch_stable_key ` set demo_changes"
    using snapshots.keys_exact[of "''p''" "''d''" HIGH REVIEW_OPEN demo_source demo_target demo_changes]
      demo_diff demo_snapshots_ok
    by (simp add: diff_delta_Some fact_view_def demo_views)
  then obtain c where c: "c \<in> set demo_changes" "ch_stable_key c = ''api:c''" by (auto simp: image_iff)
  then show ?thesis
    using change_type_exact[OF demo_snapshots_ok demo_diff c(1)]
    by (auto simp: fact_view_def demo_views)
qed

theorem diff_total_iff_witness:
  "\<exists>changes. diff_snapshots ''p'' demo_source demo_target ''d'' HIGH REVIEW_OPEN = Inr changes"
  using diff_total_iff[OF demo_snapshots_ok, of "''p''" "''d''" HIGH REVIEW_OPEN] demo_types demo_ids
  by simp

end
