(* ===== verification/DocumentNodes.thy ===== *)
theory DocumentNodes
  imports StructuredChanges
begin

text \<open>
  The section and slice nodes of a snapshot: \<open>domain/document_nodes.py\<close>.  Every fact type becomes
  one section and every fact one indexable slice below it.
\<close>

section \<open>Nodes\<close>

datatype node_type = SECTION | SLICE

fun node_type_value :: "node_type \<Rightarrow> string" where
  "node_type_value SECTION = ''section''"
| "node_type_value SLICE = ''slice''"

record document_node =
  dn_node_id :: string
  dn_snapshot_id :: string
  dn_document_version_id :: string
  dn_parent_node_id :: "string option"
  dn_node_type :: node_type
  dn_ordinal :: int
  dn_heading_path :: "string list"
  dn_business_keys :: "string list"
  dn_summary :: string
  dn_content :: string
  dn_source_refs :: "string list"
  dn_index_eligible :: bool

definition check_document_node :: "document_node \<Rightarrow> document_node result" where
  "check_document_node n =
    (if list_ex blank [dn_node_id n, dn_snapshot_id n, dn_document_version_id n, dn_summary n,
          dn_content n] then
       Inl (ValueError ''Document node identity and content must not be blank'')
     else if dn_ordinal n < 0 then
       Inl (ValueError ''Document node ordinal must not be negative'')
     else if dn_heading_path n = [] \<or> list_ex blank (dn_heading_path n) then
       Inl (ValueError ''Document node heading_path must be non-empty'')
     else if dn_source_refs n = [] \<or> list_ex blank (dn_source_refs n) then
       Inl (ValueError ''Document node source_refs must be non-empty'')
     else if \<not> distinct (dn_source_refs n) then
       Inl (ValueError ''Document node source_refs must be unique'')
     else if \<not> distinct (dn_business_keys n) then
       Inl (ValueError ''Document node business_keys must be unique'')
     else if dn_node_type n = SECTION then
       (if dn_parent_node_id n \<noteq> None \<or> dn_index_eligible n then
          Inl (ValueError ''Section nodes must be non-indexable roots'') else Inr n)
     else if dn_parent_node_id n = None \<or> \<not> dn_index_eligible n then
       Inl (ValueError ''Slice nodes must be indexable children'')
     else Inr n)"

definition content_digest :: "document_node \<Rightarrow> string" where
  "content_digest n = sha256_hex (join [CHR 0x00]
    [node_type_value (dn_node_type n), join [CHR 0x1F] (dn_heading_path n),
     join [CHR 0x1F] (dn_business_keys n), dn_summary n, dn_content n])"

definition node_id_of :: "string \<Rightarrow> string \<Rightarrow> string \<Rightarrow> string \<Rightarrow> string" where
  "node_id_of snapshot_id document_version_id node_type key =
    ''node-'' @ take 24 (sha256_hex
      (join [CHR 0x00] [snapshot_id, document_version_id, node_type, key]))"

section \<open>The nodes of a snapshot\<close>

definition fact_type_of :: "snapshot_fact \<Rightarrow> string" where
  "fact_type_of i = cf_fact_type (sf_fact i)"

definition stable_key_of :: "snapshot_fact \<Rightarrow> string" where
  "stable_key_of i = cf_stable_key (sf_fact i)"

definition section_node ::
    "string \<Rightarrow> string \<Rightarrow> string \<Rightarrow> string \<Rightarrow> nat \<Rightarrow> string \<Rightarrow> snapshot_fact list \<Rightarrow> document_node" where
  "section_node snapshot_id document_version_id logical_name document_type ordinal fact_type facts =
    \<lparr>dn_node_id = node_id_of snapshot_id document_version_id ''section'' fact_type,
     dn_snapshot_id = snapshot_id, dn_document_version_id = document_version_id,
     dn_parent_node_id = None, dn_node_type = SECTION, dn_ordinal = int ordinal,
     dn_heading_path = [logical_name, fact_type], dn_business_keys = [],
     dn_summary = document_type @ '' '' @ fact_type @ '' facts'',
     dn_content = ''fact_count: '' @ show_nat (length facts),
     dn_source_refs = sorted_set (concat (map (\<lambda>i. cf_source_refs (sf_fact i)) facts)),
     dn_index_eligible = False\<rparr>"

definition slice_node ::
    "string \<Rightarrow> string \<Rightarrow> string \<Rightarrow> string \<Rightarrow> nat \<Rightarrow> snapshot_fact \<Rightarrow> document_node" where
  "slice_node snapshot_id document_version_id logical_name fact_type ordinal i =
    (let key = stable_key_of i
     in \<lparr>dn_node_id = node_id_of snapshot_id document_version_id ''slice'' key,
         dn_snapshot_id = snapshot_id, dn_document_version_id = document_version_id,
         dn_parent_node_id =
           Some (node_id_of snapshot_id document_version_id ''section'' fact_type),
         dn_node_type = SLICE, dn_ordinal = int ordinal,
         dn_heading_path = [logical_name, fact_type], dn_business_keys = [key],
         dn_summary = fact_type @ '' '' @ key,
         dn_content = join [CHR 0x0A]
           (map (\<lambda>(name, value). name @ '': '' @ value) (cf_values (sf_fact i))),
         dn_source_refs = sort (cf_source_refs (sf_fact i)),
         dn_index_eligible = True\<rparr>)"

definition nodes_of_type ::
    "canonical_snapshot \<Rightarrow> string \<Rightarrow> string \<Rightarrow> string \<Rightarrow> nat \<times> string \<Rightarrow> document_node list" where
  "nodes_of_type snapshot document_version_id logical_name document_type entry =
    (case entry of (section_ordinal, fact_type) \<Rightarrow>
      let facts = sort_key stable_key_of
            (case map_of (group_by fact_type_of (cs_facts snapshot)) fact_type of
               None \<Rightarrow> [] | Some fs \<Rightarrow> fs)
      in section_node (cs_snapshot_id snapshot) document_version_id logical_name document_type
           section_ordinal fact_type facts
         # map (\<lambda>(slice_ordinal, i). slice_node (cs_snapshot_id snapshot) document_version_id
             logical_name fact_type slice_ordinal i) (enumerate 0 facts))"

definition build_nodes ::
    "canonical_snapshot \<Rightarrow> string \<Rightarrow> string \<Rightarrow> string \<Rightarrow> document_node list result" where
  "build_nodes snapshot document_version_id logical_name document_type =
    (if list_ex blank [document_version_id, logical_name, document_type] then
       Inl (ValueError ''Document node build fields must not be blank'')
     else mapM check_document_node
       (concat (map (nodes_of_type snapshot document_version_id logical_name document_type)
         (enumerate 0 (sort (map fst (group_by fact_type_of (cs_facts snapshot))))))))"

section \<open>The shape of the result\<close>

lemma check_document_node_Inr: "check_document_node n = Inr n' \<Longrightarrow> n' = n"
  by (auto simp: check_document_node_def split: if_splits)

lemma mapM_id: "(\<And>x y. f x = Inr y \<Longrightarrow> y = x) \<Longrightarrow> mapM f xs = Inr ys \<Longrightarrow> ys = xs"
  by (auto simp: mapM_eq_Inr list_all2_conv_all_nth intro!: nth_equalityI)

definition facts_of_type :: "canonical_snapshot \<Rightarrow> string \<Rightarrow> snapshot_fact list" where
  "facts_of_type s t = sort_key stable_key_of (filter (\<lambda>i. fact_type_of i = t) (cs_facts s))"

definition fact_types :: "canonical_snapshot \<Rightarrow> string list" where
  "fact_types s = sort (map fst (group_by fact_type_of (cs_facts s)))"

lemma distinct_group_by [simp]: "distinct (map fst (group_by key xs))"
  by (induction xs rule: rev_induct) (simp_all add: group_by_snoc distinct_update, simp add: group_by_def)

lemma fact_types: "set (fact_types s) = fact_type_of ` set (cs_facts s)" "distinct (fact_types s)"
  "sorted (fact_types s)"
  by (simp_all add: fact_types_def)

lemma nodes_of_type_eq:
  "nodes_of_type s v n ty (k, t) =
     section_node (cs_snapshot_id s) v n ty k t (facts_of_type s t)
     # map (\<lambda>(j, i). slice_node (cs_snapshot_id s) v n t j i) (enumerate 0 (facts_of_type s t))"
  by (auto simp: nodes_of_type_def facts_of_type_def map_of_group_by Let_def)

lemma build_nodes_Inr:
  "build_nodes s v n ty = Inr nodes \<Longrightarrow>
     nodes = concat (map (nodes_of_type s v n ty) (enumerate 0 (fact_types s)))"
  unfolding build_nodes_def fact_types_def
  by (auto dest!: mapM_id[rotated] check_document_node_Inr split: if_splits)

text \<open>(C39) The nodes do not depend on the order of the facts in the snapshot.\<close>

theorem nodes_ignore_fact_order:
  assumes "distinct (map stable_key_of (cs_facts snapshot))"
    and "mset (cs_facts snapshot) = mset facts"
  shows "build_nodes snapshot version name type
    = build_nodes (snapshot\<lparr>cs_facts := facts\<rparr>) version name type"
proof -
  let ?t = "snapshot\<lparr>cs_facts := facts\<rparr>"
  have types: "fact_types snapshot = fact_types ?t"
    using mset_eq_setD[OF assms(2)] by (intro sorted_distinct_set_unique) (simp_all add: fact_types)
  have "facts_of_type snapshot t = facts_of_type ?t t" for t
    unfolding facts_of_type_def using assms
    by (intro sort_key_inj_key_eq) (simp_all add: mset_filter distinct_map inj_on_def)
  then have "nodes_of_type snapshot version name type = nodes_of_type ?t version name type"
    by (intro ext) (auto simp: nodes_of_type_eq split: prod.splits)
  then show ?thesis
    using types[unfolded fact_types_def] by (simp add: build_nodes_def)
qed

lemma map_snd_enumerate [simp]: "map (\<lambda>(j, i). f i) (enumerate n xs) = map f xs"
  by (induction xs arbitrary: n) auto

lemma slices_of_type:
  "filter dn_index_eligible (nodes_of_type s v n ty (k, t)) =
     map (\<lambda>(j, i). slice_node (cs_snapshot_id s) v n t j i) (enumerate 0 (facts_of_type s t))"
proof -
  have "filter dn_index_eligible (map (\<lambda>(j, i). slice_node sid v n t j i) xs)
      = map (\<lambda>(j, i). slice_node sid v n t j i) xs" for sid xs
    by (auto simp: filter_id_conv slice_node_def Let_def)
  then show ?thesis by (simp add: nodes_of_type_eq section_node_def)
qed

lemma slice_keys_of_type:
  "map dn_business_keys (filter dn_index_eligible (nodes_of_type s v n ty (k, t)))
     = map (\<lambda>i. [stable_key_of i]) (facts_of_type s t)"
proof -
  have "map dn_business_keys (map (\<lambda>(j, i). slice_node (cs_snapshot_id s) v n t j i) xs)
      = map (\<lambda>(j, i). [stable_key_of i]) xs" for xs
    by (auto simp: slice_node_def Let_def)
  then show ?thesis by (simp only: slices_of_type map_snd_enumerate)
qed

lemma mset_by_types:
  "distinct ts \<Longrightarrow> f ` set xs \<subseteq> set ts \<Longrightarrow>
     mset (concat (map (\<lambda>t. filter (\<lambda>x. f x = t) xs) ts)) = mset xs"
proof (induction ts arbitrary: xs)
  case (Cons t ts)
  have "filter (\<lambda>x. f x = u) xs = filter (\<lambda>x. f x = u) (filter (\<lambda>x. f x \<noteq> t) xs)" if "u \<in> set ts" for u
    using Cons.prems(1) that by (auto intro!: filter_cong)
  then have m1: "map (\<lambda>u. filter (\<lambda>x. f x = u) xs) ts = map (\<lambda>u. filter (\<lambda>x. f x = u) (filter (\<lambda>x. f x \<noteq> t) xs)) ts"
    by (intro map_cong refl)
  have m2: "mset (concat (map (\<lambda>u. filter (\<lambda>x. f x = u) (filter (\<lambda>x. f x \<noteq> t) xs)) ts))
      = mset (filter (\<lambda>x. f x \<noteq> t) xs)"
    using Cons.prems by (intro Cons.IH) auto
  have m3: "mset (filter (\<lambda>x. f x = t) xs) + mset (filter (\<lambda>x. f x \<noteq> t) xs) = mset xs"
    by (simp add: mset_filter)
  show ?case unfolding list.map concat.simps mset_append m1 m2 m3 ..
qed simp


lemma parents_in_blocks:
  assumes "\<forall>b\<in>set blocks. b \<noteq> [] \<and> \<not> Q (hd b) \<and> (\<forall>x\<in>set (tl b). P (hd b) x)"
    and "j < length (concat blocks)" "Q (concat blocks ! j)"
  shows "\<exists>i<j. P (concat blocks ! i) (concat blocks ! j)"
  using assms
proof (induction blocks arbitrary: j)
  case (Cons b blocks)
  show ?case
  proof (cases "j < length b")
    case True
    with Cons.prems obtain h xs where b: "b = h # xs" "\<not> Q h" "\<forall>x\<in>set xs. P h x"
      by (cases b) auto
    with True Cons.prems(3) obtain m where "j = Suc m" by (cases j) (auto simp: nth_append)
    with b True show ?thesis by (intro exI[of _ 0]) (auto simp: nth_append)
  next
    case False
    with Cons.prems have "\<exists>i<j - length b. P (concat blocks ! i) (concat blocks ! (j - length b))"
      by (intro Cons.IH) (auto simp: nth_append)
    then obtain i where "i < j - length b" "P (concat blocks ! i) (concat blocks ! (j - length b))"
      by blast
    with False show ?thesis by (intro exI[of _ "length b + i"]) (auto simp: nth_append)
  qed
qed simp

lemma block_keys:
  "map dn_business_keys (filter dn_index_eligible (nodes_of_type s v n ty e))
     = map (\<lambda>i. [stable_key_of i]) (facts_of_type s (snd e))"
  by (cases e) (simp add: slice_keys_of_type)

lemma concat_snd_enumerate: "concat (map (\<lambda>e. h (snd e)) (enumerate n ts)) = concat (map h ts)"
  by (induction ts arbitrary: n) auto

text \<open>The slices are exactly the facts: each fact has one indexable slice, named by its stable
  key, and every slice comes after the section it names as its parent, which has its heading.\<close>

theorem slices_are_the_facts:
  assumes "build_nodes snapshot version name type = Inr nodes"
  shows "mset (map dn_business_keys (filter dn_index_eligible nodes))
      = mset (map (\<lambda>i. [stable_key_of i]) (cs_facts snapshot))
    \<and> (\<forall>j<length nodes. dn_index_eligible (nodes ! j) \<longrightarrow>
        (\<exists>i<j. dn_node_type (nodes ! i) = SECTION
            \<and> dn_parent_node_id (nodes ! j) = Some (dn_node_id (nodes ! i))
            \<and> dn_heading_path (nodes ! j) = dn_heading_path (nodes ! i)))"
proof
  let ?block = "nodes_of_type snapshot version name type"
  let ?es = "enumerate 0 (fact_types snapshot)"
  have nodes: "nodes = concat (map ?block ?es)" by (rule build_nodes_Inr[OF assms])
  have "map dn_business_keys (filter dn_index_eligible nodes)
      = concat (map (\<lambda>e. map (\<lambda>i. [stable_key_of i]) (facts_of_type snapshot (snd e))) ?es)"
    unfolding nodes filter_concat map_concat map_map o_def block_keys ..
  also have "\<dots> = map (\<lambda>i. [stable_key_of i]) (concat (map (facts_of_type snapshot) (fact_types snapshot)))"
    by (simp add: concat_snd_enumerate[of "\<lambda>t. map (\<lambda>i. [stable_key_of i]) (facts_of_type snapshot t)"]
        map_concat o_def)
  finally have "mset (map dn_business_keys (filter dn_index_eligible nodes))
      = image_mset (\<lambda>i. [stable_key_of i]) (mset (concat (map (facts_of_type snapshot) (fact_types snapshot))))"
    by simp
  also have "mset (concat (map (facts_of_type snapshot) ts))
      = mset (concat (map (\<lambda>t. filter (\<lambda>x. fact_type_of x = t) (cs_facts snapshot)) ts))" for ts
    by (induction ts) (simp_all add: facts_of_type_def)
  also have "mset (concat (map (\<lambda>t. filter (\<lambda>x. fact_type_of x = t) (cs_facts snapshot)) (fact_types snapshot)))
      = mset (cs_facts snapshot)"
    by (intro mset_by_types) (simp_all add: fact_types)
  finally show "mset (map dn_business_keys (filter dn_index_eligible nodes))
      = mset (map (\<lambda>i. [stable_key_of i]) (cs_facts snapshot))" by simp
  show "\<forall>j<length nodes. dn_index_eligible (nodes ! j) \<longrightarrow>
        (\<exists>i<j. dn_node_type (nodes ! i) = SECTION
            \<and> dn_parent_node_id (nodes ! j) = Some (dn_node_id (nodes ! i))
            \<and> dn_heading_path (nodes ! j) = dn_heading_path (nodes ! i))"
  proof (intro allI impI)
    fix j assume j: "j < length nodes" "dn_index_eligible (nodes ! j)"
    have "\<forall>b\<in>set (map ?block ?es). b \<noteq> [] \<and> \<not> dn_index_eligible (hd b) \<and>
        (\<forall>x\<in>set (tl b). dn_node_type (hd b) = SECTION \<and> dn_parent_node_id x = Some (dn_node_id (hd b))
          \<and> dn_heading_path x = dn_heading_path (hd b))"
      by (auto simp: nodes_of_type_eq section_node_def slice_node_def Let_def)
    from parents_in_blocks[where Q = dn_index_eligible, OF this] j
    show "\<exists>i<j. dn_node_type (nodes ! i) = SECTION
            \<and> dn_parent_node_id (nodes ! j) = Some (dn_node_id (nodes ! i))
            \<and> dn_heading_path (nodes ! j) = dn_heading_path (nodes ! i)"
      by (simp add: nodes)
  qed
qed


section \<open>When the nodes exist\<close>

lemma space_bytes_unprintable:
  "list_all (list_all (\<lambda>b. \<not> (33 \<le> (of_char b :: nat) \<and> (of_char b :: nat) < 127))) space_chars"
  by (simp add: space_chars_def)

lemma not_blank_printable:
  assumes "c \<in> set s" "33 \<le> (of_char c :: nat)" "(of_char c :: nat) < 127"
  shows "\<not> blank s"
proof
  assume "blank s"
  obtain x where "x \<in> set (utf8_chars s)" "c \<in> set x"
    using assms(1) set_concat[of "utf8_chars s"] by auto
  with \<open>blank s\<close> show False
    using space_bytes_unprintable assms(2,3) by (auto simp: blank_iff is_space_char_def list_all_iff)
qed

definition node_fact_ok :: "canonical_fact \<Rightarrow> bool" where
  "node_fact_ok f \<longleftrightarrow> \<not> blank (cf_fact_type f) \<and> CHR '':'' \<in> set (cf_stable_key f)
    \<and> cf_values f \<noteq> [] \<and> cf_source_refs f \<noteq> [] \<and> distinct (cf_source_refs f)
    \<and> list_all (\<lambda>r. \<not> blank r) (cf_source_refs f)"

lemma starts_with_set: "starts_with p s \<Longrightarrow> set p \<subseteq> set s"
  unfolding starts_with_def by (metis set_take_subset)

lemma node_fact_ok_new:
  "new_canonical_fact u t k vs refs ev = Inr f \<Longrightarrow> node_fact_ok f"
  by (auto simp: new_canonical_fact_def Let_def node_fact_ok_def list_ex_iff list_all_iff
      dest!: starts_with_set split: if_splits)


lemma not_blank_node_id: "\<not> blank (node_id_of s v ty k)"
  by (simp add: node_id_of_def)

lemma not_blank_colon: "CHR '':'' \<in> set s \<Longrightarrow> \<not> blank s"
  by (rule not_blank_printable) auto

lemma join_contains: "xs \<noteq> [] \<Longrightarrow> (\<And>x. x \<in> set xs \<Longrightarrow> c \<in> set x) \<Longrightarrow> c \<in> set (join sep xs)"
  by (induction sep xs rule: join.induct) auto

lemma section_node_ok:
  assumes "\<not> blank sid" "\<not> blank v" "\<not> blank n" "\<not> blank t" "facts \<noteq> []"
    and "\<forall>i\<in>set facts. node_fact_ok (sf_fact i)"
  shows "check_document_node (section_node sid v n ty k t facts) = Inr (section_node sid v n ty k t facts)"
proof -
  let ?refs = "sorted_set (concat (map (\<lambda>i. cf_source_refs (sf_fact i)) facts))"
  have "hd facts \<in> set facts" using assms(5) by simp
  then have "?refs \<noteq> []" "distinct ?refs" "\<forall>r\<in>set ?refs. \<not> blank r"
    using assms(6) by (auto simp: node_fact_ok_def list_all_iff sorted_set_props)
  moreover have "\<not> blank (ty @ '' '' @ t @ '' facts'')"
    by (rule not_blank_printable[of "CHR ''f''"]) auto
  ultimately show ?thesis
    using assms by (simp add: check_document_node_def section_node_def not_blank_node_id list_ex_iff)
qed

lemma slice_node_ok:
  assumes "\<not> blank sid" "\<not> blank v" "\<not> blank n" "\<not> blank t" "node_fact_ok (sf_fact i)"
  shows "check_document_node (slice_node sid v n t k i) = Inr (slice_node sid v n t k i)"
proof -
  have "\<not> blank (t @ '' '' @ stable_key_of i)"
    using assms(5) by (intro not_blank_colon) (simp add: node_fact_ok_def stable_key_of_def)
  moreover have "\<not> blank (join [CHR 0x0A] (map (\<lambda>(name, val). name @ '': '' @ val) (cf_values (sf_fact i))))"
    using assms(5) by (intro not_blank_colon join_contains) (auto simp: node_fact_ok_def)
  ultimately show ?thesis
    using assms by (simp add: check_document_node_def slice_node_def Let_def not_blank_node_id
        node_fact_ok_def list_ex_iff list_all_iff)
qed

lemma nodes_total:
  assumes "\<not> blank (cs_snapshot_id snapshot)"
    and "\<forall>i\<in>set (cs_facts snapshot). node_fact_ok (sf_fact i)"
  shows "(\<exists>nodes. build_nodes snapshot version name type = Inr nodes)
    \<longleftrightarrow> \<not> blank version \<and> \<not> blank name \<and> \<not> blank type"
proof (cases "\<not> blank version \<and> \<not> blank name \<and> \<not> blank type")
  case True
  have "\<exists>y. check_document_node x = Inr y"
    if "(k, t) \<in> set (enumerate 0 (fact_types snapshot))"
      "x \<in> set (nodes_of_type snapshot version name type (k, t))" for k t x
  proof -
    have t: "t \<in> fact_type_of ` set (cs_facts snapshot)"
      using that(1) unfolding fact_types(1)[symmetric] by (auto simp: in_set_enumerate_eq)
    then have "\<not> blank t"
      using assms(2) by (auto simp: fact_type_of_def node_fact_ok_def)
    moreover have "facts_of_type snapshot t \<noteq> []"
      using t by (auto simp: facts_of_type_def filter_empty_conv)
    moreover have "\<forall>i\<in>set (facts_of_type snapshot t). node_fact_ok (sf_fact i)"
      using assms(2) by (simp add: facts_of_type_def)
    ultimately show ?thesis
      using that(2) True assms(1) unfolding nodes_of_type_eq list.set set_map
      by (elim insertE imageE)
        (auto simp: section_node_ok slice_node_ok in_set_enumerate_eq)
  qed
  then show ?thesis
    using True by (auto simp: build_nodes_def mapM_total_iff fact_types_def)
next
  case False
  then show ?thesis by (auto simp: build_nodes_def)
qed

text \<open>The nodes of a snapshot of valid facts exist exactly when the build is given a version, a
  name and a document type: no node of a valid snapshot fails its own checks.\<close>

theorem nodes_exist_iff:
  assumes "\<not> blank (cs_snapshot_id snapshot)"
    and "\<forall>i\<in>set (cs_facts snapshot). node_fact_ok (sf_fact i)"
  shows "(\<exists>nodes. build_nodes snapshot version name type = Inr nodes)
    \<longleftrightarrow> \<not> blank version \<and> \<not> blank name \<and> \<not> blank type"
  by (rule nodes_total[OF assms])


lemma demo_nodes_ok:
  "\<not> blank (cs_snapshot_id demo_source)"
  "\<forall>i\<in>set (cs_facts demo_source). node_fact_ok (sf_fact i)"
  by (auto simp: demo_source_def demo_fact_def node_fact_ok_def)

lemma demo_nodes: "\<exists>nodes. build_nodes demo_source ''v1'' ''Doc'' ''api'' = Inr nodes"
  by (simp add: nodes_total[OF demo_nodes_ok])

theorem nodes_exist_iff_witness:
  "\<exists>nodes. build_nodes demo_source ''v1'' ''Doc'' ''api'' = Inr nodes"
  using nodes_exist_iff[OF demo_nodes_ok, of "''v1''" "''Doc''" "''api''"] by simp

theorem slices_are_the_facts_witness:
  "\<exists>nodes. build_nodes demo_source ''v1'' ''Doc'' ''api'' = Inr nodes
     \<and> mset (map dn_business_keys (filter dn_index_eligible nodes)) = {#[''api:a''], [''api:b'']#}"
proof -
  obtain nodes where "build_nodes demo_source ''v1'' ''Doc'' ''api'' = Inr nodes"
    using demo_nodes by blast
  with slices_are_the_facts[OF this] show ?thesis
    by (auto simp: demo_source_def demo_fact_def stable_key_of_def)
qed

theorem nodes_ignore_fact_order_witness:
  "build_nodes demo_source ''v1'' ''Doc'' ''api''
     = build_nodes (demo_source\<lparr>cs_facts := rev (cs_facts demo_source)\<rparr>) ''v1'' ''Doc'' ''api''"
  by (rule nodes_ignore_fact_order) (simp_all add: demo_source_def demo_fact_def stable_key_of_def)

end
