(* ===== verification/DocumentRelations.thy ===== *)
theory DocumentRelations
  imports Conventions KeyedDelta CanonicalJson
begin

text \<open>
  Exact relations between the slices of documents: \<open>domain/document_relations.py\<close>.  A rule joins
  the fields of a source fact with the fields of a target fact; a source is linked only when it
  resolves to one target, and every source that does not is recorded with the reason.

  Two checks of \<open>urllib.parse.urlsplit\<close> on the network location need tables of the interpreter (the
  forms of an IP literal, the Unicode normal form of a host): they are the argument \<open>check_netloc\<close>.
\<close>

record relation_tables = text_tables +
  check_netloc :: "string \<Rightarrow> unit result"

section \<open>Data, with the checks of its constructors\<close>

datatype value_normalizer = NFKC_CASEFOLD | PRESERVE_VALUE | URL_PATH

datatype unresolved_reason = MISSING_SOURCE_VALUE | NO_TARGET | AMBIGUOUS_TARGET | SELF_TARGET

definition value_normalizer_values :: "(string \<times> value_normalizer) list" where
  "value_normalizer_values =
    [(''nfkc_casefold'', NFKC_CASEFOLD), (''preserve'', PRESERVE_VALUE), (''url_path'', URL_PATH)]"

record relation_fact =
  rf_node_id :: string
  rf_document_id :: string
  rf_document_type :: string
  rf_fact_type :: string
  rf_values :: "(string \<times> string) list"

definition new_relation_fact ::
    "string \<Rightarrow> string \<Rightarrow> string \<Rightarrow> string \<Rightarrow> (string \<times> string) list \<Rightarrow> relation_fact result" where
  "new_relation_fact node_id document_id document_type fact_type values =
    (if list_ex blank [node_id, document_id, document_type, fact_type] then
       Inl (ValueError ''Document relation Fact identity must not be blank'')
     else Inr \<lparr>rf_node_id = node_id, rf_document_id = document_id,
               rf_document_type = document_type, rf_fact_type = fact_type, rf_values = values\<rparr>)"

record relation_rule =
  rr_rule_id :: string
  rr_relation_label :: string
  rr_source_document_types :: "string list"
  rr_source_fact_types :: "string list"
  rr_source_fields :: "string list"
  rr_target_document_types :: "string list"
  rr_target_fact_types :: "string list"
  rr_target_fields :: "string list"
  rr_value_normalizers :: "value_normalizer list"

definition check_relation_rule :: "relation_rule \<Rightarrow> relation_rule result" where
  "check_relation_rule r =
    (if blank (rr_rule_id r) \<or> blank (rr_relation_label r) then
       Inl (ValueError ''Document relation rule identity must not be blank'')
     else if rr_source_document_types r = [] \<or> rr_source_fact_types r = []
        \<or> rr_source_fields r = [] \<or> rr_target_document_types r = []
        \<or> rr_target_fact_types r = [] \<or> rr_target_fields r = [] \<or> rr_value_normalizers r = [] then
       Inl (ValueError ''Document relation rule collections must not be empty'')
     else if \<not> (length (rr_source_fields r) = length (rr_target_fields r)
        \<and> length (rr_target_fields r) = length (rr_value_normalizers r)) then
       Inl (ValueError ''Document relation rule field arity must match'')
     else Inr r)"

record planned_relation =
  pr_rule_id :: string
  pr_relation_label :: string
  pr_source_node_id :: string
  pr_target_node_id :: string
  pr_match_key_digest :: string

record unresolved_relation =
  ur_rule_id :: string
  ur_source_node_id :: string
  ur_match_key_digest :: "string option"
  ur_candidate_target_count :: nat
  ur_reason :: unresolved_reason

record relation_plan =
  rp_relations :: "planned_relation list"
  rp_unresolved :: "unresolved_relation list"

definition new_relation_planner :: "relation_rule list \<Rightarrow> relation_rule list result" where
  "new_relation_planner rules =
    (if rules = [] then
       Inl (ValueError ''Document relation planner requires at least one rule'')
     else if \<not> distinct (map rr_rule_id rules) then
       Inl (ValueError ''Document relation rule IDs must be unique'')
     else Inr rules)"

definition texts_at :: "pyval \<Rightarrow> string \<Rightarrow> string list result" where
  "texts_at v k = rbind (py_index v k) text_list"

definition normalizer_of :: "string \<Rightarrow> value_normalizer result" where
  "normalizer_of s = enum_of value_normalizer_values (PStr s)"

definition rule_of_profile :: "pyval \<Rightarrow> relation_rule result" where
  "rule_of_profile rule =
    rbind (py_index rule ''rule_id'') (\<lambda>rule_id.
    rbind (py_index rule ''relation_label'') (\<lambda>relation_label.
    rbind (texts_at rule ''source_document_types'') (\<lambda>source_document_types.
    rbind (texts_at rule ''source_fact_types'') (\<lambda>source_fact_types.
    rbind (texts_at rule ''source_fields'') (\<lambda>source_fields.
    rbind (texts_at rule ''target_document_types'') (\<lambda>target_document_types.
    rbind (texts_at rule ''target_fact_types'') (\<lambda>target_fact_types.
    rbind (texts_at rule ''target_fields'') (\<lambda>target_fields.
    rbind (texts_at rule ''value_normalizers'') (\<lambda>normalizer_texts.
    rbind (mapM normalizer_of normalizer_texts) (\<lambda>value_normalizers.
      check_relation_rule
        \<lparr>rr_rule_id = py_str rule_id, rr_relation_label = py_str relation_label,
         rr_source_document_types = source_document_types,
         rr_source_fact_types = source_fact_types, rr_source_fields = source_fields,
         rr_target_document_types = target_document_types,
         rr_target_fact_types = target_fact_types, rr_target_fields = target_fields,
         rr_value_normalizers = value_normalizers\<rparr>))))))))))"

definition planner_from_profile :: "pydict \<Rightarrow> relation_rule list result" where
  "planner_from_profile profile =
    (if dget profile ''profile_type'' \<noteq> PStr ''DocumentRelationProfile'' then
       Inl (ValueError ''DocumentRelationPlanner requires a DocumentRelationProfile'')
     else rbind (rbind (dindex profile ''rules'') py_iter) (\<lambda>values.
          rbind (mapM rule_of_profile values) new_relation_planner))"

section \<open>The path of a URL\<close>

definition ascii_letter :: "char \<Rightarrow> bool" where
  "ascii_letter c \<longleftrightarrow> (let n = (of_char c :: nat) in (65 \<le> n \<and> n \<le> 90) \<or> (97 \<le> n \<and> n \<le> 122))"

definition scheme_char :: "char \<Rightarrow> bool" where
  "scheme_char c \<longleftrightarrow> ascii_letter c \<or> c \<in> set ''0123456789+-.''"

text \<open>The part of a URL after its scheme, when what stands before the first colon is one.\<close>

definition after_scheme :: "string \<Rightarrow> string" where
  "after_scheme url =
    (let head = takeWhile (\<lambda>c. c \<noteq> CHR '':'') url
     in if CHR '':'' \<in> set url \<and> head \<noteq> [] \<and> ascii_letter (hd head) \<and> list_all scheme_char head
        then drop (length head + 1) url else url)"

text \<open>
  \<open>urlsplit(url).path\<close>: leading blanks and control characters are stripped, tabs and line ends
  removed, the scheme and the network location taken off, the fragment and then the query cut.
\<close>

definition urlsplit_path :: "('a relation_tables_scheme) \<Rightarrow> string \<Rightarrow> string result" where
  "urlsplit_path u text =
    (let url = filter (\<lambda>c. c \<notin> {CHR 0x09, CHR 0x0D, CHR 0x0A})
           (dropWhile (\<lambda>c. (of_char c :: nat) \<le> 32) text);
         rest = after_scheme url;
         cut = (\<lambda>path. takeWhile (\<lambda>c. c \<noteq> CHR ''?'') (takeWhile (\<lambda>c. c \<noteq> CHR ''#'') path))
     in if starts_with ''//'' rest then
          let netloc = takeWhile (\<lambda>c. c \<notin> set ''/?#'') (drop 2 rest)
          in if (CHR ''['' \<in> set netloc) \<noteq> (CHR '']'' \<in> set netloc) then
               Inl (ValueError ''Invalid IPv6 URL'')
             else rbind (check_netloc u netloc) (\<lambda>_.
               Inr (cut (drop (length netloc + 2) rest)))
        else Inr (cut rest))"

definition rstrip_slash :: "string \<Rightarrow> string" where
  "rstrip_slash path = rev (dropWhile (\<lambda>c. c = CHR ''/'') (rev path))"

definition relation_value ::
    "('a relation_tables_scheme) \<Rightarrow> string \<Rightarrow> value_normalizer \<Rightarrow> string result" where
  "relation_value u value normalizer =
    (let normalized = whitespace_sub (py_strip (nfkc u value))
     in case normalizer of
          NFKC_CASEFOLD \<Rightarrow> Inr (casefold u normalized)
        | PRESERVE_VALUE \<Rightarrow> Inr normalized
        | URL_PATH \<Rightarrow>
            rbind (urlsplit_path u normalized) (\<lambda>parsed_path.
            let path = (if parsed_path \<noteq> [] then parsed_path
                  else takeWhile (\<lambda>c. c \<noteq> CHR ''#'') (takeWhile (\<lambda>c. c \<noteq> CHR ''?'') normalized));
                rooted = (if starts_with ''/'' path then path else ''/'' @ path);
                stripped = rstrip_slash rooted
            in Inr (if stripped = [] then ''/'' else stripped)))"

section \<open>Planning\<close>

definition matches_source :: "relation_rule \<Rightarrow> relation_fact \<Rightarrow> bool" where
  "matches_source rule f \<longleftrightarrow> rf_document_type f \<in> set (rr_source_document_types rule)
    \<and> rf_fact_type f \<in> set (rr_source_fact_types rule)"

definition matches_target :: "relation_rule \<Rightarrow> relation_fact \<Rightarrow> bool" where
  "matches_target rule f \<longleftrightarrow> rf_document_type f \<in> set (rr_target_document_types rule)
    \<and> rf_fact_type f \<in> set (rr_target_fact_types rule)"

text \<open>\<open>_match_key\<close>: \<open>zip(..., strict=True)\<close> raises when the arities differ.\<close>

fun match_key ::
    "('a relation_tables_scheme) \<Rightarrow> (string \<times> string) list \<Rightarrow> string list \<Rightarrow> value_normalizer list
     \<Rightarrow> string list option result" where
  "match_key u values [] [] = Inr (Some [])"
| "match_key u values (name # names) (n # ns) =
     (case map_of values name of
        None \<Rightarrow> Inr None
      | Some raw \<Rightarrow>
          if blank raw then Inr None
          else rbind (relation_value u raw n) (\<lambda>v.
            if v = [] then Inr None
            else rbind (match_key u values names ns) (\<lambda>rest. Inr (map_option (\<lambda>vs. v # vs) rest))))"
| "match_key u values names ns = Inl (ValueError ''zip() arguments have different lengths'')"

definition match_digest :: "string list \<Rightarrow> string" where
  "match_digest key = sha256_hex (join [CHR 0x00] key)"

text \<open>The targets of a rule with their keys.\<close>

definition target_entry ::
    "('a relation_tables_scheme) \<Rightarrow> relation_rule \<Rightarrow> relation_fact
     \<Rightarrow> (string list \<times> relation_fact) list result" where
  "target_entry u rule f =
    (if \<not> matches_target rule f then Inr []
     else rbind (match_key u (rf_values f) (rr_target_fields rule) (rr_value_normalizers rule))
       (\<lambda>key. Inr (case key of None \<Rightarrow> [] | Some k \<Rightarrow> [(k, f)])))"

definition target_index ::
    "('a relation_tables_scheme) \<Rightarrow> relation_rule \<Rightarrow> relation_fact list
     \<Rightarrow> (string list \<times> (string list \<times> relation_fact) list) list result" where
  "target_index u rule facts =
    rbind (mapM (target_entry u rule) facts) (\<lambda>entries. Inr (group_by fst (concat entries)))"

text \<open>What the candidates of a source mean.\<close>

definition resolve_candidates ::
    "relation_rule \<Rightarrow> relation_fact \<Rightarrow> string \<Rightarrow> relation_fact list
     \<Rightarrow> planned_relation list \<times> unresolved_relation list" where
  "resolve_candidates rule f digest candidates =
    (let unresolved = (\<lambda>reason. ([], [\<lparr>ur_rule_id = rr_rule_id rule,
           ur_source_node_id = rf_node_id f, ur_match_key_digest = Some digest,
           ur_candidate_target_count = length candidates, ur_reason = reason\<rparr>]))
     in case candidates of
          [] \<Rightarrow> unresolved NO_TARGET
        | target # others \<Rightarrow>
            if others \<noteq> [] then unresolved AMBIGUOUS_TARGET
            else if rf_node_id target = rf_node_id f then unresolved SELF_TARGET
            else ([\<lparr>pr_rule_id = rr_rule_id rule, pr_relation_label = rr_relation_label rule,
                    pr_source_node_id = rf_node_id f, pr_target_node_id = rf_node_id target,
                    pr_match_key_digest = digest\<rparr>], []))"

definition resolve_source ::
    "('a relation_tables_scheme) \<Rightarrow> relation_rule
     \<Rightarrow> (string list \<times> (string list \<times> relation_fact) list) list \<Rightarrow> relation_fact
     \<Rightarrow> (planned_relation list \<times> unresolved_relation list) result" where
  "resolve_source u rule targets f =
    (if \<not> matches_source rule f then Inr ([], [])
     else rbind (match_key u (rf_values f) (rr_source_fields rule) (rr_value_normalizers rule))
       (\<lambda>key. case key of
          None \<Rightarrow>
            Inr ([], [\<lparr>ur_rule_id = rr_rule_id rule, ur_source_node_id = rf_node_id f,
                      ur_match_key_digest = None, ur_candidate_target_count = 0,
                      ur_reason = MISSING_SOURCE_VALUE\<rparr>])
        | Some k \<Rightarrow>
            Inr (resolve_candidates rule f (match_digest k) (sort_key rf_node_id
              (map snd (case map_of targets k of None \<Rightarrow> [] | Some es \<Rightarrow> es))))))"

definition plan_rule ::
    "('a relation_tables_scheme) \<Rightarrow> relation_fact list \<Rightarrow> relation_rule
     \<Rightarrow> (planned_relation list \<times> unresolved_relation list) result" where
  "plan_rule u facts rule =
    rbind (target_index u rule facts) (\<lambda>targets.
    rbind (mapM (resolve_source u rule targets) facts) (\<lambda>outcomes.
      Inr (concat (map fst outcomes), concat (map snd outcomes))))"

definition plan_relations ::
    "('a relation_tables_scheme) \<Rightarrow> relation_rule list \<Rightarrow> relation_fact list
     \<Rightarrow> relation_plan result" where
  "plan_relations u rules facts =
    rbind (mapM (plan_rule u facts) rules) (\<lambda>outcomes.
      Inr \<lparr>rp_relations = sort_key (\<lambda>r. (pr_rule_id r, pr_source_node_id r, pr_target_node_id r))
             (concat (map fst outcomes)),
           rp_unresolved = sort_key (\<lambda>r. (ur_rule_id r, ur_source_node_id r))
             (concat (map snd outcomes))\<rparr>)"

section \<open>Every source is accounted for once\<close>

definition relation_anchor :: "planned_relation \<Rightarrow> string \<times> string" where
  "relation_anchor r = (pr_rule_id r, pr_source_node_id r)"

definition unresolved_anchor :: "unresolved_relation \<Rightarrow> string \<times> string" where
  "unresolved_anchor r = (ur_rule_id r, ur_source_node_id r)"

definition source_anchors :: "relation_rule list \<Rightarrow> relation_fact list \<Rightarrow> (string \<times> string) list" where
  "source_anchors rules facts =
    concat (map (\<lambda>rule. map (\<lambda>f. (rr_rule_id rule, rf_node_id f)) (filter (matches_source rule) facts)) rules)"

lemma resolve_candidates_anchors:
  "map relation_anchor (fst (resolve_candidates rule f d cs))
     @ map unresolved_anchor (snd (resolve_candidates rule f d cs)) = [(rr_rule_id rule, rf_node_id f)]"
  by (cases cs) (auto simp: resolve_candidates_def Let_def relation_anchor_def unresolved_anchor_def)

lemma resolve_source_anchors:
  assumes "resolve_source u rule targets f = Inr (rs, us)"
  shows "map relation_anchor rs @ map unresolved_anchor us
    = (if matches_source rule f then [(rr_rule_id rule, rf_node_id f)] else [])"
proof (cases "matches_source rule f")
  case True
  then obtain key where "match_key u (rf_values f) (rr_source_fields rule) (rr_value_normalizers rule) = Inr key"
    using assms by (auto simp: resolve_source_def rbind_eq_Inr)
  then show ?thesis
    using assms True resolve_candidates_anchors[of rule f]
    by (cases key) (auto simp: resolve_source_def unresolved_anchor_def eq_fst_iff eq_snd_iff, metis fst_conv snd_conv)
qed (use assms in \<open>simp add: resolve_source_def\<close>)

lemma resolve_candidates_relation:
  "r \<in> set (fst (resolve_candidates rule f d cs)) \<Longrightarrow>
     \<exists>g. cs = [g] \<and> rf_node_id g \<noteq> rf_node_id f \<and> pr_rule_id r = rr_rule_id rule
       \<and> pr_source_node_id r = rf_node_id f \<and> pr_target_node_id r = rf_node_id g"
  by (cases cs) (auto simp: resolve_candidates_def Let_def split: if_splits)

lemma mset_anchors:
  assumes "list_all2 (\<lambda>x (rs, us). map relation_anchor rs @ map unresolved_anchor us = h x) xs outs"
  shows "mset (map relation_anchor (concat (map fst outs)))
      + mset (map unresolved_anchor (concat (map snd outs))) = mset (concat (map h xs))"
  using assms
proof (induction rule: list_all2_induct)
  case (Cons x xs o1 outs)
  have "mset (map relation_anchor (fst o1)) + mset (map unresolved_anchor (snd o1)) = mset (h x)"
    using Cons.hyps(1) by (cases o1) (auto simp flip: mset_append simp del: mset_map)
  with Cons.IH show ?case by (simp add: ac_simps)
qed simp

lemma plan_rule_anchors:
  assumes "plan_rule u facts rule = Inr (rs, us)"
  shows "mset (map relation_anchor rs) + mset (map unresolved_anchor us)
    = mset (map (\<lambda>f. (rr_rule_id rule, rf_node_id f)) (filter (matches_source rule) facts))"
proof -
  obtain targets outs where t: "mapM (resolve_source u rule targets) facts = Inr outs"
    "rs = concat (map fst outs)" "us = concat (map snd outs)"
    using assms by (auto simp: plan_rule_def result_simps)
  have "list_all2 (\<lambda>f (rs, us). map relation_anchor rs @ map unresolved_anchor us
      = (if matches_source rule f then [(rr_rule_id rule, rf_node_id f)] else [])) facts outs"
    using t(1) unfolding mapM_eq_Inr by (rule list_all2_mono) (auto dest: resolve_source_anchors)
  from mset_anchors[OF this]
  have "mset (map relation_anchor rs) + mset (map unresolved_anchor us) = mset (concat (map (\<lambda>f.
      if matches_source rule f then [(rr_rule_id rule, rf_node_id f)] else []) facts))"
    by (simp add: t)
  moreover have "concat (map (\<lambda>f. if matches_source rule f then [(rr_rule_id rule, rf_node_id f)] else []) facts)
      = map (\<lambda>f. (rr_rule_id rule, rf_node_id f)) (filter (matches_source rule) facts)"
    by (induction facts) auto
  ultimately show ?thesis by simp
qed

lemma image_mset_concat:
  "list_all2 (\<lambda>x (rs, us). mset (map relation_anchor rs) + mset (map unresolved_anchor us) = mset (h x)) xs outs \<Longrightarrow>
   mset (map relation_anchor (concat (map fst outs)))
      + mset (map unresolved_anchor (concat (map snd outs))) = mset (concat (map h xs))"
proof (induction rule: list_all2_induct)
  case (Cons x xs o1 outs)
  then show ?case by (cases o1) (simp add: ac_simps)
qed simp

text \<open>(C40) The plan is a complete ledger: every fact that is a source of a rule is listed exactly once
  for that rule, either as a relation or as unresolved with its reason, and nothing else is listed.\<close>

theorem relation_ledger_complete:
  assumes "plan_relations u rules facts = Inr plan"
  shows "mset (map relation_anchor (rp_relations plan)) + mset (map unresolved_anchor (rp_unresolved plan))
    = mset (source_anchors rules facts)"
proof -
  obtain outs where o: "mapM (plan_rule u facts) rules = Inr outs"
    "plan = \<lparr>rp_relations = sort_key (\<lambda>r. (pr_rule_id r, pr_source_node_id r, pr_target_node_id r))
             (concat (map fst outs)),
           rp_unresolved = sort_key (\<lambda>r. (ur_rule_id r, ur_source_node_id r)) (concat (map snd outs))\<rparr>"
    using assms by (auto simp: plan_relations_def rbind_eq_Inr)
  have "list_all2 (\<lambda>rule (rs, us). mset (map relation_anchor rs) + mset (map unresolved_anchor us)
      = mset (map (\<lambda>f. (rr_rule_id rule, rf_node_id f)) (filter (matches_source rule) facts))) rules outs"
    using o(1) unfolding mapM_eq_Inr by (rule list_all2_mono) (auto dest: plan_rule_anchors)
  from image_mset_concat[OF this] show ?thesis by (simp add: o(2) source_anchors_def)
qed

section \<open>Every relation is exact\<close>

lemma target_entry_Inr:
  "target_entry u rule f = Inr es \<Longrightarrow> (k, g) \<in> set es \<longleftrightarrow>
     g = f \<and> matches_target rule f
     \<and> match_key u (rf_values f) (rr_target_fields rule) (rr_value_normalizers rule) = Inr (Some k)"
  by (auto simp: target_entry_def result_simps split: if_splits option.splits)

definition target_with_key ::
    "('a relation_tables_scheme) \<Rightarrow> relation_rule \<Rightarrow> string list \<Rightarrow> relation_fact \<Rightarrow> bool" where
  "target_with_key u rule k f \<longleftrightarrow> matches_target rule f
     \<and> match_key u (rf_values f) (rr_target_fields rule) (rr_value_normalizers rule) = Inr (Some k)"

lemma target_entries_filter:
  assumes "mapM (target_entry u rule) facts = Inr es"
  shows "map snd (filter (\<lambda>e. fst e = k) (concat es)) = filter (target_with_key u rule k) facts"
proof -
  have "list_all2 (\<lambda>f e. target_entry u rule f = Inr e) facts es"
    using assms by (simp add: mapM_eq_Inr)
  then show ?thesis
  proof (induction rule: list_all2_induct)
    case (Cons f facts e es)
    have "map snd (filter (\<lambda>e. fst e = k) e) = (if target_with_key u rule k f then [f] else [])"
      using Cons.hyps(1)
      by (auto simp: target_entry_def target_with_key_def result_simps split: if_splits option.splits)
    with Cons.IH show ?case by simp
  qed simp
qed

lemma target_index_at:
  assumes "target_index u rule facts = Inr targets"
  shows "map snd (case map_of targets k of None \<Rightarrow> [] | Some es \<Rightarrow> es)
    = filter (target_with_key u rule k) facts"
proof -
  obtain es where "mapM (target_entry u rule) facts = Inr es" "targets = group_by fst (concat es)"
    using assms by (auto simp: target_index_def result_simps)
  then show ?thesis using target_entries_filter[of u rule facts es k] by (auto simp: map_of_group_by)
qed

text \<open>A relation is never a guess: it joins a source fact with the only target fact of its rule
  that has the same normalised key, and never a fact with itself.\<close>

theorem relations_are_unique_joins:
  assumes "plan_relations u rules facts = Inr plan" and "r \<in> set (rp_relations plan)"
  shows "\<exists>rule\<in>set rules. \<exists>f\<in>set facts. \<exists>g k.
    pr_rule_id r = rr_rule_id rule \<and> pr_source_node_id r = rf_node_id f
    \<and> pr_target_node_id r = rf_node_id g \<and> rf_node_id g \<noteq> rf_node_id f
    \<and> matches_source rule f
    \<and> match_key u (rf_values f) (rr_source_fields rule) (rr_value_normalizers rule) = Inr (Some k)
    \<and> filter (target_with_key u rule k) facts = [g]"
proof -
  obtain outs where outs: "mapM (plan_rule u facts) rules = Inr outs"
    "r \<in> set (concat (map fst outs))"
    using assms by (auto simp: plan_relations_def rbind_eq_Inr)
  then obtain rule rs us where rule: "rule \<in> set rules" "plan_rule u facts rule = Inr (rs, us)" "r \<in> set rs"
    using mapM_set[OF outs(1)] by fastforce
  then obtain targets os where t: "target_index u rule facts = Inr targets"
    "mapM (resolve_source u rule targets) facts = Inr os" "r \<in> set (concat (map fst os))"
    by (auto simp: plan_rule_def result_simps)
  then obtain f rs' us' where f: "f \<in> set facts" "resolve_source u rule targets f = Inr (rs', us')" "r \<in> set rs'"
    using mapM_set[OF t(2)] by fastforce
  then have src: "matches_source rule f" by (auto simp: resolve_source_def split: if_splits)
  then obtain k where k: "match_key u (rf_values f) (rr_source_fields rule) (rr_value_normalizers rule) = Inr (Some k)"
    "r \<in> set (fst (resolve_candidates rule f (match_digest k)
       (sort_key rf_node_id (filter (target_with_key u rule k) facts))))"
    using f(2,3) unfolding resolve_source_def target_index_at[OF t(1)]
    by (auto simp: rbind_eq_Inr split: option.splits)
  then obtain g where g: "sort_key rf_node_id (filter (target_with_key u rule k) facts) = [g]"
    "rf_node_id g \<noteq> rf_node_id f" "pr_rule_id r = rr_rule_id rule"
    "pr_source_node_id r = rf_node_id f" "pr_target_node_id r = rf_node_id g"
    using resolve_candidates_relation by blast
  have "mset (filter (target_with_key u rule k) facts) = {#g#}"
    using arg_cong[OF g(1), of mset] by simp
  then have "filter (target_with_key u rule k) facts = [g]" by (simp del: mset_filter)
  with rule(1) f(1) src k(1) g show ?thesis by blast
qed


section \<open>A worked plan\<close>

definition demo_tables :: relation_tables where
  "demo_tables = \<lparr>nfkc = \<lambda>s. s, casefold = py_lower, upper = \<lambda>s. s, lower = py_lower,
     float_text = \<lambda>s. Inl (ValueError ''could not convert string to float''),
     check_netloc = \<lambda>s. Inr ()\<rparr>"

definition demo_rule :: relation_rule where
  "demo_rule = \<lparr>rr_rule_id = ''R1'', rr_relation_label = ''calls'',
     rr_source_document_types = [''screen''], rr_source_fact_types = [''Event''],
     rr_source_fields = [''api''], rr_target_document_types = [''api''],
     rr_target_fact_types = [''Api''], rr_target_fields = [''path''],
     rr_value_normalizers = [URL_PATH]\<rparr>"

definition demo_event :: relation_fact where
  "demo_event = \<lparr>rf_node_id = ''n1'', rf_document_id = ''d1'', rf_document_type = ''screen'',
     rf_fact_type = ''Event'', rf_values = [(''api'', ''https://host/orders/?q=1#top'')]\<rparr>"

definition demo_api :: relation_fact where
  "demo_api = \<lparr>rf_node_id = ''n2'', rf_document_id = ''d2'', rf_document_type = ''api'',
     rf_fact_type = ''Api'', rf_values = [(''path'', ''orders'')]\<rparr>"

definition demo_relation :: planned_relation where
  "demo_relation = \<lparr>pr_rule_id = ''R1'', pr_relation_label = ''calls'',
     pr_source_node_id = ''n1'', pr_target_node_id = ''n2'',
     pr_match_key_digest = match_digest [''/orders'']\<rparr>"

lemma demo_keys:
  "match_key demo_tables (rf_values demo_event) (rr_source_fields demo_rule)
     (rr_value_normalizers demo_rule) = Inr (Some [''/orders''])"
  "target_index demo_tables demo_rule [demo_event, demo_api]
     = Inr [([''/orders''], [([''/orders''], demo_api)])]"
  "matches_source demo_rule demo_event" "\<not> matches_source demo_rule demo_api"
  by code_simp+

lemma demo_plan:
  "plan_relations demo_tables [demo_rule] [demo_event, demo_api]
     = Inr \<lparr>rp_relations = [demo_relation], rp_unresolved = []\<rparr>"
  by (simp add: plan_relations_def plan_rule_def resolve_source_def demo_keys resolve_candidates_def
      demo_relation_def) (simp add: demo_rule_def demo_event_def demo_api_def)

theorem relation_ledger_complete_witness:
  "mset (source_anchors [demo_rule] [demo_event, demo_api]) = {#(''R1'', ''n1'')#}"
  using relation_ledger_complete[OF demo_plan] by (simp add: relation_anchor_def demo_relation_def)

theorem relations_are_unique_joins_witness:
  "\<exists>rule g k. filter (target_with_key demo_tables rule k) [demo_event, demo_api] = [g]"
proof -
  have "demo_relation \<in> set (rp_relations \<lparr>rp_relations = [demo_relation], rp_unresolved = []\<rparr>)"
    by simp
  from relations_are_unique_joins[OF demo_plan this] show ?thesis by blast
qed

end
