(* ===== verification/RagQueries.thy ===== *)
theory RagQueries
  imports DocumentNodes
begin

text \<open>
  Retrieval: the three queries of a change (\<open>domain/rag_query_plan.py\<close>) and the embedding inputs of
  the slices (\<open>domain/rag.py\<close>).
\<close>

section \<open>Planned queries\<close>

datatype query_purpose = BUSINESS_BEHAVIOR | PRECISE_ANCHOR | ACCEPTANCE_CRITERIA

definition all_purposes :: "query_purpose list" where
  "all_purposes = [BUSINESS_BEHAVIOR, PRECISE_ANCHOR, ACCEPTANCE_CRITERIA]"

fun purpose_value :: "query_purpose \<Rightarrow> string" where
  "purpose_value BUSINESS_BEHAVIOR = ''business_behavior''"
| "purpose_value PRECISE_ANCHOR = ''precise_anchor''"
| "purpose_value ACCEPTANCE_CRITERIA = ''acceptance_criteria''"

record planned_query =
  pq_query_id :: string
  pq_change_id :: string
  pq_purpose :: query_purpose
  pq_text :: string

definition check_planned_query :: "planned_query \<Rightarrow> planned_query result" where
  "check_planned_query q =
    (if blank (pq_query_id q) \<or> blank (pq_change_id q) \<or> blank (pq_text q) then
       Inl (ValueError ''RAG planned query fields must not be blank'')
     else Inr q)"

record query_plan =
  qp_planner_version :: string
  qp_change_id :: string
  qp_queries :: "planned_query list"

definition check_query_plan :: "query_plan \<Rightarrow> query_plan result" where
  "check_query_plan p =
    (if blank (qp_planner_version p) \<or> blank (qp_change_id p) then
       Inl (ValueError ''RAG Query Plan identity must not be blank'')
     else if map pq_purpose (qp_queries p) \<noteq> all_purposes then
       Inl (ValueError ''RAG Query Plan must contain the three purposes in order'')
     else if list_ex (\<lambda>q. pq_change_id q \<noteq> qp_change_id p) (qp_queries p) then
       Inl (ValueError ''RAG Query Plan queries must belong to one change'')
     else Inr p)"

definition planner_version :: string where
  "planner_version = ''structured-change-query-v1''"

definition query_id_of :: "string \<Rightarrow> query_purpose \<Rightarrow> string" where
  "query_id_of change_id purpose =
    ''rag-query-'' @ take 24 (sha256_hex
      (join [CHR 0x00] [planner_version, change_id, purpose_value purpose]))"

definition change_type_values :: "(string \<times> change_type) list" where
  "change_type_values = [(''added'', ADDED), (''modified'', MODIFIED), (''deleted'', DELETED)]"

definition state_values :: "pyval \<Rightarrow> (string \<times> string) list result" where
  "state_values value =
    (case value of
       PNone \<Rightarrow> Inr []
     | PDict d \<Rightarrow>
         (case dget d ''values'' of
            PDict raw \<Rightarrow> Inr (py_dict (map (\<lambda>(name, v). (name, py_str v)) raw))
          | _ \<Rightarrow> Inl (ValueError ''StructuredChange fact state must contain values''))
     | _ \<Rightarrow> Inl (ValueError ''StructuredChange fact state must contain values''))"

definition display :: "string option \<Rightarrow> string" where
  "display v = (case v of None \<Rightarrow> ''<absent>'' | Some s \<Rightarrow> s)"

type_synonym value_map = "(string \<times> string) list"

definition business_query ::
    "string \<Rightarrow> string \<Rightarrow> change_type \<Rightarrow> string \<Rightarrow> value_map \<Rightarrow> value_map \<Rightarrow> string list \<Rightarrow> string" where
  "business_query domain_name fact_type change_type summary before after changed =
    (let transitions = join ''; '' (map (\<lambda>name. name @ '': '' @ display (map_of before name)
           @ '' -> '' @ display (map_of after name)) changed)
     in ''Business behavior change. Domain: '' @ domain_name @ ''. Fact type: '' @ fact_type
        @ ''. Operation: '' @ change_type_value change_type @ ''. Summary: '' @ summary
        @ ''. Transitions: '' @ transitions @ ''.'')"

definition anchor_query ::
    "string \<Rightarrow> string \<Rightarrow> value_map \<Rightarrow> value_map \<Rightarrow> string list \<Rightarrow> string" where
  "anchor_query stable_key fact_type before after changed =
    (let anchors = join ''; '' (map (\<lambda>name. name @ ''='' @ display
           (case map_of after name of None \<Rightarrow> map_of before name | Some v \<Rightarrow> Some v)) changed)
     in ''Exact canonical anchors. Stable key: '' @ stable_key @ ''. Fact type: '' @ fact_type
        @ ''. Changed fields: '' @ join '', '' changed @ ''. Target anchors: '' @ anchors @ ''.'')"

definition acceptance_query ::
    "string \<Rightarrow> change_type \<Rightarrow> value_map \<Rightarrow> value_map \<Rightarrow> string list \<Rightarrow> string" where
  "acceptance_query stable_key change_type before after changed =
    (let criterion =
           (if change_type = DELETED then stable_key @ '' must be absent''
            else stable_key @ '': '' @ join ''; '' (map (\<lambda>name.
              name @ '' must equal '' @ display (map_of after name)) changed));
         previous = join ''; '' (map (\<lambda>name. name @ '' was '' @ display (map_of before name))
           (filter (\<lambda>name. map_of before name \<noteq> None) changed));
         suffix = (if previous \<noteq> [] then '' Previous state: '' @ previous @ ''.'' else [])
     in ''Acceptance criteria. '' @ criterion @ ''.'' @ suffix)"

text \<open>\<open>str(change.get(k, ""))\<close>.\<close>

definition change_text :: "pydict \<Rightarrow> string \<Rightarrow> string" where
  "change_text change k = py_str (dget_or change k (PStr ''''))"

definition plan_queries :: "pydict \<Rightarrow> query_plan result" where
  "plan_queries change =
    (let change_id = change_text change ''change_id'';
         stable_key = change_text change ''stable_key'';
         fact_type = change_text change ''fact_type'';
         domain_name = change_text change ''domain'';
         summary = change_text change ''summary''
     in if list_ex blank [change_id, stable_key, fact_type, domain_name, summary] then
          Inl (ValueError ''StructuredChange query fields must not be blank'')
        else
          rbind (enum_of change_type_values (PStr (change_text change ''change_type'')))
            (\<lambda>change_type.
          rbind (state_values (dget change ''before'')) (\<lambda>before.
          rbind (state_values (dget change ''after'')) (\<lambda>after.
          let changed = changed_keys before after
          in if changed = [] then
               Inl (ValueError ''StructuredChange Query Plan requires changed fields'')
             else
               let query_text = (\<lambda>purpose. case purpose of
                     BUSINESS_BEHAVIOR \<Rightarrow>
                       business_query domain_name fact_type change_type summary before after changed
                   | PRECISE_ANCHOR \<Rightarrow> anchor_query stable_key fact_type before after changed
                   | ACCEPTANCE_CRITERIA \<Rightarrow>
                       acceptance_query stable_key change_type before after changed)
               in rbind (mapM (\<lambda>purpose. check_planned_query
                    \<lparr>pq_query_id = query_id_of change_id purpose, pq_change_id = change_id,
                     pq_purpose = purpose, pq_text = query_text purpose\<rparr>) all_purposes) (\<lambda>queries.
                  check_query_plan
                    \<lparr>qp_planner_version = planner_version, qp_change_id = change_id,
                     qp_queries = queries\<rparr>)))))"

section \<open>Embedding inputs\<close>

record embedding_input =
  ei_target_node_id :: string
  ei_text :: string
  ei_keyword_text :: string
  ei_input_digest :: string

definition build_embedding_input ::
    "document_node \<Rightarrow> string \<Rightarrow> string list \<Rightarrow> string \<Rightarrow> embedding_input result" where
  "build_embedding_input node document_type relation_labels preprocessing_version =
    (if \<not> dn_index_eligible node then
       Inl (ValueError ''Only index-eligible Document Nodes can produce embedding input'')
     else if blank document_type \<or> blank preprocessing_version then
       Inl (ValueError ''Embedding input profile fields must not be blank'')
     else if list_ex blank relation_labels then
       Inl (ValueError ''Embedding relation labels must not be blank'')
     else
       let labels = sorted_set relation_labels;
           body = json_dumps (PDict
             [(''business_keys'', PStrs (dn_business_keys node)),
              (''document_type'', PStr document_type),
              (''heading_path'', PStrs (dn_heading_path node)),
              (''relation_labels'', PStrs labels),
              (''section_summary'', PStr (dn_summary node)),
              (''slice_content'', PStr (dn_content node))])
       in Inr \<lparr>ei_target_node_id = dn_node_id node, ei_text = body,
               ei_keyword_text = join [CHR 0x0A] ([document_type] @ dn_heading_path node
                 @ dn_business_keys node @ [dn_summary node, dn_content node] @ labels),
               ei_input_digest = sha256_hex (preprocessing_version @ [CHR 0x00] @ body)\<rparr>)"

section \<open>Search candidates\<close>

datatype search_channel = VECTOR | KEYWORD

record search_candidate =
  sc_target_type :: string
  sc_target_id :: string
  sc_score :: rat
  sc_channels :: "search_channel list"
  sc_source_query_id :: string

definition check_search_candidate :: "search_candidate \<Rightarrow> search_candidate result" where
  "check_search_candidate c =
    (if list_ex blank [sc_target_type c, sc_target_id c, sc_source_query_id c] then
       Inl (ValueError ''Search candidate identity fields must not be blank'')
     else if \<not> (0 \<le> sc_score c \<and> sc_score c \<le> 1) then
       Inl (ValueError ''Search candidate score must be between 0 and 1'')
     else if sc_channels c = [] \<or> \<not> distinct (sc_channels c) then
       Inl (ValueError ''Search candidate channels must be non-empty and unique'')
     else Inr c)"

section \<open>Every change of a difference can be queried\<close>

lemma text_pairs [simp]: "(\<lambda>(k, v). (k, py_str v)) \<circ> (\<lambda>(k, v). (k, PStr v)) = id"
  by (auto simp: fun_eq_iff)

lemma state_values_artifact:
  "state_values (case s of None \<Rightarrow> PNone | Some x \<Rightarrow> fact_state_artifact x)
     = Inr (py_dict (case s of None \<Rightarrow> [] | Some x \<Rightarrow> fs_values x))"
  by (cases s) (simp_all add: state_values_def fact_state_artifact_def dget_def py_dict_def)

lemma artifact_fields:
  "change_text (as_dict (change_artifact c)) ''change_id'' = ch_change_id c"
  "change_text (as_dict (change_artifact c)) ''stable_key'' = ch_stable_key c"
  "change_text (as_dict (change_artifact c)) ''fact_type'' = ch_fact_type c"
  "change_text (as_dict (change_artifact c)) ''domain'' = ch_domain c"
  "change_text (as_dict (change_artifact c)) ''summary'' = ch_summary c"
  "change_text (as_dict (change_artifact c)) ''change_type'' = change_type_value (ch_change_type c)"
  "dget (as_dict (change_artifact c)) ''before''
     = (case ch_before c of None \<Rightarrow> PNone | Some x \<Rightarrow> fact_state_artifact x)"
  "dget (as_dict (change_artifact c)) ''after''
     = (case ch_after c of None \<Rightarrow> PNone | Some x \<Rightarrow> fact_state_artifact x)"
  by (simp_all add: change_artifact_def change_text_def dget_or_def dget_def)

lemma change_type_roundtrip:
  "enum_of change_type_values (PStr (change_type_value ty)) = Inr ty"
  by (cases ty) (simp_all add: enum_of_def change_type_values_def)

lemma query_texts_not_blank:
  "\<not> blank (business_query d t ty s b a ch)" "\<not> blank (anchor_query k t b a ch)"
  "\<not> blank (acceptance_query k ty b a ch)" "\<not> blank (query_id_of cid p)" "\<not> blank planner_version"
  by (simp_all add: business_query_def anchor_query_def acceptance_query_def query_id_of_def
      planner_version_def Let_def)

lemma plan_queries_total:
  assumes "list_all (\<lambda>s. \<not> blank s) [ch_change_id c, ch_stable_key c, ch_fact_type c, ch_domain c, ch_summary c]"
    and differ: "\<exists>k. map_of (rev (case ch_before c of None \<Rightarrow> [] | Some x \<Rightarrow> fs_values x)) k
      \<noteq> map_of (rev (case ch_after c of None \<Rightarrow> [] | Some x \<Rightarrow> fs_values x)) k"
  shows "\<exists>p. plan_queries (as_dict (change_artifact c)) = Inr p \<and> qp_change_id p = ch_change_id c
    \<and> map pq_purpose (qp_queries p) = all_purposes
    \<and> (\<forall>q\<in>set (qp_queries p). pq_change_id q = ch_change_id c)"
proof -
  let ?b = "py_dict (case ch_before c of None \<Rightarrow> [] | Some x \<Rightarrow> fs_values x)"
  let ?a = "py_dict (case ch_after c of None \<Rightarrow> [] | Some x \<Rightarrow> fs_values x)"
  have "set (changed_keys ?b ?a) \<noteq> {}" using differ by (simp add: map_of_py_dict)
  then have "changed_keys ?b ?a \<noteq> []" by (metis set_empty)
  then show ?thesis
    using assms(1)
    by (simp add: plan_queries_def artifact_fields change_type_roundtrip state_values_artifact
        all_purposes_def check_planned_query_def check_query_plan_def query_texts_not_blank Let_def)
qed


lemma diff_key_origin:
  "diff_key p s t d conf rs k = Inr cs \<Longrightarrow> c \<in> set cs \<Longrightarrow>
     \<exists>ty. build_change p (cs_snapshot_id s) (cs_snapshot_id t) d k ty (map_of (facts_by_key s) k)
       (map_of (facts_by_key t) k) conf rs = Inr c"
  by (auto simp: diff_key_def Let_def rbind_eq_Inr split: option.splits if_splits)

lemma diff_change_origin:
  assumes "diff_snapshots p s t d conf rs = Inr cs" "c \<in> set cs"
  shows "\<exists>k ty. build_change p (cs_snapshot_id s) (cs_snapshot_id t) d k ty (map_of (facts_by_key s) k)
       (map_of (facts_by_key t) k) conf rs = Inr c"
proof -
  obtain ks css where css: "mapM (diff_key p s t d conf rs) ks = Inr css" "cs = concat css"
    using assms(1) by (auto simp: diff_snapshots_def rbind_eq_Inr split: if_splits)
  then obtain ys where "ys \<in> set css" "c \<in> set ys" using assms(2) by auto
  then show ?thesis using mapM_set[OF css(1)] diff_key_origin by metis
qed

lemma built_change_strings:
  "build_change p sid tid d k ty before after conf rs = Inr c \<Longrightarrow>
     list_all (\<lambda>s. \<not> blank s) [ch_change_id c, ch_stable_key c, ch_fact_type c, ch_domain c, ch_summary c]"
proof -
  assume "build_change p sid tid d k ty before after conf rs = Inr c"
  then obtain c' where c: "check_structured_change c' = Inr c"
    unfolding build_change_def Let_def by (auto simp: rbind_eq_Inr split: option.splits)
  moreover from this have "c' = c" by (auto dest: check_structured_change_id)
  ultimately show ?thesis by (auto simp: check_structured_change_def split: if_splits)
qed

lemma state_values_of:
  assumes "fact_state_of f = Inr st" "\<And>i. f = Some i \<Longrightarrow> fact_ok (sf_fact i)"
  shows "map_of (rev (case st of None \<Rightarrow> [] | Some x \<Rightarrow> fs_values x))
    = (case f of None \<Rightarrow> Map.empty | Some i \<Rightarrow> map_of (cf_values (sf_fact i)))"
proof (cases f)
  case (Some i)
  then have "distinct (map fst (sort_key fst (cf_values (sf_fact i))))"
    using assms(2) by (auto simp: fact_ok_def distinct_map)
  then show ?thesis
    using assms Some
    by (auto simp: fact_state_of_def new_fact_state_def rbind_eq_Inr map_of_rev_distinct fact_ok_def
        map_of_sort_key split: if_splits)
qed (use assms(1) in simp)

text \<open>Everything the difference reports can be retrieved for: each change of two well-formed
  snapshots has a query plan with the three queries in order, all of them for that change.\<close>

theorem changes_have_query_plans:
  assumes "snapshot_ok source" "snapshot_ok target"
    and "\<forall>i\<in>set (cs_facts source) \<union> set (cs_facts target). cf_values (sf_fact i) \<noteq> []"
    and "diff_snapshots project source target domain confidence review = Inr changes"
    and "c \<in> set changes"
  shows "\<exists>p. plan_queries (as_dict (change_artifact c)) = Inr p \<and> qp_change_id p = ch_change_id c
    \<and> map pq_purpose (qp_queries p) = all_purposes
    \<and> (\<forall>q\<in>set (qp_queries p). pq_change_id q = ch_change_id c)"
proof -
  obtain k ty where b: "build_change project (cs_snapshot_id source) (cs_snapshot_id target) domain k ty
      (map_of (facts_by_key source) k) (map_of (facts_by_key target) k) confidence review = Inr c"
    using diff_change_origin[OF assms(4,5)] by blast
  note parts = build_change_Inr[OF b]
  have key: "ch_stable_key c = k" using parts by blast
  have "k \<in> set (map ch_stable_key changes)" using assms(5) key by auto
  then have ne: "fact_view source k \<noteq> fact_view target k"
    using diff_entries[OF assms(4,1,2)] by auto
  show ?thesis
  proof (rule plan_queries_total[OF built_change_strings[OF b]])
    have before: "map_of (rev (case ch_before c of None \<Rightarrow> [] | Some x \<Rightarrow> fs_values x))
        = (case map_of (facts_by_key source) k of None \<Rightarrow> Map.empty | Some i \<Rightarrow> map_of (cf_values (sf_fact i)))"
      using parts by_key_ok[OF assms(1)] by (intro state_values_of) auto
    have after: "map_of (rev (case ch_after c of None \<Rightarrow> [] | Some x \<Rightarrow> fs_values x))
        = (case map_of (facts_by_key target) k of None \<Rightarrow> Map.empty | Some i \<Rightarrow> map_of (cf_values (sf_fact i)))"
      using parts by_key_ok[OF assms(2)] by (intro state_values_of) auto
    have some: "map_of (cf_values (sf_fact i)) \<noteq> Map.empty"
      if "map_of (facts_by_key source) k = Some i \<or> map_of (facts_by_key target) k = Some i" for i
      using that assms(3) by_key_ok[OF assms(1)] by_key_ok[OF assms(2)] by auto
    have types: "cf_fact_type (sf_fact i) = cf_fact_type (sf_fact j)"
      if "map_of (facts_by_key source) k = Some i" "map_of (facts_by_key target) k = Some j" for i j
    proof -
      have "\<exists>changes. diff_snapshots project source target domain confidence review = Inr changes"
        using assms(4) by (rule exI)
      then have "fst (content_of i) = fst (content_of j)"
        using that unfolding diff_total[OF assms(1,2)]
        by (elim conjE allE[of _ k] allE[of _ "content_of i"] allE[of _ "content_of j"]) (simp add: fact_view_def)
      then show ?thesis by (simp add: content_of_def)
    qed
    have "(case map_of (facts_by_key source) k of None \<Rightarrow> Map.empty | Some i \<Rightarrow> map_of (cf_values (sf_fact i)))
      \<noteq> (case map_of (facts_by_key target) k of None \<Rightarrow> Map.empty | Some i \<Rightarrow> map_of (cf_values (sf_fact i)))"
      using ne some types by (auto simp: fact_view_def content_of_def split: option.splits)
    then show "\<exists>k. map_of (rev (case ch_before c of None \<Rightarrow> [] | Some x \<Rightarrow> fs_values x)) k
      \<noteq> map_of (rev (case ch_after c of None \<Rightarrow> [] | Some x \<Rightarrow> fs_values x)) k"
      unfolding before after by (auto simp: fun_eq_iff)
  qed
qed


section \<open>Embedding inputs\<close>

lemma any_blank_cong: "set xs = set ys \<Longrightarrow> list_ex blank xs = list_ex blank ys"
  by (simp add: list_ex_iff)

text \<open>The embedding input of a node, its text and its digest included, depends only on the set of
  its relation labels: neither their order nor repetitions matter. It exists exactly for a slice that
  is eligible for the index with a document type, a preprocessing version and labels that are not blank.\<close>

theorem embedding_input_canonical:
  assumes "set labels = set labels'"
  shows "build_embedding_input node document_type labels version
      = build_embedding_input node document_type labels' version
    \<and> ((\<exists>e. build_embedding_input node document_type labels version = Inr e) \<longleftrightarrow>
        dn_index_eligible node \<and> \<not> blank document_type \<and> \<not> blank version \<and> \<not> list_ex blank labels')"
  using sorted_set_cong[OF assms] any_blank_cong[OF assms]
  by (simp add: build_embedding_input_def Let_def)

definition demo_slice :: document_node where
  "demo_slice =
    \<lparr>dn_node_id = ''n1'', dn_snapshot_id = ''s1'', dn_document_version_id = ''v1'',
     dn_parent_node_id = Some ''n0'', dn_node_type = SLICE, dn_ordinal = 0,
     dn_heading_path = [''Login'', ''Api''], dn_business_keys = [''api:a''], dn_summary = ''Api api:a'',
     dn_content = ''name: x'', dn_source_refs = [''S!A1''], dn_index_eligible = True\<rparr>"

theorem embedding_input_canonical_witness:
  "build_embedding_input demo_slice ''api'' [''calls'', ''uses'', ''calls''] ''v1''
     = build_embedding_input demo_slice ''api'' [''uses'', ''calls''] ''v1''
   \<and> (\<exists>e. build_embedding_input demo_slice ''api'' [''calls'', ''uses'', ''calls''] ''v1'' = Inr e)"
  using embedding_input_canonical[of "[''calls'', ''uses'', ''calls'']" "[''uses'', ''calls'']"
    demo_slice "''api''" "''v1''"]
  by (auto simp: demo_slice_def)

theorem changes_have_query_plans_witness:
  "\<exists>c\<in>set demo_changes. \<exists>p. plan_queries (as_dict (change_artifact c)) = Inr p
     \<and> map pq_purpose (qp_queries p) = all_purposes"
proof -
  have "''api:c'' \<in> ch_stable_key ` set demo_changes"
    using snapshots.keys_exact[of "''p''" "''d''" HIGH REVIEW_OPEN demo_source demo_target demo_changes]
      demo_diff demo_snapshots_ok
    by (simp add: diff_delta_Some fact_view_def demo_views)
  then obtain c where c: "c \<in> set demo_changes" by blast
  have "\<forall>i\<in>set (cs_facts demo_source) \<union> set (cs_facts demo_target). cf_values (sf_fact i) \<noteq> []"
    by (simp add: demo_source_def demo_target_def demo_fact_def)
  from changes_have_query_plans[OF demo_snapshots_ok this demo_diff c] c show ?thesis by blast
qed

end
