(* ===== verification/GitEvidence.thy ===== *)
theory GitEvidence
  imports PyBase
begin

text \<open>
  What Git says of a workspace (\<open>infrastructure/code_graph/git.py\<close>): the revision and the tracked paths
  a packet is bound to, and the changed paths and changed lines an edit result is judged by.  Running
  \<open>git\<close> is an argument: its output for a list of arguments, as bytes, or the error it ends with;
  \<open>resolve\<close> and \<open>is_dir\<close> are those of \<open>Path\<close>.  The digest of the changed contents, which reads the
  files, is not modelled.
\<close>

record git_tools =
  gt_run :: "string \<Rightarrow> string list \<Rightarrow> string result"
  gt_resolve :: "string \<Rightarrow> string result"
  gt_is_dir :: "string \<Rightarrow> bool"

text \<open>\<open>_run\<close> strips the output; \<open>splitlines\<close> of output whose lines end in a line feed.\<close>

definition run_git :: "git_tools \<Rightarrow> string \<Rightarrow> string list \<Rightarrow> string result" where
  "run_git t ws args = rbind (gt_run t ws args) (\<lambda>out. Inr (py_strip out))"

definition lines_of_output :: "string \<Rightarrow> string list" where
  "lines_of_output s =
    (let ls = split_on (CHR 0x0A) s in if last ls = [] then butlast ls else ls)"

definition parse_nul_paths :: "string \<Rightarrow> string list" where
  "parse_nul_paths value = filter (\<lambda>item. item \<noteq> []) (split_on (CHR 0x00) value)"

record git_path_change =
  gc_status :: string
  gc_paths :: "string list"

fun name_status_changes :: "string list \<Rightarrow> git_path_change list result" where
  "name_status_changes [] = Inr []"
| "name_status_changes (st # items) =
    (let n = (if starts_with ''R'' st \<or> starts_with ''C'' st then 2 else 1)
     in if length items < n then Inl (ValueError ''Git name-status output is incomplete'')
        else rbind (name_status_changes (drop n items)) (\<lambda>changes.
          Inr (\<lparr>gc_status = st, gc_paths = take n items\<rparr> # changes)))"

definition parse_name_status :: "string \<Rightarrow> git_path_change list result" where
  "parse_name_status value = name_status_changes (parse_nul_paths value)"

definition changed_paths_of :: "git_path_change list \<Rightarrow> string list" where
  "changed_paths_of changes = sorted_set (concat (map gc_paths changes))"

section \<open>Changed lines of a patch\<close>

text \<open>A run of digits at the head of a text: its value and the rest.\<close>

definition digit_char :: "char \<Rightarrow> bool" where
  "digit_char c \<longleftrightarrow> 48 \<le> (of_char c :: nat) \<and> (of_char c :: nat) \<le> 57"

definition take_number :: "string \<Rightarrow> (nat \<times> string) option" where
  "take_number s =
    (let ds = takeWhile digit_char s
     in if ds = [] then None else Some (digits_value ds, dropWhile digit_char s))"

definition after_prefix :: "string \<Rightarrow> string \<Rightarrow> string option" where
  "after_prefix p s = (if starts_with p s then Some (drop (length p) s) else None)"

text \<open>\<open>\d+(?:,\d+)?\<close>: the number and the optional count after a comma.\<close>

definition take_range :: "string \<Rightarrow> (nat \<times> nat option \<times> string) option" where
  "take_range s =
    (case take_number s of
       None \<Rightarrow> None
     | Some (n, rest) \<Rightarrow>
        (case after_prefix '','' rest of
           None \<Rightarrow> Some (n, None, rest)
         | Some rest' \<Rightarrow>
            (case take_number rest' of
               None \<Rightarrow> Some (n, None, rest)
             | Some (k, rest'') \<Rightarrow> Some (n, Some k, rest''))))"

text \<open>\<open>^@@ -\d+(?:,\d+)? \+(\d+)(?:,(\d+))? @@\<close> at the start of a line: the lines of the new file.\<close>

definition hunk_lines :: "string \<Rightarrow> nat list" where
  "hunk_lines line =
    (case Option.bind (after_prefix ''@@ -'' line) take_range of
       None \<Rightarrow> []
     | Some (_, _, rest) \<Rightarrow>
        (case Option.bind (after_prefix '' +'' rest) take_range of
           None \<Rightarrow> []
         | Some (start, count, rest') \<Rightarrow>
             if starts_with '' @@'' rest' then [start..<start + (case count of None \<Rightarrow> 1 | Some k \<Rightarrow> k)]
             else []))"

definition patch_lines :: "string \<Rightarrow> int list" where
  "patch_lines patch = sorted_set (map int (concat (map hunk_lines (split_on (CHR 0x0A) patch))))"

section \<open>Inspecting a workspace\<close>

definition repository_root :: "git_tools \<Rightarrow> string \<Rightarrow> string result" where
  "repository_root t ws =
    rbind (gt_resolve t ws) (\<lambda>repo.
    if \<not> gt_is_dir t repo then Inl (ValueError ''workspace_root must be a directory'')
    else rbind (rbind (run_git t repo [''rev-parse'', ''--show-toplevel'']) (gt_resolve t)) (\<lambda>actual.
      if actual \<noteq> repo then Inl (ValueError ''workspace_root must be the Git repository root'') else Inr repo))"

text \<open>A configured identity; \<open>casefold\<close> of the ASCII key of a Git option.\<close>

definition configured_identity :: "string \<Rightarrow> string option" where
  "configured_identity config =
    (case find (\<lambda>entry. CHR 0x0A \<in> set entry
        \<and> py_lower (takeWhile (\<lambda>c. c \<noteq> CHR 0x0A) entry) = ''operamind.repositoryidentity''
        \<and> py_strip (drop 1 (dropWhile (\<lambda>c. c \<noteq> CHR 0x0A) entry)) \<noteq> []) (split_on (CHR 0x00) config) of
       None \<Rightarrow> None
     | Some entry \<Rightarrow> Some (py_strip (drop 1 (dropWhile (\<lambda>c. c \<noteq> CHR 0x0A) entry))))"

definition repository_identity :: "git_tools \<Rightarrow> string \<Rightarrow> string result" where
  "repository_identity t repo =
    rbind (run_git t repo [''config'', ''--local'', ''--list'', ''-z'']) (\<lambda>config.
    case configured_identity config of
      Some identity \<Rightarrow> Inr identity
    | None \<Rightarrow>
        rbind (run_git t repo [''remote'']) (\<lambda>remotes.
        if ''origin'' \<notin> set (lines_of_output remotes) then
          Inl (ValueError ''Git Repository identity is not configured'')
        else
          rbind (run_git t repo [''remote'', ''get-url'', ''origin'']) (\<lambda>url.
          if blank url then Inl (ValueError ''Git origin URL must not be blank'') else Inr url)))"

record git_revision_evidence =
  gi_workspace_root :: string
  gi_head_sha :: string
  gi_remote_url :: string
  gi_tracked_paths :: "string list"

definition inspect_workspace :: "git_tools \<Rightarrow> string \<Rightarrow> git_revision_evidence result" where
  "inspect_workspace t ws =
    rbind (repository_root t ws) (\<lambda>repo.
    rbind (run_git t repo [''rev-parse'', ''--verify'', ''HEAD'']) (\<lambda>head_sha.
    if blank head_sha then Inl (ValueError ''Git HEAD must not be blank'')
    else
      rbind (run_git t repo [''status'', ''--porcelain=v1'', ''--untracked-files=all'']) (\<lambda>dirty.
      if dirty \<noteq> [] then Inl (ValueError ''Code Graph scan requires a clean Git worktree'')
      else
        rbind (repository_identity t repo) (\<lambda>url.
        if blank url then Inl (ValueError ''Git origin URL must not be blank'')
        else
          rbind (gt_run t repo [''ls-tree'', ''-r'', ''--name-only'', ''-z'', ''HEAD'']) (\<lambda>tracked.
          if parse_nul_paths tracked = [] then Inl (ValueError ''Git revision contains no tracked files'')
          else Inr \<lparr>gi_workspace_root = repo, gi_head_sha = head_sha, gi_remote_url = url,
                    gi_tracked_paths = parse_nul_paths tracked\<rparr>)))))"

record git_diff_evidence =
  gd_workspace_root :: string
  gd_base_sha :: string
  gd_result_sha :: "string option"
  gd_remote_url :: string
  gd_changes :: "git_path_change list"
  gd_changed_lines :: "(string \<times> int list) list"

definition gd_changed_paths :: "git_diff_evidence \<Rightarrow> string list" where
  "gd_changed_paths e = changed_paths_of (gd_changes e)"

definition git_identity :: "git_tools \<Rightarrow> string \<Rightarrow> (string \<times> string \<times> string) result" where
  "git_identity t ws =
    rbind (repository_root t ws) (\<lambda>repo.
    rbind (run_git t repo [''rev-parse'', ''--verify'', ''HEAD'']) (\<lambda>head_sha.
    rbind (repository_identity t repo) (\<lambda>url. Inr (repo, head_sha, url))))"

definition changed_lines_between ::
    "git_tools \<Rightarrow> string \<Rightarrow> string \<Rightarrow> string option \<Rightarrow> string list \<Rightarrow> (string \<times> int list) list result" where
  "changed_lines_between t repo base result' paths =
    mapM (\<lambda>path.
      rbind (gt_run t repo ([''diff'', ''--unified=0'', ''--no-color'', ''--no-ext-diff'', base]
          @ (case result' of None \<Rightarrow> [] | Some r \<Rightarrow> [r]) @ [''--'', path])) (\<lambda>patch.
        Inr (path, patch_lines patch))) paths"

definition inspect_worktree :: "git_tools \<Rightarrow> string \<Rightarrow> string \<Rightarrow> git_diff_evidence result" where
  "inspect_worktree t ws base_sha =
    rbind (git_identity t ws) (\<lambda>(repo, head_sha, url).
    if head_sha \<noteq> base_sha then
      Inl (ValueError ''Working tree HEAD no longer matches Edit Packet Base Revision'')
    else
      rbind (rbind (gt_run t repo [''diff'', ''--name-status'', ''-z'', ''HEAD'']) parse_name_status) (\<lambda>tracked.
      rbind (gt_run t repo [''ls-files'', ''--others'', ''--exclude-standard'', ''-z'']) (\<lambda>others.
      let changes = tracked @ map (\<lambda>path. \<lparr>gc_status = ''A'', gc_paths = [path]\<rparr>) (parse_nul_paths others)
      in rbind (changed_lines_between t repo ''HEAD'' None (changed_paths_of changes)) (\<lambda>changed_lines.
         Inr \<lparr>gd_workspace_root = repo, gd_base_sha = base_sha, gd_result_sha = None, gd_remote_url = url,
              gd_changes = changes, gd_changed_lines = changed_lines\<rparr>))))"

definition inspect_committed :: "git_tools \<Rightarrow> string \<Rightarrow> string \<Rightarrow> bool \<Rightarrow> git_diff_evidence result" where
  "inspect_committed t ws base_sha allow_unchanged_head =
    rbind (git_identity t ws) (\<lambda>(repo, head_sha, url).
    if head_sha = base_sha \<and> \<not> allow_unchanged_head then
      Inl (ValueError ''Committed Edit Result requires a new HEAD'')
    else
      rbind (run_git t repo [''status'', ''--porcelain=v1'', ''--untracked-files=all'']) (\<lambda>dirty.
      if dirty \<noteq> [] then Inl (ValueError ''Committed Edit Result requires a clean Git worktree'')
      else if head_sha = base_sha then
        Inr \<lparr>gd_workspace_root = repo, gd_base_sha = base_sha, gd_result_sha = Some head_sha,
             gd_remote_url = url, gd_changes = [], gd_changed_lines = []\<rparr>
      else
        rbind (run_git t repo [''merge-base'', ''--is-ancestor'', base_sha, head_sha]) (\<lambda>_.
        rbind (rbind (gt_run t repo [''diff'', ''--name-status'', ''-z'', ''--find-renames'', base_sha, head_sha])
          parse_name_status) (\<lambda>changes.
        rbind (changed_lines_between t repo base_sha (Some head_sha) (changed_paths_of changes)) (\<lambda>changed_lines.
          Inr \<lparr>gd_workspace_root = repo, gd_base_sha = base_sha, gd_result_sha = Some head_sha,
               gd_remote_url = url, gd_changes = changes, gd_changed_lines = changed_lines\<rparr>)))))"

section \<open>Reading back what Git prints\<close>

definition nul_terminated :: "string list \<Rightarrow> string" where
  "nul_terminated items = concat (map (\<lambda>f. f @ [CHR 0x00]) items)"

lemma split_on_append:
  "x \<notin> set f \<Longrightarrow> split_on x (f @ x # s) = f # split_on x s"
  by (induction f) auto

lemma parse_nul_terminated:
  "(\<And>f. f \<in> set items \<Longrightarrow> f \<noteq> [] \<and> CHR 0x00 \<notin> set f) \<Longrightarrow> parse_nul_paths (nul_terminated items) = items"
  by (induction items) (auto simp: parse_nul_paths_def nul_terminated_def split_on_append)

definition change_fields :: "git_path_change \<Rightarrow> string list" where
  "change_fields c = gc_status c # gc_paths c"

definition change_shown :: "git_path_change \<Rightarrow> bool" where
  "change_shown c \<longleftrightarrow> (\<forall>f\<in>set (change_fields c). f \<noteq> [] \<and> CHR 0x00 \<notin> set f)
    \<and> length (gc_paths c) = (if starts_with ''R'' (gc_status c) \<or> starts_with ''C'' (gc_status c) then 2 else 1)"

lemma name_status_changes_fields:
  "(\<And>c. c \<in> set changes \<Longrightarrow> change_shown c) \<Longrightarrow> name_status_changes (concat (map change_fields changes)) = Inr changes"
proof (induction changes)
  case (Cons c changes)
  then have "name_status_changes (concat (map change_fields changes)) = Inr changes" "change_shown c" by simp_all
  then show ?case
    by (simp add: change_shown_def change_fields_def[of c] Let_def split: if_splits)
qed simp

lemma name_status_round_trip:
  assumes "\<And>c. c \<in> set changes \<Longrightarrow> change_shown c"
  shows "parse_name_status (nul_terminated (concat (map change_fields changes))) = Inr changes"
proof -
  have "parse_nul_paths (nul_terminated (concat (map change_fields changes))) = concat (map change_fields changes)"
    using assms by (intro parse_nul_terminated) (auto simp: change_shown_def)
  then show ?thesis using name_status_changes_fields[OF assms] by (simp add: parse_name_status_def)
qed

text \<open>A hunk header as \<open>git diff --unified=0\<close> prints it, with what it prints after the header.\<close>

definition hunk_range :: "nat \<Rightarrow> nat option \<Rightarrow> string" where
  "hunk_range n k = show_nat n @ (case k of None \<Rightarrow> [] | Some j \<Rightarrow> '','' @ show_nat j)"

definition hunk_header :: "nat \<Rightarrow> nat option \<Rightarrow> nat \<Rightarrow> nat option \<Rightarrow> string \<Rightarrow> string" where
  "hunk_header a b start count rest =
    ''@@ -'' @ hunk_range a b @ '' +'' @ hunk_range start count @ '' @@'' @ rest"

lemma show_nat_digits: "c \<in> set (show_nat n) \<Longrightarrow> digit_char c"
  by (induction n rule: show_nat.induct) (subst (asm) (2) show_nat.simps, auto simp: digit_char_def split: if_splits)

lemma digits_value_append: "digits_value (ds @ [c]) = 10 * digits_value ds + (of_char c - 48)"
  by (simp add: digits_value_def)

lemma digits_value_show_nat [simp]: "digits_value (show_nat n) = n"
proof (induction n rule: show_nat.induct)
  case (1 n)
  then show ?case
    by (subst show_nat.simps) (auto simp: digits_value_append, simp add: digits_value_def)
qed

lemma show_nat_nonempty [simp]: "show_nat n \<noteq> []"
  by (subst show_nat.simps) simp

lemma take_number_show_nat:
  assumes "s = [] \<or> \<not> digit_char (hd s)"
  shows "take_number (show_nat n @ s) = Some (n, s)"
proof -
  have "\<forall>c\<in>set (show_nat n). digit_char c" using show_nat_digits by blast
  then have "takeWhile digit_char (show_nat n @ s) = show_nat n \<and> dropWhile digit_char (show_nat n @ s) = s"
    using assms by (cases s) (auto simp: takeWhile_append dropWhile_append)
  then show ?thesis by (simp add: take_number_def)
qed

lemma take_range_shown:
  assumes "s \<noteq> []" "\<not> digit_char (hd s)" "hd s \<noteq> CHR '',''"
  shows "take_range (hunk_range n k @ s) = Some (n, k, s)"
proof -
  have "take_number (show_nat j @ s) = Some (j, s)" for j using assms(2) by (simp add: take_number_show_nat)
  moreover have "take_number (show_nat n @ '','' @ t) = Some (n, '','' @ t)" for t
    by (intro take_number_show_nat) (simp add: digit_char_def)
  ultimately show ?thesis
    using assms by (cases k; cases s) (auto simp: take_range_def hunk_range_def after_prefix_def starts_with_def)
qed

lemma hunk_lines_header:
  "hunk_lines (hunk_header a b start count rest) = [start..<start + (case count of None \<Rightarrow> 1 | Some k \<Rightarrow> k)]"
proof -
  have "take_range (hunk_range n k @ CHR '' '' # s) = Some (n, k, CHR '' '' # s)" for n k s
    by (rule take_range_shown) (simp_all add: digit_char_def)
  then show ?thesis
    by (simp add: hunk_lines_def hunk_header_def after_prefix_def starts_with_def)
qed

lemma split_on_no: "x \<notin> set s \<Longrightarrow> split_on x s = [s]"
  by (induction s) auto

lemma split_on_join: "ls \<noteq> [] \<Longrightarrow> (\<And>l. l \<in> set ls \<Longrightarrow> x \<notin> set l) \<Longrightarrow> split_on x (join [x] ls) = ls"
proof (induction "[x]" ls rule: join.induct)
  case (3 l l' ls)
  then show ?case by (simp add: split_on_append)
qed (auto simp: split_on_no)

text \<open>A patch: lines before the first hunk, then each hunk's header and body.\<close>

record hunk =
  hk_old_start :: nat
  hk_old_count :: "nat option"
  hk_start :: nat
  hk_count :: "nat option"
  hk_section :: string
  hk_body :: "string list"

definition hunk_text :: "hunk \<Rightarrow> string list" where
  "hunk_text h = hunk_header (hk_old_start h) (hk_old_count h) (hk_start h) (hk_count h) (hk_section h) # hk_body h"

definition hunk_range_new :: "hunk \<Rightarrow> nat list" where
  "hunk_range_new h = [hk_start h..<hk_start h + (case hk_count h of None \<Rightarrow> 1 | Some k \<Rightarrow> k)]"

definition patch_text :: "string list \<Rightarrow> hunk list \<Rightarrow> string" where
  "patch_text preamble hunks = join [CHR 0x0A] (preamble @ concat (map hunk_text hunks))"

definition no_header :: "string \<Rightarrow> bool" where
  "no_header l \<longleftrightarrow> CHR 0x0A \<notin> set l \<and> \<not> starts_with ''@@ -'' l"

lemma hunk_lines_no_header: "no_header l \<Longrightarrow> hunk_lines l = []"
  by (simp add: no_header_def hunk_lines_def after_prefix_def)

lemma show_nat_one_line: "CHR 0x0A \<notin> set (show_nat n)"
  using show_nat_digits[of "CHR 0x0A" n] by (auto simp: digit_char_def)

lemma hunk_header_one_line: "CHR 0x0A \<notin> set rest \<Longrightarrow> CHR 0x0A \<notin> set (hunk_header a b start count rest)"
  by (auto simp: hunk_header_def hunk_range_def show_nat_one_line split: option.splits)

lemma patch_lines_of_hunks:
  assumes "\<And>l. l \<in> set preamble \<Longrightarrow> no_header l" "hunks \<noteq> []"
    and "\<And>h. h \<in> set hunks \<Longrightarrow> CHR 0x0A \<notin> set (hk_section h) \<and> (\<forall>l\<in>set (hk_body h). no_header l)"
  shows "patch_lines (patch_text preamble hunks) = sorted_set (map int (concat (map hunk_range_new hunks)))"
proof -
  let ?ls = "preamble @ concat (map hunk_text hunks)"
  have "split_on (CHR 0x0A) (patch_text preamble hunks) = ?ls"
    unfolding patch_text_def
  proof (rule split_on_join)
    show "?ls \<noteq> []" using assms(2) by (cases hunks) (simp_all add: hunk_text_def)
    show "CHR 0x0A \<notin> set l" if "l \<in> set ?ls" for l
      using that assms(1,3) by (auto simp: hunk_text_def no_header_def hunk_header_one_line)
  qed
  moreover have "concat (map hunk_lines (hunk_text h)) = hunk_range_new h" if "h \<in> set hunks" for h
    using assms(3)[OF that] by (simp add: hunk_text_def hunk_lines_header hunk_range_new_def hunk_lines_no_header)
  then have "concat (map hunk_lines (concat (map hunk_text hunks))) = concat (map hunk_range_new hunks)"
    by (induction hunks) simp_all
  moreover have "concat (map hunk_lines preamble) = []" using assms(1) by (simp add: hunk_lines_no_header)
  ultimately show ?thesis by (simp only: patch_lines_def map_append concat_append append_Nil)
qed

text \<open>(C27) What Git prints is read back exactly: the name-status listing of any changes gives those changes,
  and the patch of a file with any hunks gives the lines of the new file its hunks add or modify, each
  once and in order, whatever the text of the patch says inside the hunks.\<close>

theorem git_output_read_back:
  assumes "\<And>c. c \<in> set changes \<Longrightarrow> change_shown c"
    and "\<And>l. l \<in> set preamble \<Longrightarrow> no_header l" "hunks \<noteq> []"
    and "\<And>h. h \<in> set hunks \<Longrightarrow> CHR 0x0A \<notin> set (hk_section h) \<and> (\<forall>l\<in>set (hk_body h). no_header l)"
  shows "parse_name_status (nul_terminated (concat (map change_fields changes))) = Inr changes
    \<and> patch_lines (patch_text preamble hunks) = sorted_set (map int (concat (map hunk_range_new hunks)))"
  using name_status_round_trip[OF assms(1)] patch_lines_of_hunks[OF assms(2-4)] by blast

definition demo_git_changes :: "git_path_change list" where
  "demo_git_changes =
    [\<lparr>gc_status = ''R100'', gc_paths = [''a.py'', ''b.py'']\<rparr>, \<lparr>gc_status = ''M'', gc_paths = [''c.py'']\<rparr>]"

definition demo_hunks :: "hunk list" where
  "demo_hunks =
    [\<lparr>hk_old_start = 3, hk_old_count = Some 0, hk_start = 4, hk_count = Some 2, hk_section = '' def f():'',
      hk_body = [''+x'', ''+@@ -1 +9 @@'']\<rparr>,
     \<lparr>hk_old_start = 8, hk_old_count = None, hk_start = 9, hk_count = Some 0, hk_section = '''',
      hk_body = [''-y'']\<rparr>]"

theorem git_output_read_back_witness:
  "parse_name_status (nul_terminated [''R100'', ''a.py'', ''b.py'', ''M'', ''c.py'']) = Inr demo_git_changes
   \<and> patch_lines (patch_text [''--- a/c.py'', ''+++ b/c.py''] demo_hunks) = [4, 5]"
proof -
  have "change_shown c" if "c \<in> set demo_git_changes" for c
    using that by (auto simp: demo_git_changes_def change_shown_def change_fields_def starts_with_def)
  moreover have "no_header l" if "l \<in> set [''--- a/c.py'', ''+++ b/c.py'']" for l
    using that by (auto simp: no_header_def starts_with_def)
  moreover have "CHR 0x0A \<notin> set (hk_section h) \<and> (\<forall>l\<in>set (hk_body h). no_header l)" if "h \<in> set demo_hunks" for h
    using that by (auto simp: demo_hunks_def no_header_def starts_with_def)
  moreover have "demo_hunks \<noteq> []" by (simp add: demo_hunks_def)
  moreover have "concat (map change_fields demo_git_changes) = [''R100'', ''a.py'', ''b.py'', ''M'', ''c.py'']"
    by (simp add: demo_git_changes_def change_fields_def)
  moreover have "sorted_set (map int (concat (map hunk_range_new demo_hunks))) = [4, 5]"
    by (simp add: demo_hunks_def hunk_range_new_def upt_rec sorted_set_def)
  ultimately show ?thesis
    using git_output_read_back[of demo_git_changes "[''--- a/c.py'', ''+++ b/c.py'']" demo_hunks] by metis
qed

end
