(* ===== verification/EditPackets.thy ===== *)
theory EditPackets
  imports CanonicalJson GitEvidence
begin

text \<open>
  The permission to edit: how a confirmed impact report becomes an edit packet.  The tables behind
  \<open>infrastructure/postgres/artifact_repository.py\<close> and \<open>edit_packet_repository.py\<close>, the packet derived by
  \<open>application/edit_packet.py\<close> and its publication.  An operation on the tables returns the new tables
  and its value; an exception rolls its transaction back, so that \<open>Inl\<close> leaves the tables as they were.
  Database constraints are checked where the statement is, as \<open>IntegrityError\<close>.

  Outside the model, as arguments (\<open>edit_env\<close>): the JSON Schema validation of an artifact, the
  integrity check of an impact report (\<open>ImpactRepository._validate_report_integrity\<close>), the matching of
  \<open>.gitignore\<close> patterns, running Git and resolving a path in the file system.
\<close>

section \<open>Tables\<close>

record artifact_row =
  ar_artifact_id :: string
  ar_artifact_type :: pyval
  ar_schema_version :: pyval
  ar_project_id :: string
  ar_analysis_case_id :: "string option"
  ar_payload :: pydict
  ar_payload_digest :: string

record case_row =
  ca_analysis_case_id :: string
  ca_project_id :: string
  ca_status :: string

record repository_row =
  rp_repository_id :: string
  rp_project_id :: string
  rp_remote_url :: string
  rp_workspace_root :: "string option"

record graph_row =
  gr_code_graph_snapshot_id :: string
  gr_project_id :: string
  gr_is_current :: bool
  gr_status :: string

record report_row =
  ir_impact_report_id :: string
  ir_project_id :: string
  ir_analysis_case_id :: string
  ir_repository_id :: string
  ir_repository_revision_id :: string
  ir_repository_revision :: string
  ir_code_graph_snapshot_id :: string
  ir_status :: string

record confirmation_row =
  cr_confirmation_id :: string
  cr_impact_report_id :: string
  cr_project_id :: string
  cr_approved_item_ids :: "string list"

record impact_item =
  ii_impact_item_id :: string
  ii_target_path :: string
  ii_target_symbols :: "string list"
  ii_recommended_action :: string
  ii_test_file_refs :: "string list"

record impact_item_row = impact_item +
  iir_impact_report_id :: string
  iir_project_id :: string

record packet_row =
  pk_edit_packet_id :: string
  pk_project_id :: string
  pk_analysis_case_id :: string
  pk_impact_report_id :: string
  pk_confirmation_id :: string
  pk_repository_id :: string
  pk_repository_revision_id :: string
  pk_base_repository_revision :: string
  pk_status :: string
  pk_editable_files :: pyval
  pk_read_only_files :: pyval
  pk_test_files :: pyval
  pk_forbidden_globs :: pyval
  pk_allowed_items :: pyval
  pk_required_ui_scenario_refs :: pyval

record grant_row =
  gt_approval_grant_id :: string
  gt_project_id :: string
  gt_analysis_case_id :: string
  gt_edit_packet_id :: string
  gt_impact_report_id :: string
  gt_confirmation_id :: string
  gt_repository_id :: string
  gt_base_repository_revision :: string
  gt_editable_files :: pyval
  gt_read_only_files :: pyval
  gt_test_files :: pyval
  gt_allowed_actions :: pyval
  gt_command_profile_version_id :: pyval
  gt_allowed_test_command_refs :: pyval
  gt_allowed_ui_scenarios :: pyval
  gt_forbidden_globs :: pyval
  gt_approved_by :: pyval
  gt_expires_at :: int
  gt_out_of_scope_policy :: pyval
  gt_payload_digest :: string

record grant_event_row =
  ge_event_id :: string
  ge_approval_grant_id :: string
  ge_project_id :: string
  ge_event_type :: string
  ge_actor :: string
  ge_reason :: string
  ge_payload_digest :: string

record profile_version_row =
  pv_profile_version_id :: string
  pv_profile_type :: string
  pv_profile_id :: string
  pv_semantic_version :: string
  pv_payload :: pydict
  pv_payload_digest :: string

text \<open>A row of \<open>command_execution_requests\<close> with the status of its result.\<close>

record command_row =
  cx_command_execution_id :: string
  cx_approval_grant_id :: string
  cx_project_id :: string
  cx_analysis_case_id :: string
  cx_edit_packet_id :: string
  cx_command_ref :: string
  cx_status :: string

record edit_result_row =
  er_edit_result_id :: string
  er_edit_packet_id :: string
  er_project_id :: string
  er_analysis_case_id :: string
  er_approval_grant_id :: string
  er_validation_mode :: string
  er_status :: string
  er_base_repository_revision :: string
  er_result_repository_revision :: "string option"
  er_path_changes :: pyval
  er_changed_paths :: "string list"
  er_out_of_scope_files :: "string list"
  er_test_result_refs :: "string list"
  er_tests_passed :: "bool option"
  er_command_evidence_status :: string
  er_changed_line_coverage :: pydict
  er_changed_line_coverage_status :: pyval

record edit_db =
  ed_artifacts :: "artifact_row list"
  ed_cases :: "case_row list"
  ed_repositories :: "repository_row list"
  ed_revisions :: "(string \<times> string \<times> string) list"
  ed_graphs :: "graph_row list"
  ed_reports :: "report_row list"
  ed_confirmations :: "confirmation_row list"
  ed_items :: "impact_item_row list"
  ed_profile_versions :: "profile_version_row list"
  ed_packets :: "packet_row list"
  ed_grants :: "grant_row list"
  ed_events :: "grant_event_row list"
  ed_commands :: "command_row list"
  ed_results :: "edit_result_row list"


record edit_env =
  ee_validate_artifact :: "pydict \<Rightarrow> unit result"
  ee_report_intact :: "edit_db \<Rightarrow> report_row \<Rightarrow> unit result"
  ee_ignored :: "string list \<Rightarrow> string \<Rightarrow> bool"
  ee_git :: git_tools

section \<open>Artifacts\<close>

definition find_artifact :: "edit_db \<Rightarrow> string \<Rightarrow> artifact_row option" where
  "find_artifact db artifact_id = find (\<lambda>r. ar_artifact_id r = artifact_id) (ed_artifacts db)"

definition scope_matches :: "pyval \<Rightarrow> string option \<Rightarrow> bool" where
  "scope_matches v scope \<longleftrightarrow> v = PNone \<or> v = (case scope of None \<Rightarrow> PNone | Some s \<Rightarrow> PStr s)"

definition get_artifact :: "edit_env \<Rightarrow> edit_db \<Rightarrow> string \<Rightarrow> pydict option result" where
  "get_artifact env db artifact_id =
    (if blank artifact_id then Inl (ValueError ''artifact_id must not be blank'')
     else case find_artifact db artifact_id of
       None \<Rightarrow> Inr None
     | Some r \<Rightarrow>
         rbind (ee_validate_artifact env (ar_payload r)) (\<lambda>_.
         rbind (dindex (ar_payload r) ''artifact_type'') (\<lambda>ty.
         rbind (dindex (ar_payload r) ''schema_version'') (\<lambda>version.
           if py_eq (ar_artifact_type r) ty \<and> py_eq (ar_schema_version r) version
              \<and> ar_payload_digest r = canonical_digest (PDict (ar_payload r))
              \<and> scope_matches (dget (ar_payload r) ''project_id'') (Some (ar_project_id r))
              \<and> scope_matches (dget (ar_payload r) ''analysis_case_id'') (ar_analysis_case_id r)
           then Inr (Some (ar_payload r))
           else Inl (PersistenceConflictError (''Artifact normalized identity differs: '' @ artifact_id))))))"

definition find_case :: "edit_db \<Rightarrow> string \<Rightarrow> case_row option" where
  "find_case db case_id = find (\<lambda>c. ca_analysis_case_id c = case_id) (ed_cases db)"

definition store_artifact ::
    "edit_env \<Rightarrow> string \<Rightarrow> string \<Rightarrow> string \<Rightarrow> pydict \<Rightarrow> edit_db \<Rightarrow> edit_db result" where
  "store_artifact env artifact_id project_id case_id artifact db =
    (if blank artifact_id then Inl (ValueError ''artifact_id must not be blank'')
     else if blank project_id then Inl (ValueError ''project_id must not be blank'')
     else if \<not> scope_matches (dget artifact ''project_id'') (Some project_id) then
       Inl (ValueError ''Artifact project_id does not match the repository scope'')
     else if \<not> scope_matches (dget artifact ''analysis_case_id'') (Some case_id) then
       Inl (ValueError ''Artifact analysis_case_id does not match the repository scope'')
     else
       rbind (ee_validate_artifact env artifact) (\<lambda>_.
       case find_case db case_id of
         None \<Rightarrow> Inl (ValueError (''Analysis case does not exist: '' @ case_id))
       | Some c \<Rightarrow>
           if ca_project_id c \<noteq> project_id then
             Inl (ValueError ''Analysis case does not belong to the Artifact project'')
           else
             rbind (dindex artifact ''artifact_type'') (\<lambda>ty.
             rbind (dindex artifact ''schema_version'') (\<lambda>version.
             let row = \<lparr>ar_artifact_id = artifact_id, ar_artifact_type = ty, ar_schema_version = version,
                   ar_project_id = project_id, ar_analysis_case_id = Some case_id, ar_payload = artifact,
                   ar_payload_digest = canonical_digest (PDict artifact)\<rparr>
             in case find_artifact db artifact_id of
                  None \<Rightarrow> Inr (db\<lparr>ed_artifacts := ed_artifacts db @ [row]\<rparr>)
                | Some r \<Rightarrow>
                    if py_eq (ar_artifact_type r) ty \<and> py_eq (ar_schema_version r) version
                       \<and> ar_project_id r = project_id \<and> ar_analysis_case_id r = Some case_id
                       \<and> py_eq (PDict (ar_payload r)) (PDict artifact)
                       \<and> ar_payload_digest r = ar_payload_digest row
                    then Inr db
                    else Inl (PersistenceConflictError
                      (''Artifact identity has different content: '' @ artifact_id))))))"

section \<open>The confirmed impact report\<close>

definition find_report :: "edit_db \<Rightarrow> string \<Rightarrow> report_row option" where
  "find_report db report_id = find (\<lambda>r. ir_impact_report_id r = report_id) (ed_reports db)"

text \<open>\<open>ImpactRepository.get_state\<close>: the row, its artifact, and the integrity check.\<close>

definition report_state :: "edit_env \<Rightarrow> edit_db \<Rightarrow> string \<Rightarrow> report_row option result" where
  "report_state env db report_id =
    (if blank report_id then Inl (ValueError ''impact_report_id must not be blank'')
     else case find_report db report_id of
       None \<Rightarrow> Inr None
     | Some r \<Rightarrow>
         rbind (get_artifact env db report_id) (\<lambda>artifact.
           if artifact = None then Inl (PersistenceConflictError
             (''Impact Report normalized row has no immutable Artifact: '' @ report_id))
           else rbind (ee_report_intact env db r) (\<lambda>_. Inr (Some r))))"

definition find_repository :: "edit_db \<Rightarrow> string \<Rightarrow> string \<Rightarrow> repository_row option" where
  "find_repository db repository_id project_id =
    find (\<lambda>r. rp_repository_id r = repository_id \<and> rp_project_id r = project_id) (ed_repositories db)"

definition find_graph :: "edit_db \<Rightarrow> string \<Rightarrow> string \<Rightarrow> graph_row option" where
  "find_graph db graph_id project_id =
    find (\<lambda>g. gr_code_graph_snapshot_id g = graph_id \<and> gr_project_id g = project_id) (ed_graphs db)"

definition find_confirmation :: "edit_db \<Rightarrow> string \<Rightarrow> string \<Rightarrow> string \<Rightarrow> confirmation_row option" where
  "find_confirmation db confirmation_id report_id project_id =
    find (\<lambda>c. cr_confirmation_id c = confirmation_id \<and> cr_impact_report_id c = report_id
       \<and> cr_project_id c = project_id) (ed_confirmations db)"

definition items_of_report :: "edit_db \<Rightarrow> string \<Rightarrow> string \<Rightarrow> impact_item list" where
  "items_of_report db report_id project_id =
    map (\<lambda>r. \<lparr>ii_impact_item_id = ii_impact_item_id r, ii_target_path = ii_target_path r,
        ii_target_symbols = ii_target_symbols r, ii_recommended_action = ii_recommended_action r,
        ii_test_file_refs = ii_test_file_refs r\<rparr>)
      (sort_key ii_impact_item_id
        (filter (\<lambda>r. iir_impact_report_id r = report_id \<and> iir_project_id r = project_id) (ed_items db)))"

record packet_source =
  ps_project_id :: string
  ps_analysis_case_id :: string
  ps_impact_report_id :: string
  ps_confirmation_id :: string
  ps_repository_id :: string
  ps_repository_revision_id :: string
  ps_commit_sha :: string
  ps_remote_url :: string
  ps_workspace_root :: string
  ps_business_summary :: string
  ps_required_ui_scenario_refs :: "string list"
  ps_approved_item_ids :: "string list"
  ps_items :: "impact_item list"

text \<open>\<open>tuple(str(value) for value in values)\<close>.\<close>

definition strings_of :: "pyval \<Rightarrow> string list result" where
  "strings_of v = rbind (py_iter v) (\<lambda>vs. Inr (map py_str vs))"

text \<open>The row the joins of \<open>load_source\<close> and \<open>_load_integrity_source\<close> find for a report of a case and one of
  its confirmations.\<close>

definition confirmed_rows ::
    "edit_db \<Rightarrow> string \<Rightarrow> string \<Rightarrow> string \<Rightarrow> string \<Rightarrow> (report_row \<times> confirmation_row \<times> repository_row) option" where
  "confirmed_rows db project_id case_id report_id confirmation_id =
    (case find_report db report_id of
       None \<Rightarrow> None
     | Some r \<Rightarrow>
         if ir_project_id r \<noteq> project_id \<or> ir_analysis_case_id r \<noteq> case_id then None
         else case find_confirmation db confirmation_id report_id project_id of
           None \<Rightarrow> None
         | Some c \<Rightarrow> map_option (\<lambda>p. (r, c, p)) (find_repository db (ir_repository_id r) project_id))"

definition source_of_rows ::
    "pydict \<Rightarrow> edit_db \<Rightarrow> report_row \<Rightarrow> confirmation_row \<Rightarrow> repository_row \<Rightarrow> string \<Rightarrow> packet_source result" where
  "source_of_rows report_artifact db r c p ws =
    rbind (dindex report_artifact ''summary'') (\<lambda>summary.
    rbind (rbind (dindex report_artifact ''required_ui_scenario_refs'') strings_of) (\<lambda>scenarios.
      Inr \<lparr>ps_project_id = ir_project_id r, ps_analysis_case_id = ir_analysis_case_id r,
           ps_impact_report_id = ir_impact_report_id r, ps_confirmation_id = cr_confirmation_id c,
           ps_repository_id = ir_repository_id r, ps_repository_revision_id = ir_repository_revision_id r,
           ps_commit_sha = ir_repository_revision r, ps_remote_url = rp_remote_url p,
           ps_workspace_root = ws, ps_business_summary = py_str summary,
           ps_required_ui_scenario_refs = scenarios, ps_approved_item_ids = cr_approved_item_ids c,
           ps_items = items_of_report db (ir_impact_report_id r) (ir_project_id r)\<rparr>))"

definition load_packet_source ::
    "edit_env \<Rightarrow> edit_db \<Rightarrow> string \<Rightarrow> string \<Rightarrow> string \<Rightarrow> string \<Rightarrow> packet_source result" where
  "load_packet_source env db project_id case_id report_id confirmation_id =
    rbind (report_state env db report_id) (\<lambda>state. case state of
      None \<Rightarrow> Inl (ValueError ''Confirmed Impact source does not exist in Packet scope'')
    | Some st \<Rightarrow>
        if ir_project_id st \<noteq> project_id \<or> ir_analysis_case_id st \<noteq> case_id \<or> ir_status st \<noteq> ''confirmed'' then
          Inl (ValueError ''Impact Report is not currently confirmed in Packet scope'')
        else case confirmed_rows db project_id case_id report_id confirmation_id of
          None \<Rightarrow> Inl (ValueError ''Confirmed Impact source does not exist in Packet scope'')
        | Some (r, c, p) \<Rightarrow>
            (case find_graph db (ir_code_graph_snapshot_id r) project_id of
               None \<Rightarrow> Inl (ValueError ''Confirmed Impact source does not exist in Packet scope'')
             | Some g \<Rightarrow>
                 if ir_status r \<noteq> ''confirmed'' then Inl (ValueError ''Impact Report is not currently confirmed'')
                 else if \<not> gr_is_current g \<or> gr_status g \<noteq> ''complete'' then
                   Inl (ValueError ''Edit Packet requires a current complete Code Graph'')
                 else case rp_workspace_root p of
                   None \<Rightarrow> Inl (ValueError ''Edit Packet Repository workspace_root is not registered'')
                 | Some ws \<Rightarrow>
                     rbind (get_artifact env db report_id) (\<lambda>artifact. case artifact of
                       None \<Rightarrow> Inl (RuntimeError ''Normalized Impact Report has no immutable Artifact'')
                     | Some a \<Rightarrow> source_of_rows a db r c p ws)))"

definition load_integrity_source ::
    "edit_env \<Rightarrow> edit_db \<Rightarrow> string \<Rightarrow> string \<Rightarrow> string \<Rightarrow> string \<Rightarrow> packet_source result" where
  "load_integrity_source env db project_id case_id report_id confirmation_id =
    (case confirmed_rows db project_id case_id report_id confirmation_id of
       None \<Rightarrow> Inl (PersistenceConflictError
         (''Edit Packet confirmed Impact provenance is missing: '' @ report_id))
     | Some (r, c, p) \<Rightarrow>
         rbind (get_artifact env db report_id) (\<lambda>artifact. case artifact of
           None \<Rightarrow> Inl (PersistenceConflictError (''Edit Packet Impact Artifact is missing: '' @ report_id))
         | Some a \<Rightarrow> source_of_rows a db r c p
             (case rp_workspace_root p of None \<Rightarrow> ''None'' | Some ws \<Rightarrow> ws)))"

section \<open>The scope of a packet\<close>

definition approved_items :: "packet_source \<Rightarrow> impact_item list" where
  "approved_items s = filter (\<lambda>i. ii_impact_item_id i \<in> set (ps_approved_item_ids s)) (ps_items s)"

definition actionable_items :: "packet_source \<Rightarrow> impact_item list" where
  "actionable_items s =
    filter (\<lambda>i. ii_recommended_action i \<in> {''modify'', ''add'', ''delete''}) (approved_items s)"

definition scope_test_files :: "packet_source \<Rightarrow> string list" where
  "scope_test_files s =
    sorted_set (concat (map ii_test_file_refs
      (if actionable_items s = [] then approved_items s else actionable_items s)))"

definition scope_editable_files :: "packet_source \<Rightarrow> string list" where
  "scope_editable_files s =
    sorted_set (filter (\<lambda>p. p \<notin> set (scope_test_files s)) (map ii_target_path (actionable_items s)))"

definition scope_read_only_files :: "packet_source \<Rightarrow> string list" where
  "scope_read_only_files s =
    sorted_set (filter (\<lambda>p. p \<notin> set (scope_test_files s))
      (map ii_target_path (filter (\<lambda>i. ii_recommended_action i = ''review_only'') (approved_items s))))"

definition scope_paths :: "packet_source \<Rightarrow> string list" where
  "scope_paths s = scope_editable_files s @ scope_read_only_files s @ scope_test_files s"

definition item_scope :: "packet_source \<Rightarrow> impact_item \<Rightarrow> pyval list" where
  "item_scope s i =
    [PStr (ii_impact_item_id i), PStr (ii_target_path i), PStrs (ii_target_symbols i),
     PStrs [ii_recommended_action i], PStr (ps_business_summary s)]"

definition validate_packet_semantics :: "pydict \<Rightarrow> packet_source \<Rightarrow> unit result" where
  "validate_packet_semantics artifact s =
    rbind (mapM (dindex artifact) [''editable_files'', ''read_only_files'', ''test_files'']) (\<lambda>actual.
    if \<not> py_eq (PList actual) (PList [PStrs (scope_editable_files s), PStrs (scope_read_only_files s),
         PStrs (scope_test_files s)]) then
      Inl (ValueError ''Edit Packet file scope is not derived from approved Impact Items'')
    else if \<not> distinct (scope_paths s) then
      Inl (ValueError ''Edit Packet derived file classifications overlap'')
    else
      rbind (rbind (dindex artifact ''allowed_items'') py_iter) (\<lambda>items.
      rbind (mapM (\<lambda>item. rbind (mapM (py_index item) [''impact_item_id'', ''target_path'',
          ''target_symbols'', ''allowed_actions'', ''business_summary'']) (Inr \<circ> PList)) items) (\<lambda>actual_items.
      if \<not> py_eq (PList actual_items) (PList (map (PList \<circ> item_scope s) (actionable_items s))) then
        Inl (ValueError ''Edit Packet allowed Items are not derived from approved Impact Items'')
      else
        rbind (dindex artifact ''required_ui_scenario_refs'') (\<lambda>scenarios.
        if \<not> py_eq scenarios (PStrs (ps_required_ui_scenario_refs s)) then
          Inl (ValueError ''Edit Packet UI Scenario scope differs from the confirmed Impact Report'')
        else if dget artifact ''must_not_fetch_context_package'' \<noteq> PBool True then
          Inl (ValueError ''Edit Packet must prohibit fetching the Context Package'')
        else Inr ()))))"

section \<open>Packets\<close>

record packet_record =
  pr_artifact :: pydict
  pr_project_id :: string
  pr_analysis_case_id :: string
  pr_repository_revision_id :: string
  pr_status :: string
  pr_impact_report_status :: string

definition find_packet :: "edit_db \<Rightarrow> string \<Rightarrow> packet_row option" where
  "find_packet db packet_id = find (\<lambda>p. pk_edit_packet_id p = packet_id) (ed_packets db)"

text \<open>The row of \<open>get\<close> joins the packet with the commit of its revision and the report of its
  confirmation.\<close>

definition joined_packet :: "edit_db \<Rightarrow> string \<Rightarrow> (packet_row \<times> string \<times> string) option" where
  "joined_packet db packet_id =
    (case find_packet db packet_id of
       None \<Rightarrow> None
     | Some p \<Rightarrow>
        (case find (\<lambda>(rev_id, repo_id, sha). rev_id = pk_repository_revision_id p \<and> repo_id = pk_repository_id p)
            (ed_revisions db) of
           None \<Rightarrow> None
         | Some (_, _, sha) \<Rightarrow>
             map_option (\<lambda>c. (p, sha, cr_impact_report_id c))
               (find (\<lambda>c. cr_confirmation_id c = pk_confirmation_id p \<and> cr_project_id c = pk_project_id p)
                 (ed_confirmations db))))"

definition py_list :: "pyval \<Rightarrow> pyval result" where
  "py_list v = rbind (py_iter v) (\<lambda>vs. Inr (PList vs))"

definition packet_identity_keys :: "string list" where
  "packet_identity_keys =
    [''edit_packet_id'', ''project_id'', ''impact_report_id'', ''confirmation_id'', ''repository_id'',
     ''base_repository_revision'']"

definition packet_list_keys :: "string list" where
  "packet_list_keys =
    [''editable_files'', ''read_only_files'', ''test_files'', ''forbidden_globs'', ''allowed_items'',
     ''required_ui_scenario_refs'']"

definition validate_packet_integrity ::
    "edit_env \<Rightarrow> edit_db \<Rightarrow> pydict \<Rightarrow> packet_row \<times> string \<times> string \<Rightarrow> string result" where
  "validate_packet_integrity env db artifact row =
    (let (p, sha, confirmed_report) = row; packet_id = pk_edit_packet_id p
     in if dget artifact ''artifact_type'' \<noteq> PStr ''CopilotEditPacket'' then
          Inl (PersistenceConflictError (''Edit Packet Artifact type differs: '' @ packet_id))
        else
          rbind (ee_validate_artifact env artifact) (\<lambda>_.
          rbind (dindex artifact ''impact_report_id'') (\<lambda>report_id.
          rbind (report_state env db (py_str report_id)) (\<lambda>state. case state of
            None \<Rightarrow> Inl (PersistenceConflictError (''Edit Packet Impact Report is missing: '' @ packet_id))
          | Some st \<Rightarrow>
              if pk_status p \<notin> {''active'', ''superseded''} \<or> ir_status st \<notin> {''confirmed'', ''superseded''} then
                Inl (PersistenceConflictError (''Edit Packet lifecycle provenance differs: '' @ packet_id))
              else
                rbind (mapM (dindex artifact) packet_identity_keys) (\<lambda>ids.
                rbind (mapM (\<lambda>k. rbind (dindex artifact k) py_list) packet_list_keys) (\<lambda>arrays.
                if map py_str ids \<noteq> [pk_edit_packet_id p, pk_project_id p, pk_impact_report_id p,
                      pk_confirmation_id p, pk_repository_id p, pk_base_repository_revision p]
                   \<or> pk_analysis_case_id p \<noteq> ir_analysis_case_id st
                   \<or> pk_repository_revision_id p \<noteq> ir_repository_revision_id st
                   \<or> \<not> py_eq (PList arrays) (PList [pk_editable_files p, pk_read_only_files p, pk_test_files p,
                        pk_forbidden_globs p, pk_allowed_items p, pk_required_ui_scenario_refs p])
                   \<or> sha \<noteq> pk_base_repository_revision p \<or> confirmed_report \<noteq> pk_impact_report_id p then
                  Inl (PersistenceConflictError (''Edit Packet normalized identity differs: '' @ packet_id))
                else if ir_project_id st \<noteq> pk_project_id p \<or> ir_repository_id st \<noteq> pk_repository_id p then
                  Inl (PersistenceConflictError (''Edit Packet Impact scope differs: '' @ packet_id))
                else
                  rbind (load_integrity_source env db (ir_project_id st) (ir_analysis_case_id st)
                    (ir_impact_report_id st) (pk_confirmation_id p)) (\<lambda>source.
                  case validate_packet_semantics artifact source of
                    Inl (ValueError _) \<Rightarrow>
                      Inl (PersistenceConflictError (''Edit Packet derived scope differs: '' @ packet_id))
                  | Inl e \<Rightarrow> Inl e
                  | Inr _ \<Rightarrow> Inr (ir_status st))))))))"

definition get_packet :: "edit_env \<Rightarrow> edit_db \<Rightarrow> string \<Rightarrow> packet_record option result" where
  "get_packet env db packet_id =
    (if blank packet_id then Inl (ValueError ''edit_packet_id must not be blank'')
     else
       rbind (get_artifact env db packet_id) (\<lambda>artifact.
       case (joined_packet db packet_id, artifact) of
         (None, Some _) \<Rightarrow> Inl (PersistenceConflictError
           (''Edit Packet Artifact has no normalized identity: '' @ packet_id))
       | (None, None) \<Rightarrow> Inr None
       | (Some _, None) \<Rightarrow> Inl (PersistenceConflictError
           (''Edit Packet normalized identity has no immutable Artifact: '' @ packet_id))
       | (Some row, Some a) \<Rightarrow>
           rbind (validate_packet_integrity env db a row) (\<lambda>report_status.
             Inr (Some \<lparr>pr_artifact = a, pr_project_id = pk_project_id (fst row),
               pr_analysis_case_id = pk_analysis_case_id (fst row),
               pr_repository_revision_id = pk_repository_revision_id (fst row),
               pr_status = pk_status (fst row), pr_impact_report_status = report_status\<rparr>))))"

definition validate_record_source :: "packet_record \<Rightarrow> packet_source \<Rightarrow> unit result" where
  "validate_record_source packet s =
    rbind (mapM (dindex (pr_artifact packet)) [''impact_report_id'', ''confirmation_id'', ''repository_id'',
        ''base_repository_revision'']) (\<lambda>ids.
      if pr_project_id packet = ps_project_id s \<and> pr_analysis_case_id packet = ps_analysis_case_id s
         \<and> pr_repository_revision_id packet = ps_repository_revision_id s
         \<and> ids = map PStr [ps_impact_report_id s, ps_confirmation_id s, ps_repository_id s, ps_commit_sha s]
      then Inr ()
      else rbind (dindex (pr_artifact packet) ''edit_packet_id'') (\<lambda>packet_id.
        Inl (PersistenceConflictError (''Edit Packet replay source differs: '' @ py_str packet_id))))"

section \<open>Publication\<close>

text \<open>What the locked rows of \<open>publish\<close> must still be.\<close>

definition source_still_current :: "edit_db \<Rightarrow> packet_source \<Rightarrow> bool" where
  "source_still_current db s =
    (case find_report db (ps_impact_report_id s) of
       None \<Rightarrow> False
     | Some r \<Rightarrow>
        (case (find_case db (ir_analysis_case_id r),
            find_confirmation db (ps_confirmation_id s) (ps_impact_report_id s) (ps_project_id s),
            find_repository db (ir_repository_id r) (ps_project_id s),
            find_graph db (ir_code_graph_snapshot_id r) (ps_project_id s)) of
           (Some ca, Some c, Some p, Some g) \<Rightarrow>
             ir_project_id r = ps_project_id s \<and> ca_project_id ca = ps_project_id s
             \<and> ir_status r = ''confirmed'' \<and> gr_is_current g \<and> gr_status g = ''complete''
             \<and> ca_status ca = ''awaiting_confirmation'' \<and> ir_analysis_case_id r = ps_analysis_case_id s
             \<and> ir_repository_id r = ps_repository_id s
             \<and> ir_repository_revision_id r = ps_repository_revision_id s
             \<and> ir_repository_revision r = ps_commit_sha s
             \<and> cr_approved_item_ids c = ps_approved_item_ids s \<and> rp_remote_url p = ps_remote_url s
             \<and> rp_workspace_root p = Some (ps_workspace_root s)
         | _ \<Rightarrow> False))"

definition is_active_in :: "string \<Rightarrow> string \<Rightarrow> packet_row \<Rightarrow> bool" where
  "is_active_in project_id case_id p \<longleftrightarrow>
    pk_project_id p = project_id \<and> pk_analysis_case_id p = case_id \<and> pk_status p = ''active''"

definition set_case_status :: "string \<Rightarrow> string \<Rightarrow> string \<Rightarrow> edit_db \<Rightarrow> edit_db" where
  "set_case_status case_id project_id st db =
    db\<lparr>ed_cases := map (\<lambda>c. if ca_analysis_case_id c = case_id \<and> ca_project_id c = project_id
         then c\<lparr>ca_status := st\<rparr> else c) (ed_cases db)\<rparr>"

definition supersede_packets :: "(packet_row \<Rightarrow> bool) \<Rightarrow> edit_db \<Rightarrow> edit_db" where
  "supersede_packets P db =
    db\<lparr>ed_packets := map (\<lambda>p. if P p then p\<lparr>pk_status := ''superseded''\<rparr> else p) (ed_packets db)\<rparr>"

text \<open>\<open>_supersede_packets_from_other_reports\<close> of the impact reports: publishing a report, new or again, closes
  the packet that was derived from another one.\<close>

definition supersede_packets_from_other_reports :: "string \<Rightarrow> string \<Rightarrow> string \<Rightarrow> edit_db \<Rightarrow> edit_db" where
  "supersede_packets_from_other_reports project_id case_id current_report_id db =
    supersede_packets (\<lambda>p. is_active_in project_id case_id p \<and> pk_impact_report_id p \<noteq> current_report_id) db"

definition array_length :: "pyval \<Rightarrow> nat option" where
  "array_length v = (case v of PList vs \<Rightarrow> Some (length vs) | _ \<Rightarrow> None)"

text \<open>The constraints of \<open>edit_packets\<close> (migrations 0010 and 0069) that the checks before the insertion do
  not give.\<close>

definition packet_arrays_valid :: "packet_row \<Rightarrow> bool" where
  "packet_arrays_valid p =
    (case (array_length (pk_editable_files p), array_length (pk_read_only_files p), array_length (pk_test_files p),
        array_length (pk_allowed_items p)) of
       (Some e, Some r, Some t, Some a) \<Rightarrow>
         (0 < e \<and> 0 < a \<or> e = 0 \<and> a = 0 \<and> (0 < r \<or> 0 < t))
         \<and> array_length (pk_forbidden_globs p) \<noteq> None \<and> array_length (pk_required_ui_scenario_refs p) \<noteq> None
     | _ \<Rightarrow> False)"

definition insert_packet :: "packet_row \<Rightarrow> edit_db \<Rightarrow> edit_db result" where
  "insert_packet p db =
    (if find_packet db (pk_edit_packet_id p) \<noteq> None then Inl (IntegrityError ''edit_packets_pkey'')
     else if btrim_blank (pk_base_repository_revision p) then Inl (IntegrityError ''edit_packets_fields_not_blank'')
     else if \<not> packet_arrays_valid p then Inl (IntegrityError ''edit_packets_arrays_valid'')
     else if list_ex (is_active_in (pk_project_id p) (pk_analysis_case_id p)) (ed_packets db) then
       Inl (IntegrityError ''edit_packets_active_case_unique'')
     else if \<not> list_ex (\<lambda>(rev_id, repo_id, _). rev_id = pk_repository_revision_id p \<and> repo_id = pk_repository_id p)
         (ed_revisions db) then
       Inl (IntegrityError ''edit_packets_revision_fk'')
     else Inr (db\<lparr>ed_packets := ed_packets db @ [p]\<rparr>))"

definition new_packet_row :: "packet_source \<Rightarrow> string \<Rightarrow> pyval list \<Rightarrow> packet_row" where
  "new_packet_row s packet_id arrays =
    \<lparr>pk_edit_packet_id = packet_id, pk_project_id = ps_project_id s, pk_analysis_case_id = ps_analysis_case_id s,
     pk_impact_report_id = ps_impact_report_id s, pk_confirmation_id = ps_confirmation_id s,
     pk_repository_id = ps_repository_id s, pk_repository_revision_id = ps_repository_revision_id s,
     pk_base_repository_revision = ps_commit_sha s, pk_status = ''active'',
     pk_editable_files = arrays ! 0, pk_read_only_files = arrays ! 1, pk_test_files = arrays ! 2,
     pk_forbidden_globs = arrays ! 3, pk_allowed_items = arrays ! 4, pk_required_ui_scenario_refs = arrays ! 5\<rparr>"

definition all_known :: "edit_env \<Rightarrow> edit_db \<Rightarrow> string list \<Rightarrow> unit result" where
  "all_known env db ids =
    foldM (\<lambda>_ packet_id. rbind (get_packet env db packet_id) (\<lambda>p.
      if p = None then Inl (PersistenceConflictError (''Active Edit Packet disappeared: '' @ packet_id))
      else Inr ())) () ids"

definition publish_new ::
    "edit_env \<Rightarrow> pydict \<Rightarrow> packet_source \<Rightarrow> string \<Rightarrow> edit_db \<Rightarrow> (edit_db \<times> bool \<times> string \<times> string) result" where
  "publish_new env artifact s packet_id db =
    (if \<not> source_still_current db s then
       Inl (ValueError ''Edit Packet source became stale before publication'')
     else if items_of_report db (ps_impact_report_id s) (ps_project_id s) \<noteq> ps_items s then
       Inl (ValueError ''Edit Packet Impact Item source became stale before publication'')
     else
       let active = is_active_in (ps_project_id s) (ps_analysis_case_id s)
       in rbind (all_known env db (map pk_edit_packet_id (filter active (ed_packets db)))) (\<lambda>_.
          rbind (store_artifact env packet_id (ps_project_id s) (ps_analysis_case_id s) artifact db) (\<lambda>db1.
          rbind (mapM (dindex artifact) packet_list_keys) (\<lambda>arrays.
          rbind (insert_packet (new_packet_row s packet_id arrays) (supersede_packets active db1)) (\<lambda>db2.
          let db3 = set_case_status (ps_analysis_case_id s) (ps_project_id s) ''editing'' db2
          in rbind (get_packet env db3 packet_id) (\<lambda>published.
             if map_option pr_status published \<noteq> Some ''active'' then
               Inl (PersistenceConflictError
                 (''Published Edit Packet failed integrity validation: '' @ packet_id))
             else Inr (db3, True, packet_id, ''active'')))))))"

definition publish_packet ::
    "edit_env \<Rightarrow> pydict \<Rightarrow> packet_source \<Rightarrow> edit_db \<Rightarrow> (edit_db \<times> bool \<times> string \<times> string) result" where
  "publish_packet env artifact s db =
    rbind (ee_validate_artifact env artifact) (\<lambda>_.
    if dget artifact ''artifact_type'' \<noteq> PStr ''CopilotEditPacket'' then
      Inl (ValueError ''Edit Packet publication requires CopilotEditPacket'')
    else
      rbind (validate_packet_semantics artifact s) (\<lambda>_.
      rbind (mapM (dindex artifact) [''project_id'', ''impact_report_id'', ''confirmation_id'', ''repository_id'',
          ''base_repository_revision'']) (\<lambda>ids.
      if ids \<noteq> map PStr [ps_project_id s, ps_impact_report_id s, ps_confirmation_id s, ps_repository_id s,
          ps_commit_sha s] then
        Inl (ValueError ''Edit Packet Artifact is outside confirmed Impact scope'')
      else
        rbind (dindex artifact ''edit_packet_id'') (\<lambda>packet.
        let packet_id = py_str packet
        in rbind (report_state env db (ps_impact_report_id s)) (\<lambda>state.
           if map_option (\<lambda>st. (ir_project_id st, ir_analysis_case_id st)) state
                \<noteq> Some (ps_project_id s, ps_analysis_case_id s) then
             Inl (ValueError ''Edit Packet Impact source integrity changed'')
           else
             rbind (get_artifact env db packet_id) (\<lambda>existing. case existing of
               None \<Rightarrow> publish_new env artifact s packet_id db
             | Some a \<Rightarrow>
                 if \<not> py_eq (PDict a) (PDict artifact) then
                   Inl (PersistenceConflictError (''Edit Packet identity has different content: '' @ packet_id))
                 else
                   rbind (get_packet env db packet_id) (\<lambda>packet. case packet of
                     None \<Rightarrow> Inl (PersistenceConflictError
                       (''Edit Packet normalized identity is missing: '' @ packet_id))
                   | Some record \<Rightarrow>
                       rbind (validate_record_source record s) (\<lambda>_. Inr (db, False, packet_id, pr_status record)))))))))"

section \<open>Deriving a packet\<close>

record packet_request =
  pq_edit_packet_id :: string
  pq_project_id :: string
  pq_analysis_case_id :: string
  pq_impact_report_id :: string
  pq_confirmation_id :: string
  pq_workspace_root :: string
  pq_forbidden_globs :: "string list"
  pq_implementation_constraints :: "(string \<times> string list) list"

definition new_packet_request :: "packet_request \<Rightarrow> packet_request result" where
  "new_packet_request r =
    (if list_ex blank [pq_edit_packet_id r, pq_project_id r, pq_analysis_case_id r, pq_impact_report_id r,
         pq_confirmation_id r] then
       Inl (ValueError ''Edit Packet request fields must not be blank'')
     else if pq_forbidden_globs r = [] \<or> list_ex blank (pq_forbidden_globs r) then
       Inl (ValueError ''Edit Packet requires explicit non-blank forbidden globs'')
     else if \<not> distinct (pq_forbidden_globs r) then
       Inl (ValueError ''Edit Packet forbidden globs must be unique'')
     else if \<not> distinct (map fst (pq_implementation_constraints r)) then
       Inl (ValueError ''Edit Packet constraint Item IDs must be unique'')
     else Inr r)"

definition validate_relative_path :: "string \<Rightarrow> unit result" where
  "validate_relative_path path =
    (if \<not> safe_relative path \<or> blank path then
       Inl (ValueError (''Edit Packet path is not safe and workspace-relative: '' @ path))
     else Inr ())"

definition forbidden_spec :: "edit_env \<Rightarrow> string list \<Rightarrow> (string \<Rightarrow> bool) result" where
  "forbidden_spec env patterns =
    (case find (\<lambda>p. starts_with ''!'' p \<or> \<not> safe_relative p) patterns of
       Some p \<Rightarrow> Inl (ValueError (''Forbidden glob has unsafe workspace semantics: '' @ p))
     | None \<Rightarrow> Inr (ee_ignored env patterns))"

definition allowed_item :: "packet_source \<Rightarrow> packet_request \<Rightarrow> impact_item \<Rightarrow> pyval" where
  "allowed_item s r i = PDict
    [(''impact_item_id'', PStr (ii_impact_item_id i)), (''target_path'', PStr (ii_target_path i)),
     (''target_symbols'', PStrs (ii_target_symbols i)), (''allowed_actions'', PStrs [ii_recommended_action i]),
     (''business_summary'', PStr (ps_business_summary s)),
     (''implementation_constraints'',
       PStrs (case map_of (pq_implementation_constraints r) (ii_impact_item_id i) of None \<Rightarrow> [] | Some cs \<Rightarrow> cs))]"

definition packet_artifact :: "packet_source \<Rightarrow> packet_request \<Rightarrow> pydict" where
  "packet_artifact s r =
    [(''artifact_type'', PStr ''CopilotEditPacket''), (''schema_version'', PStr ''v1''),
     (''edit_packet_id'', PStr (pq_edit_packet_id r)), (''impact_report_id'', PStr (ps_impact_report_id s)),
     (''confirmation_id'', PStr (ps_confirmation_id s)), (''project_id'', PStr (ps_project_id s)),
     (''repository_id'', PStr (ps_repository_id s)), (''base_repository_revision'', PStr (ps_commit_sha s)),
     (''editable_files'', PStrs (scope_editable_files s)), (''read_only_files'', PStrs (scope_read_only_files s)),
     (''test_files'', PStrs (scope_test_files s)), (''forbidden_globs'', PStrs (pq_forbidden_globs r)),
     (''allowed_items'', PList (map (allowed_item s r) (actionable_items s))),
     (''required_ui_scenario_refs'', PStrs (ps_required_ui_scenario_refs s)),
     (''out_of_scope_policy'', PStr ''stop_and_reanalyze''), (''must_not_fetch_context_package'', PBool True)]"

definition add_paths :: "packet_source \<Rightarrow> string list" where
  "add_paths s = map ii_target_path (filter (\<lambda>i. ii_recommended_action i = ''add'') (actionable_items s))"

definition absent_paths :: "packet_source \<Rightarrow> git_revision_evidence \<Rightarrow> string list" where
  "absent_paths s g =
    sort (filter (\<lambda>p. p \<notin> set (gi_tracked_paths g) \<and> p \<notin> set (add_paths s) \<and> p \<notin> set (scope_test_files s))
      (scope_paths s))"

text \<open>The checks and the artifact of \<open>EditPacketService.run\<close>, between loading its source and publishing.\<close>

definition derive_packet :: "edit_env \<Rightarrow> packet_request \<Rightarrow> packet_source \<Rightarrow> pydict result" where
  "derive_packet env r s =
    rbind (gt_resolve (ee_git env) (ps_workspace_root s)) (\<lambda>registered.
    rbind (gt_resolve (ee_git env) (pq_workspace_root r)) (\<lambda>requested.
    if requested \<noteq> registered then
      Inl (ValueError ''Edit Packet Workspace root does not match Repository registration'')
    else
      rbind (inspect_workspace (ee_git env) requested) (\<lambda>g.
      if gi_head_sha g \<noteq> ps_commit_sha s \<or> gi_remote_url g \<noteq> ps_remote_url s then
        Inl (ValueError ''Edit Packet Workspace Git HEAD or origin does not match'')
      else
        let unknown = sorted_set (filter (\<lambda>i. i \<notin> set (ps_approved_item_ids s))
              (map fst (pq_implementation_constraints r)))
        in if unknown \<noteq> [] then
             Inl (ValueError (''Implementation constraints reference unapproved Items: '' @ py_repr (PStrs unknown)))
           else if scope_editable_files s = [] \<and> actionable_items s \<noteq> [] then
             Inl (ValueError ''Confirmed Impact contains no approved editable file'')
           else if actionable_items s = [] \<and> scope_read_only_files s = [] \<and> scope_test_files s = [] then
             Inl (ValueError ''Verification-only Impact contains no review or test file'')
           else if \<not> distinct (scope_paths s) then
             Inl (ValueError ''Edit Packet file classifications must not overlap'')
           else
             rbind (mapM validate_relative_path (scope_paths s)) (\<lambda>_.
             rbind (forbidden_spec env (pq_forbidden_globs r)) (\<lambda>ignored.
             let matches = sort (filter ignored (scope_paths s));
                 existing = sorted_set (filter (\<lambda>p. p \<in> set (gi_tracked_paths g)) (add_paths s))
             in if matches \<noteq> [] then
                  Inl (ValueError (''Edit Packet paths match forbidden globs: '' @ py_repr (PStrs matches)))
                else if existing \<noteq> [] then
                  Inl (ValueError (''Edit Packet add paths already exist in the bound Revision: ''
                    @ py_repr (PStrs existing)))
                else if absent_paths s g \<noteq> [] then
                  Inl (ValueError (''Edit Packet paths are absent from bound Git Revision: ''
                    @ py_repr (PStrs (absent_paths s g))))
                else
                  rbind (ee_validate_artifact env (packet_artifact s r)) (\<lambda>_. Inr (packet_artifact s r)))))))"

definition run_edit_packet ::
    "edit_env \<Rightarrow> packet_request \<Rightarrow> edit_db \<Rightarrow> (edit_db \<times> pydict \<times> bool \<times> string \<times> string) result" where
  "run_edit_packet env r db =
    rbind (load_packet_source env db (pq_project_id r) (pq_analysis_case_id r) (pq_impact_report_id r)
      (pq_confirmation_id r)) (\<lambda>s.
    rbind (derive_packet env r s) (\<lambda>artifact.
    rbind (publish_packet env artifact s db) (\<lambda>(db', publication). Inr (db', artifact, publication))))"

section \<open>A derived packet is accepted\<close>

lemma derived_items:
  "mapM (\<lambda>item. rbind (mapM (py_index item) [''impact_item_id'', ''target_path'', ''target_symbols'',
      ''allowed_actions'', ''business_summary'']) (Inr \<circ> PList)) (map (allowed_item s r) is)
    = Inr (map (PList \<circ> item_scope s) is)"
  by (induction "is") (simp_all add: allowed_item_def item_scope_def comp_def dindex_def)

lemma derived_semantics:
  assumes "distinct (scope_paths s)"
  shows "validate_packet_semantics (packet_artifact s r) s = Inr ()"
proof -
  have "dindex (packet_artifact s r) ''allowed_items'' = Inr (PList (map (allowed_item s r) (actionable_items s)))"
    by (simp add: packet_artifact_def dindex_def)
  then show ?thesis
    unfolding validate_packet_semantics_def
    using assms derived_items[of s r "actionable_items s"]
    by (simp add: packet_artifact_def dindex_def dget_def)
qed

end
