(* ===== verification/ApprovalGrants.thy ===== *)
theory ApprovalGrants
  imports EditPackets RunContext
begin

text \<open>
  The approval that opens an edit packet for work (\<open>application/approval_grant.py\<close> and
  \<open>infrastructure/postgres/approval_grant_repository.py\<close>): the grant derived from an active packet, its
  append-only log of events, the state read from the log, and the authorisation of an edit.  An instant
  is its microseconds since the year 1; \<open>now\<close> is the clock of the database or of the process.  The active
  profile of a project (\<open>ProfileRepository.get_active\<close>) is an argument.
\<close>

section \<open>Timestamps\<close>

definition day_number :: "int \<Rightarrow> int \<Rightarrow> int \<Rightarrow> int" where
  "day_number y m d =
    (let y' = (if m \<le> 2 then y - 1 else y); yoe = y' mod 400;
         doy = (153 * (if m \<le> 2 then m + 9 else m - 3) + 2) div 5 + d - 1
     in y' div 400 * 146097 + yoe * 365 + yoe div 4 - yoe div 100 + doy - 306)"

definition digits_at :: "string \<Rightarrow> nat \<Rightarrow> nat \<Rightarrow> int option" where
  "digits_at s i n =
    (let ds = take n (drop i s) in if length ds = n \<and> is_digits ds then Some (int (digits_value ds)) else None)"

text \<open>\<open>datetime.fromisoformat(value.replace("Z", "+00:00"))\<close> on the texts \<open>isoformat\<close> writes for a UTC time.\<close>

definition parse_timestamp :: "string \<Rightarrow> int result" where
  "parse_timestamp s =
    (case (digits_at s 0 4, digits_at s 5 2, digits_at s 8 2, digits_at s 11 2, digits_at s 14 2, digits_at s 17 2) of
       (Some y, Some mo, Some d, Some h, Some mi, Some sec) \<Rightarrow>
         (let rest = drop 19 s;
              micro = (if rest = ''Z'' then Some 0
                       else if take 1 rest = ''.'' \<and> drop 7 rest = ''Z'' then digits_at rest 1 6 else None)
          in case micro of
               Some us \<Rightarrow>
                 if take 1 (drop 4 s) = ''-'' \<and> take 1 (drop 7 s) = ''-'' \<and> take 1 (drop 10 s) = ''T''
                    \<and> take 1 (drop 13 s) = '':'' \<and> take 1 (drop 16 s) = '':'' \<and> 1 \<le> y
                    \<and> civil_date (day_number y mo d) = (y, mo, d) \<and> h < 24 \<and> mi < 60 \<and> sec < 60
                 then Inr (day_number y mo d * us_per_day + (h * 3600 + mi * 60 + sec) * 1000000 + us)
                 else Inl (ValueError ''Invalid isoformat string'')
             | None \<Rightarrow> Inl (ValueError ''Invalid isoformat string''))
     | _ \<Rightarrow> Inl (ValueError ''Invalid isoformat string''))"

section \<open>Issuing a grant\<close>

record grant_source =
  gs_project_id :: string
  gs_analysis_case_id :: string
  gs_edit_packet_id :: string
  gs_impact_report_id :: string
  gs_confirmation_id :: string
  gs_repository_id :: string
  gs_base_repository_revision :: string
  gs_editable_files :: "string list"
  gs_read_only_files :: "string list"
  gs_test_files :: "string list"
  gs_forbidden_globs :: "string list"
  gs_required_ui_scenario_refs :: "string list"

definition grant_source_of_packet :: "packet_record \<Rightarrow> grant_source result" where
  "grant_source_of_packet packet =
    rbind (mapM (dindex (pr_artifact packet)) [''edit_packet_id'', ''impact_report_id'', ''confirmation_id'',
        ''repository_id'', ''base_repository_revision'']) (\<lambda>ids.
    rbind (mapM (\<lambda>k. rbind (dindex (pr_artifact packet) k) strings_of) [''editable_files'', ''read_only_files'',
        ''test_files'', ''forbidden_globs'', ''required_ui_scenario_refs'']) (\<lambda>arrays.
      Inr \<lparr>gs_project_id = pr_project_id packet, gs_analysis_case_id = pr_analysis_case_id packet,
           gs_edit_packet_id = py_str (ids ! 0), gs_impact_report_id = py_str (ids ! 1),
           gs_confirmation_id = py_str (ids ! 2), gs_repository_id = py_str (ids ! 3),
           gs_base_repository_revision = py_str (ids ! 4), gs_editable_files = arrays ! 0,
           gs_read_only_files = arrays ! 1, gs_test_files = arrays ! 2, gs_forbidden_globs = arrays ! 3,
           gs_required_ui_scenario_refs = arrays ! 4\<rparr>))"

definition load_grant_artifact :: "edit_env \<Rightarrow> edit_db \<Rightarrow> string \<Rightarrow> pydict option result" where
  "load_grant_artifact env db grant_id =
    rbind (get_artifact env db grant_id) (\<lambda>artifact. case artifact of
      None \<Rightarrow> Inr None
    | Some a \<Rightarrow>
        if dget a ''artifact_type'' \<noteq> PStr ''ApprovalGrant'' then
          Inl (PersistenceConflictError (''Artifact identity is not an Approval Grant: '' @ grant_id))
        else Inr (Some a))"

definition load_grant_source :: "edit_env \<Rightarrow> edit_db \<Rightarrow> string \<Rightarrow> string \<Rightarrow> string \<Rightarrow> grant_source result" where
  "load_grant_source env db project_id case_id packet_id =
    rbind (get_packet env db packet_id) (\<lambda>packet. case packet of
      None \<Rightarrow> Inl (ValueError ''Approval Grant Edit Packet does not exist in requested scope'')
    | Some p \<Rightarrow>
        if pr_project_id p \<noteq> project_id \<or> pr_analysis_case_id p \<noteq> case_id then
          Inl (ValueError ''Approval Grant Edit Packet does not exist in requested scope'')
        else if pr_status p \<noteq> ''active'' then
          Inl (ValueError ''Approval Grant requires an active Edit Packet'')
        else if pr_impact_report_status p \<noteq> ''confirmed'' then
          Inl (ValueError ''Approval Grant requires a confirmed Impact Report'')
        else if map_option (\<lambda>c. (ca_project_id c, ca_status c)) (find_case db case_id)
            \<noteq> Some (project_id, ''editing'') then
          Inl (ValueError ''Approval Grant requires the Case to be in editing state'')
        else grant_source_of_packet p)"

definition load_replay_source :: "edit_env \<Rightarrow> edit_db \<Rightarrow> string \<Rightarrow> string \<Rightarrow> string \<Rightarrow> grant_source result" where
  "load_replay_source env db project_id case_id packet_id =
    rbind (get_packet env db packet_id) (\<lambda>packet. case packet of
      None \<Rightarrow> Inl (ValueError ''Approval Grant Edit Packet does not exist in requested scope'')
    | Some p \<Rightarrow>
        if pr_project_id p \<noteq> project_id \<or> pr_analysis_case_id p \<noteq> case_id then
          Inl (ValueError ''Approval Grant Edit Packet does not exist in requested scope'')
        else grant_source_of_packet p)"

definition allowed_actions :: "grant_source \<Rightarrow> string list" where
  "allowed_actions s =
    [''read''] @ (if gs_editable_files s \<noteq> [] then [''modify''] else []) @ [''record_result'']
    @ (if gs_test_files s \<noteq> [] then (if gs_editable_files s \<noteq> [] then [''add_test''] else []) @ [''run_test'']
       else [])
    @ (if gs_required_ui_scenario_refs s \<noteq> [] then [''execute_ui'', ''record_evidence''] else [])"

definition validate_grant_semantics :: "pydict \<Rightarrow> grant_source \<Rightarrow> unit result" where
  "validate_grant_semantics artifact s =
    (if dget artifact ''change_session_id'' \<noteq> PStr (gs_analysis_case_id s) then
       Inl (ValueError ''Approval Grant change session differs from the Case scope'')
     else
       rbind (dindex artifact ''allowed_actions'') (\<lambda>actions.
       if \<not> py_eq actions (PStrs (allowed_actions s)) then
         Inl (ValueError ''Approval Grant actions are not derived from the Edit Packet scope'')
       else
         rbind (dindex artifact ''allowed_test_command_refs'') (\<lambda>refs.
         if truthy refs \<and> gs_test_files s = [] then
           Inl (ValueError ''Approval Grant cannot allow test commands without approved test files'')
         else Inr ())))"

text \<open>The command templates of a profile: \<open>None\<close> when it has no list of them.\<close>

definition template_refs :: "pydict \<Rightarrow> string list option" where
  "template_refs profile =
    (case dget profile ''templates'' of
       PList ts \<Rightarrow> Some (concat (map (\<lambda>t. case t of
           PDict d \<Rightarrow> (case dget d ''command_ref'' of PStr r \<Rightarrow> [r] | _ \<Rightarrow> [])
         | _ \<Rightarrow> []) ts))
     | _ \<Rightarrow> None)"

definition unknown_templates :: "string list \<Rightarrow> string list \<Rightarrow> exn" where
  "unknown_templates requested available =
    ValueError (''Approval Grant references unknown command templates: ''
      @ py_repr (PStrs (sorted_set (filter (\<lambda>r. r \<notin> set available) requested))))"

definition validate_command_profile_binding :: "edit_db \<Rightarrow> pydict \<Rightarrow> unit result" where
  "validate_command_profile_binding db artifact =
    rbind (dindex artifact ''command_profile_version_id'') (\<lambda>version.
    case find (\<lambda>v. pv_profile_version_id v = py_str version) (ed_profile_versions db) of
      None \<Rightarrow> Inl (ValueError ''Approval Grant Command Profile Version does not exist'')
    | Some v \<Rightarrow>
        if pv_profile_type v \<noteq> ''CommandExecutionProfile''
           \<or> dget (pv_payload v) ''profile_id'' \<noteq> PStr (pv_profile_id v)
           \<or> dget (pv_payload v) ''profile_version'' \<noteq> PStr (pv_semantic_version v)
           \<or> pv_payload_digest v \<noteq> canonical_digest (PDict (pv_payload v)) then
          Inl (PersistenceConflictError
            (''Command Profile Version normalized identity differs: '' @ py_str version))
        else (case template_refs (pv_payload v) of
            None \<Rightarrow> Inl (PersistenceConflictError ''Command Profile Version has invalid templates'')
          | Some available \<Rightarrow>
              rbind (rbind (dindex artifact ''allowed_test_command_refs'') strings_of) (\<lambda>requested.
              if set requested \<subseteq> set available then Inr () else Inl (unknown_templates requested available))))"

section \<open>The log of a grant\<close>

definition find_grant :: "edit_db \<Rightarrow> string \<Rightarrow> grant_row option" where
  "find_grant db grant_id = find (\<lambda>g. gt_approval_grant_id g = grant_id) (ed_grants db)"

definition events_of :: "edit_db \<Rightarrow> string \<Rightarrow> grant_event_row list" where
  "events_of db grant_id = filter (\<lambda>e. ge_approval_grant_id e = grant_id) (ed_events db)"

definition grant_state :: "string list \<Rightarrow> int \<Rightarrow> int \<Rightarrow> string" where
  "grant_state events expires_at instant =
    (if ''revoked'' \<in> set events then ''revoked''
     else if ''completed'' \<in> set events then ''completed''
     else if expires_at \<le> instant then ''expired''
     else if ''edit_completed'' \<in> set events then ''ui_pending'' else ''active_editing'')"

definition event_digest :: "string \<Rightarrow> string \<Rightarrow> string \<Rightarrow> string \<Rightarrow> string \<Rightarrow> string \<Rightarrow> string" where
  "event_digest event_id grant_id project_id event_type actor reason =
    canonical_digest (PDict
      [(''event_id'', PStr event_id), (''grant_id'', PStr grant_id), (''project_id'', PStr project_id),
       (''event_type'', PStr event_type), (''actor'', PStr actor), (''reason'', PStr reason)])"

record grant_authorization =
  au_grant_id :: string
  au_project_id :: string
  au_analysis_case_id :: string
  au_edit_packet_id :: string
  au_impact_report_id :: string
  au_confirmation_id :: string
  au_repository_id :: string
  au_base_repository_revision :: string
  au_allowed_actions :: "string list"
  au_command_profile_version_id :: string
  au_allowed_test_command_refs :: "string list"
  au_allowed_ui_scenarios :: "string list"
  au_expires_at :: int
  au_state :: string

definition grant_columns :: "grant_row \<Rightarrow> pyval list" where
  "grant_columns g =
    [PStr (gt_project_id g), PStr (gt_analysis_case_id g), PStr (gt_edit_packet_id g), PStr (gt_impact_report_id g),
     PStr (gt_confirmation_id g), PStr (gt_repository_id g), PStr (gt_base_repository_revision g),
     gt_editable_files g, gt_read_only_files g, gt_test_files g, gt_allowed_actions g,
     gt_command_profile_version_id g, gt_allowed_test_command_refs g, gt_allowed_ui_scenarios g,
     gt_forbidden_globs g, gt_approved_by g, gt_out_of_scope_policy g]"

definition grant_keys :: "string list" where
  "grant_keys =
    [''project_id'', ''analysis_case_id'', ''edit_packet_id'', ''impact_report_id'', ''confirmation_id'',
     ''repository_id'', ''base_repository_revision'', ''editable_files'', ''read_only_files'', ''test_files'',
     ''allowed_actions'', ''command_profile_version_id'', ''allowed_test_command_refs'',
     ''allowed_ui_scenarios'', ''forbidden_globs'', ''approved_by'', ''out_of_scope_policy'']"

definition expected_grant_source :: "pydict \<Rightarrow> grant_source result" where
  "expected_grant_source artifact =
    rbind (mapM (dindex artifact) [''project_id'', ''analysis_case_id'', ''edit_packet_id'', ''impact_report_id'',
        ''confirmation_id'', ''repository_id'', ''base_repository_revision'']) (\<lambda>ids.
    rbind (mapM (\<lambda>k. rbind (dindex artifact k) strings_of) [''editable_files'', ''read_only_files'', ''test_files'',
        ''forbidden_globs'', ''allowed_ui_scenarios'']) (\<lambda>arrays.
      Inr \<lparr>gs_project_id = py_str (ids ! 0), gs_analysis_case_id = py_str (ids ! 1),
           gs_edit_packet_id = py_str (ids ! 2), gs_impact_report_id = py_str (ids ! 3),
           gs_confirmation_id = py_str (ids ! 4), gs_repository_id = py_str (ids ! 5),
           gs_base_repository_revision = py_str (ids ! 6), gs_editable_files = arrays ! 0,
           gs_read_only_files = arrays ! 1, gs_test_files = arrays ! 2, gs_forbidden_globs = arrays ! 3,
           gs_required_ui_scenario_refs = arrays ! 4\<rparr>))"

definition event_intact :: "grant_row \<Rightarrow> grant_event_row \<Rightarrow> bool" where
  "event_intact g e \<longleftrightarrow>
    ge_approval_grant_id e = gt_approval_grant_id g \<and> ge_project_id e = gt_project_id g
    \<and> ge_payload_digest e = event_digest (ge_event_id e) (ge_approval_grant_id e) (ge_project_id e)
        (ge_event_type e) (ge_actor e) (ge_reason e)"

definition grant_intact :: "edit_env \<Rightarrow> edit_db \<Rightarrow> grant_row \<Rightarrow> unit result" where
  "grant_intact env db g =
    (let grant_id = gt_approval_grant_id g
     in rbind (get_artifact env db grant_id) (\<lambda>artifact.
        case artifact of
          None \<Rightarrow> Inl (PersistenceConflictError
            (''Approval Grant normalized identity has no immutable Artifact: '' @ grant_id))
        | Some a \<Rightarrow>
            if dget a ''artifact_type'' \<noteq> PStr ''ApprovalGrant'' then
              Inl (PersistenceConflictError
                (''Approval Grant normalized identity has no immutable Artifact: '' @ grant_id))
            else
              rbind (mapM (dindex a) grant_keys) (\<lambda>identity.
              rbind (dindex a ''expires_at'') (\<lambda>expires.
              rbind (parse_timestamp (py_str expires)) (\<lambda>expires_at.
              if \<not> py_eq (PList identity) (PList (grant_columns g)) \<or> gt_expires_at g \<noteq> expires_at
                 \<or> gt_payload_digest g \<noteq> canonical_digest (PDict a) then
                Inl (PersistenceConflictError (''Approval Grant normalized identity differs: '' @ grant_id))
              else
                rbind (rbind (dindex a ''edit_packet_id'') (\<lambda>p. get_packet env db (py_str p))) (\<lambda>packet.
                case packet of
                  None \<Rightarrow> Inl (PersistenceConflictError (''Approval Grant Edit Packet is missing: '' @ grant_id))
                | Some p \<Rightarrow>
                    rbind (grant_source_of_packet p) (\<lambda>s.
                    rbind (expected_grant_source a) (\<lambda>expected.
                    if s \<noteq> expected then
                      Inl (PersistenceConflictError (''Approval Grant Packet scope differs: '' @ grant_id))
                    else
                      rbind (case validate_grant_semantics a s of
                          Inl (ValueError _) \<Rightarrow>
                            Inl (PersistenceConflictError (''Approval Grant derived scope differs: '' @ grant_id))
                        | r \<Rightarrow> r) (\<lambda>_. validate_command_profile_binding db a)))))))))"

definition inspect_grant :: "edit_env \<Rightarrow> edit_db \<Rightarrow> string \<Rightarrow> int \<Rightarrow> grant_authorization result" where
  "inspect_grant env db grant_id instant =
    (case find_grant db grant_id of
       None \<Rightarrow> Inl (ValueError ''Approval Grant does not exist'')
     | Some g \<Rightarrow>
         rbind (grant_intact env db g) (\<lambda>_.
         case find (\<lambda>e. \<not> event_intact g e) (events_of db grant_id) of
           Some e \<Rightarrow> Inl (PersistenceConflictError
             (''Approval Grant Event normalized identity differs: '' @ ge_event_id e))
         | None \<Rightarrow>
             if gt_command_profile_version_id g = PNone then
               Inl (RuntimeError ''Approval Grant has no bound Command Profile Version'')
             else rbind (mapM strings_of [gt_allowed_actions g, gt_allowed_test_command_refs g, gt_allowed_ui_scenarios g])
               (\<lambda>arrays.
               Inr \<lparr>au_grant_id = grant_id, au_project_id = gt_project_id g,
                    au_analysis_case_id = gt_analysis_case_id g, au_edit_packet_id = gt_edit_packet_id g,
                    au_impact_report_id = gt_impact_report_id g, au_confirmation_id = gt_confirmation_id g,
                    au_repository_id = gt_repository_id g,
                    au_base_repository_revision = gt_base_repository_revision g,
                    au_allowed_actions = arrays ! 0,
                    au_command_profile_version_id = py_str (gt_command_profile_version_id g),
                    au_allowed_test_command_refs = arrays ! 1, au_allowed_ui_scenarios = arrays ! 2,
                    au_expires_at = gt_expires_at g,
                    au_state = grant_state (map ge_event_type (events_of db grant_id)) (gt_expires_at g) instant\<rparr>)))"

definition lock_grant :: "edit_db \<Rightarrow> string \<Rightarrow> string \<Rightarrow> unit result" where
  "lock_grant db grant_id project_id =
    (case find_grant db grant_id of
       None \<Rightarrow> Inl (ValueError ''Approval Grant does not exist'')
     | Some g \<Rightarrow> if gt_project_id g \<noteq> project_id then Inl (ValueError ''Approval Grant project does not match'')
                else Inr ())"

text \<open>The row \<open>_assert_edit_source_current\<close> locks, and what it must be.\<close>

definition edit_source_current :: "edit_db \<Rightarrow> grant_authorization \<Rightarrow> bool" where
  "edit_source_current db g =
    (case find_packet db (au_edit_packet_id g) of
       None \<Rightarrow> False
     | Some p \<Rightarrow>
        (case (find_report db (pk_impact_report_id p), find_case db (pk_analysis_case_id p)) of
           (Some r, Some c) \<Rightarrow>
             (case find_graph db (ir_code_graph_snapshot_id r) (pk_project_id p) of
                None \<Rightarrow> False
              | Some gr \<Rightarrow>
                  pk_project_id p = au_project_id g \<and> pk_analysis_case_id p = au_analysis_case_id g
                  \<and> ir_project_id r = pk_project_id p \<and> ca_project_id c = pk_project_id p
                  \<and> pk_status p = ''active'' \<and> ir_status r = ''confirmed'' \<and> gr_is_current gr
                  \<and> gr_status gr = ''complete'' \<and> ca_status c = ''editing''
                  \<and> pk_base_repository_revision p = au_base_repository_revision g
                  \<and> ir_repository_revision r = au_base_repository_revision g
                  \<and> pk_impact_report_id p = au_impact_report_id g \<and> pk_confirmation_id p = au_confirmation_id g
                  \<and> pk_repository_id p = au_repository_id g)
         | _ \<Rightarrow> False))"

definition authorize_edit ::
    "edit_env \<Rightarrow> int \<Rightarrow> string \<Rightarrow> string \<Rightarrow> string \<Rightarrow> string \<Rightarrow> string \<Rightarrow> bool \<Rightarrow> edit_db
     \<Rightarrow> grant_authorization result" where
  "authorize_edit env instant grant_id project_id case_id packet_id required_action locked db =
    rbind (if locked then lock_grant db grant_id project_id else Inr ()) (\<lambda>_.
    rbind (inspect_grant env db grant_id instant) (\<lambda>g.
      if au_project_id g \<noteq> project_id \<or> au_analysis_case_id g \<noteq> case_id \<or> au_edit_packet_id g \<noteq> packet_id then
        Inl (ValueError ''Approval Grant does not match Edit Result scope'')
      else if au_state g \<noteq> ''active_editing'' then
        Inl (ValueError (''Approval Grant does not permit editing in state: '' @ au_state g))
      else if required_action \<notin> set (au_allowed_actions g) then
        Inl (ValueError (''Approval Grant does not allow action: '' @ required_action))
      else if \<not> edit_source_current db g then
        Inl (ValueError ''Approval Grant source is no longer current for editing'')
      else Inr g))"

definition insert_event :: "grant_event_row \<Rightarrow> edit_db \<Rightarrow> edit_db result" where
  "insert_event e db =
    (if list_ex (\<lambda>f. ge_event_id f = ge_event_id e) (ed_events db) then
       Inl (IntegrityError ''approval_grant_events_pkey'')
     else if ge_event_type e = ''edit_completed''
         \<and> list_ex (\<lambda>f. ge_event_type f = ''edit_completed'') (events_of db (ge_approval_grant_id e)) then
       Inl (IntegrityError ''approval_grant_events_edit_completed_unique'')
     else if ge_event_type e \<noteq> ''edit_completed''
         \<and> list_ex (\<lambda>f. ge_event_type f \<in> {''completed'', ''revoked''}) (events_of db (ge_approval_grant_id e)) then
       Inl (IntegrityError ''approval_grant_events_terminal_unique'')
     else Inr (db\<lparr>ed_events := ed_events db @ [e]\<rparr>))"

definition append_grant_event ::
    "edit_env \<Rightarrow> int \<Rightarrow> string \<Rightarrow> string \<Rightarrow> string \<Rightarrow> string \<Rightarrow> string \<Rightarrow> string \<Rightarrow> edit_db
     \<Rightarrow> (edit_db \<times> bool) result" where
  "append_grant_event env now event_id grant_id project_id event_type actor reason db =
    (if event_type \<notin> {''edit_completed'', ''completed'', ''revoked''} then
       Inl (ValueError ''Approval Grant event type is invalid'')
     else if list_ex blank [event_id, grant_id, project_id, actor, reason] then
       Inl (ValueError ''Approval Grant event fields must not be blank'')
     else
       let row = \<lparr>ge_event_id = event_id, ge_approval_grant_id = grant_id, ge_project_id = project_id,
             ge_event_type = event_type, ge_actor = actor, ge_reason = reason,
             ge_payload_digest = event_digest event_id grant_id project_id event_type actor reason\<rparr>
       in rbind (lock_grant db grant_id project_id) (\<lambda>_.
          case find (\<lambda>e. ge_event_id e = event_id) (ed_events db) of
            Some e \<Rightarrow>
              if e \<noteq> row then
                Inl (PersistenceConflictError (''Approval Grant Event has different content: '' @ event_id))
              else Inr (db, False)
          | None \<Rightarrow>
              rbind (inspect_grant env db grant_id now) (\<lambda>g.
              if au_project_id g \<noteq> project_id then
                Inl (ValueError ''Approval Grant Event project does not match'')
              else if event_type = ''edit_completed'' \<and> au_state g \<noteq> ''active_editing'' then
                Inl (ValueError ''Approval Grant edit completion requires active editing'')
              else if event_type \<noteq> ''edit_completed'' \<and> au_state g \<notin> {''active_editing'', ''ui_pending''} then
                Inl (ValueError ''Approval Grant is already terminal'')
              else rbind (insert_event row db) (\<lambda>db'. Inr (db', True)))))"

section \<open>Issuing\<close>

text \<open>\<open>_issue_source_identity\<close> against the locked row.\<close>

definition issue_source_current :: "edit_db \<Rightarrow> grant_source \<Rightarrow> int \<Rightarrow> int \<Rightarrow> bool" where
  "issue_source_current db s expires_at now =
    (case find_packet db (gs_edit_packet_id s) of
       None \<Rightarrow> False
     | Some p \<Rightarrow>
        (case (find_case db (pk_analysis_case_id p), find_report db (pk_impact_report_id p),
            find_confirmation db (pk_confirmation_id p) (pk_impact_report_id p) (pk_project_id p)) of
           (Some c, Some r, Some _) \<Rightarrow>
             (case find_graph db (ir_code_graph_snapshot_id r) (pk_project_id p) of
                None \<Rightarrow> False
              | Some g \<Rightarrow>
                  pk_project_id p = gs_project_id s \<and> ca_project_id c = pk_project_id p
                  \<and> ir_project_id r = pk_project_id p
                  \<and> pk_status p = ''active'' \<and> ca_status c = ''editing'' \<and> ir_status r = ''confirmed''
                  \<and> gr_is_current g \<and> gr_status g = ''complete''
                  \<and> pk_analysis_case_id p = gs_analysis_case_id s \<and> pk_impact_report_id p = gs_impact_report_id s
                  \<and> pk_confirmation_id p = gs_confirmation_id s \<and> pk_repository_id p = gs_repository_id s
                  \<and> pk_base_repository_revision p = gs_base_repository_revision s
                  \<and> py_eq (PList [pk_editable_files p, pk_read_only_files p, pk_test_files p,
                       pk_forbidden_globs p, pk_required_ui_scenario_refs p])
                      (PList (map PStrs [gs_editable_files s, gs_read_only_files s, gs_test_files s,
                       gs_forbidden_globs s, gs_required_ui_scenario_refs s]))
                  \<and> ir_repository_id r = gs_repository_id s
                  \<and> ir_repository_revision r = gs_base_repository_revision s \<and> now < expires_at)
         | _ \<Rightarrow> False))"

text \<open>The constraints of \<open>approval_grants\<close> (migrations 0018 and 0069) that the checks before the insertion do
  not give.\<close>

definition insert_grant :: "grant_row \<Rightarrow> int \<Rightarrow> edit_db \<Rightarrow> edit_db result" where
  "insert_grant g now db =
    (if find_grant db (gt_approval_grant_id g) \<noteq> None then Inl (IntegrityError ''approval_grants_pkey'')
     else if list_ex (\<lambda>h. gt_edit_packet_id h = gt_edit_packet_id g) (ed_grants db) then
       Inl (IntegrityError ''approval_grants_packet_unique'')
     else if btrim_blank (gt_base_repository_revision g) \<or> btrim_blank (py_str (gt_approved_by g)) then
       Inl (IntegrityError ''approval_grants_fields_not_blank'')
     else if gt_out_of_scope_policy g \<noteq> PStr ''collect_and_request_once'' then
       Inl (IntegrityError ''approval_grants_policy_valid'')
     else if \<not> list_all (\<lambda>v. array_length v \<noteq> None) [gt_editable_files g, gt_read_only_files g, gt_test_files g,
           gt_allowed_actions g, gt_allowed_test_command_refs g, gt_allowed_ui_scenarios g, gt_forbidden_globs g]
         \<or> array_length (gt_allowed_actions g) = Some 0 \<or> array_length (gt_forbidden_globs g) = Some 0 then
       Inl (IntegrityError ''approval_grants_arrays_valid'')
     else if gt_expires_at g \<le> now then Inl (IntegrityError ''approval_grants_expiry_valid'')
     else Inr (db\<lparr>ed_grants := ed_grants db @ [g]\<rparr>))"

definition new_grant_row :: "grant_source \<Rightarrow> string \<Rightarrow> pyval list \<Rightarrow> int \<Rightarrow> string \<Rightarrow> grant_row" where
  "new_grant_row s grant_id vs expires_at digest =
    \<lparr>gt_approval_grant_id = grant_id, gt_project_id = gs_project_id s,
     gt_analysis_case_id = gs_analysis_case_id s, gt_edit_packet_id = gs_edit_packet_id s,
     gt_impact_report_id = gs_impact_report_id s, gt_confirmation_id = gs_confirmation_id s,
     gt_repository_id = gs_repository_id s, gt_base_repository_revision = gs_base_repository_revision s,
     gt_editable_files = vs ! 0, gt_read_only_files = vs ! 1, gt_test_files = vs ! 2,
     gt_allowed_actions = vs ! 3, gt_command_profile_version_id = vs ! 4,
     gt_allowed_test_command_refs = vs ! 5, gt_allowed_ui_scenarios = vs ! 6, gt_forbidden_globs = vs ! 7,
     gt_approved_by = vs ! 8, gt_expires_at = expires_at, gt_out_of_scope_policy = vs ! 9,
     gt_payload_digest = digest\<rparr>"

definition grant_insert_keys :: "string list" where
  "grant_insert_keys =
    [''editable_files'', ''read_only_files'', ''test_files'', ''allowed_actions'', ''command_profile_version_id'',
     ''allowed_test_command_refs'', ''allowed_ui_scenarios'', ''forbidden_globs'', ''approved_by'',
     ''out_of_scope_policy'']"

definition artifact_in_scope :: "pydict \<Rightarrow> grant_source \<Rightarrow> bool" where
  "artifact_in_scope a s \<longleftrightarrow>
    map (dget a) [''project_id'', ''analysis_case_id'', ''edit_packet_id'', ''impact_report_id'',
        ''confirmation_id'', ''repository_id'', ''base_repository_revision'']
      = map PStr [gs_project_id s, gs_analysis_case_id s, gs_edit_packet_id s, gs_impact_report_id s,
          gs_confirmation_id s, gs_repository_id s, gs_base_repository_revision s]
    \<and> py_eq (PList (map (dget a) [''editable_files'', ''read_only_files'', ''test_files'', ''forbidden_globs'',
        ''allowed_ui_scenarios'']))
      (PList (map PStrs [gs_editable_files s, gs_read_only_files s, gs_test_files s, gs_forbidden_globs s,
          gs_required_ui_scenario_refs s]))
    \<and> dget a ''change_session_id'' = PStr (gs_analysis_case_id s)"

definition require_packet_source :: "edit_env \<Rightarrow> edit_db \<Rightarrow> grant_source \<Rightarrow> string \<Rightarrow> packet_record result" where
  "require_packet_source env db s missing =
    rbind (get_packet env db (gs_edit_packet_id s)) (\<lambda>packet. case packet of
      None \<Rightarrow> Inl (ValueError missing)
    | Some p \<Rightarrow>
        rbind (grant_source_of_packet p) (\<lambda>actual.
        if actual \<noteq> s then
          Inl (PersistenceConflictError (''Approval Grant Packet source differs: '' @ gs_edit_packet_id s))
        else Inr p))"

definition issue_new ::
    "edit_env \<Rightarrow> int \<Rightarrow> pydict \<Rightarrow> grant_source \<Rightarrow> string \<Rightarrow> int \<Rightarrow> edit_db
     \<Rightarrow> (edit_db \<times> bool \<times> string \<times> string) result" where
  "issue_new env now artifact s grant_id expires_at db =
    (if \<not> issue_source_current db s expires_at now then
       Inl (ValueError ''Approval Grant source became stale before issuance'')
     else
       rbind (get_packet env db (gs_edit_packet_id s)) (\<lambda>locked.
       if map_option (\<lambda>p. (pr_status p, pr_impact_report_status p)) locked \<noteq> Some (''active'', ''confirmed'') then
         Inl (ValueError ''Approval Grant source became stale before issuance'')
       else
         rbind (require_packet_source env db s ''Approval Grant source became stale before issuance'') (\<lambda>_.
         rbind (validate_command_profile_binding db artifact) (\<lambda>_.
         rbind (store_artifact env grant_id (gs_project_id s) (gs_analysis_case_id s) artifact db) (\<lambda>db1.
         rbind (mapM (dindex artifact) grant_insert_keys) (\<lambda>vs.
         rbind (insert_grant (new_grant_row s grant_id vs expires_at (canonical_digest (PDict artifact))) now db1)
           (\<lambda>db2. Inr (db2, True, grant_id, ''active_editing''))))))))"

definition issue_grant ::
    "edit_env \<Rightarrow> int \<Rightarrow> pydict \<Rightarrow> grant_source \<Rightarrow> edit_db \<Rightarrow> (edit_db \<times> bool \<times> string \<times> string) result" where
  "issue_grant env now artifact s db =
    rbind (ee_validate_artifact env artifact) (\<lambda>_.
    if \<not> artifact_in_scope artifact s then
      Inl (ValueError ''Approval Grant Artifact is outside the active Edit Packet scope'')
    else
      rbind (validate_grant_semantics artifact s) (\<lambda>_.
      rbind (dindex artifact ''approval_grant_id'') (\<lambda>grant.
      rbind (rbind (dindex artifact ''expires_at'') (\<lambda>v. parse_timestamp (py_str v))) (\<lambda>expires_at.
      let grant_id = py_str grant
      in rbind (require_packet_source env db s ''Approval Grant Edit Packet disappeared before issuance'') (\<lambda>_.
         rbind (get_artifact env db grant_id) (\<lambda>existing. case existing of
           None \<Rightarrow> issue_new env now artifact s grant_id expires_at db
         | Some a \<Rightarrow>
             if \<not> py_eq (PDict a) (PDict artifact) then
               Inl (PersistenceConflictError (''Approval Grant identity has different content: '' @ grant_id))
             else
               rbind (inspect_grant env db grant_id now) (\<lambda>g. Inr (db, False, grant_id, au_state g))))))))"

section \<open>The approval service\<close>

record grant_request =
  rq_grant_id :: string
  rq_project_id :: string
  rq_analysis_case_id :: string
  rq_edit_packet_id :: string
  rq_approved_by :: string
  rq_expires_at :: datetime
  rq_command_profile_binding_key :: string
  rq_allowed_test_command_refs :: "string list"

text \<open>The instant of an aware time, as a comparison of aware times reads it.\<close>

definition new_grant_request :: "int \<Rightarrow> grant_request \<Rightarrow> grant_request result" where
  "new_grant_request now r =
    (if list_ex blank [rq_grant_id r, rq_project_id r, rq_analysis_case_id r, rq_edit_packet_id r,
         rq_approved_by r, rq_command_profile_binding_key r] then
       Inl (ValueError ''Approval Grant request fields must not be blank'')
     else case dt_utcoffset (rq_expires_at r) of
       None \<Rightarrow> Inl (ValueError ''Approval Grant expires_at must include a timezone'')
     | Some offset \<Rightarrow>
         if dt_wall (rq_expires_at r) - offset \<le> now then
           Inl (ValueError ''Approval Grant expires_at must be in the future'')
         else if \<not> distinct (rq_allowed_test_command_refs r) \<or> list_ex blank (rq_allowed_test_command_refs r) then
           Inl (ValueError ''Approval Grant test command refs must be unique and non-blank'')
         else Inr r)"

definition expiry_text :: "grant_request \<Rightarrow> string result" where
  "expiry_text r =
    rbind (astimezone_utc (dt_wall (rq_expires_at r))
      (case dt_utcoffset (rq_expires_at r) of None \<Rightarrow> 0 | Some offset \<Rightarrow> offset)) (\<lambda>t. Inr (utc_isoformat t))"

definition grant_artifact :: "grant_request \<Rightarrow> grant_source \<Rightarrow> string \<Rightarrow> string \<Rightarrow> pydict" where
  "grant_artifact r s profile_version_id expires_at =
    [(''artifact_type'', PStr ''ApprovalGrant''), (''schema_version'', PStr ''v1''),
     (''approval_grant_id'', PStr (rq_grant_id r)), (''change_session_id'', PStr (gs_analysis_case_id s)),
     (''analysis_case_id'', PStr (gs_analysis_case_id s)), (''edit_packet_id'', PStr (gs_edit_packet_id s)),
     (''impact_report_id'', PStr (gs_impact_report_id s)), (''confirmation_id'', PStr (gs_confirmation_id s)),
     (''project_id'', PStr (gs_project_id s)), (''repository_id'', PStr (gs_repository_id s)),
     (''base_repository_revision'', PStr (gs_base_repository_revision s)),
     (''editable_files'', PStrs (gs_editable_files s)), (''read_only_files'', PStrs (gs_read_only_files s)),
     (''test_files'', PStrs (gs_test_files s)), (''allowed_actions'', PStrs (allowed_actions s)),
     (''command_profile_version_id'', PStr profile_version_id),
     (''allowed_test_command_refs'', PStrs (rq_allowed_test_command_refs r)),
     (''allowed_ui_scenarios'', PStrs (gs_required_ui_scenario_refs s)),
     (''forbidden_globs'', PStrs (gs_forbidden_globs s)), (''approved_by'', PStr (rq_approved_by r)),
     (''expires_at'', PStr expires_at), (''out_of_scope_policy'', PStr ''collect_and_request_once'')]"

definition replay_matches :: "pydict \<Rightarrow> grant_request \<Rightarrow> string \<Rightarrow> bool" where
  "replay_matches a r expires_at \<longleftrightarrow>
    map (dget a) [''project_id'', ''analysis_case_id'', ''edit_packet_id'', ''approved_by'', ''expires_at'']
      = map PStr [rq_project_id r, rq_analysis_case_id r, rq_edit_packet_id r, rq_approved_by r, expires_at]
    \<and> py_eq (dget a ''allowed_test_command_refs'') (PStrs (rq_allowed_test_command_refs r))"

text \<open>\<open>active_profile\<close> is \<open>ProfileRepository.get_active\<close>: the version and the payload of a binding.\<close>

definition run_approval ::
    "edit_env \<Rightarrow> (string \<Rightarrow> string \<Rightarrow> (string \<times> pydict) option result) \<Rightarrow> int \<Rightarrow> grant_request \<Rightarrow> edit_db
     \<Rightarrow> (edit_db \<times> pydict \<times> bool \<times> string \<times> string) result" where
  "run_approval env active_profile now r db =
    rbind (load_grant_artifact env db (rq_grant_id r)) (\<lambda>existing. case existing of
      Some a \<Rightarrow>
        rbind (load_replay_source env db (rq_project_id r) (rq_analysis_case_id r) (rq_edit_packet_id r)) (\<lambda>s.
        rbind (expiry_text r) (\<lambda>expires_at.
        if \<not> replay_matches a r expires_at then
          Inl (ValueError ''Approval Grant replay request differs from immutable Artifact'')
        else rbind (issue_grant env now a s db) (\<lambda>(db', issued). Inr (db', a, issued))))
    | None \<Rightarrow>
        rbind (load_grant_source env db (rq_project_id r) (rq_analysis_case_id r) (rq_edit_packet_id r)) (\<lambda>s.
        rbind (active_profile (rq_project_id r) (rq_command_profile_binding_key r)) (\<lambda>binding. case binding of
          None \<Rightarrow> Inl (ValueError ''Approval Grant requires an active Command Execution Profile'')
        | Some (version, profile) \<Rightarrow>
            if dget profile ''profile_type'' \<noteq> PStr ''CommandExecutionProfile'' then
              Inl (ValueError ''Approval Grant requires an active Command Execution Profile'')
            else (case template_refs profile of
                None \<Rightarrow> Inl (RuntimeError ''Validated Command Execution Profile lost its templates'')
              | Some available \<Rightarrow>
                  if \<not> set (rq_allowed_test_command_refs r) \<subseteq> set available then
                    Inl (unknown_templates (rq_allowed_test_command_refs r) available)
                  else
                    rbind (expiry_text r) (\<lambda>expires_at.
                    let a = grant_artifact r s version expires_at
                    in rbind (ee_validate_artifact env a) (\<lambda>_.
                       rbind (issue_grant env now a s db) (\<lambda>(db', issued). Inr (db', a, issued))))))))"

definition revoke_grant ::
    "edit_env \<Rightarrow> int \<Rightarrow> string \<Rightarrow> string \<Rightarrow> string \<Rightarrow> string \<Rightarrow> string \<Rightarrow> edit_db \<Rightarrow> (edit_db \<times> bool) result" where
  "revoke_grant env now event_id grant_id project_id revoked_by reason db =
    append_grant_event env now event_id grant_id project_id ''revoked'' revoked_by reason db"

end
