(* ===== verification/ChangeCoverage.thy ===== *)
theory ChangeCoverage
  imports CanonicalJson Conventions
begin

text \<open>
  The gate on changed lines of \<open>application/change_coverage.py\<close>: the lines Git reports as added or
  modified are intersected with the executable and covered lines a coverage tool reported, and the
  report passes only from 80 percent on.  A set of lines is its sorted list without repetitions, so
  that \<open>len\<close> is \<open>length\<close> and \<open>sorted\<close> does nothing; the percentage is rounded to a double as the two
  float operations of the code round it.
\<close>

section \<open>Lines and paths\<close>

type_synonym line_table = "(string \<times> int list) list"

definition MINIMUM_CHANGED_LINE_COVERAGE_PERCENT :: rat where
  "MINIMUM_CHANGED_LINE_COVERAGE_PERCENT = 80"

definition coverage_safe_path :: "string \<Rightarrow> string result" where
  "coverage_safe_path value =
    (if value = [] \<or> \<not> safe_relative value then
       Inl (ValueError (''Coverage path must be a safe repository-relative path: '' @ value))
     else Inr (path_text value))"

text \<open>\<open>label.title()\<close> of the three labels.\<close>

fun title_label :: "string \<Rightarrow> string" where
  "title_label [] = []"
| "title_label (c # cs) =
     (if 97 \<le> (of_char c :: nat) \<and> (of_char c :: nat) \<le> 122 then char_of ((of_char c :: nat) - 32) # cs else c # cs)"

definition add_line_entry :: "string \<Rightarrow> line_table \<Rightarrow> string \<times> int list \<Rightarrow> line_table result" where
  "add_line_entry label result entry =
    rbind (coverage_safe_path (fst entry)) (\<lambda>path.
      if path \<in> set (map fst result) then
        Inl (ValueError (''Duplicate '' @ label @ ''-line path: '' @ path))
      else if \<not> distinct (snd entry) \<or> list_ex (\<lambda>line. line < 1) (snd entry) then
        Inl (ValueError (title_label label @ '' lines must be unique positive integers: '' @ path))
      else Inr (result @ [(path, sorted_set (snd entry))]))"

definition line_map :: "line_table \<Rightarrow> string \<Rightarrow> line_table result" where
  "line_map values label = foldM (add_line_entry label) [] values"

definition lines_of :: "line_table \<Rightarrow> string \<Rightarrow> int list" where
  "lines_of m path = (case map_of m path of None \<Rightarrow> [] | Some ls \<Rightarrow> ls)"

definition test_directories :: "string list" where
  "test_directories = [''test'', ''tests'', ''__tests__'']"

definition source_suffixes :: "string list" where
  "source_suffixes =
    [''.c'', ''.cc'', ''.cpp'', ''.cs'', ''.go'', ''.java'', ''.js'', ''.jsx'', ''.kt'', ''.kts'',
     ''.php'', ''.py'', ''.rb'', ''.rs'', ''.scala'', ''.ts'', ''.tsx'']"

definition is_source_path :: "text_tables \<Rightarrow> string \<Rightarrow> bool" where
  "is_source_path u path \<longleftrightarrow>
    \<not> list_ex (\<lambda>part. lower u part \<in> set test_directories) (path_parts path)
    \<and> \<not> list_ex (\<lambda>marker. is_substring marker (lower u (path_name path))) [''.test.'', ''.spec.'']
    \<and> lower u (path_suffix path) \<in> set source_suffixes"

section \<open>Evidence of a coverage tool\<close>

record coverage_evidence =
  ce_evidence_refs :: "string list"
  ce_executable_lines :: line_table
  ce_covered_lines :: line_table
  ce_minimum_coverage_percent :: rat

definition new_coverage_evidence :: "coverage_evidence \<Rightarrow> coverage_evidence result" where
  "new_coverage_evidence e =
    (if \<not> (MINIMUM_CHANGED_LINE_COVERAGE_PERCENT \<le> ce_minimum_coverage_percent e
          \<and> ce_minimum_coverage_percent e \<le> 100) then
       Inl (ValueError ''Changed-line coverage threshold must be between 80 and 100'')
     else if ce_evidence_refs e = [] \<or> \<not> distinct (ce_evidence_refs e) then
       Inl (ValueError ''Changed-line coverage evidence refs must be non-empty and unique'')
     else if list_ex blank (ce_evidence_refs e) then
       Inl (ValueError ''Changed-line coverage evidence refs must not be blank'')
     else
       rbind (line_map (ce_executable_lines e) ''executable'') (\<lambda>executable.
       rbind (line_map (ce_covered_lines e) ''covered'') (\<lambda>covered.
         if \<not> list_all (\<lambda>path. path \<in> set (map fst executable)) (map fst covered) then
           Inl (ValueError ''Covered-line paths must exist in executable-line evidence'')
         else case find (\<lambda>(path, ls). \<not> list_all (\<lambda>l. l \<in> set (lines_of executable path)) ls) covered of
             Some (path, ls) \<Rightarrow> Inl (ValueError (''Covered lines are not executable: '' @ path))
           | None \<Rightarrow> Inr e)))"

text \<open>\<open>int(line)\<close> of a value; a text is read with ASCII digits, an optional sign and single underscores
  between digits.\<close>

fun underscored :: "string \<Rightarrow> string option" where
  "underscored [] = None"
| "underscored [c] = (if c = CHR ''_'' then None else Some [c])"
| "underscored (c # d # cs) =
     (if c = CHR ''_'' then None
      else map_option ((#) c) (underscored (if d = CHR ''_'' then cs else d # cs)))"

definition int_text :: "string \<Rightarrow> int result" where
  "int_text s =
    (let t = py_strip s; sign = (if starts_with ''-'' t then - 1 else 1);
       body = (if starts_with ''-'' t \<or> starts_with ''+'' t then drop 1 t else t)
     in case underscored body of
          Some ds \<Rightarrow> if is_digits ds then Inr (sign * int (digits_value ds))
                     else Inl (ValueError ''invalid literal for int() with base 10'')
        | None \<Rightarrow> Inl (ValueError ''invalid literal for int() with base 10''))"

fun line_int :: "pyval \<Rightarrow> int result" where
  "line_int (PInt i) = Inr i"
| "line_int (PBool b) = Inr (if b then 1 else 0)"
| "line_int (PFloat q) = Inr (if 0 \<le> q then \<lfloor>q\<rfloor> else \<lceil>q\<rceil>)"
| "line_int (PStr s) = int_text s"
| "line_int v = Inl (TypeError ''int() argument must be a string, a bytes-like object or a real number'')"

definition mapping_lines :: "pyval \<Rightarrow> line_table result" where
  "mapping_lines value =
    (case value of
       PDict d \<Rightarrow> mapM (\<lambda>(path, ls). case ls of
           PList vs \<Rightarrow> rbind (mapM line_int vs) (\<lambda>ns. Inr (path, ns))
         | _ \<Rightarrow> Inl (ValueError (''Coverage lines for '' @ path @ '' must be an array''))) (sort_key fst d)
     | _ \<Rightarrow> Inl (ValueError ''Coverage line maps must be objects''))"

definition coverage_evidence_from_dict :: "text_tables \<Rightarrow> pydict \<Rightarrow> coverage_evidence result" where
  "coverage_evidence_from_dict u value =
    rbind (py_iter (dget_or value ''evidence_refs'' (PList []))) (\<lambda>refs.
    rbind (mapping_lines (dget_or value ''executable_lines'' (PDict []))) (\<lambda>executable.
    rbind (mapping_lines (dget_or value ''covered_lines'' (PDict []))) (\<lambda>covered.
    rbind (py_float u (dget_or value ''minimum_coverage_percent''
        (PFloat MINIMUM_CHANGED_LINE_COVERAGE_PERCENT))) (\<lambda>minimum.
      new_coverage_evidence \<lparr>ce_evidence_refs = map py_str refs, ce_executable_lines = executable,
        ce_covered_lines = covered, ce_minimum_coverage_percent = minimum\<rparr>))))"

section \<open>The report\<close>

record file_coverage =
  fc_path :: string
  fc_changed_lines :: "int list"
  fc_covered_changed_lines :: "int list"
  fc_uncovered_changed_lines :: "int list"

definition file_result :: "string \<Rightarrow> int list \<Rightarrow> int list \<Rightarrow> int list \<Rightarrow> file_coverage" where
  "file_result path changed executable covered =
    (let changed_executable = filter (\<lambda>l. l \<in> set executable) changed
     in \<lparr>fc_path = path, fc_changed_lines = changed_executable,
         fc_covered_changed_lines = filter (\<lambda>l. l \<in> set covered) changed_executable,
         fc_uncovered_changed_lines = filter (\<lambda>l. l \<notin> set covered) changed_executable\<rparr>)"

abbreviation PInts :: "int list \<Rightarrow> pyval" where
  "PInts is \<equiv> PList (map PInt is)"

definition file_dict :: "file_coverage \<Rightarrow> pyval" where
  "file_dict f = PDict
    [(''path'', PStr (fc_path f)),
     (''changed_line_count'', PInt (int (length (fc_changed_lines f)))),
     (''covered_changed_line_count'', PInt (int (length (fc_covered_changed_lines f)))),
     (''changed_lines'', PInts (fc_changed_lines f)),
     (''covered_changed_lines'', PInts (fc_covered_changed_lines f)),
     (''uncovered_changed_lines'', PInts (fc_uncovered_changed_lines f))]"

definition changed_count :: "file_coverage list \<Rightarrow> nat" where
  "changed_count files = sum_list (map (\<lambda>f. length (fc_changed_lines f)) files)"

definition covered_count :: "file_coverage list \<Rightarrow> nat" where
  "covered_count files = sum_list (map (\<lambda>f. length (fc_covered_changed_lines f)) files)"

definition coverage_percent :: "file_coverage list \<Rightarrow> rat" where
  "coverage_percent files =
    (if changed_count files = 0 then 100
     else round_double (round_double (of_nat (covered_count files) * 100) / of_nat (changed_count files)))"

text \<open>\<open>f"{value:.2f}".rstrip("0")\<close>, or the integer.\<close>

definition number_text :: "rat \<Rightarrow> string" where
  "number_text value =
    (if of_int \<lfloor>value\<rfloor> = value then show_int \<lfloor>value\<rfloor>
     else let m = round_half_even (value * 100)
       in rev (dropWhile (\<lambda>c. c = CHR ''0'') (rev (show_int (m div 100) @ ''.'' @ zero_pad 2 (m mod 100)))))"

record coverage_judgement =
  cj_threshold :: rat
  cj_files :: "file_coverage list"
  cj_evidence_refs :: "string list"
  cj_status :: string
  cj_blockers :: "string list"

text \<open>What \<open>evaluate_changed_line_coverage\<close> hands to \<open>_report\<close>.\<close>

definition source_with_lines :: "text_tables \<Rightarrow> line_table \<Rightarrow> string list \<Rightarrow> string list" where
  "source_with_lines u git_lines changed_paths =
    sort (filter (\<lambda>path. lines_of git_lines path \<noteq> []) (sort (filter (is_source_path u) changed_paths)))"

definition threshold_blockers :: "rat \<Rightarrow> file_coverage list \<Rightarrow> string list" where
  "threshold_blockers minimum files =
    (if coverage_percent files < minimum then
       (''Changed-line coverage: '' @ number_text (coverage_percent files) @ ''% < '' @ number_text minimum @ ''%'')
       # concat (map (\<lambda>f. map (\<lambda>l. ''Uncovered changed line: '' @ fc_path f @ '':'' @ show_int l)
           (fc_uncovered_changed_lines f)) files)
     else [])"

definition judge_changed_lines ::
    "text_tables \<Rightarrow> line_table \<Rightarrow> string list \<Rightarrow> coverage_evidence option \<Rightarrow> coverage_judgement result" where
  "judge_changed_lines u changed_lines changed_paths evidence =
    rbind (line_map changed_lines ''changed'') (\<lambda>git_lines.
    let sources = source_with_lines u git_lines changed_paths
    in if sources = [] then
         Inr \<lparr>cj_threshold = (case evidence of None \<Rightarrow> MINIMUM_CHANGED_LINE_COVERAGE_PERCENT
                | Some e \<Rightarrow> ce_minimum_coverage_percent e),
              cj_files = [],
              cj_evidence_refs = (case evidence of None \<Rightarrow> [] | Some e \<Rightarrow> ce_evidence_refs e),
              cj_status = ''not_required'', cj_blockers = []\<rparr>
       else case evidence of
         None \<Rightarrow>
           Inr \<lparr>cj_threshold = MINIMUM_CHANGED_LINE_COVERAGE_PERCENT,
                cj_files = map (\<lambda>path. file_result path (lines_of git_lines path) (lines_of git_lines path) []) sources,
                cj_evidence_refs = [], cj_status = ''missing'',
                cj_blockers = [''Changed-line coverage evidence is missing'']\<rparr>
       | Some e \<Rightarrow>
           rbind (line_map (ce_executable_lines e) ''executable'') (\<lambda>executable.
           rbind (line_map (ce_covered_lines e) ''covered'') (\<lambda>covered.
           let missing_paths = sorted_set (filter (\<lambda>path. path \<notin> set (map fst executable)) sources);
               files = map (\<lambda>path. file_result path (lines_of git_lines path)
                  (if path \<in> set missing_paths then lines_of git_lines path else lines_of executable path)
                  (lines_of covered path)) sources;
               blockers = map (\<lambda>path. ''Coverage evidence does not include changed source file: '' @ path) missing_paths
                 @ threshold_blockers (ce_minimum_coverage_percent e) files
           in Inr \<lparr>cj_threshold = ce_minimum_coverage_percent e, cj_files = files,
                   cj_evidence_refs = ce_evidence_refs e,
                   cj_status = (if blockers = [] then ''passed'' else ''failed''), cj_blockers = blockers\<rparr>)))"

definition coverage_report_id :: "string \<Rightarrow> string \<Rightarrow> string \<Rightarrow> coverage_judgement \<Rightarrow> string" where
  "coverage_report_id edit_result_id base result' j =
    ''changed-line-coverage-'' @ take 24 (sha256_hex (json_dumps (PDict
      [(''edit_result_id'', PStr edit_result_id), (''base'', PStr base), (''result'', PStr result'),
       (''threshold'', PFloat (cj_threshold j)), (''files'', PList (map file_dict (cj_files j))),
       (''evidence_refs'', PStrs (cj_evidence_refs j)), (''status'', PStr (cj_status j)),
       (''blocking_reasons'', PStrs (cj_blockers j))])))"

definition coverage_report ::
    "string \<Rightarrow> string \<Rightarrow> string \<Rightarrow> string \<Rightarrow> coverage_judgement \<Rightarrow> pydict" where
  "coverage_report edit_result_id project_id base result' j =
    [(''artifact_type'', PStr ''ChangedLineCoverageReport''), (''schema_version'', PStr ''v1''),
     (''changed_line_coverage_report_id'', PStr (coverage_report_id edit_result_id base result' j)),
     (''edit_result_id'', PStr edit_result_id), (''project_id'', PStr project_id),
     (''base_repository_revision'', PStr base), (''result_repository_revision'', PStr result'),
     (''minimum_coverage_percent'', PFloat (cj_threshold j)),
     (''changed_line_count'', PInt (int (changed_count (cj_files j)))),
     (''covered_changed_line_count'', PInt (int (covered_count (cj_files j)))),
     (''coverage_percent'', PFloat (coverage_percent (cj_files j))),
     (''files'', PList (map file_dict (cj_files j))),
     (''evidence_refs'', PStrs (sort (cj_evidence_refs j))), (''status'', PStr (cj_status j)),
     (''blocking_reasons'', PStrs (sort (cj_blockers j)))]"

definition evaluate_changed_line_coverage ::
    "text_tables \<Rightarrow> string \<Rightarrow> string \<Rightarrow> string \<Rightarrow> string \<Rightarrow> line_table \<Rightarrow> string list
     \<Rightarrow> coverage_evidence option \<Rightarrow> pydict result" where
  "evaluate_changed_line_coverage u edit_result_id project_id base result' changed_lines changed_paths evidence =
    rbind (judge_changed_lines u changed_lines changed_paths evidence) (\<lambda>j.
      Inr (coverage_report edit_result_id project_id base result' j))"

section \<open>Rounding\<close>

lemma bit_length_pos: "0 < n \<Longrightarrow> 0 < bit_length n"
  by (simp add: bit_length.simps[of n])

lemma floor_log2_small: "0 < q \<Longrightarrow> q < 2 ^ k \<Longrightarrow> floor_log2 q < int k"
proof (cases "1 \<le> q")
  case True
  assume "q < 2 ^ k"
  then have "of_int \<lfloor>q\<rfloor> < (of_int (2 ^ k) :: rat)" by (simp add: floor_less_iff order_le_less_trans[OF of_int_floor_le])
  then have "\<lfloor>q\<rfloor> < 2 ^ k" by (simp only: of_int_less_iff)
  moreover have "0 < \<lfloor>q\<rfloor>" using True by simp
  ultimately have "(2::int) ^ (bit_length \<lfloor>q\<rfloor> - 1) < 2 ^ k" and "0 < bit_length \<lfloor>q\<rfloor>"
    using bit_length_bounds[of "\<lfloor>q\<rfloor>"] bit_length_pos[of "\<lfloor>q\<rfloor>"] by linarith+
  then have "bit_length \<lfloor>q\<rfloor> - 1 < k" by (simp add: power_strict_increasing_iff)
  then show ?thesis using True \<open>0 < bit_length _\<close> by (simp add: floor_log2_def)
next
  case False
  assume "0 < q" "q < 2 ^ k"
  have "0 < bit_length (\<lceil>1 / q\<rceil> - 1)" 
  proof -
    have "1 < 1 / q" using False \<open>0 < q\<close> by simp
    then have "0 < \<lceil>1 / q\<rceil> - 1" by linarith
    then show ?thesis by (rule bit_length_pos)
  qed
  then show ?thesis using False by (simp add: floor_log2_def)
qed

lemma round_double_error:
  assumes "0 < q" "q < 2 ^ 7"
  shows "\<bar>round_double q - q\<bar> \<le> 1 / 2 ^ 47"
proof -
  let ?e = "max (floor_log2 q - 52) (- 1074)" let ?unit = "2 powi ?e :: rat"
  have "?e \<le> - 46" using floor_log2_small[OF assms] by simp
  then have unit: "0 < ?unit" "?unit \<le> 2 powi (- 46)" by (simp, intro power_int_increasing) simp_all
  have scaled: "\<bar>of_int (round_half_even (q / v)) * v - q\<bar> \<le> 1 / 2 * v" if "0 < v" for v :: rat
  proof -
    have "of_int (round_half_even (q / v)) * v - q = (of_int (round_half_even (q / v)) - q / v) * v"
      using that by (simp add: left_diff_distrib)
    then show ?thesis
      using that mult_right_mono[OF round_half_even_error[of "q / v"], of v] by (simp add: abs_mult)
  qed
  have "\<bar>round_double q - q\<bar> \<le> 1 / 2 * ?unit"
    using scaled[OF unit(1)] assms by (simp add: round_double_def Let_def)
  also have "\<dots> \<le> 1 / 2 * 2 powi (- 46)" using unit by simp
  finally show ?thesis by (simp add: power_int_def power_one_over)
qed

lemma round_double_int:
  assumes "0 < m" "m < 2 ^ 53"
  shows "round_double (of_int m) = of_int m"
proof -
  have b: "floor_log2 (of_int m) \<le> 52" "- 1 \<le> floor_log2 (of_int m)"
    using floor_log2_small[of "of_int m" 53] assms by (auto simp: floor_log2_def)
  define k where "k = nat (52 - floor_log2 (of_int m))"
  have e: "max (floor_log2 (of_int m) - 52) (- 1074) = - int k" using b by (simp add: k_def)
  have "of_int m / 2 powi (- int k) = (of_int (m * 2 ^ k) :: rat)"
    by (simp add: power_int_minus field_simps)
  then have "round_half_even (of_int m / 2 powi (- int k)) = m * 2 ^ k"
    by (simp add: round_half_even_def del: of_int_mult)
  then show ?thesis
    using assms e by (simp add: round_double_def Let_def power_int_minus del: of_int_mult) simp
qed

lemma rounded_percentage:
  assumes "c \<le> n" "0 < n" "n < 2 ^ 40"
    and "80 \<le> round_double (round_double (of_nat c * 100) / of_nat n)"
  shows "80 * n \<le> 100 * c"
proof (cases "c = 0")
  case True
  then show ?thesis using assms(4) by (simp add: round_double_def)
next
  case False
  let ?x = "of_nat (c * 100) / of_nat n :: rat"
  have "round_double (of_nat c * 100) = of_nat (c * 100)"
    using round_double_int[of "int (c * 100)"] False assms(1,3) by simp
  then have "80 \<le> round_double ?x" using assms(4) by simp
  moreover have "of_nat (c * 100) \<le> (of_nat (100 * n) :: rat)" using assms(1) by (simp only: of_nat_le_iff)
  then have "0 < ?x" "?x < 2 ^ 7" using False assms(2) by (simp_all add: divide_less_eq)
  ultimately have "80 - 1 / 2 ^ 47 \<le> ?x" using round_double_error[of ?x] by linarith
  then have "(80 - 1 / 2 ^ 47) * of_nat n \<le> (of_nat (c * 100) :: rat)"
    using assms(2) by (simp add: field_simps)
  moreover have "of_nat n / 2 ^ 47 < (1 :: rat)"
  proof -
    have "of_nat n < (of_nat (2 ^ 40) :: rat)" using assms(3) by (simp only: of_nat_less_iff)
    then show ?thesis by simp
  qed
  ultimately have "80 * of_nat n < (of_nat (c * 100) + 1 :: rat)" by (simp add: left_diff_distrib)
  then have "of_nat (80 * n) < (of_nat (c * 100 + 1) :: rat)" by simp
  then show ?thesis by (simp only: of_nat_less_iff)
qed

section \<open>The gate\<close>

lemma line_map_lines:
  assumes "line_map values label = Inr m"
  shows "\<forall>(path, ls)\<in>set m. sorted ls \<and> distinct ls"
  using assms unfolding line_map_def
  by (rule foldM_invariant[where P = "\<lambda>m. \<forall>(path, ls)\<in>set m. sorted ls \<and> distinct ls"])
    (auto simp: add_line_entry_def result_simps)

lemma lines_of_distinct: "line_map values label = Inr m \<Longrightarrow> distinct (lines_of m path)"
  using line_map_lines[of "values" label m] by (auto simp: lines_of_def dest: map_of_SomeD split: option.splits)

lemma set_source_with_lines:
  "set (source_with_lines u git_lines paths) = {p\<in>set paths. is_source_path u p \<and> lines_of git_lines p \<noteq> []}"
  by (auto simp: source_with_lines_def)

lemma covered_le_changed: 
  "covered_count (map (\<lambda>p. file_result p (f p) (g p) (h p)) ps) \<le> changed_count (map (\<lambda>p. file_result p (f p) (g p) (h p)) ps)"
  unfolding covered_count_def changed_count_def map_map comp_def file_result_def Let_def file_coverage.simps
  by (intro sum_list_mono) (rule length_filter_le)

lemma coverage_percent_minimum:
  assumes "80 \<le> coverage_percent files" "covered_count files \<le> changed_count files" "changed_count files < 2 ^ 40"
  shows "80 * changed_count files \<le> 100 * covered_count files"
  using assms rounded_percentage[OF assms(2) _ assms(3)]
  by (cases "changed_count files = 0") (simp_all add: coverage_percent_def)

text \<open>What the status of a judgement says.\<close>

definition meets_threshold :: "text_tables \<Rightarrow> line_table \<Rightarrow> string list \<Rightarrow> coverage_evidence \<Rightarrow> coverage_judgement \<Rightarrow> bool" where
  "meets_threshold u git_lines paths e j \<longleftrightarrow>
    (\<exists>executable covered. line_map (ce_executable_lines e) ''executable'' = Inr executable
     \<and> line_map (ce_covered_lines e) ''covered'' = Inr covered
     \<and> set (source_with_lines u git_lines paths) \<subseteq> fst ` set executable
     \<and> cj_files j = map (\<lambda>p. file_result p (lines_of git_lines p) (lines_of executable p) (lines_of covered p))
         (source_with_lines u git_lines paths)
     \<and> ce_minimum_coverage_percent e \<le> coverage_percent (cj_files j))"

lemma source_with_lines_Nil:
  "source_with_lines u git_lines paths = [] \<longleftrightarrow> (\<forall>p\<in>set paths. is_source_path u p \<longrightarrow> lines_of git_lines p = [])"
  unfolding set_empty[symmetric] set_source_with_lines by auto

lemma judged_by_evidence:
  assumes "judge_changed_lines u changed_lines paths (Some e) = Inr j" "line_map changed_lines ''changed'' = Inr git_lines"
    and "source_with_lines u git_lines paths \<noteq> []"
  shows "cj_status j = (if meets_threshold u git_lines paths e j then ''passed'' else ''failed'')
    \<and> (cj_blockers j = [] \<longleftrightarrow> meets_threshold u git_lines paths e j)"
proof -
  let ?s = "source_with_lines u git_lines paths"
  obtain x c where xc: "line_map (ce_executable_lines e) ''executable'' = Inr x" "line_map (ce_covered_lines e) ''covered'' = Inr c"
    using assms by (auto simp: judge_changed_lines_def rbind_eq_Inr Let_def)
  let ?missing = "sorted_set (filter (\<lambda>p. p \<notin> set (map fst x)) ?s)"
  have j: "cj_files j = map (\<lambda>p. file_result p (lines_of git_lines p)
        (if p \<in> set ?missing then lines_of git_lines p else lines_of x p) (lines_of c p)) ?s"
      "cj_blockers j = map (\<lambda>p. ''Coverage evidence does not include changed source file: '' @ p) ?missing
         @ threshold_blockers (ce_minimum_coverage_percent e) (cj_files j)"
      "cj_status j = (if cj_blockers j = [] then ''passed'' else ''failed'')"
    using assms xc by (auto simp: judge_changed_lines_def Let_def)
  have covers: "?missing = [] \<longleftrightarrow> set ?s \<subseteq> fst ` set x" by (auto simp: filter_empty_conv)
  have "cj_blockers j = [] \<longleftrightarrow> ?missing = [] \<and> ce_minimum_coverage_percent e \<le> coverage_percent (cj_files j)"
    unfolding j(2) by (auto simp: threshold_blockers_def)
  also have "\<dots> \<longleftrightarrow> meets_threshold u git_lines paths e j"
    using covers xc j(1) by (auto simp: meets_threshold_def)
  finally show ?thesis using j(3) by simp
qed

text \<open>(C26) The gate on changed lines fails closed.  Its status is \<open>not_required\<close> exactly when no changed
  source file has changed lines, \<open>missing\<close> exactly when there are such files and no evidence, and
  \<open>passed\<close> exactly when the evidence names every one of them and the rounded percentage of their
  executable changed lines that are covered reaches the threshold of the evidence; it is \<open>failed\<close>
  otherwise, and a passed or not required judgement is one with no blocking reason.\<close>

theorem changed_line_gate_fails_closed:
  assumes "judge_changed_lines u changed_lines paths evidence = Inr j" "line_map changed_lines ''changed'' = Inr git_lines"
  shows "(cj_status j = ''not_required'' \<longleftrightarrow> (\<forall>p\<in>set paths. is_source_path u p \<longrightarrow> lines_of git_lines p = []))
    \<and> (cj_status j = ''missing'' \<longleftrightarrow> evidence = None \<and> cj_status j \<noteq> ''not_required'')
    \<and> (cj_status j = ''passed'' \<longleftrightarrow> cj_status j \<noteq> ''not_required''
        \<and> (\<exists>e. evidence = Some e \<and> meets_threshold u git_lines paths e j))
    \<and> cj_status j \<in> {''not_required'', ''missing'', ''passed'', ''failed''}
    \<and> (cj_blockers j = [] \<longleftrightarrow> cj_status j \<in> {''not_required'', ''passed''})"
proof (cases "source_with_lines u git_lines paths = [] \<or> evidence = None")
  case True
  then show ?thesis
    using assms unfolding source_with_lines_Nil[symmetric]
    by (auto simp: judge_changed_lines_def Let_def split: if_splits)
next
  case False
  then obtain e where "evidence = Some e" by auto
  with False show ?thesis
    using judged_by_evidence[of u changed_lines paths e j git_lines] assms
    unfolding source_with_lines_Nil[symmetric] by (auto split: if_splits)
qed

definition demo_changed_lines :: line_table where
  "demo_changed_lines = [(''src/a.py'', [3, 1, 2, 4, 5, 6])]"

definition demo_coverage_evidence :: coverage_evidence where
  "demo_coverage_evidence =
    \<lparr>ce_evidence_refs = [''run-1''], ce_executable_lines = [(''src/a.py'', [1, 2, 3, 4, 5, 9])],
     ce_covered_lines = [(''src/a.py'', [1, 2, 3, 4])], ce_minimum_coverage_percent = 80\<rparr>"

definition demo_judgement :: coverage_judgement where
  "demo_judgement =
    \<lparr>cj_threshold = 80, cj_files = [\<lparr>fc_path = ''src/a.py'', fc_changed_lines = [1, 2, 3, 4, 5],
       fc_covered_changed_lines = [1, 2, 3, 4], fc_uncovered_changed_lines = [5]\<rparr>],
     cj_evidence_refs = [''run-1''], cj_status = ''passed'', cj_blockers = []\<rparr>"

lemma demo_judged:
  "judge_changed_lines ascii_tables demo_changed_lines [''src/a.py''] (Some demo_coverage_evidence) = Inr demo_judgement"
  by code_simp

lemma demo_line_maps:
  "line_map demo_changed_lines ''changed'' = Inr [(''src/a.py'', [1, 2, 3, 4, 5, 6])]"
  "line_map (ce_executable_lines demo_coverage_evidence) ''executable'' = Inr [(''src/a.py'', [1, 2, 3, 4, 5, 9])]"
  "line_map (ce_covered_lines demo_coverage_evidence) ''covered'' = Inr [(''src/a.py'', [1, 2, 3, 4])]"
  "new_coverage_evidence demo_coverage_evidence = Inr demo_coverage_evidence"
  by code_simp+

lemma demo_sources:
  "source_with_lines ascii_tables [(''src/a.py'', [1, 2, 3, 4, 5, 6])] [''src/a.py''] = [''src/a.py'']"
  by code_simp

theorem changed_line_gate_fails_closed_witness:
  "meets_threshold ascii_tables [(''src/a.py'', [1, 2, 3, 4, 5, 6])] [''src/a.py''] demo_coverage_evidence demo_judgement"
  using changed_line_gate_fails_closed[OF demo_judged demo_line_maps(1)] by (simp add: demo_judgement_def)

text \<open>(C25) Evidence that passed is at least 80 percent, counted exactly: of the executable changed lines of
  the changed source files, at least four in five are covered, whatever the threshold and the rounding
  of the percentage, for reports of fewer than \<open>2 ^ 40\<close> lines.\<close>

theorem passed_coverage_is_four_fifths:
  assumes "judge_changed_lines u changed_lines paths (Some e) = Inr j" "new_coverage_evidence e = Inr e"
    and "cj_status j = ''passed''" "changed_count (cj_files j) < 2 ^ 40"
    and "line_map changed_lines ''changed'' = Inr git_lines"
    and "line_map (ce_executable_lines e) ''executable'' = Inr executable"
    and "line_map (ce_covered_lines e) ''covered'' = Inr covered"
  shows "4 * (\<Sum>p\<leftarrow>source_with_lines u git_lines paths. card (set (lines_of git_lines p) \<inter> set (lines_of executable p)))
    \<le> 5 * (\<Sum>p\<leftarrow>source_with_lines u git_lines paths.
         card (set (lines_of git_lines p) \<inter> set (lines_of executable p) \<inter> set (lines_of covered p)))"
proof -
  let ?s = "source_with_lines u git_lines paths"
  have "meets_threshold u git_lines paths e j"
    using judged_by_evidence[OF assms(1,5)] assms(1,3,5)
    by (cases "?s = []") (auto simp: judge_changed_lines_def split: if_splits)
  then have files: "cj_files j = map (\<lambda>p. file_result p (lines_of git_lines p) (lines_of executable p) (lines_of covered p)) ?s"
      and "ce_minimum_coverage_percent e \<le> coverage_percent (cj_files j)"
    using assms(6,7) by (auto simp: meets_threshold_def)
  moreover have "80 \<le> ce_minimum_coverage_percent e"
    using assms(2) by (auto simp: new_coverage_evidence_def MINIMUM_CHANGED_LINE_COVERAGE_PERCENT_def split: if_splits)
  ultimately have "80 * changed_count (cj_files j) \<le> 100 * covered_count (cj_files j)"
    using covered_le_changed assms(4) by (intro coverage_percent_minimum) simp_all
  moreover have d: "distinct (lines_of git_lines p)" for p using assms(5) by (rule lines_of_distinct)
  have "changed_count (cj_files j) = (\<Sum>p\<leftarrow>?s. card (set (lines_of git_lines p) \<inter> set (lines_of executable p)))"
    by (simp add: files changed_count_def file_result_def Let_def comp_def distinct_card[symmetric] d Int_def conj_commute
        cong: map_cong)
  moreover have "covered_count (cj_files j) = (\<Sum>p\<leftarrow>?s. card (set (lines_of git_lines p) \<inter> set (lines_of executable p) \<inter> set (lines_of covered p)))"
    by (simp add: files covered_count_def file_result_def Let_def comp_def distinct_card[symmetric] d Int_def conj_ac
        cong: map_cong)
  ultimately show ?thesis by simp
qed

theorem passed_coverage_is_four_fifths_witness:
  "4 * card ({1, 2, 3, 4, 5, 6} \<inter> {1, 2, 3, 4, 5, 9 :: int}) \<le> 5 * card ({1, 2, 3, 4, 5, 6} \<inter> {1, 2, 3, 4, 5, 9} \<inter> {1, 2, 3, 4 :: int})"
  using passed_coverage_is_four_fifths[OF demo_judged demo_line_maps(4) _ _ demo_line_maps(1-3)]
  by (simp add: demo_sources demo_judgement_def changed_count_def lines_of_def)

text \<open>The text of a percentage that rounds to whole hundredths keeps its point: 199 of 201 lines are
  reported as \<open>99.%\<close>.\<close>

lemma number_text_keeps_the_point: "number_text (round_double (round_double (199 * 100) / 201)) = ''99.''"
  by code_simp

end
