(* ===== verification/EditResults.thy ===== *)
theory EditResults
  imports ApprovalGrants ChangeCoverage
begin

text \<open>
  What an edit did (\<open>application/edit_result.py\<close> and \<open>infrastructure/postgres/edit_result_repository.py\<close>):
  the changed paths of a workspace against the writable files of its packet, the evidence of the test
  commands, and the step of the case, of the packet and of the approval that recording the result takes.
\<close>

section \<open>The scope of a result\<close>

record result_scope =
  sc_edit_packet_id :: string
  sc_approval_grant_id :: string
  sc_project_id :: string
  sc_analysis_case_id :: string
  sc_repository_id :: string
  sc_base_repository_revision :: string
  sc_remote_url :: string
  sc_workspace_root :: string
  sc_packet_status :: string
  sc_writable_files :: "string list"
  sc_required_command_refs :: "string list"
  sc_required_ui_scenario_refs :: "string list"

definition load_result_scope ::
    "edit_env \<Rightarrow> edit_db \<Rightarrow> int \<Rightarrow> string \<Rightarrow> string \<Rightarrow> string \<Rightarrow> string \<Rightarrow> result_scope result" where
  "load_result_scope env db now project_id case_id packet_id grant_id =
    (case find_packet db packet_id of
       None \<Rightarrow> Inl (ValueError ''Edit Packet does not exist in Edit Result scope'')
     | Some p \<Rightarrow>
        (case find_repository db (pk_repository_id p) (pk_project_id p) of
           None \<Rightarrow> Inl (ValueError ''Edit Packet does not exist in Edit Result scope'')
         | Some repo \<Rightarrow>
             if pk_project_id p \<noteq> project_id \<or> pk_analysis_case_id p \<noteq> case_id then
               Inl (ValueError ''Edit Packet does not exist in Edit Result scope'')
             else case rp_workspace_root repo of
               None \<Rightarrow> Inl (ValueError ''Edit Result Repository workspace_root is not registered'')
             | Some ws \<Rightarrow>
                 rbind (inspect_grant env db grant_id now) (\<lambda>g.
                 if au_project_id g \<noteq> project_id \<or> au_analysis_case_id g \<noteq> case_id
                    \<or> au_edit_packet_id g \<noteq> packet_id then
                   Inl (ValueError ''Approval Grant does not match Edit Result scope'')
                 else
                   rbind (strings_of (pk_editable_files p)) (\<lambda>editable.
                   rbind (strings_of (pk_test_files p)) (\<lambda>tests.
                   rbind (strings_of (pk_required_ui_scenario_refs p)) (\<lambda>scenarios.
                     Inr \<lparr>sc_edit_packet_id = packet_id, sc_approval_grant_id = grant_id,
                          sc_project_id = project_id, sc_analysis_case_id = case_id,
                          sc_repository_id = pk_repository_id p,
                          sc_base_repository_revision = pk_base_repository_revision p,
                          sc_remote_url = rp_remote_url repo, sc_workspace_root = ws,
                          sc_packet_status = pk_status p,
                          sc_writable_files = (if editable \<noteq> [] then sorted_set (editable @ tests) else []),
                          sc_required_command_refs = sort (au_allowed_test_command_refs g),
                          sc_required_ui_scenario_refs = scenarios\<rparr>))))))"

record result_write =
  wr_edit_result_id :: string
  wr_validation_mode :: string
  wr_status :: string
  wr_result_repository_revision :: "string option"
  wr_path_changes :: "git_path_change list"
  wr_changed_paths :: "string list"
  wr_out_of_scope_files :: "string list"
  wr_test_result_refs :: "string list"
  wr_tests_passed :: "bool option"
  wr_changed_line_coverage :: pydict

definition command_evidence_status :: "result_write \<Rightarrow> string" where
  "command_evidence_status w = (if wr_validation_mode w = ''committed'' then ''verified'' else ''not_applicable'')"

definition path_changes_json :: "result_write \<Rightarrow> pyval" where
  "path_changes_json w =
    PList (map (\<lambda>c. PDict [(''status'', PStr (gc_status c)), (''paths'', PStrs (gc_paths c))]) (wr_path_changes w))"

definition coverage_status :: "result_write \<Rightarrow> pyval result" where
  "coverage_status w = dindex (wr_changed_line_coverage w) ''status''"

text \<open>The row of a result, which is also what a replay is compared with (\<open>_identity\<close>).\<close>

definition result_row_of :: "result_scope \<Rightarrow> result_write \<Rightarrow> edit_result_row result" where
  "result_row_of sc w =
    rbind (coverage_status w) (\<lambda>st.
      Inr \<lparr>er_edit_result_id = wr_edit_result_id w, er_edit_packet_id = sc_edit_packet_id sc,
           er_project_id = sc_project_id sc, er_analysis_case_id = sc_analysis_case_id sc,
           er_approval_grant_id = sc_approval_grant_id sc, er_validation_mode = wr_validation_mode w,
           er_status = wr_status w, er_base_repository_revision = sc_base_repository_revision sc,
           er_result_repository_revision = wr_result_repository_revision w,
           er_path_changes = path_changes_json w, er_changed_paths = wr_changed_paths w,
           er_out_of_scope_files = wr_out_of_scope_files w, er_test_result_refs = wr_test_result_refs w,
           er_tests_passed = wr_tests_passed w, er_command_evidence_status = command_evidence_status w,
           er_changed_line_coverage = wr_changed_line_coverage w, er_changed_line_coverage_status = st\<rparr>)"

definition same_result :: "edit_result_row \<Rightarrow> edit_result_row \<Rightarrow> bool" where
  "same_result a b \<longleftrightarrow>
    a\<lparr>er_path_changes := PNone, er_changed_line_coverage := []\<rparr>
      = b\<lparr>er_path_changes := PNone, er_changed_line_coverage := []\<rparr>
    \<and> py_eq (er_path_changes a) (er_path_changes b)
    \<and> py_eq (PDict (er_changed_line_coverage a)) (PDict (er_changed_line_coverage b))"

definition next_case_status :: "result_scope \<Rightarrow> result_write \<Rightarrow> string result" where
  "next_case_status sc w =
    (if wr_status w = ''out_of_scope'' then Inr ''reanalysis_required''
     else if wr_validation_mode w = ''working'' then Inr ''editing''
     else if wr_status w = ''no_changes'' \<and> sc_writable_files sc \<noteq> [] \<or> wr_tests_passed w \<noteq> Some True then
       Inr ''failed''
     else
       rbind (coverage_status w) (\<lambda>st.
         if st \<in> {PStr ''failed'', PStr ''missing''} then Inr ''failed''
         else Inr (if sc_required_ui_scenario_refs sc \<noteq> [] then ''verifying_ui'' else ''passed'')))"

definition successful_result :: "result_scope \<Rightarrow> result_write \<Rightarrow> bool result" where
  "successful_result sc w =
    (if (wr_status w = ''in_scope'' \<or> wr_status w = ''no_changes'' \<and> sc_writable_files sc = [])
        \<and> wr_tests_passed w = Some True
     then rbind (coverage_status w) (\<lambda>st. Inr (st \<in> {PStr ''passed'', PStr ''not_required''}))
     else Inr False)"

section \<open>The evidence of the test commands\<close>

definition evidence_rows :: "edit_db \<Rightarrow> string list \<Rightarrow> command_row list" where
  "evidence_rows db refs = filter (\<lambda>c. cx_command_execution_id c \<in> set refs) (ed_commands db)"

definition in_result_scope :: "result_scope \<Rightarrow> command_row \<Rightarrow> bool" where
  "in_result_scope sc c \<longleftrightarrow>
    cx_approval_grant_id c = sc_approval_grant_id sc \<and> cx_project_id c = sc_project_id sc
    \<and> cx_analysis_case_id c = sc_analysis_case_id sc \<and> cx_edit_packet_id c = sc_edit_packet_id sc"

definition validate_command_evidence :: "edit_db \<Rightarrow> result_scope \<Rightarrow> result_write \<Rightarrow> unit result" where
  "validate_command_evidence db sc w =
    (if wr_test_result_refs w = [] then Inr ()
     else
       let rows = evidence_rows db (wr_test_result_refs w);
           missing = sorted_set (filter (\<lambda>r. r \<notin> set (map cx_command_execution_id rows)) (wr_test_result_refs w));
           mismatched = sort (map cx_command_execution_id (filter (\<lambda>c. \<not> in_result_scope sc c) rows));
           actual = sorted_set (map cx_command_ref rows)
       in if missing \<noteq> [] then
            Inl (ValueError (''Edit Result command evidence does not exist: '' @ py_repr (PStrs missing)))
          else if mismatched \<noteq> [] then
            Inl (ValueError (''Edit Result command evidence is outside the Grant/Packet scope: ''
              @ py_repr (PStrs mismatched)))
          else if set actual \<noteq> set (sc_required_command_refs sc) then
            Inl (ValueError (''Edit Result command evidence does not cover the exact required command set: expected=''
              @ py_repr (PStrs (sc_required_command_refs sc)) @ '' actual='' @ py_repr (PStrs actual)))
          else if wr_tests_passed w = Some True \<and> list_ex (\<lambda>c. cx_status c \<noteq> ''passed'') rows then
            Inl (ValueError ''Edit Result cannot claim tests passed with non-passing command evidence'')
          else if wr_tests_passed w = Some False \<and> list_all (\<lambda>c. cx_status c = ''passed'') rows then
            Inl (ValueError ''Edit Result cannot claim tests failed when all commands passed'')
          else Inr ())"

section \<open>Recording\<close>

text \<open>The constraints of \<open>edit_results\<close> (migrations 0011, 0021 and 0052) and of its link to the commands.\<close>

definition insert_edit_result :: "edit_result_row \<Rightarrow> edit_db \<Rightarrow> edit_db result" where
  "insert_edit_result r db =
    (if list_ex (\<lambda>q. er_edit_result_id q = er_edit_result_id r) (ed_results db) then
       Inl (IntegrityError ''edit_results_pkey'')
     else if btrim_blank (er_edit_result_id r) \<or> btrim_blank (er_base_repository_revision r) then
       Inl (IntegrityError ''edit_results_fields_not_blank'')
     else if er_validation_mode r \<notin> {''working'', ''committed''} then
       Inl (IntegrityError ''edit_results_mode_valid'')
     else if er_status r \<notin> {''in_scope'', ''out_of_scope'', ''no_changes''} then
       Inl (IntegrityError ''edit_results_status_valid'')
     else if (er_validation_mode r = ''working'') \<noteq> (er_result_repository_revision r = None)
         \<or> er_validation_mode r = ''committed'' \<and> (case er_result_repository_revision r of
              None \<Rightarrow> True | Some sha \<Rightarrow> btrim_blank sha) then
       Inl (IntegrityError ''edit_results_revision_consistent'')
     else if (er_validation_mode r = ''working'') \<noteq> (er_tests_passed r = None) then
       Inl (IntegrityError ''edit_results_tests_consistent'')
     else if (er_status r = ''out_of_scope'') \<noteq> (er_out_of_scope_files r \<noteq> []) then
       Inl (IntegrityError ''edit_results_scope_consistent'')
     else if er_changed_line_coverage_status r \<notin> PStr ` {''passed'', ''failed'', ''missing'', ''not_required''} then
       Inl (IntegrityError ''edit_results_changed_line_coverage_status_valid'')
     else if dget (er_changed_line_coverage r) ''artifact_type'' \<noteq> PStr ''ChangedLineCoverageReport''
         \<or> dget (er_changed_line_coverage r) ''edit_result_id'' \<noteq> PStr (er_edit_result_id r)
         \<or> dget (er_changed_line_coverage r) ''project_id'' \<noteq> PStr (er_project_id r) then
       Inl (IntegrityError ''edit_results_changed_line_coverage_valid'')
     else Inr (db\<lparr>ed_results := ed_results db @ [r]\<rparr>))"

definition close_event :: "result_scope \<Rightarrow> result_write \<Rightarrow> (string \<times> string) option result" where
  "close_event sc w =
    (if wr_status w = ''out_of_scope'' then
       Inr (Some (''revoked'', ''Edit Result detected files outside the approved Packet''))
     else if wr_validation_mode w = ''committed'' then
       rbind (successful_result sc w) (\<lambda>ok.
         Inr (Some (if ok \<and> sc_required_ui_scenario_refs sc \<noteq> []
           then (''edit_completed'', ''Committed edit passed tests and is ready for approved UI scenarios'')
           else (''completed'', ''Committed edit validation closed the approval''))))
     else Inr None)"

definition close_grant ::
    "edit_env \<Rightarrow> int \<Rightarrow> result_scope \<Rightarrow> result_write \<Rightarrow> edit_db \<Rightarrow> edit_db result" where
  "close_grant env now sc w db =
    rbind (close_event sc w) (\<lambda>event. case event of
      None \<Rightarrow> Inr db
    | Some (event_type, reason) \<Rightarrow>
        rbind (append_grant_event env now
          (''approval-event:'' @ wr_edit_result_id w @ '':'' @ event_type) (sc_approval_grant_id sc)
          (sc_project_id sc) event_type ''operamind'' reason db) (\<lambda>(db', _). Inr db'))"

definition close_packet :: "result_scope \<Rightarrow> result_write \<Rightarrow> edit_db \<Rightarrow> edit_db" where
  "close_packet sc w db =
    (if wr_status w = ''out_of_scope'' \<or> wr_validation_mode w = ''committed''
     then supersede_packets (\<lambda>p. pk_edit_packet_id p = sc_edit_packet_id sc) db else db)"

record edit_result_record =
  rr_created :: bool
  rr_edit_result_id :: string
  rr_status :: string
  rr_case_status :: string
  rr_command_evidence_status :: string

text \<open>The clock is read when the authority is checked and again when the grant is closed.\<close>

definition record_edit_result ::
    "edit_env \<Rightarrow> int \<Rightarrow> int \<Rightarrow> result_scope \<Rightarrow> result_write \<Rightarrow> edit_db \<Rightarrow> (edit_db \<times> edit_result_record) result" where
  "record_edit_result env now later sc w db =
    (case find (\<lambda>r. er_edit_result_id r = wr_edit_result_id w) (ed_results db) of
       Some r \<Rightarrow>
         rbind (result_row_of sc w) (\<lambda>identity.
         if \<not> same_result r identity then
           Inl (PersistenceConflictError (''Edit Result identity has different content: '' @ wr_edit_result_id w))
         else
           rbind (next_case_status sc w) (\<lambda>case_status.
             Inr (db, \<lparr>rr_created = False, rr_edit_result_id = wr_edit_result_id w, rr_status = wr_status w,
               rr_case_status = case_status, rr_command_evidence_status = command_evidence_status w\<rparr>)))
     | None \<Rightarrow>
         rbind (authorize_edit env now (sc_approval_grant_id sc) (sc_project_id sc) (sc_analysis_case_id sc)
           (sc_edit_packet_id sc) ''record_result'' True db) (\<lambda>_.
         if map_option (\<lambda>p. (pk_project_id p, pk_status p)) (find_packet db (sc_edit_packet_id sc))
             \<noteq> Some (sc_project_id sc, ''active'') then
           Inl (ValueError ''Edit Packet is no longer active'')
         else
           rbind (validate_command_evidence db sc w) (\<lambda>_.
           rbind (next_case_status sc w) (\<lambda>case_status.
           rbind (result_row_of sc w) (\<lambda>row.
           rbind (insert_edit_result row db) (\<lambda>db1.
           rbind (close_grant env later sc w (close_packet sc w db1)) (\<lambda>db2.
             Inr (set_case_status (sc_analysis_case_id sc) (sc_project_id sc) case_status db2,
               \<lparr>rr_created = True, rr_edit_result_id = wr_edit_result_id w, rr_status = wr_status w,
                rr_case_status = case_status,
                rr_command_evidence_status = command_evidence_status w\<rparr>))))))))"

section \<open>The service\<close>

record result_request =
  rs_edit_result_id :: string
  rs_edit_packet_id :: string
  rs_approval_grant_id :: string
  rs_project_id :: string
  rs_analysis_case_id :: string
  rs_workspace_root :: string
  rs_committed :: bool
  rs_test_result_refs :: "string list"
  rs_tests_passed :: "bool option"
  rs_changed_line_coverage :: "coverage_evidence option"

definition new_result_request :: "result_request \<Rightarrow> result_request result" where
  "new_result_request r =
    (if list_ex blank [rs_edit_result_id r, rs_edit_packet_id r, rs_approval_grant_id r, rs_project_id r,
         rs_analysis_case_id r] then
       Inl (ValueError ''Edit Result request fields must not be blank'')
     else if \<not> distinct (rs_test_result_refs r) \<or> list_ex blank (rs_test_result_refs r) then
       Inl (ValueError ''Edit Result test refs must be unique and non-blank'')
     else if \<not> rs_committed r \<and> (rs_tests_passed r \<noteq> None \<or> rs_test_result_refs r \<noteq> []
         \<or> rs_changed_line_coverage r \<noteq> None) then
       Inl (ValueError ''Working validation cannot claim test results'')
     else if rs_committed r \<and> (rs_tests_passed r = None \<or> rs_test_result_refs r = []) then
       Inl (ValueError ''Committed Edit Result requires test outcome evidence'')
     else if (case rs_changed_line_coverage r of None \<Rightarrow> False
         | Some e \<Rightarrow> \<not> set (ce_evidence_refs e) \<subseteq> set (rs_test_result_refs r)) then
       Inl (ValueError ''Changed-line coverage evidence must reference approved test command results'')
     else Inr r)"

definition out_of_scope_files :: "result_scope \<Rightarrow> string list \<Rightarrow> string list" where
  "out_of_scope_files sc paths = sorted_set (filter (\<lambda>p. p \<notin> set (sc_writable_files sc)) paths)"

definition result_write_of ::
    "text_tables \<Rightarrow> result_request \<Rightarrow> result_scope \<Rightarrow> git_diff_evidence \<Rightarrow> result_write result" where
  "result_write_of u r sc e =
    (let paths = gd_changed_paths e; outside = out_of_scope_files sc paths
     in rbind (evaluate_changed_line_coverage u (rs_edit_result_id r) (rs_project_id r)
          (sc_base_repository_revision sc)
          (case gd_result_sha e of Some sha \<Rightarrow> if sha = [] then sc_base_repository_revision sc else sha
             | None \<Rightarrow> sc_base_repository_revision sc)
          (gd_changed_lines e) paths (rs_changed_line_coverage r)) (\<lambda>coverage.
        Inr \<lparr>wr_edit_result_id = rs_edit_result_id r,
             wr_validation_mode = (if rs_committed r then ''committed'' else ''working''),
             wr_status = (if outside \<noteq> [] then ''out_of_scope'' else if paths \<noteq> [] then ''in_scope''
                else ''no_changes''),
             wr_result_repository_revision = gd_result_sha e, wr_path_changes = gd_changes e,
             wr_changed_paths = paths, wr_out_of_scope_files = outside,
             wr_test_result_refs = rs_test_result_refs r, wr_tests_passed = rs_tests_passed r,
             wr_changed_line_coverage = coverage\<rparr>))"

definition common_repository_dir :: "git_tools \<Rightarrow> string \<Rightarrow> string result" where
  "common_repository_dir t ws =
    rbind (repository_root t ws) (\<lambda>repo.
    rbind (run_git t repo [''rev-parse'', ''--git-common-dir'']) (\<lambda>dir.
      gt_resolve t (if path_absolute dir then dir else repo @ ''/'' @ dir)))"

definition run_edit_result ::
    "text_tables \<Rightarrow> edit_env \<Rightarrow> int \<Rightarrow> int \<Rightarrow> int \<Rightarrow> result_request \<Rightarrow> edit_db
     \<Rightarrow> (edit_db \<times> edit_result_record \<times> result_write) result" where
  "run_edit_result u env at_load now later r db =
    rbind (load_result_scope env db at_load (rs_project_id r) (rs_analysis_case_id r) (rs_edit_packet_id r)
      (rs_approval_grant_id r)) (\<lambda>sc.
    rbind (gt_resolve (ee_git env) (sc_workspace_root sc)) (\<lambda>registered.
    rbind (gt_resolve (ee_git env) (rs_workspace_root r)) (\<lambda>requested.
    rbind (common_repository_dir (ee_git env) registered) (\<lambda>registered_dir.
    rbind (common_repository_dir (ee_git env) requested) (\<lambda>requested_dir.
    if registered_dir \<noteq> requested_dir then
      Inl (ValueError ''Edit Result Workspace is not linked to the registered Repository'')
    else
      rbind (if rs_committed r
          then inspect_committed (ee_git env) requested (sc_base_repository_revision sc)
            (sc_writable_files sc = [])
          else inspect_worktree (ee_git env) requested (sc_base_repository_revision sc)) (\<lambda>e.
      if gd_remote_url e \<noteq> sc_remote_url sc then
        Inl (ValueError ''Edit Result Workspace origin does not match Repository registration'')
      else
        rbind (result_write_of u r sc e) (\<lambda>w.
        rbind (ee_validate_artifact env (wr_changed_line_coverage w)) (\<lambda>_.
        rbind (record_edit_result env now later sc w db) (\<lambda>(db', record). Inr (db', record, w))))))))))"

end
