(* ===== verification/EditDemo.thy ===== *)
theory EditDemo
  imports EditResults
begin

text \<open>
  A small world the laws of editing are applied to: one case with a confirmed report of one impact item,
  in a repository of one tracked file, with or without a test file.  The packet is derived and published,
  the approval issued, and results recorded, by evaluating the operations.
\<close>

section \<open>The world\<close>

definition demo_git_run :: "string \<Rightarrow> string list \<Rightarrow> string result" where
  "demo_git_run ws args =
    (if args = [''rev-parse'', ''--show-toplevel''] then Inr ''/w''
     else if args = [''rev-parse'', ''--verify'', ''HEAD''] then Inr ''abc''
     else if args = [''rev-parse'', ''--git-common-dir''] then Inr ''/w/.git''
     else if args = [''status'', ''--porcelain=v1'', ''--untracked-files=all''] then Inr ''''
     else if args = [''config'', ''--local'', ''--list'', ''-z''] then Inr ''''
     else if args = [''remote''] then Inr ''origin''
     else if args = [''remote'', ''get-url'', ''origin''] then Inr ''url''
     else if args = [''ls-tree'', ''-r'', ''--name-only'', ''-z'', ''HEAD''] then Inr (''a.py'' @ [CHR 0x00])
     else if args = [''diff'', ''--name-status'', ''-z'', ''HEAD''] then
       Inr (''M'' @ [CHR 0x00] @ ''a.py'' @ [CHR 0x00])
     else if args = [''ls-files'', ''--others'', ''--exclude-standard'', ''-z''] then Inr ''''
     else Inr ''@@ -1 +1 @@'')"

definition demo_tools :: git_tools where
  "demo_tools = \<lparr>gt_run = demo_git_run, gt_resolve = Inr, gt_is_dir = (\<lambda>_. True)\<rparr>"

definition demo_env :: edit_env where
  "demo_env = \<lparr>ee_validate_artifact = (\<lambda>_. Inr ()), ee_report_intact = (\<lambda>_ _. Inr ()),
     ee_ignored = (\<lambda>_ _. False), ee_git = demo_tools\<rparr>"

definition demo_report_artifact :: pydict where
  "demo_report_artifact =
    [(''artifact_type'', PStr ''ImpactReport''), (''schema_version'', PStr ''v1''), (''summary'', PStr ''s''),
     (''required_ui_scenario_refs'', PStrs [])]"

definition demo_profile :: pydict where
  "demo_profile =
    [(''profile_type'', PStr ''CommandExecutionProfile''), (''profile_id'', PStr ''p''),
     (''profile_version'', PStr ''1''),
     (''templates'', PList [PDict [(''command_ref'', PStr ''unit'')]])]"

definition demo_artifact_row :: "string \<Rightarrow> pydict \<Rightarrow> artifact_row" where
  "demo_artifact_row i a =
    \<lparr>ar_artifact_id = i, ar_artifact_type = dget a ''artifact_type'', ar_schema_version = PStr ''v1'',
     ar_project_id = ''P'', ar_analysis_case_id = Some ''C'', ar_payload = a,
     ar_payload_digest = canonical_digest (PDict a)\<rparr>"

definition demo_report_row :: report_row where
  "demo_report_row =
    \<lparr>ir_impact_report_id = ''R'', ir_project_id = ''P'', ir_analysis_case_id = ''C'', ir_repository_id = ''G'',
     ir_repository_revision_id = ''V'', ir_repository_revision = ''abc'', ir_code_graph_snapshot_id = ''S'',
     ir_status = ''confirmed''\<rparr>"

definition demo_db :: "string list \<Rightarrow> edit_db" where
  "demo_db tests =
    \<lparr>ed_artifacts = [demo_artifact_row ''R'' demo_report_artifact],
     ed_cases = [\<lparr>ca_analysis_case_id = ''C'', ca_project_id = ''P'', ca_status = ''awaiting_confirmation''\<rparr>],
     ed_repositories = [\<lparr>rp_repository_id = ''G'', rp_project_id = ''P'', rp_remote_url = ''url'',
        rp_workspace_root = Some ''/w''\<rparr>],
     ed_revisions = [(''V'', ''G'', ''abc'')],
     ed_graphs = [\<lparr>gr_code_graph_snapshot_id = ''S'', gr_project_id = ''P'', gr_is_current = True,
        gr_status = ''complete''\<rparr>],
     ed_reports = [demo_report_row],
     ed_confirmations = [\<lparr>cr_confirmation_id = ''F'', cr_impact_report_id = ''R'', cr_project_id = ''P'',
        cr_approved_item_ids = [''I'']\<rparr>],
     ed_items = [\<lparr>ii_impact_item_id = ''I'', ii_target_path = ''a.py'', ii_target_symbols = [],
        ii_recommended_action = ''modify'', ii_test_file_refs = tests, iir_impact_report_id = ''R'',
        iir_project_id = ''P''\<rparr>],
     ed_profile_versions = [\<lparr>pv_profile_version_id = ''Q'', pv_profile_type = ''CommandExecutionProfile'',
        pv_profile_id = ''p'', pv_semantic_version = ''1'', pv_payload = demo_profile,
        pv_payload_digest = canonical_digest (PDict demo_profile)\<rparr>],
     ed_packets = [], ed_grants = [], ed_events = [],
     ed_commands = [\<lparr>cx_command_execution_id = ''X'', cx_approval_grant_id = ''A'', cx_project_id = ''P'',
        cx_analysis_case_id = ''C'', cx_edit_packet_id = ''K'', cx_command_ref = ''unit'', cx_status = ''passed''\<rparr>],
     ed_results = []\<rparr>"

definition demo_packet_request :: packet_request where
  "demo_packet_request =
    \<lparr>pq_edit_packet_id = ''K'', pq_project_id = ''P'', pq_analysis_case_id = ''C'', pq_impact_report_id = ''R'',
     pq_confirmation_id = ''F'', pq_workspace_root = ''/w'', pq_forbidden_globs = [''*.lock''],
     pq_implementation_constraints = []\<rparr>"

definition demo_source :: "string list \<Rightarrow> packet_source" where
  "demo_source tests =
    \<lparr>ps_project_id = ''P'', ps_analysis_case_id = ''C'', ps_impact_report_id = ''R'', ps_confirmation_id = ''F'',
     ps_repository_id = ''G'', ps_repository_revision_id = ''V'', ps_commit_sha = ''abc'', ps_remote_url = ''url'',
     ps_workspace_root = ''/w'', ps_business_summary = ''s'', ps_required_ui_scenario_refs = [],
     ps_approved_item_ids = [''I''],
     ps_items = [\<lparr>ii_impact_item_id = ''I'', ii_target_path = ''a.py'', ii_target_symbols = [],
        ii_recommended_action = ''modify'', ii_test_file_refs = tests\<rparr>]\<rparr>"

definition demo_packet :: "string list \<Rightarrow> pydict" where
  "demo_packet tests = packet_artifact (demo_source tests) demo_packet_request"

definition demo_packet_row :: "string list \<Rightarrow> packet_row" where
  "demo_packet_row tests =
    \<lparr>pk_edit_packet_id = ''K'', pk_project_id = ''P'', pk_analysis_case_id = ''C'', pk_impact_report_id = ''R'',
     pk_confirmation_id = ''F'', pk_repository_id = ''G'', pk_repository_revision_id = ''V'',
     pk_base_repository_revision = ''abc'', pk_status = ''active'', pk_editable_files = PStrs [''a.py''],
     pk_read_only_files = PStrs [], pk_test_files = PStrs tests, pk_forbidden_globs = PStrs [''*.lock''],
     pk_allowed_items = PList [allowed_item (demo_source tests) demo_packet_request (hd (ps_items (demo_source tests)))],
     pk_required_ui_scenario_refs = PStrs []\<rparr>"

definition demo_published :: "string list \<Rightarrow> edit_db" where
  "demo_published tests = (demo_db tests)
    \<lparr>ed_artifacts := [demo_artifact_row ''R'' demo_report_artifact, demo_artifact_row ''K'' (demo_packet tests)],
     ed_cases := [\<lparr>ca_analysis_case_id = ''C'', ca_project_id = ''P'', ca_status = ''editing''\<rparr>],
     ed_packets := [demo_packet_row tests]\<rparr>"

lemma demo_request_fields [simp]:
  "pq_edit_packet_id demo_packet_request = ''K''" "pq_project_id demo_packet_request = ''P''"
  "pq_analysis_case_id demo_packet_request = ''C''" "pq_impact_report_id demo_packet_request = ''R''"
  "pq_confirmation_id demo_packet_request = ''F''" "pq_workspace_root demo_packet_request = ''/w''"
  "pq_forbidden_globs demo_packet_request = [''*.lock'']" "pq_implementation_constraints demo_packet_request = []"
  by (simp_all add: demo_packet_request_def)

lemma demo_source_fields [simp]:
  "ps_project_id (demo_source ts) = ''P''" "ps_analysis_case_id (demo_source ts) = ''C''"
  "ps_impact_report_id (demo_source ts) = ''R''" "ps_confirmation_id (demo_source ts) = ''F''"
  "ps_repository_id (demo_source ts) = ''G''" "ps_repository_revision_id (demo_source ts) = ''V''"
  "ps_commit_sha (demo_source ts) = ''abc''" "ps_remote_url (demo_source ts) = ''url''"
  "ps_workspace_root (demo_source ts) = ''/w''" "ps_required_ui_scenario_refs (demo_source ts) = []"
  "ps_approved_item_ids (demo_source ts) = [''I'']" "ps_items (demo_source ts) \<noteq> []"
  by (simp_all add: demo_source_def)

section \<open>Publication\<close>

lemma demo_env_simps [simp]:
  "ee_validate_artifact demo_env a = Inr ()" "ee_report_intact demo_env db r = Inr ()"
  "ee_ignored demo_env ps p = False" "ee_git demo_env = demo_tools"
  by (simp_all add: demo_env_def)

lemma demo_workspace:
  "gt_resolve demo_tools s = Inr s"
  "inspect_workspace demo_tools ''/w'' = Inr \<lparr>gi_workspace_root = ''/w'', gi_head_sha = ''abc'',
     gi_remote_url = ''url'', gi_tracked_paths = [''a.py'']\<rparr>"
  by (simp_all add: demo_tools_def) code_simp

lemma demo_get_artifact:
  assumes "find_artifact db i = Some (demo_artifact_row i a)" "\<not> blank i"
    and "map_of a ''artifact_type'' = Some t" "map_of a ''schema_version'' = Some (PStr ''v1'')"
    and "dget a ''project_id'' \<in> {PNone, PStr ''P''}" "dget a ''analysis_case_id'' \<in> {PNone, PStr ''C''}"
  shows "get_artifact demo_env db i = Inr (Some a)"
  using assms by (auto simp: get_artifact_def demo_artifact_row_def dindex_def dget_def scope_matches_def)

definition demo_world :: "string list \<Rightarrow> edit_db \<Rightarrow> bool" where
  "demo_world tests db \<longleftrightarrow> ed_reports db = ed_reports (demo_db tests) \<and> ed_repositories db = ed_repositories (demo_db tests)
    \<and> ed_revisions db = ed_revisions (demo_db tests) \<and> ed_graphs db = ed_graphs (demo_db tests)
    \<and> ed_confirmations db = ed_confirmations (demo_db tests) \<and> ed_items db = ed_items (demo_db tests)
    \<and> ed_profile_versions db = ed_profile_versions (demo_db tests) \<and> ed_commands db = ed_commands (demo_db tests)
    \<and> find_artifact db ''R'' = Some (demo_artifact_row ''R'' demo_report_artifact)"

lemma demo_report_loaded:
  assumes "demo_world tests db"
  shows "get_artifact demo_env db ''R'' = Inr (Some demo_report_artifact)"
    "report_state demo_env db ''R'' = Inr (Some demo_report_row)"
proof -
  show got: "get_artifact demo_env db ''R'' = Inr (Some demo_report_artifact)"
    using assms by (intro demo_get_artifact) (auto simp: demo_world_def demo_report_artifact_def dget_def)
  show "report_state demo_env db ''R'' = Inr (Some demo_report_row)"
    using assms got by (simp add: report_state_def find_report_def demo_world_def demo_db_def demo_report_row_def)
qed

lemma demo_items:
  assumes "demo_world tests db"
  shows "items_of_report db ''R'' ''P'' = ps_items (demo_source tests)"
  using assms by (simp add: items_of_report_def demo_world_def demo_db_def demo_source_def)

lemma demo_source_loaded:
  assumes "demo_world tests db"
  shows "load_packet_source demo_env db ''P'' ''C'' ''R'' ''F'' = Inr (demo_source tests)"
    "load_integrity_source demo_env db ''P'' ''C'' ''R'' ''F'' = Inr (demo_source tests)"
proof -
  have rows: "confirmed_rows db ''P'' ''C'' ''R'' ''F'' = Some (demo_report_row,
      \<lparr>cr_confirmation_id = ''F'', cr_impact_report_id = ''R'', cr_project_id = ''P'', cr_approved_item_ids = [''I'']\<rparr>,
      \<lparr>rp_repository_id = ''G'', rp_project_id = ''P'', rp_remote_url = ''url'', rp_workspace_root = Some ''/w''\<rparr>)"
    using assms by (simp add: confirmed_rows_def find_report_def find_confirmation_def find_repository_def
        demo_world_def demo_db_def demo_report_row_def)
  have "source_of_rows demo_report_artifact db demo_report_row
      \<lparr>cr_confirmation_id = ''F'', cr_impact_report_id = ''R'', cr_project_id = ''P'', cr_approved_item_ids = [''I'']\<rparr>
      \<lparr>rp_repository_id = ''G'', rp_project_id = ''P'', rp_remote_url = ''url'', rp_workspace_root = Some ''/w''\<rparr> ''/w''
      = Inr (demo_source tests)"
    using demo_items[OF assms]
    by (simp add: source_of_rows_def demo_report_artifact_def dindex_def demo_report_row_def demo_source_def strings_of_def)
  moreover have "find_graph db ''S'' ''P'' = Some \<lparr>gr_code_graph_snapshot_id = ''S'', gr_project_id = ''P'',
      gr_is_current = True, gr_status = ''complete''\<rparr>"
    using assms by (simp add: find_graph_def demo_world_def demo_db_def)
  ultimately show "load_packet_source demo_env db ''P'' ''C'' ''R'' ''F'' = Inr (demo_source tests)"
    "load_integrity_source demo_env db ''P'' ''C'' ''R'' ''F'' = Inr (demo_source tests)"
    using rows demo_report_loaded[OF assms]
    by (simp_all add: load_packet_source_def load_integrity_source_def) (simp_all add: demo_report_row_def)
qed

lemma demo_scope:
  assumes "tests = [] \<or> tests = [''t.py'']"
  shows "actionable_items (demo_source tests) = ps_items (demo_source tests)"
    "scope_editable_files (demo_source tests) = [''a.py'']" "scope_read_only_files (demo_source tests) = []"
    "scope_test_files (demo_source tests) = tests" "distinct (scope_paths (demo_source tests))"
proof -
  show act: "actionable_items (demo_source tests) = ps_items (demo_source tests)"
    by (simp add: actionable_items_def approved_items_def demo_source_def)
  show tests: "scope_test_files (demo_source tests) = tests"
    using assms unfolding scope_test_files_def act by (auto simp: demo_source_def sorted_set_def)
  show edit: "scope_editable_files (demo_source tests) = [''a.py'']"
    using assms unfolding scope_editable_files_def act tests by (auto simp: demo_source_def sorted_set_def)
  show read: "scope_read_only_files (demo_source tests) = []"
    unfolding scope_read_only_files_def by (simp add: approved_items_def demo_source_def sorted_set_def)
  show "distinct (scope_paths (demo_source tests))"
    using assms unfolding scope_paths_def tests edit read by auto
qed

lemma demo_derived:
  assumes "tests = [] \<or> tests = [''t.py'']"
  shows "derive_packet demo_env demo_packet_request (demo_source tests) = Inr (demo_packet tests)"
proof -
  note scope = demo_scope[OF assms]
  have paths: "scope_paths (demo_source tests) = ''a.py'' # tests" by (simp add: scope_paths_def scope)
  have safe: "list_all (\<lambda>p. validate_relative_path p = Inr ()) [''a.py'', ''t.py'']" by code_simp
  have "validate_relative_path ''a.py'' = Inr ()" "mapM validate_relative_path tests = Inr (map (\<lambda>_. ()) tests)"
    using assms safe by (auto simp: list_all_iff)
  moreover have "forbidden_spec demo_env [''*.lock''] = Inr (\<lambda>_. False)"
  proof -
    have "find (\<lambda>p. starts_with ''!'' p \<or> \<not> safe_relative p) [''*.lock''] = None" by code_simp
    then show ?thesis unfolding forbidden_spec_def by (simp add: demo_env_def)
  qed
  moreover have "add_paths (demo_source tests) = []" unfolding add_paths_def scope by (simp add: demo_source_def)
  moreover have "absent_paths (demo_source tests) \<lparr>gi_workspace_root = ''/w'', gi_head_sha = ''abc'',
     gi_remote_url = ''url'', gi_tracked_paths = [''a.py'']\<rparr> = []"
    using calculation assms by (auto simp: absent_paths_def paths scope)
  ultimately show ?thesis
    using demo_workspace scope
    by (simp add: derive_packet_def paths demo_packet_def)
qed

lemma demo_packet_index:
  assumes "tests = [] \<or> tests = [''t.py'']"
  shows "map_of (demo_packet tests) = map_of
    [(''artifact_type'', PStr ''CopilotEditPacket''), (''schema_version'', PStr ''v1''),
     (''edit_packet_id'', PStr ''K''), (''impact_report_id'', PStr ''R''),
     (''confirmation_id'', PStr ''F''), (''project_id'', PStr ''P''),
     (''repository_id'', PStr ''G''), (''base_repository_revision'', PStr ''abc''),
     (''editable_files'', PStrs [''a.py'']), (''read_only_files'', PStrs []),
     (''test_files'', PStrs tests), (''forbidden_globs'', PStrs [''*.lock'']),
     (''allowed_items'', PList [allowed_item (demo_source tests) demo_packet_request (hd (ps_items (demo_source tests)))]),
     (''required_ui_scenario_refs'', PStrs []),
     (''out_of_scope_policy'', PStr ''stop_and_reanalyze''), (''must_not_fetch_context_package'', PBool True)]"
  unfolding demo_packet_def packet_artifact_def demo_scope[OF assms]
  by (simp add: demo_source_def)

lemma demo_get_packet:
  assumes tests: "tests = [] \<or> tests = [''t.py'']" and world: "demo_world tests db"
    and found: "find_artifact db ''K'' = Some (demo_artifact_row ''K'' (demo_packet tests))"
    and row: "find_packet db ''K'' = Some (demo_packet_row tests\<lparr>pk_status := st\<rparr>)" "st \<in> {''active'', ''superseded''}"
  shows "get_packet demo_env db ''K'' = Inr (Some \<lparr>pr_artifact = demo_packet tests, pr_project_id = ''P'',
     pr_analysis_case_id = ''C'', pr_repository_revision_id = ''V'', pr_status = st,
     pr_impact_report_status = ''confirmed''\<rparr>)"
proof -
  note index = demo_packet_index[OF tests]
  have art: "get_artifact demo_env db ''K'' = Inr (Some (demo_packet tests))"
    using found by (intro demo_get_artifact) (simp_all add: index dget_def)
  let ?row = "demo_packet_row tests\<lparr>pk_status := st\<rparr>"
  have joined: "joined_packet db ''K'' = Some (?row, ''abc'', ''R'')"
    using world row by (simp add: joined_packet_def demo_world_def demo_db_def demo_packet_row_def)
  have sem: "validate_packet_semantics (demo_packet tests) (demo_source tests) = Inr ()"
    unfolding demo_packet_def by (rule derived_semantics) (simp add: demo_scope[OF tests])
  have row_fields: "pk_edit_packet_id ?row = ''K''" "pk_project_id ?row = ''P''"
      "pk_analysis_case_id ?row = ''C''" "pk_repository_revision_id ?row = ''V''" by (simp_all add: demo_packet_row_def)
  have "validate_packet_integrity demo_env db (demo_packet tests) (?row, ''abc'', ''R'') = Inr ''confirmed''"
    using demo_report_loaded(2)[OF world] demo_source_loaded(2)[OF world] sem row(2)
    by (auto simp: validate_packet_integrity_def index dget_def dindex_def packet_identity_keys_def packet_list_keys_def
        demo_packet_row_def demo_report_row_def py_list_def comp_def)
  then show ?thesis using art joined row_fields by (simp add: get_packet_def)
qed

lemma demo_world_db: "demo_world tests (demo_db tests)" "demo_world tests (demo_published tests)"
  by (simp_all add: demo_world_def demo_published_def) (simp_all add: demo_db_def find_artifact_def demo_artifact_row_def)

lemma demo_publication:
  assumes tests: "tests = [] \<or> tests = [''t.py'']"
  shows "publish_packet demo_env (demo_packet tests) (demo_source tests) (demo_db tests)
    = Inr (demo_published tests, True, ''K'', ''active'')"
proof -
  note index = demo_packet_index[OF tests]
  have sem: "validate_packet_semantics (demo_packet tests) (demo_source tests) = Inr ()"
    unfolding demo_packet_def by (rule derived_semantics) (simp add: demo_scope[OF tests])
  have none: "find_artifact (demo_db tests) ''K'' = None"
    by (simp add: find_artifact_def demo_db_def demo_artifact_row_def)
  then have fresh: "get_artifact demo_env (demo_db tests) ''K'' = Inr None" by (simp add: get_artifact_def)
  have current: "source_still_current (demo_db tests) (demo_source tests)"
    by (simp add: source_still_current_def demo_db_def find_report_def find_case_def find_confirmation_def
        find_repository_def find_graph_def demo_report_row_def)
  define db1 where "db1 = (demo_db tests)\<lparr>ed_artifacts := [demo_artifact_row ''R'' demo_report_artifact,
      demo_artifact_row ''K'' (demo_packet tests)]\<rparr>"
  have "find_case (demo_db tests) ''C'' = Some \<lparr>ca_analysis_case_id = ''C'', ca_project_id = ''P'',
      ca_status = ''awaiting_confirmation''\<rparr>" "ed_artifacts (demo_db tests) = [demo_artifact_row ''R'' demo_report_artifact]"
    by (simp_all add: demo_db_def find_case_def)
  then have store: "store_artifact demo_env ''K'' ''P'' ''C'' (demo_packet tests) (demo_db tests) = Inr db1"
    using none
    by (simp add: store_artifact_def index dget_def dindex_def scope_matches_def db1_def demo_artifact_row_def)
  have arrays: "mapM (dindex (demo_packet tests)) packet_list_keys = Inr [PStrs [''a.py''], PStrs [], PStrs tests,
      PStrs [''*.lock''], PList [allowed_item (demo_source tests) demo_packet_request (hd (ps_items (demo_source tests)))],
      PStrs []]"
    by (simp add: packet_list_keys_def dindex_def index)
  have row: "new_packet_row (demo_source tests) ''K'' [PStrs [''a.py''], PStrs [], PStrs tests,
      PStrs [''*.lock''], PList [allowed_item (demo_source tests) demo_packet_request (hd (ps_items (demo_source tests)))],
      PStrs []] = demo_packet_row tests"
    by (simp add: new_packet_row_def demo_packet_row_def)
  have insert: "insert_packet (demo_packet_row tests) (supersede_packets (is_active_in ''P'' ''C'') db1)
      = Inr (db1\<lparr>ed_packets := [demo_packet_row tests]\<rparr>)"
    by (simp add: insert_packet_def supersede_packets_def db1_def demo_db_def find_packet_def demo_packet_row_def
        packet_arrays_valid_def array_length_def btrim_blank_def)
  have db3: "set_case_status ''C'' ''P'' ''editing'' (db1\<lparr>ed_packets := [demo_packet_row tests]\<rparr>) = demo_published tests"
    by (simp add: set_case_status_def db1_def demo_published_def) (simp add: demo_db_def)
  have "find_artifact (demo_published tests) ''K'' = Some (demo_artifact_row ''K'' (demo_packet tests))"
    "find_packet (demo_published tests) ''K'' = Some (demo_packet_row tests\<lparr>pk_status := ''active''\<rparr>)"
    by (simp_all add: find_artifact_def find_packet_def demo_published_def demo_artifact_row_def demo_packet_row_def)
  note published = demo_get_packet[OF tests demo_world_db(2) this, simplified]
  have no_packets: "ed_packets (demo_db tests) = []" by (simp add: demo_db_def)
  have "publish_new demo_env (demo_packet tests) (demo_source tests) ''K'' (demo_db tests)
      = Inr (demo_published tests, True, ''K'', ''active'')"
    using current demo_items[OF demo_world_db(1)] store arrays insert published row
    by (simp add: publish_new_def all_known_def no_packets db3)
  then show ?thesis
    using sem fresh demo_report_loaded(2)[OF demo_world_db(1)]
    by (simp add: publish_packet_def dindex_def dget_def index demo_report_row_def)
qed

lemma demo_packet_run:
  assumes "tests = [] \<or> tests = [''t.py'']"
  shows "run_edit_packet demo_env demo_packet_request (demo_db tests)
    = Inr (demo_published tests, demo_packet tests, True, ''K'', ''active'')"
  using demo_source_loaded(1)[OF demo_world_db(1)] demo_derived[OF assms] demo_publication[OF assms]
  by (simp add: run_edit_packet_def)

section \<open>The approval\<close>

definition demo_refs :: "string list \<Rightarrow> string list" where
  "demo_refs tests = (if tests = [] then [] else [''unit''])"

definition demo_grant_source :: "string list \<Rightarrow> grant_source" where
  "demo_grant_source tests =
    \<lparr>gs_project_id = ''P'', gs_analysis_case_id = ''C'', gs_edit_packet_id = ''K'', gs_impact_report_id = ''R'',
     gs_confirmation_id = ''F'', gs_repository_id = ''G'', gs_base_repository_revision = ''abc'',
     gs_editable_files = [''a.py''], gs_read_only_files = [], gs_test_files = tests,
     gs_forbidden_globs = [''*.lock''], gs_required_ui_scenario_refs = []\<rparr>"

definition demo_actions :: "string list \<Rightarrow> string list" where
  "demo_actions tests = [''read'', ''modify'', ''record_result''] @ (if tests = [] then [] else [''add_test'', ''run_test''])"

lemma demo_actions: "allowed_actions (demo_grant_source tests) = demo_actions tests"
  by (simp add: allowed_actions_def demo_grant_source_def demo_actions_def)

definition demo_grant_request :: "string list \<Rightarrow> grant_request" where
  "demo_grant_request tests =
    \<lparr>rq_grant_id = ''A'', rq_project_id = ''P'', rq_analysis_case_id = ''C'', rq_edit_packet_id = ''K'',
     rq_approved_by = ''u'', rq_expires_at = \<lparr>dt_wall = 0, dt_utcoffset = None\<rparr>,
     rq_command_profile_binding_key = ''k'', rq_allowed_test_command_refs = demo_refs tests\<rparr>"

definition demo_expiry :: int where
  "demo_expiry = 63934358400000000"

definition demo_grant :: "string list \<Rightarrow> pydict" where
  "demo_grant tests = grant_artifact (demo_grant_request tests) (demo_grant_source tests) ''Q'' ''2027-01-01T00:00:00Z''"

definition demo_grant_row :: "string list \<Rightarrow> grant_row" where
  "demo_grant_row tests =
    \<lparr>gt_approval_grant_id = ''A'', gt_project_id = ''P'', gt_analysis_case_id = ''C'', gt_edit_packet_id = ''K'',
     gt_impact_report_id = ''R'', gt_confirmation_id = ''F'', gt_repository_id = ''G'',
     gt_base_repository_revision = ''abc'', gt_editable_files = PStrs [''a.py''], gt_read_only_files = PStrs [],
     gt_test_files = PStrs tests, gt_allowed_actions = PStrs (demo_actions tests),
     gt_command_profile_version_id = PStr ''Q'', gt_allowed_test_command_refs = PStrs (demo_refs tests),
     gt_allowed_ui_scenarios = PStrs [], gt_forbidden_globs = PStrs [''*.lock''], gt_approved_by = PStr ''u'',
     gt_expires_at = demo_expiry, gt_out_of_scope_policy = PStr ''collect_and_request_once'',
     gt_payload_digest = canonical_digest (PDict (demo_grant tests))\<rparr>"

definition demo_granted :: "string list \<Rightarrow> edit_db" where
  "demo_granted tests = (demo_published tests)
    \<lparr>ed_artifacts := ed_artifacts (demo_published tests) @ [demo_artifact_row ''A'' (demo_grant tests)],
     ed_grants := [demo_grant_row tests]\<rparr>"

lemma demo_grant_index:
  "map_of (demo_grant tests) = map_of
    [(''artifact_type'', PStr ''ApprovalGrant''), (''schema_version'', PStr ''v1''),
     (''approval_grant_id'', PStr ''A''), (''change_session_id'', PStr ''C''),
     (''analysis_case_id'', PStr ''C''), (''edit_packet_id'', PStr ''K''),
     (''impact_report_id'', PStr ''R''), (''confirmation_id'', PStr ''F''),
     (''project_id'', PStr ''P''), (''repository_id'', PStr ''G''),
     (''base_repository_revision'', PStr ''abc''),
     (''editable_files'', PStrs [''a.py'']), (''read_only_files'', PStrs []),
     (''test_files'', PStrs tests), (''allowed_actions'', PStrs (demo_actions tests)),
     (''command_profile_version_id'', PStr ''Q''),
     (''allowed_test_command_refs'', PStrs (demo_refs tests)),
     (''allowed_ui_scenarios'', PStrs []),
     (''forbidden_globs'', PStrs [''*.lock'']), (''approved_by'', PStr ''u''),
     (''expires_at'', PStr ''2027-01-01T00:00:00Z''), (''out_of_scope_policy'', PStr ''collect_and_request_once'')]"
  unfolding demo_grant_def grant_artifact_def demo_actions
  by (simp add: demo_grant_request_def demo_grant_source_def)

lemma demo_expires: "parse_timestamp ''2027-01-01T00:00:00Z'' = Inr demo_expiry"
  by code_simp

lemma demo_grant_semantics: "validate_grant_semantics (demo_grant tests) (demo_grant_source tests) = Inr ()"
proof -
  have "gs_analysis_case_id (demo_grant_source tests) = ''C''" "gs_test_files (demo_grant_source tests) = tests"
    by (simp_all add: demo_grant_source_def)
  then show ?thesis
    by (simp add: validate_grant_semantics_def demo_actions dget_def dindex_def demo_grant_index demo_refs_def)
qed

lemma demo_binding:
  assumes "demo_world tests db"
  shows "validate_command_profile_binding db (demo_grant tests) = Inr ()"
proof -
  have "template_refs demo_profile = Some [''unit'']" by (simp add: template_refs_def demo_profile_def dget_def)
  then show ?thesis
    using assms
    by (simp add: validate_command_profile_binding_def dindex_def demo_grant_index demo_world_def demo_db_def strings_of_def
        demo_refs_def) (simp add: demo_profile_def dget_def)
qed

lemma demo_packet_grant_source:
  assumes "tests = [] \<or> tests = [''t.py'']"
  shows "grant_source_of_packet \<lparr>pr_artifact = demo_packet tests, pr_project_id = ''P'', pr_analysis_case_id = ''C'',
     pr_repository_revision_id = ''V'', pr_status = st, pr_impact_report_status = ''confirmed''\<rparr>
    = Inr (demo_grant_source tests)"
  by (simp add: grant_source_of_packet_def dindex_def demo_packet_index[OF assms] strings_of_def demo_grant_source_def comp_def)

lemma demo_expected: "expected_grant_source (demo_grant tests) = Inr (demo_grant_source tests)"
  by (simp add: expected_grant_source_def dindex_def demo_grant_index strings_of_def demo_grant_source_def comp_def)

definition demo_rows :: "string list \<Rightarrow> edit_db \<Rightarrow> bool" where
  "demo_rows tests db \<longleftrightarrow> demo_world tests db
    \<and> find_artifact db ''K'' = Some (demo_artifact_row ''K'' (demo_packet tests))
    \<and> (\<exists>st\<in>{''active'', ''superseded''}. find_packet db ''K'' = Some (demo_packet_row tests\<lparr>pk_status := st\<rparr>))"

lemma demo_grant_intact:
  assumes tests: "tests = [] \<or> tests = [''t.py'']" and rows: "demo_rows tests db"
    and found: "find_artifact db ''A'' = Some (demo_artifact_row ''A'' (demo_grant tests))"
  shows "grant_intact demo_env db (demo_grant_row tests) = Inr ()"
proof -
  have art: "get_artifact demo_env db ''A'' = Inr (Some (demo_grant tests))"
    using found by (intro demo_get_artifact) (simp_all add: demo_grant_index dget_def)
  have identity: "mapM (dindex (demo_grant tests)) grant_keys = Inr (grant_columns (demo_grant_row tests))"
    by (simp add: grant_keys_def dindex_def demo_grant_index grant_columns_def demo_grant_row_def)
  have row: "gt_approval_grant_id (demo_grant_row tests) = ''A''" "gt_expires_at (demo_grant_row tests) = demo_expiry"
      "gt_payload_digest (demo_grant_row tests) = canonical_digest (PDict (demo_grant tests))"
    by (simp_all add: demo_grant_row_def)
  obtain st where world: "demo_world tests db" "find_artifact db ''K'' = Some (demo_artifact_row ''K'' (demo_packet tests))"
      "find_packet db ''K'' = Some (demo_packet_row tests\<lparr>pk_status := st\<rparr>)" "st \<in> {''active'', ''superseded''}"
    using rows unfolding demo_rows_def by blast
  have "dget (demo_grant tests) ''artifact_type'' = PStr ''ApprovalGrant''"
      "dindex (demo_grant tests) ''expires_at'' = Inr (PStr ''2027-01-01T00:00:00Z'')"
      "dindex (demo_grant tests) ''edit_packet_id'' = Inr (PStr ''K'')"
    by (simp_all add: dget_def dindex_def demo_grant_index)
  then show ?thesis
    using art identity row demo_get_packet[OF tests world] demo_packet_grant_source[OF tests] demo_expected
      demo_grant_semantics demo_binding[OF world(1)] demo_expires
    by (simp add: grant_intact_def)
qed

definition demo_authorization :: "string list \<Rightarrow> grant_authorization" where
  "demo_authorization tests =
    \<lparr>au_grant_id = ''A'', au_project_id = ''P'', au_analysis_case_id = ''C'', au_edit_packet_id = ''K'',
     au_impact_report_id = ''R'', au_confirmation_id = ''F'', au_repository_id = ''G'',
     au_base_repository_revision = ''abc'', au_allowed_actions = demo_actions tests,
     au_command_profile_version_id = ''Q'', au_allowed_test_command_refs = demo_refs tests,
     au_allowed_ui_scenarios = [], au_expires_at = demo_expiry, au_state = ''active_editing''\<rparr>"

lemma demo_inspect:
  assumes tests: "tests = [] \<or> tests = [''t.py'']" and rows: "demo_rows tests db"
    and found: "find_artifact db ''A'' = Some (demo_artifact_row ''A'' (demo_grant tests))"
    and grant: "find_grant db ''A'' = Some (demo_grant_row tests)" "ed_events db = []"
  shows "inspect_grant demo_env db ''A'' 0 = Inr (demo_authorization tests)"
  using demo_grant_intact[OF tests rows found] grant
  by (simp add: inspect_grant_def events_of_def) (simp add: demo_grant_row_def strings_of_def comp_def demo_authorization_def
      grant_state_def demo_expiry_def)

lemma demo_rows_published: "demo_rows tests (demo_published tests)" "demo_rows tests (demo_granted tests)"
proof -
  show published: "demo_rows tests (demo_published tests)"
    using demo_world_db(2) unfolding demo_rows_def
    by (simp add: demo_published_def find_artifact_def find_packet_def demo_artifact_row_def demo_packet_row_def)
  show "demo_rows tests (demo_granted tests)"
    using published
    by (simp add: demo_rows_def demo_world_def find_artifact_def find_packet_def demo_granted_def find_appended)
qed

lemma demo_issue:
  assumes tests: "tests = [] \<or> tests = [''t.py'']"
  shows "issue_grant demo_env 0 (demo_grant tests) (demo_grant_source tests) (demo_published tests)
    = Inr (demo_granted tests, True, ''A'', ''active_editing'')"
proof -
  let ?db = "demo_published tests" and ?s = "demo_grant_source tests" and ?a = "demo_grant tests"
  have rows: "demo_world tests ?db" "find_artifact ?db ''K'' = Some (demo_artifact_row ''K'' (demo_packet tests))"
      "find_packet ?db ''K'' = Some (demo_packet_row tests\<lparr>pk_status := ''active''\<rparr>)"
    using demo_rows_published(1)[of tests]
    by (simp_all add: demo_rows_def) (simp add: find_packet_def demo_published_def demo_packet_row_def)
  note packet = demo_get_packet[OF tests rows, simplified]
  have src: "gs_edit_packet_id ?s = ''K''" "gs_project_id ?s = ''P''" "gs_analysis_case_id ?s = ''C''"
    by (simp_all add: demo_grant_source_def)
  have none: "find_artifact ?db ''A'' = None"
    by (simp add: find_artifact_def demo_published_def demo_artifact_row_def)
  then have fresh: "get_artifact demo_env ?db ''A'' = Inr None" by (simp add: get_artifact_def)
  have scope: "artifact_in_scope ?a ?s"
    by (simp add: artifact_in_scope_def dget_def demo_grant_index) (simp add: demo_grant_source_def)
  have expiring: "0 < demo_expiry" by (simp add: demo_expiry_def)
  have current: "issue_source_current ?db ?s demo_expiry 0"
    using expiring
    by (simp add: issue_source_current_def demo_published_def demo_db_def find_packet_def find_case_def find_report_def
        find_confirmation_def find_graph_def demo_packet_row_def demo_report_row_def demo_grant_source_def)
  have case_row: "find_case ?db ''C'' = Some \<lparr>ca_analysis_case_id = ''C'', ca_project_id = ''P'', ca_status = ''editing''\<rparr>"
      "ed_grants ?db = []"
    by (simp_all add: find_case_def demo_published_def) (simp add: demo_db_def)
  have store: "store_artifact demo_env ''A'' ''P'' ''C'' ?a ?db
      = Inr (?db\<lparr>ed_artifacts := ed_artifacts ?db @ [demo_artifact_row ''A'' ?a]\<rparr>)"
    using none case_row(1)
    by (simp add: store_artifact_def demo_grant_index dget_def dindex_def scope_matches_def demo_artifact_row_def)
  have vs: "mapM (dindex ?a) grant_insert_keys = Inr [PStrs [''a.py''], PStrs [], PStrs tests,
      PStrs (demo_actions tests), PStr ''Q'', PStrs (demo_refs tests), PStrs [], PStrs [''*.lock''], PStr ''u'',
      PStr ''collect_and_request_once'']"
    by (simp add: grant_insert_keys_def dindex_def demo_grant_index)
  have row: "new_grant_row ?s ''A'' [PStrs [''a.py''], PStrs [], PStrs tests,
      PStrs (demo_actions tests), PStr ''Q'', PStrs (demo_refs tests), PStrs [], PStrs [''*.lock''], PStr ''u'',
      PStr ''collect_and_request_once''] demo_expiry (canonical_digest (PDict ?a)) = demo_grant_row tests"
    by (simp add: new_grant_row_def demo_grant_row_def demo_grant_source_def)
  have insert: "insert_grant (demo_grant_row tests) 0 (?db\<lparr>ed_artifacts := ed_artifacts ?db @ [demo_artifact_row ''A'' ?a]\<rparr>)
      = Inr (demo_granted tests)"
    using case_row(2) expiring
    by (simp add: insert_grant_def find_grant_def demo_granted_def)
      (simp add: demo_grant_row_def array_length_def demo_actions_def btrim_blank_def)
  have "issue_new demo_env 0 ?a ?s ''A'' demo_expiry ?db = Inr (demo_granted tests, True, ''A'', ''active_editing'')"
    using current packet demo_packet_grant_source[OF tests] demo_binding[OF rows(1)] store vs row insert
    by (simp add: issue_new_def require_packet_source_def src)
  moreover have "dindex ?a ''approval_grant_id'' = Inr (PStr ''A'')"
      "dindex ?a ''expires_at'' = Inr (PStr ''2027-01-01T00:00:00Z'')"
    by (simp_all add: dindex_def demo_grant_index)
  ultimately show ?thesis
    using scope demo_grant_semantics demo_expires packet demo_packet_grant_source[OF tests] fresh
    by (simp add: issue_grant_def require_packet_source_def src)
qed

section \<open>Results\<close>

lemma demo_authorize:
  assumes tests: "tests = [] \<or> tests = [''t.py'']"
  shows "inspect_grant demo_env (demo_granted tests) ''A'' 0 = Inr (demo_authorization tests)"
    "authorize_edit demo_env 0 ''A'' ''P'' ''C'' ''K'' ''record_result'' True (demo_granted tests)
       = Inr (demo_authorization tests)"
proof -
  have "find_artifact (demo_granted tests) ''A'' = Some (demo_artifact_row ''A'' (demo_grant tests))"
    "find_grant (demo_granted tests) ''A'' = Some (demo_grant_row tests)" "ed_events (demo_granted tests) = []"
    by (simp_all add: find_artifact_def find_grant_def demo_granted_def demo_published_def demo_artifact_row_def
        demo_grant_row_def) (simp add: demo_db_def)
  then show g: "inspect_grant demo_env (demo_granted tests) ''A'' 0 = Inr (demo_authorization tests)"
    by (intro demo_inspect tests demo_rows_published)
  have "lock_grant (demo_granted tests) ''A'' ''P'' = Inr ()"
    by (simp add: lock_grant_def find_grant_def demo_granted_def demo_grant_row_def)
  moreover have "edit_source_current (demo_granted tests) (demo_authorization tests)"
    by (simp add: edit_source_current_def demo_granted_def demo_published_def demo_db_def find_packet_def find_case_def
        find_report_def find_graph_def demo_packet_row_def demo_report_row_def demo_authorization_def)
  moreover have "''record_result'' \<in> set (demo_actions tests)" by (simp add: demo_actions_def)
  ultimately show "authorize_edit demo_env 0 ''A'' ''P'' ''C'' ''K'' ''record_result'' True (demo_granted tests)
       = Inr (demo_authorization tests)"
    using g by (simp add: authorize_edit_def) (simp add: demo_authorization_def)
qed

definition demo_scope_of_result :: "string list \<Rightarrow> result_scope" where
  "demo_scope_of_result tests =
    \<lparr>sc_edit_packet_id = ''K'', sc_approval_grant_id = ''A'', sc_project_id = ''P'', sc_analysis_case_id = ''C'',
     sc_repository_id = ''G'', sc_base_repository_revision = ''abc'', sc_remote_url = ''url'',
     sc_workspace_root = ''/w'', sc_packet_status = ''active'', sc_writable_files = ''a.py'' # tests,
     sc_required_command_refs = demo_refs tests, sc_required_ui_scenario_refs = []\<rparr>"

lemma demo_result_scope:
  assumes tests: "tests = [] \<or> tests = [''t.py'']"
  shows "load_result_scope demo_env (demo_granted tests) 0 ''P'' ''C'' ''K'' ''A'' = Inr (demo_scope_of_result tests)"
proof -
  have rows: "find_packet (demo_granted tests) ''K'' = Some (demo_packet_row tests)"
      "find_repository (demo_granted tests) ''G'' ''P'' = Some \<lparr>rp_repository_id = ''G'', rp_project_id = ''P'',
        rp_remote_url = ''url'', rp_workspace_root = Some ''/w''\<rparr>"
    by (simp_all add: find_packet_def find_repository_def demo_granted_def demo_published_def demo_packet_row_def)
      (simp add: demo_db_def)
  have "sorted_set (''a.py'' # tests) = ''a.py'' # tests" "sort (demo_refs tests) = demo_refs tests"
    using tests by (auto simp: sorted_set_def demo_refs_def)
  then show ?thesis
    using rows demo_authorize(1)[OF tests]
    by (simp add: load_result_scope_def demo_packet_row_def demo_authorization_def strings_of_def comp_def
        demo_scope_of_result_def)
qed

definition demo_result_request :: "bool \<Rightarrow> result_request" where
  "demo_result_request committed =
    \<lparr>rs_edit_result_id = ''E'', rs_edit_packet_id = ''K'', rs_approval_grant_id = ''A'', rs_project_id = ''P'',
     rs_analysis_case_id = ''C'', rs_workspace_root = ''/w'', rs_committed = committed,
     rs_test_result_refs = (if committed then [''X''] else []),
     rs_tests_passed = (if committed then Some True else None), rs_changed_line_coverage = None\<rparr>"

definition demo_evidence :: git_diff_evidence where
  "demo_evidence =
    \<lparr>gd_workspace_root = ''/w'', gd_base_sha = ''abc'', gd_result_sha = None, gd_remote_url = ''url'',
     gd_changes = [\<lparr>gc_status = ''M'', gc_paths = [''a.py'']\<rparr>], gd_changed_lines = [(''a.py'', [1])]\<rparr>"

definition demo_missing :: coverage_judgement where
  "demo_missing =
    \<lparr>cj_threshold = 80, cj_files = [file_result ''a.py'' [1] [1] []], cj_evidence_refs = [],
     cj_status = ''missing'', cj_blockers = [''Changed-line coverage evidence is missing'']\<rparr>"

definition demo_write :: result_write where
  "demo_write =
    \<lparr>wr_edit_result_id = ''E'', wr_validation_mode = ''working'', wr_status = ''in_scope'',
     wr_result_repository_revision = None, wr_path_changes = [\<lparr>gc_status = ''M'', gc_paths = [''a.py'']\<rparr>],
     wr_changed_paths = [''a.py''], wr_out_of_scope_files = [], wr_test_result_refs = [], wr_tests_passed = None,
     wr_changed_line_coverage = coverage_report ''E'' ''P'' ''abc'' ''abc'' demo_missing\<rparr>"

text \<open>A committed result of the same change, with a coverage report that asks for no evidence.\<close>

definition demo_committed :: result_write where
  "demo_committed =
    \<lparr>wr_edit_result_id = ''E'', wr_validation_mode = ''committed'', wr_status = ''in_scope'',
     wr_result_repository_revision = Some ''def'', wr_path_changes = [\<lparr>gc_status = ''M'', gc_paths = [''a.py'']\<rparr>],
     wr_changed_paths = [''a.py''], wr_out_of_scope_files = [], wr_test_result_refs = [''X''],
     wr_tests_passed = Some True,
     wr_changed_line_coverage = coverage_report ''E'' ''P'' ''abc'' ''def''
       \<lparr>cj_threshold = 80, cj_files = [], cj_evidence_refs = [], cj_status = ''not_required'', cj_blockers = []\<rparr>\<rparr>"

lemma coverage_report_fields [simp]:
  "dindex (coverage_report e p b r j) ''status'' = Inr (PStr (cj_status j))"
  "dget (coverage_report e p b r j) ''artifact_type'' = PStr ''ChangedLineCoverageReport''"
  "dget (coverage_report e p b r j) ''edit_result_id'' = PStr e"
  "dget (coverage_report e p b r j) ''project_id'' = PStr p"
  by (simp_all add: coverage_report_def dindex_def dget_def)

definition demo_result_row :: "result_write \<Rightarrow> string \<Rightarrow> edit_result_row" where
  "demo_result_row w st =
    \<lparr>er_edit_result_id = ''E'', er_edit_packet_id = ''K'', er_project_id = ''P'', er_analysis_case_id = ''C'',
     er_approval_grant_id = ''A'', er_validation_mode = wr_validation_mode w,
     er_status = ''in_scope'', er_base_repository_revision = ''abc'',
     er_result_repository_revision = wr_result_repository_revision w,
     er_path_changes = path_changes_json w, er_changed_paths = [''a.py''],
     er_out_of_scope_files = [], er_test_result_refs = wr_test_result_refs w,
     er_tests_passed = wr_tests_passed w, er_command_evidence_status = command_evidence_status w,
     er_changed_line_coverage = wr_changed_line_coverage w, er_changed_line_coverage_status = PStr st\<rparr>"

lemma demo_no_results: "ed_results (demo_granted tests) = []" "ed_events (demo_granted tests) = []"
  by (simp_all add: demo_granted_def demo_published_def demo_db_def)

lemma demo_packet_found: "find_packet (demo_granted tests) ''K'' = Some (demo_packet_row tests)"
  by (simp add: find_packet_def demo_granted_def demo_published_def demo_packet_row_def)

lemma demo_cases: "ed_cases (demo_granted tests) = [\<lparr>ca_analysis_case_id = ''C'', ca_project_id = ''P'', ca_status = ''editing''\<rparr>]"
  by (simp add: demo_granted_def demo_published_def)

definition demo_worked :: "string list \<Rightarrow> edit_db" where
  "demo_worked tests = (demo_granted tests)\<lparr>ed_results := [demo_result_row demo_write ''missing'']\<rparr>"

lemma demo_scope_fields [simp]:
  "sc_edit_packet_id (demo_scope_of_result ts) = ''K''" "sc_approval_grant_id (demo_scope_of_result ts) = ''A''"
  "sc_project_id (demo_scope_of_result ts) = ''P''" "sc_analysis_case_id (demo_scope_of_result ts) = ''C''"
  "sc_base_repository_revision (demo_scope_of_result ts) = ''abc''" "sc_remote_url (demo_scope_of_result ts) = ''url''"
  "sc_workspace_root (demo_scope_of_result ts) = ''/w''" "sc_writable_files (demo_scope_of_result ts) = ''a.py'' # ts"
  "sc_required_command_refs (demo_scope_of_result ts) = demo_refs ts"
  "sc_required_ui_scenario_refs (demo_scope_of_result ts) = []"
  by (simp_all add: demo_scope_of_result_def)

lemma demo_insert:
  assumes "db' = demo_granted tests\<lparr>ed_results := [demo_result_row w st]\<rparr>"
    and "wr_validation_mode w = ''working'' \<and> wr_result_repository_revision w = None \<and> wr_tests_passed w = None
      \<or> wr_validation_mode w = ''committed'' \<and> wr_result_repository_revision w = Some ''def'' \<and> wr_tests_passed w = Some True"
    and "PStr st \<in> PStr ` {''passed'', ''failed'', ''missing'', ''not_required''}"
    and "dget (wr_changed_line_coverage w) ''artifact_type'' = PStr ''ChangedLineCoverageReport''
      \<and> dget (wr_changed_line_coverage w) ''edit_result_id'' = PStr ''E''
      \<and> dget (wr_changed_line_coverage w) ''project_id'' = PStr ''P''"
  shows "insert_edit_result (demo_result_row w st) (demo_granted tests) = Inr db'"
proof -
  let ?r = "demo_result_row w st"
  have fields: "er_edit_result_id ?r = ''E''" "er_base_repository_revision ?r = ''abc''" "er_status ?r = ''in_scope''"
      "er_validation_mode ?r = wr_validation_mode w" "er_out_of_scope_files ?r = []" "er_project_id ?r = ''P''"
      "er_result_repository_revision ?r = wr_result_repository_revision w" "er_tests_passed ?r = wr_tests_passed w"
      "er_changed_line_coverage_status ?r = PStr st" "er_changed_line_coverage ?r = wr_changed_line_coverage w"
    by (simp_all add: demo_result_row_def)
  have "db' = demo_granted tests\<lparr>ed_results := ed_results (demo_granted tests) @ [?r]\<rparr>"
    using assms(1) by (simp add: demo_no_results)
  moreover have "\<not> btrim_blank ''E''" "\<not> btrim_blank ''abc''" "\<not> btrim_blank ''def''" by (simp_all add: btrim_blank_def)
  moreover have "''committed'' \<noteq> ''working''" "''in_scope'' \<noteq> ''out_of_scope''" by simp_all
  ultimately show ?thesis
    unfolding insert_edit_result_def if_raise_eq_Inr fields
    using assms(2-4) by (elim disjE conjE exE; intro conjI) (simp_all add: demo_no_results)
qed

lemma demo_working_recorded:
  assumes tests: "tests = [] \<or> tests = [''t.py'']"
  shows "record_edit_result demo_env 0 0 (demo_scope_of_result tests) demo_write (demo_granted tests)
    = Inr (demo_worked tests, \<lparr>rr_created = True, rr_edit_result_id = ''E'', rr_status = ''in_scope'',
        rr_case_status = ''editing'', rr_command_evidence_status = ''not_applicable''\<rparr>)"
proof -
  have row: "result_row_of (demo_scope_of_result tests) demo_write = Inr (demo_result_row demo_write ''missing'')"
    by (simp add: result_row_of_def coverage_status_def demo_result_row_def) (simp add: demo_write_def demo_missing_def)
  have insert: "insert_edit_result (demo_result_row demo_write ''missing'') (demo_granted tests) = Inr (demo_worked tests)"
    by (rule demo_insert) (simp_all add: demo_worked_def demo_write_def demo_missing_def blank_iff)
  have wrote: "wr_edit_result_id demo_write = ''E''" "wr_validation_mode demo_write = ''working''"
      "wr_status demo_write = ''in_scope''" "wr_test_result_refs demo_write = []" by (simp_all add: demo_write_def)
  have kept: "set_case_status ''C'' ''P'' ''editing'' (demo_worked tests) = demo_worked tests"
    by (simp add: set_case_status_def demo_worked_def demo_cases)
  have "pk_project_id (demo_packet_row tests) = ''P''" "pk_status (demo_packet_row tests) = ''active''"
    by (simp_all add: demo_packet_row_def)
  then show ?thesis
    using demo_authorize(2)[OF tests] row insert kept demo_packet_found
    by (simp add: record_edit_result_def demo_no_results wrote validate_command_evidence_def next_case_status_def
        close_grant_def close_event_def close_packet_def command_evidence_status_def)
qed

definition demo_close_event :: grant_event_row where
  "demo_close_event =
    \<lparr>ge_event_id = ''approval-event:E:completed'', ge_approval_grant_id = ''A'', ge_project_id = ''P'',
     ge_event_type = ''completed'', ge_actor = ''operamind'',
     ge_reason = ''Committed edit validation closed the approval'',
     ge_payload_digest = event_digest ''approval-event:E:completed'' ''A'' ''P'' ''completed'' ''operamind''
       ''Committed edit validation closed the approval''\<rparr>"

definition demo_done :: edit_db where
  "demo_done = (demo_granted [''t.py''])
    \<lparr>ed_results := [demo_result_row demo_committed ''not_required''],
     ed_packets := [demo_packet_row [''t.py'']\<lparr>pk_status := ''superseded''\<rparr>],
     ed_events := [demo_close_event],
     ed_cases := [\<lparr>ca_analysis_case_id = ''C'', ca_project_id = ''P'', ca_status = ''passed''\<rparr>]\<rparr>"

lemma demo_committed_recorded:
  "record_edit_result demo_env 0 0 (demo_scope_of_result [''t.py'']) demo_committed (demo_granted [''t.py''])
    = Inr (demo_done, \<lparr>rr_created = True, rr_edit_result_id = ''E'', rr_status = ''in_scope'',
        rr_case_status = ''passed'', rr_command_evidence_status = ''verified''\<rparr>)"
proof -
  let ?ts = "[''t.py'']" and ?row = "demo_result_row demo_committed ''not_required''"
  let ?db = "demo_granted ?ts" and ?sc = "demo_scope_of_result [''t.py'']"
  let ?db1 = "?db\<lparr>ed_results := [?row]\<rparr>"
  let ?db2 = "?db1\<lparr>ed_packets := [demo_packet_row ?ts\<lparr>pk_status := ''superseded''\<rparr>]\<rparr>"
  have tests: "?ts = [] \<or> ?ts = [''t.py'']" by simp
  have wrote: "wr_edit_result_id demo_committed = ''E''" "wr_validation_mode demo_committed = ''committed''"
      "wr_status demo_committed = ''in_scope''" "wr_test_result_refs demo_committed = [''X'']"
      "wr_tests_passed demo_committed = Some True" "coverage_status demo_committed = Inr (PStr ''not_required'')"
    by (simp_all add: coverage_status_def) (simp_all add: demo_committed_def)
  have row: "result_row_of ?sc demo_committed = Inr ?row"
    using wrote(6) by (simp add: result_row_of_def demo_result_row_def) (simp add: demo_committed_def)
  have insert: "insert_edit_result ?row ?db = Inr ?db1"
    by (rule demo_insert[OF refl]) (simp_all add: demo_committed_def)
  have superseded: "close_packet ?sc demo_committed ?db1 = ?db2"
    using wrote(2) by (simp add: close_packet_def supersede_packets_def)
      (simp add: demo_granted_def demo_published_def demo_packet_row_def)
  have commands: "ed_commands ?db = ed_commands (demo_db ?ts)" by (simp add: demo_granted_def demo_published_def)
  have rows: "evidence_rows ?db [''X''] = [\<lparr>cx_command_execution_id = ''X'', cx_approval_grant_id = ''A'',
      cx_project_id = ''P'', cx_analysis_case_id = ''C'', cx_edit_packet_id = ''K'', cx_command_ref = ''unit'',
      cx_status = ''passed''\<rparr>]"
    unfolding evidence_rows_def commands by (simp add: demo_db_def)
  have evidence: "validate_command_evidence ?db ?sc demo_committed = Inr ()"
    unfolding validate_command_evidence_def wrote(4) rows
    by (simp add: wrote in_result_scope_def demo_refs_def sorted_set_def)
  have next_is: "next_case_status ?sc demo_committed = Inr ''passed''"
    by (simp add: next_case_status_def wrote)
  have event: "close_event ?sc demo_committed = Inr (Some (''completed'', ''Committed edit validation closed the approval''))"
    by (simp add: close_event_def successful_result_def wrote)
  have keep: "ed_artifacts ?db2 = ed_artifacts ?db" "ed_grants ?db2 = ed_grants ?db" "ed_events ?db2 = []"
      "ed_packets ?db2 = [demo_packet_row ?ts\<lparr>pk_status := ''superseded''\<rparr>]"
    by (simp_all add: demo_no_results)
  have "demo_rows ?ts ?db2"
    using demo_rows_published(2)[of ?ts]
    by (simp add: demo_rows_def demo_world_def find_artifact_def find_packet_def) (simp add: demo_packet_row_def)
  moreover have "find_artifact ?db2 ''A'' = Some (demo_artifact_row ''A'' (demo_grant ?ts))"
    "find_grant ?db2 ''A'' = Some (demo_grant_row ?ts)"
    by (simp_all add: find_artifact_def find_grant_def demo_granted_def demo_published_def demo_artifact_row_def
        demo_grant_row_def)
  ultimately have inspected: "inspect_grant demo_env ?db2 ''A'' 0 = Inr (demo_authorization ?ts)"
    by (intro demo_inspect[OF tests]) (simp_all add: demo_no_results)
  have "lock_grant ?db2 ''A'' ''P'' = Inr ()"
    by (simp add: lock_grant_def find_grant_def demo_granted_def demo_grant_row_def)
  moreover have "insert_event demo_close_event ?db2 = Inr (?db2\<lparr>ed_events := [demo_close_event]\<rparr>)"
    by (simp add: insert_event_def events_of_def demo_no_results)
  ultimately have appended: "append_grant_event demo_env 0 ''approval-event:E:completed'' ''A'' ''P'' ''completed'' ''operamind''
      ''Committed edit validation closed the approval'' ?db2 = Inr (?db2\<lparr>ed_events := [demo_close_event]\<rparr>, True)"
    using inspected demo_no_results[of ?ts]
    by (simp add: append_grant_event_def demo_close_event_def) (simp add: demo_authorization_def)
  have closed: "close_grant demo_env 0 ?sc demo_committed ?db2 = Inr (?db2\<lparr>ed_events := [demo_close_event]\<rparr>)"
    using appended by (simp add: close_grant_def event wrote)
  have done_is: "set_case_status ''C'' ''P'' ''passed'' (?db2\<lparr>ed_events := [demo_close_event]\<rparr>) = demo_done"
    by (simp add: set_case_status_def demo_cases demo_done_def)
  have "pk_project_id (demo_packet_row ?ts) = ''P''" "pk_status (demo_packet_row ?ts) = ''active''"
    by (simp_all add: demo_packet_row_def)
  then show ?thesis
    using demo_authorize(2)[OF tests] row insert closed done_is demo_packet_found[of ?ts] evidence next_is superseded
    by (simp add: record_edit_result_def demo_no_results wrote command_evidence_status_def)
qed

lemma demo_working_run:
  "run_edit_result ascii_tables demo_env 0 0 0 (demo_result_request False) (demo_granted [''t.py''])
    = Inr (demo_worked [''t.py''], \<lparr>rr_created = True, rr_edit_result_id = ''E'', rr_status = ''in_scope'',
        rr_case_status = ''editing'', rr_command_evidence_status = ''not_applicable''\<rparr>, demo_write)"
proof -
  have tests: "[''t.py''] = [] \<or> [''t.py''] = [''t.py'']" by simp
  have dir: "common_repository_dir demo_tools ''/w'' = Inr ''/w/.git''" by code_simp
  have evidence: "inspect_worktree demo_tools ''/w'' ''abc'' = Inr demo_evidence" by code_simp
  have judged: "judge_changed_lines ascii_tables [(''a.py'', [1])] [''a.py''] None = Inr demo_missing" by code_simp
  have paths: "gd_changed_paths demo_evidence = [''a.py'']" by code_simp
  have wrote: "result_write_of ascii_tables (demo_result_request False) (demo_scope_of_result [''t.py'']) demo_evidence
      = Inr demo_write"
    using judged paths
    by (simp add: result_write_of_def evaluate_changed_line_coverage_def out_of_scope_files_def)
      (simp add: Let_def sorted_set_def demo_evidence_def demo_result_request_def demo_write_def)
  have "gd_remote_url demo_evidence = ''url''" by (simp add: demo_evidence_def)
  moreover have "rs_workspace_root (demo_result_request False) = ''/w''" "rs_committed (demo_result_request False) = False"
      "rs_project_id (demo_result_request False) = ''P''" "rs_analysis_case_id (demo_result_request False) = ''C''"
      "rs_edit_packet_id (demo_result_request False) = ''K''" "rs_approval_grant_id (demo_result_request False) = ''A''"
    by (simp_all add: demo_result_request_def)
  ultimately show ?thesis
    using demo_result_scope[OF tests] dir evidence wrote demo_working_recorded[OF tests]
    by (simp add: run_edit_result_def demo_workspace(1))
qed

end
