(* ===== verification/EditLaws.thy ===== *)
theory EditLaws
  imports EditDemo
begin

text \<open>
  Laws of the permission to edit.  The steps that publish packets, issue grants, append events and
  record results, interleaved with any change of the other tables, keep the permissions consistent and
  move each grant along its life cycle; and a result is only recorded under a permission that is still
  good, for files that its approved impact items name.
\<close>

section \<open>What each step does to the permissions\<close>

definition log_of :: "edit_db \<Rightarrow> string \<Rightarrow> string list" where
  "log_of db grant_id = map ge_event_type (events_of db grant_id)"

definition same_permissions :: "edit_db \<Rightarrow> edit_db \<Rightarrow> bool" where
  "same_permissions db db' \<longleftrightarrow>
    ed_packets db' = ed_packets db \<and> ed_grants db' = ed_grants db \<and> ed_events db' = ed_events db
    \<and> ed_results db' = ed_results db"

lemma same_permissions_refl [simp]: "same_permissions db db"
  by (simp add: same_permissions_def)

lemma store_artifact_permissions:
  "store_artifact env i p c a db = Inr db' \<Longrightarrow> same_permissions db db'"
  by (auto simp: store_artifact_def same_permissions_def rbind_eq_Inr Let_def split: if_splits option.splits)

lemma set_case_status_permissions [simp]:
  "ed_packets (set_case_status c p s db) = ed_packets db" "ed_grants (set_case_status c p s db) = ed_grants db"
  "ed_events (set_case_status c p s db) = ed_events db" "ed_results (set_case_status c p s db) = ed_results db"
  by (simp_all add: set_case_status_def)

lemma supersede_packets_permissions [simp]:
  "ed_grants (supersede_packets P db) = ed_grants db" "ed_events (supersede_packets P db) = ed_events db"
  "ed_results (supersede_packets P db) = ed_results db"
  by (simp_all add: supersede_packets_def)

lemma close_packet_permissions [simp]:
  "ed_grants (close_packet sc w db) = ed_grants db" "ed_events (close_packet sc w db) = ed_events db"
  "ed_results (close_packet sc w db) = ed_results db"
  by (simp_all add: close_packet_def)

lemma supersede_packets_ids [simp]:
  "map pk_edit_packet_id (ed_packets (supersede_packets P db)) = map pk_edit_packet_id (ed_packets db)"
  by (simp add: supersede_packets_def)

lemma find_packet_None: "find_packet db pid = None \<longleftrightarrow> pid \<notin> set (map pk_edit_packet_id (ed_packets db))"
  by (auto simp: find_packet_def find_None_iff)

definition superseded_in :: "string \<Rightarrow> string \<Rightarrow> packet_row \<Rightarrow> packet_row" where
  "superseded_in project_id case_id p = (if is_active_in project_id case_id p then p\<lparr>pk_status := ''superseded''\<rparr> else p)"

lemma publish_new_effect:
  assumes "publish_new env a s pid db = Inr (db', created, pid', st)"
  obtains p where "ed_grants db' = ed_grants db" "ed_events db' = ed_events db" "ed_results db' = ed_results db"
    "pk_edit_packet_id p = pid" "pk_status p = ''active''" "pk_project_id p = ps_project_id s"
    "pk_analysis_case_id p = ps_analysis_case_id s" "pid \<notin> pk_edit_packet_id ` set (ed_packets db)"
    "ed_packets db' = map (superseded_in (ps_project_id s) (ps_analysis_case_id s)) (ed_packets db) @ [p]"
proof -
  let ?active = "is_active_in (ps_project_id s) (ps_analysis_case_id s)"
  obtain db1 arrays db2 where st: "store_artifact env pid (ps_project_id s) (ps_analysis_case_id s) a db = Inr db1"
      "insert_packet (new_packet_row s pid arrays) (supersede_packets ?active db1) = Inr db2"
      "db' = set_case_status (ps_analysis_case_id s) (ps_project_id s) ''editing'' db2"
    using assms by (auto simp: publish_new_def rbind_eq_Inr Let_def split: if_splits)
  have ins: "db2 = supersede_packets ?active db1\<lparr>ed_packets := ed_packets (supersede_packets ?active db1) @ [new_packet_row s pid arrays]\<rparr>"
      "find_packet (supersede_packets ?active db1) pid = None"
    using st(2) by (auto simp: insert_packet_def new_packet_row_def split: if_splits)
  have same: "same_permissions db db1" using st(1) by (rule store_artifact_permissions)
  show thesis
  proof
    show "ed_packets db' = map (superseded_in (ps_project_id s) (ps_analysis_case_id s)) (ed_packets db) @ [new_packet_row s pid arrays]"
      using same by (simp add: st(3) ins(1) supersede_packets_def same_permissions_def superseded_in_def cong: map_cong)
    show "pid \<notin> pk_edit_packet_id ` set (ed_packets db)"
      using ins(2) same unfolding find_packet_None supersede_packets_ids by (simp add: same_permissions_def)
  qed (use same in \<open>simp_all add: st(3) ins(1) same_permissions_def new_packet_row_def\<close>)
qed

lemma publish_effect:
  assumes "publish_packet env a s db = Inr (db', created, pid, st)"
  shows "db' = db \<or> publish_new env a s pid db = Inr (db', created, pid, st)"
  using assms
  by (auto simp: publish_packet_def publish_new_def rbind_eq_Inr Let_def split: if_splits option.splits)

lemma issue_effect:
  assumes "issue_grant env now a s db = Inr (db', created, gid, st)"
  shows "db' = db \<or> (\<exists>g. gt_approval_grant_id g = gid \<and> gt_edit_packet_id g = gs_edit_packet_id s
      \<and> find_grant db gid = None \<and> gs_edit_packet_id s \<notin> gt_edit_packet_id ` set (ed_grants db)
      \<and> now < gt_expires_at g \<and> ed_grants db' = ed_grants db @ [g] \<and> ed_packets db' = ed_packets db
      \<and> ed_events db' = ed_events db \<and> ed_results db' = ed_results db)"
proof (cases "db' = db")
  case False
  then obtain expires gid' where "issue_new env now a s gid' expires db = Inr (db', created, gid, st)"
    using assms by (auto simp: issue_grant_def rbind_eq_Inr Let_def split: if_splits option.splits)
  moreover from this have "gid' = gid" by (auto simp: issue_new_def rbind_eq_Inr split: if_splits)
  ultimately obtain db1 vs digest where st: "store_artifact env gid (gs_project_id s) (gs_analysis_case_id s) a db = Inr db1"
      "insert_grant (new_grant_row s gid vs expires digest) now db1 = Inr db'"
    by (auto simp: issue_new_def rbind_eq_Inr split: if_splits)
  have same: "same_permissions db db1" using st(1) by (rule store_artifact_permissions)
  have "db' = db1\<lparr>ed_grants := ed_grants db1 @ [new_grant_row s gid vs expires digest]\<rparr>"
      "find_grant db1 gid = None" "\<not> list_ex (\<lambda>h. gt_edit_packet_id h = gs_edit_packet_id s) (ed_grants db1)"
      "now < expires"
    using st(2) by (auto simp: insert_grant_def new_grant_row_def split: if_splits)
  with same show ?thesis
    by (intro disjI2 exI[of _ "new_grant_row s gid vs expires digest"])
      (auto simp: same_permissions_def find_grant_def new_grant_row_def list_ex_iff)
qed simp

lemma inspect_state:
  assumes "inspect_grant env db gid now = Inr g"
  obtains row where "find_grant db gid = Some row" "au_state g = grant_state (log_of db gid) (gt_expires_at row) now"
    "au_grant_id g = gid" "au_project_id g = gt_project_id row" "au_edit_packet_id g = gt_edit_packet_id row"
    "au_analysis_case_id g = gt_analysis_case_id row" "grant_intact env db row = Inr ()"
  using assms
  by (auto simp: inspect_grant_def log_of_def rbind_eq_Inr split: option.splits if_splits)

definition event_kinds :: "string list" where
  "event_kinds = [''edit_completed'', ''completed'', ''revoked'']"

lemma append_old:
  assumes "append_grant_event env now eid gid project kind actor reason db = Inr (db', created)"
    and "find (\<lambda>e. ge_event_id e = eid) (ed_events db) = Some e"
  shows "db' = db \<and> ge_approval_grant_id e = gid \<and> ge_event_type e = kind"
  using assms by (auto simp: append_grant_event_def rbind_eq_Inr Let_def split: if_splits)

lemma append_new:
  assumes "append_grant_event env now eid gid project kind actor reason db = Inr (db', created)"
    and "find (\<lambda>e. ge_event_id e = eid) (ed_events db) = None"
  obtains e row where "db' = db\<lparr>ed_events := ed_events db @ [e]\<rparr>" "ge_event_id e = eid"
    "ge_approval_grant_id e = gid" "ge_event_type e = kind" "kind \<in> set event_kinds"
    "eid \<notin> ge_event_id ` set (ed_events db)" "find_grant db gid = Some row" "now < gt_expires_at row"
    "''revoked'' \<notin> set (log_of db gid)" "''completed'' \<notin> set (log_of db gid)"
    "kind = ''edit_completed'' \<longrightarrow> ''edit_completed'' \<notin> set (log_of db gid)"
proof -
  define e where "e = \<lparr>ge_event_id = eid, ge_approval_grant_id = gid, ge_project_id = project,
     ge_event_type = kind, ge_actor = actor, ge_reason = reason,
     ge_payload_digest = event_digest eid gid project kind actor reason\<rparr>"
  have kind: "kind \<in> set event_kinds"
    using assms(1) by (auto simp: append_grant_event_def event_kinds_def split: if_splits)
  obtain g where g: "inspect_grant env db gid now = Inr g" "insert_event e db = Inr db'"
      "kind = ''edit_completed'' \<longrightarrow> au_state g = ''active_editing''"
      "kind \<noteq> ''edit_completed'' \<longrightarrow> au_state g \<in> {''active_editing'', ''ui_pending''}"
    using assms by (auto simp: append_grant_event_def rbind_eq_Inr Let_def e_def split: if_splits)
  obtain row where row: "find_grant db gid = Some row" "au_state g = grant_state (log_of db gid) (gt_expires_at row) now"
    using g(1) by (rule inspect_state)
  have "au_state g \<in> {''active_editing'', ''ui_pending''}" using g(3,4) by auto
  then have alive: "now < gt_expires_at row \<and> ''revoked'' \<notin> set (log_of db gid) \<and> ''completed'' \<notin> set (log_of db gid)"
    using row(2) by (auto simp: grant_state_def split: if_splits)
  have editing: "kind = ''edit_completed'' \<longrightarrow> ''edit_completed'' \<notin> set (log_of db gid)"
    using g(3) row(2) by (auto simp: grant_state_def split: if_splits)
  have "db' = db\<lparr>ed_events := ed_events db @ [e]\<rparr>" using g(2) by (auto simp: insert_event_def split: if_splits)
  then show thesis
    by (rule that[of e row]) (use assms(2) kind row(1) alive editing in \<open>auto simp: e_def find_None_iff\<close>)
qed

lemma authorized:
  assumes "authorize_edit env now gid project case_id packet action locked db = Inr g"
  obtains row where "find_grant db gid = Some row" "now < gt_expires_at row"
    "\<And>kind. kind \<in> set event_kinds \<Longrightarrow> kind \<notin> set (log_of db gid)"
    "gt_project_id row = project" "gt_analysis_case_id row = case_id" "gt_edit_packet_id row = packet"
    "action \<in> set (au_allowed_actions g)" "edit_source_current db g" "grant_intact env db row = Inr ()"
    "inspect_grant env db gid now = Inr g"
proof -
  have g: "inspect_grant env db gid now = Inr g" "au_project_id g = project" "au_analysis_case_id g = case_id"
      "au_edit_packet_id g = packet" "au_state g = ''active_editing''" "action \<in> set (au_allowed_actions g)"
      "edit_source_current db g"
    using assms by (auto simp: authorize_edit_def rbind_eq_Inr split: if_splits)
  obtain row where row: "find_grant db gid = Some row" "au_state g = grant_state (log_of db gid) (gt_expires_at row) now"
      "au_grant_id g = gid" "au_project_id g = gt_project_id row" "au_edit_packet_id g = gt_edit_packet_id row"
      "au_analysis_case_id g = gt_analysis_case_id row" "grant_intact env db row = Inr ()"
    using g(1) by (rule inspect_state)
  show thesis
    by (rule that[of row]) (use g row in \<open>auto simp: grant_state_def event_kinds_def split: if_splits\<close>)
qed

definition closes :: "result_write \<Rightarrow> bool" where
  "closes w \<longleftrightarrow> wr_status w = ''out_of_scope'' \<or> wr_validation_mode w = ''committed''"

definition closed_result :: "edit_result_row \<Rightarrow> bool" where
  "closed_result r \<longleftrightarrow> er_status r = ''out_of_scope'' \<or> er_validation_mode r = ''committed''"

lemma result_row_fields:
  assumes "result_row_of sc w = Inr row"
  shows "er_edit_result_id row = wr_edit_result_id w" "er_approval_grant_id row = sc_approval_grant_id sc"
    "er_edit_packet_id row = sc_edit_packet_id sc" "closed_result row \<longleftrightarrow> closes w"
  using assms by (auto simp: result_row_of_def rbind_eq_Inr closed_result_def closes_def)

lemma close_event_kind:
  assumes "close_event sc w = Inr event"
  shows "(event = None \<longleftrightarrow> \<not> closes w) \<and> (\<forall>kind reason. event = Some (kind, reason) \<longrightarrow> kind \<in> set event_kinds)"
  using assms by (auto simp: close_event_def closes_def event_kinds_def rbind_eq_Inr split: if_splits)

lemma record_effect:
  assumes "record_edit_result env now later sc w db = Inr (db', r)"
  shows "(\<not> rr_created r \<and> db' = db) \<or> (rr_created r \<and> (\<exists>g p row case_status events.
      authorize_edit env now (sc_approval_grant_id sc) (sc_project_id sc) (sc_analysis_case_id sc)
        (sc_edit_packet_id sc) ''record_result'' True db = Inr g
      \<and> find_packet db (sc_edit_packet_id sc) = Some p \<and> pk_status p = ''active'' \<and> pk_project_id p = sc_project_id sc
      \<and> validate_command_evidence db sc w = Inr () \<and> result_row_of sc w = Inr row
      \<and> next_case_status sc w = Inr case_status \<and> rr_case_status r = case_status
      \<and> (\<exists>db1. insert_edit_result row db = Inr db1)
      \<and> wr_edit_result_id w \<notin> er_edit_result_id ` set (ed_results db)
      \<and> ed_results db' = ed_results db @ [row] \<and> ed_grants db' = ed_grants db
      \<and> ed_packets db' = ed_packets (close_packet sc w db) \<and> ed_events db' = ed_events db @ events
      \<and> (if closes w then \<exists>e kind reason. events = [e] \<and> ge_approval_grant_id e = sc_approval_grant_id sc
           \<and> close_event sc w = Inr (Some (kind, reason)) \<and> ge_event_type e = kind
           \<and> ge_event_id e \<notin> ge_event_id ` set (ed_events db) else events = [])
      \<and> ed_cases db' = map (\<lambda>c. if ca_analysis_case_id c = sc_analysis_case_id sc \<and> ca_project_id c = sc_project_id sc
           then c\<lparr>ca_status := case_status\<rparr> else c) (ed_cases db)))"
proof (cases "find (\<lambda>r. er_edit_result_id r = wr_edit_result_id w) (ed_results db)")
  case (Some q)
  then show ?thesis using assms by (auto simp: record_edit_result_def rbind_eq_Inr split: if_splits)
next
  case None
  obtain g case_status row db1 db2 where st:
      "authorize_edit env now (sc_approval_grant_id sc) (sc_project_id sc) (sc_analysis_case_id sc)
        (sc_edit_packet_id sc) ''record_result'' True db = Inr g"
      "map_option (\<lambda>p. (pk_project_id p, pk_status p)) (find_packet db (sc_edit_packet_id sc))
         = Some (sc_project_id sc, ''active'')"
      "validate_command_evidence db sc w = Inr ()" "next_case_status sc w = Inr case_status"
      "result_row_of sc w = Inr row" "insert_edit_result row db = Inr db1"
      "close_grant env later sc w (close_packet sc w db1) = Inr db2"
      "db' = set_case_status (sc_analysis_case_id sc) (sc_project_id sc) case_status db2" "rr_created r"
      "rr_case_status r = case_status"
    using assms None by (auto simp: record_edit_result_def rbind_eq_Inr split: if_splits)
  obtain p where p: "find_packet db (sc_edit_packet_id sc) = Some p" "pk_status p = ''active''"
      "pk_project_id p = sc_project_id sc" using st(2) by auto
  have db1: "db1 = db\<lparr>ed_results := ed_results db @ [row]\<rparr>" using st(6) by (auto simp: insert_edit_result_def split: if_splits)
  let ?db1 = "close_packet sc w db1"
  have keep: "ed_events ?db1 = ed_events db" "ed_grants ?db1 = ed_grants db" "ed_results ?db1 = ed_results db @ [row]"
      "ed_packets ?db1 = ed_packets (close_packet sc w db)" "ed_cases ?db1 = ed_cases db"
    by (simp_all add: db1 close_packet_def supersede_packets_def)
  obtain event where event: "close_event sc w = Inr event" using st(7) by (auto simp: close_grant_def rbind_eq_Inr)
  note kind = close_event_kind[OF event]
  have quiet: "\<forall>kind\<in>set event_kinds. kind \<notin> set (log_of db (sc_approval_grant_id sc))"
    by (rule authorized[OF st(1)]) blast
  have "\<exists>events. db2 = ?db1\<lparr>ed_events := ed_events db @ events\<rparr>
      \<and> (if closes w then \<exists>e kind reason. events = [e] \<and> ge_approval_grant_id e = sc_approval_grant_id sc
           \<and> close_event sc w = Inr (Some (kind, reason)) \<and> ge_event_type e = kind
           \<and> ge_event_id e \<notin> ge_event_id ` set (ed_events db) else events = [])"
  proof (cases event)
    case None
    then show ?thesis using st(7) event kind keep(1) by (auto simp: close_grant_def)
  next
    case (Some pair)
    then obtain k reason where pair: "event = Some (k, reason)" by (cases pair) auto
    let ?eid = "''approval-event:'' @ wr_edit_result_id w @ '':'' @ k"
    obtain created where ap: "append_grant_event env later ?eid (sc_approval_grant_id sc) (sc_project_id sc) k
        ''operamind'' reason ?db1 = Inr (db2, created)"
      using st(7) event pair by (auto simp: close_grant_def rbind_eq_Inr)
    have k: "k \<in> set event_kinds" "closes w" using kind pair by auto
    have fresh: "find (\<lambda>e. ge_event_id e = ?eid) (ed_events ?db1) = None"
    proof (rule ccontr)
      assume "find (\<lambda>e. ge_event_id e = ?eid) (ed_events ?db1) \<noteq> None"
      then obtain e where e: "find (\<lambda>e. ge_event_id e = ?eid) (ed_events ?db1) = Some e" by auto
      then have "ge_approval_grant_id e = sc_approval_grant_id sc \<and> ge_event_type e = k"
        using append_old[OF ap] by blast
      moreover have "e \<in> set (ed_events db)" using e keep(1) by (auto simp: find_Some_iff in_set_conv_nth)
      ultimately have "k \<in> set (log_of db (sc_approval_grant_id sc))" by (auto simp: log_of_def events_of_def)
      then show False using quiet k(1) by blast
    qed
    obtain e where e: "db2 = ?db1\<lparr>ed_events := ed_events ?db1 @ [e]\<rparr>" "ge_event_id e = ?eid"
        "ge_approval_grant_id e = sc_approval_grant_id sc" "ge_event_type e = k"
        "?eid \<notin> ge_event_id ` set (ed_events ?db1)"
      by (rule append_new[OF ap fresh]) blast
    have "ge_event_id e \<notin> ge_event_id ` set (ed_events db)" using e(2,5) keep(1) by simp
    then show ?thesis using e(1,3,4) keep(1) event pair k(2)
      by (intro exI[of _ "[e]"]) auto
  qed
  then obtain events where ev: "db2 = ?db1\<lparr>ed_events := ed_events db @ events\<rparr>"
      "if closes w then \<exists>e kind reason. events = [e] \<and> ge_approval_grant_id e = sc_approval_grant_id sc
           \<and> close_event sc w = Inr (Some (kind, reason)) \<and> ge_event_type e = kind
           \<and> ge_event_id e \<notin> ge_event_id ` set (ed_events db) else events = []" by blast
  have "wr_edit_result_id w \<notin> er_edit_result_id ` set (ed_results db)" using None by (auto simp: find_None_iff)
  then show ?thesis
    using st p ev(2) keep
    by (intro disjI2 conjI exI[of _ g] exI[of _ p] exI[of _ row] exI[of _ case_status] exI[of _ events])
      (simp_all add: ev(1) set_case_status_def)
qed

section \<open>Histories\<close>

text \<open>A step is a command that succeeds, at any instant and in any environment (the validation of artifacts
  and what Git answers may change from step to step), the publication of an impact report, which closes the
  packets of the other reports of its case, or any change of the tables this part does not write; a command
  that fails leaves the tables.\<close>

inductive edit_step :: "edit_env \<Rightarrow> edit_db \<Rightarrow> edit_db \<Rightarrow> bool" for env where
  publish_step: "publish_packet env a s db = Inr (db', v) \<Longrightarrow> edit_step env db db'"
| issue_step: "issue_grant env now a s db = Inr (db', v) \<Longrightarrow> edit_step env db db'"
| event_step: "append_grant_event env now eid gid project kind actor reason db = Inr (db', v) \<Longrightarrow> edit_step env db db'"
| result_step: "record_edit_result env now later sc w db = Inr (db', v) \<Longrightarrow> edit_step env db db'"
| report_step: "same_permissions (supersede_packets_from_other_reports project case_id report_id db) db'
     \<Longrightarrow> edit_step env db db'"
| other_step: "same_permissions db db' \<Longrightarrow> edit_step env db db'"

inductive edit_reachable :: "edit_db \<Rightarrow> bool" where
  no_permissions: "ed_packets db = [] \<Longrightarrow> ed_grants db = [] \<Longrightarrow> ed_events db = [] \<Longrightarrow> ed_results db = []
     \<Longrightarrow> edit_reachable db"
| one_more: "edit_reachable db \<Longrightarrow> edit_step env db db' \<Longrightarrow> edit_reachable db'"

definition packets_ok :: "edit_db \<Rightarrow> bool" where
  "packets_ok db \<longleftrightarrow> distinct (map pk_edit_packet_id (ed_packets db))
    \<and> (\<forall>p\<in>set (ed_packets db). \<forall>q\<in>set (ed_packets db). pk_status p = ''active'' \<longrightarrow> pk_status q = ''active''
        \<longrightarrow> pk_project_id p = pk_project_id q \<longrightarrow> pk_analysis_case_id p = pk_analysis_case_id q \<longrightarrow> p = q)"

definition grants_ok :: "edit_db \<Rightarrow> bool" where
  "grants_ok db \<longleftrightarrow> distinct (map gt_approval_grant_id (ed_grants db)) \<and> distinct (map gt_edit_packet_id (ed_grants db))"

definition grant_logs :: "string list list" where
  "grant_logs =
    [[], [''edit_completed''], [''completed''], [''revoked''], [''edit_completed'', ''completed''],
     [''edit_completed'', ''revoked'']]"

definition events_ok :: "edit_db \<Rightarrow> bool" where
  "events_ok db \<longleftrightarrow> distinct (map ge_event_id (ed_events db)) \<and> (\<forall>gid. log_of db gid \<in> set grant_logs)"

definition edit_results_ok :: "edit_db \<Rightarrow> bool" where
  "edit_results_ok db \<longleftrightarrow> distinct (map er_edit_result_id (ed_results db))
    \<and> distinct (map er_approval_grant_id (filter closed_result (ed_results db)))
    \<and> (\<forall>r\<in>set (ed_results db). closed_result r \<longrightarrow> log_of db (er_approval_grant_id r) \<noteq> []
        \<and> (\<exists>p\<in>set (ed_packets db). pk_edit_packet_id p = er_edit_packet_id r \<and> pk_status p = ''superseded''))"

definition edit_ok :: "edit_db \<Rightarrow> bool" where
  "edit_ok db \<longleftrightarrow> packets_ok db \<and> grants_ok db \<and> events_ok db \<and> edit_results_ok db"

lemma log_of_append:
  "log_of (db\<lparr>ed_events := ed_events db @ [e]\<rparr>) gid = log_of db gid @ (if ge_approval_grant_id e = gid then [ge_event_type e] else [])"
  by (simp add: log_of_def events_of_def)

lemma log_of_cong: "ed_events db' = ed_events db \<Longrightarrow> log_of db' gid = log_of db gid"
  by (simp add: log_of_def events_of_def)

lemma grant_log_grows:
  assumes "ks \<in> set grant_logs" "kind \<in> set event_kinds" "''revoked'' \<notin> set ks" "''completed'' \<notin> set ks"
    and "kind = ''edit_completed'' \<Longrightarrow> ''edit_completed'' \<notin> set ks"
  shows "ks @ [kind] \<in> set grant_logs"
proof -
  have "list_all (\<lambda>ks. list_all (\<lambda>kind. ''revoked'' \<notin> set ks \<longrightarrow> ''completed'' \<notin> set ks
      \<longrightarrow> (kind = ''edit_completed'' \<longrightarrow> ''edit_completed'' \<notin> set ks) \<longrightarrow> ks @ [kind] \<in> set grant_logs) event_kinds) grant_logs"
    by code_simp
  then show ?thesis using assms unfolding list_all_iff by blast
qed

lemma grant_log_empty:
  assumes "ks \<in> set grant_logs" "\<And>kind. kind \<in> set event_kinds \<Longrightarrow> kind \<notin> set ks"
  shows "ks = []"
proof -
  have "list_all (\<lambda>ks. ks = [] \<or> list_ex (\<lambda>kind. kind \<in> set ks) event_kinds) grant_logs" by code_simp
  then show ?thesis using assms unfolding list_all_iff list_ex_iff by blast
qed

lemma edit_ok_cong:
  "same_permissions db db' \<Longrightarrow> edit_ok db' = edit_ok db"
  by (simp add: edit_ok_def packets_ok_def grants_ok_def events_ok_def edit_results_ok_def same_permissions_def
      log_of_def events_of_def)

lemma superseded_in_simps [simp]:
  "pk_edit_packet_id (superseded_in a b p) = pk_edit_packet_id p" "pk_project_id (superseded_in a b p) = pk_project_id p"
  "pk_analysis_case_id (superseded_in a b p) = pk_analysis_case_id p"
  "pk_status p = ''superseded'' \<Longrightarrow> superseded_in a b p = p"
  by (simp_all add: superseded_in_def is_active_in_def)

lemma superseded_in_active:
  "pk_status (superseded_in a b p) = ''active'' \<longleftrightarrow> pk_status p = ''active'' \<and> \<not> is_active_in a b p"
  by (simp add: superseded_in_def is_active_in_def)

lemma publish_keeps:
  assumes "edit_ok db" "publish_packet env a s db = Inr (db', created, pid, st)"
  shows "edit_ok db'"
proof (cases "db' = db")
  case False
  then have "publish_new env a s pid db = Inr (db', created, pid, st)" using publish_effect[OF assms(2)] by simp
  then obtain p where p: "ed_grants db' = ed_grants db" "ed_events db' = ed_events db" "ed_results db' = ed_results db"
      "pk_edit_packet_id p = pid" "pk_status p = ''active''" "pk_project_id p = ps_project_id s"
      "pk_analysis_case_id p = ps_analysis_case_id s" "pid \<notin> pk_edit_packet_id ` set (ed_packets db)"
      "ed_packets db' = map (superseded_in (ps_project_id s) (ps_analysis_case_id s)) (ed_packets db) @ [p]"
    by (rule publish_new_effect)
  have ok: "packets_ok db" "grants_ok db" "events_ok db" "edit_results_ok db" using assms(1) by (simp_all add: edit_ok_def)
  have old: "q = p \<or> q \<in> set (ed_packets db) \<and> (pk_project_id q, pk_analysis_case_id q) \<noteq> (pk_project_id p, pk_analysis_case_id p)"
    if "q \<in> set (ed_packets db')" "pk_status q = ''active''" for q
    using that p(6,7) by (auto simp: p(9) superseded_in_def is_active_in_def)
  have "distinct (map pk_edit_packet_id (ed_packets db'))"
    using ok(1) p(4,8) by (simp add: packets_ok_def p(9) comp_def)
  moreover have "x = y"
    if "x \<in> set (ed_packets db')" "y \<in> set (ed_packets db')" "pk_status x = ''active''" "pk_status y = ''active''"
      "pk_project_id x = pk_project_id y" "pk_analysis_case_id x = pk_analysis_case_id y" for x y
    using old[OF that(1,3)] old[OF that(2,4)] that ok(1) unfolding packets_ok_def by (metis prod.inject)
  ultimately have "packets_ok db'" unfolding packets_ok_def by blast
  moreover have "edit_results_ok db'"
    using ok(4) p(3) log_of_cong[OF p(2)] by (fastforce simp: edit_results_ok_def p(9))
  ultimately show ?thesis
    using ok(2,3) p(1,2) log_of_cong[OF p(2)] by (simp add: edit_ok_def grants_ok_def events_ok_def)
qed (simp add: assms)

lemma issue_keeps:
  assumes "edit_ok db" "issue_grant env now a s db = Inr (db', created, gid, st)"
  shows "edit_ok db'"
proof (cases "db' = db")
  case False
  then obtain g where g: "gt_approval_grant_id g = gid" "gt_edit_packet_id g = gs_edit_packet_id s"
      "find_grant db gid = None" "gs_edit_packet_id s \<notin> gt_edit_packet_id ` set (ed_grants db)"
      "ed_grants db' = ed_grants db @ [g]" "ed_packets db' = ed_packets db"
      "ed_events db' = ed_events db" "ed_results db' = ed_results db"
    using issue_effect[OF assms(2)] by blast
  have "gid \<notin> gt_approval_grant_id ` set (ed_grants db)" using g(3) by (auto simp: find_grant_def find_None_iff)
  then show ?thesis
    using assms(1) g log_of_cong[OF g(7)]
    by (auto simp: edit_ok_def packets_ok_def grants_ok_def events_ok_def edit_results_ok_def)
qed (simp add: assms)

lemma events_keep:
  assumes "events_ok db" "ge_event_id e \<notin> ge_event_id ` set (ed_events db)" "ge_event_type e \<in> set event_kinds"
    and "''revoked'' \<notin> set (log_of db (ge_approval_grant_id e))" "''completed'' \<notin> set (log_of db (ge_approval_grant_id e))"
    and "ge_event_type e = ''edit_completed'' \<Longrightarrow> ''edit_completed'' \<notin> set (log_of db (ge_approval_grant_id e))"
  shows "events_ok (db\<lparr>ed_events := ed_events db @ [e]\<rparr>)"
  using assms grant_log_grows[OF _ assms(3-6)] by (auto simp: events_ok_def log_of_append)

lemma results_keep_events:
  assumes "edit_results_ok db"
  shows "edit_results_ok (db\<lparr>ed_events := ed_events db @ [e]\<rparr>)"
  using assms by (auto simp: edit_results_ok_def log_of_append)

lemma append_keeps:
  assumes "edit_ok db" "append_grant_event env now eid gid project kind actor reason db = Inr (db', created)"
  shows "edit_ok db'"
proof (cases "find (\<lambda>e. ge_event_id e = eid) (ed_events db)")
  case (Some e)
  then show ?thesis using append_old[OF assms(2)] assms(1) by simp
next
  case None
  obtain e row where e: "db' = db\<lparr>ed_events := ed_events db @ [e]\<rparr>" "ge_event_id e = eid"
      "ge_approval_grant_id e = gid" "ge_event_type e = kind" "kind \<in> set event_kinds"
      "eid \<notin> ge_event_id ` set (ed_events db)" "find_grant db gid = Some row" "now < gt_expires_at row"
      "''revoked'' \<notin> set (log_of db gid)" "''completed'' \<notin> set (log_of db gid)"
      "kind = ''edit_completed'' \<longrightarrow> ''edit_completed'' \<notin> set (log_of db gid)"
    by (rule append_new[OF assms(2) None])
  have "events_ok db'"
    using assms(1) e(2-6,9-11) unfolding e(1) by (intro events_keep) (simp_all add: edit_ok_def)
  then show ?thesis
    using assms(1) results_keep_events[of db e] e(1)
    by (simp add: edit_ok_def packets_ok_def grants_ok_def)
qed

lemma supersede_keeps_packets:
  assumes "packets_ok db"
  shows "packets_ok (supersede_packets P db)"
proof -
  have "q \<in> set (ed_packets db)" if "q \<in> set (ed_packets (supersede_packets P db))" "pk_status q = ''active''" for q
    using that by (auto simp: supersede_packets_def split: if_splits)
  moreover have "distinct (map pk_edit_packet_id (ed_packets (supersede_packets P db)))"
    using assms unfolding supersede_packets_ids by (simp add: packets_ok_def)
  ultimately show ?thesis using assms unfolding packets_ok_def by blast
qed

lemma supersede_keeps_superseded:
  assumes "q \<in> set (ed_packets db)" "pk_status q = ''superseded''"
  shows "q \<in> set (ed_packets (supersede_packets P db))"
proof -
  have "(if P q then q\<lparr>pk_status := ''superseded''\<rparr> else q) = q" using assms(2) by simp
  then show ?thesis using assms(1) by (force simp: supersede_packets_def)
qed

lemma close_packet_keeps:
  "packets_ok db \<Longrightarrow> packets_ok (close_packet sc w db)"
  "q \<in> set (ed_packets db) \<Longrightarrow> pk_status q = ''superseded'' \<Longrightarrow> q \<in> set (ed_packets (close_packet sc w db))"
  by (simp_all add: close_packet_def supersede_keeps_packets supersede_keeps_superseded)

lemma close_packet_closes:
  assumes "find_packet db (sc_edit_packet_id sc) = Some p" "closes w"
  shows "p\<lparr>pk_status := ''superseded''\<rparr> \<in> set (ed_packets (close_packet sc w db))"
proof -
  have "p \<in> set (ed_packets db)" "pk_edit_packet_id p = sc_edit_packet_id sc"
    using assms(1) by (auto simp: find_packet_def find_Some_iff)
  then show ?thesis using assms(2) by (force simp: close_packet_def closes_def supersede_packets_def)
qed

lemma other_reports_keep:
  assumes "edit_ok db"
  shows "edit_ok (supersede_packets_from_other_reports project case_id report_id db)"
proof -
  let ?db = "supersede_packets_from_other_reports project case_id report_id db"
  have same: "ed_grants ?db = ed_grants db" "ed_events ?db = ed_events db" "ed_results ?db = ed_results db"
    by (simp_all add: supersede_packets_from_other_reports_def)
  have "\<exists>p\<in>set (ed_packets ?db). pk_edit_packet_id p = i \<and> pk_status p = ''superseded''"
    if "\<exists>p\<in>set (ed_packets db). pk_edit_packet_id p = i \<and> pk_status p = ''superseded''" for i
    using that supersede_keeps_superseded unfolding supersede_packets_from_other_reports_def by blast
  then have "edit_results_ok ?db"
    using assms by (simp add: edit_ok_def edit_results_ok_def same log_of_cong[OF same(2)])
  moreover have "packets_ok ?db"
    using assms supersede_keeps_packets by (simp add: edit_ok_def supersede_packets_from_other_reports_def)
  ultimately show ?thesis
    using assms by (simp add: edit_ok_def grants_ok_def events_ok_def same log_of_cong[OF same(2)])
qed

lemma results_keep_closed:
  assumes ok: "edit_results_ok db" "events_ok db"
    and row: "er_edit_result_id row \<notin> er_edit_result_id ` set (ed_results db)"
      "log_of db (er_approval_grant_id row) = []" "ed_results db' = ed_results db @ [row]"
    and log': "\<And>gid. log_of db gid \<noteq> [] \<Longrightarrow> log_of db' gid \<noteq> []"
    and packets: "\<And>q. q \<in> set (ed_packets db) \<Longrightarrow> pk_status q = ''superseded'' \<Longrightarrow> q \<in> set (ed_packets db')"
    and closed: "closed_result row \<Longrightarrow> log_of db' (er_approval_grant_id row) \<noteq> []
      \<and> (\<exists>p\<in>set (ed_packets db'). pk_edit_packet_id p = er_edit_packet_id row \<and> pk_status p = ''superseded'')"
  shows "edit_results_ok db'"
proof -
  have "er_approval_grant_id row \<notin> er_approval_grant_id ` set (filter closed_result (ed_results db))"
    using ok(1) row(2) by (auto simp: edit_results_ok_def)
  then have "distinct (map er_approval_grant_id (filter closed_result (ed_results db')))"
    using ok(1) by (auto simp: edit_results_ok_def row(3))
  moreover have "log_of db' (er_approval_grant_id r) \<noteq> []
      \<and> (\<exists>p\<in>set (ed_packets db'). pk_edit_packet_id p = er_edit_packet_id r \<and> pk_status p = ''superseded'')"
    if r: "r \<in> set (ed_results db')" "closed_result r" for r
  proof (cases "r = row")
    case False
    then have "r \<in> set (ed_results db)" using r row(3) by simp
    then have "log_of db (er_approval_grant_id r) \<noteq> []
        \<and> (\<exists>p\<in>set (ed_packets db). pk_edit_packet_id p = er_edit_packet_id r \<and> pk_status p = ''superseded'')"
      using ok(1) r(2) unfolding edit_results_ok_def by blast
    then show ?thesis using log' packets by blast
  qed (use closed r in simp)
  moreover have "distinct (map er_edit_result_id (ed_results db'))"
    using ok(1) row(1,3) by (simp add: edit_results_ok_def)
  ultimately show ?thesis by (simp add: edit_results_ok_def)
qed

lemma record_keeps:
  assumes "edit_ok db" "record_edit_result env now later sc w db = Inr (db', r)"
  shows "edit_ok db'"
proof (cases "rr_created r")
  case False
  then show ?thesis using record_effect[OF assms(2)] assms(1) by auto
next
  case True
  with record_effect[OF assms(2)] obtain g p row case_status events where st:
      "authorize_edit env now (sc_approval_grant_id sc) (sc_project_id sc) (sc_analysis_case_id sc)
        (sc_edit_packet_id sc) ''record_result'' True db = Inr g"
      "find_packet db (sc_edit_packet_id sc) = Some p" "result_row_of sc w = Inr row"
      "wr_edit_result_id w \<notin> er_edit_result_id ` set (ed_results db)"
      "ed_results db' = ed_results db @ [row]" "ed_grants db' = ed_grants db"
      "ed_packets db' = ed_packets (close_packet sc w db)" "ed_events db' = ed_events db @ events"
      "if closes w then \<exists>e kind reason. events = [e] \<and> ge_approval_grant_id e = sc_approval_grant_id sc
           \<and> close_event sc w = Inr (Some (kind, reason)) \<and> ge_event_type e = kind
           \<and> ge_event_id e \<notin> ge_event_id ` set (ed_events db) else events = []"
    by (elim disjE conjE exE) simp_all
  have ok: "packets_ok db" "grants_ok db" "events_ok db" "edit_results_ok db" using assms(1) by (simp_all add: edit_ok_def)
  let ?gid = "sc_approval_grant_id sc"
  note f = result_row_fields[OF st(3)]
  have "\<forall>kind\<in>set event_kinds. kind \<notin> set (log_of db ?gid)" by (rule authorized[OF st(1)]) blast
  moreover have "log_of db ?gid \<in> set grant_logs" using ok(3) by (simp add: events_ok_def)
  ultimately have empty: "log_of db ?gid = []" by (intro grant_log_empty) auto
  have ev: "events_ok db' \<and> (closes w \<longrightarrow> log_of db' ?gid \<noteq> []) \<and> (\<forall>gid. log_of db gid \<noteq> [] \<longrightarrow> log_of db' gid \<noteq> [])"
  proof (cases "closes w")
    case True
    with st(9) obtain e kind reason where e: "events = [e]" "ge_approval_grant_id e = ?gid"
        "close_event sc w = Inr (Some (kind, reason))" "ge_event_type e = kind"
        "ge_event_id e \<notin> ge_event_id ` set (ed_events db)" by auto
    have "kind \<in> set event_kinds" using close_event_kind[OF e(3)] by simp
    then have "events_ok (db\<lparr>ed_events := ed_events db @ [e]\<rparr>)"
      using ok(3) e(2,4,5) empty by (intro events_keep) simp_all
    moreover have "log_of db' gid = log_of (db\<lparr>ed_events := ed_events db @ [e]\<rparr>) gid" for gid
      by (simp add: log_of_def events_of_def st(8) e(1))
    ultimately show ?thesis using e(2) by (simp add: events_ok_def st(8) e(1) log_of_append)
  next
    case False
    then have "ed_events db' = ed_events db" using st(8,9) by simp
    then show ?thesis using ok(3) False log_of_cong[of db' db] by (simp add: events_ok_def)
  qed
  have "packets_ok db'" using close_packet_keeps(1)[OF ok(1), of sc w] by (simp add: packets_ok_def st(7))
  moreover have "edit_results_ok db'"
  proof (rule results_keep_closed[OF ok(4,3), of row])
    show "q \<in> set (ed_packets db')" if "q \<in> set (ed_packets db)" "pk_status q = ''superseded''" for q
      using close_packet_keeps(2)[OF that] by (simp add: st(7))
    show "log_of db' (er_approval_grant_id row) \<noteq> []
      \<and> (\<exists>p\<in>set (ed_packets db'). pk_edit_packet_id p = er_edit_packet_id row \<and> pk_status p = ''superseded'')"
      if "closed_result row"
    proof
      have c: "closes w" using that f(4) by simp
      show "log_of db' (er_approval_grant_id row) \<noteq> []" using ev c f(2) by simp
      have "pk_edit_packet_id p = sc_edit_packet_id sc" using st(2) by (auto simp: find_packet_def find_Some_iff)
      then show "\<exists>p\<in>set (ed_packets db'). pk_edit_packet_id p = er_edit_packet_id row \<and> pk_status p = ''superseded''"
        using close_packet_closes[OF st(2) c] f(3) st(7) by (intro bexI[of _ "p\<lparr>pk_status := ''superseded''\<rparr>"]) simp_all
    qed
  qed (use st(4,5) f empty ev in simp_all)
  ultimately show ?thesis using ok(2) st(6) ev by (simp add: edit_ok_def grants_ok_def)
qed

lemma edit_step_keeps: "edit_step env db db' \<Longrightarrow> edit_ok db \<Longrightarrow> edit_ok db'"
proof (induction rule: edit_step.induct)
  case (publish_step a s db db' v)
  then show ?case using publish_keeps by (cases v) blast
next
  case (issue_step now a s db db' v)
  then show ?case using issue_keeps by (cases v) blast
next
  case (event_step now eid gid project kind actor reason db db' v)
  then show ?case using append_keeps by blast
next
  case (result_step now later sc w db db' v)
  then show ?case using record_keeps by blast
next
  case (report_step project case_id report_id db db')
  then show ?case using other_reports_keep edit_ok_cong by blast
next
  case (other_step db db')
  then show ?case using edit_ok_cong by blast
qed

lemma reachable_edit_ok: "edit_reachable db \<Longrightarrow> edit_ok db"
proof (induction rule: edit_reachable.induct)
  case (no_permissions db)
  then show ?case
    by (simp add: edit_ok_def packets_ok_def grants_ok_def events_ok_def edit_results_ok_def log_of_def events_of_def
        grant_logs_def)
next
  case (one_more db env db')
  then show ?case using edit_step_keeps by blast
qed

lemma demo_reachable:
  "edit_reachable (demo_granted [''t.py''])" "edit_reachable demo_done"
  "edit_step demo_env (demo_granted [''t.py'']) demo_done"
proof -
  have tests: "[''t.py''] = [] \<or> [''t.py''] = [''t.py'']" by simp
  have "edit_reachable (demo_db [''t.py''])" by (rule no_permissions) (simp_all add: demo_db_def)
  then have "edit_reachable (demo_published [''t.py''])"
    using publish_step[OF demo_publication[OF tests]] by (rule one_more)
  then show granted: "edit_reachable (demo_granted [''t.py''])"
    using issue_step[OF demo_issue[OF tests]] by (rule one_more)
  show step: "edit_step demo_env (demo_granted [''t.py'']) demo_done"
    by (rule result_step[OF demo_committed_recorded])
  show "edit_reachable demo_done" by (rule one_more[OF granted step])
qed

text \<open>(C20) The permissions stay consistent.  In every state reached from empty tables, by any sequence of
  publications, issued grants, events, recorded results and published impact reports interleaved with any
  change of the other tables: a case has at most one active packet; a packet has at most one grant; the log of a grant holds
  at most one end of editing, followed by at most one closing event and nothing after it; and at most one
  closing result (a committed one, or one out of scope) is recorded under a grant, whose packet is then
  superseded and whose log is no longer empty.\<close>

theorem permissions_stay_consistent:
  assumes "edit_reachable db"
  shows "edit_ok db"
  using assms by (rule reachable_edit_ok)

theorem permissions_stay_consistent_witness:
  "edit_ok demo_done \<and> length (ed_results demo_done) = 1 \<and> length (ed_events demo_done) = 1"
  using permissions_stay_consistent[OF demo_reachable(2)] by (simp add: demo_done_def)

section \<open>The life of a grant\<close>

datatype grant_phase = Editing | Ui_pending | Completed | Revoked

text \<open>An event moves a phase or is unlawful in it: nothing follows \<open>completed\<close> or \<open>revoked\<close>.\<close>

fun phase_event :: "grant_phase \<Rightarrow> string \<Rightarrow> grant_phase option" where
  "phase_event Editing kind =
    map_of [(''edit_completed'', Ui_pending), (''completed'', Completed), (''revoked'', Revoked)] kind"
| "phase_event Ui_pending kind = map_of [(''completed'', Completed), (''revoked'', Revoked)] kind"
| "phase_event _ kind = None"

fun phase_after :: "grant_phase \<Rightarrow> string list \<Rightarrow> grant_phase option" where
  "phase_after p [] = Some p"
| "phase_after p (kind # kinds) = Option.bind (phase_event p kind) (\<lambda>q. phase_after q kinds)"

definition grant_phase :: "edit_db \<Rightarrow> string \<Rightarrow> grant_phase option" where
  "grant_phase db gid = phase_after Editing (log_of db gid)"

text \<open>What the repository reports of a grant in a phase.\<close>

fun phase_state :: "grant_phase \<Rightarrow> bool \<Rightarrow> string" where
  "phase_state Completed expired = ''completed''"
| "phase_state Revoked expired = ''revoked''"
| "phase_state Ui_pending expired = (if expired then ''expired'' else ''ui_pending'')"
| "phase_state Editing expired = (if expired then ''expired'' else ''active_editing'')"

lemma phase_after_append:
  "phase_after p (ks @ ls) = Option.bind (phase_after p ks) (\<lambda>q. phase_after q ls)"
  by (induction ks arbitrary: p) (auto simp: bind_eq_Some_conv split: bind_splits)

lemma lawful_log:
  assumes "ks \<in> set grant_logs"
  obtains p where "phase_after Editing ks = Some p" "grant_state ks expires now = phase_state p (expires \<le> now)"
proof -
  have "\<exists>p. phase_after Editing ks = Some p \<and> grant_state ks expires now = phase_state p (expires \<le> now)"
    using assms by (auto simp: grant_logs_def grant_state_def)
  then show thesis using that by blast
qed

lemma lawful_step:
  assumes "ks \<in> set grant_logs" "ks @ [kind] \<in> set grant_logs"
  obtains p p' where "phase_after Editing ks = Some p" "phase_event p kind = Some p'"
    "phase_after Editing (ks @ [kind]) = Some p'"
proof -
  obtain p where p: "phase_after Editing ks = Some p" by (rule lawful_log[OF assms(1)])
  obtain p' where "phase_after Editing (ks @ [kind]) = Some p'" by (rule lawful_log[OF assms(2)])
  then show thesis using that p by (auto simp: phase_after_append bind_eq_Some_conv)
qed

lemma step_extends_log:
  "edit_step env db db' \<Longrightarrow> log_of db' gid = log_of db gid \<or> (\<exists>kind. log_of db' gid = log_of db gid @ [kind])"
proof (induction rule: edit_step.induct)
  case (publish_step a s db db' v)
  then obtain created pid st where v: "v = (created, pid, st)" by (cases v) auto
  show ?case
  proof (cases "db' = db")
    case False
    then have "publish_new env a s pid db = Inr (db', created, pid, st)"
      using publish_effect publish_step(1) v by blast
    then obtain p where p: "ed_grants db' = ed_grants db" "ed_events db' = ed_events db" "ed_results db' = ed_results db"
        "pk_edit_packet_id p = pid" "pk_status p = ''active''" "pk_project_id p = ps_project_id s"
        "pk_analysis_case_id p = ps_analysis_case_id s" "pid \<notin> pk_edit_packet_id ` set (ed_packets db)"
        "ed_packets db' = map (superseded_in (ps_project_id s) (ps_analysis_case_id s)) (ed_packets db) @ [p]"
      by (rule publish_new_effect)
    show ?thesis by (simp add: log_of_cong[OF p(2)])
  qed simp
next
  case (issue_step now a s db db' v)
  obtain created g st where v: "v = (created, g, st)" by (cases v) auto
  have same: "ed_events db' = ed_events db"
    using issue_effect[OF issue_step(1)[unfolded v]] by (elim disjE exE conjE) simp_all
  show ?case by (simp add: log_of_cong[OF same])
next
  case (event_step now eid g project kind actor reason db db' v)
  show ?case
  proof (cases "find (\<lambda>e. ge_event_id e = eid) (ed_events db)")
    case (Some e)
    then show ?thesis using append_old[OF event_step(1)] by simp
  next
    case None
    obtain e where "db' = db\<lparr>ed_events := ed_events db @ [e]\<rparr>" by (rule append_new[OF event_step(1) None]) blast
    then show ?thesis by (auto simp: log_of_append)
  qed
next
  case (result_step now later sc w db db' v)
  have "ed_events db' = ed_events db \<or> (\<exists>e. ed_events db' = ed_events db @ [e])"
    using record_effect[OF result_step(1)] by (elim disjE conjE exE) (auto split: if_splits)
  then show ?case by (auto simp: log_of_def events_of_def)
next
  case (report_step project case_id report_id db db')
  then have same: "ed_events db' = ed_events db"
    by (simp add: same_permissions_def supersede_packets_from_other_reports_def)
  show ?case by (simp add: log_of_cong[OF same])
next
  case (other_step db db')
  then have same: "ed_events db' = ed_events db" by (simp add: same_permissions_def)
  show ?case by (simp add: log_of_cong[OF same])
qed

text \<open>(C22) Every grant follows its life.  In every reachable state its log is a lawful history of the phases
  \<open>editing\<close>, \<open>UI pending\<close>, \<open>completed\<close> and \<open>revoked\<close>, and the state the repository reports for it is that of its
  phase (or \<open>expired\<close>, before a final one).  Every further step leaves the log or adds one event that is lawful
  in that phase, and so nothing to the log of a completed or revoked grant.\<close>

theorem grants_follow_their_life:
  assumes "edit_reachable db" "edit_step env db db'"
  shows "\<exists>p. grant_phase db gid = Some p
    \<and> (\<forall>env now g. inspect_grant env db gid now = Inr g \<longrightarrow>
        (\<exists>row. find_grant db gid = Some row \<and> au_state g = phase_state p (gt_expires_at row \<le> now)))
    \<and> (log_of db' gid = log_of db gid
       \<or> p \<notin> {Completed, Revoked} \<and> (\<exists>kind p'. log_of db' gid = log_of db gid @ [kind]
            \<and> phase_event p kind = Some p' \<and> grant_phase db' gid = Some p'))"
proof -
  have "edit_ok db" using assms(1) by (rule reachable_edit_ok)
  then have logs: "log_of db gid \<in> set grant_logs" "log_of db' gid \<in> set grant_logs"
    using edit_step_keeps[OF assms(2)] by (auto simp: edit_ok_def events_ok_def)
  obtain p where p: "grant_phase db gid = Some p" by (rule lawful_log[OF logs(1)]) (simp add: grant_phase_def that)
  have "\<exists>row. find_grant db gid = Some row \<and> au_state g = phase_state p (gt_expires_at row \<le> now)"
    if inspected: "inspect_grant env db gid now = Inr g" for env now g
  proof -
    obtain row where row: "find_grant db gid = Some row" "au_state g = grant_state (log_of db gid) (gt_expires_at row) now"
      by (rule inspect_state[OF inspected])
    then show ?thesis by (intro exI[of _ row]) (rule lawful_log[OF logs(1)], use p row in \<open>auto simp: grant_phase_def\<close>)
  qed
  moreover have "p \<notin> {Completed, Revoked} \<and> (\<exists>p'. phase_event p kind = Some p' \<and> grant_phase db' gid = Some p')"
    if kind: "log_of db' gid = log_of db gid @ [kind]" for kind
  proof -
    obtain p' where "phase_event p kind = Some p'" "grant_phase db' gid = Some p'"
      using lawful_step[OF logs(1), of kind] logs(2) p kind by (auto simp: grant_phase_def)
    then show ?thesis by auto
  qed
  ultimately show ?thesis using p step_extends_log[OF assms(2), of gid] by blast
qed

theorem grants_follow_their_life_witness:
  "grant_phase (demo_granted [''t.py'']) ''A'' = Some Editing \<and> phase_event Editing ''completed'' = Some Completed
   \<and> grant_phase demo_done ''A'' = Some Completed"
proof -
  have logs: "log_of (demo_granted [''t.py'']) ''A'' = []" "log_of demo_done ''A'' = [''completed'']"
    by (simp_all add: log_of_def events_of_def demo_no_results demo_done_def demo_close_event_def)
  then have "grant_phase (demo_granted [''t.py'']) ''A'' = Some Editing" by (simp add: grant_phase_def)
  then show ?thesis
    using grants_follow_their_life[OF demo_reachable(1,3), of "''A''"] logs by auto
qed

lemma committed_moves:
  assumes "wr_validation_mode w = ''committed''" "wr_status w \<in> {''in_scope'', ''no_changes''}"
    and "coverage_status w = Inr st" "st \<in> PStr ` {''passed'', ''failed'', ''missing'', ''not_required''}"
    and "next_case_status sc w = Inr cs" "close_event sc w = Inr (Some (kind, reason))"
  shows "kind = (if cs = ''verifying_ui'' then ''edit_completed'' else ''completed'') \<and> cs \<in> {''verifying_ui'', ''passed'', ''failed''}"
proof -
  let ?ok = "(wr_status w = ''in_scope'' \<or> wr_status w = ''no_changes'' \<and> sc_writable_files sc = [])
    \<and> wr_tests_passed w = Some True"
  have inside: "wr_status w \<noteq> ''out_of_scope''" using assms(2) by auto
  have ok: "?ok \<longleftrightarrow> \<not> (wr_status w = ''no_changes'' \<and> sc_writable_files sc \<noteq> [] \<or> wr_tests_passed w \<noteq> Some True)"
    using assms(2) by auto
  have covered: "st \<in> {PStr ''passed'', PStr ''not_required''} \<longleftrightarrow> st \<notin> {PStr ''failed'', PStr ''missing''}"
    using assms(4) by auto
  have next_is: "next_case_status sc w = Inr (if \<not> ?ok \<or> st \<in> {PStr ''failed'', PStr ''missing''} then ''failed''
      else if sc_required_ui_scenario_refs sc \<noteq> [] then ''verifying_ui'' else ''passed'')"
    unfolding next_case_status_def using assms(1,3) inside ok by simp
  have success: "successful_result sc w = Inr (?ok \<and> st \<notin> {PStr ''failed'', PStr ''missing''})"
    unfolding successful_result_def using assms(3) covered by simp
  show ?thesis
  proof (cases "?ok \<and> st \<notin> {PStr ''failed'', PStr ''missing''}")
    case True
    then have "successful_result sc w = Inr True" using success by simp
    then show ?thesis
      using True next_is assms(1,5,6) inside
      by (cases "sc_required_ui_scenario_refs sc = []") (simp_all add: close_event_def)
  next
    case False
    then have "successful_result sc w = Inr False" using success by simp
    moreover have "\<not> ?ok \<or> st \<in> {PStr ''failed'', PStr ''missing''}" using False by blast
    then have "next_case_status sc w = Inr ''failed''" unfolding next_is by (simp only: if_True)
    then have "cs = ''failed''" using assms(5) by simp
    ultimately show ?thesis using assms(1,6) inside by (simp add: close_event_def)
  qed
qed

lemma inserted_result:
  assumes "insert_edit_result row db = Inr db1" "result_row_of sc w = Inr row"
  obtains st where "coverage_status w = Inr st" "st \<in> PStr ` {''passed'', ''failed'', ''missing'', ''not_required''}"
    "wr_status w \<in> {''in_scope'', ''out_of_scope'', ''no_changes''}" "wr_validation_mode w \<in> {''working'', ''committed''}"
proof -
  obtain st where st: "coverage_status w = Inr st" "er_changed_line_coverage_status row = st"
      "er_status row = wr_status w" "er_validation_mode row = wr_validation_mode w"
    using assms(2) by (auto simp: result_row_of_def rbind_eq_Inr)
  have "er_validation_mode row \<in> {''working'', ''committed''}" "er_status row \<in> {''in_scope'', ''out_of_scope'', ''no_changes''}"
      "er_changed_line_coverage_status row \<in> PStr ` {''passed'', ''failed'', ''missing'', ''not_required''}"
    using assms(1) unfolding insert_edit_result_def if_raise_eq_Inr by blast+
  then show thesis using that[of st] st by simp
qed

lemma grant_phase_append:
  assumes "ed_events db' = ed_events db @ events" "log_of db gid = []"
  shows "grant_phase db' gid = phase_after Editing (map ge_event_type (filter (\<lambda>e. ge_approval_grant_id e = gid) events))"
  using assms by (simp add: grant_phase_def log_of_def events_of_def)

text \<open>(C21) Recording a result moves the case, the packet and the grant together.  It needs a grant that is
  in its editing phase and has not expired, for the active packet of a case in editing whose report is
  still confirmed at the revision of the grant; then a result out of scope revokes the grant and asks for
  a new analysis, a working result leaves everything open, and a committed result supersedes the packet
  and leaves the grant waiting for the UI exactly when the case goes on to the UI, completing it otherwise,
  with the case passed or failed.  The row of the case, and no other, gets the status that is returned, and
  the result is the one row added.\<close>

theorem recording_moves_case_and_grant_together:
  assumes "edit_reachable db" "record_edit_result env now later sc w db = Inr (db', r)" "rr_created r"
  shows "\<exists>g p row. find_grant db (sc_approval_grant_id sc) = Some row \<and> now < gt_expires_at row
      \<and> inspect_grant env db (sc_approval_grant_id sc) now = Inr g \<and> edit_source_current db g
      \<and> grant_phase db (sc_approval_grant_id sc) = Some Editing
      \<and> find_packet db (sc_edit_packet_id sc) = Some p \<and> pk_status p = ''active''
      \<and> (if wr_status w = ''out_of_scope'' then
           rr_case_status r = ''reanalysis_required'' \<and> grant_phase db' (sc_approval_grant_id sc) = Some Revoked
         else if wr_validation_mode w \<noteq> ''committed'' then
           rr_case_status r = ''editing'' \<and> grant_phase db' (sc_approval_grant_id sc) = Some Editing
         else if rr_case_status r = ''verifying_ui'' then grant_phase db' (sc_approval_grant_id sc) = Some Ui_pending
         else rr_case_status r \<in> {''passed'', ''failed''} \<and> grant_phase db' (sc_approval_grant_id sc) = Some Completed)
      \<and> (closes w \<longrightarrow> p\<lparr>pk_status := ''superseded''\<rparr> \<in> set (ed_packets db'))
      \<and> (\<not> closes w \<longrightarrow> ed_packets db' = ed_packets db)
      \<and> ed_cases db' = map (\<lambda>c. if ca_analysis_case_id c = sc_analysis_case_id sc \<and> ca_project_id c = sc_project_id sc
           then c\<lparr>ca_status := rr_case_status r\<rparr> else c) (ed_cases db)
      \<and> (\<exists>res. result_row_of sc w = Inr res \<and> ed_results db' = ed_results db @ [res])"
proof -
  from record_effect[OF assms(2)] assms(3) obtain g p row cs events where st:
      "authorize_edit env now (sc_approval_grant_id sc) (sc_project_id sc) (sc_analysis_case_id sc)
        (sc_edit_packet_id sc) ''record_result'' True db = Inr g"
      "find_packet db (sc_edit_packet_id sc) = Some p" "pk_status p = ''active''" "result_row_of sc w = Inr row"
      "next_case_status sc w = Inr cs" "rr_case_status r = cs" "\<exists>db1. insert_edit_result row db = Inr db1"
      "ed_packets db' = ed_packets (close_packet sc w db)" "ed_events db' = ed_events db @ events"
      "if closes w then \<exists>e kind reason. events = [e] \<and> ge_approval_grant_id e = sc_approval_grant_id sc
           \<and> close_event sc w = Inr (Some (kind, reason)) \<and> ge_event_type e = kind
           \<and> ge_event_id e \<notin> ge_event_id ` set (ed_events db) else events = []"
      "ed_results db' = ed_results db @ [row]"
      "ed_cases db' = map (\<lambda>c. if ca_analysis_case_id c = sc_analysis_case_id sc \<and> ca_project_id c = sc_project_id sc
           then c\<lparr>ca_status := cs\<rparr> else c) (ed_cases db)"
    by (elim disjE conjE exE) simp_all
  let ?gid = "sc_approval_grant_id sc"
  obtain grow where grow: "find_grant db ?gid = Some grow" "now < gt_expires_at grow"
      "\<And>kind. kind \<in> set event_kinds \<Longrightarrow> kind \<notin> set (log_of db ?gid)"
      "edit_source_current db g" "inspect_grant env db ?gid now = Inr g"
    by (rule authorized[OF st(1)]) blast
  have "log_of db ?gid \<in> set grant_logs" using reachable_edit_ok[OF assms(1)] by (simp add: edit_ok_def events_ok_def)
  then have empty: "log_of db ?gid = []" using grow(3) by (intro grant_log_empty)
  obtain v where v: "coverage_status w = Inr v" "v \<in> PStr ` {''passed'', ''failed'', ''missing'', ''not_required''}"
      "wr_status w \<in> {''in_scope'', ''out_of_scope'', ''no_changes''}" "wr_validation_mode w \<in> {''working'', ''committed''}"
    using st(7) inserted_result[OF _ st(4)] by metis
  have moves: "if wr_status w = ''out_of_scope'' then cs = ''reanalysis_required'' \<and> grant_phase db' ?gid = Some Revoked
      else if wr_validation_mode w \<noteq> ''committed'' then cs = ''editing'' \<and> grant_phase db' ?gid = Some Editing
      else if cs = ''verifying_ui'' then grant_phase db' ?gid = Some Ui_pending
      else cs \<in> {''passed'', ''failed''} \<and> grant_phase db' ?gid = Some Completed"
  proof (cases "closes w")
    case False
    then have "wr_status w \<noteq> ''out_of_scope''" "wr_validation_mode w = ''working''" using v(4) by (auto simp: closes_def)
    moreover have "grant_phase db' ?gid = Some Editing"
      using st(10) False by (simp add: grant_phase_append[OF st(9) empty])
    ultimately show ?thesis using st(5) by (simp add: next_case_status_def)
  next
    case True
    with st(10) obtain e kind reason where e: "events = [e]" "ge_approval_grant_id e = ?gid"
        "close_event sc w = Inr (Some (kind, reason))" "ge_event_type e = kind" by auto
    have phase: "grant_phase db' ?gid = phase_event Editing kind"
      using e by (simp add: grant_phase_append[OF st(9) empty] split: bind_splits)
    show ?thesis
    proof (cases "wr_status w = ''out_of_scope''")
      case True
      then show ?thesis using phase e(3) st(5) by (auto simp: close_event_def next_case_status_def)
    next
      case False
      then have "wr_validation_mode w = ''committed''" "wr_status w \<in> {''in_scope'', ''no_changes''}"
        using True v(3) by (auto simp: closes_def)
      then show ?thesis using committed_moves[OF _ _ v(1,2) st(5) e(3)] phase False by (auto split: if_splits)
    qed
  qed
  have packets: "(closes w \<longrightarrow> p\<lparr>pk_status := ''superseded''\<rparr> \<in> set (ed_packets db'))
      \<and> (\<not> closes w \<longrightarrow> ed_packets db' = ed_packets db)"
    using close_packet_closes[OF st(2)] by (simp add: st(8), simp add: close_packet_def closes_def)
  show ?thesis
    using grow(1,2,4,5) empty st(2,3,4,11,12) moves packets unfolding st(6)
    by (intro exI[of _ g] exI[of _ p] exI[of _ grow] conjI) (simp_all add: grant_phase_def)
qed

theorem recording_moves_case_and_grant_together_witness:
  "grant_phase (demo_granted [''t.py'']) ''A'' = Some Editing \<and> grant_phase demo_done ''A'' = Some Completed
   \<and> (\<exists>p. find_packet (demo_granted [''t.py'']) ''K'' = Some p
        \<and> p\<lparr>pk_status := ''superseded''\<rparr> \<in> set (ed_packets demo_done))"
  using recording_moves_case_and_grant_together[OF demo_reachable(1) demo_committed_recorded]
  by (auto simp: closes_def demo_committed_def)

end
