(* ===== verification/EditSafety.thy ===== *)
theory EditSafety
  imports EditLaws
begin

text \<open>
  What a permission allows.  The files of a derived packet are safe; a result that is recorded in scope
  changed only files that the approved items of the confirmed report name; and an approval for a packet
  without test files can never be completed.
\<close>

section \<open>Lists of texts\<close>

lemma py_norm_PStr: "py_norm v = PStr s \<longleftrightarrow> v = PStr s"
  by (cases v) auto

lemma py_eq_PStrs: "py_eq v (PStrs ss) \<longleftrightarrow> v = PStrs ss"
proof
  assume "py_eq v (PStrs ss)"
  then obtain vs where v: "v = PList vs" "map py_norm vs = map PStr ss" by (cases v) (auto simp: py_eq_def comp_def)
  then have "list_all2 (\<lambda>x s. py_norm x = PStr s) vs ss" by (simp add: list_all2_conv_all_nth list_eq_iff_nth_eq)
  then have "list_all2 (\<lambda>x s. x = PStr s) vs ss" by (simp add: py_norm_PStr)
  then show "v = PStrs ss" using v(1) by (simp add: list_all2_conv_all_nth list_eq_iff_nth_eq)
qed (simp add: py_eq_def)

lemma py_eq_list: "py_eq (PList (v # vs)) (PList (w # ws)) \<longleftrightarrow> py_eq v w \<and> py_eq (PList vs) (PList ws)"
  by (simp add: py_eq_def)

lemma py_list_PStrs [simp]: "py_list (PStrs ss) = Inr (PStrs ss)"
  by (simp add: py_list_def)

lemma strings_of_PStrs [simp]: "strings_of (PStrs ss) = Inr ss"
  by (simp add: strings_of_def comp_def)

section \<open>The files of a packet\<close>

definition packet_files_are :: "packet_source \<Rightarrow> packet_row \<Rightarrow> bool" where
  "packet_files_are s p \<longleftrightarrow> pk_editable_files p = PStrs (scope_editable_files s)
    \<and> pk_read_only_files p = PStrs (scope_read_only_files s) \<and> pk_test_files p = PStrs (scope_test_files s)"

lemma semantics_files:
  assumes "validate_packet_semantics artifact s = Inr ()"
  shows "dindex artifact ''editable_files'' = Inr (PStrs (scope_editable_files s))"
    "dindex artifact ''read_only_files'' = Inr (PStrs (scope_read_only_files s))"
    "dindex artifact ''test_files'' = Inr (PStrs (scope_test_files s))"
  using assms
  by (auto simp: validate_packet_semantics_def rbind_eq_Inr py_eq_list py_eq_PStrs split: if_splits)

lemma option_raise_eq_Inr:
  "(case x of None \<Rightarrow> Inl e | Some y \<Rightarrow> f y) = Inr z \<longleftrightarrow> (\<exists>y. x = Some y \<and> f y = Inr z)"
  by (cases x) auto

lemma semantics_raise_eq_Inr:
  "(case r of Inl (ValueError _) \<Rightarrow> Inl e | Inl e' \<Rightarrow> Inl e' | Inr _ \<Rightarrow> Inr s) = Inr z \<longleftrightarrow> (\<exists>u. r = Inr u \<and> s = z)"
  by (cases r) (auto split: exn.splits)

lemma packet_integrity:
  assumes "validate_packet_integrity env db a (p, sha, report) = Inr status"
  obtains st s arrays where "report_state env db (pk_impact_report_id p) = Inr (Some st)"
    "mapM (\<lambda>k. rbind (dindex a k) py_list) packet_list_keys = Inr arrays"
    "py_eq (PList arrays) (PList [pk_editable_files p, pk_read_only_files p, pk_test_files p,
       pk_forbidden_globs p, pk_allowed_items p, pk_required_ui_scenario_refs p])"
    "ir_project_id st = pk_project_id p" "report = pk_impact_report_id p"
    "load_integrity_source env db (ir_project_id st) (ir_analysis_case_id st) (ir_impact_report_id st)
       (pk_confirmation_id p) = Inr s"
    "validate_packet_semantics a s = Inr ()"
proof -
  from assms obtain rep st ids arrays s u where v: "dindex a ''impact_report_id'' = Inr rep"
      "report_state env db (py_str rep) = Inr (Some st)" "mapM (dindex a) packet_identity_keys = Inr ids"
      "mapM (\<lambda>k. rbind (dindex a k) py_list) packet_list_keys = Inr arrays"
      "map py_str ids = [pk_edit_packet_id p, pk_project_id p, pk_impact_report_id p, pk_confirmation_id p,
         pk_repository_id p, pk_base_repository_revision p]"
      "py_eq (PList arrays) (PList [pk_editable_files p, pk_read_only_files p, pk_test_files p,
         pk_forbidden_globs p, pk_allowed_items p, pk_required_ui_scenario_refs p])"
      "ir_project_id st = pk_project_id p" "report = pk_impact_report_id p"
      "load_integrity_source env db (ir_project_id st) (ir_analysis_case_id st) (ir_impact_report_id st)
         (pk_confirmation_id p) = Inr s"
      "validate_packet_semantics a s = Inr u"
    unfolding validate_packet_integrity_def Let_def prod.case if_raise_eq_Inr rbind_eq_Inr option_raise_eq_Inr
      semantics_raise_eq_Inr de_Morgan_disj not_not
    by (elim exE conjE) (rule that, (assumption | simp only:)+)
  have "py_str rep = pk_impact_report_id p"
    using v(1,3,5) by (auto simp: packet_identity_keys_def rbind_eq_Inr)
  then show thesis using that[OF _ v(4,6,7,8,9)] v(2,10) by simp
qed

lemma get_packet_intact:
  assumes "get_packet env db pid = Inr (Some record)"
  obtains p s st where "find_packet db pid = Some p" "packet_files_are s p"
    "load_integrity_source env db (ir_project_id st) (ir_analysis_case_id st) (ir_impact_report_id st)
       (pk_confirmation_id p) = Inr s"
    "find_report db (pk_impact_report_id p) = Some st" "ir_project_id st = pk_project_id p"
proof -
  obtain a p sha report status where st: "joined_packet db pid = Some (p, sha, report)"
      "validate_packet_integrity env db a (p, sha, report) = Inr status"
    using assms by (auto simp: get_packet_def rbind_eq_Inr split: if_splits option.splits)
  have found: "find_packet db pid = Some p" using st(1) by (auto simp: joined_packet_def split: option.splits)
  obtain st s arrays where v: "report_state env db (pk_impact_report_id p) = Inr (Some st)"
      "mapM (\<lambda>k. rbind (dindex a k) py_list) packet_list_keys = Inr arrays"
      "py_eq (PList arrays) (PList [pk_editable_files p, pk_read_only_files p, pk_test_files p,
         pk_forbidden_globs p, pk_allowed_items p, pk_required_ui_scenario_refs p])"
      "ir_project_id st = pk_project_id p"
      "load_integrity_source env db (ir_project_id st) (ir_analysis_case_id st) (ir_impact_report_id st)
         (pk_confirmation_id p) = Inr s"
      "validate_packet_semantics a s = Inr ()"
    by (rule packet_integrity[OF st(2)]) blast
  have "packet_files_are s p"
    using v(2,3) semantics_files[OF v(6)]
    by (auto simp: packet_list_keys_def rbind_eq_Inr packet_files_are_def py_eq_list py_eq_PStrs dest: py_eq_sym)
  moreover have "find_report db (pk_impact_report_id p) = Some st"
    using v(1) by (auto simp: report_state_def rbind_eq_Inr split: if_splits option.splits)
  ultimately show thesis using that[OF found _ v(5) _ v(4)] by simp
qed

section \<open>What an intact grant rests on\<close>

lemma grant_semantics_raise_eq_Inr:
  "(case r of Inl (ValueError _) \<Rightarrow> Inl e | r' \<Rightarrow> r') = Inr z \<longleftrightarrow> r = Inr z"
  by (cases r) (auto split: exn.splits)

lemma grant_integrity:
  assumes "grant_intact env db g = Inr ()"
  obtains a rec s where "mapM (dindex a) grant_keys = Inr (map (\<lambda>k. the (map_of a k)) grant_keys)"
    "py_eq (PList (map (\<lambda>k. the (map_of a k)) grant_keys)) (PList (grant_columns g))"
    "get_packet env db (gt_edit_packet_id g) = Inr (Some rec)"
    "grant_source_of_packet rec = Inr s" "expected_grant_source a = Inr s"
    "validate_grant_semantics a s = Inr ()"
proof -
  from assms obtain a identity packet found rec s expected checked where v:
      "mapM (dindex a) grant_keys = Inr identity" "py_eq (PList identity) (PList (grant_columns g))"
      "dindex a ''edit_packet_id'' = Inr packet" "get_packet env db (py_str packet) = Inr found"
      "found = Some rec" "grant_source_of_packet rec = Inr s" "expected_grant_source a = Inr expected"
      "s = expected" "validate_grant_semantics a s = Inr checked"
    unfolding grant_intact_def Let_def if_raise_eq_Inr rbind_eq_Inr option_raise_eq_Inr
      grant_semantics_raise_eq_Inr de_Morgan_disj not_not
    by (elim exE conjE) (rule that, assumption+)
  have identity: "identity = map (\<lambda>k. the (map_of a k)) grant_keys"
  proof -
    have "list_all2 (\<lambda>k v. v = the (map_of a k)) grant_keys identity"
      using v(1) unfolding mapM_eq_Inr
      by (rule list_all2_mono) (auto simp: dindex_def split: option.splits)
    then show ?thesis by (simp add: list_all2_conv_all_nth list_eq_iff_nth_eq)
  qed
  have "the (map_of a ''edit_packet_id'') = PStr (gt_edit_packet_id g)"
    using v(2) unfolding identity by (simp add: grant_keys_def grant_columns_def py_eq_list)
  then have "packet = PStr (gt_edit_packet_id g)" using v(3) by (auto simp: dindex_def split: option.splits)
  then show thesis using that[of a rec s] v(1,2,4-9) unfolding identity by simp
qed

lemma source_items:
  assumes "load_integrity_source env db project case_id report confirmation = Inr s"
  obtains r c where "find_report db report = Some r" "ir_project_id r = project"
    "find_confirmation db confirmation report project = Some c"
    "ps_approved_item_ids s = cr_approved_item_ids c" "ps_items s = items_of_report db report project"
proof -
  obtain r c p where rows: "confirmed_rows db project case_id report confirmation = Some (r, c, p)"
    using assms by (auto simp: load_integrity_source_def split: option.splits)
  then have found: "find_report db report = Some r" "ir_project_id r = project"
      "find_confirmation db confirmation report project = Some c"
    by (auto simp: confirmed_rows_def split: option.splits if_splits)
  then have "ir_impact_report_id r = report" by (auto simp: find_report_def find_Some_iff)
  then show thesis
    using that[OF found] assms rows found(2)
    by (auto simp: load_integrity_source_def source_of_rows_def rbind_eq_Inr split: option.splits)
qed

section \<open>Edits within the approval\<close>

text \<open>A path that an approved item of the packet's confirmation lets an edit write.\<close>

definition approved_edit :: "edit_db \<Rightarrow> packet_row \<Rightarrow> string \<Rightarrow> bool" where
  "approved_edit db p path \<longleftrightarrow>
    (\<exists>c. find_confirmation db (pk_confirmation_id p) (pk_impact_report_id p) (pk_project_id p) = Some c
      \<and> (\<exists>i\<in>set (items_of_report db (pk_impact_report_id p) (pk_project_id p)).
          ii_impact_item_id i \<in> set (cr_approved_item_ids c)
          \<and> ii_recommended_action i \<in> {''modify'', ''add'', ''delete''}
          \<and> (path = ii_target_path i \<or> path \<in> set (ii_test_file_refs i))))"

lemma scope_editable_item:
  "path \<in> set (scope_editable_files s) \<Longrightarrow> \<exists>i\<in>set (actionable_items s). path = ii_target_path i"
  by (auto simp: scope_editable_files_def)

lemma scope_test_item:
  "path \<in> set (scope_test_files s) \<Longrightarrow> scope_editable_files s \<noteq> [] \<Longrightarrow> \<exists>i\<in>set (actionable_items s). path \<in> set (ii_test_file_refs i)"
  by (auto simp: scope_test_files_def scope_editable_files_def split: if_splits)

lemma writable_is_approved:
  assumes "packet_files_are s p" "strings_of (pk_editable_files p) = Inr editable"
    and "strings_of (pk_test_files p) = Inr tests" "editable \<noteq> []" "path \<in> set editable \<union> set tests"
    and "load_integrity_source env db (ir_project_id st) (ir_analysis_case_id st) (ir_impact_report_id st)
       (pk_confirmation_id p) = Inr s"
    and "find_report db (pk_impact_report_id p) = Some st" "ir_project_id st = pk_project_id p"
  shows "approved_edit db p path"
proof -
  have files: "editable = scope_editable_files s" "tests = scope_test_files s"
    using assms(1-3) by (simp_all add: packet_files_are_def)
  then obtain i where i: "i \<in> set (actionable_items s)" "path = ii_target_path i \<or> path \<in> set (ii_test_file_refs i)"
    using assms(4,5) scope_editable_item scope_test_item by blast
  have id: "ir_impact_report_id st = pk_impact_report_id p" using assms(7) by (auto simp: find_report_def find_Some_iff)
  obtain c where c: "find_confirmation db (pk_confirmation_id p) (pk_impact_report_id p) (pk_project_id p) = Some c"
      "ps_approved_item_ids s = cr_approved_item_ids c"
      "ps_items s = items_of_report db (pk_impact_report_id p) (pk_project_id p)"
    using source_items[OF assms(6)] unfolding id assms(8) by metis
  then show ?thesis
    using i by (auto simp: approved_edit_def actionable_items_def approved_items_def)
qed

lemma result_scope_loaded:
  assumes "load_result_scope env db now project case_id pid gid = Inr sc"
  obtains p editable tests g where "find_packet db pid = Some p" "strings_of (pk_editable_files p) = Inr editable"
    "strings_of (pk_test_files p) = Inr tests" "inspect_grant env db gid now = Inr g" "au_edit_packet_id g = pid"
    "sc_writable_files sc = (if editable \<noteq> [] then sorted_set (editable @ tests) else [])"
    "sc_edit_packet_id sc = pid" "sc_approval_grant_id sc = gid" "sc_project_id sc = project"
    "sc_required_command_refs sc = sort (au_allowed_test_command_refs g)"
  using assms
  by (auto simp: load_result_scope_def rbind_eq_Inr split: option.splits if_splits)

lemma recorded_run:
  assumes "run_edit_result u env at_load now later r db = Inr (db', rec, w)" "rr_created rec"
  obtains sc e g where
    "load_result_scope env db at_load (rs_project_id r) (rs_analysis_case_id r) (rs_edit_packet_id r)
       (rs_approval_grant_id r) = Inr sc"
    "result_write_of u r sc e = Inr w"
    "authorize_edit env now (sc_approval_grant_id sc) (sc_project_id sc) (sc_analysis_case_id sc)
        (sc_edit_packet_id sc) ''record_result'' True db = Inr g"
    "validate_command_evidence db sc w = Inr ()"
    "map_option pk_status (find_packet db (sc_edit_packet_id sc)) = Some ''active''"
proof -
  obtain sc e where run: "load_result_scope env db at_load (rs_project_id r) (rs_analysis_case_id r) (rs_edit_packet_id r)
       (rs_approval_grant_id r) = Inr sc" "result_write_of u r sc e = Inr w"
      "record_edit_result env now later sc w db = Inr (db', rec)"
    using assms(1) by (auto simp: run_edit_result_def rbind_eq_Inr split: if_splits)
  from record_effect[OF run(3)] assms(2) obtain g p where
      "authorize_edit env now (sc_approval_grant_id sc) (sc_project_id sc) (sc_analysis_case_id sc)
        (sc_edit_packet_id sc) ''record_result'' True db = Inr g"
      "validate_command_evidence db sc w = Inr ()" "find_packet db (sc_edit_packet_id sc) = Some p" "pk_status p = ''active''"
    by (elim disjE conjE exE) simp_all
  then show thesis using that[OF run(1,2)] by simp
qed

lemma result_write_fields:
  assumes "result_write_of u r sc e = Inr w"
  shows "wr_changed_paths w = gd_changed_paths e" "wr_test_result_refs w = rs_test_result_refs r"
    "wr_out_of_scope_files w = out_of_scope_files sc (wr_changed_paths w)"
    "wr_status w = ''in_scope'' \<longleftrightarrow> wr_out_of_scope_files w = [] \<and> wr_changed_paths w \<noteq> []"
  using assms by (auto simp: result_write_of_def rbind_eq_Inr Let_def split: if_splits)

text \<open>(C19) An edit stays within its approval.  When a result is recorded in scope, its packet is the active
  one of its case, and every changed path that Git reports is the target or a test file of an impact item
  that the confirmation of the report approved for modification, addition or deletion.\<close>

theorem edits_stay_within_the_approval:
  assumes "run_edit_result u env at_load now later r db = Inr (db', rec, w)" "rr_created rec" "wr_status w = ''in_scope''"
  shows "\<exists>p. find_packet db (rs_edit_packet_id r) = Some p \<and> pk_status p = ''active''
    \<and> wr_changed_paths w \<noteq> [] \<and> (\<forall>path\<in>set (wr_changed_paths w). approved_edit db p path)"
proof -
  obtain sc e g where run: "load_result_scope env db at_load (rs_project_id r) (rs_analysis_case_id r)
       (rs_edit_packet_id r) (rs_approval_grant_id r) = Inr sc" "result_write_of u r sc e = Inr w"
      "authorize_edit env now (sc_approval_grant_id sc) (sc_project_id sc) (sc_analysis_case_id sc)
        (sc_edit_packet_id sc) ''record_result'' True db = Inr g"
      "map_option pk_status (find_packet db (sc_edit_packet_id sc)) = Some ''active''"
    by (rule recorded_run[OF assms(1,2)]) blast
  obtain p editable tests where sc: "find_packet db (rs_edit_packet_id r) = Some p"
      "strings_of (pk_editable_files p) = Inr editable" "strings_of (pk_test_files p) = Inr tests"
      "sc_writable_files sc = (if editable \<noteq> [] then sorted_set (editable @ tests) else [])"
      "sc_edit_packet_id sc = rs_edit_packet_id r"
    by (rule result_scope_loaded[OF run(1)]) blast
  obtain row where row: "gt_edit_packet_id row = sc_edit_packet_id sc" "grant_intact env db row = Inr ()"
    by (rule authorized[OF run(3)]) blast
  obtain got where "get_packet env db (rs_edit_packet_id r) = Inr (Some got)"
    using grant_integrity[OF row(2)] row(1) sc(5) by metis
  then obtain q s st where q: "find_packet db (rs_edit_packet_id r) = Some q" "packet_files_are s q"
      "load_integrity_source env db (ir_project_id st) (ir_analysis_case_id st) (ir_impact_report_id st)
         (pk_confirmation_id q) = Inr s"
      "find_report db (pk_impact_report_id q) = Some st" "ir_project_id st = pk_project_id q"
    by (rule get_packet_intact)
  have "q = p" using q(1) sc(1) by simp
  note w = result_write_fields[OF run(2)]
  have inside: "wr_changed_paths w \<noteq> []" "set (wr_changed_paths w) \<subseteq> set (sc_writable_files sc)"
    using assms(3) w(3,4) by (auto simp: out_of_scope_files_def filter_empty_conv)
  then have "editable \<noteq> []" using sc(4) by (auto split: if_splits)
  then have "approved_edit db p path" if "path \<in> set (wr_changed_paths w)" for path
    using writable_is_approved[OF q(2)[unfolded \<open>q = p\<close>] sc(2,3) _ _ q(3-5)[unfolded \<open>q = p\<close>], of path] that inside(2) sc(4)
    by auto
  then show ?thesis using sc(1,5) run(4) inside(1) by auto
qed

theorem edits_stay_within_the_approval_witness:
  "wr_changed_paths demo_write = [''a.py''] \<and> approved_edit (demo_granted [''t.py'']) (demo_packet_row [''t.py'']) ''a.py''"
proof -
  have "wr_status demo_write = ''in_scope''" "wr_changed_paths demo_write = [''a.py'']"
      "rs_edit_packet_id (demo_result_request False) = ''K''"
    by (simp_all add: demo_write_def demo_result_request_def)
  then show ?thesis
    using edits_stay_within_the_approval[OF demo_working_run] demo_packet_found by simp
qed

section \<open>A packet without test files\<close>

lemma py_norm_PList: "py_norm v = PList [] \<longleftrightarrow> v = PList []"
  by (cases v) auto

lemma strings_of_falsy:
  assumes "\<not> truthy v" "py_eq v w" "strings_of w = Inr ss"
  shows "ss = []"
proof -
  have "py_norm v \<in> {PNone, PFloat 0, PStr [], PList [], PDict []}"
    using assms(1) by (cases v) (auto split: if_splits)
  then have "py_norm w \<in> {PNone, PFloat 0, PStr [], PList [], PDict []}" using assms(2) by (simp add: py_eq_def)
  then show ?thesis using assms(3)
    by (cases w) (auto simp: strings_of_def dest: arg_cong[of _ _ length])
qed

lemma no_tests_no_commands:
  assumes "inspect_grant env db gid now = Inr g" "find_grant db gid = Some row" "gt_test_files row = PList []"
  shows "au_allowed_test_command_refs g = []"
proof -
  have intact: "grant_intact env db row = Inr ()"
    using assms(1,2) by (auto simp: inspect_grant_def rbind_eq_Inr)
  have refs: "strings_of (gt_allowed_test_command_refs row) = Inr (au_allowed_test_command_refs g)"
    using assms(1,2) by (auto simp: inspect_grant_def rbind_eq_Inr split: option.splits if_splits)
  obtain a s where a: "mapM (dindex a) grant_keys = Inr (map (\<lambda>k. the (map_of a k)) grant_keys)"
      "py_eq (PList (map (\<lambda>k. the (map_of a k)) grant_keys)) (PList (grant_columns row))"
      "expected_grant_source a = Inr s" "validate_grant_semantics a s = Inr ()"
    using grant_integrity[OF intact] by metis
  have looked: "dindex a k = Inr (the (map_of a k))" if "k \<in> set grant_keys" for k
    using a(1) that by (auto simp: mapM_eq_Inr list_all2_map2 list.rel_refl list_all2_same)
  have cols: "py_eq (the (map_of a ''test_files'')) (PList [])"
      "py_eq (the (map_of a ''allowed_test_command_refs'')) (gt_allowed_test_command_refs row)"
    using a(2) assms(3) by (simp_all add: grant_keys_def grant_columns_def py_eq_list)
  then have "the (map_of a ''test_files'') = PList []" by (simp add: py_eq_def py_norm_PList)
  then have "gs_test_files s = []"
    using a(3) looked[of "''test_files''"]
    by (auto simp: expected_grant_source_def rbind_eq_Inr grant_keys_def strings_of_def)
  then have "\<not> truthy (the (map_of a ''allowed_test_command_refs''))"
    using a(4) looked[of "''allowed_test_command_refs''"]
    by (auto simp: validate_grant_semantics_def rbind_eq_Inr grant_keys_def split: if_splits)
  then show ?thesis using strings_of_falsy cols(2) refs by blast
qed

lemma evidence_needs_commands:
  assumes "validate_command_evidence db sc w = Inr ()" "wr_test_result_refs w \<noteq> []"
  shows "sc_required_command_refs sc \<noteq> []"
proof
  assume none: "sc_required_command_refs sc = []"
  let ?rows = "evidence_rows db (wr_test_result_refs w)"
  have "filter (\<lambda>r. r \<notin> set (map cx_command_execution_id ?rows)) (wr_test_result_refs w) = []"
    and "set (map cx_command_ref ?rows) = set (sc_required_command_refs sc)"
    using assms unfolding validate_command_evidence_def Let_def by (auto simp only: if_raise_eq_Inr if_False
        sorted_set_Nil_iff set_sorted_set simp_thms)
  then have "?rows = []" "set (wr_test_result_refs w) \<subseteq> set (map cx_command_execution_id ?rows)"
    using none by (auto simp: filter_empty_conv)
  then show False using assms(2) by simp
qed

lemma new_result_created:
  assumes "run_edit_result u env at_load now later r db = Inr (db', rec, w)"
    and "rs_edit_result_id r \<notin> er_edit_result_id ` set (ed_results db)"
  shows "rr_created rec"
proof -
  obtain sc e where "result_write_of u r sc e = Inr w" "record_edit_result env now later sc w db = Inr (db', rec)"
    using assms(1) by (auto simp: run_edit_result_def rbind_eq_Inr split: if_splits)
  moreover from this(1) have "wr_edit_result_id w = rs_edit_result_id r"
    by (auto simp: result_write_of_def rbind_eq_Inr Let_def)
  then have "find (\<lambda>q. er_edit_result_id q = wr_edit_result_id w) (ed_results db) = None"
    using assms(2) unfolding find_None_iff by (metis image_eqI)
  ultimately show ?thesis by (auto simp: record_edit_result_def rbind_eq_Inr split: if_splits)
qed

text \<open>(C24) An approval without test files can never be completed.  A committed result has to name test
  commands; the commands it names must be exactly those the approval allows; and the approval of a packet
  without test files may not allow any.  So every attempt to record a committed result under it is refused,
  although the packet can be published and the approval issued.\<close>

theorem no_committed_result_without_test_files:
  assumes "new_result_request r = Inr r" "rs_committed r"
    and "find_grant db (rs_approval_grant_id r) = Some row" "gt_test_files row = PList []"
    and "rs_edit_result_id r \<notin> er_edit_result_id ` set (ed_results db)"
  shows "\<exists>e. run_edit_result u env at_load now later r db = Inl e"
proof (rule ccontr)
  assume "\<not> ?thesis"
  then obtain db' rec w where run_ok: "run_edit_result u env at_load now later r db = Inr (db', rec, w)"
    by (cases "run_edit_result u env at_load now later r db") auto
  then have created: "rr_created rec" using new_result_created assms(5) by blast
  obtain sc e where run: "load_result_scope env db at_load (rs_project_id r) (rs_analysis_case_id r)
       (rs_edit_packet_id r) (rs_approval_grant_id r) = Inr sc" "result_write_of u r sc e = Inr w"
      "validate_command_evidence db sc w = Inr ()"
    by (rule recorded_run[OF run_ok created]) blast
  obtain g where g: "inspect_grant env db (rs_approval_grant_id r) at_load = Inr g"
      "sc_required_command_refs sc = sort (au_allowed_test_command_refs g)"
    by (rule result_scope_loaded[OF run(1)]) blast
  have "rs_test_result_refs r \<noteq> []"
    using assms(1,2) unfolding new_result_request_def if_raise_eq_Inr by blast
  then have "sc_required_command_refs sc \<noteq> []"
    using evidence_needs_commands[OF run(3)] result_write_fields(2)[OF run(2)] by simp
  then show False using no_tests_no_commands[OF g(1) assms(3,4)] g(2) by simp
qed

text \<open>The packet without tests is published, its approval issued, and the committed result refused.\<close>

theorem no_committed_result_without_test_files_witness:
  "publish_packet demo_env (demo_packet []) (demo_source []) (demo_db []) = Inr (demo_published [], True, ''K'', ''active'')
   \<and> issue_grant demo_env 0 (demo_grant []) (demo_grant_source []) (demo_published [])
      = Inr (demo_granted [], True, ''A'', ''active_editing'')
   \<and> (\<exists>e. run_edit_result ascii_tables demo_env 0 0 0 (demo_result_request True) (demo_granted []) = Inl e)"
proof -
  have "new_result_request (demo_result_request True) = Inr (demo_result_request True)"
    by (simp add: new_result_request_def demo_result_request_def)
  moreover have "rs_committed (demo_result_request True)" "rs_approval_grant_id (demo_result_request True) = ''A''"
    by (simp_all add: demo_result_request_def)
  moreover have "find_grant (demo_granted []) ''A'' = Some (demo_grant_row [])" "gt_test_files (demo_grant_row []) = PList []"
    by (simp_all add: find_grant_def demo_granted_def) (simp_all add: demo_grant_row_def)
  ultimately have "\<exists>e. run_edit_result ascii_tables demo_env 0 0 0 (demo_result_request True) (demo_granted []) = Inl e"
    by (intro no_committed_result_without_test_files) (simp_all add: demo_no_results)
  then show ?thesis using demo_publication demo_issue by simp
qed

section \<open>The derived packet\<close>

text \<open>(C23) What a derived packet lets an edit touch is safe.  Its editable, read-only and test files are
  disjoint; each is a non-blank path below the workspace that no forbidden glob matches; the workspace is a
  clean checkout of the confirmed commit and origin; a file to add does not exist there, and every other
  file that is not a test does.  And the packet is exactly what the publication and every later integrity
  check demand of it.\<close>

theorem derived_packet_is_safe:
  assumes "derive_packet env r s = Inr a"
  shows "a = packet_artifact s r \<and> validate_packet_semantics a s = Inr () \<and> distinct (scope_paths s)
    \<and> (\<forall>p\<in>set (scope_paths s). safe_relative p \<and> \<not> blank p \<and> \<not> ee_ignored env (pq_forbidden_globs r) p)
    \<and> (\<exists>ws g. gt_resolve (ee_git env) (ps_workspace_root s) = Inr ws \<and> inspect_workspace (ee_git env) ws = Inr g
        \<and> gi_head_sha g = ps_commit_sha s \<and> gi_remote_url g = ps_remote_url s
        \<and> set (add_paths s) \<inter> set (gi_tracked_paths g) = {}
        \<and> set (scope_paths s) - set (scope_test_files s) \<subseteq> set (gi_tracked_paths g) \<union> set (add_paths s))"
proof -
  obtain ws g us ignored u where d: "gt_resolve (ee_git env) (ps_workspace_root s) = Inr ws"
      "inspect_workspace (ee_git env) ws = Inr g" "gi_head_sha g = ps_commit_sha s" "gi_remote_url g = ps_remote_url s"
      "distinct (scope_paths s)" "mapM validate_relative_path (scope_paths s) = Inr us"
      "forbidden_spec env (pq_forbidden_globs r) = Inr ignored" "sort (filter ignored (scope_paths s)) = []"
      "sorted_set (filter (\<lambda>p. p \<in> set (gi_tracked_paths g)) (add_paths s)) = []" "absent_paths s g = []"
      "a = packet_artifact s r"
    using assms unfolding derive_packet_def Let_def if_raise_eq_Inr rbind_eq_Inr de_Morgan_disj not_not by auto
  have "ignored = ee_ignored env (pq_forbidden_globs r)" using d(7) by (auto simp: forbidden_spec_def split: option.splits)
  then have free: "\<not> ee_ignored env (pq_forbidden_globs r) p" if "p \<in> set (scope_paths s)" for p
    using d(8) that by (metis filter_empty_conv set_empty set_sort)
  have "safe_relative p \<and> \<not> blank p" if "p \<in> set (scope_paths s)" for p
    using d(6) that by (auto simp: mapM_eq_Inr validate_relative_path_def list_all2_conv_all_nth in_set_conv_nth split: if_splits)
  moreover have "set (add_paths s) \<inter> set (gi_tracked_paths g) = {}"
    using d(9) by (auto simp: filter_empty_conv)
  moreover have "set (absent_paths s g) = {}" using d(10) by simp
  then have "set (scope_paths s) - set (scope_test_files s) \<subseteq> set (gi_tracked_paths g) \<union> set (add_paths s)"
    unfolding absent_paths_def by auto
  ultimately show ?thesis using d(1-5,11) derived_semantics[OF d(5), of r] free by blast
qed

theorem derived_packet_is_safe_witness:
  "derive_packet demo_env demo_packet_request (demo_source [''t.py'']) = Inr (demo_packet [''t.py''])
   \<and> validate_packet_semantics (demo_packet [''t.py'']) (demo_source [''t.py'']) = Inr ()
   \<and> scope_paths (demo_source [''t.py'']) = [''a.py'', ''t.py''] \<and> safe_relative ''a.py'' \<and> safe_relative ''t.py''"
proof -
  have derived: "derive_packet demo_env demo_packet_request (demo_source [''t.py'']) = Inr (demo_packet [''t.py''])"
    by (rule demo_derived) simp
  have paths: "scope_paths (demo_source [''t.py'']) = [''a.py'', ''t.py'']" by (simp add: scope_paths_def demo_scope)
  note safe = derived_packet_is_safe[OF derived, unfolded paths]
  have "safe_relative p" if "p \<in> set [''a.py'', ''t.py'']" for p using safe that by blast
  then have "safe_relative ''a.py''" "safe_relative ''t.py''" by simp_all
  then show ?thesis using safe derived paths by blast
qed

end
