(* ===== verification/ChangeClosure.thy ===== *)
theory ChangeClosure
  imports CanonicalJson ChangeCoverage
begin

text \<open>
  The verdict on a change (\<open>application/change_closure.py\<close>): code, tests, data, coverage and UI evidence
  of one orchestration judged together.  The artifacts are read the way the code reads them, so that a
  missing key or a value of the wrong type raises where it is read; JSON Schema validation of the verdict
  is an argument.
\<close>

section \<open>Reading artifacts\<close>

text \<open>\<open>str(v[k])\<close>, \<open>iter(v[k])\<close>, and \<open>or\<close> over tests that may raise.\<close>

definition index_text :: "pyval \<Rightarrow> string \<Rightarrow> string result" where
  "index_text v k = rbind (py_index v k) (\<lambda>w. Inr (py_str w))"

definition index_items :: "pyval \<Rightarrow> string \<Rightarrow> pyval list result" where
  "index_items v k = rbind (py_index v k) py_iter"

definition items_of :: "pyval \<Rightarrow> string \<Rightarrow> pyval list result" where
  "items_of v k = rbind (py_get_or v k (PList [])) py_iter"

definition get_str :: "pydict \<Rightarrow> string \<Rightarrow> string" where
  "get_str d k = py_str (dget d k)"

fun any_of :: "bool result list \<Rightarrow> bool result" where
  "any_of [] = Inr False"
| "any_of (r # rs) = rbind r (\<lambda>b. if b then Inr True else any_of rs)"

definition texts :: "pyval list \<Rightarrow> string list" where
  "texts vs = map py_str vs"

text \<open>A dict built by a comprehension: the last pair of a key wins.\<close>

definition dict_lookup :: "(string \<times> 'a) list \<Rightarrow> string \<Rightarrow> 'a option" where
  "dict_lookup pairs k = map_of (rev pairs) k"

record closure_input =
  cv_change_request :: pydict
  cv_orchestration :: pydict
  cv_test_plan :: pydict
  cv_test_data_plan :: pydict
  cv_coverage_report :: pydict
  cv_edit_result :: "pydict option"
  cv_test_data_result :: "pydict option"
  cv_ui_result :: "pydict option"
  cv_changed_line_coverage :: "pydict option"
  cv_ui_test_case_refs :: "(string \<times> string list) list"
  cv_verification_only :: bool
  cv_workspace_evidence_current :: bool
  cv_workspace_evidence_reason :: "string option"

section \<open>Scope\<close>

definition out_of_closure :: "bool \<Rightarrow> string \<Rightarrow> unit result" where
  "out_of_closure bad what = (if bad then Inl (ValueError what) else Inr ())"

definition refs_differ :: "pyval \<Rightarrow> (string \<times> pyval) list \<Rightarrow> bool result" where
  "refs_differ refs expected =
    any_of (map (\<lambda>(k, v). rbind (py_index refs k) (\<lambda>w. Inr (\<not> py_eq w v))) expected)"

definition coverage_in_scope :: "string \<Rightarrow> pydict option \<Rightarrow> pydict option \<Rightarrow> bool" where
  "coverage_in_scope project_id edit coverage =
    (case coverage of
       None \<Rightarrow> True
     | Some c \<Rightarrow>
        (case edit of
           None \<Rightarrow> False
         | Some e \<Rightarrow>
             get_str c ''edit_result_id'' = get_str e ''edit_result_id''
             \<and> get_str c ''project_id'' = project_id
             \<and> get_str c ''base_repository_revision'' = get_str e ''base_repository_revision''
             \<and> get_str c ''result_repository_revision''
                = py_str (py_or (dget e ''result_repository_revision'') (dget e ''base_repository_revision''))))"

definition validate_closure_scope :: "closure_input \<Rightarrow> unit result" where
  "validate_closure_scope v =
    rbind (dindex (cv_change_request v) ''change_request_id'') (\<lambda>request.
    rbind (dindex (cv_change_request v) ''project_id'') (\<lambda>project.
    let project_id = py_str project
    in rbind (out_of_closure (dget (cv_orchestration v) ''change_request_id'' \<noteq> PStr (py_str request))
         ''Closure Orchestration does not match Change Request'') (\<lambda>_.
       rbind (out_of_closure (list_ex (\<lambda>a. get_str a ''project_id'' \<noteq> project_id)
           [cv_orchestration v, cv_test_plan v, cv_test_data_plan v, cv_coverage_report v])
         ''Closure component Project identity does not match'') (\<lambda>_.
       rbind (dindex (cv_orchestration v) ''artifact_refs'') (\<lambda>refs.
       rbind (dindex (cv_test_plan v) ''test_plan_id'') (\<lambda>test_plan_id.
       rbind (dindex (cv_test_data_plan v) ''test_data_plan_id'') (\<lambda>data_plan_id.
       rbind (dindex (cv_coverage_report v) ''coverage_report_id'') (\<lambda>report_id.
       rbind (refs_differ refs [(''test_plan_id'', test_plan_id), (''test_data_plan_id'', data_plan_id),
           (''coverage_report_id'', report_id)]) (\<lambda>differ.
       rbind (out_of_closure differ ''Closure component is not bound to Orchestration'') (\<lambda>_.
       rbind (dindex (cv_test_data_plan v) ''test_plan_id'') (\<lambda>plan_of_data.
       rbind (out_of_closure (\<not> py_eq plan_of_data test_plan_id) ''Test Data Plan does not match Test Plan'') (\<lambda>_.
       rbind (dindex (cv_coverage_report v) ''test_plan_id'') (\<lambda>plan_of_report.
       rbind (out_of_closure (\<not> py_eq plan_of_report test_plan_id) ''Coverage Report does not match Test Plan'') (\<lambda>_.
       rbind (dindex (cv_orchestration v) ''analysis_case_id'') (\<lambda>case_value.
       let case_id = py_str case_value
       in rbind (out_of_closure (case cv_edit_result v of None \<Rightarrow> False
              | Some e \<Rightarrow> get_str e ''project_id'' \<noteq> project_id \<or> get_str e ''analysis_case_id'' \<noteq> case_id)
            ''Edit Result is outside Closure scope'') (\<lambda>_.
          rbind (out_of_closure (\<not> coverage_in_scope project_id (cv_edit_result v) (cv_changed_line_coverage v))
            ''Changed-line Coverage Report is outside Closure scope'') (\<lambda>_.
          rbind (out_of_closure (case cv_test_data_result v of None \<Rightarrow> False
              | Some r \<Rightarrow> get_str r ''project_id'' \<noteq> project_id
                  \<or> get_str r ''test_data_plan_id'' \<noteq> py_str data_plan_id)
            ''Test Data Result is outside Closure scope'') (\<lambda>_.
          out_of_closure (case cv_ui_result v of None \<Rightarrow> False
              | Some r \<Rightarrow> get_str r ''analysis_case_id'' \<noteq> case_id)
            ''UI Result is outside Closure scope''))))))))))))))))))"

section \<open>Evidence of the test cases\<close>

definition modified_paths :: "pydict option \<Rightarrow> string list result" where
  "modified_paths edit =
    (case edit of None \<Rightarrow> Inr []
     | Some e \<Rightarrow> rbind (index_items (PDict e) ''changed_paths'') (\<lambda>paths. Inr (sorted_set (texts paths))))"

definition case_requires_data :: "pydict \<Rightarrow> string \<Rightarrow> bool result" where
  "case_requires_data plan case_id =
    rbind (index_items (PDict plan) ''generation_flows'') (\<lambda>flows.
      any_of (map (\<lambda>flow. rbind (index_items flow ''test_case_refs'') (\<lambda>refs.
        Inr (case_id \<in> set (texts refs)))) flows))"

text \<open>The pairs of a test case and a result of one of its flows, in the order of the plan.\<close>

definition flow_results_by_case :: "pydict \<Rightarrow> pydict option \<Rightarrow> (string \<times> pyval) list result" where
  "flow_results_by_case plan result' =
    (case result' of
       None \<Rightarrow> Inr []
     | Some r \<Rightarrow>
        rbind (index_items (PDict r) ''flow_results'') (\<lambda>results.
        rbind (mapM (\<lambda>flow. rbind (index_text flow ''flow_id'') (\<lambda>i. Inr (i, flow))) results) (\<lambda>by_id.
        rbind (index_items (PDict plan) ''generation_flows'') (\<lambda>flows.
        rbind (mapM (\<lambda>flow. rbind (index_text flow ''flow_id'') (\<lambda>i.
            case dict_lookup by_id i of
              None \<Rightarrow> Inr []
            | Some flow_result \<Rightarrow> rbind (index_items flow ''test_case_refs'') (\<lambda>refs.
                Inr (map (\<lambda>c. (c, flow_result)) (texts refs))))) flows) (\<lambda>pairs. Inr (concat pairs))))))"

definition results_of_case :: "(string \<times> pyval) list \<Rightarrow> string \<Rightarrow> pyval list" where
  "results_of_case pairs case_id = map snd (filter (\<lambda>(c, _). c = case_id) pairs)"

fun add_ui_results :: "(string \<times> pyval) list \<Rightarrow> (string \<times> pyval) list \<Rightarrow> (string \<times> pyval) list result" where
  "add_ui_results collected [] = Inr collected"
| "add_ui_results collected ((case_id, item) # rest) =
    (if case_id \<in> set (map fst collected) then
       Inl (ValueError ''Multiple UI Scenarios map to the same Test case'')
     else add_ui_results (collected @ [(case_id, item)]) rest)"

definition ui_results_by_case :: "pydict option \<Rightarrow> (string \<times> string list) list \<Rightarrow> (string \<times> pyval) list result" where
  "ui_results_by_case result' mappings =
    (case result' of
       None \<Rightarrow> Inr []
     | Some r \<Rightarrow>
        rbind (index_items (PDict r) ''scenario_results'') (\<lambda>items.
        foldM (\<lambda>collected item. rbind (index_text item ''scenario_id'') (\<lambda>scenario_id.
          let refs = (case dict_lookup mappings scenario_id of None \<Rightarrow> [] | Some rs \<Rightarrow> rs)
          in add_ui_results collected (map (\<lambda>c. (c, item)) (if refs = [] then [scenario_id] else refs))))
          [] items))"

record test_result =
  ct_test_case_id :: string
  ct_status :: string
  ct_evidence_refs :: "string list"
  ct_summary :: string

text \<open>The status of the data flows of a case, and the evidence of their steps.\<close>

definition flows_status :: "string list \<Rightarrow> string" where
  "flows_status statuses =
    (if ''failed'' \<in> set statuses then ''failed''
     else if list_ex (\<lambda>s. s \<noteq> ''passed'') statuses then ''blocked'' else ''passed'')"

definition step_evidence :: "pyval \<Rightarrow> string list result" where
  "step_evidence flow =
    rbind (mapM (\<lambda>k. rbind (index_items flow k) (\<lambda>steps.
      rbind (mapM (\<lambda>step. rbind (index_items step ''evidence_refs'') (\<lambda>refs. Inr (texts refs))) steps)
        (\<lambda>refs. Inr (concat refs)))) [''step_results'', ''cleanup_results'']) (\<lambda>refs. Inr (concat refs))"

definition data_evidence :: "bool \<Rightarrow> pyval list \<Rightarrow> (string option \<times> string list) result" where
  "data_evidence required flows =
    (if \<not> required then Inr (None, [])
     else if flows = [] then Inr (Some ''blocked'', [])
     else
       rbind (mapM (\<lambda>flow. index_text flow ''status'') flows) (\<lambda>statuses.
       rbind (mapM step_evidence flows) (\<lambda>refs. Inr (Some (flows_status statuses), concat refs))))"

definition known_status :: "string \<Rightarrow> string" where
  "known_status raw = (if raw \<in> {''passed'', ''failed'', ''blocked''} then raw else ''blocked'')"

definition ui_outcome :: "pyval option \<Rightarrow> (string \<times> string list \<times> string) result" where
  "ui_outcome result' =
    (case result' of
       None \<Rightarrow> Inr (''blocked'', [], ''Required UI Scenario has no verification result.'')
     | Some r \<Rightarrow>
        rbind (index_text r ''status'') (\<lambda>raw.
        rbind (index_items r ''evidence_refs'') (\<lambda>refs.
        rbind (py_get r ''summary'') (\<lambda>summary.
          Inr (known_status raw, texts refs, py_str (py_or summary (PStr (''UI Scenario is '' @ raw @ ''.''))))))))"

definition command_outcome :: "pydict option \<Rightarrow> (string \<times> string list \<times> string) result" where
  "command_outcome edit =
    (case edit of
       None \<Rightarrow> Inr (''blocked'', [], ''Committed Edit Result test evidence is missing.'')
     | Some e \<Rightarrow>
        if get_str e ''validation_mode'' \<noteq> ''committed'' then
          Inr (''blocked'', [], ''Committed Edit Result test evidence is missing.'')
        else if \<not> truthy (dget_or e ''test_result_refs'' (PList [])) then
          Inr (''blocked'', [], ''Committed Edit Result has no command test evidence.'')
        else
          rbind (index_items (PDict e) ''test_result_refs'') (\<lambda>refs.
            if dget e ''tests_passed'' = PBool True
            then Inr (''passed'', texts refs, ''Approved deterministic command suite passed.'')
            else Inr (''failed'', texts refs, ''Approved deterministic command suite failed.'')))"

definition judge_test ::
    "pyval \<Rightarrow> pydict option \<Rightarrow> pyval list \<Rightarrow> pyval option \<Rightarrow> bool \<Rightarrow> test_result result" where
  "judge_test test_case edit flows ui_result data_required =
    rbind (index_text test_case ''test_case_id'') (\<lambda>case_id.
    rbind (index_text test_case ''level'') (\<lambda>level.
    rbind (data_evidence data_required flows) (\<lambda>(data_status, data_refs).
    rbind (if level = ''ui'' then ui_outcome ui_result else command_outcome edit) (\<lambda>(status, refs, summary).
      let bad = (case data_status of Some s \<Rightarrow> s \<in> {''failed'', ''blocked''} | None \<Rightarrow> False)
      in Inr \<lparr>ct_test_case_id = case_id,
              ct_status = (if bad then the data_status else status),
              ct_evidence_refs = sorted_set (data_refs @ refs),
              ct_summary = (if bad then ''Test data execution is '' @ the data_status @ ''.'' else summary)\<rparr>))))"

definition ui_status_of :: "pyval list \<Rightarrow> pydict option \<Rightarrow> string result" where
  "ui_status_of test_cases result' =
    rbind (any_of (map (\<lambda>t. rbind (index_text t ''level'') (\<lambda>l. Inr (l = ''ui''))) test_cases)) (\<lambda>any_ui.
    if \<not> any_ui then Inr ''not_impacted''
    else case result' of
      None \<Rightarrow> Inr ''blocked''
    | Some r \<Rightarrow> rbind (index_text (PDict r) ''status'') (\<lambda>raw. Inr (known_status raw)))"

section \<open>Coverage\<close>

definition is_covered :: "pyval \<Rightarrow> bool result" where
  "is_covered item = rbind (py_get item ''status'') (\<lambda>s. Inr (s = PStr ''covered''))"

definition coverage_ratio :: "nat \<Rightarrow> nat \<Rightarrow> rat" where
  "coverage_ratio covered number =
    (if number = 0 then 0 else round_double (round_double (of_nat covered * 100) / of_nat number))"

definition business_coverage_summary :: "text_tables \<Rightarrow> closure_input \<Rightarrow> (rat \<times> bool) result" where
  "business_coverage_summary u v =
    (let report = cv_coverage_report v
     in rbind (index_items (PDict report) ''items'') (\<lambda>items.
        rbind (mapM is_covered items) (\<lambda>flags.
        let covered = length (filter id flags); number = length items;
            percent = coverage_ratio covered number;
            expected = (if items \<noteq> [] \<and> covered = number then ''passed'' else ''failed'')
        in rbind (any_of
             [rbind (line_int (dget_or report ''business_rule_count'' (PInt (-1)))) (\<lambda>n. Inr (n \<noteq> int number)),
              rbind (line_int (dget_or report ''covered_rule_count'' (PInt (-1)))) (\<lambda>n. Inr (n \<noteq> int covered)),
              rbind (py_float u (dget_or report ''coverage_percent'' (PInt (-1)))) (\<lambda>q.
                Inr (\<bar>round_double (q - percent)\<bar> > round_double (1 / 10 ^ 9))),
              Inr (get_str report ''status'' \<noteq> expected)])
             (\<lambda>inconsistent. Inr (percent, inconsistent)))))"

definition changed_line_coverage_status :: "closure_input \<Rightarrow> string result" where
  "changed_line_coverage_status v =
    (case cv_changed_line_coverage v of None \<Rightarrow> Inr ''missing'' | Some c \<Rightarrow> index_text (PDict c) ''status'')"

definition changed_line_coverage_percent :: "text_tables \<Rightarrow> closure_input \<Rightarrow> rat result" where
  "changed_line_coverage_percent u v =
    (case cv_changed_line_coverage v of None \<Rightarrow> Inr 0
     | Some c \<Rightarrow> rbind (dindex c ''coverage_percent'') (py_float u))"

definition edit_result_status_is_accepted :: "closure_input \<Rightarrow> bool" where
  "edit_result_status_is_accepted v =
    (case cv_edit_result v of None \<Rightarrow> False
     | Some e \<Rightarrow> get_str e ''status'' = ''in_scope'' \<or> cv_verification_only v \<and> get_str e ''status'' = ''no_changes'')"

section \<open>What is left open\<close>

definition prefixed :: "string \<Rightarrow> pyval list \<Rightarrow> string list" where
  "prefixed p vs = map (\<lambda>x. p @ py_str x) vs"

definition orchestration_items :: "closure_input \<Rightarrow> string list result" where
  "orchestration_items v =
    rbind (dindex (cv_orchestration v) ''status'') (\<lambda>st.
      if st \<noteq> PStr ''ready'' then
        rbind (index_items (PDict (cv_orchestration v)) ''blocking_reasons'') (\<lambda>rs. Inr (texts rs))
      else Inr [])"

definition edit_items :: "closure_input \<Rightarrow> string list result" where
  "edit_items v =
    (case cv_edit_result v of
       None \<Rightarrow> Inr [''Committed Edit Result is missing'']
     | Some e \<Rightarrow>
        rbind (items_of (PDict e) ''out_of_scope_files'') (\<lambda>paths.
          Inr ((if dget e ''validation_mode'' \<noteq> PStr ''committed'' then [''Edit Result is not committed''] else [])
            @ (if \<not> edit_result_status_is_accepted v then [''Edit Result is not in scope''] else [])
            @ (if dget e ''command_evidence_status'' \<noteq> PStr ''verified''
               then [''Edit Result command evidence is not verified''] else [])
            @ prefixed ''Out-of-scope file: '' paths)))"

definition workspace_items :: "closure_input \<Rightarrow> string list" where
  "workspace_items v =
    (if cv_workspace_evidence_current v then []
     else [case cv_workspace_evidence_reason v of
         None \<Rightarrow> ''Code workspace no longer matches committed Edit Result''
       | Some r \<Rightarrow> if r = [] then ''Code workspace no longer matches committed Edit Result'' else r])"

definition changed_line_items :: "closure_input \<Rightarrow> string list result" where
  "changed_line_items v =
    (case cv_changed_line_coverage v of
       None \<Rightarrow> Inr [''Changed-line coverage evidence is missing'']
     | Some c \<Rightarrow>
        rbind (rbind (dindex c ''status'') (\<lambda>st. in_set st [''missing'', ''failed''])) (\<lambda>open'.
          if open' then rbind (items_of (PDict c) ''blocking_reasons'') (\<lambda>rs. Inr (texts rs)) else Inr []))"

definition data_items :: "closure_input \<Rightarrow> string list result" where
  "data_items v =
    rbind (dindex (cv_test_data_plan v) ''status'') (\<lambda>st.
    rbind (if st = PStr ''ready''
        then rbind (dindex (cv_test_data_plan v) ''generation_flows'') (\<lambda>flows.
          Inr (truthy flows \<and> cv_test_data_result v = None)) else Inr False) (\<lambda>missing.
    rbind (case cv_test_data_result v of None \<Rightarrow> Inr False
        | Some r \<Rightarrow> rbind (dindex r ''cleanup_status'') (\<lambda>c. in_set c [''failed'', ''interrupted''])) (\<lambda>dirty.
      Inr ((if missing then [''Test Data Execution Result is missing''] else [])
        @ (if dirty then [''Test data cleanup failed''] else [])))))"

definition rule_items :: "closure_input \<Rightarrow> string list result" where
  "rule_items v =
    rbind (index_items (PDict (cv_coverage_report v)) ''items'') (\<lambda>items.
    rbind (mapM (\<lambda>item. rbind (py_index item ''status'') (\<lambda>st.
        if st \<noteq> PStr ''covered'' then
          rbind (index_text item ''business_rule_id'') (\<lambda>i. Inr [''Uncovered business rule: '' @ i])
        else Inr [])) items) (\<lambda>open'. Inr (concat open')))"

definition ui_items :: "closure_input \<Rightarrow> string list result" where
  "ui_items v =
    (case cv_ui_result v of
       None \<Rightarrow> Inr []
     | Some r \<Rightarrow>
        rbind (index_items (PDict r) ''unresolved_impact_item_ids'') (\<lambda>items.
        rbind (index_items (PDict r) ''out_of_scope_files'') (\<lambda>paths.
        rbind (items_of (PDict r) ''failure_reasons'') (\<lambda>reasons.
          Inr (prefixed ''Unresolved impact item: '' items @ prefixed ''UI out-of-scope file: '' paths
            @ texts reasons)))))"

definition unresolved_items :: "text_tables \<Rightarrow> closure_input \<Rightarrow> test_result list \<Rightarrow> string \<Rightarrow> string list result" where
  "unresolved_items u v results ui =
    rbind (orchestration_items v) (\<lambda>a.
    rbind (edit_items v) (\<lambda>b.
    rbind (changed_line_items v) (\<lambda>c.
    rbind (data_items v) (\<lambda>d.
    rbind (business_coverage_summary u v) (\<lambda>(percent, inconsistent).
    rbind (rule_items v) (\<lambda>e.
    let before = a @ b @ workspace_items v @ c @ d @ e
          @ (if inconsistent then [''Business Coverage Report summary is inconsistent''] else [])
    in rbind (ui_items v) (\<lambda>f.
       Inr (sorted_set (before
         @ (if percent < 100 \<and> \<not> list_ex (starts_with ''Uncovered business rule:'') before
            then [''Business Coverage Report has no covered business rules''] else [])
         @ map (\<lambda>r. ''Test case '' @ ct_test_case_id r @ '' is '' @ ct_status r)
             (filter (\<lambda>r. ct_status r \<noteq> ''passed'') results)
         @ (if ui = ''blocked'' then [''UI verification is blocked or missing''] else [])
         @ f)))))))))"

section \<open>The verdict\<close>

definition edit_left_scope :: "closure_input \<Rightarrow> bool" where
  "edit_left_scope v =
    (case cv_edit_result v of None \<Rightarrow> False
     | Some e \<Rightarrow> dget e ''status'' = PStr ''out_of_scope'' \<or> truthy (dget_or e ''out_of_scope_files'' (PList [])))"

definition ui_left_scope :: "closure_input \<Rightarrow> bool result" where
  "ui_left_scope v =
    (case cv_ui_result v of None \<Rightarrow> Inr False
     | Some r \<Rightarrow> any_of
        [rbind (dindex r ''status'') (\<lambda>s. Inr (s = PStr ''reanalysis_required'')),
         rbind (dindex r ''unresolved_impact_item_ids'') (\<lambda>x. Inr (truthy x)),
         rbind (dindex r ''out_of_scope_files'') (\<lambda>x. Inr (truthy x))])"

text \<open>The tests of the second \<open>if\<close>, in order; those on the edit result are only reached with one.\<close>

definition blocking_tests ::
    "closure_input \<Rightarrow> test_result list \<Rightarrow> string \<Rightarrow> rat \<Rightarrow> bool \<Rightarrow> bool result list" where
  "blocking_tests v results ui percent inconsistent =
    [rbind (dindex (cv_orchestration v) ''status'') (\<lambda>s. Inr (s \<noteq> PStr ''ready'')),
     Inr (cv_edit_result v = None), Inr (\<not> cv_workspace_evidence_current v),
     Inr (dget (opt_dict (cv_edit_result v)) ''validation_mode'' \<noteq> PStr ''committed''),
     Inr (dget (opt_dict (cv_edit_result v)) ''command_evidence_status'' \<noteq> PStr ''verified''),
     rbind (changed_line_coverage_status v) (\<lambda>s. Inr (s \<in> {''missing'', ''failed''})),
     Inr (percent < 100), Inr inconsistent,
     (if cv_test_data_result v = None
      then rbind (dindex (cv_test_data_plan v) ''generation_flows'') (\<lambda>flows. Inr (truthy flows)) else Inr False),
     Inr (list_ex (\<lambda>r. ct_status r = ''blocked'') results), Inr (ui = ''blocked'')]"

definition failing_tests :: "closure_input \<Rightarrow> test_result list \<Rightarrow> string \<Rightarrow> bool result list" where
  "failing_tests v results ui =
    [Inr (\<not> edit_result_status_is_accepted v),
     Inr (dget (opt_dict (cv_edit_result v)) ''tests_passed'' \<noteq> PBool True),
     (case cv_test_data_result v of None \<Rightarrow> Inr False
      | Some r \<Rightarrow> rbind (dindex r ''status'') (\<lambda>s. Inr (s \<noteq> PStr ''passed''))),
     (case cv_test_data_result v of None \<Rightarrow> Inr False
      | Some r \<Rightarrow> rbind (dindex r ''cleanup_status'') (\<lambda>s. Inr (s = PStr ''failed''))),
     Inr (list_ex (\<lambda>r. ct_status r = ''failed'') results), Inr (ui = ''failed'')]"

definition closure_status ::
    "text_tables \<Rightarrow> closure_input \<Rightarrow> test_result list \<Rightarrow> string \<Rightarrow> string list \<Rightarrow> string result" where
  "closure_status u v results ui unresolved =
    rbind (business_coverage_summary u v) (\<lambda>(percent, inconsistent).
    if edit_left_scope v then Inr ''reanalysis_required''
    else
      rbind (ui_left_scope v) (\<lambda>left.
      if left then Inr ''reanalysis_required''
      else
        rbind (any_of (blocking_tests v results ui percent inconsistent)) (\<lambda>blocked.
        if blocked then Inr ''blocked''
        else
          rbind (any_of (failing_tests v results ui)) (\<lambda>failed.
          if failed then Inr ''failed''
          else Inr (if unresolved = [] then ''passed'' else ''blocked'')))))"

section \<open>Traceability of the data\<close>

definition component_refs :: "closure_input \<Rightarrow> string list result" where
  "component_refs v =
    rbind (dindex (cv_orchestration v) ''artifact_refs'') (\<lambda>refs.
    rbind (mapM (\<lambda>(d, k). index_text d k)
      [(PDict (cv_orchestration v), ''orchestration_id''), (refs, ''acceptance_criteria_id''),
       (PDict (cv_test_plan v), ''test_plan_id''), (PDict (cv_test_data_plan v), ''test_data_plan_id''),
       (PDict (cv_coverage_report v), ''coverage_report_id'')]) (\<lambda>ids.
    rbind (mapM (\<lambda>(d, k). case d of None \<Rightarrow> Inr [] | Some a \<Rightarrow> rbind (index_text (PDict a) k) (\<lambda>i. Inr [i]))
      [(cv_edit_result v, ''edit_result_id''), (cv_test_data_result v, ''execution_result_id''),
       (cv_ui_result v, ''verification_result_id'')]) (\<lambda>more_ids.
      Inr (sorted_set (ids @ concat more_ids)))))"

definition keyed :: "string \<Rightarrow> pyval list \<Rightarrow> (string \<times> pyval) list result" where
  "keyed k vs = mapM (\<lambda>w. rbind (index_text w k) (\<lambda>i. Inr (i, w))) vs"

text \<open>\<open>[x for v in values if test(v)]\<close>.\<close>

fun filterM :: "('a \<Rightarrow> bool result) \<Rightarrow> 'a list \<Rightarrow> 'a list result" where
  "filterM p [] = Inr []"
| "filterM p (x # xs) = rbind (p x) (\<lambda>b. rbind (filterM p xs) (\<lambda>ys. Inr (if b then x # ys else ys)))"

definition concatM :: "('a \<Rightarrow> 'b list result) \<Rightarrow> 'a list \<Rightarrow> 'b list result" where
  "concatM f xs = rbind (mapM f xs) (\<lambda>yss. Inr (concat yss))"

definition uses_data :: "string \<Rightarrow> pyval \<Rightarrow> bool result" where
  "uses_data test_data_id flow =
    rbind (index_items flow ''test_data_refs'') (\<lambda>refs. Inr (test_data_id \<in> set (texts refs)))"

definition bound_to :: "string \<Rightarrow> pyval \<Rightarrow> bool result" where
  "bound_to test_data_id step = rbind (py_get step ''data_binding_ref'') (\<lambda>b. Inr (b = PStr test_data_id))"

definition ui_steps_of :: "string \<Rightarrow> pyval list \<Rightarrow> string list result" where
  "ui_steps_of test_data_id flows =
    concatM (\<lambda>flow. rbind (index_items flow ''steps'') (concatM (\<lambda>step.
      rbind (py_get step ''channel'') (\<lambda>channel.
        if channel \<noteq> PStr ''ui'' then Inr []
        else rbind (bound_to test_data_id step) (\<lambda>b.
          if \<not> b then Inr [] else rbind (index_text step ''step_id'') (\<lambda>i. Inr [i])))))) flows"

definition assertions_of :: "string \<Rightarrow> pyval list \<Rightarrow> string list result" where
  "assertions_of test_data_id flows =
    concatM (\<lambda>flow.
      rbind (index_items flow ''steps'') (\<lambda>steps.
      rbind (index_items flow ''cleanup_steps'') (\<lambda>cleanup.
        concatM (\<lambda>step. rbind (bound_to test_data_id step) (\<lambda>b.
          if \<not> b then Inr []
          else rbind (index_items step ''postconditions'') (mapM (\<lambda>a. index_text a ''assertion_id''))))
          (steps @ cleanup)))) flows"

definition cleanup_results_of :: "string \<Rightarrow> (string \<times> pyval) list \<Rightarrow> pyval list \<Rightarrow> pyval list result" where
  "cleanup_results_of binding_id flow_results flows =
    concatM (\<lambda>flow.
      rbind (index_text flow ''flow_id'') (\<lambda>flow_id.
      rbind (items_of (case dict_lookup flow_results flow_id of None \<Rightarrow> PDict [] | Some r \<Rightarrow> r) ''cleanup_results'')
        (filterM (\<lambda>step. rbind (items_of step ''test_data_binding_refs'') (\<lambda>refs.
          Inr (binding_id \<in> set (texts refs))))))) flows"

definition cleanup_status_of :: "pyval list \<Rightarrow> string result" where
  "cleanup_status_of results =
    (if results = [] then Inr ''not_required''
     else rbind (any_of (map (\<lambda>step. rbind (py_get step ''status'') (\<lambda>s. Inr (s \<noteq> PStr ''passed''))) results)) (\<lambda>bad.
       Inr (if bad then ''failed'' else ''passed'')))"

definition screenshots_of :: "string \<Rightarrow> pyval list \<Rightarrow> string list result" where
  "screenshots_of binding_id evidence =
    rbind (concatM (\<lambda>item.
      rbind (py_get item ''evidence_type'') (\<lambda>ty.
      rbind (py_get item ''test_data_binding_ref'') (\<lambda>ref.
        if ty = PStr ''screenshot'' \<and> ref = PStr binding_id
        then rbind (index_text item ''evidence_ref'') (\<lambda>i. Inr [i]) else Inr []))) evidence) (\<lambda>refs.
      Inr (sort refs))"

definition data_trace ::
    "string \<Rightarrow> pyval \<Rightarrow> string \<Rightarrow> string list \<Rightarrow> string list \<Rightarrow> string list \<Rightarrow> string \<Rightarrow> pyval
     \<Rightarrow> ((string \<times> string \<times> string) \<times> pyval) result" where
  "data_trace test_data_id binding binding_id ui_steps assertions screenshots cleanup condition =
    rbind (index_text condition ''criterion_ref'') (\<lambda>criterion.
    rbind (index_text condition ''test_case_ref'') (\<lambda>test_case.
    rbind (py_index binding ''identity_provider_type'') (\<lambda>provider.
    rbind (py_index binding ''business_unique_keys'') (\<lambda>business.
      Inr ((criterion, test_case, test_data_id), PDict
        [(''criterion_ref'', PStr criterion), (''test_case_ref'', PStr test_case),
         (''test_data_id'', PStr test_data_id), (''ui_step_refs'', PStrs ui_steps),
         (''test_data_binding_ref'', PStr binding_id), (''provider_type'', provider),
         (''business_values'', business), (''assertion_refs'', PStrs assertions),
         (''screenshot_evidence_refs'', PStrs screenshots), (''cleanup_status'', PStr cleanup)])))))"

definition data_set_traces ::
    "pydict \<Rightarrow> (string \<times> pyval) list \<Rightarrow> (string \<times> pyval) list \<Rightarrow> pyval list \<Rightarrow> pyval
     \<Rightarrow> ((string \<times> string \<times> string) \<times> pyval) list result" where
  "data_set_traces plan bindings flow_results evidence data_set =
    rbind (index_text data_set ''test_data_id'') (\<lambda>test_data_id.
    case dict_lookup bindings test_data_id of
      None \<Rightarrow> Inr []
    | Some binding \<Rightarrow>
        rbind (index_text binding ''binding_id'') (\<lambda>binding_id.
        rbind (rbind (index_items (PDict plan) ''generation_flows'') (filterM (uses_data test_data_id))) (\<lambda>flows.
        rbind (ui_steps_of test_data_id flows) (\<lambda>ui_steps.
        rbind (assertions_of test_data_id flows) (\<lambda>assertions.
        rbind (rbind (cleanup_results_of binding_id flow_results flows) cleanup_status_of) (\<lambda>cleanup.
        rbind (screenshots_of binding_id evidence) (\<lambda>screenshots.
        rbind (items_of data_set ''coverage_conditions'') (mapM (data_trace test_data_id binding binding_id
          (sorted_set ui_steps) (sorted_set assertions) screenshots cleanup)))))))))"

definition is_v3 :: "pydict option \<Rightarrow> bool" where
  "is_v3 result' = (case result' of None \<Rightarrow> False | Some r \<Rightarrow> dget r ''schema_version'' = PStr ''v3'')"

definition data_traceability :: "closure_input \<Rightarrow> pyval list result" where
  "data_traceability v =
    (if \<not> is_v3 (cv_test_data_result v) then Inr []
     else
       let r = PDict (opt_dict (cv_test_data_result v))
       in rbind (rbind (items_of r ''data_bindings'') (keyed ''test_data_id'')) (\<lambda>bindings.
          rbind (rbind (items_of r ''flow_results'') (keyed ''flow_id'')) (\<lambda>flow_results.
          rbind (items_of r ''evidence'') (\<lambda>evidence.
          rbind (index_items (PDict (cv_test_data_plan v)) ''data_sets'') (\<lambda>data_sets.
          rbind (concatM (data_set_traces (cv_test_data_plan v) bindings flow_results evidence) data_sets) (\<lambda>traces.
            Inr (map snd (sort_key fst traces))))))))"

section \<open>The closure artifact\<close>

record closure_judgement =
  cl_component_refs :: "string list"
  cl_modified_paths :: "string list"
  cl_test_results :: "test_result list"
  cl_ui_status :: string
  cl_coverage_percent :: rat
  cl_status :: string
  cl_unresolved :: "string list"
  cl_traces :: "pyval list"

definition judge_tests :: "closure_input \<Rightarrow> pyval list \<Rightarrow> test_result list result" where
  "judge_tests v test_cases =
    rbind (flow_results_by_case (cv_test_data_plan v) (cv_test_data_result v)) (\<lambda>flows.
    rbind (ui_results_by_case (cv_ui_result v) (cv_ui_test_case_refs v)) (\<lambda>uis.
    mapM (\<lambda>test_case.
      rbind (index_text test_case ''test_case_id'') (\<lambda>case_id.
      rbind (case_requires_data (cv_test_data_plan v) case_id) (\<lambda>required.
        judge_test test_case (cv_edit_result v) (results_of_case flows case_id) (map_of uis case_id) required)))
      test_cases))"

definition traceability_missing :: "closure_input \<Rightarrow> pyval list \<Rightarrow> bool" where
  "traceability_missing v traces \<longleftrightarrow>
    is_v3 (cv_test_data_result v) \<and> dget (opt_dict (cv_test_data_result v)) ''status'' = PStr ''passed'' \<and> traces = []"

definition judge_closure :: "text_tables \<Rightarrow> closure_input \<Rightarrow> closure_judgement result" where
  "judge_closure u v =
    rbind (validate_closure_scope v) (\<lambda>_.
    rbind (index_items (PDict (cv_test_plan v)) ''test_cases'') (\<lambda>test_cases.
    rbind (judge_tests v test_cases) (\<lambda>results.
    rbind (ui_status_of test_cases (cv_ui_result v)) (\<lambda>ui.
    rbind (business_coverage_summary u v) (\<lambda>(percent, _).
    rbind (unresolved_items u v results ui) (\<lambda>unresolved.
    rbind (closure_status u v results ui unresolved) (\<lambda>status'.
    rbind (component_refs v) (\<lambda>refs.
    rbind (data_traceability v) (\<lambda>traces.
    if traceability_missing v traces then Inl (ValueError ''v3 Closure requires TestDataBinding traceability'')
    else rbind (modified_paths (cv_edit_result v)) (\<lambda>paths.
      Inr \<lparr>cl_component_refs = refs, cl_modified_paths = paths, cl_test_results = results, cl_ui_status = ui,
           cl_coverage_percent = percent, cl_status = status', cl_unresolved = unresolved, cl_traces = traces\<rparr>))))))))))"

definition test_result_dict :: "test_result \<Rightarrow> pyval" where
  "test_result_dict r = PDict
    [(''test_case_id'', PStr (ct_test_case_id r)), (''status'', PStr (ct_status r)),
     (''evidence_refs'', PStrs (ct_evidence_refs r)), (''summary'', PStr (ct_summary r))]"

definition closure_result_id :: "pyval \<Rightarrow> rat \<Rightarrow> string \<Rightarrow> closure_judgement \<Rightarrow> string" where
  "closure_result_id orchestration_id line_percent line_status j =
    ''closure-'' @ take 24 (sha256_hex (json_dumps (PDict
      [(''orchestration_id'', orchestration_id), (''component_refs'', PStrs (cl_component_refs j)),
       (''modified_paths'', PStrs (cl_modified_paths j)),
       (''test_results'', PList (map test_result_dict (cl_test_results j))),
       (''ui_status'', PStr (cl_ui_status j)), (''coverage'', PFloat (cl_coverage_percent j)),
       (''changed_line_coverage'', PFloat line_percent), (''changed_line_coverage_status'', PStr line_status),
       (''status'', PStr (cl_status j)), (''unresolved'', PStrs (cl_unresolved j)),
       (''data_traceability'', PList (cl_traces j))])))"

definition closure_artifact :: "text_tables \<Rightarrow> closure_input \<Rightarrow> closure_judgement \<Rightarrow> pydict result" where
  "closure_artifact u v j =
    rbind (dindex (cv_orchestration v) ''orchestration_id'') (\<lambda>orchestration_id.
    rbind (changed_line_coverage_percent u v) (\<lambda>line_percent.
    rbind (changed_line_coverage_status v) (\<lambda>line_status.
    rbind (dindex (cv_change_request v) ''change_request_id'') (\<lambda>request.
    rbind (dindex (cv_change_request v) ''project_id'') (\<lambda>project.
    rbind (dindex (cv_change_request v) ''input_mode'') (\<lambda>mode.
    rbind (index_items (PDict (cv_orchestration v)) ''structured_change_refs'') (\<lambda>changes.
    let v3 = is_v3 (cv_test_data_result v)
    in Inr ([(''artifact_type'', PStr ''ChangeClosureResult''), (''schema_version'', PStr (if v3 then ''v3'' else ''v2'')),
        (''closure_result_id'', PStr (closure_result_id orchestration_id line_percent line_status j)),
        (''change_request_id'', request), (''project_id'', project), (''input_mode'', mode),
        (''artifact_refs'', PStrs (cl_component_refs j)), (''structured_change_refs'', PStrs (sort (texts changes))),
        (''modified_paths'', PStrs (cl_modified_paths j)),
        (''test_results'', PList (map test_result_dict (cl_test_results j))),
        (''ui_status'', PStr (cl_ui_status j)), (''business_coverage_percent'', PFloat (cl_coverage_percent j)),
        (''changed_line_coverage_percent'', PFloat line_percent),
        (''changed_line_coverage_status'', PStr line_status), (''status'', PStr (cl_status j)),
        (''unresolved_items'', PStrs (cl_unresolved j))]
       @ (if v3 then [(''data_traceability'', PList (cl_traces j))] else [])))))))))"

definition evaluate_closure ::
    "(pydict \<Rightarrow> unit result) \<Rightarrow> text_tables \<Rightarrow> closure_input \<Rightarrow> pydict result" where
  "evaluate_closure validate_artifact u v =
    rbind (judge_closure u v) (\<lambda>j.
    rbind (closure_artifact u v j) (\<lambda>artifact.
    rbind (validate_artifact artifact) (\<lambda>_. Inr artifact)))"

section \<open>What a verdict rests on\<close>

lemma any_of_False: "any_of rs = Inr False \<longleftrightarrow> (\<forall>r\<in>set rs. r = Inr False)"
  by (induction rs) (auto simp: rbind_eq_Inr split: if_splits)

lemma any_of_True: "any_of rs = Inr True \<Longrightarrow> Inr True \<in> set rs"
  by (induction rs) (auto simp: rbind_eq_Inr split: if_splits)

lemma any_of_decided:
  assumes "any_of rs = Inr b" "\<And>c. Inr c \<in> set rs \<Longrightarrow> \<not> c"
  shows "\<not> b"
  using any_of_True[of rs] assms by (cases b) auto

lemma empty_items: "\<not> truthy v \<Longrightarrow> py_iter v = Inr xs \<Longrightarrow> xs = []"
  by (cases v) auto

lemma filterM_set: "filterM p xs = Inr ys \<Longrightarrow> set ys = {x \<in> set xs. p x = Inr True}"
  by (induction xs arbitrary: ys) (auto simp: rbind_eq_Inr split: if_splits)

text \<open>The five kinds of evidence, as predicates of what was read.\<close>

definition edit_evidence :: "closure_input \<Rightarrow> bool" where
  "edit_evidence v \<longleftrightarrow>
    (\<exists>e. cv_edit_result v = Some e \<and> dget e ''validation_mode'' = PStr ''committed''
      \<and> dget e ''command_evidence_status'' = PStr ''verified'' \<and> dget e ''tests_passed'' = PBool True
      \<and> (get_str e ''status'' = ''in_scope'' \<or> cv_verification_only v \<and> get_str e ''status'' = ''no_changes'')
      \<and> \<not> truthy (dget_or e ''out_of_scope_files'' (PList [])))"

definition line_evidence :: "closure_input \<Rightarrow> bool" where
  "line_evidence v \<longleftrightarrow>
    (\<exists>c st. cv_changed_line_coverage v = Some c \<and> dindex c ''status'' = Inr st \<and> py_str st \<notin> {''missing'', ''failed''})"

definition rule_evidence :: "text_tables \<Rightarrow> closure_input \<Rightarrow> bool" where
  "rule_evidence u v \<longleftrightarrow>
    (\<exists>items percent. index_items (PDict (cv_coverage_report v)) ''items'' = Inr items \<and> items \<noteq> []
      \<and> (\<forall>item\<in>set items. py_index item ''status'' = Inr (PStr ''covered''))
      \<and> business_coverage_summary u v = Inr (percent, False) \<and> 100 \<le> percent)"

definition data_result_evidence :: "closure_input \<Rightarrow> bool" where
  "data_result_evidence v \<longleftrightarrow>
    (case cv_test_data_result v of
       None \<Rightarrow> (\<exists>flows. dindex (cv_test_data_plan v) ''generation_flows'' = Inr flows \<and> \<not> truthy flows)
     | Some r \<Rightarrow> dindex r ''status'' = Inr (PStr ''passed'')
         \<and> dget r ''cleanup_status'' \<notin> {PStr ''failed'', PStr ''interrupted''})"

definition ui_evidence :: "closure_input \<Rightarrow> bool" where
  "ui_evidence v \<longleftrightarrow>
    (case cv_ui_result v of None \<Rightarrow> True
     | Some r \<Rightarrow> dget r ''status'' \<noteq> PStr ''reanalysis_required'' \<and> items_of (PDict r) ''failure_reasons'' = Inr []
         \<and> \<not> truthy (dget r ''unresolved_impact_item_ids'') \<and> \<not> truthy (dget r ''out_of_scope_files''))"

lemma dindex_dget: "dindex d k = Inr v \<Longrightarrow> dget d k = v"
  by (auto simp: dindex_def dget_def split: option.splits)

lemma known_status_range: "known_status s \<in> {''passed'', ''failed'', ''blocked''}"
  by (simp add: known_status_def)

lemma ui_status_range: "ui_status_of cases r = Inr s \<Longrightarrow> s \<in> {''not_impacted'', ''passed'', ''failed'', ''blocked''}"
  using known_status_range by (fastforce simp: ui_status_of_def rbind_eq_Inr split: if_splits option.splits)

lemma texts_Nil [simp]: "texts vs = [] \<longleftrightarrow> vs = []"
  by (simp add: texts_def)

lemma prefixed_Nil [simp]: "prefixed p vs = [] \<longleftrightarrow> vs = []"
  by (simp add: prefixed_def)

lemma concat_mapM_Nil:
  "(\<exists>ys. mapM f xs = Inr ys \<and> concat ys = []) \<longleftrightarrow> (\<forall>x\<in>set xs. f x = Inr [])"
proof (induction xs)
  case (Cons x xs)
  have "(\<exists>ys. mapM f (x # xs) = Inr ys \<and> concat ys = [])
      \<longleftrightarrow> (\<exists>y zs. f x = Inr y \<and> mapM f xs = Inr zs \<and> y = [] \<and> concat zs = [])"
    by (auto simp: rbind_eq_Inr)
  also have "\<dots> \<longleftrightarrow> f x = Inr [] \<and> (\<exists>zs. mapM f xs = Inr zs \<and> concat zs = [])" by blast
  finally show ?case using Cons.IH by simp
qed simp

lemma rule_items_Nil:
  "rule_items v = Inr [] \<longleftrightarrow> (\<exists>items. index_items (PDict (cv_coverage_report v)) ''items'' = Inr items
     \<and> (\<forall>item\<in>set items. py_index item ''status'' = Inr (PStr ''covered'')))"
proof -
  let ?f = "\<lambda>item. rbind (py_index item ''status'') (\<lambda>st. if st \<noteq> PStr ''covered'' then
        rbind (index_text item ''business_rule_id'') (\<lambda>i. Inr [''Uncovered business rule: '' @ i]) else Inr [])"
  have "?f item = Inr [] \<longleftrightarrow> py_index item ''status'' = Inr (PStr ''covered'')" for item
    by (auto simp: rbind_eq_Inr split: if_splits)
  then have each: "(\<exists>open'. mapM ?f items = Inr open' \<and> concat open' = [])
      \<longleftrightarrow> (\<forall>item\<in>set items. py_index item ''status'' = Inr (PStr ''covered''))" for items
    using concat_mapM_Nil[of ?f items] by simp
  have "rule_items v = Inr [] \<longleftrightarrow> (\<exists>items. index_items (PDict (cv_coverage_report v)) ''items'' = Inr items
      \<and> (\<exists>open'. mapM ?f items = Inr open' \<and> concat open' = []))"
    unfolding rule_items_def rbind_eq_Inr by blast
  then show ?thesis unfolding each .
qed

lemma unresolved_Nil:
  "unresolved_items u v results ui = Inr [] \<longleftrightarrow>
     orchestration_items v = Inr [] \<and> edit_items v = Inr [] \<and> workspace_items v = [] \<and> changed_line_items v = Inr []
     \<and> data_items v = Inr [] \<and> rule_items v = Inr [] \<and> ui_items v = Inr []
     \<and> (\<exists>percent. business_coverage_summary u v = Inr (percent, False) \<and> 100 \<le> percent)
     \<and> (\<forall>r\<in>set results. ct_status r = ''passed'') \<and> ui \<noteq> ''blocked''"
  unfolding unresolved_items_def
  by (auto simp: rbind_eq_Inr Let_def filter_empty_conv not_less split: if_splits prod.splits) blast

lemma passed_status:
  assumes "closure_status u v results ui unresolved = Inr s" "business_coverage_summary u v = Inr (percent, inconsistent)"
  shows "s = ''passed'' \<longleftrightarrow> \<not> edit_left_scope v \<and> ui_left_scope v = Inr False
    \<and> any_of (blocking_tests v results ui percent inconsistent) = Inr False
    \<and> any_of (failing_tests v results ui) = Inr False \<and> unresolved = []"
  using assms by (auto simp: closure_status_def rbind_eq_Inr split: if_splits)

lemma line_evidence_items:
  "changed_line_items v = Inr [] \<Longrightarrow> changed_line_coverage_status v = Inr s \<Longrightarrow> s \<notin> {''missing'', ''failed''}
    \<Longrightarrow> line_evidence v"
  by (auto simp: changed_line_items_def changed_line_coverage_status_def line_evidence_def index_text_def
    rbind_eq_Inr split: option.splits)

lemma line_evidence_status: "line_evidence v \<Longrightarrow> changed_line_coverage_status v = Inr s \<Longrightarrow> s \<notin> {''missing'', ''failed''}"
  by (auto simp: line_evidence_def changed_line_coverage_status_def index_text_def rbind_eq_Inr)

lemma line_evidence_no_items: "line_evidence v \<Longrightarrow> changed_line_items v = Inr xs \<Longrightarrow> xs = []"
  by (auto simp: line_evidence_def changed_line_items_def rbind_eq_Inr in_set_eq_Inr split: if_splits)

lemma passed_status_decided:
  assumes "closure_status u v results ui unresolved = Inr s" "business_coverage_summary u v = Inr (percent, inconsistent)"
    and "\<not> edit_left_scope v" "ui_left_scope v \<noteq> Inr True"
    and "Inr True \<notin> set (blocking_tests v results ui percent inconsistent)" "Inr True \<notin> set (failing_tests v results ui)"
    and "unresolved = []"
  shows "s = ''passed''"
proof -
  have "any_of (blocking_tests v results ui percent inconsistent) \<noteq> Inr True" "any_of (failing_tests v results ui) \<noteq> Inr True"
    using any_of_True assms(5,6) by blast+
  then show ?thesis using assms(1-4,7) by (auto simp: closure_status_def rbind_eq_Inr split: if_splits)
qed

lemma no_blocking_tests:
  assumes "any_of (blocking_tests v results ui percent inconsistent) = Inr False"
  shows "rbind (dindex (cv_orchestration v) ''status'') (\<lambda>s. Inr (s \<noteq> PStr ''ready'')) = Inr False"
    "\<exists>e. cv_edit_result v = Some e \<and> dget e ''validation_mode'' = PStr ''committed''
      \<and> dget e ''command_evidence_status'' = PStr ''verified''"
    "cv_workspace_evidence_current v" "\<exists>s. changed_line_coverage_status v = Inr s \<and> s \<notin> {''missing'', ''failed''}"
    "cv_test_data_result v = None \<Longrightarrow> (\<exists>flows. dindex (cv_test_data_plan v) ''generation_flows'' = Inr flows \<and> \<not> truthy flows)"
    "ui \<noteq> ''blocked''"
  using assms unfolding any_of_False blocking_tests_def by (simp_all add: rbind_eq_Inr) auto

lemma no_failing_tests:
  assumes "any_of (failing_tests v results ui) = Inr False"
  shows "edit_result_status_is_accepted v" "dget (opt_dict (cv_edit_result v)) ''tests_passed'' = PBool True"
    "cv_test_data_result v = Some r \<Longrightarrow> dindex r ''status'' = Inr (PStr ''passed'') \<and> dget r ''cleanup_status'' \<noteq> PStr ''failed''"
    "ui \<noteq> ''failed''"
  using assms unfolding any_of_False failing_tests_def by (auto simp: rbind_eq_Inr dest: dindex_dget)

text \<open>Everything a passed closure has, of an input and of the judgement of its tests.\<close>

definition closure_complete :: "text_tables \<Rightarrow> closure_input \<Rightarrow> test_result list \<Rightarrow> string \<Rightarrow> bool" where
  "closure_complete u v results ui \<longleftrightarrow>
    dget (cv_orchestration v) ''status'' = PStr ''ready'' \<and> edit_evidence v \<and> cv_workspace_evidence_current v
    \<and> line_evidence v \<and> rule_evidence u v \<and> data_result_evidence v \<and> ui_evidence v
    \<and> (\<forall>r\<in>set results. ct_status r = ''passed'') \<and> ui \<in> {''passed'', ''not_impacted''}"

lemma complete_when_passed:
  assumes "closure_status u v results ui [] = Inr ''passed''" "unresolved_items u v results ui = Inr []"
    and "ui \<in> {''not_impacted'', ''passed'', ''failed'', ''blocked''}"
  shows "closure_complete u v results ui"
proof -
  obtain percent where business: "business_coverage_summary u v = Inr (percent, False)" "100 \<le> percent"
    and items: "orchestration_items v = Inr []" "changed_line_items v = Inr []" "data_items v = Inr []"
      "rule_items v = Inr []" "ui_items v = Inr []" "\<forall>r\<in>set results. ct_status r = ''passed''"
    using assms(2) unfolding unresolved_Nil by blast
  have tests: "\<not> edit_left_scope v" "ui_left_scope v = Inr False"
      "any_of (blocking_tests v results ui percent False) = Inr False" "any_of (failing_tests v results ui) = Inr False"
    using passed_status[OF assms(1) business(1)] by blast+
  note blocking = no_blocking_tests[OF tests(3)] and failing = no_failing_tests[OF tests(4)]
  have ready: "dget (cv_orchestration v) ''status'' = PStr ''ready''"
    using blocking(1) by (auto simp: rbind_eq_Inr dest: dindex_dget)
  have edit: "edit_evidence v"
    using tests(1) blocking(2) failing(1,2)
    by (auto simp: edit_evidence_def edit_left_scope_def edit_result_status_is_accepted_def)
  obtain st where "changed_line_coverage_status v = Inr st" "st \<notin> {''missing'', ''failed''}"
    using blocking(4) by blast
  then have line: "line_evidence v" by (rule line_evidence_items[OF items(2)])
  obtain rules where rules: "index_items (PDict (cv_coverage_report v)) ''items'' = Inr rules"
      "\<forall>item\<in>set rules. py_index item ''status'' = Inr (PStr ''covered'')"
    using items(4) unfolding rule_items_Nil by blast
  have "rules \<noteq> []"
    using business rules(1) by (auto simp: business_coverage_summary_def coverage_ratio_def rbind_eq_Inr Let_def)
  then have rule: "rule_evidence u v" using rules business unfolding rule_evidence_def by blast
  have data: "data_result_evidence v"
  proof (cases "cv_test_data_result v")
    case None
    then show ?thesis using blocking(5) by (simp add: data_result_evidence_def)
  next
    case (Some r)
    then have "dget r ''cleanup_status'' \<noteq> PStr ''interrupted''"
      using items(3) by (auto simp: data_items_def rbind_eq_Inr in_set_eq_Inr dest: dindex_dget split: if_splits)
    then show ?thesis using failing(3)[OF Some] Some by (simp add: data_result_evidence_def)
  qed
  have "ui_evidence v"
  proof (cases "cv_ui_result v")
    case (Some r)
    have "items_of (PDict r) ''failure_reasons'' = Inr []"
      using items(5) Some by (auto simp: ui_items_def rbind_eq_Inr)
    then show ?thesis
      using tests(2) Some
      by (auto simp: ui_evidence_def ui_left_scope_def any_of_False rbind_eq_Inr simp del: any_of.simps dest: dindex_dget)
  qed (simp add: ui_evidence_def)
  then show ?thesis
    using ready edit blocking(3,6) failing(4) line rule data items(6) assms(3) by (auto simp: closure_complete_def)
qed

lemma no_left_scope:
  assumes "edit_evidence v" "ui_evidence v"
  shows "\<not> edit_left_scope v" "ui_left_scope v \<noteq> Inr True"
proof -
  show "\<not> edit_left_scope v"
    using assms(1) by (auto simp: edit_evidence_def edit_left_scope_def get_str_def)
  show "ui_left_scope v \<noteq> Inr True"
  proof (cases "cv_ui_result v")
    case (Some r)
    then show ?thesis
      using assms(2) any_of_True[of "[rbind (dindex r ''status'') (\<lambda>s. Inr (s = PStr ''reanalysis_required'')),
          rbind (dindex r ''unresolved_impact_item_ids'') (\<lambda>x. Inr (truthy x)),
          rbind (dindex r ''out_of_scope_files'') (\<lambda>x. Inr (truthy x))]"]
      by (auto simp: ui_left_scope_def ui_evidence_def rbind_eq_Inr simp del: any_of.simps dest!: sym[of "Inr True"])
        (drule dindex_dget, simp)+
  qed (simp add: ui_left_scope_def)
qed

lemma items_when_clear:
  assumes "edit_evidence v" "ui_evidence v" "data_result_evidence v"
  shows "edit_items v = Inr xs \<Longrightarrow> xs = []" "ui_items v = Inr ys \<Longrightarrow> ys = []" "data_items v = Inr zs \<Longrightarrow> zs = []"
proof -
  show "edit_items v = Inr xs \<Longrightarrow> xs = []"
    using assms(1) empty_items
    by (auto simp: edit_items_def edit_evidence_def edit_result_status_is_accepted_def items_of_def rbind_eq_Inr)
  show "ui_items v = Inr ys \<Longrightarrow> ys = []"
    using assms(2) empty_items
    by (auto simp: ui_items_def ui_evidence_def index_items_def rbind_eq_Inr dest: dindex_dget split: option.splits)
  show "data_items v = Inr zs \<Longrightarrow> zs = []"
    using assms(3)
    by (auto simp: data_items_def data_result_evidence_def rbind_eq_Inr in_set_eq_Inr dest: dindex_dget
      split: option.splits if_splits)
qed

lemma complete_status:
  assumes "closure_status u v results ui unresolved = Inr s" "unresolved_items u v results ui = Inr unresolved"
    and "closure_complete u v results ui"
  shows "s = ''passed'' \<and> unresolved = []"
proof -
  have c: "dget (cv_orchestration v) ''status'' = PStr ''ready''" "edit_evidence v" "cv_workspace_evidence_current v"
      "line_evidence v" "rule_evidence u v" "data_result_evidence v" "ui_evidence v"
      "\<forall>r\<in>set results. ct_status r = ''passed''" "ui \<noteq> ''blocked''" "ui \<noteq> ''failed''"
    using assms(3) unfolding closure_complete_def by auto
  obtain percent where business: "business_coverage_summary u v = Inr (percent, False)" "100 \<le> percent"
    using c(5) unfolding rule_evidence_def by blast
  have rules: "rule_items v = Inr []" using c(5) unfolding rule_evidence_def rule_items_Nil by blast
  obtain as es ls ds us where items: "orchestration_items v = Inr as" "edit_items v = Inr es" "changed_line_items v = Inr ls"
      "data_items v = Inr ds" "ui_items v = Inr us"
    using assms(2) unfolding unresolved_items_def by (auto simp: rbind_eq_Inr Let_def)
  have "as = []" using items(1) c(1) by (auto simp: orchestration_items_def rbind_eq_Inr dest: dindex_dget split: if_splits)
  moreover have "es = []" "us = []" "ds = []" "ls = []"
    using items_when_clear[OF c(2,7,6)] line_evidence_no_items[OF c(4)] items(2-5) by blast+
  ultimately have unresolved: "unresolved = []"
    using unresolved_Nil[of u v results ui] items rules business c(3,8,9) assms(2) by (simp add: workspace_items_def)
  have "edit_result_status_is_accepted v" using c(2) by (auto simp: edit_evidence_def edit_result_status_is_accepted_def)
  then have "Inr True \<notin> set (failing_tests v results ui)"
    using c(2,6,8,10)
    by (auto simp: failing_tests_def edit_evidence_def data_result_evidence_def rbind_eq_Inr list_ex_iff
      dest: dindex_dget dest!: sym[of "Inr True"] split: option.splits)
  moreover have "Inr True \<notin> set (blocking_tests v results ui percent False)"
    using c(1-4,6,8,9) business(2) line_evidence_status[OF c(4)]
    by (auto simp: blocking_tests_def edit_evidence_def data_result_evidence_def rbind_eq_Inr list_ex_iff
      dest: dindex_dget dest!: sym[of "Inr True"] split: option.splits)
  ultimately show ?thesis
    using passed_status_decided[OF assms(1) business(1)] no_left_scope[OF c(2,7)] unresolved by blast
qed

lemma judged:
  assumes "judge_closure u v = Inr j"
  obtains test_cases results ui where "index_items (PDict (cv_test_plan v)) ''test_cases'' = Inr test_cases"
    "judge_tests v test_cases = Inr (cl_test_results j)" "ui_status_of test_cases (cv_ui_result v) = Inr (cl_ui_status j)"
    "unresolved_items u v (cl_test_results j) (cl_ui_status j) = Inr (cl_unresolved j)"
    "closure_status u v (cl_test_results j) (cl_ui_status j) (cl_unresolved j) = Inr (cl_status j)"
    "data_traceability v = Inr (cl_traces j)" "\<not> traceability_missing v (cl_traces j)" "validate_closure_scope v = Inr ()"
proof -
  have "\<exists>test_cases. index_items (PDict (cv_test_plan v)) ''test_cases'' = Inr test_cases
     \<and> judge_tests v test_cases = Inr (cl_test_results j) \<and> ui_status_of test_cases (cv_ui_result v) = Inr (cl_ui_status j)
     \<and> unresolved_items u v (cl_test_results j) (cl_ui_status j) = Inr (cl_unresolved j)
     \<and> closure_status u v (cl_test_results j) (cl_ui_status j) (cl_unresolved j) = Inr (cl_status j)
     \<and> data_traceability v = Inr (cl_traces j) \<and> \<not> traceability_missing v (cl_traces j)
     \<and> validate_closure_scope v = Inr ()"
    using assms unfolding judge_closure_def rbind_eq_Inr
    by (elim exE conjE) (auto simp: rbind_eq_Inr split: if_splits)
  then show ?thesis using that by blast
qed

lemma closure_status_range:
  "closure_status u v results ui unresolved = Inr s \<Longrightarrow> s \<in> {''passed'', ''failed'', ''blocked'', ''reanalysis_required''}"
  by (auto simp: closure_status_def rbind_eq_Inr split: if_splits)

lemma judged_complete:
  assumes "judge_closure u v = Inr j"
  shows "cl_status j = ''passed'' \<longleftrightarrow> closure_complete u v (cl_test_results j) (cl_ui_status j)"
    "cl_status j = ''passed'' \<Longrightarrow> cl_unresolved j = []"
proof -
  obtain test_cases where run: "ui_status_of test_cases (cv_ui_result v) = Inr (cl_ui_status j)"
      "unresolved_items u v (cl_test_results j) (cl_ui_status j) = Inr (cl_unresolved j)"
      "closure_status u v (cl_test_results j) (cl_ui_status j) (cl_unresolved j) = Inr (cl_status j)"
    by (rule judged[OF assms]) blast
  show nothing_open: "cl_unresolved j = []" if "cl_status j = ''passed''"
    using run(3) that by (auto simp: closure_status_def rbind_eq_Inr split: if_splits)
  show "cl_status j = ''passed'' \<longleftrightarrow> closure_complete u v (cl_test_results j) (cl_ui_status j)"
    using complete_when_passed[OF _ _ ui_status_range[OF run(1)]] complete_status[OF run(3,2)] run(2,3) nothing_open
    by metis
qed

lemma evaluated:
  assumes "evaluate_closure validate_artifact u v = Inr a"
  obtains j where "judge_closure u v = Inr j" "closure_artifact u v j = Inr a" "validate_artifact a = Inr ()"
  using assms by (auto simp: evaluate_closure_def rbind_eq_Inr)

lemma closure_artifact_fields:
  assumes "closure_artifact u v j = Inr a"
  shows "dget a ''status'' = PStr (cl_status j)" "dget a ''unresolved_items'' = PStrs (cl_unresolved j)"
    "dget a ''artifact_type'' = PStr ''ChangeClosureResult''"
    "dget a ''schema_version'' = PStr (if is_v3 (cv_test_data_result v) then ''v3'' else ''v2'')"
    "dget a ''ui_status'' = PStr (cl_ui_status j)"
    "dget a ''test_results'' = PList (map test_result_dict (cl_test_results j))"
    "\<exists>i. dget a ''closure_result_id'' = PStr (''closure-'' @ i)"
  using assms by (auto simp: closure_artifact_def closure_result_id_def rbind_eq_Inr Let_def)

text \<open>(C3) A change closes as passed exactly on complete evidence.  The verdict is one of four, and it is
  \<open>passed\<close> if and only if the orchestration is ready; a committed edit result with verified command evidence
  and passed tests is in scope with no file outside it; the workspace still is the one it was taken from; the
  gate on changed lines is neither missing nor failed; every business rule is covered and the coverage report
  agrees with its items; the test data, where the plan generates any, passed and was cleaned up; the UI
  verification left nothing open; and every test case and the UI passed.  Then nothing is listed as
  unresolved.\<close>

theorem closure_passes_exactly_on_complete_evidence:
  assumes "evaluate_closure validate_artifact u v = Inr a"
  shows "\<exists>j. judge_closure u v = Inr j \<and> dget a ''status'' = PStr (cl_status j)
    \<and> cl_status j \<in> {''passed'', ''failed'', ''blocked'', ''reanalysis_required''}
    \<and> (cl_status j = ''passed'' \<longleftrightarrow> closure_complete u v (cl_test_results j) (cl_ui_status j))
    \<and> (cl_status j = ''passed'' \<longrightarrow> dget a ''unresolved_items'' = PList [])"
proof -
  obtain j where j: "judge_closure u v = Inr j" "closure_artifact u v j = Inr a" by (rule evaluated[OF assms]) blast
  obtain tcs where "closure_status u v (cl_test_results j) (cl_ui_status j) (cl_unresolved j) = Inr (cl_status j)"
    by (rule judged[OF j(1)]) blast
  then show ?thesis
    using j(1) judged_complete[OF j(1)] closure_artifact_fields(1,2)[OF j(2)] closure_status_range[of u v] by fastforce
qed

section \<open>Every test case of the plan\<close>

lemma flows_status_passed: "flows_status ss = ''passed'' \<longleftrightarrow> (\<forall>s\<in>set ss. s = ''passed'')"
  by (auto simp: flows_status_def list_ex_iff)

lemma data_evidence_passed:
  assumes "data_evidence required flows = Inr (ds, refs)" "required" "ds \<notin> Some ` {''failed'', ''blocked''}"
  shows "flows \<noteq> [] \<and> (\<forall>flow\<in>set flows. index_text flow ''status'' = Inr ''passed'')"
proof -
  obtain statuses where s: "flows \<noteq> []" "mapM (\<lambda>flow. index_text flow ''status'') flows = Inr statuses"
      "ds = Some (flows_status statuses)"
    using assms by (auto simp: data_evidence_def rbind_eq_Inr split: if_splits)
  have "flows_status statuses \<in> {''failed'', ''blocked'', ''passed''}" by (simp add: flows_status_def)
  then have "\<forall>x\<in>set statuses. x = ''passed''" using assms(3) s(3) flows_status_passed by auto
  then show ?thesis using s(1,2) by (auto simp: mapM_eq_Inr list_all2_conv_all_nth in_set_conv_nth) (metis nth_mem)
qed

lemma judged_test_passed:
  assumes "judge_test test_case edit flows ui required = Inr r" "ct_status r = ''passed''"
  shows "index_text test_case ''test_case_id'' = Inr (ct_test_case_id r)"
    "required \<Longrightarrow> flows \<noteq> [] \<and> (\<forall>flow\<in>set flows. index_text flow ''status'' = Inr ''passed'')"
    "index_text test_case ''level'' = Inr ''ui'' \<Longrightarrow> (\<exists>s. ui = Some s \<and> index_text s ''status'' = Inr ''passed'')"
    "index_text test_case ''level'' \<noteq> Inr ''ui'' \<Longrightarrow> (\<exists>e. edit = Some e \<and> get_str e ''validation_mode'' = ''committed''
       \<and> dget e ''tests_passed'' = PBool True \<and> truthy (dget_or e ''test_result_refs'' (PList [])))"
proof -
  obtain case_id level ds drefs st refs summary where r: "index_text test_case ''test_case_id'' = Inr case_id"
      "index_text test_case ''level'' = Inr level" "data_evidence required flows = Inr (ds, drefs)"
      "(if level = ''ui'' then ui_outcome ui else command_outcome edit) = Inr (st, refs, summary)"
      "ct_test_case_id r = case_id"
      "ct_status r = (if case ds of Some s \<Rightarrow> s \<in> {''failed'', ''blocked''} | None \<Rightarrow> False then the ds else st)"
    using assms(1) unfolding judge_test_def rbind_eq_Inr Let_def
    by (clarsimp simp: rbind_eq_Inr split: prod.splits simp del: insert_iff)
  then have passed: "ds \<notin> Some ` {''failed'', ''blocked''}" "st = ''passed''"
    using assms(2) by (auto split: if_splits option.splits)
  show "index_text test_case ''test_case_id'' = Inr (ct_test_case_id r)" using r(1,5) by simp
  show "required \<Longrightarrow> flows \<noteq> [] \<and> (\<forall>flow\<in>set flows. index_text flow ''status'' = Inr ''passed'')"
    by (rule data_evidence_passed[OF r(3) _ passed(1)])
  show "index_text test_case ''level'' = Inr ''ui'' \<Longrightarrow> (\<exists>s. ui = Some s \<and> index_text s ''status'' = Inr ''passed'')"
    using r(2,4) passed(2)
    by (auto simp: ui_outcome_def known_status_def rbind_eq_Inr split: option.splits if_splits)
  show "index_text test_case ''level'' \<noteq> Inr ''ui'' \<Longrightarrow> (\<exists>e. edit = Some e \<and> get_str e ''validation_mode'' = ''committed''
       \<and> dget e ''tests_passed'' = PBool True \<and> truthy (dget_or e ''test_result_refs'' (PList [])))"
    using r(2,4) passed(2)
    by (auto simp: command_outcome_def rbind_eq_Inr split: option.splits if_splits)
qed

text \<open>The verdict of one test case of the plan, given the results of the data flows and UI scenarios.\<close>

definition case_proved :: "closure_input \<Rightarrow> (string \<times> pyval) list \<Rightarrow> (string \<times> pyval) list \<Rightarrow> pyval \<Rightarrow> bool" where
  "case_proved v flows uis test_case \<longleftrightarrow>
    (\<exists>case_id required. index_text test_case ''test_case_id'' = Inr case_id
      \<and> case_requires_data (cv_test_data_plan v) case_id = Inr required
      \<and> (required \<longrightarrow> results_of_case flows case_id \<noteq> []
          \<and> (\<forall>flow\<in>set (results_of_case flows case_id). index_text flow ''status'' = Inr ''passed''))
      \<and> (if index_text test_case ''level'' = Inr ''ui''
         then \<exists>s. map_of uis case_id = Some s \<and> index_text s ''status'' = Inr ''passed''
         else \<exists>e. cv_edit_result v = Some e \<and> get_str e ''validation_mode'' = ''committed''
           \<and> dget e ''tests_passed'' = PBool True \<and> truthy (dget_or e ''test_result_refs'' (PList []))))"

lemma judge_tests_passed:
  assumes "judge_tests v test_cases = Inr results" "\<forall>r\<in>set results. ct_status r = ''passed''"
  obtains flows uis where "flow_results_by_case (cv_test_data_plan v) (cv_test_data_result v) = Inr flows"
    "ui_results_by_case (cv_ui_result v) (cv_ui_test_case_refs v) = Inr uis"
    "\<forall>test_case\<in>set test_cases. case_proved v flows uis test_case"
proof -
  obtain flows uis where run: "flow_results_by_case (cv_test_data_plan v) (cv_test_data_result v) = Inr flows"
      "ui_results_by_case (cv_ui_result v) (cv_ui_test_case_refs v) = Inr uis"
    and each: "mapM (\<lambda>test_case. rbind (index_text test_case ''test_case_id'') (\<lambda>case_id.
        rbind (case_requires_data (cv_test_data_plan v) case_id) (\<lambda>required.
        judge_test test_case (cv_edit_result v) (results_of_case flows case_id) (map_of uis case_id) required)))
      test_cases = Inr results"
    using assms(1) unfolding judge_tests_def rbind_eq_Inr by blast
  have "case_proved v flows uis test_case" if "test_case \<in> set test_cases" for test_case
  proof -
    obtain r where r: "r \<in> set results" "rbind (index_text test_case ''test_case_id'') (\<lambda>case_id.
        rbind (case_requires_data (cv_test_data_plan v) case_id) (\<lambda>required.
        judge_test test_case (cv_edit_result v) (results_of_case flows case_id) (map_of uis case_id) required)) = Inr r"
      using mapM_mem[OF each \<open>test_case \<in> set test_cases\<close>] by blast
    then obtain case_id required where c: "index_text test_case ''test_case_id'' = Inr case_id"
        "case_requires_data (cv_test_data_plan v) case_id = Inr required"
        "judge_test test_case (cv_edit_result v) (results_of_case flows case_id) (map_of uis case_id) required = Inr r"
      unfolding rbind_eq_Inr by blast
    have passed: "ct_status r = ''passed''" using assms(2) r(1) by blast
    note proved = judged_test_passed(2-4)[OF c(3) passed]
    have "required \<longrightarrow> results_of_case flows case_id \<noteq> []
        \<and> (\<forall>flow\<in>set (results_of_case flows case_id). index_text flow ''status'' = Inr ''passed'')"
      using proved(1) by blast
    moreover have "if index_text test_case ''level'' = Inr ''ui''
        then \<exists>s. map_of uis case_id = Some s \<and> index_text s ''status'' = Inr ''passed''
        else \<exists>e. cv_edit_result v = Some e \<and> get_str e ''validation_mode'' = ''committed''
          \<and> dget e ''tests_passed'' = PBool True \<and> truthy (dget_or e ''test_result_refs'' (PList []))"
      using proved(2,3) by presburger
    ultimately show ?thesis unfolding case_proved_def using c(1,2) by blast
  qed
  then show ?thesis using that[OF run] by blast
qed

lemma add_ui_results_distinct:
  "add_ui_results collected new = Inr result' \<Longrightarrow> distinct (map fst collected) \<Longrightarrow> distinct (map fst result')"
  by (induction collected new rule: add_ui_results.induct) (auto split: if_splits)

lemma ui_results_distinct:
  assumes "ui_results_by_case result' mappings = Inr uis"
  shows "distinct (map fst uis)"
proof (cases result')
  case (Some r)
  then obtain items where "foldM (\<lambda>collected item. rbind (index_text item ''scenario_id'') (\<lambda>scenario_id.
      let refs = (case dict_lookup mappings scenario_id of None \<Rightarrow> [] | Some rs \<Rightarrow> rs)
      in add_ui_results collected (map (\<lambda>c. (c, item)) (if refs = [] then [scenario_id] else refs)))) [] items = Inr uis"
    using assms by (auto simp: ui_results_by_case_def rbind_eq_Inr)
  then show ?thesis
    by (rule foldM_invariant[where P = "\<lambda>c. distinct (map fst c)"])
      (auto simp: rbind_eq_Inr Let_def intro: add_ui_results_distinct)
qed (use assms in \<open>simp add: ui_results_by_case_def\<close>)

text \<open>(C4) A passed closure proves every test case of its plan.  Each case whose data flows are generated has
  a result of its flows and all of them passed; a UI case has the passed result of the one scenario it is
  mapped to, no two scenarios counting for the same case; and every other case rests on a committed edit
  result that names command evidence and whose tests passed.\<close>

theorem passed_closure_proves_every_test_case:
  assumes "evaluate_closure validate_artifact u v = Inr a" "dget a ''status'' = PStr ''passed''"
  shows "\<exists>test_cases flows uis. index_items (PDict (cv_test_plan v)) ''test_cases'' = Inr test_cases
    \<and> flow_results_by_case (cv_test_data_plan v) (cv_test_data_result v) = Inr flows
    \<and> ui_results_by_case (cv_ui_result v) (cv_ui_test_case_refs v) = Inr uis \<and> distinct (map fst uis)
    \<and> (\<forall>test_case\<in>set test_cases. case_proved v flows uis test_case)"
proof -
  obtain j where j: "judge_closure u v = Inr j" "closure_artifact u v j = Inr a" by (rule evaluated[OF assms(1)]) blast
  have "cl_status j = ''passed''" using assms(2) closure_artifact_fields(1)[OF j(2)] by simp
  then have complete: "\<forall>r\<in>set (cl_test_results j). ct_status r = ''passed''"
    using judged_complete(1)[OF j(1)] unfolding closure_complete_def by blast
  obtain test_cases where t: "index_items (PDict (cv_test_plan v)) ''test_cases'' = Inr test_cases"
      "judge_tests v test_cases = Inr (cl_test_results j)"
    by (rule judged[OF j(1)]) blast
  show ?thesis
    by (rule judge_tests_passed[OF t(2) complete]) (use t(1) ui_results_distinct in blast)
qed

section \<open>A closed change\<close>

definition demo_request_artifact :: pydict where
  "demo_request_artifact =
    [(''artifact_type'', PStr ''ChangeRequest''), (''schema_version'', PStr ''v1''),
     (''change_request_id'', PStr ''R''), (''project_id'', PStr ''P''), (''input_mode'', PStr ''documents'')]"

definition demo_orchestration :: pydict where
  "demo_orchestration =
    [(''artifact_type'', PStr ''ChangeOrchestrationPlan''), (''schema_version'', PStr ''v1''),
     (''orchestration_id'', PStr ''O''), (''change_request_id'', PStr ''R''), (''project_id'', PStr ''P''),
     (''analysis_case_id'', PStr ''C''), (''status'', PStr ''ready''), (''blocking_reasons'', PList []),
     (''artifact_refs'', PDict [(''acceptance_criteria_id'', PStr ''A''), (''test_plan_id'', PStr ''T''),
        (''test_data_plan_id'', PStr ''D''), (''coverage_report_id'', PStr ''B'')]),
     (''structured_change_refs'', PStrs [''S''])]"

definition closed_test_plan :: pydict where
  "closed_test_plan =
    [(''artifact_type'', PStr ''TestPlan''), (''schema_version'', PStr ''v1''),
     (''test_plan_id'', PStr ''T''), (''project_id'', PStr ''P''),
     (''test_cases'', PList [PDict [(''test_case_id'', PStr ''t''), (''level'', PStr ''ui'')]])]"

definition closed_data_plan :: pydict where
  "closed_data_plan =
    [(''artifact_type'', PStr ''TestDataPlan''), (''schema_version'', PStr ''v1''),
     (''test_data_plan_id'', PStr ''D''), (''project_id'', PStr ''P''), (''test_plan_id'', PStr ''T''),
     (''status'', PStr ''ready''), (''generation_flows'', PList []),
     (''data_sets'', PList [PDict [(''test_data_id'', PStr ''d''), (''coverage_conditions'',
        PList [PDict [(''criterion_ref'', PStr ''c''), (''test_case_ref'', PStr ''t'')]])]])]"

definition demo_rule_report :: pydict where
  "demo_rule_report =
    [(''artifact_type'', PStr ''BusinessCoverageReport''), (''schema_version'', PStr ''v1''),
     (''coverage_report_id'', PStr ''B''), (''project_id'', PStr ''P''), (''test_plan_id'', PStr ''T''),
     (''items'', PList [PDict [(''business_rule_id'', PStr ''r''), (''status'', PStr ''covered'')]]),
     (''business_rule_count'', PInt 1), (''covered_rule_count'', PInt 1), (''coverage_percent'', PFloat 100),
     (''status'', PStr ''passed'')]"

definition demo_edit :: "bool \<Rightarrow> pydict" where
  "demo_edit tests_passed =
    [(''edit_result_id'', PStr ''E''), (''project_id'', PStr ''P''), (''analysis_case_id'', PStr ''C''),
     (''validation_mode'', PStr ''committed''), (''status'', PStr ''in_scope''),
     (''base_repository_revision'', PStr ''b''), (''result_repository_revision'', PStr ''n''),
     (''changed_paths'', PStrs [''a.py'']), (''out_of_scope_files'', PStrs []), (''test_result_refs'', PStrs [''x'']),
     (''tests_passed'', PBool tests_passed), (''command_evidence_status'', PStr ''verified'')]"

definition demo_line_report :: pydict where
  "demo_line_report =
    [(''status'', PStr ''passed''), (''edit_result_id'', PStr ''E''), (''project_id'', PStr ''P''),
     (''base_repository_revision'', PStr ''b''), (''result_repository_revision'', PStr ''n''),
     (''coverage_percent'', PFloat 100)]"

definition demo_ui_result :: pydict where
  "demo_ui_result =
    [(''artifact_type'', PStr ''UiVerificationResult''), (''schema_version'', PStr ''v2''),
     (''verification_result_id'', PStr ''U''),
     (''orchestration_id'', PStr ''O''), (''test_data_execution_result_id'', PStr ''X''), (''analysis_case_id'', PStr ''C''), (''status'', PStr ''passed''),
     (''scenario_results'', PList [PDict [(''scenario_id'', PStr ''t''), (''status'', PStr ''passed''),
        (''evidence_refs'', PList [])]]),
     (''unresolved_impact_item_ids'', PList []), (''out_of_scope_files'', PList [])]"

definition demo_data_result :: "bool \<Rightarrow> pydict" where
  "demo_data_result v3 =
    [(''artifact_type'', PStr ''TestDataExecutionResult''), (''schema_version'', PStr (if v3 then ''v3'' else ''v2'')),
     (''execution_result_id'', PStr ''X''), (''project_id'', PStr ''P''),
     (''test_data_plan_id'', PStr ''D''), (''status'', PStr ''passed''), (''cleanup_status'', PStr ''passed''),
     (''flow_results'', PList []),
     (''data_bindings'', PList [PDict [(''test_data_id'', PStr ''d''), (''binding_id'', PStr ''k''),
        (''identity_provider_type'', PStr ''ui''), (''business_unique_keys'', PList [])]])]"

definition demo_closure :: "bool \<Rightarrow> bool \<Rightarrow> closure_input" where
  "demo_closure tests_passed v3 =
    \<lparr>cv_change_request = demo_request_artifact, cv_orchestration = demo_orchestration, cv_test_plan = closed_test_plan,
     cv_test_data_plan = closed_data_plan, cv_coverage_report = demo_rule_report,
     cv_edit_result = Some (demo_edit tests_passed),
     cv_test_data_result = Some (demo_data_result v3), cv_ui_result = Some demo_ui_result,
     cv_changed_line_coverage = Some demo_line_report, cv_ui_test_case_refs = [(''t'', [''t''])],
     cv_verification_only = False,
     cv_workspace_evidence_current = True, cv_workspace_evidence_reason = None\<rparr>"

lemma demo_closure_scope: "validate_closure_scope (demo_closure ok v3) = Inr ()"
  by (simp add: validate_closure_scope_def demo_closure_def demo_request_artifact_def demo_orchestration_def
    closed_test_plan_def closed_data_plan_def demo_rule_report_def demo_edit_def demo_line_report_def demo_ui_result_def
    demo_data_result_def dindex_def out_of_closure_def get_str_def refs_differ_def coverage_in_scope_def py_or_def Let_def)

lemma demo_business: "business_coverage_summary ascii_tables (demo_closure ok v3) = Inr (100, False)"
proof -
  have "coverage_ratio 1 1 = 100" by code_simp
  moreover have "\<not> round_double (1 / 10 ^ 9) < 0" by code_simp
  moreover have "round_double 0 = 0" by code_simp
  ultimately show ?thesis
    by (simp add: business_coverage_summary_def demo_closure_def demo_rule_report_def index_items_def is_covered_def
      dindex_def get_str_def Let_def)
qed

definition demo_tests :: "test_result list" where
  "demo_tests = [\<lparr>ct_test_case_id = ''t'', ct_status = ''passed'', ct_evidence_refs = [],
     ct_summary = ''UI Scenario is passed.''\<rparr>]"

definition demo_trace :: "bool \<Rightarrow> pyval list" where
  "demo_trace v3 =
    (if v3 then [PDict [(''criterion_ref'', PStr ''c''), (''test_case_ref'', PStr ''t''),
       (''test_data_id'', PStr ''d''), (''ui_step_refs'', PStrs []), (''test_data_binding_ref'', PStr ''k''),
       (''provider_type'', PStr ''ui''), (''business_values'', PList []), (''assertion_refs'', PStrs []),
       (''screenshot_evidence_refs'', PStrs []), (''cleanup_status'', PStr ''not_required'')]] else [])"

definition demo_verdict :: "bool \<Rightarrow> bool \<Rightarrow> closure_judgement" where
  "demo_verdict tests_passed v3 =
    \<lparr>cl_component_refs = sorted_set ([''O'', ''A'', ''T'', ''D'', ''B'', ''E''] @ [''X''] @ [''U'']),
     cl_modified_paths = sorted_set [''a.py''], cl_test_results = demo_tests, cl_ui_status = ''passed'',
     cl_coverage_percent = 100, cl_status = (if tests_passed then ''passed'' else ''failed''), cl_unresolved = [],
     cl_traces = demo_trace v3\<rparr>"

lemmas demo_closure_defs = demo_closure_def demo_request_artifact_def demo_orchestration_def closed_test_plan_def
  closed_data_plan_def demo_rule_report_def demo_edit_def demo_line_report_def demo_ui_result_def demo_data_result_def

lemma demo_judged_tests:
  "judge_tests (demo_closure ok v3) [PDict [(''test_case_id'', PStr ''t''), (''level'', PStr ''ui'')]] = Inr demo_tests"
  by (simp add: judge_tests_def demo_closure_defs demo_tests_def flow_results_by_case_def ui_results_by_case_def index_items_def
    index_text_def dict_lookup_def case_requires_data_def judge_test_def data_evidence_def ui_outcome_def known_status_def
    py_or_def dindex_def texts_def Let_def)

lemma demo_unresolved: "unresolved_items ascii_tables (demo_closure ok v3) demo_tests ''passed'' = Inr []"
  unfolding unresolved_Nil
  by (simp add: demo_business) (simp add: demo_closure_defs orchestration_items_def edit_items_def workspace_items_def
    changed_line_items_def data_items_def rule_items_def ui_items_def items_of_def index_items_def index_text_def dindex_def
    edit_result_status_is_accepted_def get_str_def prefixed_def texts_def demo_tests_def)

lemma demo_status:
  "closure_status ascii_tables (demo_closure ok v3) demo_tests ''passed'' [] = Inr (if ok then ''passed'' else ''failed'')"
  by (simp add: closure_status_def demo_business) (simp add: edit_left_scope_def ui_left_scope_def blocking_tests_def
    failing_tests_def demo_closure_defs demo_tests_def dindex_def changed_line_coverage_status_def index_text_def
    edit_result_status_is_accepted_def get_str_def)

lemma demo_traces: "data_traceability (demo_closure ok v3) = Inr (demo_trace v3)"
  by (simp add: data_traceability_def demo_closure_defs is_v3_def items_of_def keyed_def index_text_def index_items_def
    dindex_def demo_trace_def concatM_def data_set_traces_def data_trace_def dict_lookup_def ui_steps_of_def assertions_of_def
    cleanup_results_of_def cleanup_status_of_def screenshots_of_def sort_key_def Let_def)

lemma demo_judged_closure: "judge_closure ascii_tables (demo_closure ok v3) = Inr (demo_verdict ok v3)"
proof -
  have "index_items (PDict (cv_test_plan (demo_closure ok v3))) ''test_cases''
      = Inr [PDict [(''test_case_id'', PStr ''t''), (''level'', PStr ''ui'')]]"
    by (simp add: demo_closure_defs index_items_def dindex_def)
  moreover have "ui_status_of [PDict [(''test_case_id'', PStr ''t''), (''level'', PStr ''ui'')]]
      (cv_ui_result (demo_closure ok v3)) = Inr ''passed''"
    by (simp add: demo_closure_defs ui_status_of_def index_text_def dindex_def known_status_def)
  moreover have "component_refs (demo_closure ok v3)
      = Inr (sorted_set ([''O'', ''A'', ''T'', ''D'', ''B'', ''E''] @ [''X''] @ [''U'']))"
    by (simp add: demo_closure_defs component_refs_def index_text_def dindex_def)
  moreover have "modified_paths (cv_edit_result (demo_closure ok v3)) = Inr (sorted_set [''a.py''])"
    by (simp add: demo_closure_defs modified_paths_def index_items_def dindex_def texts_def)
  moreover have "\<not> traceability_missing (demo_closure ok v3) (demo_trace v3)"
    by (simp add: traceability_missing_def demo_closure_defs is_v3_def demo_trace_def)
  ultimately show ?thesis
    by (simp add: judge_closure_def demo_closure_scope demo_judged_tests demo_business demo_unresolved demo_status demo_traces
      demo_verdict_def)
qed

lemma demo_artifact: "\<exists>a. closure_artifact ascii_tables (demo_closure ok v3) (demo_verdict ok v3) = Inr a"
  by (simp add: closure_artifact_def demo_closure_defs dindex_def changed_line_coverage_percent_def
    changed_line_coverage_status_def index_text_def index_items_def Let_def)

lemma demo_evaluated:
  obtains a where "closure_artifact ascii_tables (demo_closure ok v3) (demo_verdict ok v3) = Inr a"
    "evaluate_closure (\<lambda>_. Inr ()) ascii_tables (demo_closure ok v3) = Inr a"
  using demo_artifact[of ok v3] by (auto simp: evaluate_closure_def demo_judged_closure)

theorem closure_passes_exactly_on_complete_evidence_witness:
  "\<exists>a. evaluate_closure (\<lambda>_. Inr ()) ascii_tables (demo_closure True False) = Inr a
    \<and> dget a ''status'' = PStr ''passed'' \<and> dget a ''unresolved_items'' = PList []"
proof -
  obtain a where a: "evaluate_closure (\<lambda>_. Inr ()) ascii_tables (demo_closure True False) = Inr a"
    by (rule demo_evaluated[of True False]) blast
  then show ?thesis
    using closure_passes_exactly_on_complete_evidence[OF a] by (auto simp: demo_judged_closure demo_verdict_def)
qed

theorem passed_closure_proves_every_test_case_witness:
  "\<exists>flows uis. case_proved (demo_closure True True) flows uis (PDict [(''test_case_id'', PStr ''t''), (''level'', PStr ''ui'')])"
proof -
  obtain a where a: "closure_artifact ascii_tables (demo_closure True True) (demo_verdict True True) = Inr a"
      "evaluate_closure (\<lambda>_. Inr ()) ascii_tables (demo_closure True True) = Inr a"
    by (rule demo_evaluated)
  have "dget a ''status'' = PStr ''passed''" using closure_artifact_fields(1)[OF a(1)] by (simp add: demo_verdict_def)
  then show ?thesis
    using passed_closure_proves_every_test_case[OF a(2)]
    by (auto simp: demo_closure_defs index_items_def dindex_def)
qed

end
