(* ===== verification/ClosureRecords.thy ===== *)
theory ClosureRecords
  imports ChangeClosure EditResults
begin

text \<open>
  Closing a change (\<open>application/change_closure_service.py\<close>,
  \<open>infrastructure/postgres/change_closure_repository.py\<close> and \<open>contracts/compatibility.py\<close>): the evidence of an
  orchestration is loaded from the tables, the workspace is inspected again, the verdict of
  \<open>ChangeClosure\<close> is recorded once, and it is read back through the compatibility projection and the open
  profile drifts.

  The times of the rows of the edit ledger and of the artifacts, which that ledger does not read, stand
  beside it.  The foreign keys of \<open>change_closure_results\<close> are not modelled: their targets are the rows the
  evidence was just loaded from.
\<close>

section \<open>Tables\<close>

record orchestration_row =
  oc_orchestration_id :: string
  oc_change_request_id :: string
  oc_project_id :: string
  oc_analysis_case_id :: string
  oc_impact_report_id :: string
  oc_test_plan_id :: string
  oc_test_data_plan_id :: string
  oc_coverage_report_id :: string

record data_run_row =
  dn_run_id :: string
  dn_orchestration_id :: string
  dn_project_id :: string
  dn_result_artifact_id :: "string option"
  dn_started_at :: int

text \<open>The columns a replay is compared with, and the row they are part of.\<close>

record closure_identity =
  cw_orchestration_id :: string
  cw_change_request_id :: string
  cw_project_id :: string
  cw_analysis_case_id :: string
  cw_edit_result_id :: "string option"
  cw_test_data_execution_result_id :: "string option"
  cw_ui_verification_result_id :: "string option"
  cw_coverage_report_id :: string
  cw_component_digest :: string
  cw_status :: string
  cw_unresolved_items :: "pyval list"
  cw_created_by :: string

record closure_row = closure_identity +
  cw_closure_result_id :: string
  cw_created_at :: int

record drift_row =
  pd_project_id :: string
  pd_artifact_type :: string
  pd_artifact_id :: string
  pd_reason :: string
  pd_resolved :: bool

record closure_db =
  cb_edit :: edit_db
  cb_recorded_at :: "string \<Rightarrow> int"
  cb_artifact_created_at :: "string \<Rightarrow> int"
  cb_orchestrations :: "orchestration_row list"
  cb_runs :: "data_run_row list"
  cb_closures :: "closure_row list"
  cb_drifts :: "drift_row list"

record closure_env =
  cn_edit :: edit_env
  cn_tables :: text_tables
  cn_collation :: "string \<Rightarrow> string"

text \<open>\<open>ORDER BY key DESC LIMIT 1\<close>.\<close>

definition latest_by :: "('a \<Rightarrow> 'k::linorder) \<Rightarrow> 'a list \<Rightarrow> 'a option" where
  "latest_by key rows = (if rows = [] then None else Some (last (sort_key key rows)))"

section \<open>The compatibility projection\<close>

text \<open>\<open>dict.update\<close>: a key keeps its place.\<close>

definition dict_updated :: "pydict \<Rightarrow> pydict \<Rightarrow> pydict" where
  "dict_updated d news =
    map (\<lambda>(k, v). (k, case map_of news k of Some w \<Rightarrow> w | None \<Rightarrow> v)) d
    @ filter (\<lambda>(k, _). k \<notin> fst ` set d) news"

definition LEGACY_CLOSURE_REASON :: string where
  "LEGACY_CLOSURE_REASON = ''Legacy ChangeClosureResult v1 requires changed-line coverage re-evaluation''"

definition project_change_closure_result :: "pydict \<Rightarrow> pydict result" where
  "project_change_closure_result artifact =
    (if dget artifact ''artifact_type'' \<noteq> PStr ''ChangeClosureResult'' then
       Inl (ValueError ''Compatibility projection requires a ChangeClosureResult'')
     else if dget artifact ''schema_version'' = PStr ''v2'' then Inr artifact
     else if dget artifact ''schema_version'' \<noteq> PStr ''v1'' then
       Inl (ValueError (''Unsupported ChangeClosureResult schema_version: ''
         @ py_repr (dget artifact ''schema_version'')))
     else
       rbind (items_of (PDict artifact) ''unresolved_items'') (\<lambda>items.
         Inr (dict_updated artifact
           [(''compatibility_status'', PStr ''stale''), (''changed_line_coverage_percent'', PFloat 0),
            (''changed_line_coverage_status'', PStr ''missing''),
            (''status'', PStr (if dget artifact ''status'' = PStr ''reanalysis_required''
               then ''reanalysis_required'' else ''blocked'')),
            (''unresolved_items'', PStrs (sorted_set (texts items @ [LEGACY_CLOSURE_REASON])))])))"

definition drift_reasons :: "closure_db \<Rightarrow> pydict \<Rightarrow> string \<Rightarrow> string list" where
  "drift_reasons db artifact artifact_id =
    map pd_reason (filter (\<lambda>p. PStr (pd_project_id p) = dget artifact ''project_id''
      \<and> pd_artifact_type p = ''ChangeClosureResult'' \<and> pd_artifact_id p = artifact_id \<and> \<not> pd_resolved p)
      (cb_drifts db))"

definition required_artifact :: "closure_env \<Rightarrow> closure_db \<Rightarrow> string \<Rightarrow> string \<Rightarrow> pydict result" where
  "required_artifact env db artifact_id artifact_type =
    rbind (get_artifact (cn_edit env) (cb_edit db) artifact_id) (\<lambda>found.
    if map_option (\<lambda>a. dget a ''artifact_type'') found \<noteq> Some (PStr artifact_type) then
      Inl (PersistenceConflictError (''Required '' @ artifact_type @ '' Artifact is missing: '' @ artifact_id))
    else if artifact_type \<noteq> ''ChangeClosureResult'' then Inr (the found)
    else
      rbind (project_change_closure_result (the found)) (\<lambda>projected.
      let reasons = drift_reasons db (the found) artifact_id
      in if reasons = [] then Inr projected
         else rbind (items_of (PDict projected) ''unresolved_items'') (\<lambda>items.
           Inr (dict_updated projected
             [(''compatibility_status'', PStr ''stale''), (''status'', PStr ''blocked''),
              (''unresolved_items'', PStrs (sorted_set (texts items @ map ((@) ''Profile drift: '') reasons)))]))))"

section \<open>Loading the evidence\<close>

record closure_evidence =
  cv_evidence :: closure_input
  cv_workspace_root :: "string option"

definition find_orchestration :: "closure_db \<Rightarrow> string \<Rightarrow> orchestration_row option" where
  "find_orchestration db i = find (\<lambda>r. oc_orchestration_id r = i) (cb_orchestrations db)"

text \<open>The joined rows of the edit results of an orchestration.\<close>

definition result_packet :: "closure_db \<Rightarrow> edit_result_row \<Rightarrow> packet_row option" where
  "result_packet db r =
    find (\<lambda>p. pk_edit_packet_id p = er_edit_packet_id r \<and> pk_project_id p = er_project_id r)
      (ed_packets (cb_edit db))"

definition result_of_orchestration :: "closure_db \<Rightarrow> orchestration_row \<Rightarrow> edit_result_row \<Rightarrow> bool" where
  "result_of_orchestration db o' r \<longleftrightarrow>
    er_project_id r = oc_project_id o' \<and> er_analysis_case_id r = oc_analysis_case_id o'
    \<and> (case result_packet db r of None \<Rightarrow> False
       | Some p \<Rightarrow> pk_impact_report_id p = oc_impact_report_id o' \<and> pk_project_id p = oc_project_id o'
           \<and> pk_analysis_case_id p = oc_analysis_case_id o')"

definition latest_edit_result :: "closure_env \<Rightarrow> closure_db \<Rightarrow> orchestration_row \<Rightarrow> edit_result_row option" where
  "latest_edit_result env db o' =
    latest_by (\<lambda>r. (cb_recorded_at db (er_edit_result_id r), cn_collation env (er_edit_result_id r)))
      (filter (result_of_orchestration db o') (ed_results (cb_edit db)))"

text \<open>\<open>latest_changed_line_coverage\<close>, for an orchestration of the given project and case.\<close>

definition latest_changed_line_coverage ::
    "closure_env \<Rightarrow> closure_db \<Rightarrow> string \<Rightarrow> string \<Rightarrow> string \<Rightarrow> pydict option result" where
  "latest_changed_line_coverage env db project_id case_id orchestration_id =
    (case find_orchestration db orchestration_id of
       None \<Rightarrow> Inr None
     | Some o' \<Rightarrow>
         if oc_project_id o' \<noteq> project_id \<or> oc_analysis_case_id o' \<noteq> case_id then Inr None
         else case latest_edit_result env db o' of
           None \<Rightarrow> Inr None
         | Some r \<Rightarrow> rbind (ee_validate_artifact (cn_edit env) (er_changed_line_coverage r)) (\<lambda>_.
             Inr (Some (er_changed_line_coverage r))))"

definition data_artifact_id :: "closure_env \<Rightarrow> closure_db \<Rightarrow> orchestration_row \<Rightarrow> string option" where
  "data_artifact_id env db o' =
    Option.bind (latest_by (\<lambda>r. (dn_started_at r, cn_collation env (dn_run_id r)))
      (filter (\<lambda>r. dn_orchestration_id r = oc_orchestration_id o' \<and> dn_project_id r = oc_project_id o')
        (cb_runs db))) dn_result_artifact_id"

definition ui_artifact_id :: "closure_env \<Rightarrow> closure_db \<Rightarrow> orchestration_row \<Rightarrow> string \<Rightarrow> string option" where
  "ui_artifact_id env db o' data_id =
    map_option ar_artifact_id
      (latest_by (\<lambda>a. (cb_artifact_created_at db (ar_artifact_id a), cn_collation env (ar_artifact_id a)))
        (filter (\<lambda>a. ar_project_id a = oc_project_id o' \<and> ar_analysis_case_id a = Some (oc_analysis_case_id o')
            \<and> ar_artifact_type a = PStr ''UiVerificationResult'' \<and> ar_schema_version a = PStr ''v2''
            \<and> dget (ar_payload a) ''orchestration_id'' = PStr (oc_orchestration_id o')
            \<and> dget (ar_payload a) ''test_data_execution_result_id'' = PStr data_id)
          (ed_artifacts (cb_edit db))))"

definition edit_result_dict :: "edit_result_row \<Rightarrow> pydict" where
  "edit_result_dict r =
    [(''edit_result_id'', PStr (er_edit_result_id r)), (''project_id'', PStr (er_project_id r)),
     (''analysis_case_id'', PStr (er_analysis_case_id r)), (''validation_mode'', PStr (er_validation_mode r)),
     (''status'', PStr (er_status r)), (''base_repository_revision'', PStr (er_base_repository_revision r)),
     (''result_repository_revision'', case er_result_repository_revision r of None \<Rightarrow> PNone | Some s \<Rightarrow> PStr s),
     (''changed_paths'', PStrs (er_changed_paths r)), (''out_of_scope_files'', PStrs (er_out_of_scope_files r)),
     (''test_result_refs'', PStrs (er_test_result_refs r)),
     (''tests_passed'', case er_tests_passed r of None \<Rightarrow> PNone | Some b \<Rightarrow> PBool b),
     (''command_evidence_status'', PStr (er_command_evidence_status r))]"

text \<open>The registered workspace of a packet, of the \<open>LEFT JOIN\<close> with the repositories.\<close>

definition registered_workspace :: "closure_db \<Rightarrow> packet_row \<Rightarrow> string option" where
  "registered_workspace db p =
    Option.bind (find (\<lambda>r. rp_repository_id r = pk_repository_id p \<and> rp_project_id r = pk_project_id p)
      (ed_repositories (cb_edit db))) rp_workspace_root"

definition scenario_refs :: "pydict \<Rightarrow> (string \<times> string list) list result" where
  "scenario_refs ui =
    rbind (index_items (PDict ui) ''scenario_results'') (mapM (\<lambda>r.
      rbind (index_text r ''scenario_id'') (\<lambda>i. Inr (i, [i]))))"

definition optional_artifact ::
    "closure_env \<Rightarrow> closure_db \<Rightarrow> string option \<Rightarrow> string \<Rightarrow> pydict option result" where
  "optional_artifact env db artifact_id artifact_type =
    (case artifact_id of None \<Rightarrow> Inr None
     | Some i \<Rightarrow> rbind (required_artifact env db i artifact_type) (\<lambda>a. Inr (Some a)))"

definition load_evidence :: "closure_env \<Rightarrow> closure_db \<Rightarrow> string \<Rightarrow> closure_evidence result" where
  "load_evidence env db orchestration_id =
    (case find_orchestration db orchestration_id of
       None \<Rightarrow> Inl (ValueError ''Change Orchestration does not exist'')
     | Some o' \<Rightarrow>
        let edit = latest_edit_result env db o';
            packet = Option.bind edit (result_packet db);
            data_id = data_artifact_id env db o';
            ui_id = Option.bind data_id (ui_artifact_id env db o')
        in rbind (case edit of None \<Rightarrow> Inr ()
             | Some r \<Rightarrow> ee_validate_artifact (cn_edit env) (er_changed_line_coverage r)) (\<lambda>_.
           rbind (optional_artifact env db data_id ''TestDataExecutionResult'') (\<lambda>data_result.
           rbind (optional_artifact env db ui_id ''UiVerificationResult'') (\<lambda>ui_result.
           rbind (case ui_result of None \<Rightarrow> Inr [] | Some ui \<Rightarrow> scenario_refs ui) (\<lambda>refs.
           rbind (required_artifact env db (oc_change_request_id o') ''ChangeRequest'') (\<lambda>request.
           rbind (required_artifact env db orchestration_id ''ChangeOrchestrationPlan'') (\<lambda>orchestration.
           rbind (required_artifact env db (oc_test_plan_id o') ''TestPlan'') (\<lambda>test_plan.
           rbind (required_artifact env db (oc_test_data_plan_id o') ''TestDataPlan'') (\<lambda>data_plan.
           rbind (required_artifact env db (oc_coverage_report_id o') ''BusinessCoverageReport'') (\<lambda>report.
             Inr \<lparr>cv_evidence = \<lparr>cv_change_request = request, cv_orchestration = orchestration,
                    cv_test_plan = test_plan, cv_test_data_plan = data_plan, cv_coverage_report = report,
                    cv_edit_result = map_option edit_result_dict edit, cv_test_data_result = data_result,
                    cv_ui_result = ui_result,
                    cv_changed_line_coverage = map_option er_changed_line_coverage edit,
                    cv_ui_test_case_refs = refs,
                    cv_verification_only = (case packet of None \<Rightarrow> False
                      | Some p \<Rightarrow> \<not> truthy (pk_editable_files p)),
                    cv_workspace_evidence_current = True, cv_workspace_evidence_reason = None\<rparr>,
                  cv_workspace_root = Option.bind packet (registered_workspace db)\<rparr>))))))))))"

section \<open>The workspace\<close>

definition workspace_evidence_status :: "closure_env \<Rightarrow> closure_evidence \<Rightarrow> (bool \<times> string option) result" where
  "workspace_evidence_status env e =
    (case (cv_workspace_root e, cv_edit_result (cv_evidence e)) of
       (Some ws, Some edit) \<Rightarrow>
         if ws = [] then Inr (True, None)
         else
           rbind (dindex edit ''base_repository_revision'') (\<lambda>base.
           case inspect_committed (ee_git (cn_edit env)) ws (py_str base) (cv_verification_only (cv_evidence e)) of
             Inl (ValueError _) \<Rightarrow> Inr (False, Some ''Code workspace no longer matches committed Edit Result'')
           | Inl other \<Rightarrow> Inl other
           | Inr inspected \<Rightarrow>
               if gd_result_sha inspected \<noteq> Some (py_str (py_or (dget edit ''result_repository_revision'') base))
               then Inr (False, Some ''Code workspace HEAD differs from committed Edit Result'')
               else Inr (True, None))
     | _ \<Rightarrow> Inr (True, None))"

section \<open>Recording and reading\<close>

record closure_record =
  cc_closure_result_id :: string
  cc_status :: string
  cc_created_at :: int
  cc_created :: bool

definition closure_identity_of ::
    "closure_input \<Rightarrow> pydict \<Rightarrow> string \<Rightarrow> closure_identity result" where
  "closure_identity_of v artifact created_by =
    (let optional_id = (\<lambda>d k. case d of None \<Rightarrow> Inr None
        | Some a \<Rightarrow> rbind (index_text (PDict a) k) (\<lambda>i. Inr (Some i)))
     in rbind (optional_id (cv_edit_result v) ''edit_result_id'') (\<lambda>edit_id.
        rbind (optional_id (cv_test_data_result v) ''execution_result_id'') (\<lambda>data_id.
        rbind (optional_id (cv_ui_result v) ''verification_result_id'') (\<lambda>ui_id.
        rbind (mapM (index_text (PDict (cv_orchestration v)))
          [''orchestration_id'', ''change_request_id'', ''project_id'', ''analysis_case_id'']) (\<lambda>ids.
        rbind (index_text (PDict (cv_coverage_report v)) ''coverage_report_id'') (\<lambda>report_id.
        rbind (index_text (PDict artifact) ''status'') (\<lambda>st.
        rbind (index_items (PDict artifact) ''unresolved_items'') (\<lambda>items.
          Inr \<lparr>cw_orchestration_id = ids ! 0, cw_change_request_id = ids ! 1, cw_project_id = ids ! 2,
               cw_analysis_case_id = ids ! 3, cw_edit_result_id = edit_id,
               cw_test_data_execution_result_id = data_id, cw_ui_verification_result_id = ui_id,
               cw_coverage_report_id = report_id, cw_component_digest = canonical_digest (PDict artifact),
               cw_status = st, cw_unresolved_items = items, cw_created_by = created_by\<rparr>))))))))"

definition identity_of_row :: "closure_row \<Rightarrow> closure_identity" where
  "identity_of_row r = closure_identity.truncate r"

text \<open>The checks, the primary key and \<open>change_closure_results_basis_unique\<close> of migration 0033; a row that
  meets one of the unique ones is skipped by \<open>ON CONFLICT DO NOTHING\<close>.\<close>

definition insert_closure :: "closure_row \<Rightarrow> closure_db \<Rightarrow> (closure_db \<times> bool) result" where
  "insert_closure r db =
    (if list_ex btrim_blank [cw_closure_result_id r, cw_orchestration_id r, cw_created_by r] then
       Inl (IntegrityError ''change_closure_results_fields_not_blank'')
     else if cw_status r \<notin> {''passed'', ''failed'', ''blocked'', ''reanalysis_required''} then
       Inl (IntegrityError ''change_closure_results_status_valid'')
     else if (cw_status r = ''passed'') \<noteq> (cw_unresolved_items r = []) then
       Inl (IntegrityError ''change_closure_results_unresolved_valid'')
     else if list_ex (\<lambda>q. cw_closure_result_id q = cw_closure_result_id r
         \<or> cw_orchestration_id q = cw_orchestration_id r \<and> cw_component_digest q = cw_component_digest r)
       (cb_closures db) then Inr (db, False)
     else Inr (db\<lparr>cb_closures := cb_closures db @ [r]\<rparr>, True))"

definition find_closure :: "closure_db \<Rightarrow> string \<Rightarrow> closure_row option" where
  "find_closure db i = find (\<lambda>r. cw_closure_result_id r = i) (cb_closures db)"

definition persist_closure ::
    "closure_env \<Rightarrow> int \<Rightarrow> closure_input \<Rightarrow> pydict \<Rightarrow> string \<Rightarrow> closure_db \<Rightarrow> (closure_db \<times> closure_record) result" where
  "persist_closure env now v artifact created_by db =
    (if blank created_by then Inl (ValueError ''Closure actor must not be blank'')
     else
       rbind (closure_identity_of v artifact created_by) (\<lambda>identity.
       rbind (index_text (PDict artifact) ''closure_result_id'') (\<lambda>closure_id.
       rbind (store_artifact (cn_edit env) closure_id (cw_project_id identity) (cw_analysis_case_id identity)
         artifact (cb_edit db)) (\<lambda>edit.
       rbind (insert_closure (closure_identity.extend identity
           \<lparr>cw_closure_result_id = closure_id, cw_created_at = now\<rparr>) (db\<lparr>cb_edit := edit\<rparr>)) (\<lambda>(db', created).
       case find_closure db' closure_id of
         None \<Rightarrow> Inl (PersistenceConflictError
           ''Change Closure Result identity has different immutable content'')
       | Some row \<Rightarrow>
           if identity_of_row row \<noteq> identity then
             Inl (PersistenceConflictError
               ''Change Closure Result identity has different immutable content'')
           else Inr (db', \<lparr>cc_closure_result_id = closure_id, cc_status = cw_status identity,
             cc_created_at = cw_created_at row, cc_created = created\<rparr>))))))"

definition close_change ::
    "closure_env \<Rightarrow> int \<Rightarrow> string \<Rightarrow> string \<Rightarrow> closure_db \<Rightarrow> (closure_db \<times> pydict \<times> closure_record) result" where
  "close_change env now orchestration_id actor db =
    rbind (load_evidence env db orchestration_id) (\<lambda>e.
    rbind (workspace_evidence_status env e) (\<lambda>(current, reason).
    rbind (evaluate_closure (ee_validate_artifact (cn_edit env)) (cn_tables env)
      ((cv_evidence e)\<lparr>cv_workspace_evidence_current := current, cv_workspace_evidence_reason := reason\<rparr>))
      (\<lambda>artifact.
    rbind (persist_closure env now (cv_evidence e) artifact actor db) (\<lambda>(db', record).
      Inr (db', artifact, record)))))"

definition latest_closure_row :: "closure_env \<Rightarrow> (closure_row \<Rightarrow> bool) \<Rightarrow> closure_db \<Rightarrow> closure_row option" where
  "latest_closure_row env p db =
    latest_by (\<lambda>r. (cw_created_at r, cn_collation env (cw_closure_result_id r))) (filter p (cb_closures db))"

definition latest_closure :: "closure_env \<Rightarrow> closure_db \<Rightarrow> string \<Rightarrow> pydict option result" where
  "latest_closure env db change_request_id =
    (case latest_closure_row env (\<lambda>r. cw_change_request_id r = change_request_id) db of
       None \<Rightarrow> Inr None
     | Some r \<Rightarrow> rbind (required_artifact env db (cw_closure_result_id r) ''ChangeClosureResult'') (\<lambda>a. Inr (Some a)))"

definition latest_closure_for_orchestration :: "closure_env \<Rightarrow> closure_db \<Rightarrow> string \<Rightarrow> pydict option result" where
  "latest_closure_for_orchestration env db orchestration_id =
    (case latest_closure_row env (\<lambda>r. cw_orchestration_id r = orchestration_id) db of
       None \<Rightarrow> Inr None
     | Some r \<Rightarrow> rbind (required_artifact env db (cw_closure_result_id r) ''ChangeClosureResult'') (\<lambda>a. Inr (Some a)))"

end
