(* ===== verification/ClosureSafety.thy ===== *)
theory ClosureSafety
  imports ClosureRecords
begin

text \<open>
  What the record of closures guarantees: the edit result and the workspace behind a passed closure, what
  can be read back of it, the repetition of a closure, and the verdicts the table refuses.
\<close>

section \<open>Latest rows\<close>

lemma latest_by_mem:
  assumes "latest_by key rows = Some r"
  shows "r \<in> set rows" "\<And>q. q \<in> set rows \<Longrightarrow> key q \<le> key r"
proof -
  have r: "rows \<noteq> []" "r = last (sort_key key rows)" using assms by (auto simp: latest_by_def split: if_splits)
  then have sorted: "sorted (map key (sort_key key rows))" "sort_key key rows \<noteq> []"
    by (simp_all add: set_empty[symmetric] del: set_empty)
  then show "r \<in> set rows" using r last_in_set[of "sort_key key rows"] by simp
  fix q assume "q \<in> set rows"
  then obtain i where i: "i < length (sort_key key rows)" "q = sort_key key rows ! i"
    unfolding set_sort[of key rows, symmetric] in_set_conv_nth by blast
  have "map key (sort_key key rows) ! i \<le> map key (sort_key key rows) ! (length (sort_key key rows) - 1)"
    using sorted_nth_mono[OF sorted(1), of i "length (sort_key key rows) - 1"] i(1) sorted(2) by simp
  then show "key q \<le> key r" using i r(2) sorted(2) by (simp add: last_conv_nth)
qed

lemma latest_row:
  assumes "latest_by (\<lambda>r. (time r :: int, name r :: string)) (filter P rows) = Some r"
  shows "r \<in> set rows" "P r" "\<And>q. q \<in> set rows \<Longrightarrow> P q \<Longrightarrow> time q \<le> time r"
proof -
  show "r \<in> set rows" "P r" using latest_by_mem(1)[OF assms] by auto
  fix q assume "q \<in> set rows" "P q"
  then have "(time q, name q) \<le> (time r, name r)" using latest_by_mem(2)[OF assms, of q] by auto
  then show "time q \<le> time r" by (auto simp: less_eq_prod_def)
qed

section \<open>Equal artifacts\<close>

lemma map_of_sorted_pairs: "map_of (sort_key fst (d :: ('k::linorder \<times> 'v) list)) k = map_of d k"
proof -
  have head: "map_of xs k = (case filter (\<lambda>p. fst p = k) xs of [] \<Rightarrow> None | p # _ \<Rightarrow> Some (snd p))" for xs :: "('k \<times> 'v) list"
    by (induction xs) auto
  show ?thesis unfolding head[of d] head[of "sort_key fst d"] sort_key_stable ..
qed

lemma map_of_map_value: "map_of (map (\<lambda>(k, v). (k, f v)) d) k = map_option f (map_of d k)"
  by (induction d) auto

lemma py_eq_dict_text:
  assumes "py_eq (PDict d) (PDict e)" "dget e k = PStr s"
  shows "dget d k = PStr s"
proof -
  have "map_of (sort_key fst (map (\<lambda>(k, v). (k, py_norm v)) d)) k = map_of (sort_key fst (map (\<lambda>(k, v). (k, py_norm v)) e)) k"
    using assms(1) by (simp add: py_eq_def)
  then have "map_option py_norm (map_of d k) = map_option py_norm (map_of e k)"
    unfolding map_of_sorted_pairs map_of_map_value .
  then obtain v where v: "map_of d k = Some v" "py_norm v = py_norm (PStr s)"
    using assms(2) by (auto simp: dget_def map_option_case split: option.splits)
  then have "v = PStr s" using py_eq_PStr[of v s] by (simp add: py_eq_def)
  then show ?thesis using v(1) by (simp add: dget_def)
qed

section \<open>The edit and the workspace behind a passed closure\<close>

lemma loaded:
  assumes "load_evidence env db i = Inr e"
  obtains o' where "find_orchestration db i = Some o'"
    "cv_edit_result (cv_evidence e) = map_option edit_result_dict (latest_edit_result env db o')"
    "cv_changed_line_coverage (cv_evidence e) = map_option er_changed_line_coverage (latest_edit_result env db o')"
    "cv_verification_only (cv_evidence e) = (case Option.bind (latest_edit_result env db o') (result_packet db) of
       None \<Rightarrow> False | Some p \<Rightarrow> \<not> truthy (pk_editable_files p))"
    "cv_workspace_root e = Option.bind (Option.bind (latest_edit_result env db o') (result_packet db)) (registered_workspace db)"
proof -
  obtain o' where o: "find_orchestration db i = Some o'"
    using assms by (auto simp: load_evidence_def split: option.splits)
  have "cv_edit_result (cv_evidence e) = map_option edit_result_dict (latest_edit_result env db o')
    \<and> cv_changed_line_coverage (cv_evidence e) = map_option er_changed_line_coverage (latest_edit_result env db o')
    \<and> cv_verification_only (cv_evidence e) = (case Option.bind (latest_edit_result env db o') (result_packet db) of
       None \<Rightarrow> False | Some p \<Rightarrow> \<not> truthy (pk_editable_files p))
    \<and> cv_workspace_root e = Option.bind (Option.bind (latest_edit_result env db o') (result_packet db)) (registered_workspace db)"
    using assms unfolding load_evidence_def o option.case Let_def rbind_eq_Inr by (elim exE conjE) auto
  then show ?thesis using that[OF o] by blast
qed

lemma closed:
  assumes "close_change env now i actor db = Inr (db', a, rec)"
  obtains e current reason where "load_evidence env db i = Inr e" "workspace_evidence_status env e = Inr (current, reason)"
    "evaluate_closure (ee_validate_artifact (cn_edit env)) (cn_tables env)
       ((cv_evidence e)\<lparr>cv_workspace_evidence_current := current, cv_workspace_evidence_reason := reason\<rparr>) = Inr a"
    "persist_closure env now (cv_evidence e) a actor db = Inr (db', rec)"
  using assms by (auto simp: close_change_def rbind_eq_Inr split: prod.splits)

lemma current_workspace:
  assumes "workspace_evidence_status env e = Inr (True, reason)" "cv_workspace_root e = Some ws" "ws \<noteq> []"
    and "cv_edit_result (cv_evidence e) = Some (edit_result_dict r)"
  shows "\<exists>inspected. inspect_committed (ee_git (cn_edit env)) ws (er_base_repository_revision r)
      (cv_verification_only (cv_evidence e)) = Inr inspected
    \<and> gd_result_sha inspected = Some (case er_result_repository_revision r of
        Some s \<Rightarrow> if s = [] then er_base_repository_revision r else s | None \<Rightarrow> er_base_repository_revision r)"
  using assms
  by (auto simp: workspace_evidence_status_def edit_result_dict_def dindex_def py_or_def split: sum.splits exn.splits
    option.splits if_splits)

lemma passed_edit:
  assumes "edit_evidence v" "cv_edit_result v = map_option edit_result_dict row"
  shows "\<exists>r. row = Some r \<and> er_validation_mode r = ''committed'' \<and> er_tests_passed r = Some True
    \<and> er_out_of_scope_files r = [] \<and> er_command_evidence_status r = ''verified''
    \<and> (er_status r = ''in_scope'' \<or> er_status r = ''no_changes'' \<and> cv_verification_only v)"
  using assms by (auto simp: edit_evidence_def edit_result_dict_def get_str_def split: option.splits)

text \<open>The row a closure rests on: the latest result of the orchestration's edits, and its packet.\<close>

definition closure_basis ::
    "closure_env \<Rightarrow> closure_db \<Rightarrow> orchestration_row \<Rightarrow> edit_result_row \<Rightarrow> packet_row \<Rightarrow> bool" where
  "closure_basis env db o' r p \<longleftrightarrow>
    r \<in> set (ed_results (cb_edit db)) \<and> result_of_orchestration db o' r \<and> result_packet db r = Some p
    \<and> (\<forall>q\<in>set (ed_results (cb_edit db)). result_of_orchestration db o' q \<longrightarrow>
        cb_recorded_at db (er_edit_result_id q) \<le> cb_recorded_at db (er_edit_result_id r))"

lemma latest_edit_basis:
  assumes "latest_edit_result env db o' = Some r"
  obtains p where "closure_basis env db o' r p"
proof -
  have r: "r \<in> set (ed_results (cb_edit db))" "result_of_orchestration db o' r"
    and latest: "\<And>q. q \<in> set (ed_results (cb_edit db)) \<Longrightarrow> result_of_orchestration db o' q \<Longrightarrow>
        cb_recorded_at db (er_edit_result_id q) \<le> cb_recorded_at db (er_edit_result_id r)"
    using latest_row[OF assms[unfolded latest_edit_result_def]] by blast+
  obtain p where "result_packet db r = Some p"
    using r(2) by (auto simp: result_of_orchestration_def split: option.splits)
  then show ?thesis using that r latest unfolding closure_basis_def by blast
qed

text \<open>What a passed closure asks of that row: a committed result in scope (or of a packet that edits nothing),
  with passed tests and coverage; and, where a non-empty workspace root is registered, a workspace that Git
  reports clean at its revision (the code asks nothing of a repository without one).\<close>

definition edit_stands :: "closure_env \<Rightarrow> closure_db \<Rightarrow> edit_result_row \<Rightarrow> packet_row \<Rightarrow> bool" where
  "edit_stands env db r p \<longleftrightarrow>
    er_validation_mode r = ''committed'' \<and> er_tests_passed r = Some True \<and> er_out_of_scope_files r = []
    \<and> er_command_evidence_status r = ''verified''
    \<and> (er_status r = ''in_scope'' \<or> er_status r = ''no_changes'' \<and> \<not> truthy (pk_editable_files p))
    \<and> (\<exists>st. dindex (er_changed_line_coverage r) ''status'' = Inr st \<and> py_str st \<notin> {''missing'', ''failed''})
    \<and> (case registered_workspace db p of None \<Rightarrow> True | Some ws \<Rightarrow> ws = []
        \<or> (\<exists>inspected. inspect_committed (ee_git (cn_edit env)) ws (er_base_repository_revision r)
            (\<not> truthy (pk_editable_files p)) = Inr inspected
          \<and> gd_result_sha inspected = Some (case er_result_repository_revision r of
              Some s \<Rightarrow> if s = [] then er_base_repository_revision r else s | None \<Rightarrow> er_base_repository_revision r)))"

lemma passed_closure_edit:
  assumes "close_change env now i actor db = Inr (db', a, rec)" "dget a ''status'' = PStr ''passed''"
  obtains o' r p where "find_orchestration db i = Some o'" "closure_basis env db o' r p" "edit_stands env db r p"
proof -
  obtain e current reason where run: "load_evidence env db i = Inr e"
      "workspace_evidence_status env e = Inr (current, reason)"
      "evaluate_closure (ee_validate_artifact (cn_edit env)) (cn_tables env)
       ((cv_evidence e)\<lparr>cv_workspace_evidence_current := current, cv_workspace_evidence_reason := reason\<rparr>) = Inr a"
    by (rule closed[OF assms(1)]) blast
  let ?v = "(cv_evidence e)\<lparr>cv_workspace_evidence_current := current, cv_workspace_evidence_reason := reason\<rparr>"
  obtain o' where o: "find_orchestration db i = Some o'"
      "cv_edit_result (cv_evidence e) = map_option edit_result_dict (latest_edit_result env db o')"
      "cv_changed_line_coverage (cv_evidence e) = map_option er_changed_line_coverage (latest_edit_result env db o')"
      "cv_verification_only (cv_evidence e) = (case Option.bind (latest_edit_result env db o') (result_packet db) of
         None \<Rightarrow> False | Some p \<Rightarrow> \<not> truthy (pk_editable_files p))"
      "cv_workspace_root e = Option.bind (Option.bind (latest_edit_result env db o') (result_packet db)) (registered_workspace db)"
    by (rule loaded[OF run(1)])
  obtain j where j: "judge_closure (cn_tables env) ?v = Inr j" "closure_artifact (cn_tables env) ?v j = Inr a"
    by (rule evaluated[OF run(3)]) blast
  have "cl_status j = ''passed''" using closure_artifact_fields(1)[OF j(2)] assms(2) by simp
  then have complete: "edit_evidence ?v" "line_evidence ?v" "current"
    using judged_complete(1)[OF j(1)] unfolding closure_complete_def by auto
  obtain r where r: "latest_edit_result env db o' = Some r" "er_validation_mode r = ''committed''"
      "er_tests_passed r = Some True" "er_out_of_scope_files r = []" "er_command_evidence_status r = ''verified''"
      "er_status r = ''in_scope'' \<or> er_status r = ''no_changes'' \<and> cv_verification_only ?v"
    using passed_edit[OF complete(1), of "latest_edit_result env db o'"] o(2) by auto
  obtain p where basis: "closure_basis env db o' r p" by (rule latest_edit_basis[OF r(1)])
  then have packet: "result_packet db r = Some p" by (simp add: closure_basis_def)
  have only: "cv_verification_only (cv_evidence e) = (\<not> truthy (pk_editable_files p))" using o(4) r(1) packet by simp
  have "\<exists>st. dindex (er_changed_line_coverage r) ''status'' = Inr st \<and> py_str st \<notin> {''missing'', ''failed''}"
    using complete(2) o(3) r(1) by (simp add: line_evidence_def)
  moreover have "case registered_workspace db p of None \<Rightarrow> True | Some ws \<Rightarrow> ws = []
        \<or> (\<exists>inspected. inspect_committed (ee_git (cn_edit env)) ws (er_base_repository_revision r)
            (\<not> truthy (pk_editable_files p)) = Inr inspected
          \<and> gd_result_sha inspected = Some (case er_result_repository_revision r of
              Some s \<Rightarrow> if s = [] then er_base_repository_revision r else s | None \<Rightarrow> er_base_repository_revision r))"
  proof (cases "registered_workspace db p")
    case (Some ws)
    have "workspace_evidence_status env e = Inr (True, reason)" using run(2) complete(3) by simp
    from current_workspace[OF this, of ws r] show ?thesis using o(2,5) r(1) packet only Some by auto
  qed simp
  ultimately have "edit_stands env db r p" using r(2-6) only unfolding edit_stands_def by auto
  then show ?thesis using that o(1) basis by blast
qed

text \<open>(C5) A passed closure rests on the recorded edit.  There is a row of the
  edit ledger that is the latest result of the edits of the orchestration's report; it is a committed one in
  scope, with no file outside, verified command evidence and passed tests (or it changed nothing, under a
  packet that edits nothing); its stored coverage is neither missing nor failed.  If the repository of its packet
  is registered with a non-empty workspace root, Git reports that workspace clean at that very moment, with
  its HEAD at the revision the result records; without one the code does not look, and nothing is claimed.\<close>

theorem passed_closure_rests_on_the_recorded_edit:
  assumes "close_change env now i actor db = Inr (db', a, rec)" "dget a ''status'' = PStr ''passed''"
  shows "\<exists>o' r p. find_orchestration db i = Some o' \<and> closure_basis env db o' r p \<and> edit_stands env db r p"
  by (rule passed_closure_edit[OF assms]) blast

section \<open>Reading a closure back\<close>

lemma closure_read:
  assumes "required_artifact env db i ''ChangeClosureResult'' = Inr c"
  obtains artifact where "get_artifact (cn_edit env) (cb_edit db) i = Inr (Some artifact)"
    "dget artifact ''artifact_type'' = PStr ''ChangeClosureResult''"
    "dget artifact ''schema_version'' \<in> {PStr ''v1'', PStr ''v2''}"
    "\<exists>projected. project_change_closure_result artifact = Inr projected
      \<and> (drift_reasons db artifact i = [] \<and> c = projected
         \<or> drift_reasons db artifact i \<noteq> [] \<and> (\<exists>items. c = dict_updated projected [(''compatibility_status'', PStr ''stale''),
             (''status'', PStr ''blocked''), (''unresolved_items'', items)]))"
proof -
  obtain found where found: "get_artifact (cn_edit env) (cb_edit db) i = Inr found"
      "map_option (\<lambda>a. dget a ''artifact_type'') found = Some (PStr ''ChangeClosureResult'')"
    and rest: "rbind (project_change_closure_result (the found)) (\<lambda>projected.
      let reasons = drift_reasons db (the found) i
      in if reasons = [] then Inr projected
         else rbind (items_of (PDict projected) ''unresolved_items'') (\<lambda>items.
           Inr (dict_updated projected
             [(''compatibility_status'', PStr ''stale''), (''status'', PStr ''blocked''),
              (''unresolved_items'', PStrs (sorted_set (texts items @ map ((@) ''Profile drift: '') reasons)))]))) = Inr c"
    using assms by (auto simp: required_artifact_def rbind_eq_Inr split: if_splits)
  then obtain artifact where a: "found = Some artifact" "dget artifact ''artifact_type'' = PStr ''ChangeClosureResult''" by auto
  obtain projected where p: "project_change_closure_result artifact = Inr projected"
    using rest a(1) by (auto simp: rbind_eq_Inr)
  have "dget artifact ''schema_version'' \<in> {PStr ''v1'', PStr ''v2''}"
    using p by (auto simp: project_change_closure_result_def split: if_splits)
  moreover have "\<exists>projected. project_change_closure_result artifact = Inr projected
      \<and> (drift_reasons db artifact i = [] \<and> c = projected
         \<or> drift_reasons db artifact i \<noteq> [] \<and> (\<exists>items. c = dict_updated projected [(''compatibility_status'', PStr ''stale''),
             (''status'', PStr ''blocked''), (''unresolved_items'', items)]))"
    using rest a(1) p by (auto simp: rbind_eq_Inr Let_def split: if_splits)
  ultimately show ?thesis using that found(1) a by blast
qed

lemma map_of_dict_updated: "map_of (dict_updated d news) k = (case map_of news k of Some v \<Rightarrow> Some v | None \<Rightarrow> map_of d k)"
proof -
  have d: "map_of (map (\<lambda>(k, v). (k, case map_of news k of Some w \<Rightarrow> w | None \<Rightarrow> v)) d) k
      = map_option (\<lambda>v. case map_of news k of Some w \<Rightarrow> w | None \<Rightarrow> v) (map_of d k)"
    by (induction d) (auto simp: split_beta)
  have n: "map_of (filter (\<lambda>(k, _). k \<notin> K) news) k = (if k \<in> K then None else map_of news k)" for K
    by (induction news) auto
  have m: "k \<in> fst ` set d \<longleftrightarrow> map_of d k \<noteq> None" by (simp add: map_of_eq_None_iff)
  show ?thesis
    unfolding dict_updated_def map_of_append map_add_def d n m
    by (cases "map_of d k") (auto split: option.splits)
qed

lemma dget_dict_updated: "dget (dict_updated d news) k = (case map_of news k of Some v \<Rightarrow> v | None \<Rightarrow> dget d k)"
  by (simp add: dget_def map_of_dict_updated split: option.splits)

lemma read_as_passed:
  assumes "required_artifact env db i ''ChangeClosureResult'' = Inr c" "dget c ''status'' = PStr ''passed''"
  shows "get_artifact (cn_edit env) (cb_edit db) i = Inr (Some c) \<and> dget c ''schema_version'' = PStr ''v2''
    \<and> drift_reasons db c i = []"
proof -
  obtain artifact projected where a: "get_artifact (cn_edit env) (cb_edit db) i = Inr (Some artifact)"
      "project_change_closure_result artifact = Inr projected"
      "drift_reasons db artifact i = [] \<and> c = projected
       \<or> (\<exists>items. c = dict_updated projected [(''compatibility_status'', PStr ''stale''),
             (''status'', PStr ''blocked''), (''unresolved_items'', items)])"
    by (rule closure_read[OF assms(1)]) blast
  have clean: "drift_reasons db artifact i = []" "c = projected"
    using a(3) assms(2) by (auto simp: dget_dict_updated)
  have "dget artifact ''schema_version'' = PStr ''v2'' \<and> projected = artifact"
    using a(2) clean(2) assms(2)
    by (auto simp: project_change_closure_result_def rbind_eq_Inr dget_dict_updated split: if_splits)
  then show ?thesis using a(1) clean by blast
qed

text \<open>What reads back as passed is passed.  When the closure read for an orchestration says \<open>passed\<close>,
  it is the unchanged stored artifact of its latest closure row, of schema \<open>v2\<close>, it says so itself, and no
  profile drift of it is open: an older schema and an open drift are both shown as not passed.\<close>

theorem closure_read_as_passed_is_current:
  assumes "latest_closure_for_orchestration env db i = Inr (Some c)" "dget c ''status'' = PStr ''passed''"
  shows "\<exists>row. row \<in> set (cb_closures db) \<and> cw_orchestration_id row = i
    \<and> (\<forall>q\<in>set (cb_closures db). cw_orchestration_id q = i \<longrightarrow> cw_created_at q \<le> cw_created_at row)
    \<and> get_artifact (cn_edit env) (cb_edit db) (cw_closure_result_id row) = Inr (Some c)
    \<and> dget c ''schema_version'' = PStr ''v2''
    \<and> drift_reasons db c (cw_closure_result_id row) = []"
proof -
  obtain row where row: "latest_closure_row env (\<lambda>r. cw_orchestration_id r = i) db = Some row"
      "required_artifact env db (cw_closure_result_id row) ''ChangeClosureResult'' = Inr c"
    using assms(1) by (auto simp: latest_closure_for_orchestration_def rbind_eq_Inr split: option.splits)
  note latest = latest_row[OF row(1)[unfolded latest_closure_row_def]]
  then show ?thesis using read_as_passed[OF row(2) assms(2)] by blast
qed

section \<open>Recording\<close>

text \<open>A store whose rows never change: what was put is found from then on, and putting it again is accepted
  without effect.\<close>

locale immutable_store =
  fixes put :: "'w \<Rightarrow> 's \<Rightarrow> 's result"
    and get :: "'s \<Rightarrow> 'k \<Rightarrow> 'r option"
    and key :: "'w \<Rightarrow> 'k"
    and holds :: "'w \<Rightarrow> 'r \<Rightarrow> bool"
  assumes put_found: "put w s = Inr s' \<Longrightarrow> \<exists>r. get s' (key w) = Some r \<and> holds w r"
    and put_kept: "put w s = Inr s' \<Longrightarrow> get s k = Some r \<Longrightarrow> get s' k = Some r"
    and put_replayed: "put w s = Inr s' \<Longrightarrow> put w s' = Inr s'"
begin

fun put_all :: "'w list \<Rightarrow> 's \<Rightarrow> 's result" where
  "put_all [] s = Inr s"
| "put_all (w # ws) s = rbind (put w s) (put_all ws)"

lemma put_all_kept: "put_all ws s = Inr s' \<Longrightarrow> get s k = Some r \<Longrightarrow> get s' k = Some r"
  by (induction ws arbitrary: s) (auto simp: rbind_eq_Inr dest: put_kept)

lemma first_content_stays:
  assumes "put w s = Inr s'" "put_all ws s' = Inr s''"
  shows "\<exists>r. get s' (key w) = Some r \<and> get s'' (key w) = Some r \<and> holds w r"
  using put_found[OF assms(1)] put_all_kept[OF assms(2)] by blast

end

lemma stored_once:
  assumes "store_artifact env i p c a db = Inr db'"
  shows "store_artifact env i p c a db' = Inr db'"
    "\<exists>rows. db' = db\<lparr>ed_artifacts := ed_artifacts db @ rows\<rparr> \<and> (\<forall>r\<in>set rows. dindex a ''artifact_type'' = Inr (ar_artifact_type r))"
    "\<exists>r. find_artifact db' i = Some r \<and> (\<forall>k s. dget a k = PStr s \<longrightarrow> dget (ar_payload r) k = PStr s)"
proof -
  obtain ty version where a: "\<not> blank i" "\<not> blank p" "scope_matches (dget a ''project_id'') (Some p)"
      "scope_matches (dget a ''analysis_case_id'') (Some c)" "ee_validate_artifact env a = Inr ()"
      "\<exists>q. find_case db c = Some q \<and> ca_project_id q = p"
      "dindex a ''artifact_type'' = Inr ty" "dindex a ''schema_version'' = Inr version"
    and stored: "find_artifact db i = None \<and> db' = db\<lparr>ed_artifacts := ed_artifacts db @ [\<lparr>ar_artifact_id = i,
          ar_artifact_type = ty, ar_schema_version = version, ar_project_id = p, ar_analysis_case_id = Some c,
          ar_payload = a, ar_payload_digest = canonical_digest (PDict a)\<rparr>]\<rparr>
      \<or> (\<exists>r. find_artifact db i = Some r \<and> py_eq (ar_artifact_type r) ty \<and> py_eq (ar_schema_version r) version
          \<and> ar_project_id r = p \<and> ar_analysis_case_id r = Some c \<and> py_eq (PDict (ar_payload r)) (PDict a)
          \<and> ar_payload_digest r = canonical_digest (PDict a) \<and> db' = db)"
    using assms
    by (cases "find_artifact db i") (auto simp: store_artifact_def rbind_eq_Inr Let_def split: if_splits option.splits)
  have cases: "find_case db' c = find_case db c"
    using stored by (auto simp: find_case_def split: option.splits if_splits)
  obtain r where r: "find_artifact db' i = Some r" "py_eq (ar_artifact_type r) ty" "py_eq (ar_schema_version r) version"
      "ar_project_id r = p" "ar_analysis_case_id r = Some c" "py_eq (PDict (ar_payload r)) (PDict a)"
      "ar_payload_digest r = canonical_digest (PDict a)"
    using stored by (auto simp: find_artifact_def find_fresh)
  show "store_artifact env i p c a db' = Inr db'"
    using a r by (auto simp: store_artifact_def cases)
  show "\<exists>rows. db' = db\<lparr>ed_artifacts := ed_artifacts db @ rows\<rparr> \<and> (\<forall>r\<in>set rows. dindex a ''artifact_type'' = Inr (ar_artifact_type r))"
  proof (cases "find_artifact db i")
    case None
    then show ?thesis using stored a(7) by (intro exI[of _ "[_]"]) auto
  next
    case Some
    then show ?thesis using stored by (intro exI[of _ "[]"]) (auto split: if_splits)
  qed
  show "\<exists>r. find_artifact db' i = Some r \<and> (\<forall>k s. dget a k = PStr s \<longrightarrow> dget (ar_payload r) k = PStr s)"
    using r(1) py_eq_dict_text[OF r(6)] by blast
qed

text \<open>The artifact table: a row found for an artifact equals it, whoever stored it first.\<close>

interpretation artifacts: immutable_store "\<lambda>(i, p, c, a). store_artifact env i p c a" find_artifact
  "\<lambda>(i, p, c, a). i" "\<lambda>(i, p, c, a) r. \<forall>k s. dget a k = PStr s \<longrightarrow> dget (ar_payload r) k = PStr s" for env
proof (unfold_locales, goal_cases)
  case (1 w s s')
  then show ?case using stored_once(3) by (cases w) fastforce
next
  case (2 w s s' k r)
  then show ?case
    using stored_once(2) by (cases w) (force simp: find_artifact_def find_appended)
next
  case (3 w s s')
  then show ?case using stored_once(1) by (cases w) simp
qed

lemma inserted_closure:
  assumes "insert_closure r db = Inr (db', created)"
  shows "\<exists>rows. db' = db\<lparr>cb_closures := cb_closures db @ rows\<rparr>" "(cw_status r = ''passed'') = (cw_unresolved_items r = [])"
    "find_closure db' (cw_closure_result_id r) \<noteq> None \<Longrightarrow>
      cw_orchestration_id q = cw_orchestration_id r \<Longrightarrow> cw_created_by q = cw_created_by r \<Longrightarrow> cw_status q = cw_status r \<Longrightarrow>
      cw_unresolved_items q = cw_unresolved_items r \<Longrightarrow> cw_closure_result_id q = cw_closure_result_id r \<Longrightarrow>
      insert_closure q db' = Inr (db', False)"
proof -
  show "\<exists>rows. db' = db\<lparr>cb_closures := cb_closures db @ rows\<rparr>"
  proof (cases created)
    case True
    then show ?thesis using assms by (intro exI[of _ "[r]"]) (auto simp: insert_closure_def split: if_splits)
  next
    case False
    then show ?thesis using assms by (intro exI[of _ "[]"]) (auto simp: insert_closure_def split: if_splits)
  qed
  show "(cw_status r = ''passed'') = (cw_unresolved_items r = [])"
    using assms by (auto simp: insert_closure_def split: if_splits)
  assume "find_closure db' (cw_closure_result_id r) \<noteq> None" "cw_orchestration_id q = cw_orchestration_id r"
    "cw_created_by q = cw_created_by r" "cw_status q = cw_status r" "cw_unresolved_items q = cw_unresolved_items r"
    "cw_closure_result_id q = cw_closure_result_id r"
  moreover from this(1) have "list_ex (\<lambda>x. cw_closure_result_id x = cw_closure_result_id r) (cb_closures db')"
    by (auto simp: find_closure_def find_None_iff list_ex_iff)
  ultimately show "insert_closure q db' = Inr (db', False)"
    using assms by (auto simp: insert_closure_def list_ex_iff split: if_splits)
qed

lemma persisted:
  assumes "persist_closure env now v a actor db = Inr (db', rec)"
  obtains identity edit created row where "\<not> blank actor" "closure_identity_of v a actor = Inr identity"
    "index_text (PDict a) ''closure_result_id'' = Inr (cc_closure_result_id rec)"
    "store_artifact (cn_edit env) (cc_closure_result_id rec) (cw_project_id identity) (cw_analysis_case_id identity) a (cb_edit db)
       = Inr edit"
    "insert_closure (closure_identity.extend identity \<lparr>cw_closure_result_id = cc_closure_result_id rec, cw_created_at = now\<rparr>)
       (db\<lparr>cb_edit := edit\<rparr>) = Inr (db', created)"
    "find_closure db' (cc_closure_result_id rec) = Some row" "identity_of_row row = identity"
    "rec = \<lparr>cc_closure_result_id = cc_closure_result_id rec, cc_status = cw_status identity,
       cc_created_at = cw_created_at row, cc_created = created\<rparr>"
  using assms by (auto simp: persist_closure_def rbind_eq_Inr split: if_splits prod.splits option.splits)

lemma extend_fields [simp]:
  "cw_status (closure_identity.extend identity x) = cw_status identity"
  "cw_unresolved_items (closure_identity.extend identity x) = cw_unresolved_items identity"
  "cw_orchestration_id (closure_identity.extend identity x) = cw_orchestration_id identity"
  "cw_created_by (closure_identity.extend identity x) = cw_created_by identity"
  "cw_closure_result_id (closure_identity.extend identity \<lparr>cw_closure_result_id = i, cw_created_at = t\<rparr>) = i"
  "cw_created_at (closure_identity.extend identity \<lparr>cw_closure_result_id = i, cw_created_at = t\<rparr>) = t"
  by (cases identity, simp add: closure_identity.defs)+

lemma persisted_artifact:
  assumes "persist_closure env now v a actor db = Inr (db', rec)"
  shows "\<exists>rows closures. db' = db\<lparr>cb_edit := (cb_edit db)\<lparr>ed_artifacts := ed_artifacts (cb_edit db) @ rows\<rparr>,
      cb_closures := cb_closures db @ closures\<rparr> \<and> (\<forall>r\<in>set rows. dindex a ''artifact_type'' = Inr (ar_artifact_type r))"
    "dget a k = PStr s \<Longrightarrow> \<exists>r. find_artifact (cb_edit db') (cc_closure_result_id rec) = Some r \<and> dget (ar_payload r) k = PStr s"
proof -
  obtain identity edit created where p: "store_artifact (cn_edit env) (cc_closure_result_id rec) (cw_project_id identity)
        (cw_analysis_case_id identity) a (cb_edit db) = Inr edit"
      "insert_closure (closure_identity.extend identity \<lparr>cw_closure_result_id = cc_closure_result_id rec, cw_created_at = now\<rparr>)
        (db\<lparr>cb_edit := edit\<rparr>) = Inr (db', created)"
    by (rule persisted[OF assms]) blast
  obtain closures where db': "db' = db\<lparr>cb_edit := edit, cb_closures := cb_closures db @ closures\<rparr>"
    using inserted_closure(1)[OF p(2)] by auto
  show "\<exists>rows closures. db' = db\<lparr>cb_edit := (cb_edit db)\<lparr>ed_artifacts := ed_artifacts (cb_edit db) @ rows\<rparr>,
      cb_closures := cb_closures db @ closures\<rparr> \<and> (\<forall>r\<in>set rows. dindex a ''artifact_type'' = Inr (ar_artifact_type r))"
    using stored_once(2)[OF p(1)] db' by blast
  show "dget a k = PStr s \<Longrightarrow> \<exists>r. find_artifact (cb_edit db') (cc_closure_result_id rec) = Some r \<and> dget (ar_payload r) k = PStr s"
    using stored_once(3)[OF p(1)] db' by auto
qed

section \<open>Histories\<close>

text \<open>A step closes a change, at any instant and in any environment, or changes the other tables in any way that
  keeps the stored artifacts: the program never updates or deletes a row of \<open>artifact_records\<close> or of
  \<open>change_closure_results\<close>, and closures are inserted by the closing alone.\<close>

inductive closure_step :: "closure_db \<Rightarrow> closure_db \<Rightarrow> bool" where
  closing: "close_change env now i actor db = Inr (db', v) \<Longrightarrow> closure_step db db'"
| elsewhere: "cb_closures db' = cb_closures db
     \<Longrightarrow> (\<And>k r. find_artifact (cb_edit db) k = Some r \<Longrightarrow> find_artifact (cb_edit db') k = Some r)
     \<Longrightarrow> closure_step db db'"

inductive closure_reachable :: "closure_db \<Rightarrow> bool" where
  no_closures: "cb_closures db = [] \<Longrightarrow> closure_reachable db"
| closure_more: "closure_reachable db \<Longrightarrow> closure_step db db' \<Longrightarrow> closure_reachable db'"

lemma closing_keeps:
  assumes "close_change env now i actor db = Inr (db', v)" "find_artifact (cb_edit db) k = Some r"
  shows "find_artifact (cb_edit db') k = Some r"
proof -
  obtain a rec where v: "v = (a, rec)" by (cases v)
  obtain e :: closure_evidence where "persist_closure env now (cv_evidence e) a actor db = Inr (db', rec)"
    by (rule closed[OF assms(1)[unfolded v]]) (rule that)
  then obtain rows where "ed_artifacts (cb_edit db') = ed_artifacts (cb_edit db) @ rows"
    using persisted_artifact(1) by force
  then show ?thesis using assms(2) by (simp add: find_artifact_def find_appended)
qed

lemma step_keeps_artifact:
  "closure_step db db' \<Longrightarrow> find_artifact (cb_edit db) k = Some r \<Longrightarrow> find_artifact (cb_edit db') k = Some r"
  by (induction rule: closure_step.induct) (auto intro: closing_keeps)

lemma steps_keep_artifact:
  "closure_step\<^sup>*\<^sup>* db db' \<Longrightarrow> find_artifact (cb_edit db) k = Some r \<Longrightarrow> find_artifact (cb_edit db') k = Some r"
  by (induction rule: rtranclp_induct) (auto intro: step_keeps_artifact)

lemma loaded_plan:
  assumes "load_evidence env db i = Inr e"
  shows "required_artifact env db i ''ChangeOrchestrationPlan'' = Inr (cv_orchestration (cv_evidence e))"
proof -
  obtain o' where o: "find_orchestration db i = Some o'" using assms by (auto simp: load_evidence_def split: option.splits)
  show ?thesis using assms unfolding load_evidence_def o option.case Let_def rbind_eq_Inr by (elim exE conjE) auto
qed

text \<open>A row is the record of a closing: one that was made in a reachable state, of an orchestration whose plan
  names the one of the row, and whose artifact is the one stored under the identity of the row.\<close>

definition records_closing :: "closure_db \<Rightarrow> closure_row \<Rightarrow> bool" where
  "records_closing db row \<longleftrightarrow> (\<exists>env now i actor before after a rec plan r.
    closure_reachable before \<and> close_change env now i actor before = Inr (after, a, rec)
    \<and> row \<in> set (cb_closures after) \<and> cw_closure_result_id row = cc_closure_result_id rec
    \<and> required_artifact env before i ''ChangeOrchestrationPlan'' = Inr plan
    \<and> index_text (PDict plan) ''orchestration_id'' = Inr (cw_orchestration_id row)
    \<and> find_artifact (cb_edit db) (cw_closure_result_id row) = Some r
    \<and> (\<forall>k s. dget a k = PStr s \<longrightarrow> dget (ar_payload r) k = PStr s))"

lemma closing_records:
  assumes "closure_reachable db" "close_change env now i actor db = Inr (db', a, rec)" "row \<in> set (cb_closures db')"
  shows "row \<in> set (cb_closures db) \<or> records_closing db' row"
proof (cases "row \<in> set (cb_closures db)")
  case False
  obtain e :: closure_evidence where run: "load_evidence env db i = Inr e"
      "persist_closure env now (cv_evidence e) a actor db = Inr (db', rec)"
    by (rule closed[OF assms(2)]) (rule that)
  obtain identity edit created where p: "closure_identity_of (cv_evidence e) a actor = Inr identity"
      "store_artifact (cn_edit env) (cc_closure_result_id rec) (cw_project_id identity) (cw_analysis_case_id identity) a (cb_edit db)
        = Inr edit"
      "insert_closure (closure_identity.extend identity \<lparr>cw_closure_result_id = cc_closure_result_id rec, cw_created_at = now\<rparr>)
        (db\<lparr>cb_edit := edit\<rparr>) = Inr (db', created)"
    by (rule persisted[OF run(2)]) (rule that)
  have row: "row = closure_identity.extend identity \<lparr>cw_closure_result_id = cc_closure_result_id rec, cw_created_at = now\<rparr>"
    using p(3) assms(3) False by (auto simp: insert_closure_def split: if_splits)
  have "cb_edit db' = edit" using inserted_closure(1)[OF p(3)] by auto
  then obtain r where r: "find_artifact (cb_edit db') (cc_closure_result_id rec) = Some r"
      "\<forall>k s. dget a k = PStr s \<longrightarrow> dget (ar_payload r) k = PStr s"
    using stored_once(3)[OF p(2)] by auto
  have "index_text (PDict (cv_orchestration (cv_evidence e))) ''orchestration_id'' = Inr (cw_orchestration_id identity)"
    using p(1) by (auto simp: closure_identity_of_def rbind_eq_Inr Let_def)
  then show ?thesis
    using assms loaded_plan[OF run(1)] r unfolding records_closing_def row by force
qed simp

lemma records_kept:
  assumes "records_closing db row" "closure_step db db'"
  shows "records_closing db' row"
  using assms step_keeps_artifact[OF assms(2)] unfolding records_closing_def by blast

lemma reachable_records: "closure_reachable db \<Longrightarrow> row \<in> set (cb_closures db) \<Longrightarrow> records_closing db row"
proof (induction rule: closure_reachable.induct)
  case (closure_more db db')
  from closure_more.hyps(2) show ?case
  proof (cases rule: closure_step.cases)
    case (closing env now i actor v)
    then show ?thesis
      using closing_records[OF closure_more.hyps(1)] closure_more records_kept by (cases v) blast
  next
    case elsewhere
    then show ?thesis using closure_more records_kept by simp
  qed
qed simp

section \<open>A closure that cannot be read\<close>

lemma v3_artifact_unreadable:
  assumes "find_artifact (cb_edit db) i = Some r" "dget (ar_payload r) ''schema_version'' = PStr ''v3''"
  shows "\<exists>e. required_artifact env db i ''ChangeClosureResult'' = Inl e"
proof (rule ccontr)
  assume "\<not> ?thesis"
  then obtain c where "required_artifact env db i ''ChangeClosureResult'' = Inr c"
    by (cases "required_artifact env db i ''ChangeClosureResult''") auto
  then obtain artifact where read: "get_artifact (cn_edit env) (cb_edit db) i = Inr (Some artifact)"
      "dget artifact ''schema_version'' \<in> {PStr ''v1'', PStr ''v2''}"
    by (rule closure_read)
  have "artifact = ar_payload r"
    using read(1) assms(1) by (auto simp: get_artifact_def rbind_eq_Inr split: if_splits)
  then show False using read(2) assms(2) by simp
qed

text \<open>(C7) A closure over v3 test data can never be read back.  It is evaluated, stored and recorded like
  any other, but the compatibility projection knows \<open>v1\<close> and \<open>v2\<close> only.  In every later state and every
  environment, reading its artifact as a closure raises, and so do both queries of the repository, the one
  for an orchestration and the one for a change request, as long as the latest row they find is this one.\<close>

theorem v3_closure_cannot_be_read_back:
  assumes "close_change env now i actor db = Inr (db', a, rec)" "dget a ''schema_version'' = PStr ''v3''"
    and "closure_step\<^sup>*\<^sup>* db' later"
  shows "(\<exists>e. required_artifact env' later (cc_closure_result_id rec) ''ChangeClosureResult'' = Inl e)
    \<and> (\<forall>row. latest_closure_row env' (\<lambda>r. cw_orchestration_id r = k) later = Some row
        \<longrightarrow> cw_closure_result_id row = cc_closure_result_id rec
        \<longrightarrow> (\<exists>e. latest_closure_for_orchestration env' later k = Inl e))
    \<and> (\<forall>row. latest_closure_row env' (\<lambda>r. cw_change_request_id r = k) later = Some row
        \<longrightarrow> cw_closure_result_id row = cc_closure_result_id rec
        \<longrightarrow> (\<exists>e. latest_closure env' later k = Inl e))"
proof -
  obtain e :: closure_evidence where "persist_closure env now (cv_evidence e) a actor db = Inr (db', rec)"
    by (rule closed[OF assms(1)]) (rule that)
  then obtain r where "find_artifact (cb_edit db') (cc_closure_result_id rec) = Some r"
      "dget (ar_payload r) ''schema_version'' = PStr ''v3''"
    using persisted_artifact(2) assms(2) by blast
  then have "\<exists>e. required_artifact env' later (cc_closure_result_id rec) ''ChangeClosureResult'' = Inl e"
    using v3_artifact_unreadable steps_keep_artifact[OF assms(3)] by blast
  then show ?thesis by (auto simp: latest_closure_for_orchestration_def latest_closure_def)
qed

section \<open>A closure that cannot be recorded\<close>

text \<open>(C8) A verdict that is not passed and names nothing open is refused.  The evaluation can produce one
  (see the witness: a failed command suite under a plan of UI cases only), but the table demands that a
  closure is passed exactly when nothing is unresolved, so it is never recorded.\<close>

theorem failed_closure_with_nothing_open_is_refused:
  assumes "evaluate_closure validate_artifact u v = Inr a" "dget a ''status'' \<noteq> PStr ''passed''"
    and "dget a ''unresolved_items'' = PList []"
  shows "\<exists>e. persist_closure env now v a actor db = Inl e"
proof (rule ccontr)
  assume "\<not> ?thesis"
  then obtain db' rec where "persist_closure env now v a actor db = Inr (db', rec)"
    by (cases "persist_closure env now v a actor db") auto
  then obtain identity edit created where p: "closure_identity_of v a actor = Inr identity"
      "insert_closure (closure_identity.extend identity \<lparr>cw_closure_result_id = cc_closure_result_id rec, cw_created_at = now\<rparr>)
        (db\<lparr>cb_edit := edit\<rparr>) = Inr (db', created)"
    by (rule persisted) blast
  obtain j where j: "closure_artifact u v j = Inr a" by (rule evaluated[OF assms(1)]) blast
  have "cw_status identity = cl_status j" "cw_unresolved_items identity = map PStr (cl_unresolved j)"
    using p(1) closure_artifact_fields(1,2)[OF j]
    by (auto simp: closure_identity_of_def rbind_eq_Inr Let_def index_text_def index_items_def dest!: dindex_dget)
  then have "(cl_status j = ''passed'') = (cl_unresolved j = [])" using inserted_closure(2)[OF p(2)] by simp
  then show False using assms(2,3) closure_artifact_fields(1,2)[OF j] by simp
qed

theorem failed_closure_with_nothing_open_is_refused_witness:
  "\<exists>a. evaluate_closure (\<lambda>_. Inr ()) ascii_tables (demo_closure False False) = Inr a
    \<and> dget a ''status'' = PStr ''failed''
    \<and> (\<exists>e. persist_closure undefined 0 (demo_closure False False) a ''me'' undefined = Inl e)"
proof -
  obtain a where a: "closure_artifact ascii_tables (demo_closure False False) (demo_verdict False False) = Inr a"
      "evaluate_closure (\<lambda>_. Inr ()) ascii_tables (demo_closure False False) = Inr a"
    by (rule demo_evaluated)
  have "dget a ''status'' = PStr ''failed''" "dget a ''unresolved_items'' = PList []"
    using closure_artifact_fields(1,2)[OF a(1)] by (simp_all add: demo_verdict_def)
  then show ?thesis using failed_closure_with_nothing_open_is_refused[OF a(2)] a(2) by auto
qed

section \<open>Closing again\<close>

lemma required_kept:
  assumes "required_artifact env db i ty = Inr a" "ty \<noteq> ''ChangeClosureResult''"
    and "cb_edit db' = (cb_edit db)\<lparr>ed_artifacts := ed_artifacts (cb_edit db) @ rows\<rparr>"
  shows "required_artifact env db' i ty = Inr a"
proof -
  obtain found where found: "get_artifact (cn_edit env) (cb_edit db) i = Inr (Some found)"
      "dget found ''artifact_type'' = PStr ty" "a = found"
    using assms(1,2) by (auto simp: required_artifact_def rbind_eq_Inr split: if_splits)
  then have "find_artifact (cb_edit db') i = find_artifact (cb_edit db) i"
    using assms(3) by (auto simp: get_artifact_def find_artifact_def find_appended split: if_splits option.splits)
  then have "get_artifact (cn_edit env) (cb_edit db') i = get_artifact (cn_edit env) (cb_edit db) i"
    unfolding get_artifact_def by (simp only:)
  then have "get_artifact (cn_edit env) (cb_edit db') i = Inr (Some found)" using found(1) by (simp only:)
  then show ?thesis using found(2,3) assms(2) by (simp add: required_artifact_def)
qed

lemma evidence_kept:
  assumes "load_evidence env db i = Inr e"
    and "db' = db\<lparr>cb_edit := (cb_edit db)\<lparr>ed_artifacts := ed_artifacts (cb_edit db) @ rows\<rparr>,
      cb_closures := cb_closures db @ closures\<rparr>"
    and "\<forall>r\<in>set rows. ar_artifact_type r \<noteq> PStr ''UiVerificationResult''"
  shows "load_evidence env db' i = Inr e"
proof -
  have tables: "find_orchestration db' = find_orchestration db" "result_packet db' = result_packet db"
      "registered_workspace db' = registered_workspace db" "data_artifact_id env db' = data_artifact_id env db"
    using assms(2) by (auto simp: find_orchestration_def result_packet_def registered_workspace_def data_artifact_id_def fun_eq_iff)
  have "result_of_orchestration db' = result_of_orchestration db"
    by (simp add: result_of_orchestration_def tables(2) fun_eq_iff)
  moreover have "ed_results (cb_edit db') = ed_results (cb_edit db)" "cb_recorded_at db' = cb_recorded_at db"
    using assms(2) by simp_all
  ultimately have edits: "latest_edit_result env db' = latest_edit_result env db"
    by (intro ext) (simp only: latest_edit_result_def)
  have "filter (\<lambda>a. P a \<and> ar_artifact_type a = PStr ''UiVerificationResult'' \<and> Q a) rows = []" for P Q
    using assms(3) by (auto simp: filter_empty_conv)
  then have uis: "ui_artifact_id env db' = ui_artifact_id env db"
    using assms(2) assms(3) by (auto simp: ui_artifact_id_def fun_eq_iff filter_empty_conv)
  have "cb_edit db' = (cb_edit db)\<lparr>ed_artifacts := ed_artifacts (cb_edit db) @ rows\<rparr>" using assms(2) by simp
  note kept = required_kept[OF _ _ this]
  have optional: "optional_artifact env db' x ty = Inr a" if "optional_artifact env db x ty = Inr a"
      "ty \<noteq> ''ChangeClosureResult''" for x ty a
    using that kept by (auto simp: optional_artifact_def rbind_eq_Inr split: option.splits)
  obtain o' where o: "find_orchestration db i = Some o'" using assms(1) by (auto simp: load_evidence_def split: option.splits)
  show ?thesis
    using assms(1) unfolding load_evidence_def tables edits uis o option.case Let_def rbind_eq_Inr
    by (elim exE conjE) (intro exI conjI, (assumption | erule kept optional | simp)+)
qed

lemma identity_by_actor:
  "closure_identity_of v a actor = Inr identity \<Longrightarrow>
     closure_identity_of v a other = Inr (identity\<lparr>cw_created_by := other\<rparr>) \<and> cw_created_by identity = actor"
  by (auto simp: closure_identity_of_def rbind_eq_Inr Let_def)

lemma persist_again:
  assumes "persist_closure env now v a actor db = Inr (db', rec)"
  shows "persist_closure env later v a actor db' = Inr (db', rec\<lparr>cc_created := False\<rparr>)"
    "other \<noteq> actor \<Longrightarrow> \<exists>e. persist_closure env later v a other db' = Inl e"
proof -
  obtain identity edit created row where p: "\<not> blank actor" "closure_identity_of v a actor = Inr identity"
      "index_text (PDict a) ''closure_result_id'' = Inr (cc_closure_result_id rec)"
      "store_artifact (cn_edit env) (cc_closure_result_id rec) (cw_project_id identity) (cw_analysis_case_id identity) a (cb_edit db)
        = Inr edit"
      "insert_closure (closure_identity.extend identity \<lparr>cw_closure_result_id = cc_closure_result_id rec, cw_created_at = now\<rparr>)
        (db\<lparr>cb_edit := edit\<rparr>) = Inr (db', created)"
      "find_closure db' (cc_closure_result_id rec) = Some row" "identity_of_row row = identity"
      "rec = \<lparr>cc_closure_result_id = cc_closure_result_id rec, cc_status = cw_status identity,
        cc_created_at = cw_created_at row, cc_created = created\<rparr>"
    by (rule persisted[OF assms])
  have edit: "cb_edit db' = edit" using inserted_closure(1)[OF p(5)] by auto
  have stored: "store_artifact (cn_edit env) (cc_closure_result_id rec) (cw_project_id identity) (cw_analysis_case_id identity) a
      (cb_edit db') = Inr (cb_edit db')"
    unfolding edit using artifacts.put_replayed[of _ "(_, _, _, _)"] p(4) by simp
  have "insert_closure (closure_identity.extend identity \<lparr>cw_closure_result_id = cc_closure_result_id rec, cw_created_at = later\<rparr>) db'
      = Inr (db', False)"
    by (rule inserted_closure(3)[OF p(5)]) (use p(6) in simp_all)
  then show "persist_closure env later v a actor db' = Inr (db', rec\<lparr>cc_created := False\<rparr>)"
    using p(1,2,3,6,7) stored by (subst p(8)) (simp add: persist_closure_def)
  show "\<exists>e. persist_closure env later v a other db' = Inl e" if "other \<noteq> actor"
  proof (rule ccontr)
    assume "\<not> ?thesis"
    then obtain db2 rec2 where again: "persist_closure env later v a other db' = Inr (db2, rec2)"
      by (cases "persist_closure env later v a other db'") auto
    obtain identity2 edit2 created2 row2 where q: "closure_identity_of v a other = Inr identity2"
        "index_text (PDict a) ''closure_result_id'' = Inr (cc_closure_result_id rec2)"
        "insert_closure (closure_identity.extend identity2 \<lparr>cw_closure_result_id = cc_closure_result_id rec2, cw_created_at = later\<rparr>)
          (db'\<lparr>cb_edit := edit2\<rparr>) = Inr (db2, created2)"
        "find_closure db2 (cc_closure_result_id rec2) = Some row2" "identity_of_row row2 = identity2"
      by (rule persisted[OF again]) blast
    have same: "cc_closure_result_id rec2 = cc_closure_result_id rec" using p(3) q(2) by simp
    obtain more_rows where "cb_closures db2 = cb_closures db' @ more_rows" using inserted_closure(1)[OF q(3)] by auto
    then have "row2 = row" using p(6) q(4) same by (auto simp: find_closure_def find_appended)
    then have "identity2 = identity" using p(7) q(5) by simp
    then show False using identity_by_actor[OF p(2), of actor] identity_by_actor[OF q(1), of other] that by simp
  qed
qed

text \<open>(C6) A closure is recorded once.  Closing again on unchanged evidence by the same actor returns the same
  artifact and the first record, marked as not created, and changes nothing, whatever the time; by another
  actor it is refused, since the actor is part of the immutable identity although not of the result id.\<close>

theorem closing_again_changes_nothing:
  assumes "close_change env now i actor db = Inr (db', a, rec)"
  shows "close_change env later i actor db' = Inr (db', a, rec\<lparr>cc_created := False\<rparr>)
    \<and> (other \<noteq> actor \<longrightarrow> (\<exists>e. close_change env later i other db' = Inl e))"
proof -
  obtain e :: closure_evidence and current reason where run: "load_evidence env db i = Inr e"
      "workspace_evidence_status env e = Inr (current, reason)"
      "evaluate_closure (ee_validate_artifact (cn_edit env)) (cn_tables env)
       ((cv_evidence e)\<lparr>cv_workspace_evidence_current := current, cv_workspace_evidence_reason := reason\<rparr>) = Inr a"
      "persist_closure env now (cv_evidence e) a actor db = Inr (db', rec)"
    by (rule closed[OF assms])
  obtain j where "closure_artifact (cn_tables env)
       ((cv_evidence e)\<lparr>cv_workspace_evidence_current := current, cv_workspace_evidence_reason := reason\<rparr>) j = Inr a"
    by (rule evaluated[OF run(3)]) blast
  then have ty: "dget a ''artifact_type'' = PStr ''ChangeClosureResult''" by (rule closure_artifact_fields(3))
  obtain rows closures where db': "db' = db\<lparr>cb_edit := (cb_edit db)\<lparr>ed_artifacts := ed_artifacts (cb_edit db) @ rows\<rparr>,
      cb_closures := cb_closures db @ closures\<rparr>" and rows: "\<forall>r\<in>set rows. dindex a ''artifact_type'' = Inr (ar_artifact_type r)"
    using persisted_artifact(1)[OF run(4)] by blast
  have "ar_artifact_type r = PStr ''ChangeClosureResult''" if "r \<in> set rows" for r
    using dindex_dget[OF bspec[OF rows that]] ty by simp
  then have "\<forall>r\<in>set rows. ar_artifact_type r \<noteq> PStr ''UiVerificationResult''" by simp
  then have loaded: "load_evidence env db' i = Inr e" using evidence_kept[OF run(1) db'] by blast
  have again: "close_change env later i who db' = rbind (persist_closure env later (cv_evidence e) a who db')
      (\<lambda>(db', record). Inr (db', a, record))" for who
    by (simp add: close_change_def loaded run(2,3))
  show ?thesis
    unfolding again persist_again(1)[OF run(4)] using persist_again(2)[OF run(4), of other later] by auto
qed

section \<open>A world of closures\<close>

text \<open>One orchestration with its artifacts, one committed edit of a packet, one data run, and a workspace
  whose \<open>HEAD\<close> is the revision of the edit.\<close>

definition closing_git :: "string \<Rightarrow> string list \<Rightarrow> string result" where
  "closing_git ws args =
    (if args = [''rev-parse'', ''--show-toplevel''] then Inr ''/w''
     else if args = [''rev-parse'', ''--verify'', ''HEAD''] then Inr ''n''
     else if args = [''remote''] then Inr ''origin''
     else if args = [''remote'', ''get-url'', ''origin''] then Inr ''url''
     else Inr '''')"

definition closing_env :: closure_env where
  "closing_env =
    \<lparr>cn_edit = \<lparr>ee_validate_artifact = (\<lambda>_. Inr ()), ee_report_intact = (\<lambda>_ _. Inr ()),
        ee_ignored = (\<lambda>_ _. False), ee_git = \<lparr>gt_run = closing_git, gt_resolve = Inr, gt_is_dir = (\<lambda>_. True)\<rparr>\<rparr>,
     cn_tables = ascii_tables, cn_collation = (\<lambda>s. s)\<rparr>"

definition closing_artifact :: "string \<Rightarrow> pydict \<Rightarrow> artifact_row" where
  "closing_artifact i a =
    \<lparr>ar_artifact_id = i, ar_artifact_type = dget a ''artifact_type'', ar_schema_version = dget a ''schema_version'',
     ar_project_id = ''P'', ar_analysis_case_id = Some ''C'', ar_payload = a,
     ar_payload_digest = canonical_digest (PDict a)\<rparr>"

definition closing_artifacts :: "bool \<Rightarrow> artifact_row list" where
  "closing_artifacts v3 =
    [closing_artifact ''R'' demo_request_artifact, closing_artifact ''O'' demo_orchestration,
     closing_artifact ''T'' closed_test_plan, closing_artifact ''D'' closed_data_plan,
     closing_artifact ''B'' demo_rule_report, closing_artifact ''X'' (demo_data_result v3),
     closing_artifact ''U'' demo_ui_result]"

definition closing_packet :: packet_row where
  "closing_packet =
    \<lparr>pk_edit_packet_id = ''K'', pk_project_id = ''P'', pk_analysis_case_id = ''C'', pk_impact_report_id = ''I'',
     pk_confirmation_id = ''F'', pk_repository_id = ''G'', pk_repository_revision_id = ''V'',
     pk_base_repository_revision = ''b'', pk_status = ''superseded'', pk_editable_files = PStrs [''a.py''],
     pk_read_only_files = PList [], pk_test_files = PList [], pk_forbidden_globs = PList [],
     pk_allowed_items = PList [], pk_required_ui_scenario_refs = PList []\<rparr>"

definition closing_result :: edit_result_row where
  "closing_result =
    \<lparr>er_edit_result_id = ''E'', er_edit_packet_id = ''K'', er_project_id = ''P'', er_analysis_case_id = ''C'',
     er_approval_grant_id = ''Z'', er_validation_mode = ''committed'', er_status = ''in_scope'',
     er_base_repository_revision = ''b'', er_result_repository_revision = Some ''n'', er_path_changes = PList [],
     er_changed_paths = [''a.py''], er_out_of_scope_files = [], er_test_result_refs = [''x''],
     er_tests_passed = Some True, er_command_evidence_status = ''verified'',
     er_changed_line_coverage = demo_line_report, er_changed_line_coverage_status = PStr ''passed''\<rparr>"

definition closing_db :: "bool \<Rightarrow> closure_db" where
  "closing_db v3 =
    \<lparr>cb_edit = \<lparr>ed_artifacts = closing_artifacts v3,
        ed_cases = [\<lparr>ca_analysis_case_id = ''C'', ca_project_id = ''P'', ca_status = ''passed''\<rparr>],
        ed_repositories = [\<lparr>rp_repository_id = ''G'', rp_project_id = ''P'', rp_remote_url = ''url'',
           rp_workspace_root = Some ''/w''\<rparr>],
        ed_revisions = [], ed_graphs = [], ed_reports = [], ed_confirmations = [], ed_items = [],
        ed_profile_versions = [], ed_packets = [closing_packet], ed_grants = [], ed_events = [], ed_commands = [],
        ed_results = [closing_result]\<rparr>,
     cb_recorded_at = (\<lambda>_. 0), cb_artifact_created_at = (\<lambda>_. 0),
     cb_orchestrations = [\<lparr>oc_orchestration_id = ''O'', oc_change_request_id = ''R'', oc_project_id = ''P'',
        oc_analysis_case_id = ''C'', oc_impact_report_id = ''I'', oc_test_plan_id = ''T'',
        oc_test_data_plan_id = ''D'', oc_coverage_report_id = ''B''\<rparr>],
     cb_runs = [\<lparr>dn_run_id = ''Y'', dn_orchestration_id = ''O'', dn_project_id = ''P'',
        dn_result_artifact_id = Some ''X'', dn_started_at = 0\<rparr>],
     cb_closures = [], cb_drifts = []\<rparr>"

lemma closing_artifact_fields [simp]:
  "ar_artifact_id (closing_artifact i a) = i" "ar_payload (closing_artifact i a) = a"
  "ar_project_id (closing_artifact i a) = ''P''" "ar_analysis_case_id (closing_artifact i a) = Some ''C''"
  "ar_artifact_type (closing_artifact i a) = dget a ''artifact_type''"
  "ar_schema_version (closing_artifact i a) = dget a ''schema_version''"
  by (simp_all add: closing_artifact_def)

lemma closing_required:
  assumes "find (\<lambda>r. ar_artifact_id r = i) (closing_artifacts v3) = Some (closing_artifact i a)" "\<not> blank i"
    and "dindex a ''artifact_type'' = Inr (PStr ty)" "dindex a ''schema_version'' = Inr version"
    and "dget a ''project_id'' \<in> {PNone, PStr ''P''}" "dget a ''analysis_case_id'' \<in> {PNone, PStr ''C''}"
    and "ty \<noteq> ''ChangeClosureResult''"
  shows "required_artifact closing_env (closing_db v3) i ty = Inr a"
proof -
  have scopes: "scope_matches (dget a ''project_id'') (Some ''P'')" "scope_matches (dget a ''analysis_case_id'') (Some ''C'')"
    using assms(5,6) unfolding scope_matches_def by auto
  have "find_artifact (cb_edit (closing_db v3)) i = Some (closing_artifact i a)"
    using assms(1) by (simp add: find_artifact_def closing_db_def)
  then have "get_artifact (cn_edit closing_env) (cb_edit (closing_db v3)) i = Inr (Some a)"
    using assms(2) scopes unfolding get_artifact_def
    by (simp add: closing_artifact_def closing_env_def assms(3,4) dindex_dget[OF assms(3)] dindex_dget[OF assms(4)])
  then show ?thesis using assms(7) by (simp add: required_artifact_def dindex_dget[OF assms(3)])
qed

lemma closing_artifacts_required:
  "required_artifact closing_env (closing_db v3) ''R'' ''ChangeRequest'' = Inr demo_request_artifact"
  "required_artifact closing_env (closing_db v3) ''O'' ''ChangeOrchestrationPlan'' = Inr demo_orchestration"
  "required_artifact closing_env (closing_db v3) ''T'' ''TestPlan'' = Inr closed_test_plan"
  "required_artifact closing_env (closing_db v3) ''D'' ''TestDataPlan'' = Inr closed_data_plan"
  "required_artifact closing_env (closing_db v3) ''B'' ''BusinessCoverageReport'' = Inr demo_rule_report"
  "required_artifact closing_env (closing_db v3) ''X'' ''TestDataExecutionResult'' = Inr (demo_data_result v3)"
  "required_artifact closing_env (closing_db v3) ''U'' ''UiVerificationResult'' = Inr demo_ui_result"
  by (rule closing_required; simp add: closing_artifacts_def demo_closure_defs dindex_def)+

lemma closing_loaded:
  "load_evidence closing_env (closing_db v3) ''O'' = Inr \<lparr>cv_evidence = demo_closure True v3, cv_workspace_root = Some ''/w''\<rparr>"
proof -
  let ?o = "\<lparr>oc_orchestration_id = ''O'', oc_change_request_id = ''R'', oc_project_id = ''P'',
        oc_analysis_case_id = ''C'', oc_impact_report_id = ''I'', oc_test_plan_id = ''T'',
        oc_test_data_plan_id = ''D'', oc_coverage_report_id = ''B''\<rparr>"
  have o: "find_orchestration (closing_db v3) ''O'' = Some ?o" by (simp add: find_orchestration_def closing_db_def)
  have packet: "result_packet (closing_db v3) closing_result = Some closing_packet"
    by (simp add: result_packet_def closing_db_def closing_result_def closing_packet_def)
  have edit: "latest_edit_result closing_env (closing_db v3) ?o = Some closing_result"
    by (simp add: latest_edit_result_def latest_by_def result_of_orchestration_def packet)
      (simp add: closing_db_def closing_result_def closing_packet_def result_of_orchestration_def sort_key_def
        result_packet_def)
  have run: "data_artifact_id closing_env (closing_db v3) ?o = Some ''X''"
    by (simp add: data_artifact_id_def latest_by_def closing_db_def sort_key_def)
  have ui: "ui_artifact_id closing_env (closing_db v3) ?o ''X'' = Some ''U''"
    by (simp add: ui_artifact_id_def latest_by_def closing_db_def closing_artifacts_def demo_closure_defs sort_key_def)
  have ws: "registered_workspace (closing_db v3) closing_packet = Some ''/w''"
    by (simp add: registered_workspace_def closing_db_def closing_packet_def)
  have refs: "scenario_refs demo_ui_result = Inr [(''t'', [''t''])]"
    by (simp add: scenario_refs_def demo_ui_result_def index_items_def index_text_def dindex_def)
  show ?thesis
    by (simp add: load_evidence_def o edit packet run ui optional_artifact_def closing_artifacts_required refs ws)
      (simp add: demo_closure_def closing_env_def closing_packet_def edit_result_dict_def demo_edit_def closing_result_def)
qed

lemma closing_inspected:
  "\<exists>e. inspect_committed (ee_git (cn_edit closing_env)) ''/w'' ''b'' False = Inr e \<and> gd_result_sha e = Some ''n''"
proof -
  have "repository_root \<lparr>gt_run = closing_git, gt_resolve = Inr, gt_is_dir = (\<lambda>_. True)\<rparr> ''/w'' = Inr ''/w''" by code_simp
  moreover have "repository_identity \<lparr>gt_run = closing_git, gt_resolve = Inr, gt_is_dir = (\<lambda>_. True)\<rparr> ''/w'' = Inr ''url''" by code_simp
  moreover have "run_git \<lparr>gt_run = closing_git, gt_resolve = Inr, gt_is_dir = (\<lambda>_. True)\<rparr> ''/w'' [''rev-parse'', ''--verify'', ''HEAD''] = Inr ''n''"
    by code_simp
  moreover have "run_git \<lparr>gt_run = closing_git, gt_resolve = Inr, gt_is_dir = (\<lambda>_. True)\<rparr> ''/w''
      [''status'', ''--porcelain=v1'', ''--untracked-files=all''] = Inr ''''" by code_simp
  moreover have "run_git \<lparr>gt_run = closing_git, gt_resolve = Inr, gt_is_dir = (\<lambda>_. True)\<rparr> ''/w'' [''merge-base'', ''--is-ancestor'', ''b'', ''n''] = Inr ''''"
    by code_simp
  moreover have "rbind (closing_git ''/w'' [''diff'', ''--name-status'', ''-z'', ''--find-renames'', ''b'', ''n'']) parse_name_status
      = Inr []" by code_simp
  moreover have "changed_lines_between \<lparr>gt_run = closing_git, gt_resolve = Inr, gt_is_dir = (\<lambda>_. True)\<rparr> ''/w'' ''b'' (Some ''n'') (changed_paths_of []) = Inr []"
    by code_simp
  ultimately show ?thesis by (simp add: inspect_committed_def git_identity_def closing_env_def)
qed

lemma closing_workspace:
  "workspace_evidence_status closing_env \<lparr>cv_evidence = demo_closure True v3, cv_workspace_root = Some ''/w''\<rparr> = Inr (True, None)"
  using closing_inspected
  by (auto simp: workspace_evidence_status_def demo_closure_def demo_edit_def dindex_def py_or_def)

definition closing_identity :: "pydict \<Rightarrow> closure_identity" where
  "closing_identity a =
    \<lparr>cw_orchestration_id = ''O'', cw_change_request_id = ''R'', cw_project_id = ''P'', cw_analysis_case_id = ''C'',
     cw_edit_result_id = Some ''E'', cw_test_data_execution_result_id = Some ''X'',
     cw_ui_verification_result_id = Some ''U'', cw_coverage_report_id = ''B'',
     cw_component_digest = canonical_digest (PDict a), cw_status = ''passed'', cw_unresolved_items = [],
     cw_created_by = ''me''\<rparr>"

lemma closing_identified:
  assumes "closure_artifact ascii_tables (demo_closure True v3) (demo_verdict True v3) = Inr a"
  shows "closure_identity_of (demo_closure True v3) a ''me'' = Inr (closing_identity a)"
proof -
  have "index_text (PDict a) ''status'' = Inr ''passed''" "index_items (PDict a) ''unresolved_items'' = Inr []"
    using assms by (auto simp: closure_artifact_def demo_verdict_def index_text_def index_items_def dindex_def rbind_eq_Inr Let_def)
  then show ?thesis
    by (simp add: closure_identity_of_def closing_identity_def) (simp add: demo_closure_defs index_text_def dindex_def)
qed

lemma closing_stored:
  assumes "closure_artifact ascii_tables (demo_closure True v3) (demo_verdict True v3) = Inr a"
    and "dget a ''closure_result_id'' = PStr (''closure-'' @ i)"
  shows "store_artifact (cn_edit closing_env) (''closure-'' @ i) ''P'' ''C'' a (cb_edit (closing_db v3))
    = Inr ((cb_edit (closing_db v3))\<lparr>ed_artifacts := closing_artifacts v3 @ [closing_artifact (''closure-'' @ i) a]\<rparr>)"
proof -
  have a: "dget a ''project_id'' = PStr ''P''" "dget a ''analysis_case_id'' = PNone"
      "dindex a ''artifact_type'' = Inr (dget a ''artifact_type'')" "dindex a ''schema_version'' = Inr (dget a ''schema_version'')"
    using assms(1) by (auto simp: closure_artifact_def rbind_eq_Inr dindex_def dget_def Let_def demo_closure_def demo_request_artifact_def)
  have "find_artifact (cb_edit (closing_db v3)) (''closure-'' @ i) = None"
    by (simp add: find_artifact_def closing_db_def closing_artifacts_def)
  moreover have "find_case (cb_edit (closing_db v3)) ''C'' = Some \<lparr>ca_analysis_case_id = ''C'', ca_project_id = ''P'', ca_status = ''passed''\<rparr>"
    by (simp add: find_case_def closing_db_def)
  moreover have "ee_validate_artifact (cn_edit closing_env) a = Inr ()" by (simp add: closing_env_def)
  moreover have "ed_artifacts (cb_edit (closing_db v3)) = closing_artifacts v3" by (simp add: closing_db_def)
  ultimately show ?thesis using a by (simp add: store_artifact_def scope_matches_def closing_artifact_def)
qed

text \<open>The closure of the world: what is returned and what it leaves.\<close>

lemma closing_run:
  obtains a i db' rec where "close_change closing_env 5 ''O'' ''me'' (closing_db v3) = Inr (db', a, rec)"
    "closure_artifact ascii_tables (demo_closure True v3) (demo_verdict True v3) = Inr a"
    "db' = (closing_db v3)\<lparr>cb_edit := (cb_edit (closing_db v3))\<lparr>ed_artifacts :=
        closing_artifacts v3 @ [closing_artifact (''closure-'' @ i) a]\<rparr>,
      cb_closures := [closure_identity.extend (closing_identity a)
        \<lparr>cw_closure_result_id = ''closure-'' @ i, cw_created_at = 5\<rparr>]\<rparr>"
    "cc_closure_result_id rec = ''closure-'' @ i" "cc_created rec"
proof -
  obtain a where a: "closure_artifact ascii_tables (demo_closure True v3) (demo_verdict True v3) = Inr a"
      "evaluate_closure (\<lambda>_. Inr ()) ascii_tables (demo_closure True v3) = Inr a"
    by (rule demo_evaluated)
  obtain i where i: "dget a ''closure_result_id'' = PStr (''closure-'' @ i)" using closure_artifact_fields(7)[OF a(1)] by blast
  define k where "k = ''closure-'' @ i"
  let ?row = "closure_identity.extend (closing_identity a) \<lparr>cw_closure_result_id = k, cw_created_at = 5\<rparr>"
  let ?edit = "(cb_edit (closing_db v3))\<lparr>ed_artifacts := closing_artifacts v3 @ [closing_artifact k a]\<rparr>"
  let ?db = "(closing_db v3)\<lparr>cb_edit := ?edit, cb_closures := [?row]\<rparr>"
  let ?rec = "\<lparr>cc_closure_result_id = k, cc_status = ''passed'', cc_created_at = 5, cc_created = True\<rparr>"
  have id: "index_text (PDict a) ''closure_result_id'' = Inr k"
    using i by (auto simp: k_def index_text_def dindex_def dget_def split: option.splits)
  have stored: "store_artifact (cn_edit closing_env) k ''P'' ''C'' a (cb_edit (closing_db v3)) = Inr ?edit"
    using closing_stored[OF a(1) i] by (simp add: k_def)
  have "\<not> btrim_blank k" by (simp add: k_def btrim_blank_def)
  then have inserted: "insert_closure ?row ((closing_db v3)\<lparr>cb_edit := ?edit\<rparr>) = Inr (?db, True)"
    by (simp add: insert_closure_def closing_identity_def) (simp add: closing_db_def btrim_blank_def)
  have found: "find_closure ?db k = Some ?row" by (simp add: find_closure_def)
  have same: "identity_of_row ?row = closing_identity a" by (simp add: identity_of_row_def closing_identity_def closure_identity.defs)
  have fields: "cw_project_id (closing_identity a) = ''P''" "cw_analysis_case_id (closing_identity a) = ''C''"
      "cw_status (closing_identity a) = ''passed''" by (simp_all add: closing_identity_def)
  have recorded: "persist_closure closing_env 5 (demo_closure True v3) a ''me'' (closing_db v3) = Inr (?db, ?rec)"
    by (simp add: persist_closure_def closing_identified[OF a(1)] id stored fields inserted found same)
  have env: "ee_validate_artifact (cn_edit closing_env) = (\<lambda>_. Inr ())" "cn_tables closing_env = ascii_tables"
    by (simp_all add: closing_env_def)
  have unchanged: "(demo_closure True v3)\<lparr>cv_workspace_evidence_current := True, cv_workspace_evidence_reason := None\<rparr>
      = demo_closure True v3" by (simp add: demo_closure_def)
  have "close_change closing_env 5 ''O'' ''me'' (closing_db v3) = Inr (?db, a, ?rec)"
    by (simp add: close_change_def closing_loaded closing_workspace unchanged env a(2) recorded)
  then show ?thesis using that[OF _ a(1)] unfolding k_def by force
qed

lemma closing_status:
  assumes "closure_artifact ascii_tables (demo_closure True v3) (demo_verdict True v3) = Inr a"
  shows "dget a ''status'' = PStr ''passed''" "dget a ''schema_version'' = PStr (if v3 then ''v3'' else ''v2'')"
    "dget a ''artifact_type'' = PStr ''ChangeClosureResult''" "dget a ''project_id'' = PStr ''P''"
    "dget a ''analysis_case_id'' = PNone"
  using closure_artifact_fields(1-4)[OF assms] assms
  by (auto simp: demo_verdict_def demo_closure_defs is_v3_def closure_artifact_def rbind_eq_Inr Let_def dindex_def)

theorem passed_closure_rests_on_the_recorded_edit_witness:
  "\<exists>o' r p. find_orchestration (closing_db True) ''O'' = Some o' \<and> closure_basis closing_env (closing_db True) o' r p
    \<and> edit_stands closing_env (closing_db True) r p \<and> er_edit_result_id r = ''E''"
proof -
  obtain a i db' rec where run: "close_change closing_env 5 ''O'' ''me'' (closing_db True) = Inr (db', a, rec)"
      "closure_artifact ascii_tables (demo_closure True True) (demo_verdict True True) = Inr a"
    by (rule closing_run[of True]) blast
  obtain o' r p where basis: "find_orchestration (closing_db True) ''O'' = Some o'"
      "closure_basis closing_env (closing_db True) o' r p" "edit_stands closing_env (closing_db True) r p"
    using passed_closure_rests_on_the_recorded_edit[OF run(1) closing_status(1)[OF run(2)]] by blast
  have "r = closing_result" using basis(2) by (simp add: closure_basis_def closing_db_def)
  then have "er_edit_result_id r = ''E''" by (simp add: closing_result_def)
  then show ?thesis using basis by blast
qed

theorem v3_closure_cannot_be_read_back_witness:
  "\<exists>db' a rec e e'. close_change closing_env 5 ''O'' ''me'' (closing_db True) = Inr (db', a, rec)
    \<and> dget a ''status'' = PStr ''passed'' \<and> latest_closure_for_orchestration closing_env db' ''O'' = Inl e
    \<and> latest_closure closing_env db' ''R'' = Inl e'"
proof -
  obtain a i db' rec where run: "close_change closing_env 5 ''O'' ''me'' (closing_db True) = Inr (db', a, rec)"
      "closure_artifact ascii_tables (demo_closure True True) (demo_verdict True True) = Inr a"
      "db' = (closing_db True)\<lparr>cb_edit := (cb_edit (closing_db True))\<lparr>ed_artifacts :=
          closing_artifacts True @ [closing_artifact (''closure-'' @ i) a]\<rparr>,
        cb_closures := [closure_identity.extend (closing_identity a)
          \<lparr>cw_closure_result_id = ''closure-'' @ i, cw_created_at = 5\<rparr>]\<rparr>"
      "cc_closure_result_id rec = ''closure-'' @ i"
    by (rule closing_run[of True]) blast
  let ?row = "closure_identity.extend (closing_identity a) \<lparr>cw_closure_result_id = ''closure-'' @ i, cw_created_at = 5\<rparr>"
  have request: "cw_change_request_id ?row = ''R''" by (simp add: closing_identity_def closure_identity.defs)
  have latest: "latest_closure_row closing_env (\<lambda>r. cw_orchestration_id r = ''O'') db' = Some ?row"
      "latest_closure_row closing_env (\<lambda>r. cw_change_request_id r = ''R'') db' = Some ?row"
    using request by (simp_all add: run(3) latest_closure_row_def latest_by_def closing_identity_def sort_key_def)
  note raises = v3_closure_cannot_be_read_back[OF run(1) _ rtranclp.rtrancl_refl]
  have "\<exists>e. latest_closure_for_orchestration closing_env db' ''O'' = Inl e"
    using raises[of closing_env "''O''"] latest(1) closing_status(2)[OF run(2)] by (simp add: run(4))
  moreover have "\<exists>e. latest_closure closing_env db' ''R'' = Inl e"
    using raises[of closing_env "''R''"] latest(2) closing_status(2)[OF run(2)] by (simp add: run(4))
  ultimately show ?thesis using run(1) closing_status(1)[OF run(2)] by blast
qed

lemma closing_read_back:
  obtains a db' rec where "close_change closing_env 5 ''O'' ''me'' (closing_db False) = Inr (db', a, rec)"
    "latest_closure_for_orchestration closing_env db' ''O'' = Inr (Some a)" "dget a ''status'' = PStr ''passed''"
    "\<exists>row. latest_closure_row closing_env (\<lambda>r. cw_orchestration_id r = ''O'') db' = Some row
      \<and> cw_closure_result_id row = cc_closure_result_id rec"
proof -
  obtain a i db' rec where run: "close_change closing_env 5 ''O'' ''me'' (closing_db False) = Inr (db', a, rec)"
      "closure_artifact ascii_tables (demo_closure True False) (demo_verdict True False) = Inr a"
      "db' = (closing_db False)\<lparr>cb_edit := (cb_edit (closing_db False))\<lparr>ed_artifacts :=
          closing_artifacts False @ [closing_artifact (''closure-'' @ i) a]\<rparr>,
        cb_closures := [closure_identity.extend (closing_identity a)
          \<lparr>cw_closure_result_id = ''closure-'' @ i, cw_created_at = 5\<rparr>]\<rparr>"
      "cc_closure_result_id rec = ''closure-'' @ i"
    by (rule closing_run[of False]) blast
  let ?k = "''closure-'' @ i"
  note fields = closing_status[OF run(2)]
  have "dindex a ''artifact_type'' = Inr (PStr ''ChangeClosureResult'')" "dindex a ''schema_version'' = Inr (PStr ''v2'')"
    using fields(2,3) by (auto simp: dindex_def dget_def split: option.splits)
  moreover have "find_artifact (cb_edit db') ?k = Some (closing_artifact ?k a)"
    by (simp add: run(3) find_artifact_def closing_artifacts_def)
  moreover have "\<not> blank ?k" by simp
  ultimately have stored: "get_artifact (cn_edit closing_env) (cb_edit db') ?k = Inr (Some a)"
    using fields unfolding get_artifact_def by (simp add: scope_matches_def closing_env_def closing_artifact_def del: append_Cons)
  have drifts: "drift_reasons db' a ?k = []" by (simp add: drift_reasons_def run(3) closing_db_def)
  have "required_artifact closing_env db' ?k ''ChangeClosureResult'' = Inr a"
    using fields(2,3) unfolding required_artifact_def stored
    by (simp add: project_change_closure_result_def drifts del: append_Cons)
  moreover have latest: "latest_closure_row closing_env (\<lambda>r. cw_orchestration_id r = ''O'') db'
      = Some (closure_identity.extend (closing_identity a) \<lparr>cw_closure_result_id = ?k, cw_created_at = 5\<rparr>)"
    by (simp add: run(3) latest_closure_row_def latest_by_def closing_identity_def sort_key_def)
  ultimately have read: "latest_closure_for_orchestration closing_env db' ''O'' = Inr (Some a)"
    by (simp add: latest_closure_for_orchestration_def del: append_Cons)
  show ?thesis using that[OF run(1) read fields(1)] latest run(4) by auto
qed


theorem closure_read_as_passed_is_current_witness:
  "\<exists>db' a rec row. close_change closing_env 5 ''O'' ''me'' (closing_db False) = Inr (db', a, rec)
    \<and> latest_closure_for_orchestration closing_env db' ''O'' = Inr (Some a) \<and> row \<in> set (cb_closures db')
    \<and> get_artifact (cn_edit closing_env) (cb_edit db') (cw_closure_result_id row) = Inr (Some a)"
proof -
  obtain a db' rec where run: "close_change closing_env 5 ''O'' ''me'' (closing_db False) = Inr (db', a, rec)"
      "latest_closure_for_orchestration closing_env db' ''O'' = Inr (Some a)" "dget a ''status'' = PStr ''passed''"
    by (rule closing_read_back)
  then show ?thesis using closure_read_as_passed_is_current[OF run(2,3)] by blast
qed

theorem closing_again_changes_nothing_witness:
  "\<exists>db' a rec e. close_change closing_env 5 ''O'' ''me'' (closing_db False) = Inr (db', a, rec) \<and> cc_created rec
    \<and> close_change closing_env 6 ''O'' ''me'' db' = Inr (db', a, rec\<lparr>cc_created := False\<rparr>)
    \<and> close_change closing_env 6 ''O'' ''you'' db' = Inl e"
proof -
  obtain a i db' rec where run: "close_change closing_env 5 ''O'' ''me'' (closing_db False) = Inr (db', a, rec)" "cc_created rec"
    by (rule closing_run[of False]) blast
  then show ?thesis using closing_again_changes_nothing[OF run(1), of 6 "''you''"] by fastforce
qed

end
