(* ===== verification/Spec2Isabelle.thy ===== *)
theory Spec2Isabelle
  imports ChangeAutomation RunContext OrchestrationWorker TestDataCoverage Conventions CanonicalFacts StructuredChanges
    DocumentNodes DocumentRelations RagQueries EditSafety ClosureSafety
begin

text \<open>
  \<^bold>\<open>Verification of OperaMind\<close>

  OperaMind takes a change of a system from its documents to its code and back to evidence: documents are
  read into canonical facts, two snapshots are compared, the change is searched and related, an impact report
  is confirmed, an edit packet and an approval open a part of the code for one edit, the edit is recorded with
  its evidence, test data is generated and checked, and a closure judges everything together.  A state machine
  decides at each moment what the change needs next, and a ledger of tasks hands that work to workers.  This
  development models the core of each of these parts from the sources under \<open>src/operamind\<close> and proves what
  makes them correct.  All paths below are relative to it.

  \<^bold>\<open>The parts and their theories\<close>

  \<^item> \<open>PyBase\<close> is the prelude: the exceptions of Python as the left summand of a result threaded by \<open>rbind\<close>,
    the dynamic values \<open>pyval\<close> of JSON with their truth, equality, \<open>str\<close> and \<open>repr\<close>, text as UTF-8 bytes, floats
    as the rationals they denote with the rounding of the hardware written out, paths, and the lemmas on lists and
    maps the components share.  \<open>Messages\<close> and \<open>TaskMessages\<close> hold the literals of the program that are not ASCII.
  \<^item> \<open>CanonicalJson\<close> (\<open>run_context_values.py\<close>) has canonical JSON and SHA-256 on machine words.
  \<^item> \<open>ChangeAutomation\<close> (\<open>application/change_automation.py\<close>): the resolvers of the flow in their order, the
    validation of a decision, its projection and the stage tables.  The locale \<open>resolver_pipeline\<close> is the loop over
    the resolvers, interpreted on them.
  \<^item> \<open>Conventions\<close>, \<open>CanonicalFacts\<close>, \<open>StructuredChanges\<close>, \<open>DocumentNodes\<close>, \<open>DocumentRelations\<close>, \<open>RagQueries\<close>
    (\<open>domain/document_conventions.py\<close>, \<open>canonical_facts.py\<close>, \<open>structured_changes.py\<close>, \<open>document_nodes.py\<close>,
    \<open>document_relations.py\<close>, \<open>rag_query_plan.py\<close>, \<open>rag.py\<close>): the way of a document row to a fact, to a change, to
    nodes, relations and queries.  \<open>KeyedDelta\<close> states as the locale \<open>keyed_delta\<close> what a key by key difference
    promises; the snapshot difference interprets it.
  \<^item> \<open>RunContext\<close> (\<open>application/run_context.py\<close>): the execution order of flows, frozen data bindings and flow
    variables.  The locale \<open>write_once\<close> is interpreted on both stores.
  \<^item> \<open>TestDataCoverage\<close> (\<open>application/test_data_coverage.py\<close>): the alignment of a data plan with a test plan, the
    proofs of conditions at paths of a payload, and the gate on them.
  \<^item> \<open>OrchestrationTask\<close>, \<open>TaskLedger\<close>, \<open>TaskLedgerSafety\<close>, \<open>TaskLedgerLaws\<close>, \<open>OrchestrationWorker\<close>
    (\<open>application/orchestration_task.py\<close>, \<open>infrastructure/postgres/orchestration_task_repository.py\<close>,
    \<open>application/orchestration_worker.py\<close>): the task of a decision, the tables of tasks, claims and results with
    every operation that changes them, and the loop of a worker over any queue (locale \<open>worker_queue\<close>,
    interpreted on the ledger with other processes acting between any two calls).
  \<^item> \<open>GitEvidence\<close> and \<open>ChangeCoverage\<close> (\<open>infrastructure/code_graph/git.py\<close>, \<open>application/change_coverage.py\<close>): the
    output of Git as changes and changed lines, and the gate on the coverage of those lines.
  \<^item> \<open>EditPackets\<close>, \<open>ApprovalGrants\<close>, \<open>EditResults\<close> (\<open>application/edit_packet.py\<close>, \<open>approval_grant.py\<close>,
    \<open>edit_result.py\<close> and their repositories under \<open>infrastructure/postgres\<close>): the tables of the permission to edit,
    every check of their integrity, and what publishing, approving and recording do to them.  \<open>EditDemo\<close> is a
    small world on which they are evaluated, \<open>EditLaws\<close> and \<open>EditSafety\<close> hold their theorems.
  \<^item> \<open>ChangeClosure\<close>, \<open>ClosureRecords\<close>, \<open>ClosureSafety\<close> (\<open>application/change_closure.py\<close>,
    \<open>change_closure_service.py\<close>, \<open>infrastructure/postgres/change_closure_repository.py\<close>,
    \<open>contracts/compatibility.py\<close>): the verdict on a change, the loading of its evidence, the inspection of the
    workspace, the table of closures and the read model.  The locale \<open>immutable_store\<close> is interpreted on the
    artifact table.

  A record of a theory is the dataclass or the row of the table it is named after; a table is the list of its
  rows in insertion order; an operation takes the tables and returns an exception or the new tables with the
  value of the call.  A transaction that raises leaves the tables of its caller, because an exception carries
  none; where a committed part survives (the sweep of overdue leases) the model returns it explicitly.

  \<^bold>\<open>What the theorems say\<close>

  \<^item> The flow reports a change as completed exactly when all its gates hold, never skips one, and its decisions are
    always well-formed.  This theory composes that with the closure and the edit ledger: in every history of
    closings a completed change rests on a passed closing of an edit that was recorded, committed, tested and in
    scope, and clean in its workspace where one is registered.
  \<^item> A closure is passed exactly on complete evidence; it proves every test case; closing again changes nothing.
  \<^item> An edit recorded in scope changed only files of approved items; in every state reached by publishing packets
    and impact reports, issuing grants, appending events and recording results, a case has at most one active
    packet and a packet at most one grant, and the log of each grant is a lawful abstract life.
  \<^item> In every history of the ledger a task is leased exactly while it has one active claim, attempts and runs stay
    within their limits, a result is recorded once, only the holder of a live lease acts, and the commands refine
    an abstract life of a task; a worker reports only what it stored.
  \<^item> The test data gate, the changed-line gate and the condition proofs are tied to the observed values they
    stand for; the order of flows exists exactly for acyclic graphs; bindings and system variables are final.
  \<^item> Facts hold only observed values; a snapshot difference applies and reverts; nodes do not depend on the order
    of facts; the relation ledger misses nothing.
  \<^item> Some theorems state defects of the program as it is, each in a text of its own: a closure over v3 test data
    that cannot be read back, a failed verdict its table refuses, an approval without test files that can
    never be completed, an overdue lease that blocks its run, an oversized result that is lost.

  \<^bold>\<open>Parameters\<close>

  What the program calls but does not contain is an argument: the Unicode tables and float parsing of the
  interpreter (\<open>text_tables\<close>; \<open>relation_tables\<close> for the host check of a URL), the collation of the database
  (\<open>ledger_env\<close>, \<open>closure_env\<close>), the clock, random identifiers and tokens, JSON Schema validation,
  \<open>.gitignore\<close> matching, running Git and resolving paths (\<open>git_tools\<close>), the integrity check of an impact report and
  the active profile of a project.  No theorem assumes anything of them that its statement does not name.

  \<^bold>\<open>Bounds, fuel and termination\<close>

  Every function is total.  Structural recursion carries the rest; the loops that are not structural (UTF-8
  decoding, the bit length of an integer, the worklist of the topological order, the index normalisation of a
  path) have a \<open>termination\<close> proof by a measure, so no fuel is used.  The digits of \<open>repr\<close> of a float are searched up to the
  17 digits that always suffice.  SHA-256 works on 32-bit words that wrap around.

  \<^bold>\<open>Where the model is coarser than the program\<close>

  Transactions are atomic and serial: row locks, \<open>SKIP LOCKED\<close> and isolation anomalies are not modelled (the
  interleavings of the ledger are those of whole transactions).  Rows without \<open>ORDER BY\<close> come in table order.  \<open>jsonb\<close>
  keeps values as they are (its normal form of numbers and the NUL character are not modelled), and NaN and the
  infinities are not values.  Timestamps are parsed in the form \<open>isoformat\<close> writes, \<open>isdigit\<close> is that of ASCII, and a
  dict handed out by \<open>local_variables_for_flow\<close> is a copy.  Foreign keys whose targets an operation has just read
  are not checked again.

  \<^bold>\<open>Not modelled\<close>

  The web application (\<open>web/\<close>), the command line (\<open>commands/\<close>), the MCP server (\<open>mcp/\<close>), browser automation and embeddings are
  input and output around the parts above.  The analysers of \<open>infrastructure/code_graph\<close> other than Git walk the
  syntax trees of third-party parsers.  The remaining repositories under \<open>infrastructure/postgres\<close> (search index,
  code graph, copilot tasks, profiles, web control plane) are mostly SQL over full-text, vector and graph
  queries whose meaning is that of the database.  The control plane (\<open>application/web_control_plane.py\<close>,
  \<open>main_change_flow.py\<close>) assembles views for pages from the operations modelled here; the copilot tasks, document profile
  learning and test data executors drive external agents and browsers.
\<close>

section \<open>From the flow to the edit\<close>

lemma completed_closure_gate:
  assumes "flow_decide i = Inr d" "stage d = ''completed''"
  shows "closure_gate i"
  using assms early_not_completed[of d] document_decisions scope_decisions compile_decisions ui_closure_gate[of i d]
  by (auto simp: flow_decide_eq decide_change_automation_cases)

lemma read_artifact_is_closed:
  assumes "close_change env now i actor before = Inr (after, a, rec)"
    and "\<And>k s. dget a k = PStr s \<Longrightarrow> dget c k = PStr s" "dget c ''status'' = PStr t"
  shows "dget a ''status'' = PStr t"
proof -
  obtain e :: closure_evidence and current reason where run: "evaluate_closure (ee_validate_artifact (cn_edit env)) (cn_tables env)
       ((cv_evidence e)\<lparr>cv_workspace_evidence_current := current, cv_workspace_evidence_reason := reason\<rparr>) = Inr a"
    by (rule closed[OF assms(1)])
  obtain j :: closure_judgement where st: "dget a ''status'' = PStr (cl_status j)"
    by (rule evaluated[OF run(1)]) (use closure_artifact_fields(1) in blast)
  then show ?thesis using assms(2)[OF st] assms(3) by simp
qed

text \<open>(C2) A completed change rests on a recorded edit.  Take any state reached by closing changes, at any
  instants and in any environments, interleaved with any change of the other tables that keeps the stored
  artifacts.  When the flow decides that a change is completed, and the closure its execution view holds is the
  one read for an orchestration in that state, then that closure is the stored artifact of the latest closure
  row of the orchestration, of schema \<open>v2\<close>, without an open profile drift, and the row was recorded by a passed
  closing of an orchestration whose plan names that one.  At that closing the edit behind it was the latest of
  the orchestration's edits, committed, in scope, with passed tests and coverage; and if the repository of its
  packet had a registered, non-empty workspace root, that workspace was clean at the revision of the edit.\<close>

theorem completed_change_rests_on_a_recorded_edit:
  assumes "flow_decide i = Inr d" "stage d = ''completed''"
    and "dget (opt_dict (ci_execution i)) ''change_closure'' = PDict c"
    and "closure_reachable db" "latest_closure_for_orchestration env db k = Inr (Some c)"
  shows "dget c ''schema_version'' = PStr ''v2'' \<and> (\<exists>row env' now i' actor before after a rec plan o' r p.
      row \<in> set (cb_closures db) \<and> cw_orchestration_id row = k
    \<and> (\<forall>q\<in>set (cb_closures db). cw_orchestration_id q = k \<longrightarrow> cw_created_at q \<le> cw_created_at row)
    \<and> get_artifact (cn_edit env) (cb_edit db) (cw_closure_result_id row) = Inr (Some c)
    \<and> drift_reasons db c (cw_closure_result_id row) = []
    \<and> closure_reachable before \<and> close_change env' now i' actor before = Inr (after, a, rec)
    \<and> row \<in> set (cb_closures after) \<and> cc_closure_result_id rec = cw_closure_result_id row
    \<and> dget a ''status'' = PStr ''passed''
    \<and> required_artifact env' before i' ''ChangeOrchestrationPlan'' = Inr plan
    \<and> index_text (PDict plan) ''orchestration_id'' = Inr k
    \<and> find_orchestration before i' = Some o' \<and> closure_basis env' before o' r p \<and> edit_stands env' before r p)"
proof -
  have passed: "dget c ''status'' = PStr ''passed''"
    using completed_closure_gate[OF assms(1,2)] assms(3) by (simp add: closure_gate_def)
  obtain row where row: "row \<in> set (cb_closures db)" "cw_orchestration_id row = k"
      "\<forall>q\<in>set (cb_closures db). cw_orchestration_id q = k \<longrightarrow> cw_created_at q \<le> cw_created_at row"
      "get_artifact (cn_edit env) (cb_edit db) (cw_closure_result_id row) = Inr (Some c)"
      "dget c ''schema_version'' = PStr ''v2''" "drift_reasons db c (cw_closure_result_id row) = []"
    using closure_read_as_passed_is_current[OF assms(5) passed] by blast
  obtain env' now i' actor before after a rec plan stored where closing: "closure_reachable before"
      "close_change env' now i' actor before = Inr (after, a, rec)" "row \<in> set (cb_closures after)"
      "cw_closure_result_id row = cc_closure_result_id rec"
      "required_artifact env' before i' ''ChangeOrchestrationPlan'' = Inr plan"
      "index_text (PDict plan) ''orchestration_id'' = Inr (cw_orchestration_id row)"
      "find_artifact (cb_edit db) (cw_closure_result_id row) = Some stored"
      "\<forall>k s. dget a k = PStr s \<longrightarrow> dget (ar_payload stored) k = PStr s"
    using reachable_records[OF assms(4) row(1)] unfolding records_closing_def by blast
  have "c = ar_payload stored" using row(4) closing(7) by (auto simp: get_artifact_def rbind_eq_Inr split: if_splits)
  then have "dget a ''status'' = PStr ''passed''"
    using closing(8) passed by (intro read_artifact_is_closed[OF closing(2)]) auto
  moreover from passed_closure_edit[OF closing(2) this] obtain o' r p where
      "find_orchestration before i' = Some o'" "closure_basis env' before o' r p" "edit_stands env' before r p" .
  ultimately show ?thesis using row closing(1-6) by metis
qed

theorem completed_change_rests_on_a_recorded_edit_witness:
  "\<exists>db i d c. closure_reachable db \<and> flow_decide i = Inr d \<and> stage d = ''completed''
    \<and> latest_closure_for_orchestration closing_env db ''O'' = Inr (Some c)
    \<and> dget c ''schema_version'' = PStr ''v2'' \<and> (\<exists>env' before o' r p. closure_reachable before
        \<and> closure_basis env' before o' r p \<and> edit_stands env' before r p)"
proof -
  obtain a db' rec where run: "close_change closing_env 5 ''O'' ''me'' (closing_db False) = Inr (db', a, rec)"
      "latest_closure_for_orchestration closing_env db' ''O'' = Inr (Some a)" "dget a ''status'' = PStr ''passed''"
    by (rule closing_read_back)
  have "closure_reachable (closing_db False)" by (rule no_closures) (simp add: closing_db_def)
  then have reached: "closure_reachable db'" by (rule closure_more) (rule closing[OF run(1)])
  let ?i = "passing_inputs\<lparr>ci_execution := Some ((''change_closure'', PDict a) # the (ci_execution passing_inputs))\<rparr>"
  have gates: "document_gate ?i" "scope_gate ?i" "compile_gate ?i" "plan_gate ?i" "data_gate ?i" "closure_gate ?i"
    unfolding document_gate_def scope_gate_def compile_gate_def plan_gate_def data_gate_def closure_gate_def confirmed_def
      revision_pending_def has_identified_copilot_task_def Let_def
    by (simp_all add: passing_inputs_def py_eq_def run(3))
  then have "\<exists>d. flow_decide ?i = Inr d \<and> stage d = ''completed''"
    by (auto simp: flow_decide_eq decide_change_automation_cases ui_completes)
  then obtain d where d: "flow_decide ?i = Inr d" "stage d = ''completed''" by blast
  have "dget (opt_dict (ci_execution ?i)) ''change_closure'' = PDict a" by simp
  from completed_change_rests_on_a_recorded_edit[OF d this reached run(2)] show ?thesis using d reached run(2) by blast
qed

end
